(* ===== verification/Prelude.thy ===== *)
theory Prelude
  imports Main "HOL-Library.AList" "HOL-Library.Char_ord" "HOL-Library.List_Lexorder"
    "HOL-Library.Product_Lexorder"
begin

text \<open>
  The shared vocabulary of the development.

  \<^item> A Python method with side effects and exceptions is a \<open>proc\<close>: a function from the
    state to a result and the state it leaves behind. The state part is returned on both
    branches, because a Python exception does not undo the writes made before it was raised.
  \<^item> A Python \<open>dict\<close> is an association list in insertion order (\<open>dict_get\<close>, \<open>dict_put\<close>,
    \<open>dict_pop\<close>): an existing key keeps its position, a new one goes to the end.
  \<^item> \<open>keeps R m\<close> says that a procedure, however it ends, takes the state along \<open>R\<close>; the
    locale \<open>effect\<close> gives its composition rules for every reflexive and transitive \<open>R\<close>.
\<close>

named_theorems keeps_rules \<open>composition rules for effects of procedures\<close>
named_theorems dict_simps \<open>lookups after dictionary updates\<close>

section \<open>Procedures: state, result, exception\<close>

type_synonym ('s, 'e, 'a) proc = "'s \<Rightarrow> ('e + 'a) \<times> 's"

definition ret :: "'a \<Rightarrow> ('s, 'e, 'a) proc" where
  "ret x = (\<lambda>s. (Inr x, s))"

definition raise :: "'e \<Rightarrow> ('s, 'e, 'a) proc" where
  "raise e = (\<lambda>s. (Inl e, s))"

definition bnd :: "('s, 'e, 'a) proc \<Rightarrow> ('a \<Rightarrow> ('s, 'e, 'b) proc) \<Rightarrow> ('s, 'e, 'b) proc" where
  "bnd m f = (\<lambda>s. case m s of (Inl e, t) \<Rightarrow> (Inl e, t) | (Inr a, t) \<Rightarrow> f a t)"

definition andthen :: "('s, 'e, 'a) proc \<Rightarrow> ('s, 'e, 'b) proc \<Rightarrow> ('s, 'e, 'b) proc" where
  "andthen m n = bnd m (\<lambda>_. n)"

definition handle :: "('s, 'e, 'a) proc \<Rightarrow> ('e \<Rightarrow> ('s, 'e, 'a) proc) \<Rightarrow> ('s, 'e, 'a) proc" where
  "handle m h = (\<lambda>s. case m s of (Inl e, t) \<Rightarrow> h e t | (Inr a, t) \<Rightarrow> (Inr a, t))"

text \<open>\<open>tries m h k\<close> is Python's \<open>try: x = m / except: h / else: k x\<close>: only \<open>m\<close> is guarded.\<close>

definition tries :: "('s, 'e, 'a) proc \<Rightarrow> ('e \<Rightarrow> ('s, 'e, 'b) proc) \<Rightarrow> ('a \<Rightarrow> ('s, 'e, 'b) proc)
    \<Rightarrow> ('s, 'e, 'b) proc" where
  "tries m h k = (\<lambda>s. case m s of (Inl e, t) \<Rightarrow> h e t | (Inr a, t) \<Rightarrow> k a t)"

definition reads :: "('s \<Rightarrow> 'a) \<Rightarrow> ('s, 'e, 'a) proc" where
  "reads f = (\<lambda>s. (Inr (f s), s))"

definition writes :: "('s \<Rightarrow> 's) \<Rightarrow> ('s, 'e, unit) proc" where
  "writes f = (\<lambda>s. (Inr (), f s))"

lemma ret_run [simp]: "ret x s = (Inr x, s)"
  by (simp add: ret_def)

lemma raise_run [simp]: "raise e s = (Inl e, s)"
  by (simp add: raise_def)

lemma bnd_run [simp]:
  "bnd m f s = (case m s of (Inl e, t) \<Rightarrow> (Inl e, t) | (Inr a, t) \<Rightarrow> f a t)"
  by (simp add: bnd_def)

lemma andthen_run [simp]:
  "andthen m n s = (case m s of (Inl e, t) \<Rightarrow> (Inl e, t) | (Inr a, t) \<Rightarrow> n t)"
  by (simp add: andthen_def)

lemma handle_run [simp]:
  "handle m h s = (case m s of (Inl e, t) \<Rightarrow> h e t | (Inr a, t) \<Rightarrow> (Inr a, t))"
  by (simp add: handle_def)

lemma tries_run [simp]:
  "tries m h k s = (case m s of (Inl e, t) \<Rightarrow> h e t | (Inr a, t) \<Rightarrow> k a t)"
  by (simp add: tries_def)

lemma reads_run [simp]: "reads f s = (Inr (f s), s)"
  by (simp add: reads_def)

lemma writes_run [simp]: "writes f s = (Inr (), f s)"
  by (simp add: writes_def)

lemma bnd_tries: "bnd m f = tries m raise f"
  by (rule ext) (simp split: prod.splits sum.splits)

lemma handle_tries: "handle m h = tries m h ret"
  by (rule ext) (simp split: prod.splits sum.splits)

lemma bnd_Inr: "bnd m f s = (Inr b, u) \<longleftrightarrow> (\<exists>a t. m s = (Inr a, t) \<and> f a t = (Inr b, u))"
  by (auto split: prod.splits sum.splits)

lemma andthen_Inr: "andthen m n s = (Inr b, u) \<longleftrightarrow> (\<exists>a t. m s = (Inr a, t) \<and> n t = (Inr b, u))"
  by (auto split: prod.splits sum.splits)

text \<open>The same for a computation without state.\<close>

definition sbind :: "'e + 'a \<Rightarrow> ('a \<Rightarrow> 'e + 'b) \<Rightarrow> 'e + 'b" where
  "sbind m f = (case m of Inl e \<Rightarrow> Inl e | Inr a \<Rightarrow> f a)"

lemma sbind_simps [simp]: "sbind (Inl e) f = Inl e" "sbind (Inr a) f = f a"
  by (simp_all add: sbind_def)

lemma sbind_Inr: "sbind m f = Inr b \<longleftrightarrow> (\<exists>a. m = Inr a \<and> f a = Inr b)"
  by (cases m) simp_all

definition lift_sum :: "'e + 'a \<Rightarrow> ('s, 'e, 'a) proc" where
  "lift_sum r = (\<lambda>s. (r, s))"

lemma lift_sum_run [simp]: "lift_sum r s = (r, s)"
  by (simp add: lift_sum_def)

section \<open>Effects of procedures\<close>

definition keeps :: "('s \<Rightarrow> 's \<Rightarrow> bool) \<Rightarrow> ('s, 'e, 'a) proc \<Rightarrow> bool" where
  "keeps R m \<longleftrightarrow> (\<forall>s. R s (snd (m s)))"

lemma keepsI: "(\<And>s. R s (snd (m s))) \<Longrightarrow> keeps R m"
  by (simp add: keeps_def)

lemma keepsD: "keeps R m \<Longrightarrow> m s = (r, t) \<Longrightarrow> R s t"
  by (metis keeps_def snd_conv)

text \<open>
  \<open>triple R P m Q E\<close>: started where \<open>P\<close> holds, \<open>m\<close> takes the state along \<open>R\<close> and ends in \<open>Q\<close>
  with its result or in \<open>E\<close> with its exception.
\<close>

definition triple :: "('s \<Rightarrow> 's \<Rightarrow> bool) \<Rightarrow> ('s \<Rightarrow> bool) \<Rightarrow> ('s, 'e, 'a) proc
    \<Rightarrow> ('a \<Rightarrow> 's \<Rightarrow> bool) \<Rightarrow> ('e \<Rightarrow> 's \<Rightarrow> bool) \<Rightarrow> bool" where
  "triple R P m Q E \<longleftrightarrow> (\<forall>s r t. P s \<longrightarrow> m s = (r, t) \<longrightarrow>
     R s t \<and> (\<forall>a. r = Inr a \<longrightarrow> Q a t) \<and> (\<forall>e. r = Inl e \<longrightarrow> E e t))"

definition stable :: "('s \<Rightarrow> 's \<Rightarrow> bool) \<Rightarrow> ('s \<Rightarrow> bool) \<Rightarrow> bool" where
  "stable R P \<longleftrightarrow> (\<forall>s t. P s \<longrightarrow> R s t \<longrightarrow> P t)"

lemma tripleI:
  "(\<And>s r t. \<lbrakk>P s; m s = (r, t)\<rbrakk> \<Longrightarrow> R s t \<and> (\<forall>a. r = Inr a \<longrightarrow> Q a t) \<and> (\<forall>e. r = Inl e \<longrightarrow> E e t))
    \<Longrightarrow> triple R P m Q E"
  by (simp add: triple_def)

lemma tripleD:
  "\<lbrakk>triple R P m Q E; P s; m s = (r, t)\<rbrakk>
    \<Longrightarrow> R s t \<and> (\<forall>a. r = Inr a \<longrightarrow> Q a t) \<and> (\<forall>e. r = Inl e \<longrightarrow> E e t)"
  unfolding triple_def by blast

lemma triple_keeps: "triple R (\<lambda>_. True) m Q E \<Longrightarrow> keeps R m"
  unfolding triple_def keeps_def by (metis prod.collapse)

lemma triple_conseq:
  "\<lbrakk>triple R P' m Q' E'; \<And>s. P s \<Longrightarrow> P' s; \<And>a s. Q' a s \<Longrightarrow> Q a s; \<And>e s. E' e s \<Longrightarrow> E e s\<rbrakk>
    \<Longrightarrow> triple R P m Q E"
  unfolding triple_def by blast

lemma keeps_stable: "\<lbrakk>keeps R m; stable R P\<rbrakk> \<Longrightarrow> triple R P m (\<lambda>_. P) (\<lambda>_. P)"
  unfolding triple_def keeps_def stable_def by (metis snd_conv)

lemma triple_frame:
  assumes "triple R P m Q E" and "\<And>s. K s \<Longrightarrow> K (snd (m s))"
  shows "triple R (\<lambda>s. P s \<and> K s) m (\<lambda>a s. Q a s \<and> K s) (\<lambda>e s. E e s \<and> K s)"
  using assms unfolding triple_def by (metis snd_conv)

lemma triple_pure: "(C \<Longrightarrow> triple R P m Q E) \<Longrightarrow> triple R (\<lambda>s. P s \<and> C) m Q E"
  unfolding triple_def by blast

lemma triple_if:
  "\<lbrakk>b \<Longrightarrow> triple R P m Q E; \<not> b \<Longrightarrow> triple R P n Q E\<rbrakk> \<Longrightarrow> triple R P (if b then m else n) Q E"
  by simp

lemma keeps_if [keeps_rules]: "\<lbrakk>b \<Longrightarrow> keeps R m; \<not> b \<Longrightarrow> keeps R n\<rbrakk> \<Longrightarrow> keeps R (if b then m else n)"
  by simp

lemma keeps_case_option [keeps_rules]:
  "\<lbrakk>x = None \<Longrightarrow> keeps R m; \<And>a. x = Some a \<Longrightarrow> keeps R (f a)\<rbrakk>
    \<Longrightarrow> keeps R (case x of None \<Rightarrow> m | Some a \<Rightarrow> f a)"
  by (cases x) simp_all

lemma keeps_let [keeps_rules]: "keeps R (f x) \<Longrightarrow> keeps R (let y = x in f y)"
  by simp

locale effect =
  fixes R :: "'s \<Rightarrow> 's \<Rightarrow> bool"
  assumes refl: "R s s"
    and trans: "\<lbrakk>R s t; R t u\<rbrakk> \<Longrightarrow> R s u"
begin

lemma keeps_ret: "keeps R (ret x)"
  by (simp add: keeps_def refl)

lemma keeps_raise: "keeps R (raise e)"
  by (simp add: keeps_def refl)

lemma keeps_reads: "keeps R (reads f)"
  by (simp add: keeps_def refl)

lemma keeps_tries:
  assumes m: "keeps R m" and h: "\<And>e. keeps R (h e)" and k: "\<And>a. keeps R (k a)"
  shows "keeps R (tries m h k)"
proof (rule keepsI)
  fix s
  obtain r t where mt: "m s = (r, t)" by (cases "m s")
  have st: "R s t" using m mt by (rule keepsD)
  show "R s (snd (tries m h k s))"
  proof (cases r)
    case (Inl e)
    have "R t (snd (h e t))" using h[of e] by (simp add: keeps_def)
    with st have "R s (snd (h e t))" by (rule trans)
    then show ?thesis using mt Inl by simp
  next
    case (Inr a)
    have "R t (snd (k a t))" using k[of a] by (simp add: keeps_def)
    with st have "R s (snd (k a t))" by (rule trans)
    then show ?thesis using mt Inr by simp
  qed
qed

lemma keeps_bnd: "\<lbrakk>keeps R m; \<And>a. keeps R (f a)\<rbrakk> \<Longrightarrow> keeps R (bnd m f)"
  unfolding bnd_tries by (rule keeps_tries) (auto intro: keeps_raise)

lemma keeps_andthen: "\<lbrakk>keeps R m; keeps R n\<rbrakk> \<Longrightarrow> keeps R (andthen m n)"
  unfolding andthen_def by (rule keeps_bnd)

lemma keeps_handle: "\<lbrakk>keeps R m; \<And>e. keeps R (h e)\<rbrakk> \<Longrightarrow> keeps R (handle m h)"
  unfolding handle_tries by (rule keeps_tries) (auto intro: keeps_ret)

lemma keeps_writes: "(\<And>s. R s (f s)) \<Longrightarrow> keeps R (writes f)"
  by (simp add: keeps_def)

lemma triple_tries:
  assumes m: "triple R P m Q' E'" and h: "\<And>e. triple R (E' e) (h e) Q E"
    and k: "\<And>a. triple R (Q' a) (k a) Q E"
  shows "triple R P (tries m h k) Q E"
proof (rule tripleI)
  fix s r u assume "P s" and run: "tries m h k s = (r, u)"
  obtain q t where mt: "m s = (q, t)" by (cases "m s")
  note post = tripleD[OF m \<open>P s\<close> mt]
  have "R t u \<and> (\<forall>a. r = Inr a \<longrightarrow> Q a u) \<and> (\<forall>e. r = Inl e \<longrightarrow> E e u)"
  proof (cases q)
    case (Inl e)
    with post have "E' e t" by simp
    then show ?thesis by (rule tripleD[OF h]) (use run mt Inl in simp)
  next
    case (Inr a)
    with post have "Q' a t" by simp
    then show ?thesis by (rule tripleD[OF k]) (use run mt Inr in simp)
  qed
  with post show "R s u \<and> (\<forall>a. r = Inr a \<longrightarrow> Q a u) \<and> (\<forall>e. r = Inl e \<longrightarrow> E e u)"
    by (blast intro: trans)
qed

lemma triple_ret: "(\<And>s. P s \<Longrightarrow> Q x s) \<Longrightarrow> triple R P (ret x) Q E"
  by (simp add: triple_def refl)

lemma triple_raise: "(\<And>s. P s \<Longrightarrow> E e s) \<Longrightarrow> triple R P (raise e) Q E"
  by (simp add: triple_def refl)

lemma triple_reads: "(\<And>s. P s \<Longrightarrow> Q (f s) s) \<Longrightarrow> triple R P (reads f) Q E"
  by (simp add: triple_def refl)

lemma triple_bnd:
  "\<lbrakk>triple R P m Q' E; \<And>a. triple R (Q' a) (f a) Q E\<rbrakk> \<Longrightarrow> triple R P (bnd m f) Q E"
  unfolding bnd_tries by (rule triple_tries) (auto intro: triple_raise)

lemma triple_andthen:
  "\<lbrakk>triple R P m (\<lambda>_. Q') E; triple R Q' n Q E\<rbrakk> \<Longrightarrow> triple R P (andthen m n) Q E"
  unfolding andthen_def by (rule triple_bnd)

lemma triple_handle:
  "\<lbrakk>triple R P m Q E'; \<And>e. triple R (E' e) (h e) Q E\<rbrakk> \<Longrightarrow> triple R P (handle m h) Q E"
  unfolding handle_tries by (rule triple_tries) (auto intro: triple_ret)

lemmas keeps_all = keeps_ret keeps_raise keeps_reads keeps_bnd keeps_andthen keeps_handle keeps_tries

end

text \<open>No restriction on the effect: only the conditions of a \<open>triple\<close> matter.\<close>

interpretation any: effect "\<lambda>s t :: 's. True"
  by unfold_locales simp_all

text \<open>The effect most claims need: a part of the state is left as it was.\<close>

definition unchanged :: "('s \<Rightarrow> 'd) \<Rightarrow> 's \<Rightarrow> 's \<Rightarrow> bool" where
  "unchanged stored s t \<longleftrightarrow> stored t = stored s"

interpretation unchanged: effect "unchanged stored" for stored
  by unfold_locales (simp_all add: unchanged_def)

section \<open>Dictionaries in insertion order\<close>

type_synonym ('k, 'v) dict = "('k \<times> 'v) list"

definition dict_get :: "('k, 'v) dict \<Rightarrow> 'k \<Rightarrow> 'v option" where
  "dict_get d k = map_of d k"

definition dict_put :: "'k \<Rightarrow> 'v \<Rightarrow> ('k, 'v) dict \<Rightarrow> ('k, 'v) dict" where
  "dict_put k v d = AList.update k v d"

definition dict_pop :: "'k \<Rightarrow> ('k, 'v) dict \<Rightarrow> ('k, 'v) dict" where
  "dict_pop k d = AList.delete k d"

definition dict_keys :: "('k, 'v) dict \<Rightarrow> 'k list" where
  "dict_keys d = map fst d"

definition dict_ok :: "('k, 'v) dict \<Rightarrow> bool" where
  "dict_ok d = distinct (map fst d)"

lemma dict_get_put [simp, dict_simps]:
  "dict_get (dict_put k v d) j = (if j = k then Some v else dict_get d j)"
  by (simp add: dict_get_def dict_put_def update_conv')

lemma dict_get_pop [simp, dict_simps]:
  "dict_get (dict_pop k d) j = (if j = k then None else dict_get d j)"
  by (simp add: dict_get_def dict_pop_def delete_conv')

lemma dict_get_Nil [simp, dict_simps]: "dict_get [] k = None"
  by (simp add: dict_get_def)

lemma dict_ok_put [simp]: "dict_ok d \<Longrightarrow> dict_ok (dict_put k v d)"
  by (simp add: dict_ok_def dict_put_def distinct_update)

lemma dict_ok_pop [simp]: "dict_ok d \<Longrightarrow> dict_ok (dict_pop k d)"
  by (simp add: dict_ok_def dict_pop_def distinct_delete)

lemma dict_ok_Nil [simp]: "dict_ok []"
  by (simp add: dict_ok_def)

lemma dict_get_mem: "dict_get d k = Some v \<Longrightarrow> (k, v) \<in> set d"
  by (simp add: dict_get_def map_of_SomeD)

lemma dict_mem_get: "dict_ok d \<Longrightarrow> (k, v) \<in> set d \<Longrightarrow> dict_get d k = Some v"
  by (simp add: dict_get_def dict_ok_def)

lemma dict_mem_iff: "dict_ok d \<Longrightarrow> (k, v) \<in> set d \<longleftrightarrow> dict_get d k = Some v"
  by (auto dest: dict_get_mem dict_mem_get)

lemma dict_put_set: "dict_ok d \<Longrightarrow> set (dict_put k v d) = {(k', v') \<in> set d. k' \<noteq> k} \<union> {(k, v)}"
proof (induction d)
  case Nil
  then show ?case by (simp add: dict_put_def)
next
  case (Cons x d)
  then show ?case by (cases x) (auto simp: dict_put_def dict_ok_def image_iff)
qed

lemma dict_pop_set: "set (dict_pop k d) = {(k', v') \<in> set d. k' \<noteq> k}"
  by (induction d) (auto simp: dict_pop_def AList.delete_eq)

section \<open>Python strings and integers\<close>

definition starts_with :: "string \<Rightarrow> string \<Rightarrow> bool" where
  "starts_with pre s = (take (length pre) s = pre)"

definition ends_with :: "string \<Rightarrow> string \<Rightarrow> bool" where
  "ends_with suf s = (length suf \<le> length s \<and> drop (length s - length suf) s = suf)"

definition char_code :: "char \<Rightarrow> nat" where
  "char_code c = of_char c"

definition is_digit :: "char \<Rightarrow> bool" where
  "is_digit c = (48 \<le> char_code c \<and> char_code c \<le> 57)"

definition is_space :: "char \<Rightarrow> bool" where
  "is_space c = ((9 \<le> char_code c \<and> char_code c \<le> 13) \<or> (28 \<le> char_code c \<and> char_code c \<le> 32)
     \<or> char_code c \<in> {133, 160})"

definition is_lower_ascii :: "char \<Rightarrow> bool" where
  "is_lower_ascii c = (97 \<le> char_code c \<and> char_code c \<le> 122)"

definition to_lower_char :: "char \<Rightarrow> char" where
  "to_lower_char c =
     (if (65 \<le> char_code c \<and> char_code c \<le> 90) \<or> (192 \<le> char_code c \<and> char_code c \<le> 222 \<and> char_code c \<noteq> 215)
      then char_of (char_code c + 32) else c)"

definition to_lower :: "string \<Rightarrow> string" where
  "to_lower s = map to_lower_char s"

definition strip :: "string \<Rightarrow> string" where
  "strip s = rev (dropWhile is_space (rev (dropWhile is_space s)))"

text \<open>
  The digits of an integer literal as \<open>int()\<close> reads them: decimal digits, single underscores
  allowed between two digits. The flag says whether the character before was a digit.
\<close>

fun digits_value :: "bool \<Rightarrow> int \<Rightarrow> string \<Rightarrow> int option" where
  "digits_value prev acc [] = (if prev then Some acc else None)"
| "digits_value prev acc (c # cs) =
     (if is_digit c then digits_value True (10 * acc + int (char_code c - 48)) cs
      else if c = CHR ''_'' \<and> prev then digits_value False acc cs
      else None)"

definition py_int :: "string \<Rightarrow> int option" where
  "py_int s =
     (case strip s of
        [] \<Rightarrow> None
      | c # cs \<Rightarrow>
          if c = CHR ''-'' then map_option uminus (digits_value False 0 cs)
          else if c = CHR ''+'' then digits_value False 0 cs
          else digits_value False 0 (c # cs))"

text \<open>
  \<open>str.isdigit()\<close> also accepts the superscript digits of Latin-1, which \<open>int()\<close> refuses.
\<close>

definition py_isdigit_char :: "char \<Rightarrow> bool" where
  "py_isdigit_char c = (is_digit c \<or> char_code c \<in> {178, 179, 185})"

definition py_isdigit :: "string \<Rightarrow> bool" where
  "py_isdigit s = (s \<noteq> [] \<and> list_all py_isdigit_char s)"

definition digit_char :: "nat \<Rightarrow> char" where
  "digit_char n = char_of (48 + n)"

fun show_nat :: "nat \<Rightarrow> string" where
  "show_nat n = (if n < 10 then [digit_char n] else show_nat (n div 10) @ [digit_char (n mod 10)])"

declare show_nat.simps [simp del]

fun split_on :: "char \<Rightarrow> string \<Rightarrow> string list" where
  "split_on c [] = [[]]"
| "split_on c (x # xs) = (if x = c then [] # split_on c xs
     else case split_on c xs of [] \<Rightarrow> [[x]] | p # ps \<Rightarrow> (x # p) # ps)"

lemma split_on_nomark: "c \<notin> set s \<Longrightarrow> split_on c s = [s]"
  by (induction s) auto

lemma split_on_cut: "c \<notin> set pre \<Longrightarrow> split_on c (pre @ c # s) = pre # split_on c s"
  by (induction pre) auto

text \<open>The slice \<open>s[len(pre):-len(suf)]\<close> for non-empty \<open>suf\<close>.\<close>

definition between :: "string \<Rightarrow> string \<Rightarrow> string \<Rightarrow> string" where
  "between pre suf s = take (length s - length suf - length pre) (drop (length pre) s)"

lemma between_append [simp]: "between pre suf (pre @ t @ suf) = t"
  by (simp add: between_def)

lemma between_split:
  assumes "starts_with pre s" "ends_with suf s" "between pre suf s \<noteq> []"
  shows "s = pre @ between pre suf s @ suf"
proof -
  let ?k = "length s - length suf - length pre"
  have k: "0 < ?k" using assms(3) by (cases "?k") (simp_all add: between_def)
  have "s = take (length pre) s @ take ?k (drop (length pre) s) @ drop ?k (drop (length pre) s)"
    by (simp only: append_take_drop_id)
  moreover have "drop ?k (drop (length pre) s) = drop (length s - length suf) s"
    using k by (simp add: add.commute)
  ultimately show ?thesis
    using assms(1,2) by (simp add: starts_with_def ends_with_def between_def)
qed

lemma starts_with_append [simp]: "starts_with p (p @ s)"
  by (simp add: starts_with_def)

lemma ends_with_append [simp]: "ends_with q (s @ q)" "ends_with q (r @ s @ q)"
  using append_assoc[of r s q] by (simp_all add: ends_with_def)

section \<open>Decimal printing and parsing\<close>

lemma char_code_digit: "n < 10 \<Longrightarrow> char_code (digit_char n) = 48 + n"
  by (simp add: char_code_def digit_char_def)

lemma is_digit_digit [simp]: "n < 10 \<Longrightarrow> is_digit (digit_char n)"
  by (simp add: is_digit_def char_code_digit)

lemma show_nat_digits: "list_all is_digit (show_nat n)"
  by (induction n rule: show_nat.induct) (subst show_nat.simps, simp)

lemma show_nat_nonempty [simp]: "show_nat n \<noteq> []"
  by (subst show_nat.simps) simp

lemma digits_value_True:
  "list_all is_digit xs \<Longrightarrow> digits_value True acc (xs @ ys)
     = digits_value True (foldl (\<lambda>a c. 10 * a + int (char_code c - 48)) acc xs) ys"
  by (induction xs arbitrary: acc) simp_all

lemma digits_value_append:
  "\<lbrakk>list_all is_digit xs; xs \<noteq> []\<rbrakk> \<Longrightarrow> digits_value p acc (xs @ ys)
     = digits_value True (foldl (\<lambda>a c. 10 * a + int (char_code c - 48)) acc xs) ys"
  by (cases xs) (simp_all add: digits_value_True)

lemma show_nat_value: "foldl (\<lambda>a c. 10 * a + int (char_code c - 48)) 0 (show_nat n) = int n"
proof (induction n rule: show_nat.induct)
  case (1 n)
  show ?case
  proof (cases "n < 10")
    case True
    then show ?thesis by (subst show_nat.simps) (simp add: char_code_digit)
  next
    case False
    with 1 show ?thesis
      by (subst show_nat.simps) (simp add: char_code_digit zdiv_int zmod_int)
  qed
qed

lemma digit_not_space: "is_digit c \<Longrightarrow> \<not> is_space c"
  by (auto simp: is_digit_def is_space_def)

lemma strip_digits: "list_all is_digit s \<Longrightarrow> strip s = s"
proof -
  assume s: "list_all is_digit s"
  have no: "dropWhile is_space t = t" if "list_all is_digit t" for t
    using that by (cases t) (auto simp: digit_not_space)
  have "list_all is_digit (rev s)" using s by simp
  with no s show ?thesis by (simp add: strip_def)
qed

lemma py_int_show_nat [simp]: "py_int (show_nat n) = Some (int n)"
proof -
  have s: "strip (show_nat n) = show_nat n" by (rule strip_digits[OF show_nat_digits])
  obtain c cs where c: "show_nat n = c # cs" by (cases "show_nat n") simp_all
  then have "is_digit c" using show_nat_digits[of n] by simp
  then have "c \<noteq> CHR ''-''" "c \<noteq> CHR ''+''" by (auto simp: is_digit_def char_code_def)
  moreover have "digits_value False 0 (show_nat n @ []) = Some (int n)"
    by (subst digits_value_append) (simp_all add: show_nat_digits show_nat_value)
  ultimately show ?thesis using s c by (simp add: py_int_def)
qed

lemma py_isdigit_show_nat [simp]: "py_isdigit (show_nat n)"
  using show_nat_digits[of n] by (auto simp: py_isdigit_def py_isdigit_char_def list_all_iff)

lemma py_digit_not_space: "py_isdigit_char c \<Longrightarrow> \<not> is_space c \<and> c \<noteq> CHR ''_'' \<and> c \<noteq> CHR ''-'' \<and> c \<noteq> CHR ''+''"
  by (auto simp: py_isdigit_char_def is_digit_def is_space_def char_code_def)

lemma digits_value_py:
  "list_all py_isdigit_char s \<Longrightarrow>
     digits_value p acc s = None \<longleftrightarrow> \<not> list_all is_digit s \<or> (s = [] \<and> \<not> p)"
proof (induction s arbitrary: p acc)
  case (Cons c s)
  then show ?case using py_digit_not_space[of c] by simp
qed simp

text \<open>Among the strings \<open>isdigit\<close> accepts, \<open>int\<close> refuses exactly those with a superscript digit.\<close>

lemma py_int_isdigit:
  assumes "py_isdigit s" shows "py_int s = None \<longleftrightarrow> \<not> list_all is_digit s"
proof -
  have d: "list_all py_isdigit_char s" and ne: "s \<noteq> []" using assms by (simp_all add: py_isdigit_def)
  have no: "dropWhile is_space t = t" if "list_all py_isdigit_char t" for t
    using that by (cases t) (auto simp: py_digit_not_space)
  have "list_all py_isdigit_char (rev s)" using d by simp
  with no d have strip: "strip s = s" by (simp add: strip_def)
  obtain c cs where s: "s = c # cs" using ne by (cases s) simp_all
  have "py_isdigit_char c" using d s by simp
  then have "py_int s = digits_value False 0 s"
    using strip s py_digit_not_space by (simp add: py_int_def)
  then show ?thesis using digits_value_py[OF d] ne by simp
qed

end
