(* ===== verification/CP_Records.thy ===== *)
theory CP_Records
  imports Prelude
begin

text \<open>
  The record shapes of the control plane (\<open>backend/control_plane/records.py\<close>,
  \<open>backend/shared/secrets.py\<close>) and the frozen audit vocabulary
  (\<open>backend/control_plane/events.py\<close>). Enumerations are datatypes with the source's
  constructors; \<open>lifecycle_value\<close> and its kin are the \<open>.value\<close> strings that reach the audit
  trail and the wire. Timestamps are the strings \<open>now_iso()\<close> returns.
\<close>

section \<open>Secret references\<close>

record secret_ref =
  store_ref :: string
  ref_version :: string

section \<open>Tenant lifecycle\<close>

datatype lifecycle_state =
    Registered | Provisioning | Verifying | Ready | Suspended | Failed | Quarantined | Decommissioned

definition lifecycle_value :: "lifecycle_state \<Rightarrow> string" where
  "lifecycle_value st = (case st of
      Registered \<Rightarrow> ''Registered''
    | Provisioning \<Rightarrow> ''Provisioning''
    | Verifying \<Rightarrow> ''Verifying''
    | Ready \<Rightarrow> ''Ready''
    | Suspended \<Rightarrow> ''Suspended''
    | Failed \<Rightarrow> ''Failed''
    | Quarantined \<Rightarrow> ''Quarantined''
    | Decommissioned \<Rightarrow> ''Decommissioned'')"

lemma lifecycle_value_inj [simp]: "lifecycle_value a = lifecycle_value b \<longleftrightarrow> a = b"
  by (cases a; cases b) (simp_all add: lifecycle_value_def)

record tenant_record =
  tenant_id :: string
  organization_ref :: string
  lifecycle :: lifecycle_state
  expected_schema_version :: string
  database_association_ref :: secret_ref
  federation_config_ref :: string
  created_at :: string
  updated_at :: string
  rec_version :: int

section \<open>Memberships, federation, directory\<close>

datatype role = CONTROL | MASTER_AGENT | TENANT_ADMIN | TENANT_AGENT | STARTUP_USER | INVESTOR_USER

definition role_value :: "role \<Rightarrow> string" where
  "role_value r = (case r of
      CONTROL \<Rightarrow> ''CONTROL''
    | MASTER_AGENT \<Rightarrow> ''MASTER_AGENT''
    | TENANT_ADMIN \<Rightarrow> ''TENANT_ADMIN''
    | TENANT_AGENT \<Rightarrow> ''TENANT_AGENT''
    | STARTUP_USER \<Rightarrow> ''STARTUP_USER''
    | INVESTOR_USER \<Rightarrow> ''INVESTOR_USER'')"

lemma role_value_inj [simp]: "role_value a = role_value b \<longleftrightarrow> a = b"
  by (cases a; cases b) (simp_all add: role_value_def)

text \<open>Roles sort by their \<open>.value\<close> string, which is how the read service orders them.\<close>

instantiation role :: linorder
begin

definition less_eq_role :: "role \<Rightarrow> role \<Rightarrow> bool" where
  "less_eq_role a b = (role_value a \<le> role_value b)"

definition less_role :: "role \<Rightarrow> role \<Rightarrow> bool" where
  "less_role a b = (role_value a < role_value b)"

instance
proof
  fix x y z :: role
  show "(x < y) = (x \<le> y \<and> \<not> y \<le> x)"
    by (auto simp: less_eq_role_def less_role_def less_le)
  show "x \<le> x" by (simp add: less_eq_role_def)
  show "x \<le> y \<Longrightarrow> y \<le> z \<Longrightarrow> x \<le> z" by (simp add: less_eq_role_def)
  show "x \<le> y \<Longrightarrow> y \<le> x \<Longrightarrow> x = y"
    unfolding less_eq_role_def by (metis order_antisym role_value_inj)
  show "x \<le> y \<or> y \<le> x" by (auto simp: less_eq_role_def)
qed

end

record membership_record =
  mem_principal_ref :: string
  mem_tenant_id :: string
  mem_role :: role

record federation_config =
  fed_tenant_id :: string
  oidc_issuer :: string
  oidc_audience :: string
  jwks_ref :: string
  claim_to_tenant_rule :: string

datatype directory_kind = STARTUP | INVESTOR

definition directory_value :: "directory_kind \<Rightarrow> string" where
  "directory_value k = (case k of
      STARTUP \<Rightarrow> ''GlobalStartupDirectory''
    | INVESTOR \<Rightarrow> ''GlobalInvestorDirectory'')"

lemma directory_value_inj [simp]: "directory_value a = directory_value b \<longleftrightarrow> a = b"
  by (cases a; cases b) (simp_all add: directory_value_def)

record directory_record =
  dir_kind :: directory_kind
  record_id :: string
  display_name :: string
  dir_attributes :: "(string \<times> string) list"

datatype schema_compat_state = PASS | FAIL | VERSION_MISMATCH | MIGRATION_REQUIRED

section \<open>Operational audit\<close>

record control_audit_record =
  aud_actor :: string
  aud_tenant_id :: "string option"
  aud_action :: string
  aud_from_state :: "string option"
  aud_to_state :: "string option"
  aud_timestamp :: string
  aud_correlation_id :: string

definition DATABASE_PROVISION_REQUESTED :: string where
  "DATABASE_PROVISION_REQUESTED = ''DatabaseProvisionRequested''"
definition DATABASE_PROVISION_SUCCEEDED :: string where
  "DATABASE_PROVISION_SUCCEEDED = ''DatabaseProvisionSucceeded''"
definition DATABASE_PROVISION_FAILED :: string where
  "DATABASE_PROVISION_FAILED = ''DatabaseProvisionFailed''"
definition DATABASE_ASSOCIATED :: string where
  "DATABASE_ASSOCIATED = ''DatabaseAssociated''"
definition SECRET_REFERENCE_REGISTERED :: string where
  "SECRET_REFERENCE_REGISTERED = ''SecretReferenceRegistered''"
definition TENANT_SCHEMA_APPLICATION_STARTED :: string where
  "TENANT_SCHEMA_APPLICATION_STARTED = ''TenantSchemaApplicationStarted''"
definition TENANT_SCHEMA_APPLICATION_SUCCEEDED :: string where
  "TENANT_SCHEMA_APPLICATION_SUCCEEDED = ''TenantSchemaApplicationSucceeded''"
definition TENANT_SCHEMA_APPLICATION_FAILED :: string where
  "TENANT_SCHEMA_APPLICATION_FAILED = ''TenantSchemaApplicationFailed''"
definition DISTINCTNESS_VERIFICATION_STARTED :: string where
  "DISTINCTNESS_VERIFICATION_STARTED = ''DistinctnessVerificationStarted''"
definition DISTINCTNESS_VERIFICATION_PASSED :: string where
  "DISTINCTNESS_VERIFICATION_PASSED = ''DistinctnessVerificationPassed''"
definition DISTINCTNESS_VERIFICATION_FAILED :: string where
  "DISTINCTNESS_VERIFICATION_FAILED = ''DistinctnessVerificationFailed''"
definition EV_VERIFICATION_INCOMPLETE :: string where
  "EV_VERIFICATION_INCOMPLETE = ''VerificationIncomplete''"
definition EV_ISOLATION_ANOMALY :: string where
  "EV_ISOLATION_ANOMALY = ''IsolationAnomaly''"
definition ROUTING_ENABLED :: string where
  "ROUTING_ENABLED = ''RoutingEnabled''"
definition ROUTING_DISABLED :: string where
  "ROUTING_DISABLED = ''RoutingDisabled''"
definition ROUTER_CACHE_INVALIDATED :: string where
  "ROUTER_CACHE_INVALIDATED = ''RouterCacheInvalidated''"
definition REGISTRY_MAPPING_CHANGED :: string where
  "REGISTRY_MAPPING_CHANGED = ''RegistryMappingChanged''"
definition TENANT_QUARANTINED :: string where
  "TENANT_QUARANTINED = ''TenantQuarantined''"
definition ONBOARDING_RECOVERY_STARTED :: string where
  "ONBOARDING_RECOVERY_STARTED = ''OnboardingRecoveryStarted''"
definition ONBOARDING_RECOVERY_COMPLETED :: string where
  "ONBOARDING_RECOVERY_COMPLETED = ''OnboardingRecoveryCompleted''"
definition ONBOARDING_RECOVERY_FAILED :: string where
  "ONBOARDING_RECOVERY_FAILED = ''OnboardingRecoveryFailed''"
definition TENANT_DEPROVISION_REQUESTED :: string where
  "TENANT_DEPROVISION_REQUESTED = ''TenantDeprovisionRequested''"
definition TENANT_DEPROVISION_COMPLETED :: string where
  "TENANT_DEPROVISION_COMPLETED = ''TenantDeprovisionCompleted''"
definition TENANT_DEPROVISION_FAILED :: string where
  "TENANT_DEPROVISION_FAILED = ''TenantDeprovisionFailed''"

lemmas event_defs = DATABASE_PROVISION_REQUESTED_def DATABASE_PROVISION_SUCCEEDED_def
  DATABASE_PROVISION_FAILED_def DATABASE_ASSOCIATED_def SECRET_REFERENCE_REGISTERED_def
  TENANT_SCHEMA_APPLICATION_STARTED_def TENANT_SCHEMA_APPLICATION_SUCCEEDED_def
  TENANT_SCHEMA_APPLICATION_FAILED_def DISTINCTNESS_VERIFICATION_STARTED_def
  DISTINCTNESS_VERIFICATION_PASSED_def DISTINCTNESS_VERIFICATION_FAILED_def
  EV_VERIFICATION_INCOMPLETE_def EV_ISOLATION_ANOMALY_def ROUTING_ENABLED_def ROUTING_DISABLED_def
  ROUTER_CACHE_INVALIDATED_def REGISTRY_MAPPING_CHANGED_def TENANT_QUARANTINED_def
  ONBOARDING_RECOVERY_STARTED_def ONBOARDING_RECOVERY_COMPLETED_def ONBOARDING_RECOVERY_FAILED_def
  TENANT_DEPROVISION_REQUESTED_def TENANT_DEPROVISION_COMPLETED_def TENANT_DEPROVISION_FAILED_def

end
