(* ===== verification/CP_Store.thy ===== *)
theory CP_Store
  imports CP_Records
begin

text \<open>
  The Control Database port (\<open>backend/control_plane/ports.py\<close>) and its in-memory adapter
  (\<open>adapters/providers/in_memory_store.py\<close>), operation by operation. Dictionaries keep
  insertion order, lists are appended at the end. The locale \<open>versioned_store\<close> states what the
  port promises about optimistic concurrency; the in-memory adapter is its interpretation.
\<close>

section \<open>Errors of the control plane\<close>

text \<open>
  The exception types of the control plane. \<open>InvalidTenantId\<close> is the \<open>RegistryError\<close> of the
  admission guard, which echoes the rejected identifier; \<open>PortError\<close> is whatever exception a
  provider behind a port (database probe, operator, schema applicator) may raise.
\<close>

datatype cp_error =
    RegistryError string
  | InvalidTenantId string string
  | PhaseFourDeferred string
  | LifecycleError string
  | ProvisioningError string
  | OnboardingError string
  | RecoveryError string
  | ControlStoreConcurrencyError
  | DistinctnessCollisionError
  | PortError string

section \<open>The in-memory control store\<close>

record control_store =
  st_schema_version :: int
  st_reachable :: bool
  tenants :: "(string, tenant_record) dict"
  memberships :: "membership_record list"
  federation :: "(string, federation_config) dict"
  directory :: "(string \<times> string, directory_record) dict"
  audit_log :: "control_audit_record list"

definition empty_store :: "int \<Rightarrow> bool \<Rightarrow> control_store" where
  "empty_store v r = \<lparr>st_schema_version = v, st_reachable = r, tenants = [], memberships = [],
     federation = [], directory = [], audit_log = []\<rparr>"

definition is_reachable :: "control_store \<Rightarrow> bool" where
  "is_reachable s = st_reachable s"

definition schema_version :: "control_store \<Rightarrow> int" where
  "schema_version s = st_schema_version s"

definition put_tenant :: "tenant_record \<Rightarrow> control_store \<Rightarrow> control_store" where
  "put_tenant r s = s\<lparr>tenants := dict_put (tenant_id r) r (tenants s)\<rparr>"

definition compare_and_swap_tenant ::
    "tenant_record \<Rightarrow> int \<Rightarrow> (control_store, cp_error, tenant_record) proc" where
  "compare_and_swap_tenant updated expected_version s =
     (case dict_get (tenants s) (tenant_id updated) of
        None \<Rightarrow> (Inl ControlStoreConcurrencyError, s)
      | Some current \<Rightarrow>
          if rec_version current \<noteq> expected_version then (Inl ControlStoreConcurrencyError, s)
          else let persisted = updated\<lparr>rec_version := expected_version + 1\<rparr>
               in (Inr persisted, s\<lparr>tenants := dict_put (tenant_id persisted) persisted (tenants s)\<rparr>))"

definition get_tenant :: "control_store \<Rightarrow> string \<Rightarrow> tenant_record option" where
  "get_tenant s tid = dict_get (tenants s) tid"

definition list_tenant_ids :: "control_store \<Rightarrow> string list" where
  "list_tenant_ids s = dict_keys (tenants s)"

definition put_membership :: "membership_record \<Rightarrow> control_store \<Rightarrow> control_store" where
  "put_membership r s = s\<lparr>memberships := memberships s @ [r]\<rparr>"

definition list_memberships ::
    "control_store \<Rightarrow> string option \<Rightarrow> string option \<Rightarrow> membership_record list" where
  "list_memberships s p_ref t_ref =
     (let out = memberships s;
          out = (case p_ref of None \<Rightarrow> out | Some p \<Rightarrow> filter (\<lambda>m. mem_principal_ref m = p) out);
          out = (case t_ref of None \<Rightarrow> out | Some t \<Rightarrow> filter (\<lambda>m. mem_tenant_id m = t) out)
      in out)"

definition put_federation :: "federation_config \<Rightarrow> control_store \<Rightarrow> control_store" where
  "put_federation c s = s\<lparr>federation := dict_put (fed_tenant_id c) c (federation s)\<rparr>"

definition get_federation :: "control_store \<Rightarrow> string \<Rightarrow> federation_config option" where
  "get_federation s tid = dict_get (federation s) tid"

definition put_directory_record :: "directory_record \<Rightarrow> control_store \<Rightarrow> control_store" where
  "put_directory_record r s =
     s\<lparr>directory := dict_put (directory_value (dir_kind r), record_id r) r (directory s)\<rparr>"

definition get_directory_record ::
    "control_store \<Rightarrow> directory_kind \<Rightarrow> string \<Rightarrow> directory_record option" where
  "get_directory_record s d rid = dict_get (directory s) (directory_value d, rid)"

definition list_directory :: "control_store \<Rightarrow> directory_kind \<Rightarrow> directory_record list" where
  "list_directory s d = map snd (filter (\<lambda>((k, _), _). k = directory_value d) (directory s))"

definition append_audit :: "control_audit_record \<Rightarrow> control_store \<Rightarrow> control_store" where
  "append_audit r s = s\<lparr>audit_log := audit_log s @ [r]\<rparr>"

definition list_audit :: "control_store \<Rightarrow> control_audit_record list" where
  "list_audit s = audit_log s"

section \<open>Facts about single operations\<close>

lemma get_put_tenant [simp]:
  "get_tenant (put_tenant r s) tid = (if tid = tenant_id r then Some r else get_tenant s tid)"
  by (simp add: get_tenant_def put_tenant_def)

lemma get_append_audit [simp]: "get_tenant (append_audit r s) = get_tenant s"
  by (rule ext) (simp add: get_tenant_def append_audit_def)

lemma audit_append_audit [simp]: "audit_log (append_audit r s) = audit_log s @ [r]"
  by (simp add: append_audit_def)

lemma audit_put_tenant [simp]: "audit_log (put_tenant r s) = audit_log s"
  by (simp add: put_tenant_def)

lemma cas_cases:
  obtains (hit) r s' where "get_tenant s (tenant_id u) = Some r" "rec_version r = v"
      "compare_and_swap_tenant u v s = (Inr (u\<lparr>rec_version := v + 1\<rparr>), s')"
      "get_tenant s' = (get_tenant s)(tenant_id u \<mapsto> u\<lparr>rec_version := v + 1\<rparr>)"
      "audit_log s' = audit_log s"
      "s' = s\<lparr>tenants := dict_put (tenant_id u) (u\<lparr>rec_version := v + 1\<rparr>) (tenants s)\<rparr>"
  | (miss) "compare_and_swap_tenant u v s = (Inl ControlStoreConcurrencyError, s)"
      "\<And>r. get_tenant s (tenant_id u) = Some r \<Longrightarrow> rec_version r \<noteq> v"
proof (cases "get_tenant s (tenant_id u)")
  case None
  then have "compare_and_swap_tenant u v s = (Inl ControlStoreConcurrencyError, s)"
    by (simp add: compare_and_swap_tenant_def get_tenant_def)
  with None show ?thesis using that(2) by simp
next
  case (Some r)
  show ?thesis
  proof (cases "rec_version r = v")
    case True
    show ?thesis
      by (rule that(1)[OF Some True])
        (use Some True in \<open>auto simp: compare_and_swap_tenant_def get_tenant_def Let_def fun_eq_iff\<close>)
  next
    case False
    with Some show ?thesis using that(2)
      by (simp add: compare_and_swap_tenant_def get_tenant_def)
  qed
qed

lemma cas_hit:
  assumes "get_tenant s (tenant_id u) = Some r" "rec_version r = v"
  shows "compare_and_swap_tenant u v s =
     (Inr (u\<lparr>rec_version := v + 1\<rparr>),
      s\<lparr>tenants := dict_put (tenant_id u) (u\<lparr>rec_version := v + 1\<rparr>) (tenants s)\<rparr>)"
  using assms by (simp add: compare_and_swap_tenant_def get_tenant_def Let_def)

section \<open>The interface: optimistic concurrency\<close>

locale versioned_store =
  fixes lookup :: "'s \<Rightarrow> string \<Rightarrow> tenant_record option"
    and cas :: "tenant_record \<Rightarrow> int \<Rightarrow> ('s, cp_error, tenant_record) proc"
  assumes swap: "\<lbrakk>lookup s (tenant_id u) = Some r; rec_version r = v\<rbrakk> \<Longrightarrow>
      \<exists>s'. cas u v s = (Inr (u\<lparr>rec_version := v + 1\<rparr>), s')
         \<and> lookup s' = (lookup s)(tenant_id u \<mapsto> u\<lparr>rec_version := v + 1\<rparr>)"
    and refuse: "(\<And>r. lookup s (tenant_id u) = Some r \<Longrightarrow> rec_version r \<noteq> v) \<Longrightarrow>
      cas u v s = (Inl ControlStoreConcurrencyError, s)"
begin

lemma second_writer_refused:
  assumes win: "cas u v s = (Inr p, s')" and same: "tenant_id u' = tenant_id u"
  shows "cas u' v s' = (Inl ControlStoreConcurrencyError, s')"
proof (rule refuse)
  obtain r where r: "lookup s (tenant_id u) = Some r" "rec_version r = v"
    using win refuse[of s u v] by fastforce
  from swap[OF this] win have upd: "lookup s' = (lookup s)(tenant_id u \<mapsto> u\<lparr>rec_version := v + 1\<rparr>)"
    by auto
  fix r' assume "lookup s' (tenant_id u') = Some r'"
  with upd same have "r' = u\<lparr>rec_version := v + 1\<rparr>" by simp
  then show "rec_version r' \<noteq> v" by simp
qed

lemma winner_stored:
  assumes win: "cas u v s = (Inr p, s')"
  shows "lookup s' (tenant_id u) = Some p \<and> rec_version p = v + 1
    \<and> (\<exists>r. lookup s (tenant_id u) = Some r \<and> rec_version r = v)"
proof -
  obtain r where r: "lookup s (tenant_id u) = Some r" "rec_version r = v"
    using win refuse[of s u v] by fastforce
  from swap[OF this] win show ?thesis using r by auto
qed

end

interpretation mem: versioned_store get_tenant compare_and_swap_tenant
proof
  fix s and u r :: tenant_record and v
  assume "get_tenant s (tenant_id u) = Some r" "rec_version r = v"
  then show "\<exists>s'. compare_and_swap_tenant u v s = (Inr (u\<lparr>rec_version := v + 1\<rparr>), s')
      \<and> get_tenant s' = (get_tenant s)(tenant_id u \<mapsto> u\<lparr>rec_version := v + 1\<rparr>)"
    by (cases rule: cas_cases[of s u v]) auto
next
  fix s and u :: tenant_record and v
  assume "\<And>r :: tenant_record. get_tenant s (tenant_id u) = Some r \<Longrightarrow> rec_version r \<noteq> v"
  then show "compare_and_swap_tenant u v s = (Inl ControlStoreConcurrencyError, s)"
    by (cases rule: cas_cases[of s u v]) auto
qed

end
