(* ===== verification/CP_Distinctness.thy ===== *)
theory CP_Distinctness
  imports CP_Store
begin

text \<open>
  Physical distinctness (\<open>backend/control_plane/distinctness.py\<close>): the evidence record, the
  decision procedure of \<open>PhysicalDistinctnessVerifier.verify\<close> and the in-memory evidence ledger
  whose write refuses a second tenant with the same physical fingerprint. The locale
  \<open>evidence_ledger\<close> is the contract the verification gate relies on; the in-memory ledger is its
  interpretation.
\<close>

section \<open>Evidence and outcomes\<close>

datatype distinctness_result =
  VERIFIED | VERIFICATION_FAILED | VERIFICATION_INCOMPLETE | ISOLATION_ANOMALY

record evidence =
  system_identifier :: string
  database_identity :: string
  observed_target :: string
  ev_secret_ref_key :: string
  sentinel_namespace :: string
  sentinel_token :: "string option"
  sentinel_written :: bool

definition fingerprint_of :: "string \<Rightarrow> string \<Rightarrow> string" where
  "fingerprint_of sys db = sys @ ''::'' @ db"

definition fingerprint :: "evidence \<Rightarrow> string" where
  "fingerprint e = fingerprint_of (system_identifier e) (database_identity e)"

record outcome =
  out_result :: distinctness_result
  out_reason :: string

definition mk_outcome :: "distinctness_result \<Rightarrow> string \<Rightarrow> outcome" where
  "mk_outcome r why = \<lparr>out_result = r, out_reason = why\<rparr>"

definition routable :: "outcome \<Rightarrow> bool" where
  "routable o1 = (out_result o1 = VERIFIED)"

definition is_anomaly :: "outcome \<Rightarrow> bool" where
  "is_anomaly o1 = (out_result o1 = ISOLATION_ANOMALY)"

definition secret_ref_key :: "secret_ref \<Rightarrow> string" where
  "secret_ref_key r = store_ref r"

definition REASON_VERIFIED :: string where "REASON_VERIFIED = ''verified''"
definition REASON_INCOMPLETE_EVIDENCE :: string where
  "REASON_INCOMPLETE_EVIDENCE = ''incomplete_evidence''"
definition REASON_SENTINEL_FAILURE :: string where
  "REASON_SENTINEL_FAILURE = ''sentinel_failure''"
definition REASON_SYSTEM_ID_ONLY :: string where
  "REASON_SYSTEM_ID_ONLY = ''system_identifier_insufficient''"
definition REASON_MISROUTED_TARGET :: string where
  "REASON_MISROUTED_TARGET = ''misrouted_target''"
definition REASON_CONTROL_DB_COLLISION :: string where
  "REASON_CONTROL_DB_COLLISION = ''control_db_collision''"
definition REASON_TENANT_COLLISION :: string where
  "REASON_TENANT_COLLISION = ''tenant_collision''"

lemmas reason_defs = REASON_VERIFIED_def REASON_INCOMPLETE_EVIDENCE_def REASON_SENTINEL_FAILURE_def
  REASON_SYSTEM_ID_ONLY_def REASON_MISROUTED_TARGET_def REASON_CONTROL_DB_COLLISION_def
  REASON_TENANT_COLLISION_def

section \<open>The decision procedure\<close>

text \<open>A Python string is truthy when it is not empty; an optional one when it is present and not empty.\<close>

definition truthy_opt :: "string option \<Rightarrow> bool" where
  "truthy_opt x = (case x of None \<Rightarrow> False | Some s \<Rightarrow> s \<noteq> [])"

definition collides_control :: "evidence \<Rightarrow> evidence \<Rightarrow> bool" where
  "collides_control candidate control_db =
     (fingerprint candidate = fingerprint control_db
      \<or> observed_target candidate = observed_target control_db
      \<or> ev_secret_ref_key candidate = ev_secret_ref_key control_db
      \<or> sentinel_namespace candidate = sentinel_namespace control_db
      \<or> (sentinel_token control_db \<noteq> None \<and> sentinel_token candidate = sentinel_token control_db))"

definition collides_tenant :: "evidence \<Rightarrow> evidence \<Rightarrow> bool" where
  "collides_tenant candidate other =
     (fingerprint candidate = fingerprint other
      \<or> observed_target candidate = observed_target other
      \<or> ev_secret_ref_key candidate = ev_secret_ref_key other
      \<or> (sentinel_token other \<noteq> None \<and> sentinel_token candidate = sentinel_token other))"

fun inventory_collision :: "string \<Rightarrow> evidence \<Rightarrow> (string, evidence) dict \<Rightarrow> bool" where
  "inventory_collision tid candidate [] = False"
| "inventory_collision tid candidate ((other_id, other) # rest) =
     (if other_id = tid then inventory_collision tid candidate rest
      else if collides_tenant candidate other then True
      else inventory_collision tid candidate rest)"

definition verify_distinct ::
    "string \<Rightarrow> evidence option \<Rightarrow> string \<Rightarrow> evidence \<Rightarrow> (string, evidence) dict \<Rightarrow> outcome" where
  "verify_distinct tid cand intended_target control_db inventory =
     (case cand of
        None \<Rightarrow> mk_outcome VERIFICATION_INCOMPLETE REASON_INCOMPLETE_EVIDENCE
      | Some candidate \<Rightarrow>
          if system_identifier candidate = [] \<or> database_identity candidate = [] then
            mk_outcome VERIFICATION_INCOMPLETE
              (if system_identifier candidate \<noteq> [] then REASON_SYSTEM_ID_ONLY else REASON_INCOMPLETE_EVIDENCE)
          else if \<not> sentinel_written candidate \<or> \<not> truthy_opt (sentinel_token candidate) then
            mk_outcome VERIFICATION_INCOMPLETE REASON_SENTINEL_FAILURE
          else if observed_target candidate \<noteq> intended_target then
            mk_outcome ISOLATION_ANOMALY REASON_MISROUTED_TARGET
          else if collides_control candidate control_db then
            mk_outcome ISOLATION_ANOMALY REASON_CONTROL_DB_COLLISION
          else if inventory_collision tid candidate inventory then
            mk_outcome ISOLATION_ANOMALY REASON_TENANT_COLLISION
          else mk_outcome VERIFIED REASON_VERIFIED)"

section \<open>The in-memory ledger\<close>

type_synonym ledger_map = "(string, evidence) dict"

fun holds_elsewhere :: "string \<Rightarrow> evidence \<Rightarrow> ledger_map \<Rightarrow> bool" where
  "holds_elsewhere tid e [] = False"
| "holds_elsewhere tid e ((other_id, other) # rest) =
     (if other_id \<noteq> tid \<and> fingerprint other = fingerprint e then True else holds_elsewhere tid e rest)"

definition record_evidence :: "string \<Rightarrow> evidence \<Rightarrow> (ledger_map, cp_error, unit) proc" where
  "record_evidence tid e l =
     (if holds_elsewhere tid e l then (Inl DistinctnessCollisionError, l)
      else (Inr (), dict_put tid e l))"

definition evidence_excluding :: "string \<Rightarrow> ledger_map \<Rightarrow> ledger_map" where
  "evidence_excluding tid l = filter (\<lambda>(t, _). t \<noteq> tid) l"

definition ledger_remove :: "string \<Rightarrow> ledger_map \<Rightarrow> ledger_map" where
  "ledger_remove tid l = dict_pop tid l"

section \<open>What a verdict means\<close>

lemma inventory_collision_iff:
  "inventory_collision tid c others \<longleftrightarrow> (\<exists>t e. (t, e) \<in> set others \<and> t \<noteq> tid \<and> collides_tenant c e)"
  by (induction tid c others rule: inventory_collision.induct) auto

lemma holds_elsewhere_iff:
  "holds_elsewhere tid e l \<longleftrightarrow> (\<exists>t x. (t, x) \<in> set l \<and> t \<noteq> tid \<and> fingerprint x = fingerprint e)"
  by (induction tid e l rule: holds_elsewhere.induct) auto

lemma verify_distinct_verified:
  "out_result (verify_distinct tid cand tgt ctl others) = VERIFIED \<longleftrightarrow>
     (\<exists>e. cand = Some e \<and> system_identifier e \<noteq> [] \<and> database_identity e \<noteq> []
        \<and> sentinel_written e \<and> truthy_opt (sentinel_token e) \<and> observed_target e = tgt
        \<and> \<not> collides_control e ctl \<and> \<not> inventory_collision tid e others)"
  by (auto simp: verify_distinct_def mk_outcome_def split: option.splits)

lemma verify_distinct_not_failed:
  "out_result (verify_distinct tid cand tgt ctl others) \<noteq> VERIFICATION_FAILED"
  by (auto simp: verify_distinct_def mk_outcome_def split: option.splits)

lemma evidence_excluding_mem:
  "(t, e) \<in> set (evidence_excluding tid l) \<longleftrightarrow> (t, e) \<in> set l \<and> t \<noteq> tid"
  by (auto simp: evidence_excluding_def)

text \<open>Removing the tenant's own row does not change the verdict: the loop skips it anyway.\<close>

lemma inventory_collision_excluding:
  "inventory_collision tid c (evidence_excluding tid l) = inventory_collision tid c l"
  by (auto simp: inventory_collision_iff evidence_excluding_mem)

section \<open>The interface: a ledger with one holder per physical database\<close>

definition one_holder :: "ledger_map \<Rightarrow> bool" where
  "one_holder l = (dict_ok l \<and> (\<forall>(t, e) \<in> set l. \<forall>(t', e') \<in> set l.
     fingerprint e = fingerprint e' \<longrightarrow> t = t'))"

locale evidence_ledger =
  fixes entries :: "'l \<Rightarrow> string \<Rightarrow> evidence option"
    and record_ev :: "string \<Rightarrow> evidence \<Rightarrow> ('l, cp_error, unit) proc"
    and remove_ev :: "string \<Rightarrow> 'l \<Rightarrow> 'l"
    and ok :: "'l \<Rightarrow> bool"
  assumes record_free: "\<lbrakk>ok l; \<And>t x. \<lbrakk>entries l t = Some x; t \<noteq> tid\<rbrakk> \<Longrightarrow> fingerprint x \<noteq> fingerprint e\<rbrakk>
      \<Longrightarrow> \<exists>l'. record_ev tid e l = (Inr (), l') \<and> entries l' = (entries l)(tid \<mapsto> e) \<and> ok l'"
    and record_taken: "\<lbrakk>ok l; entries l t = Some x; t \<noteq> tid; fingerprint x = fingerprint e\<rbrakk>
      \<Longrightarrow> record_ev tid e l = (Inl DistinctnessCollisionError, l)"
    and remove_entry: "ok l \<Longrightarrow> entries (remove_ev tid l) = (entries l)(tid := None) \<and> ok (remove_ev tid l)"
    and single: "\<lbrakk>ok l; entries l t = Some x; entries l t' = Some x'; fingerprint x = fingerprint x'\<rbrakk> \<Longrightarrow> t = t'"
begin

lemma record_ok: "ok l \<Longrightarrow> ok (snd (record_ev tid e l))"
proof -
  assume l: "ok l"
  show ?thesis
  proof (cases "\<exists>t x. entries l t = Some x \<and> t \<noteq> tid \<and> fingerprint x = fingerprint e")
    case True
    then obtain t x where "entries l t = Some x" "t \<noteq> tid" "fingerprint x = fingerprint e" by blast
    from record_taken[OF l this] l show ?thesis by simp
  next
    case False
    then have "\<exists>l'. record_ev tid e l = (Inr (), l') \<and> entries l' = (entries l)(tid \<mapsto> e) \<and> ok l'"
      by (intro record_free[OF l]) blast
    then show ?thesis by auto
  qed
qed

lemma race_has_one_winner:
  assumes l: "ok l" and first: "record_ev t1 e1 l = (Inr (), l1)"
    and diff: "t1 \<noteq> t2" and same: "fingerprint e1 = fingerprint e2"
  shows "record_ev t2 e2 l1 = (Inl DistinctnessCollisionError, l1)"
proof -
  have free: "fingerprint x \<noteq> fingerprint e1" if "entries l t = Some x" "t \<noteq> t1" for t x
    using record_taken[OF l that] first by auto
  have "\<exists>l'. record_ev t1 e1 l = (Inr (), l') \<and> entries l' = (entries l)(t1 \<mapsto> e1) \<and> ok l'"
    by (rule record_free[OF l]) (rule free)
  with first have "entries l1 = (entries l)(t1 \<mapsto> e1)" and l1: "ok l1" by auto
  then have "entries l1 t1 = Some e1" by simp
  from record_taken[OF l1 this diff same] show ?thesis .
qed

end

interpretation mem_ledger: evidence_ledger dict_get record_evidence ledger_remove one_holder
proof
  fix l :: ledger_map and tid :: string and e :: evidence
  assume l: "one_holder l"
    and free: "\<And>t x. \<lbrakk>dict_get l t = Some x; t \<noteq> tid\<rbrakk> \<Longrightarrow> fingerprint x \<noteq> fingerprint e"
  then have ok: "dict_ok l" by (simp add: one_holder_def)
  from free ok have nh: "\<not> holds_elsewhere tid e l"
    by (auto simp: holds_elsewhere_iff dest!: dict_mem_get[OF ok])
  have "one_holder (dict_put tid e l)"
    using l nh by (force simp: one_holder_def dict_put_set holds_elsewhere_iff)
  with nh show "\<exists>l'. record_evidence tid e l = (Inr (), l') \<and> dict_get l' = (dict_get l)(tid \<mapsto> e) \<and> one_holder l'"
    by (auto simp: record_evidence_def fun_eq_iff)
next
  fix l :: ledger_map and t tid :: string and x e :: evidence
  assume "dict_get l t = Some x" "t \<noteq> tid" "fingerprint x = fingerprint e"
  then show "record_evidence tid e l = (Inl DistinctnessCollisionError, l)"
    by (auto simp: record_evidence_def holds_elsewhere_iff dest!: dict_get_mem)
next
  fix l :: ledger_map and tid :: string
  assume "one_holder l"
  then show "dict_get (ledger_remove tid l) = (dict_get l)(tid := None) \<and> one_holder (ledger_remove tid l)"
    by (auto simp: ledger_remove_def one_holder_def dict_pop_set fun_eq_iff)
next
  fix l :: ledger_map and t t' :: string and x x' :: evidence
  assume "one_holder l" "dict_get l t = Some x" "dict_get l t' = Some x'" "fingerprint x = fingerprint x'"
  then show "t = t'" by (auto simp: one_holder_def dest!: dict_get_mem)
qed

end
