(* ===== verification/CP_World.thy ===== *)
theory CP_World
  imports CP_Distinctness
begin

text \<open>
  The state the control-plane services share: the store, the evidence ledger, the invalidation
  signals sent to the router, a clock, and whatever lies outside the program (\<open>ext\<close>). Providers
  behind a port (database probe, evidence provider, provisioning operator, schema applicator,
  recovery inspection) are fields of \<open>cp_ports\<close>: procedures that may change the whole state,
  because other processes run while the control plane waits for them.

  Two processes may also race between a read and the compare-and-swap that follows it. The field
  \<open>writers\<close> is the schedule of such concurrent writers: the first one runs just before the next
  compare-and-swap. An empty schedule is the sequential program.
\<close>

section \<open>State and ports\<close>

record 'x cp_world =
  store :: control_store
  ledger :: ledger_map
  signals :: "(string \<times> string) list"
  clock :: "nat \<Rightarrow> string"
  tick :: nat
  writers :: "(control_store \<Rightarrow> control_store) list"
  ext :: 'x

type_synonym ('x, 'a) cp = "('x cp_world, cp_error, 'a) proc"

record probe_result =
  reachable :: bool
  observed_schema_version :: "string option"

record provision_result =
  pr_target :: string
  pr_created :: bool

record inspection =
  database_name :: string
  insp_system_identifier :: string
  insp_database_identity :: string
  user_tables :: "(string, int) dict"
  agents_total :: int
  agents_system_primary :: int
  schema_versions :: "string list"

record 'x cp_ports =
  p_probe :: "secret_ref \<Rightarrow> ('x, probe_result) cp"
  p_token :: "('x, string) cp"
  p_gather :: "secret_ref \<Rightarrow> string \<Rightarrow> string \<Rightarrow> ('x, evidence option) cp"
  p_invalidate :: "string \<Rightarrow> string \<Rightarrow> ('x, unit) cp"
  p_provision :: "string \<Rightarrow> string \<Rightarrow> ('x, provision_result) cp"
  p_deprovision :: "string \<Rightarrow> ('x, unit) cp"
  p_apply_schema :: "string \<Rightarrow> string \<Rightarrow> secret_ref \<Rightarrow> ('x, unit) cp"
  p_list_candidates :: "('x, string list option) cp"
  p_database_exists :: "string \<Rightarrow> ('x, bool option) cp"
  p_inspect :: "string \<Rightarrow> ('x, inspection option) cp"
  p_control_name :: "('x, string option) cp"

section \<open>Clock, store access, audit\<close>

definition now_iso :: "('x, string) cp" where
  "now_iso w = (Inr (clock w (tick w)), w\<lparr>tick := Suc (tick w)\<rparr>)"

definition env_step :: "'x cp_world \<Rightarrow> 'x cp_world" where
  "env_step w = (case writers w of [] \<Rightarrow> w | f # fs \<Rightarrow> w\<lparr>store := f (store w), writers := fs\<rparr>)"

definition world_get :: "string \<Rightarrow> ('x, tenant_record option) cp" where
  "world_get tid = reads (\<lambda>w. get_tenant (store w) tid)"

definition world_cas :: "tenant_record \<Rightarrow> int \<Rightarrow> ('x, tenant_record) cp" where
  "world_cas updated expected_version w =
     (let w1 = env_step w in
      case compare_and_swap_tenant updated expected_version (store w1) of
        (res, s) \<Rightarrow> (res, w1\<lparr>store := s\<rparr>))"

definition world_put :: "tenant_record \<Rightarrow> ('x, unit) cp" where
  "world_put r = writes (\<lambda>w. w\<lparr>store := put_tenant r (store w)\<rparr>)"

definition audit_record ::
    "string \<Rightarrow> string option \<Rightarrow> string \<Rightarrow> string option \<Rightarrow> string option \<Rightarrow> string
      \<Rightarrow> ('x, control_audit_record) cp" where
  "audit_record actor tid action from_state to_state cid =
     bnd now_iso (\<lambda>ts.
       let rec = \<lparr>aud_actor = actor, aud_tenant_id = tid, aud_action = action,
                  aud_from_state = from_state, aud_to_state = to_state,
                  aud_timestamp = ts, aud_correlation_id = cid\<rparr>
       in andthen (writes (\<lambda>w. w\<lparr>store := append_audit rec (store w)\<rparr>)) (ret rec))"

definition audit_event :: "string \<Rightarrow> string \<Rightarrow> string \<Rightarrow> string \<Rightarrow> ('x, unit) cp" where
  "audit_event tid action actor cid =
     andthen (audit_record actor (Some tid) action None None cid) (ret ())"

definition ledger_record :: "string \<Rightarrow> evidence \<Rightarrow> ('x, unit) cp" where
  "ledger_record tid e w = (case record_evidence tid e (ledger w) of (r, l) \<Rightarrow> (r, w\<lparr>ledger := l\<rparr>))"

definition ledger_drop :: "string \<Rightarrow> ('x, unit) cp" where
  "ledger_drop tid = writes (\<lambda>w. w\<lparr>ledger := ledger_remove tid (ledger w)\<rparr>)"

text \<open>The in-memory signal recorder (\<open>RecordingRouterInvalidation\<close>).\<close>

definition record_signal :: "string \<Rightarrow> string \<Rightarrow> ('x, unit) cp" where
  "record_signal tid cid = writes (\<lambda>w. w\<lparr>signals := signals w @ [(tid, cid)]\<rparr>)"

section \<open>The lifecycle graph\<close>

text \<open>
  The union of the edges the services take: the contract's table (IC-002, \<open>Allowed
  transitions\<close>) and the gate's and the lifecycle service's entries into \<open>Verifying\<close>.
\<close>

inductive edge :: "lifecycle_state \<Rightarrow> lifecycle_state \<Rightarrow> bool" where
  provision: "edge Registered Provisioning"
| suspend: "edge Ready Suspended"
| decommission: "st \<in> {Registered, Provisioning, Suspended, Failed, Quarantined} \<Longrightarrow> edge st Decommissioned"
| quarantine: "st \<in> {Provisioning, Failed, Verifying} \<Longrightarrow> edge st Quarantined"
| enter: "st \<notin> {Quarantined, Decommissioned} \<Longrightarrow> edge st Verifying"
| pass: "edge Verifying Ready"
| fail: "edge Verifying Failed"

inductive_simps edge_simps: "edge a b"
inductive_cases edge_from_quarantined: "edge Quarantined b"
inductive_cases edge_from_decommissioned: "edge Decommissioned b"

fun onward :: "lifecycle_state \<Rightarrow> lifecycle_state \<Rightarrow> bool" where
  "onward Registered b = True"
| "onward Provisioning b = (b \<noteq> Registered)"
| "onward Quarantined b = (b = Quarantined \<or> b = Decommissioned)"
| "onward Decommissioned b = (b = Decommissioned)"
| "onward a b = (b \<noteq> Registered \<and> b \<noteq> Provisioning)"

lemma onward_refl [simp]: "onward a a"
  by (cases a) simp_all

lemma onward_trans: "onward a b \<Longrightarrow> onward b c \<Longrightarrow> onward a c"
  by (cases a; cases b; cases c) simp_all

lemma edge_onward: "edge a b \<Longrightarrow> onward a b"
  by (cases a; cases b) (auto elim: edge.cases)

lemma edge_star_onward: "edge\<^sup>*\<^sup>* a b \<Longrightarrow> onward a b"
  by (induction rule: rtranclp_induct) (auto intro: onward_trans edge_onward)

lemma onward_Quarantined: "onward Quarantined b \<longleftrightarrow> b = Quarantined \<or> b = Decommissioned"
  by simp

section \<open>Lawful changes of the state\<close>

definition store_ok :: "control_store \<Rightarrow> bool" where
  "store_ok s \<longleftrightarrow> dict_ok (tenants s) \<and> (\<forall>tid r. get_tenant s tid = Some r \<longrightarrow> tenant_id r = tid)"

text \<open>
  A lawful change of the store never loses a tenant, bumps the version of every record it
  changes, moves lifecycles along the graph only, and appends to the audit trail.
\<close>

definition lawful :: "control_store \<Rightarrow> control_store \<Rightarrow> bool" where
  "lawful s s' \<longleftrightarrow> (store_ok s \<longrightarrow> store_ok s'
     \<and> (\<forall>tid r. get_tenant s tid = Some r \<longrightarrow> (\<exists>r'. get_tenant s' tid = Some r'
          \<and> (r' = r \<or> rec_version r < rec_version r') \<and> onward (lifecycle r) (lifecycle r')))
     \<and> (\<exists>more. audit_log s' = audit_log s @ more))"

definition sane :: "'x cp_world \<Rightarrow> bool" where
  "sane w \<longleftrightarrow> store_ok (store w) \<and> one_holder (ledger w)
     \<and> (\<forall>f \<in> set (writers w). \<forall>s. lawful s (f s))"

definition disciplined :: "'x cp_world \<Rightarrow> 'x cp_world \<Rightarrow> bool" where
  "disciplined w w' \<longleftrightarrow> (sane w \<longrightarrow> sane w' \<and> lawful (store w) (store w'))"

lemma lawful_refl [simp]: "lawful s s"
  by (auto simp: lawful_def)

lemma lawful_get:
  "\<lbrakk>lawful s t; store_ok s; get_tenant s tid = Some r\<rbrakk> \<Longrightarrow> \<exists>r'. get_tenant t tid = Some r'
     \<and> (r' = r \<or> rec_version r < rec_version r') \<and> onward (lifecycle r) (lifecycle r')"
  by (simp add: lawful_def)

lemma lawful_ok: "\<lbrakk>lawful s t; store_ok s\<rbrakk> \<Longrightarrow> store_ok t"
  by (simp add: lawful_def)

lemma lawful_audit: "\<lbrakk>lawful s t; store_ok s\<rbrakk> \<Longrightarrow> \<exists>more. audit_log t = audit_log s @ more"
  by (simp add: lawful_def)

lemma lawfulI:
  "\<lbrakk>store_ok s \<Longrightarrow> store_ok s';
    \<And>tid r. \<lbrakk>store_ok s; get_tenant s tid = Some r\<rbrakk> \<Longrightarrow> \<exists>r'. get_tenant s' tid = Some r'
      \<and> (r' = r \<or> rec_version r < rec_version r') \<and> onward (lifecycle r) (lifecycle r');
    store_ok s \<Longrightarrow> \<exists>more. audit_log s' = audit_log s @ more\<rbrakk> \<Longrightarrow> lawful s s'"
  unfolding lawful_def by blast

lemma lawful_trans:
  assumes st: "lawful s t" and tu: "lawful t u" shows "lawful s u"
proof (rule lawfulI)
  assume s: "store_ok s"
  show "store_ok u" by (rule lawful_ok[OF tu lawful_ok[OF st s]])
  show "\<exists>more. audit_log u = audit_log s @ more"
    using lawful_audit[OF st s] lawful_audit[OF tu lawful_ok[OF st s]] by auto
next
  fix tid r assume s: "store_ok s" and r: "get_tenant s tid = Some r"
  from lawful_get[OF st s r] obtain r1 where r1: "get_tenant t tid = Some r1"
    "r1 = r \<or> rec_version r < rec_version r1" "onward (lifecycle r) (lifecycle r1)" by blast
  from lawful_get[OF tu lawful_ok[OF st s] r1(1)] obtain r2 where "get_tenant u tid = Some r2"
    "r2 = r1 \<or> rec_version r1 < rec_version r2" "onward (lifecycle r1) (lifecycle r2)" by blast
  with r1 show "\<exists>r'. get_tenant u tid = Some r' \<and> (r' = r \<or> rec_version r < rec_version r')
      \<and> onward (lifecycle r) (lifecycle r')" by (auto intro: onward_trans)
qed

lemma disciplined_refl [simp]: "disciplined w w"
  by (simp add: disciplined_def)

lemma disciplined_trans: "disciplined u v \<Longrightarrow> disciplined v w \<Longrightarrow> disciplined u w"
  by (auto simp: disciplined_def intro: lawful_trans)

interpretation disc: effect disciplined
  by unfold_locales (auto intro: disciplined_trans)

lemmas [keeps_rules] = disc.keeps_all

section \<open>The primitive steps are lawful\<close>

lemma keeps_disciplinedI:
  "(\<And>w. sane w \<Longrightarrow> sane (snd (m w)) \<and> lawful (store w) (store (snd (m w)))) \<Longrightarrow> keeps disciplined m"
  by (simp add: keeps_def disciplined_def)

lemma lawful_append_audit [simp]: "lawful s (append_audit r s)"
  by (auto simp: lawful_def store_ok_def append_audit_def get_tenant_def)

lemma sane_update [simp]:
  "sane w \<Longrightarrow> sane (w\<lparr>tick := n\<rparr>)" "sane w \<Longrightarrow> sane (w\<lparr>signals := x\<rparr>)"
  "\<lbrakk>sane w; one_holder l\<rbrakk> \<Longrightarrow> sane (w\<lparr>ledger := l\<rparr>)"
  "\<lbrakk>sane w; store_ok s\<rbrakk> \<Longrightarrow> sane (w\<lparr>store := s\<rparr>)"
  unfolding sane_def by simp_all

lemma sane_parts [simp]: "sane w \<Longrightarrow> store_ok (store w)" "sane w \<Longrightarrow> one_holder (ledger w)"
  unfolding sane_def by simp_all

lemma store_ok_append_audit [simp]: "store_ok (append_audit r s) = store_ok s"
  by (simp add: store_ok_def append_audit_def get_tenant_def)

lemma keeps_now_iso [keeps_rules]: "keeps disciplined now_iso"
  by (rule keeps_disciplinedI) (simp add: now_iso_def)

lemma keeps_audit_record [keeps_rules]: "keeps disciplined (audit_record a t ac f to c)"
  by (rule keeps_disciplinedI) (simp add: audit_record_def now_iso_def Let_def)

lemma keeps_audit_event [keeps_rules]: "keeps disciplined (audit_event t ac a c)"
  unfolding audit_event_def by (intro keeps_rules)

lemma keeps_world_get [keeps_rules]: "keeps disciplined (world_get t)"
  unfolding world_get_def by (intro keeps_rules)

lemma keeps_ledger_drop [keeps_rules]: "keeps disciplined (ledger_drop t)"
  by (rule keeps_disciplinedI) (simp add: ledger_drop_def mem_ledger.remove_entry)

lemma keeps_ledger_record [keeps_rules]: "keeps disciplined (ledger_record t e)"
proof (rule keeps_disciplinedI)
  fix w :: "'x cp_world" assume "sane w"
  moreover from this have "one_holder (snd (record_evidence t e (ledger w)))"
    by (simp add: mem_ledger.record_ok)
  ultimately show "sane (snd (ledger_record t e w)) \<and> lawful (store w) (store (snd (ledger_record t e w)))"
    by (cases "record_evidence t e (ledger w)") (simp add: ledger_record_def)
qed

lemma env_step_lawful: "sane w \<Longrightarrow> sane (env_step w) \<and> lawful (store w) (store (env_step w))"
proof (cases "writers w")
  case Nil
  then show "sane w \<Longrightarrow> ?thesis" by (simp add: env_step_def)
next
  case (Cons f fs)
  assume w: "sane w"
  with Cons have law: "lawful (store w) (f (store w))" unfolding sane_def by simp
  moreover have "store_ok (f (store w))" using lawful_ok[OF law] w by simp
  ultimately show ?thesis using w Cons unfolding sane_def by (simp add: env_step_def)
qed

section \<open>Compare-and-swap of a record read earlier\<close>

text \<open>
  \<open>seen r w\<close>: the record \<open>r\<close> was in the store at some earlier point. It survives every lawful
  change, and it is what makes the version check an arbiter: a swap that finds the version it
  expects finds the very record that was read.
\<close>

definition seen :: "tenant_record \<Rightarrow> 'x cp_world \<Rightarrow> bool" where
  "seen r w \<longleftrightarrow> sane w \<and> (\<exists>r'. get_tenant (store w) (tenant_id r) = Some r'
     \<and> (r' = r \<or> rec_version r < rec_version r'))"

lemma seen_sane: "seen r w \<Longrightarrow> sane w"
  unfolding seen_def by simp

lemma seen_stable: "stable disciplined (seen r)"
proof -
  have "seen r v" if "seen r w" and wv: "disciplined w v" for w v :: "'a cp_world"
  proof -
    from \<open>seen r w\<close> obtain r1 where r1: "sane w" "get_tenant (store w) (tenant_id r) = Some r1"
      "r1 = r \<or> rec_version r < rec_version r1" by (auto simp: seen_def)
    with wv have v: "sane v" "lawful (store w) (store v)" by (auto simp: disciplined_def)
    from lawful_get[OF v(2) sane_parts(1)[OF r1(1)] r1(2)] r1(3) v(1) show ?thesis
      unfolding seen_def by fastforce
  qed
  then show ?thesis by (auto simp: stable_def)
qed

lemma sane_stable: "stable disciplined sane"
  by (simp add: stable_def disciplined_def)

lemma keeps_from_sane: "triple disciplined sane m Q E \<Longrightarrow> keeps disciplined m"
  unfolding triple_def keeps_def disciplined_def by (metis prod.collapse)

lemma seen_get: "\<lbrakk>sane w; get_tenant (store w) t = Some r\<rbrakk> \<Longrightarrow> seen r w \<and> tenant_id r = t"
  unfolding seen_def sane_def store_ok_def by simp

lemma world_cas_seen:
  assumes seen: "seen r w" and id: "tenant_id u = tenant_id r"
    and step: "onward (lifecycle r) (lifecycle u)"
    and run: "world_cas u (rec_version r) w = (res, w')"
  shows "sane w' \<and> lawful (store w) (store w')
    \<and> (\<forall>p. res = Inr p \<longrightarrow> p = u\<lparr>rec_version := rec_version r + 1\<rparr>
          \<and> get_tenant (store (env_step w)) (tenant_id r) = Some r
          \<and> get_tenant (store w') = (get_tenant (store (env_step w)))(tenant_id r \<mapsto> p)
          \<and> audit_log (store w') = audit_log (store (env_step w)) \<and> ledger w' = ledger (env_step w))
    \<and> (\<forall>e. res = Inl e \<longrightarrow> e = ControlStoreConcurrencyError \<and> w' = env_step w)"
proof -
  let ?w1 = "env_step w"
  have sane: "sane w" using seen by (simp add: seen_def)
  have w1: "sane ?w1" "lawful (store w) (store ?w1)" using env_step_lawful[OF sane] by auto
  then have "disciplined w ?w1" by (simp add: disciplined_def)
  with seen seen_stable have "seen r ?w1" by (auto simp: stable_def)
  with w1 obtain r' where r': "get_tenant (store ?w1) (tenant_id r) = Some r'"
    "r' = r \<or> rec_version r < rec_version r'" by (auto simp: seen_def)
  show ?thesis
  proof (cases "rec_version r' = rec_version r")
    case True
    with r' have rr: "get_tenant (store ?w1) (tenant_id u) = Some r" using id by auto
    let ?p = "u\<lparr>rec_version := rec_version r + 1\<rparr>"
    let ?s = "(store ?w1)\<lparr>tenants := dict_put (tenant_id u) ?p (tenants (store ?w1))\<rparr>"
    have out: "res = Inr ?p" "w' = ?w1\<lparr>store := ?s\<rparr>"
      using run cas_hit[OF rr refl] by (auto simp: world_cas_def Let_def)
    have get: "get_tenant ?s = (get_tenant (store ?w1))(tenant_id r \<mapsto> ?p)"
      using id by (auto simp: get_tenant_def fun_eq_iff)
    have ok: "store_ok ?s"
      using sane_parts(1)[OF w1(1)] get id by (auto simp: store_ok_def)
    have "lawful (store ?w1) ?s"
      using ok get rr id step by (auto simp: lawful_def)
    then have "lawful (store w) ?s" using w1(2) by (rule lawful_trans[rotated])
    then show ?thesis using out w1 ok get rr id by auto
  next
    case False
    then have "compare_and_swap_tenant u (rec_version r) (store ?w1)
        = (Inl ControlStoreConcurrencyError, store ?w1)"
      using r' id by (intro mem.refuse) auto
    with run have "res = Inl ControlStoreConcurrencyError" "w' = ?w1"
      by (auto simp: world_cas_def Let_def)
    then show ?thesis using w1 by simp
  qed
qed

end
