(* ===== verification/CP_Registry.thy ===== *)
theory CP_Registry
  imports CP_World
begin

text \<open>
  The tenant registry (\<open>backend/control_plane/registry.py\<close>): admission of tenant identifiers,
  registration, and the guarded lifecycle transitions, each a compare-and-swap followed by its
  audit record. Every operation is shown to change the state lawfully (\<open>disciplined\<close>), and each
  branch of a transition is characterised.
\<close>

section \<open>Admission\<close>

definition tenant_id_char :: "char \<Rightarrow> bool" where
  "tenant_id_char c = (is_lower_ascii c \<or> is_digit c \<or> c = CHR ''_'')"

definition tenant_id_shape :: "string \<Rightarrow> bool" where
  "tenant_id_shape s = (s \<noteq> [] \<and> list_all tenant_id_char s)"

definition reserved_tenant_ids :: "string list" where
  "reserved_tenant_ids = [''control'']"

definition admissible :: "string \<Rightarrow> bool" where
  "admissible tid = (to_lower tid \<notin> set reserved_tenant_ids \<and> tenant_id_shape tid)"

section \<open>Operations\<close>

definition phase_4_states :: "lifecycle_state list" where
  "phase_4_states = [Verifying, Ready, Failed]"

definition register_tenant ::
    "string \<Rightarrow> string \<Rightarrow> string \<Rightarrow> secret_ref \<Rightarrow> string \<Rightarrow> string \<Rightarrow> string \<Rightarrow> ('x, tenant_record) cp" where
  "register_tenant tid org schema_v assoc fed actor cid =
     (if to_lower tid \<in> set reserved_tenant_ids then raise (InvalidTenantId tid ''reserved identifier'')
      else if \<not> tenant_id_shape tid then raise (InvalidTenantId tid ''must match ^[a-z0-9_]+$'')
      else bnd (world_get tid) (\<lambda>existing.
        case existing of
          Some rec \<Rightarrow> ret rec
        | None \<Rightarrow> bnd now_iso (\<lambda>ts.
            let rec = \<lparr>tenant_id = tid, organization_ref = org, lifecycle = Registered,
                       expected_schema_version = schema_v, database_association_ref = assoc,
                       federation_config_ref = fed, created_at = ts, updated_at = ts, rec_version = 0\<rparr>
            in andthen (audit_record actor (Some tid) ''RegisterTenant'' None
                          (Some (lifecycle_value Registered)) cid)
               (andthen (world_put rec) (ret rec)))))"

definition get_tenant_status :: "string \<Rightarrow> ('x, tenant_record option) cp" where
  "get_tenant_status tid = world_get tid"

text \<open>
  The shape every audited transition of the services shares: the swap of the record read earlier
  first, its audit record second (\<open>_transition\<close> in the registry and in the verification gate,
  \<open>_set\<close> in the lifecycle service).
\<close>

definition swap_and_audit ::
    "tenant_record \<Rightarrow> (tenant_record \<Rightarrow> tenant_record) \<Rightarrow> lifecycle_state \<Rightarrow> string \<Rightarrow> string \<Rightarrow> string
      \<Rightarrow> ('x, tenant_record) cp" where
  "swap_and_audit rec chg to_state action actor cid =
     bnd now_iso (\<lambda>ts.
     bnd (world_cas (chg (rec\<lparr>lifecycle := to_state, updated_at := ts\<rparr>)) (rec_version rec)) (\<lambda>persisted.
     andthen (audit_record actor (Some (tenant_id rec)) action
                (Some (lifecycle_value (lifecycle rec))) (Some (lifecycle_value to_state)) cid)
       (ret persisted)))"

definition registry_transition ::
    "string \<Rightarrow> lifecycle_state \<Rightarrow> lifecycle_state list \<Rightarrow> string \<Rightarrow> string \<Rightarrow> string \<Rightarrow> ('x, tenant_record) cp" where
  "registry_transition tid to_state allowed_from action actor cid =
     (if to_state \<in> set phase_4_states then raise (PhaseFourDeferred (lifecycle_value to_state))
      else bnd (world_get tid) (\<lambda>found.
        case found of
          None \<Rightarrow> raise (RegistryError ''unknown tenant'')
        | Some rec \<Rightarrow>
            if lifecycle rec = to_state then ret rec
            else if lifecycle rec \<notin> set allowed_from then raise (RegistryError ''illegal lifecycle transition'')
            else swap_and_audit rec id to_state action actor cid))"

definition mark_provisioning :: "string \<Rightarrow> string \<Rightarrow> string \<Rightarrow> ('x, tenant_record) cp" where
  "mark_provisioning tid actor cid =
     registry_transition tid Provisioning [Registered] ''MarkProvisioning'' actor cid"

definition suspend_tenant :: "string \<Rightarrow> string \<Rightarrow> string \<Rightarrow> ('x, tenant_record) cp" where
  "suspend_tenant tid actor cid =
     registry_transition tid Suspended [Ready] ''SuspendTenant'' actor cid"

definition decommission_tenant :: "string \<Rightarrow> string \<Rightarrow> string \<Rightarrow> ('x, tenant_record) cp" where
  "decommission_tenant tid actor cid =
     registry_transition tid Decommissioned [Registered, Provisioning, Suspended, Failed, Quarantined]
       ''DecommissionTenant'' actor cid"

definition quarantine_tenant :: "string \<Rightarrow> string \<Rightarrow> string \<Rightarrow> ('x, tenant_record) cp" where
  "quarantine_tenant tid actor cid =
     registry_transition tid Quarantined [Provisioning, Failed] ''QuarantineTenant'' actor cid"

definition deferred_verify_tenant :: "('x, unit) cp" where
  "deferred_verify_tenant =
     raise (PhaseFourDeferred ''VerifyTenant requires tenant-DB connectivity (Build Phase 4).'')"

definition deferred_activate_tenant :: "('x, unit) cp" where
  "deferred_activate_tenant =
     raise (PhaseFourDeferred ''ActivateTenant requires verification (Build Phase 4).'')"

definition deferred_reactivate_tenant :: "('x, unit) cp" where
  "deferred_reactivate_tenant =
     raise (PhaseFourDeferred ''ReactivateTenant requires re-verification (Build Phase 4).'')"

definition deferred_reassociate_database :: "('x, unit) cp" where
  "deferred_reassociate_database =
     raise (PhaseFourDeferred ''ReassociateDatabase requires DB Router + re-verify (Build Phase 4).'')"

section \<open>Every operation is lawful\<close>

text \<open>
  The swap of a record that was in the store at some earlier point: it succeeds with the next
  version and exactly the requested change, or it fails as a concurrency error; nothing else.
\<close>

lemma swap_and_audit_triple:
  assumes chg: "\<And>x. tenant_id (chg x) = tenant_id x" "\<And>x. lifecycle (chg x) = lifecycle x"
    and step: "onward (lifecycle rec) to_state"
  shows "triple disciplined (seen rec) (swap_and_audit rec chg to_state action actor cid)
    (\<lambda>p w. seen p w \<and> tenant_id p = tenant_id rec \<and> lifecycle p = to_state
       \<and> rec_version p = rec_version rec + 1 \<and> get_tenant (store w) (tenant_id rec) = Some p)
    (\<lambda>e w. e = ControlStoreConcurrencyError \<and> sane w)"
proof (rule tripleI)
  fix w :: "'x cp_world" and r w'
  assume seen: "seen rec w"
    and run: "swap_and_audit rec chg to_state action actor cid w = (r, w')"
  let ?ts = "clock w (tick w)"
  let ?w1 = "w\<lparr>tick := Suc (tick w)\<rparr>"
  let ?u = "chg (rec\<lparr>lifecycle := to_state, updated_at := ?ts\<rparr>)"
  obtain q w2 where cas: "world_cas ?u (rec_version rec) ?w1 = (q, w2)"
    by (cases "world_cas ?u (rec_version rec) ?w1")
  have seen1: "seen rec ?w1" using seen by (auto simp: seen_def)
  note post = world_cas_seen[OF seen1 _ _ cas, unfolded chg, simplified, OF step]
  have store1: "store ?w1 = store w" by simp
  show "disciplined w w' \<and> (\<forall>p. r = Inr p \<longrightarrow> seen p w' \<and> tenant_id p = tenant_id rec \<and> lifecycle p = to_state
       \<and> rec_version p = rec_version rec + 1 \<and> get_tenant (store w') (tenant_id rec) = Some p)
       \<and> (\<forall>e. r = Inl e \<longrightarrow> e = ControlStoreConcurrencyError \<and> sane w')"
  proof (cases q)
    case (Inl e)
    with run cas have "r = Inl e" "w' = w2" by (auto simp: swap_and_audit_def now_iso_def)
    with post Inl show ?thesis by (auto simp: disciplined_def)
  next
    case (Inr p)
    let ?rec = "\<lparr>aud_actor = actor, aud_tenant_id = Some (tenant_id rec), aud_action = action,
      aud_from_state = Some (lifecycle_value (lifecycle rec)), aud_to_state = Some (lifecycle_value to_state),
      aud_timestamp = clock w2 (tick w2), aud_correlation_id = cid\<rparr>"
    have w': "r = Inr p" "w' = w2\<lparr>tick := Suc (tick w2), store := append_audit ?rec (store w2)\<rparr>"
      using run cas Inr by (auto simp: swap_and_audit_def now_iso_def audit_record_def Let_def)
    have p: "p = ?u\<lparr>rec_version := rec_version rec + 1\<rparr>" "sane w2" "lawful (store w) (store w2)"
      "get_tenant (store w2) (tenant_id rec) = Some p"
      using post Inr by auto
    have "sane w'" using p(2) unfolding w'(2) by simp
    moreover have "lawful (store w) (store w')"
      using p(3) unfolding w'(2) by (auto intro: lawful_trans)
    moreover have "get_tenant (store w') (tenant_id rec) = Some p" using p(4) unfolding w'(2) by simp
    moreover have "tenant_id p = tenant_id rec" "lifecycle p = to_state" using p(1) chg by simp_all
    ultimately show ?thesis using w'(1) p(1) by (simp add: disciplined_def seen_def)
  qed
qed

lemma ledger_audit_record [simp]: "ledger (snd (audit_record a t ac f to c w)) = ledger w"
  by (simp add: audit_record_def now_iso_def Let_def)

lemma ledger_audit_event [simp]: "ledger (snd (audit_event t ac a c w)) = ledger w"
  by (simp add: audit_event_def audit_record_def now_iso_def Let_def)

lemma get_tenant_audit_record [simp]:
  "get_tenant (store (snd (audit_record a t ac f to c w))) = get_tenant (store w)"
  by (simp add: audit_record_def now_iso_def Let_def)

lemma get_tenant_audit_event [simp]:
  "get_tenant (store (snd (audit_event t ac a c w))) = get_tenant (store w)"
  by (simp add: audit_event_def audit_record_def now_iso_def Let_def)

lemma ledger_world_cas [simp]: "ledger (snd (world_cas u v w)) = ledger w"
  by (auto simp: world_cas_def env_step_def Let_def split: prod.splits list.splits)

lemma ledger_swap_and_audit [simp]: "ledger (snd (swap_and_audit rec chg st ac a c w)) = ledger w"
proof -
  let ?w1 = "w\<lparr>tick := Suc (tick w)\<rparr>"
  let ?u = "chg (rec\<lparr>lifecycle := st, updated_at := clock w (tick w)\<rparr>)"
  obtain q w2 where cas: "world_cas ?u (rec_version rec) ?w1 = (q, w2)"
    by (cases "world_cas ?u (rec_version rec) ?w1")
  then have "ledger w2 = ledger w" using ledger_world_cas[of ?u "rec_version rec" ?w1] by simp
  then show ?thesis using cas
    by (cases q) (simp_all add: swap_and_audit_def now_iso_def audit_record_def Let_def)
qed

lemma triple_world_get:
  assumes "\<And>found. triple disciplined (\<lambda>w. sane w \<and> (\<forall>r. found = Some r \<longrightarrow> seen r w \<and> tenant_id r = tid))
      (f found) Q E"
  shows "triple disciplined sane (bnd (world_get tid) f) Q E"
proof (rule disc.triple_bnd)
  show "triple disciplined sane (world_get tid)
      (\<lambda>found w. sane w \<and> (\<forall>r. found = Some r \<longrightarrow> seen r w \<and> tenant_id r = tid)) E"
    unfolding world_get_def by (rule disc.triple_reads) (auto dest: seen_get)
qed (rule assms)

lemma keeps_registry_transition [keeps_rules]:
  assumes "\<And>st. st \<in> set allowed \<Longrightarrow> onward st to_state"
  shows "keeps disciplined (registry_transition tid to_state allowed action actor cid)"
proof (rule keeps_from_sane)
  show "triple disciplined sane (registry_transition tid to_state allowed action actor cid)
      (\<lambda>_ _. True) (\<lambda>_ _. True)"
    unfolding registry_transition_def
    by (intro triple_if triple_world_get)
      (auto intro!: disc.triple_raise disc.triple_ret triple_conseq[OF swap_and_audit_triple] assms
        split: option.split)
qed

lemma keeps_mark_provisioning [keeps_rules]: "keeps disciplined (mark_provisioning tid actor cid)"
  unfolding mark_provisioning_def by (rule keeps_registry_transition) simp

lemma keeps_suspend_tenant [keeps_rules]: "keeps disciplined (suspend_tenant tid actor cid)"
  unfolding suspend_tenant_def by (rule keeps_registry_transition) simp

lemma keeps_decommission_tenant [keeps_rules]: "keeps disciplined (decommission_tenant tid actor cid)"
  unfolding decommission_tenant_def by (rule keeps_registry_transition) auto

lemma keeps_quarantine_tenant [keeps_rules]: "keeps disciplined (quarantine_tenant tid actor cid)"
  unfolding quarantine_tenant_def by (rule keeps_registry_transition) auto

lemma keeps_get_tenant_status [keeps_rules]: "keeps disciplined (get_tenant_status tid)"
  unfolding get_tenant_status_def by (rule keeps_world_get)

lemma lawful_put_fresh:
  assumes "get_tenant s (tenant_id r) = None"
  shows "lawful s (put_tenant r s)"
proof (rule lawfulI)
  show "store_ok s \<Longrightarrow> store_ok (put_tenant r s)"
    by (auto simp: store_ok_def put_tenant_def get_tenant_def)
  show "\<exists>r'. get_tenant (put_tenant r s) tid = Some r'
      \<and> (r' = r0 \<or> rec_version r0 < rec_version r') \<and> onward (lifecycle r0) (lifecycle r')"
    if "get_tenant s tid = Some r0" for tid r0
    using that assms by auto
qed simp

lemma keeps_register_tenant [keeps_rules]:
  "keeps disciplined (register_tenant tid org sv assoc fed actor cid)"
proof (rule keeps_disciplinedI)
  fix w :: "'x cp_world" assume w: "sane w"
  show "sane (snd (register_tenant tid org sv assoc fed actor cid w))
      \<and> lawful (store w) (store (snd (register_tenant tid org sv assoc fed actor cid w)))"
  proof (cases "admissible tid \<and> get_tenant (store w) tid = None")
    case False
    then show ?thesis using w
      by (auto simp: register_tenant_def admissible_def world_get_def)
  next
    case True
    let ?rec = "\<lparr>tenant_id = tid, organization_ref = org, lifecycle = Registered,
       expected_schema_version = sv, database_association_ref = assoc, federation_config_ref = fed,
       created_at = clock w (tick w), updated_at = clock w (tick w), rec_version = 0\<rparr>"
    obtain a where st: "store (snd (register_tenant tid org sv assoc fed actor cid w))
        = put_tenant ?rec (append_audit a (store w))"
      and lg: "ledger (snd (register_tenant tid org sv assoc fed actor cid w)) = ledger w"
      and wr: "writers (snd (register_tenant tid org sv assoc fed actor cid w)) = writers w"
      using True by (auto simp: register_tenant_def admissible_def world_get_def world_put_def
        now_iso_def audit_record_def Let_def)
    have law: "lawful (store w) (put_tenant ?rec (append_audit a (store w)))"
      by (rule lawful_trans[OF lawful_append_audit lawful_put_fresh]) (use True in simp)
    from lawful_ok[OF law sane_parts(1)[OF w]] w law show ?thesis
      unfolding st sane_def lg wr by simp
  qed
qed

end
