(* ===== verification/CP_Provisioning.thy ===== *)
theory CP_Provisioning
  imports CP_Registry
begin

text \<open>
  The readiness gate (\<open>backend/control_plane/provisioning.py\<close>,
  \<open>ProvisioningVerificationService\<close>): entry into \<open>Verifying\<close> with its yield-or-retry policy,
  reachability and schema checks, the secret-reference guard, physical distinctness, the commit to
  \<open>Ready\<close>, the failure path, re-association and routing disablement.

  The gate is proved against arbitrary ports whose effect is lawful: whatever other processes do
  during a probe, they follow the same discipline. The sections after the definitions show that the
  gate itself is lawful, that a \<open>VERIFIED\<close> outcome means a stored \<open>Ready\<close> record with recorded,
  collision-free evidence, and that an undisturbed run that does not verify leaves no \<open>Ready\<close>.
\<close>

section \<open>Configuration\<close>

record gate_config =
  g_control :: evidence
  g_supported :: "string list"
  g_sentinel_prefix :: string

definition DEFAULT_TENANT_DB_PREFIX :: string where
  "DEFAULT_TENANT_DB_PREFIX = ''sp2_tenant_''"

definition REASON_SCHEMA_MISMATCH :: string where
  "REASON_SCHEMA_MISMATCH = ''schema_mismatch''"

definition REASON_CONCURRENT_LIFECYCLE_WINNER :: string where
  "REASON_CONCURRENT_LIFECYCLE_WINNER = ''concurrent_lifecycle_winner''"

definition tenant_database_name :: "string \<Rightarrow> string" where
  "tenant_database_name tid = DEFAULT_TENANT_DB_PREFIX @ tid"

lemma tenant_database_name_inj [simp]: "tenant_database_name a = tenant_database_name b \<longleftrightarrow> a = b"
  by (simp add: tenant_database_name_def)

section \<open>The steps of the gate\<close>

definition gate_require :: "string \<Rightarrow> ('x, tenant_record) cp" where
  "gate_require tid = bnd (world_get tid) (\<lambda>found.
     case found of None \<Rightarrow> raise (ProvisioningError ''unknown tenant'') | Some rec \<Rightarrow> ret rec)"

definition gate_transition ::
    "tenant_record \<Rightarrow> lifecycle_state \<Rightarrow> string \<Rightarrow> string \<Rightarrow> string \<Rightarrow> ('x, tenant_record) cp" where
  "gate_transition rec to_state action actor cid = swap_and_audit rec id to_state action actor cid"

definition gate_invalidate :: "'x cp_ports \<Rightarrow> string \<Rightarrow> string \<Rightarrow> string \<Rightarrow> ('x, unit) cp" where
  "gate_invalidate P tid actor cid =
     andthen (p_invalidate P tid cid) (audit_event tid ROUTER_CACHE_INVALIDATED actor cid)"

text \<open>\<open>except ControlStoreConcurrencyError ... raise ProvisioningError\<close>; any other exception passes.\<close>

definition conflict_to_provisioning :: "cp_error \<Rightarrow> ('x, 'a) cp" where
  "conflict_to_provisioning e =
     (if e = ControlStoreConcurrencyError then raise (ProvisioningError ''concurrent lifecycle transition'')
      else raise e)"

definition gate_fail ::
    "tenant_record \<Rightarrow> distinctness_result \<Rightarrow> string \<Rightarrow> string \<Rightarrow> string \<Rightarrow> string \<Rightarrow> bool \<Rightarrow> ('x, outcome) cp" where
  "gate_fail rec result why event_action actor cid anomaly =
     andthen (ledger_drop (tenant_id rec))
     (tries
       (if anomaly then
          andthen (gate_transition rec Quarantined event_action actor cid)
          (andthen (audit_event (tenant_id rec) TENANT_QUARANTINED actor cid)
                   (audit_event (tenant_id rec) EV_ISOLATION_ANOMALY actor cid))
        else andthen (gate_transition rec Failed event_action actor cid) (ret ()))
       conflict_to_provisioning
       (\<lambda>_. ret (mk_outcome result why)))"

text \<open>Entry: \<open>Inl\<close> an outcome to return at once, \<open>Inr\<close> the record now in \<open>Verifying\<close>.\<close>

definition gate_enter :: "tenant_record \<Rightarrow> string \<Rightarrow> string \<Rightarrow> string \<Rightarrow> ('x, outcome + tenant_record) cp" where
  "gate_enter rec tid actor cid =
     tries (gate_transition rec Verifying DISTINCTNESS_VERIFICATION_STARTED actor cid)
       (\<lambda>e. if e \<noteq> ControlStoreConcurrencyError then raise e
            else bnd (gate_require tid) (\<lambda>fresh.
              if lifecycle fresh \<in> {Suspended, Quarantined, Decommissioned, Failed} then
                ret (Inl (mk_outcome VERIFICATION_INCOMPLETE REASON_CONCURRENT_LIFECYCLE_WINNER))
              else if lifecycle fresh \<in> {Verifying, Provisioning} then
                tries (gate_transition fresh Verifying DISTINCTNESS_VERIFICATION_STARTED actor cid)
                  conflict_to_provisioning (\<lambda>rec2. ret (Inr rec2))
              else raise (ProvisioningError ''concurrent lifecycle transition'')))
       (\<lambda>rec1. ret (Inr rec1))"

definition gate_commit ::
    "tenant_record \<Rightarrow> string \<Rightarrow> evidence \<Rightarrow> outcome \<Rightarrow> string \<Rightarrow> string \<Rightarrow> ('x, outcome) cp" where
  "gate_commit rec tid ev verdict actor cid =
     tries (ledger_record tid ev)
       (\<lambda>e. if e = DistinctnessCollisionError then
              gate_fail rec ISOLATION_ANOMALY REASON_TENANT_COLLISION DISTINCTNESS_VERIFICATION_FAILED actor cid True
            else raise e)
       (\<lambda>_. tries (gate_transition rec Ready DISTINCTNESS_VERIFICATION_PASSED actor cid)
              conflict_to_provisioning
              (\<lambda>_. andthen (audit_event tid ROUTING_ENABLED actor cid) (ret verdict)))"

text \<open>Fail-closed: drop any stale evidence and never reach \<open>Ready\<close>.\<close>

definition gate_reject ::
    "tenant_record \<Rightarrow> string \<Rightarrow> outcome \<Rightarrow> string \<Rightarrow> string \<Rightarrow> ('x, outcome) cp" where
  "gate_reject rec tid verdict actor cid =
     andthen (ledger_drop tid)
     (andthen
       (if is_anomaly verdict then
          gate_fail rec (out_result verdict) (out_reason verdict)
            DISTINCTNESS_VERIFICATION_FAILED actor cid True
        else if out_result verdict = VERIFICATION_INCOMPLETE then
          gate_fail rec (out_result verdict) (out_reason verdict)
            EV_VERIFICATION_INCOMPLETE actor cid False
        else
          gate_fail rec (out_result verdict) (out_reason verdict)
            DISTINCTNESS_VERIFICATION_FAILED actor cid False)
       (ret verdict))"

definition gate_distinctness ::
    "'x cp_ports \<Rightarrow> gate_config \<Rightarrow> tenant_record \<Rightarrow> string \<Rightarrow> string \<Rightarrow> string \<Rightarrow> ('x, outcome) cp" where
  "gate_distinctness P G rec tid actor cid =
     bnd (p_token P) (\<lambda>token.
     bnd (p_gather P (database_association_ref rec) token (g_sentinel_prefix G @ tid)) (\<lambda>ev.
     bnd (reads (\<lambda>w. evidence_excluding tid (ledger w))) (\<lambda>inventory.
       let verdict = verify_distinct tid ev (tenant_database_name tid) (g_control G) inventory in
       case (if out_result verdict = VERIFIED then ev else None) of
         Some e \<Rightarrow> gate_commit rec tid e verdict actor cid
       | None \<Rightarrow> gate_reject rec tid verdict actor cid)))"

definition schema_rejected :: "gate_config \<Rightarrow> tenant_record \<Rightarrow> string option \<Rightarrow> bool" where
  "schema_rejected G rec observed =
     ((case observed of None \<Rightarrow> True | Some v \<Rightarrow> v \<notin> set (g_supported G))
      \<or> observed \<noteq> Some (expected_schema_version rec))"

definition gate_checks ::
    "'x cp_ports \<Rightarrow> gate_config \<Rightarrow> tenant_record \<Rightarrow> string \<Rightarrow> string \<Rightarrow> string \<Rightarrow> ('x, outcome) cp" where
  "gate_checks P G rec tid actor cid =
     bnd (p_probe P (database_association_ref rec)) (\<lambda>probe.
       if \<not> reachable probe then
         gate_fail rec VERIFICATION_INCOMPLETE REASON_INCOMPLETE_EVIDENCE EV_VERIFICATION_INCOMPLETE actor cid False
       else if schema_rejected G rec (observed_schema_version probe) then
         gate_fail rec VERIFICATION_FAILED REASON_SCHEMA_MISMATCH DISTINCTNESS_VERIFICATION_FAILED actor cid False
       else if secret_ref_key (database_association_ref rec) = ev_secret_ref_key (g_control G) then
         gate_fail rec ISOLATION_ANOMALY REASON_CONTROL_DB_COLLISION DISTINCTNESS_VERIFICATION_FAILED actor cid True
       else gate_distinctness P G rec tid actor cid)"

definition gate_verify ::
    "'x cp_ports \<Rightarrow> gate_config \<Rightarrow> string \<Rightarrow> string \<Rightarrow> string \<Rightarrow> ('x, outcome) cp" where
  "gate_verify P G tid actor cid =
     bnd (gate_require tid) (\<lambda>rec.
       if lifecycle rec \<in> {Decommissioned, Suspended, Quarantined} then
         raise (ProvisioningError ''illegal lifecycle transition'')
       else bnd (gate_enter rec tid actor cid) (\<lambda>entered.
         case entered of
           Inl verdict \<Rightarrow> ret verdict
         | Inr rec1 \<Rightarrow> gate_checks P G rec1 tid actor cid))"

definition gate_reassociate ::
    "'x cp_ports \<Rightarrow> gate_config \<Rightarrow> string \<Rightarrow> secret_ref \<Rightarrow> string \<Rightarrow> string \<Rightarrow> ('x, outcome) cp" where
  "gate_reassociate P G tid new_ref actor cid =
     bnd (gate_require tid) (\<lambda>rec.
       if lifecycle rec \<in> {Quarantined, Decommissioned} then
         raise (ProvisioningError ''illegal lifecycle transition'')
       else tries (swap_and_audit rec (\<lambda>r. r\<lparr>database_association_ref := new_ref\<rparr>) Verifying
                     DATABASE_ASSOCIATED actor cid)
              conflict_to_provisioning
              (\<lambda>_. andthen (audit_event tid SECRET_REFERENCE_REGISTERED actor cid)
                   (andthen (audit_event tid REGISTRY_MAPPING_CHANGED actor cid)
                   (andthen (gate_invalidate P tid actor cid)
                   (gate_verify P G tid actor cid)))))"

definition gate_disable_routing :: "'x cp_ports \<Rightarrow> string \<Rightarrow> string \<Rightarrow> string \<Rightarrow> ('x, unit) cp" where
  "gate_disable_routing P tid actor cid =
     andthen (ledger_drop tid)
     (andthen (audit_event tid ROUTING_DISABLED actor cid)
     (gate_invalidate P tid actor cid))"

section \<open>The gate is lawful\<close>

definition ports_lawful :: "'x cp_ports \<Rightarrow> bool" where
  "ports_lawful P \<longleftrightarrow>
     (\<forall>r. keeps disciplined (p_probe P r)) \<and> keeps disciplined (p_token P)
     \<and> (\<forall>r t n. keeps disciplined (p_gather P r t n)) \<and> (\<forall>t c. keeps disciplined (p_invalidate P t c))
     \<and> (\<forall>t g. keeps disciplined (p_provision P t g)) \<and> (\<forall>g. keeps disciplined (p_deprovision P g))
     \<and> (\<forall>t g r. keeps disciplined (p_apply_schema P t g r))
     \<and> keeps disciplined (p_list_candidates P) \<and> (\<forall>g. keeps disciplined (p_database_exists P g))
     \<and> (\<forall>g. keeps disciplined (p_inspect P g)) \<and> keeps disciplined (p_control_name P)"

lemma keeps_conflict [keeps_rules]: "keeps disciplined (conflict_to_provisioning e)"
  unfolding conflict_to_provisioning_def by (intro keeps_rules)

lemma triple_conflict: "(\<And>w. Pr w \<Longrightarrow> E (if e = ControlStoreConcurrencyError
      then ProvisioningError ''concurrent lifecycle transition'' else e) w)
    \<Longrightarrow> triple disciplined Pr (conflict_to_provisioning e) Q E"
  unfolding conflict_to_provisioning_def by (auto intro!: disc.triple_raise)

lemma gate_require_triple:
  "triple disciplined sane (gate_require tid) (\<lambda>rec w. seen rec w \<and> tenant_id rec = tid) (\<lambda>_. sane)"
  unfolding gate_require_def
  by (intro triple_world_get) (auto intro!: disc.triple_raise disc.triple_ret split: option.split)

lemma gate_transition_triple:
  assumes "onward (lifecycle rec) to_state"
  shows "triple disciplined (seen rec) (gate_transition rec to_state action actor cid)
    (\<lambda>p w. seen p w \<and> tenant_id p = tenant_id rec \<and> lifecycle p = to_state
       \<and> rec_version p = rec_version rec + 1 \<and> get_tenant (store w) (tenant_id rec) = Some p)
    (\<lambda>e w. e = ControlStoreConcurrencyError \<and> sane w)"
  unfolding gate_transition_def by (rule swap_and_audit_triple) (simp_all add: assms)

lemmas keep_seen = keeps_stable[OF _ seen_stable]
lemmas keep_sane = keeps_stable[OF _ sane_stable]

lemma gate_fail_triple:
  assumes "lifecycle rec = Verifying"
  shows "triple disciplined (seen rec) (gate_fail rec result why event_action actor cid anomaly)
    (\<lambda>v w. sane w \<and> v = mk_outcome result why) (\<lambda>e w. sane w)"
proof -
  let ?body = "if anomaly then
          andthen (gate_transition rec Quarantined event_action actor cid)
          (andthen (audit_event (tenant_id rec) TENANT_QUARANTINED actor cid)
                   (audit_event (tenant_id rec) EV_ISOLATION_ANOMALY actor cid))
        else andthen (gate_transition rec Failed event_action actor cid) (ret ())"
  have body: "triple disciplined (seen rec) ?body (\<lambda>_. sane) (\<lambda>_. sane)"
    by (intro triple_if disc.triple_andthen[where Q' = sane] keep_sane[OF keeps_audit_event]
        disc.triple_ret triple_conseq[OF gate_transition_triple])
      (auto simp: assms seen_def)
  show ?thesis
    unfolding gate_fail_def
  proof (rule disc.triple_andthen)
    show "triple disciplined (seen rec) (ledger_drop (tenant_id rec)) (\<lambda>_. seen rec) (\<lambda>_. sane)"
      by (rule triple_conseq[OF keep_seen[OF keeps_ledger_drop]]) (auto dest: seen_sane)
    show "triple disciplined (seen rec) (tries ?body conflict_to_provisioning (\<lambda>_. ret (mk_outcome result why)))
        (\<lambda>v w. sane w \<and> v = mk_outcome result why) (\<lambda>_. sane)"
      by (rule disc.triple_tries[OF body]) (rule triple_conflict, simp, rule disc.triple_ret, simp)
  qed
qed

text \<open>What a readiness verdict promises about the state it leaves.\<close>

definition evidence_holds :: "gate_config \<Rightarrow> string \<Rightarrow> evidence \<Rightarrow> bool" where
  "evidence_holds G tid e \<longleftrightarrow> system_identifier e \<noteq> [] \<and> database_identity e \<noteq> []
     \<and> sentinel_written e \<and> truthy_opt (sentinel_token e)
     \<and> observed_target e = tenant_database_name tid \<and> \<not> collides_control e (g_control G)"

definition ready_proven :: "gate_config \<Rightarrow> string \<Rightarrow> 'x cp_world \<Rightarrow> bool" where
  "ready_proven G tid w \<longleftrightarrow> (\<exists>r e. get_tenant (store w) tid = Some r \<and> lifecycle r = Ready
     \<and> dict_get (ledger w) tid = Some e \<and> evidence_holds G tid e)"

lemma ledger_record_triple:
  "triple disciplined (seen rec) (ledger_record tid e)
     (\<lambda>_ w. seen rec w \<and> dict_get (ledger w) tid = Some e)
     (\<lambda>ex w. seen rec w \<and> ex = DistinctnessCollisionError)"
proof (rule tripleI)
  fix w :: "'x cp_world" and r w'
  assume s: "seen rec w" and run: "ledger_record tid e w = (r, w')"
  from keepsD[OF keeps_ledger_record run] have d: "disciplined w w'" .
  with s seen_stable have "seen rec w'" by (auto simp: stable_def)
  with d run show "disciplined w w' \<and> (\<forall>a. r = Inr a \<longrightarrow> seen rec w' \<and> dict_get (ledger w') tid = Some e)
      \<and> (\<forall>ex. r = Inl ex \<longrightarrow> seen rec w' \<and> ex = DistinctnessCollisionError)"
    by (auto simp: ledger_record_def record_evidence_def split: if_splits)
qed

lemma gate_commit_triple:
  assumes v: "lifecycle rec = Verifying" "tenant_id rec = tid" and e: "evidence_holds G tid ev"
  shows "triple disciplined (seen rec) (gate_commit rec tid ev verdict actor cid)
    (\<lambda>o1 w. sane w \<and> (routable o1 \<longrightarrow> ready_proven G tid w)) (\<lambda>_. sane)"
proof -
  let ?K = "\<lambda>w. dict_get (ledger w) tid = Some ev"
  have trans: "triple disciplined (\<lambda>w. seen rec w \<and> ?K w)
      (gate_transition rec Ready DISTINCTNESS_VERIFICATION_PASSED actor cid)
      (\<lambda>p w. sane w \<and> ready_proven G tid w) (\<lambda>_. sane)"
    by (rule triple_conseq[OF triple_frame[OF gate_transition_triple, where K = ?K]])
      (use v e in \<open>auto simp: gate_transition_def seen_def ready_proven_def\<close>)
  have event: "triple disciplined (\<lambda>w. sane w \<and> ready_proven G tid w) (audit_event tid ROUTING_ENABLED actor cid)
      (\<lambda>_ w. sane w \<and> ready_proven G tid w) (\<lambda>_. sane)"
    by (rule triple_conseq[OF triple_frame[OF keep_sane[OF keeps_audit_event]]])
      (auto simp: ready_proven_def)
  have last: "triple disciplined (\<lambda>w. sane w \<and> ready_proven G tid w)
      (andthen (audit_event tid ROUTING_ENABLED actor cid) (ret verdict))
      (\<lambda>o1 w. sane w \<and> (routable o1 \<longrightarrow> ready_proven G tid w)) (\<lambda>_. sane)"
    by (rule disc.triple_andthen[OF event]) (rule disc.triple_ret, simp)
  have collide: "triple disciplined (seen rec)
      (gate_fail rec ISOLATION_ANOMALY REASON_TENANT_COLLISION DISTINCTNESS_VERIFICATION_FAILED actor cid True)
      (\<lambda>o1 w. sane w \<and> (routable o1 \<longrightarrow> ready_proven G tid w)) (\<lambda>_. sane)"
    by (rule triple_conseq[OF gate_fail_triple[OF v(1)]]) (auto simp: routable_def mk_outcome_def)
  show ?thesis
    unfolding gate_commit_def
  proof (rule disc.triple_tries[OF ledger_record_triple])
    show "triple disciplined (\<lambda>w. seen rec w \<and> e = DistinctnessCollisionError)
       (if e = DistinctnessCollisionError
        then gate_fail rec ISOLATION_ANOMALY REASON_TENANT_COLLISION DISTINCTNESS_VERIFICATION_FAILED actor cid True
        else raise e)
       (\<lambda>o1 w. sane w \<and> (routable o1 \<longrightarrow> ready_proven G tid w)) (\<lambda>_. sane)" for e
      by (rule triple_pure) (simp add: collide)
  qed (rule disc.triple_tries[OF trans], rule triple_conflict, simp, rule last)
qed

abbreviation verdict_post :: "gate_config \<Rightarrow> string \<Rightarrow> outcome \<Rightarrow> 'x cp_world \<Rightarrow> bool" where
  "verdict_post G tid \<equiv> (\<lambda>o1 w. sane w \<and> (routable o1 \<longrightarrow> ready_proven G tid w))"

lemma gate_fail_post:
  assumes "lifecycle rec = Verifying" and "result \<noteq> VERIFIED"
  shows "triple disciplined (seen rec) (gate_fail rec result why ev actor cid an)
    (verdict_post G tid) (\<lambda>_. sane)"
  by (rule triple_conseq[OF gate_fail_triple[OF assms(1)]])
    (use assms(2) in \<open>auto simp: routable_def mk_outcome_def\<close>)

lemma port_seen: "keeps disciplined m \<Longrightarrow> triple disciplined (seen rec) m (\<lambda>_. seen rec) (\<lambda>_. sane)"
  by (rule triple_conseq[OF keep_seen]) (auto dest: seen_sane)

lemma gate_reject_triple:
  assumes rec: "lifecycle rec = Verifying" and bad: "out_result verdict \<noteq> VERIFIED"
  shows "triple disciplined (seen rec) (gate_reject rec tid verdict actor cid)
     (verdict_post G tid) (\<lambda>_. sane)"
proof -
  have f: "triple disciplined (seen rec) (gate_fail rec (out_result verdict) (out_reason verdict) ev actor cid an)
      (\<lambda>_. sane) (\<lambda>_. sane)" for ev an
    by (rule triple_conseq[OF gate_fail_triple[OF rec]]) auto
  show ?thesis
    unfolding gate_reject_def
    by (rule disc.triple_andthen[OF port_seen[OF keeps_ledger_drop]],
        rule disc.triple_andthen[where Q' = sane], intro triple_if f)
      (use bad in \<open>auto simp: routable_def intro!: disc.triple_ret\<close>)
qed

lemma gate_distinctness_triple:
  assumes P: "ports_lawful P" and rec: "lifecycle rec = Verifying" "tenant_id rec = tid"
  shows "triple disciplined (seen rec) (gate_distinctness P G rec tid actor cid)
    (verdict_post G tid) (\<lambda>_. sane)"
  unfolding gate_distinctness_def
proof (rule disc.triple_bnd[OF port_seen], use P in \<open>simp add: ports_lawful_def\<close>,
       rule disc.triple_bnd[OF port_seen], use P in \<open>simp add: ports_lawful_def\<close>,
       rule disc.triple_bnd[OF port_seen[OF disc.keeps_reads]])
  fix token :: string and ev :: "evidence option" and inventory :: ledger_map
  let ?v = "verify_distinct tid ev (tenant_database_name tid) (g_control G) inventory"
  show "triple disciplined (seen rec)
     (let verdict = ?v in case (if out_result verdict = VERIFIED then ev else None) of
         Some e \<Rightarrow> gate_commit rec tid e verdict actor cid
       | None \<Rightarrow> gate_reject rec tid verdict actor cid)
     (verdict_post G tid) (\<lambda>_. sane)"
  proof (cases "out_result ?v = VERIFIED")
    case True
    then obtain e where e: "ev = Some e" "evidence_holds G tid e"
      by (auto simp: verify_distinct_verified evidence_holds_def)
    with True show ?thesis by (simp add: Let_def gate_commit_triple[OF rec e(2)])
  next
    case False
    then show ?thesis by (simp add: Let_def gate_reject_triple[OF rec(1)])
  qed
qed

lemma gate_checks_triple:
  assumes P: "ports_lawful P" and rec: "lifecycle rec = Verifying" "tenant_id rec = tid"
  shows "triple disciplined (seen rec) (gate_checks P G rec tid actor cid) (verdict_post G tid) (\<lambda>_. sane)"
  unfolding gate_checks_def
  by (rule disc.triple_bnd[OF port_seen], use P in \<open>simp add: ports_lawful_def\<close>, intro triple_if)
    (auto intro: gate_fail_post[OF rec(1)] gate_distinctness_triple[OF P rec])

lemma gate_enter_triple:
  assumes "lifecycle rec \<notin> {Decommissioned, Suspended, Quarantined}" and "tenant_id rec = tid"
  shows "triple disciplined (seen rec) (gate_enter rec tid actor cid)
    (\<lambda>x w. sane w \<and> (case x of Inl o1 \<Rightarrow> \<not> routable o1
        | Inr r \<Rightarrow> seen r w \<and> lifecycle r = Verifying \<and> tenant_id r = tid)) (\<lambda>_. sane)"
  (is "triple _ _ _ ?Q _")
proof -
  have on: "onward (lifecycle r) Verifying" if "lifecycle r \<notin> {Quarantined, Decommissioned}" for r
    using that by (cases "lifecycle r") simp_all
  have into: "triple disciplined (seen r) (gate_transition r Verifying DISTINCTNESS_VERIFICATION_STARTED actor cid)
      (\<lambda>p. ?Q (Inr p)) (\<lambda>e w. e = ControlStoreConcurrencyError \<and> sane w)"
    if "lifecycle r \<notin> {Quarantined, Decommissioned}" "tenant_id r = tid" for r
    by (rule triple_conseq[OF gate_transition_triple[OF on[OF that(1)]]])
      (use that(2) in \<open>auto dest: seen_sane\<close>)
  have retry: "triple disciplined sane (bnd (gate_require tid) (\<lambda>fresh.
              if lifecycle fresh \<in> {Suspended, Quarantined, Decommissioned, Failed} then
                ret (Inl (mk_outcome VERIFICATION_INCOMPLETE REASON_CONCURRENT_LIFECYCLE_WINNER))
              else if lifecycle fresh \<in> {Verifying, Provisioning} then
                tries (gate_transition fresh Verifying DISTINCTNESS_VERIFICATION_STARTED actor cid)
                  conflict_to_provisioning (\<lambda>rec2. ret (Inr rec2))
              else raise (ProvisioningError ''concurrent lifecycle transition''))) ?Q (\<lambda>_. sane)"
    (is "triple _ _ (bnd _ ?f) _ _")
  proof (rule disc.triple_bnd[OF gate_require_triple])
    fix fresh
    show "triple disciplined (\<lambda>w. seen fresh w \<and> tenant_id fresh = tid) (?f fresh) ?Q (\<lambda>_. sane)"
      by (intro triple_pure triple_if disc.triple_tries[OF into] disc.triple_ret disc.triple_raise triple_conflict)
        (auto simp: routable_def mk_outcome_def dest: seen_sane)
  qed
  show ?thesis
    unfolding gate_enter_def
  proof (rule disc.triple_tries[OF into])
    show "triple disciplined (\<lambda>w. e = ControlStoreConcurrencyError \<and> sane w)
       (if e \<noteq> ControlStoreConcurrencyError then raise e else bnd (gate_require tid) (\<lambda>fresh.
              if lifecycle fresh \<in> {Suspended, Quarantined, Decommissioned, Failed} then
                ret (Inl (mk_outcome VERIFICATION_INCOMPLETE REASON_CONCURRENT_LIFECYCLE_WINNER))
              else if lifecycle fresh \<in> {Verifying, Provisioning} then
                tries (gate_transition fresh Verifying DISTINCTNESS_VERIFICATION_STARTED actor cid)
                  conflict_to_provisioning (\<lambda>rec2. ret (Inr rec2))
              else raise (ProvisioningError ''concurrent lifecycle transition''))) ?Q (\<lambda>_. sane)" for e
      by (intro triple_if disc.triple_raise triple_conseq[OF retry]) auto
  qed (use assms in \<open>auto intro!: disc.triple_ret\<close>)
qed

lemma gate_verify_triple:
  assumes P: "ports_lawful P"
  shows "triple disciplined sane (gate_verify P G tid actor cid) (verdict_post G tid) (\<lambda>_. sane)"
  unfolding gate_verify_def
proof (rule disc.triple_bnd[OF gate_require_triple])
  fix rec
  show "triple disciplined (\<lambda>w. seen rec w \<and> tenant_id rec = tid)
     (if lifecycle rec \<in> {Decommissioned, Suspended, Quarantined} then
         raise (ProvisioningError ''illegal lifecycle transition'')
       else bnd (gate_enter rec tid actor cid) (\<lambda>entered.
         case entered of
           Inl verdict \<Rightarrow> ret verdict
         | Inr rec1 \<Rightarrow> gate_checks P G rec1 tid actor cid))
     (verdict_post G tid) (\<lambda>_. sane)"
  proof (intro triple_pure triple_if)
    assume "lifecycle rec \<notin> {Decommissioned, Suspended, Quarantined}" and "tenant_id rec = tid"
    from gate_enter_triple[OF this]
    show "triple disciplined (seen rec) (bnd (gate_enter rec tid actor cid) (\<lambda>entered.
         case entered of Inl verdict \<Rightarrow> ret verdict | Inr rec1 \<Rightarrow> gate_checks P G rec1 tid actor cid))
       (verdict_post G tid) (\<lambda>_. sane)"
    proof (rule disc.triple_bnd)
      fix x :: "outcome + tenant_record"
      show "triple disciplined (\<lambda>w. sane w \<and> (case x of Inl o1 \<Rightarrow> \<not> routable o1
          | Inr r \<Rightarrow> seen r w \<and> lifecycle r = Verifying \<and> tenant_id r = tid))
         (case x of Inl verdict \<Rightarrow> ret verdict | Inr rec1 \<Rightarrow> gate_checks P G rec1 tid actor cid)
         (verdict_post G tid) (\<lambda>_. sane)"
      proof (cases x)
        case (Inl o1)
        then show ?thesis by (auto intro!: disc.triple_ret)
      next
        case (Inr r)
        then show ?thesis
          using gate_checks_triple[OF P, of r tid G actor cid] unfolding triple_def by auto
      qed
    qed
  qed (auto intro!: disc.triple_raise dest: seen_sane)
qed

lemma keeps_gate_verify [keeps_rules]: "ports_lawful P \<Longrightarrow> keeps disciplined (gate_verify P G tid actor cid)"
  by (rule keeps_from_sane) (rule gate_verify_triple)

lemma keeps_gate_invalidate [keeps_rules]: "ports_lawful P \<Longrightarrow> keeps disciplined (gate_invalidate P tid actor cid)"
  unfolding gate_invalidate_def by (intro keeps_rules) (simp add: ports_lawful_def)

lemma keeps_gate_disable_routing [keeps_rules]:
  "ports_lawful P \<Longrightarrow> keeps disciplined (gate_disable_routing P tid actor cid)"
  unfolding gate_disable_routing_def by (intro keeps_rules)

lemma gate_reassociate_triple:
  assumes P: "ports_lawful P"
  shows "triple disciplined sane (gate_reassociate P G tid new_ref actor cid) (verdict_post G tid) (\<lambda>_. sane)"
  unfolding gate_reassociate_def
proof (rule disc.triple_bnd[OF gate_require_triple], intro triple_pure triple_if)
  fix rec :: tenant_record assume rec: "lifecycle rec \<notin> {Quarantined, Decommissioned}"
  have on: "onward (lifecycle rec) Verifying" using rec by (cases "lifecycle rec") simp_all
  have swap: "triple disciplined (seen rec) (swap_and_audit rec (\<lambda>r. r\<lparr>database_association_ref := new_ref\<rparr>)
      Verifying DATABASE_ASSOCIATED actor cid) (\<lambda>_. sane) (\<lambda>_. sane)"
    by (rule triple_conseq[OF swap_and_audit_triple[OF _ _ on]]) (auto dest: seen_sane)
  have rest: "triple disciplined sane (andthen (audit_event tid SECRET_REFERENCE_REGISTERED actor cid)
       (andthen (audit_event tid REGISTRY_MAPPING_CHANGED actor cid)
       (andthen (gate_invalidate P tid actor cid) (gate_verify P G tid actor cid))))
      (verdict_post G tid) (\<lambda>_. sane)"
    by (intro disc.triple_andthen[OF keep_sane] gate_verify_triple[OF P] keeps_audit_event keeps_gate_invalidate P)
  show "triple disciplined (seen rec) (tries (swap_and_audit rec (\<lambda>r. r\<lparr>database_association_ref := new_ref\<rparr>)
        Verifying DATABASE_ASSOCIATED actor cid) conflict_to_provisioning
       (\<lambda>_. andthen (audit_event tid SECRET_REFERENCE_REGISTERED actor cid)
            (andthen (audit_event tid REGISTRY_MAPPING_CHANGED actor cid)
            (andthen (gate_invalidate P tid actor cid) (gate_verify P G tid actor cid)))))
      (verdict_post G tid) (\<lambda>_. sane)"
    by (rule disc.triple_tries[OF swap]) (rule triple_conflict, simp, rule rest)
qed (auto intro!: disc.triple_raise dest: seen_sane)

lemma keeps_gate_reassociate [keeps_rules]:
  "ports_lawful P \<Longrightarrow> keeps disciplined (gate_reassociate P G tid new_ref actor cid)"
  by (rule keeps_from_sane) (rule gate_reassociate_triple)

end
