(* ===== verification/CP_GateSpec.thy ===== *)
theory CP_GateSpec
  imports CP_Provisioning
begin

text \<open>
  The gate against its specification, for undisturbed runs: no concurrent writer is scheduled and
  the ports leave the control plane's own state alone (they may fail, and may change the outside
  world). Then a verdict determines the stored lifecycle state and the audit records of the run.
\<close>

section \<open>Undisturbed runs\<close>

definition quiet :: "('x, 'a) cp \<Rightarrow> bool" where
  "quiet m \<longleftrightarrow> (\<forall>w. store (snd (m w)) = store w \<and> ledger (snd (m w)) = ledger w
     \<and> writers (snd (m w)) = writers w)"

definition ports_quiet :: "'x cp_ports \<Rightarrow> bool" where
  "ports_quiet P \<longleftrightarrow>
     (\<forall>r. quiet (p_probe P r)) \<and> quiet (p_token P)
     \<and> (\<forall>r t n. quiet (p_gather P r t n)) \<and> (\<forall>t c. quiet (p_invalidate P t c))
     \<and> (\<forall>t g. quiet (p_provision P t g)) \<and> (\<forall>g. quiet (p_deprovision P g))
     \<and> (\<forall>t g r. quiet (p_apply_schema P t g r))
     \<and> quiet (p_list_candidates P) \<and> (\<forall>g. quiet (p_database_exists P g))
     \<and> (\<forall>g. quiet (p_inspect P g)) \<and> quiet (p_control_name P)"

definition trail :: "'x cp_world \<Rightarrow> string list" where
  "trail w = map aud_action (audit_log (store w))"

text \<open>\<open>at rec T w\<close>: nobody else writes, \<open>rec\<close> is the stored record, and the audit actions so far are \<open>T\<close>.\<close>

definition at :: "tenant_record \<Rightarrow> string list \<Rightarrow> 'x cp_world \<Rightarrow> bool" where
  "at rec T w \<longleftrightarrow> sane w \<and> writers w = [] \<and> get_tenant (store w) (tenant_id rec) = Some rec \<and> trail w = T"

lemma quiet_sane: "quiet m \<Longrightarrow> sane w \<Longrightarrow> sane (snd (m w))"
  unfolding sane_def quiet_def by simp

lemma quiet_at: "quiet m \<Longrightarrow> triple (\<lambda>_ _. True) (at rec T) m (\<lambda>_. at rec T) (\<lambda>_. at rec T)"
  by (rule tripleI) (metis at_def quiet_def quiet_sane snd_conv trail_def)

lemma at_frame:
  "\<lbrakk>at rec T w; store w' = append_audit a (store w); aud_action a = ac; ledger w' = ledger w; writers w' = writers w\<rbrakk>
    \<Longrightarrow> at rec (T @ [ac]) w'"
  unfolding at_def trail_def sane_def by auto

lemma audit_event_at:
  "triple (\<lambda>_ _. True) (at rec T) (audit_event tid ac actor cid) (\<lambda>_. at rec (T @ [ac])) (\<lambda>_ _. False)"
  by (rule tripleI)
    (auto simp: audit_event_def audit_record_def now_iso_def Let_def intro!: at_frame)

lemma ledger_drop_at: "triple (\<lambda>_ _. True) (at rec T) (ledger_drop tid) (\<lambda>_. at rec T) (\<lambda>_ _. False)"
  by (rule tripleI) (auto simp: ledger_drop_def at_def trail_def mem_ledger.remove_entry)

lemma swap_and_audit_at:
  assumes chg: "\<And>x. tenant_id (chg x) = tenant_id x" "\<And>x. lifecycle (chg x) = lifecycle x"
  shows "triple (\<lambda>_ _. True) (at rec T) (swap_and_audit rec chg to_state ac actor cid)
    (\<lambda>p w. at p (T @ [ac]) w \<and> lifecycle p = to_state \<and> tenant_id p = tenant_id rec
       \<and> rec_version p = rec_version rec + 1) (\<lambda>_ _. False)"
proof (rule tripleI)
  fix w :: "'x cp_world" and r w'
  assume at: "at rec T w" and run: "swap_and_audit rec chg to_state ac actor cid w = (r, w')"
  let ?u = "chg (rec\<lparr>lifecycle := to_state, updated_at := clock w (tick w)\<rparr>)"
  let ?p = "?u\<lparr>rec_version := rec_version rec + 1\<rparr>"
  let ?s = "(store w)\<lparr>tenants := dict_put (tenant_id rec) ?p (tenants (store w))\<rparr>"
  have w: "sane w" "writers w = []" "get_tenant (store w) (tenant_id rec) = Some rec" "trail w = T"
    using at by (simp_all add: at_def)
  have cas: "world_cas ?u (rec_version rec) (w\<lparr>tick := Suc (tick w)\<rparr>) = (Inr ?p, w\<lparr>tick := Suc (tick w), store := ?s\<rparr>)"
    using w cas_hit[of "store w" ?u rec "rec_version rec"]
    by (simp add: world_cas_def env_step_def chg)
  have "store_ok ?s" using sane_parts(1)[OF w(1)] chg by (auto simp: store_ok_def get_tenant_def)
  then have "at ?p T (w\<lparr>tick := Suc (tick w), store := ?s\<rparr>)"
    using w chg by (simp add: at_def trail_def get_tenant_def)
  then show "True \<and> (\<forall>p. r = Inr p \<longrightarrow> at p (T @ [ac]) w' \<and> lifecycle p = to_state
      \<and> tenant_id p = tenant_id rec \<and> rec_version p = rec_version rec + 1) \<and> (\<forall>e. r = Inl e \<longrightarrow> False)"
    using run cas chg by (auto simp: swap_and_audit_def now_iso_def audit_record_def Let_def intro!: at_frame)
qed

section \<open>The specification\<close>

definition verdict_state :: "distinctness_result \<Rightarrow> lifecycle_state" where
  "verdict_state r = (case r of VERIFIED \<Rightarrow> Ready | ISOLATION_ANOMALY \<Rightarrow> Quarantined
     | VERIFICATION_INCOMPLETE \<Rightarrow> Failed | VERIFICATION_FAILED \<Rightarrow> Failed)"

definition verdict_trail :: "distinctness_result \<Rightarrow> string list" where
  "verdict_trail r = (case r of
       VERIFIED \<Rightarrow> [DISTINCTNESS_VERIFICATION_PASSED, ROUTING_ENABLED]
     | ISOLATION_ANOMALY \<Rightarrow> [DISTINCTNESS_VERIFICATION_FAILED, TENANT_QUARANTINED, EV_ISOLATION_ANOMALY]
     | VERIFICATION_INCOMPLETE \<Rightarrow> [EV_VERIFICATION_INCOMPLETE]
     | VERIFICATION_FAILED \<Rightarrow> [DISTINCTNESS_VERIFICATION_FAILED])"

text \<open>\<open>rests tid st T w\<close>: the tenant rests in state \<open>st\<close> and the audit actions so far are \<open>T\<close>.\<close>

definition rests :: "string \<Rightarrow> lifecycle_state \<Rightarrow> string list \<Rightarrow> 'x cp_world \<Rightarrow> bool" where
  "rests tid st T w \<longleftrightarrow> (\<exists>p. at p T w \<and> tenant_id p = tid \<and> lifecycle p = st)"

definition concluded :: "string \<Rightarrow> string list \<Rightarrow> distinctness_result \<Rightarrow> 'x cp_world \<Rightarrow> bool" where
  "concluded tid T res w \<longleftrightarrow> rests tid (verdict_state res) (T @ verdict_trail res) w"

abbreviation nofail :: "cp_error \<Rightarrow> 'x cp_world \<Rightarrow> bool" where
  "nofail \<equiv> (\<lambda>_ _. False)"

section \<open>The gate meets it\<close>

lemma conflict_nofail: "triple R (\<lambda>_. False) m Q E"
  by (simp add: triple_def)

lemma event_rests:
  "triple (\<lambda>_ _. True) (rests tid st T) (audit_event t ac actor cid) (\<lambda>_. rests tid st (T @ [ac])) nofail"
proof (rule tripleI)
  fix w :: "'x cp_world" and r w' assume "rests tid st T w" and run: "audit_event t ac actor cid w = (r, w')"
  then obtain p where p: "at p T w" "tenant_id p = tid" "lifecycle p = st" by (auto simp: rests_def)
  from tripleD[OF audit_event_at p(1) run] p
  show "True \<and> (\<forall>a. r = Inr a \<longrightarrow> rests tid st (T @ [ac]) w') \<and> (\<forall>e. r = Inl e \<longrightarrow> False)"
    by (auto simp: rests_def)
qed

lemma transition_rests:
  "triple (\<lambda>_ _. True) (at rec T) (gate_transition rec st ac actor cid)
     (\<lambda>_. rests (tenant_id rec) st (T @ [ac])) nofail"
  unfolding gate_transition_def
  by (rule triple_conseq[OF swap_and_audit_at]) (auto simp: rests_def)

lemma gate_fail_concluded:
  assumes "result \<noteq> VERIFIED" and an: "anomaly \<longleftrightarrow> result = ISOLATION_ANOMALY"
    and ev: "ev = (if result = VERIFICATION_INCOMPLETE then EV_VERIFICATION_INCOMPLETE
               else DISTINCTNESS_VERIFICATION_FAILED)"
  shows "triple (\<lambda>_ _. True) (at rec T) (gate_fail rec result why ev actor cid anomaly)
    (\<lambda>o1 w. o1 = mk_outcome result why \<and> concluded (tenant_id rec) T result w) nofail"
proof -
  let ?tid = "tenant_id rec"
  have hold: "triple (\<lambda>_ _. True) (at rec T)
      (andthen (gate_transition rec Quarantined ev actor cid)
        (andthen (audit_event ?tid TENANT_QUARANTINED actor cid)
                 (audit_event ?tid EV_ISOLATION_ANOMALY actor cid)))
      (\<lambda>_. concluded ?tid T result) nofail" if anomaly
    by (rule any.triple_andthen[OF transition_rests], rule any.triple_andthen[OF event_rests],
        rule triple_conseq[OF event_rests])
      (use that an ev in \<open>auto simp: concluded_def verdict_state_def verdict_trail_def\<close>)
  have stop: "triple (\<lambda>_ _. True) (at rec T) (andthen (gate_transition rec Failed ev actor cid) (ret ()))
      (\<lambda>_. concluded ?tid T result) nofail" if "\<not> anomaly"
    by (rule any.triple_andthen[OF transition_rests], rule any.triple_ret)
      (use that assms in \<open>cases result, auto simp: concluded_def verdict_state_def verdict_trail_def\<close>)
  have body: "triple (\<lambda>_ _. True) (at rec T)
      (if anomaly then andthen (gate_transition rec Quarantined ev actor cid)
          (andthen (audit_event ?tid TENANT_QUARANTINED actor cid) (audit_event ?tid EV_ISOLATION_ANOMALY actor cid))
       else andthen (gate_transition rec Failed ev actor cid) (ret ()))
      (\<lambda>_. concluded ?tid T result) nofail"
    using hold stop by (rule triple_if)
  show ?thesis
    unfolding gate_fail_def
    by (rule any.triple_andthen[OF ledger_drop_at], rule any.triple_tries[OF body],
        rule conflict_nofail, rule any.triple_ret) simp
qed

lemma gate_reject_concluded:
  assumes "out_result verdict \<noteq> VERIFIED" and "out_result verdict \<noteq> VERIFICATION_FAILED"
    and "tenant_id rec = tid"
  shows "triple (\<lambda>_ _. True) (at rec T) (gate_reject rec tid verdict actor cid)
    (\<lambda>o1. concluded tid T (out_result o1)) nofail"
proof -
  let ?f = "gate_fail rec (out_result verdict) (out_reason verdict)"
  have f: "triple (\<lambda>_ _. True) (at rec T)
     (if is_anomaly verdict then ?f DISTINCTNESS_VERIFICATION_FAILED actor cid True
      else if out_result verdict = VERIFICATION_INCOMPLETE then ?f EV_VERIFICATION_INCOMPLETE actor cid False
      else ?f DISTINCTNESS_VERIFICATION_FAILED actor cid False)
     (\<lambda>_. concluded tid T (out_result verdict)) nofail"
    by (intro triple_if triple_conseq[OF gate_fail_concluded])
      (use assms in \<open>auto simp: is_anomaly_def\<close>)
  show ?thesis
    unfolding gate_reject_def
    by (rule any.triple_andthen[OF ledger_drop_at], rule any.triple_andthen[OF f], rule any.triple_ret) simp
qed

lemma ledger_record_at:
  "triple (\<lambda>_ _. True) (at rec T) (ledger_record tid e) (\<lambda>_. at rec T)
     (\<lambda>ex w. at rec T w \<and> ex = DistinctnessCollisionError)"
proof (rule tripleI)
  fix w :: "'x cp_world" and r w' assume at: "at rec T w" and run: "ledger_record tid e w = (r, w')"
  have "one_holder (snd (record_evidence tid e (ledger w)))"
    using at by (simp add: at_def mem_ledger.record_ok)
  with at run show "True \<and> (\<forall>a. r = Inr a \<longrightarrow> at rec T w')
      \<and> (\<forall>ex. r = Inl ex \<longrightarrow> at rec T w' \<and> ex = DistinctnessCollisionError)"
    by (auto simp: ledger_record_def record_evidence_def at_def trail_def split: if_splits)
qed

lemma gate_commit_concluded:
  assumes "out_result verdict = VERIFIED" and "tenant_id rec = tid"
  shows "triple (\<lambda>_ _. True) (at rec T) (gate_commit rec tid e verdict actor cid)
    (\<lambda>o1. concluded tid T (out_result o1)) nofail"
  unfolding gate_commit_def
proof (rule any.triple_tries[OF ledger_record_at])
  show "triple (\<lambda>_ _. True) (\<lambda>w. at rec T w \<and> ex = DistinctnessCollisionError)
     (if ex = DistinctnessCollisionError
      then gate_fail rec ISOLATION_ANOMALY REASON_TENANT_COLLISION DISTINCTNESS_VERIFICATION_FAILED actor cid True
      else raise ex) (\<lambda>o1. concluded tid T (out_result o1)) nofail" for ex
    by (rule triple_pure)
      (use assms in \<open>auto simp: mk_outcome_def intro!: triple_conseq[OF gate_fail_concluded]\<close>)
  show "triple (\<lambda>_ _. True) (at rec T)
     (tries (gate_transition rec Ready DISTINCTNESS_VERIFICATION_PASSED actor cid) conflict_to_provisioning
        (\<lambda>_. andthen (audit_event tid ROUTING_ENABLED actor cid) (ret verdict)))
     (\<lambda>o1. concluded tid T (out_result o1)) nofail"
    by (rule any.triple_tries[OF transition_rests], rule conflict_nofail,
        rule any.triple_andthen[OF event_rests], rule any.triple_ret)
      (use assms in \<open>simp add: concluded_def verdict_state_def verdict_trail_def\<close>)
qed

abbreviation stalls :: "string \<Rightarrow> string list \<Rightarrow> cp_error \<Rightarrow> 'x cp_world \<Rightarrow> bool" where
  "stalls tid T \<equiv> (\<lambda>_. rests tid Verifying T)"

lemma port_at:
  assumes "quiet m" "lifecycle rec = Verifying" "tenant_id rec = tid"
  shows "triple (\<lambda>_ _. True) (at rec T) m (\<lambda>_. at rec T) (stalls tid T)"
  by (rule triple_conseq[OF quiet_at[OF assms(1)]]) (use assms in \<open>auto simp: rests_def\<close>)

lemma gate_checks_concluded:
  assumes P: "ports_quiet P" and rec: "lifecycle rec = Verifying" "tenant_id rec = tid"
  shows "triple (\<lambda>_ _. True) (at rec T) (gate_checks P G rec tid actor cid)
    (\<lambda>o1. concluded tid T (out_result o1)) (stalls tid T)"
proof -
  let ?post = "\<lambda>o1. concluded tid T (out_result o1)"
  have fail: "triple (\<lambda>_ _. True) (at rec T) (gate_fail rec result why ev actor cid an) ?post (stalls tid T)"
    if "result \<noteq> VERIFIED" "an \<longleftrightarrow> result = ISOLATION_ANOMALY"
      "ev = (if result = VERIFICATION_INCOMPLETE then EV_VERIFICATION_INCOMPLETE
             else DISTINCTNESS_VERIFICATION_FAILED)" for result why ev an
    by (rule triple_conseq[OF gate_fail_concluded[OF that]]) (use rec in \<open>auto simp: mk_outcome_def\<close>)
  have dist: "triple (\<lambda>_ _. True) (at rec T) (gate_distinctness P G rec tid actor cid) ?post (stalls tid T)"
    unfolding gate_distinctness_def
  proof (rule any.triple_bnd[OF port_at[OF _ rec]], use P in \<open>simp add: ports_quiet_def\<close>,
         rule any.triple_bnd[OF port_at[OF _ rec]], use P in \<open>simp add: ports_quiet_def\<close>,
         rule any.triple_bnd[OF port_at[OF _ rec]], simp add: quiet_def)
    fix ev :: "evidence option" and others
    let ?v = "verify_distinct tid ev (tenant_database_name tid) (g_control G) others"
    show "triple (\<lambda>_ _. True) (at rec T)
       (let verdict = ?v in case (if out_result verdict = VERIFIED then ev else None) of
           Some e \<Rightarrow> gate_commit rec tid e verdict actor cid
         | None \<Rightarrow> gate_reject rec tid verdict actor cid) ?post (stalls tid T)"
    proof (cases "out_result ?v = VERIFIED")
      case True
      then obtain e where "ev = Some e" by (auto simp: verify_distinct_verified)
      with True show ?thesis
        by (auto simp: Let_def intro!: triple_conseq[OF gate_commit_concluded[OF _ rec(2)]])
    next
      case False
      then show ?thesis
        by (simp add: Let_def)
          (rule triple_conseq[OF gate_reject_concluded[OF False verify_distinct_not_failed rec(2)]], auto)
    qed
  qed
  show ?thesis
    unfolding gate_checks_def
    by (rule any.triple_bnd[OF port_at[OF _ rec]], use P in \<open>simp add: ports_quiet_def\<close>,
        intro triple_if fail dist) auto
qed

lemma gate_enter_at:
  "triple (\<lambda>_ _. True) (at rec T) (gate_enter rec tid actor cid)
     (\<lambda>x w. \<exists>p. x = Inr p \<and> at p (T @ [DISTINCTNESS_VERIFICATION_STARTED]) w
        \<and> lifecycle p = Verifying \<and> tenant_id p = tenant_id rec) nofail"
  unfolding gate_enter_def gate_transition_def
  by (rule any.triple_tries[OF swap_and_audit_at])
    (auto intro!: any.triple_ret conflict_nofail)

lemma gate_verify_concluded:
  assumes P: "ports_quiet P" and at: "at rec T w"
    and rec: "tenant_id rec = tid" "lifecycle rec \<notin> {Decommissioned, Suspended, Quarantined}"
    and run: "gate_verify P G tid actor cid w = (r, w')"
  shows "case r of Inr o1 \<Rightarrow> concluded tid (T @ [DISTINCTNESS_VERIFICATION_STARTED]) (out_result o1) w'
    | Inl e \<Rightarrow> rests tid Verifying (T @ [DISTINCTNESS_VERIFICATION_STARTED]) w'"
proof -
  have req: "gate_require tid w = (Inr rec, w)"
    using at rec by (simp add: gate_require_def world_get_def at_def)
  obtain q w1 where ent: "gate_enter rec tid actor cid w = (q, w1)" by (cases "gate_enter rec tid actor cid w")
  from tripleD[OF gate_enter_at at ent] obtain p where p: "q = Inr (Inr p)"
    "at p (T @ [DISTINCTNESS_VERIFICATION_STARTED]) w1" "lifecycle p = Verifying" "tenant_id p = tid"
    using rec(1) by (cases q) auto
  have "gate_checks P G p tid actor cid w1 = (r, w')"
    using run req ent p rec(2) by (simp add: gate_verify_def)
  from tripleD[OF gate_checks_concluded[OF P p(3,4)] p(2) this]
  show ?thesis by (auto split: sum.splits)
qed

end
