(* ===== verification/CP_Onboarding.thy ===== *)
theory CP_Onboarding
  imports CP_GateSpec
begin

text \<open>
  Tenant onboarding (\<open>backend/control_plane/onboarding.py\<close>): the canonical secret reference and
  its inverse, the onboarding fence with its state-specific dispatch, the shared
  provision-apply-verify tail, automatic resumption and the explicit recovery of a failed tenant.
\<close>

section \<open>The canonical secret reference\<close>

definition TENANT_DSN_REF_PREFIX :: string where
  "TENANT_DSN_REF_PREFIX = ''tenant/''"

definition TENANT_DSN_REF_SUFFIX :: string where
  "TENANT_DSN_REF_SUFFIX = ''/dsn''"

definition tenant_dsn_ref :: "string \<Rightarrow> string" where
  "tenant_dsn_ref tid = TENANT_DSN_REF_PREFIX @ tid @ TENANT_DSN_REF_SUFFIX"

definition tenant_id_from_dsn_ref :: "string \<Rightarrow> string option" where
  "tenant_id_from_dsn_ref s =
     (if starts_with TENANT_DSN_REF_PREFIX s \<and> ends_with TENANT_DSN_REF_SUFFIX s then
        let inner = between TENANT_DSN_REF_PREFIX TENANT_DSN_REF_SUFFIX s
        in if inner \<noteq> [] \<and> CHR ''/'' \<notin> set inner then Some inner else None
      else None)"

lemma dsn_ref_inverse:
  "tenant_id_from_dsn_ref s = Some t \<longleftrightarrow> s = tenant_dsn_ref t \<and> t \<noteq> [] \<and> CHR ''/'' \<notin> set t"
  by (auto simp: tenant_id_from_dsn_ref_def tenant_dsn_ref_def Let_def split: if_splits dest: between_split)

section \<open>The orchestrator\<close>

definition terminal_onboard_reason :: "lifecycle_state \<Rightarrow> string" where
  "terminal_onboard_reason st = (case st of
      Failed \<Rightarrow> ''recover_required''
    | Quarantined \<Rightarrow> ''quarantined''
    | Suspended \<Rightarrow> ''suspended''
    | Decommissioned \<Rightarrow> ''decommissioned''
    | _ \<Rightarrow> ''already_onboarded'')"

definition provision_apply_verify ::
    "'x cp_ports \<Rightarrow> gate_config \<Rightarrow> string \<Rightarrow> string \<Rightarrow> secret_ref \<Rightarrow> string \<Rightarrow> string \<Rightarrow> ('x, outcome) cp" where
  "provision_apply_verify P G tid tgt assoc actor cid =
     andthen (audit_event tid DATABASE_PROVISION_REQUESTED actor cid)
     (tries (p_provision P tid tgt)
       (\<lambda>_. andthen (audit_event tid DATABASE_PROVISION_FAILED actor cid)
              (ret (mk_outcome VERIFICATION_INCOMPLETE ''provision_failed'')))
       (\<lambda>_. andthen (audit_event tid DATABASE_PROVISION_SUCCEEDED actor cid)
         (andthen (audit_event tid TENANT_SCHEMA_APPLICATION_STARTED actor cid)
         (tries (p_apply_schema P tid tgt assoc)
           (\<lambda>_. andthen (audit_event tid TENANT_SCHEMA_APPLICATION_FAILED actor cid)
                  (ret (mk_outcome VERIFICATION_INCOMPLETE ''schema_application_failed'')))
           (\<lambda>_. andthen (audit_event tid TENANT_SCHEMA_APPLICATION_SUCCEEDED actor cid)
             (andthen (audit_event tid SECRET_REFERENCE_REGISTERED actor cid)
             (andthen (audit_event tid DATABASE_ASSOCIATED actor cid)
             (gate_verify P G tid actor cid))))))))"

text \<open>The start/terminal pair around a recovery: a raise still gets its terminal record.\<close>

definition recovery_terminal ::
    "string \<Rightarrow> string \<Rightarrow> string \<Rightarrow> ('x, outcome) cp \<Rightarrow> ('x, outcome) cp" where
  "recovery_terminal tid actor cid m =
     tries m
       (\<lambda>e. andthen (audit_event tid ONBOARDING_RECOVERY_FAILED actor cid) (raise e))
       (\<lambda>verdict. andthen
          (audit_event tid
            (if out_result verdict = VERIFIED then ONBOARDING_RECOVERY_COMPLETED
             else ONBOARDING_RECOVERY_FAILED) actor cid)
          (ret verdict))"

definition onboard_resume ::
    "'x cp_ports \<Rightarrow> gate_config \<Rightarrow> tenant_record \<Rightarrow> string \<Rightarrow> string \<Rightarrow> string \<Rightarrow> ('x, outcome) cp" where
  "onboard_resume P G rec tgt actor cid =
     andthen (audit_event (tenant_id rec) ONBOARDING_RECOVERY_STARTED actor cid)
     (recovery_terminal (tenant_id rec) actor cid
       (provision_apply_verify P G (tenant_id rec) tgt (database_association_ref rec) actor cid))"

definition onboard_fresh ::
    "'x cp_ports \<Rightarrow> gate_config \<Rightarrow> string \<Rightarrow> string \<Rightarrow> string \<Rightarrow> string \<Rightarrow> string \<Rightarrow> string \<Rightarrow> ('x, outcome) cp" where
  "onboard_fresh P G tid org fed schema_v actor cid =
     (let assoc = \<lparr>store_ref = tenant_dsn_ref tid, ref_version = ''1''\<rparr> in
      andthen (register_tenant tid org schema_v assoc fed actor cid)
      (andthen (mark_provisioning tid actor cid)
      (provision_apply_verify P G tid (tenant_database_name tid) assoc actor cid)))"

definition onboard ::
    "'x cp_ports \<Rightarrow> gate_config \<Rightarrow> string \<Rightarrow> string \<Rightarrow> string \<Rightarrow> string \<Rightarrow> string \<Rightarrow> string \<Rightarrow> ('x, outcome) cp" where
  "onboard P G tid org fed schema_v actor cid =
     bnd (get_tenant_status tid) (\<lambda>existing.
       case existing of
         None \<Rightarrow> onboard_fresh P G tid org fed schema_v actor cid
       | Some rec \<Rightarrow>
           if lifecycle rec = Registered then onboard_fresh P G tid org fed schema_v actor cid
           else if lifecycle rec = Ready then ret (mk_outcome VERIFIED ''already_onboarded'')
           else if lifecycle rec = Provisioning then
             onboard_resume P G rec (tenant_database_name tid) actor cid
           else ret (mk_outcome VERIFICATION_INCOMPLETE (terminal_onboard_reason (lifecycle rec))))"

definition anomaly_history :: "string \<Rightarrow> control_audit_record list \<Rightarrow> bool" where
  "anomaly_history tid log =
     list_ex (\<lambda>r. aud_tenant_id r = Some tid \<and> aud_action r = EV_ISOLATION_ANOMALY) log"

definition recover :: "'x cp_ports \<Rightarrow> gate_config \<Rightarrow> string \<Rightarrow> string \<Rightarrow> string \<Rightarrow> ('x, outcome) cp" where
  "recover P G tid actor cid =
     bnd (get_tenant_status tid) (\<lambda>found.
       case found of
         None \<Rightarrow> raise (OnboardingError ''unknown tenant'')
       | Some rec \<Rightarrow>
           if lifecycle rec \<noteq> Failed then raise (OnboardingError ''illegal lifecycle transition'')
           else andthen (audit_event tid ONBOARDING_RECOVERY_STARTED actor cid)
             (bnd (reads (\<lambda>w. anomaly_history tid (list_audit (store w)))) (\<lambda>hist.
               if hist then
                 andthen (quarantine_tenant tid actor cid)
                 (andthen (audit_event tid TENANT_QUARANTINED actor cid)
                 (andthen (audit_event tid ONBOARDING_RECOVERY_FAILED actor cid)
                 (ret (mk_outcome ISOLATION_ANOMALY ''anomaly_history''))))
               else recovery_terminal tid actor cid (gate_verify P G tid actor cid))))"

definition onboarding_reassociate ::
    "'x cp_ports \<Rightarrow> gate_config \<Rightarrow> string \<Rightarrow> secret_ref \<Rightarrow> string \<Rightarrow> string \<Rightarrow> ('x, outcome) cp" where
  "onboarding_reassociate P G tid new_ref actor cid = gate_reassociate P G tid new_ref actor cid"

definition onboarding_disable_routing :: "'x cp_ports \<Rightarrow> string \<Rightarrow> string \<Rightarrow> string \<Rightarrow> ('x, unit) cp" where
  "onboarding_disable_routing P tid actor cid = gate_disable_routing P tid actor cid"

section \<open>Every operation is lawful\<close>

lemma keeps_recovery_terminal [keeps_rules]:
  "keeps disciplined m \<Longrightarrow> keeps disciplined (recovery_terminal tid actor cid m)"
  unfolding recovery_terminal_def by (intro keeps_rules)

lemma keeps_provision_apply_verify [keeps_rules]:
  "ports_lawful P \<Longrightarrow> keeps disciplined (provision_apply_verify P G tid tgt assoc actor cid)"
  unfolding provision_apply_verify_def by (intro keeps_rules) (simp_all add: ports_lawful_def)

lemma keeps_onboard_resume [keeps_rules]:
  "ports_lawful P \<Longrightarrow> keeps disciplined (onboard_resume P G rec tgt actor cid)"
  unfolding onboard_resume_def by (intro keeps_rules)

lemma keeps_onboard_fresh [keeps_rules]:
  "ports_lawful P \<Longrightarrow> keeps disciplined (onboard_fresh P G tid org fed sv actor cid)"
  unfolding onboard_fresh_def Let_def by (intro keeps_rules)

lemma keeps_onboard [keeps_rules]:
  "ports_lawful P \<Longrightarrow> keeps disciplined (onboard P G tid org fed sv actor cid)"
  unfolding onboard_def by (intro keeps_rules)

lemma keeps_recover [keeps_rules]: "ports_lawful P \<Longrightarrow> keeps disciplined (recover P G tid actor cid)"
  unfolding recover_def by (intro keeps_rules)

lemma keeps_onboarding_reassociate [keeps_rules]:
  "ports_lawful P \<Longrightarrow> keeps disciplined (onboarding_reassociate P G tid new_ref actor cid)"
  unfolding onboarding_reassociate_def by (intro keeps_rules)

lemma keeps_onboarding_disable_routing [keeps_rules]:
  "ports_lawful P \<Longrightarrow> keeps disciplined (onboarding_disable_routing P tid actor cid)"
  unfolding onboarding_disable_routing_def by (intro keeps_rules)

section \<open>A readiness verdict of any entry point\<close>

abbreviation stored_ready :: "string \<Rightarrow> 'x cp_world \<Rightarrow> bool" where
  "stored_ready tid w \<equiv> (\<exists>r. get_tenant (store w) tid = Some r \<and> lifecycle r = Ready)"

abbreviation ready_post :: "string \<Rightarrow> outcome \<Rightarrow> 'x cp_world \<Rightarrow> bool" where
  "ready_post tid \<equiv> (\<lambda>v w. sane w \<and> (routable v \<longrightarrow> stored_ready tid w))"

lemma verify_ready_post:
  "ports_lawful P \<Longrightarrow> triple disciplined sane (gate_verify P G tid actor cid) (ready_post tid) (\<lambda>_. sane)"
  by (rule triple_conseq[OF gate_verify_triple]) (auto simp: ready_proven_def)

lemma sane_step: "keeps disciplined m \<Longrightarrow> triple disciplined sane m (\<lambda>_. sane) (\<lambda>_. sane)"
  by (rule keep_sane)

lemma event_ret_post:
  "triple disciplined (\<lambda>w. sane w \<and> (routable v \<longrightarrow> stored_ready tid w))
     (andthen (audit_event t ac actor cid) (ret v)) (ready_post tid) (\<lambda>_. sane)"
proof (rule disc.triple_andthen)
  show "triple disciplined (\<lambda>w. sane w \<and> (routable v \<longrightarrow> stored_ready tid w)) (audit_event t ac actor cid)
      (\<lambda>_ w. sane w \<and> (routable v \<longrightarrow> stored_ready tid w)) (\<lambda>_. sane)"
    by (rule triple_conseq[OF triple_frame[OF keep_sane[OF keeps_audit_event]]]) auto
qed (rule disc.triple_ret)

lemma recovery_terminal_post:
  assumes "triple disciplined sane m (ready_post tid) (\<lambda>_. sane)"
  shows "triple disciplined sane (recovery_terminal t actor cid m) (ready_post tid) (\<lambda>_. sane)"
  unfolding recovery_terminal_def
proof (rule disc.triple_tries[OF assms])
  show "triple disciplined sane (andthen (audit_event t ONBOARDING_RECOVERY_FAILED actor cid) (raise e))
      (ready_post tid) (\<lambda>_. sane)" for e
    by (rule disc.triple_andthen[OF keep_sane[OF keeps_audit_event]]) (rule disc.triple_raise)
qed (rule event_ret_post)

lemma provision_apply_verify_post:
  assumes P: "ports_lawful P"
  shows "triple disciplined sane (provision_apply_verify P G tid tgt assoc actor cid)
    (ready_post tid) (\<lambda>_. sane)"
proof -
  have stop: "triple disciplined sane (andthen (audit_event tid ac actor cid)
      (ret (mk_outcome VERIFICATION_INCOMPLETE why))) (ready_post tid) (\<lambda>_. sane)" for ac why
    by (rule triple_conseq[OF event_ret_post]) (auto simp: routable_def mk_outcome_def)
  show ?thesis
    unfolding provision_apply_verify_def
    by (intro disc.triple_andthen[OF sane_step] keeps_audit_event
          disc.triple_tries[OF sane_step] stop verify_ready_post P)
      (use P in \<open>simp_all add: ports_lawful_def\<close>)
qed

lemma onboard_resume_post:
  "\<lbrakk>ports_lawful P; tenant_id rec = tid\<rbrakk>
    \<Longrightarrow> triple disciplined sane (onboard_resume P G rec tgt actor cid) (ready_post tid) (\<lambda>_. sane)"
  unfolding onboard_resume_def
  by (intro disc.triple_andthen[OF sane_step] keeps_audit_event recovery_terminal_post)
    (auto intro: provision_apply_verify_post)

lemma onboard_fresh_post:
  "ports_lawful P \<Longrightarrow> triple disciplined sane (onboard_fresh P G tid org fed sv actor cid) (ready_post tid) (\<lambda>_. sane)"
  unfolding onboard_fresh_def Let_def
  by (intro disc.triple_andthen[OF sane_step] keeps_register_tenant keeps_mark_provisioning
      provision_apply_verify_post)

lemma onboard_post:
  assumes P: "ports_lawful P"
  shows "triple disciplined sane (onboard P G tid org fed sv actor cid) (ready_post tid) (\<lambda>_. sane)"
  unfolding onboard_def get_tenant_status_def
proof (rule disc.triple_bnd)
  show "triple disciplined sane (world_get tid)
      (\<lambda>found w. sane w \<and> get_tenant (store w) tid = found) (\<lambda>_. sane)"
    unfolding world_get_def by (rule disc.triple_reads) simp
  fix found
  show "triple disciplined (\<lambda>w. sane w \<and> get_tenant (store w) tid = found)
     (case found of None \<Rightarrow> onboard_fresh P G tid org fed sv actor cid
       | Some rec \<Rightarrow>
           if lifecycle rec = Registered then onboard_fresh P G tid org fed sv actor cid
           else if lifecycle rec = Ready then ret (mk_outcome VERIFIED ''already_onboarded'')
           else if lifecycle rec = Provisioning then
             onboard_resume P G rec (tenant_database_name tid) actor cid
           else ret (mk_outcome VERIFICATION_INCOMPLETE (terminal_onboard_reason (lifecycle rec))))
     (ready_post tid) (\<lambda>_. sane)"
  proof (cases found)
    case None
    then show ?thesis by (auto intro: triple_conseq[OF onboard_fresh_post[OF P]])
  next
    case (Some rec)
    have id: "triple disciplined (\<lambda>w. sane w \<and> get_tenant (store w) tid = Some rec)
        (onboard_resume P G rec tgt actor cid) (ready_post tid) (\<lambda>_. sane)" for tgt
    proof (cases "tenant_id rec = tid")
      case True
      then show ?thesis by (auto intro: triple_conseq[OF onboard_resume_post[OF P]])
    next
      case False
      then show ?thesis unfolding triple_def by (auto dest: seen_get)
    qed
    show ?thesis unfolding Some option.case
      by (intro triple_if id triple_conseq[OF onboard_fresh_post[OF P]] disc.triple_ret)
        (auto simp: routable_def mk_outcome_def)
  qed
qed

end
