(* ===== verification/CP_Memory.thy ===== *)
theory CP_Memory
  imports CP_Onboarding
begin

text \<open>
  The in-memory providers of the default composition: the schema probe
  (\<open>in_memory_probe.py\<close>), the distinctness evidence (\<open>in_memory_distinctness.py\<close> and its
  canonical-reference subclass in \<open>main.py\<close>), the provisioning operator (\<open>provisioning.py\<close>), the
  schema applicator and the recovery inspection double (\<open>recovery.py\<close>). They touch only their own
  part of the state, so they are quiet ports; the composition \<open>mem_ports\<close> is the instance at which
  the properties of the gate and of onboarding are exercised.
\<close>

section \<open>State of the providers\<close>

record mem_ext =
  provisioned :: "string list"
  applied :: "(string \<times> string) list"
  mem_inspections :: "(string, inspection) dict"
  mem_dropped :: "string list"
  fail_inventory :: bool
  fail_exists :: bool
  fail_inspect :: bool
  fail_control_name :: bool

definition mem_ext_init :: mem_ext where
  "mem_ext_init = \<lparr>provisioned = [], applied = [], mem_inspections = [], mem_dropped = [],
     fail_inventory = False, fail_exists = False, fail_inspect = False, fail_control_name = False\<rparr>"

definition ext_reads :: "('y \<Rightarrow> 'a) \<Rightarrow> ('y, 'a) cp" where
  "ext_reads f = reads (\<lambda>w. f (ext w))"

definition ext_writes :: "('y \<Rightarrow> 'y) \<Rightarrow> ('y, unit) cp" where
  "ext_writes f = writes (\<lambda>w. w\<lparr>ext := f (ext w)\<rparr>)"

section \<open>Probe and evidence\<close>

definition mem_probe :: "string \<Rightarrow> bool \<Rightarrow> secret_ref \<Rightarrow> ('x, probe_result) cp" where
  "mem_probe version up ref =
     (if \<not> up then ret \<lparr>reachable = False, observed_schema_version = None\<rparr>
      else ret \<lparr>reachable = True, observed_schema_version = Some version\<rparr>)"

definition nonprod_control_db_evidence :: evidence where
  "nonprod_control_db_evidence =
     \<lparr>system_identifier = ''sp2_nonprod_control_cluster'', database_identity = ''sp2_control:control'',
      observed_target = ''sp2_control'', ev_secret_ref_key = ''sp2_control'',
      sentinel_namespace = ''dv_sentinel_control'', sentinel_token = None, sentinel_written = True\<rparr>"

definition mem_evidence :: "string \<Rightarrow> secret_ref \<Rightarrow> string \<Rightarrow> string \<Rightarrow> evidence" where
  "mem_evidence sys ref token ns =
     (let tgt = store_ref ref in
      \<lparr>system_identifier = sys, database_identity = tgt @ '':db'', observed_target = tgt,
       ev_secret_ref_key = store_ref ref, sentinel_namespace = ns,
       sentinel_token = Some token, sentinel_written = True\<rparr>)"

definition NONPROD_TENANT_SYSTEM_IDENTIFIER :: string where
  "NONPROD_TENANT_SYSTEM_IDENTIFIER = ''sp2_nonprod_tenant_cluster''"

definition canonical_mem_evidence :: "secret_ref \<Rightarrow> string \<Rightarrow> string \<Rightarrow> evidence" where
  "canonical_mem_evidence ref token ns =
     (let e = mem_evidence NONPROD_TENANT_SYSTEM_IDENTIFIER ref token ns in
      case tenant_id_from_dsn_ref (store_ref ref) of
        None \<Rightarrow> e
      | Some tid \<Rightarrow> let tgt = tenant_database_name tid in
          e\<lparr>database_identity := tgt @ '':db'', observed_target := tgt\<rparr>)"

section \<open>Operator and schema applicator\<close>

definition mem_provision :: "string \<Rightarrow> string \<Rightarrow> (mem_ext, provision_result) cp" where
  "mem_provision tid tgt =
     bnd (ext_reads (\<lambda>x. tgt \<notin> set (provisioned x))) (\<lambda>created.
     andthen (ext_writes (\<lambda>x. x\<lparr>provisioned := List.insert tgt (provisioned x)\<rparr>))
       (ret \<lparr>pr_target = tgt, pr_created = created\<rparr>))"

definition mem_deprovision :: "string \<Rightarrow> (mem_ext, unit) cp" where
  "mem_deprovision tgt = ext_writes (\<lambda>x. x\<lparr>provisioned := removeAll tgt (provisioned x)\<rparr>)"

definition mem_apply_schema :: "string \<Rightarrow> string \<Rightarrow> secret_ref \<Rightarrow> (mem_ext, unit) cp" where
  "mem_apply_schema tid tgt ref = ext_writes (\<lambda>x. x\<lparr>applied := applied x @ [(tid, tgt)]\<rparr>)"

section \<open>The recovery inspection double\<close>

definition set_database :: "inspection \<Rightarrow> mem_ext \<Rightarrow> mem_ext" where
  "set_database i x = x\<lparr>mem_inspections := dict_put (database_name i) i (mem_inspections x),
     mem_dropped := removeAll (database_name i) (mem_dropped x)\<rparr>"

definition remove_database :: "string \<Rightarrow> mem_ext \<Rightarrow> mem_ext" where
  "remove_database n x = x\<lparr>mem_inspections := dict_pop n (mem_inspections x),
     mem_dropped := List.insert n (mem_dropped x)\<rparr>"

definition known :: "mem_ext \<Rightarrow> string list" where
  "known x = filter (\<lambda>n. n \<notin> set (mem_dropped x)) (remdups (dict_keys (mem_inspections x) @ provisioned x))"

definition mem_list_candidates :: "(mem_ext, string list option) cp" where
  "mem_list_candidates = ext_reads (\<lambda>x. if fail_inventory x then None
     else Some (sort (filter (starts_with DEFAULT_TENANT_DB_PREFIX) (known x))))"

definition mem_database_exists :: "string \<Rightarrow> (mem_ext, bool option) cp" where
  "mem_database_exists tgt = ext_reads (\<lambda>x. if fail_exists x then None else Some (tgt \<in> set (known x)))"

definition empty_inspection :: "string \<Rightarrow> inspection" where
  "empty_inspection tgt =
     \<lparr>database_name = tgt, insp_system_identifier = [], insp_database_identity = tgt @ '':db'',
      user_tables = [], agents_total = 0, agents_system_primary = 0, schema_versions = []\<rparr>"

definition mem_inspect ::
    "(string \<Rightarrow> (mem_ext, unit) cp) \<Rightarrow> string \<Rightarrow> (mem_ext, inspection option) cp" where
  "mem_inspect on_inspect tgt =
     andthen (on_inspect tgt) (ext_reads (\<lambda>x.
       if fail_inspect x then None
       else case dict_get (mem_inspections x) tgt of
         Some i \<Rightarrow> Some i
       | None \<Rightarrow> if tgt \<in> set (known x) then Some (empty_inspection tgt) else None))"

definition mem_control_name :: "string \<Rightarrow> (mem_ext, string option) cp" where
  "mem_control_name nm = ext_reads (\<lambda>x. if fail_control_name x then None else Some nm)"

section \<open>The default composition\<close>

definition mem_ports :: "string \<Rightarrow> mem_ext cp_ports" where
  "mem_ports token =
     \<lparr>p_probe = mem_probe ''1'' True,
      p_token = ret token,
      p_gather = (\<lambda>ref tok ns. ret (Some (canonical_mem_evidence ref tok ns))),
      p_invalidate = record_signal,
      p_provision = mem_provision,
      p_deprovision = mem_deprovision,
      p_apply_schema = mem_apply_schema,
      p_list_candidates = mem_list_candidates,
      p_database_exists = mem_database_exists,
      p_inspect = mem_inspect (\<lambda>_. ret ()),
      p_control_name = mem_control_name ''sp2_control''\<rparr>"

definition mem_gate :: gate_config where
  "mem_gate = \<lparr>g_control = nonprod_control_db_evidence, g_supported = [''1''],
     g_sentinel_prefix = ''dv_sentinel_''\<rparr>"

definition mem_world :: "'x \<Rightarrow> 'x cp_world" where
  "mem_world x = \<lparr>store = empty_store 1 True, ledger = [], signals = [], clock = (\<lambda>_. ''t''), tick = 0,
     writers = [], ext = x\<rparr>"

lemma sane_mem_world [simp]: "sane (mem_world x)"
  by (simp add: sane_def mem_world_def empty_store_def store_ok_def get_tenant_def one_holder_def)

section \<open>The in-memory providers are quiet and lawful\<close>

lemma quiet_ext [simp]: "quiet (ext_reads f)" "quiet (ext_writes g)" "quiet (ret a)" "quiet (record_signal t c)"
  by (simp_all add: quiet_def ext_reads_def ext_writes_def record_signal_def)

lemma quiet_bnd [simp]: "\<lbrakk>quiet m; \<And>a. quiet (f a)\<rbrakk> \<Longrightarrow> quiet (bnd m f)"
  unfolding quiet_def by (auto split: prod.splits sum.splits) (metis snd_conv)+

lemma quiet_andthen [simp]: "\<lbrakk>quiet m; quiet n\<rbrakk> \<Longrightarrow> quiet (andthen m n)"
  by (simp add: andthen_def)

lemma quiet_lawful: "quiet m \<Longrightarrow> keeps disciplined m"
  by (rule keeps_disciplinedI) (simp add: quiet_sane, simp add: quiet_def)

lemma ports_quiet_mem: "ports_quiet (mem_ports token)"
  by (simp add: ports_quiet_def mem_ports_def mem_probe_def mem_provision_def mem_deprovision_def
    mem_apply_schema_def mem_list_candidates_def mem_database_exists_def mem_inspect_def mem_control_name_def)

lemma ports_quiet_lawful: "ports_quiet P \<Longrightarrow> ports_lawful P"
  by (simp add: ports_quiet_def ports_lawful_def quiet_lawful)

end
