(* ===== verification/CP_Recovery.thy ===== *)
theory CP_Recovery
  imports CP_Memory
begin

text \<open>
  Recovery compensation and orphan visibility (\<open>backend/control_plane/recovery.py\<close>): the content
  census, the ownership proof with its re-validation right before the drop, the emit-once terminal
  record, and the read-only orphan scan.

  The emit-once latch of the source is the boolean that an exception carries here: \<open>tagged b m\<close>
  runs \<open>m\<close> and marks an exception with the value the latch has at that point.
\<close>

section \<open>The content census\<close>

definition BOOTSTRAP_TABLE_SET :: "string list" where
  "BOOTSTRAP_TABLE_SET =
     [''public.schema_version'', ''dv_sentinel.marker'',
      ''public.lineage'', ''public.lineage_segment'', ''public.import_job'',
      ''public.import_idempotency'', ''public.import_checkpoint'',
      ''public.agents'', ''public.ai_agents'', ''public.startups'', ''public.investors'', ''public.deals'',
      ''public.startup_ownership'', ''public.investor_ownership'', ''public.deal_ownership'',
      ''public.startup_ai_ownership'', ''public.investor_ai_ownership'', ''public.deal_ai_ownership'',
      ''public.startup_contacts'', ''public.investor_contacts'', ''public.startup_investors'']"

datatype content_class = CONTENT_EMPTY | CONTENT_BOOTSTRAP_ONLY | CONTENT_NON_EMPTY

definition insp_fingerprint :: "inspection \<Rightarrow> string" where
  "insp_fingerprint i = fingerprint_of (insp_system_identifier i) (insp_database_identity i)"

definition table_rule_fails :: "inspection \<Rightarrow> string list \<Rightarrow> string \<Rightarrow> int \<Rightarrow> bool" where
  "table_rule_fails i supported name n =
     (if name = ''dv_sentinel.marker'' then False
      else if name = ''public.agents'' then n \<noteq> 1 \<or> agents_total i \<noteq> 1 \<or> agents_system_primary i \<noteq> 1
      else if name = ''public.schema_version'' then
        n < 0 \<or> schema_versions i = [] \<or> list_ex (\<lambda>v. v \<notin> set supported) (schema_versions i)
      else n \<noteq> 0)"

definition classify_content :: "inspection \<Rightarrow> string list \<Rightarrow> content_class" where
  "classify_content i supported =
     (let tables = user_tables i in
      if tables = [] then CONTENT_EMPTY
      else if \<not> list_all (\<lambda>(name, _). name \<in> set BOOTSTRAP_TABLE_SET) tables then CONTENT_NON_EMPTY
      else if list_ex (\<lambda>(name, n). table_rule_fails i supported name n) tables then CONTENT_NON_EMPTY
      else CONTENT_BOOTSTRAP_ONLY)"

section \<open>DeprovisionTenantDatabase\<close>

definition deprovision_eligible_states :: "lifecycle_state list" where
  "deprovision_eligible_states = [Provisioning, Failed, Quarantined]"

definition quarantine_eligible_states :: "lifecycle_state list" where
  "quarantine_eligible_states = [Provisioning, Failed]"

definition anomaly_reasons :: "string list" where
  "anomaly_reasons =
     [''target_outside_tenant_namespace'', ''control_database_target'', ''non_canonical_association_ref'',
      ''content_not_empty'', ''ledger_collision'', ''fingerprint_mismatch'']"

record deprovision_outcome =
  dep_tenant_id :: string
  dep_target :: string
  dropped :: bool
  completed :: bool
  dep_reason :: string

type_synonym ('x, 'a) latched = "('x cp_world, cp_error \<times> bool, 'a) proc"

definition tagged :: "bool \<Rightarrow> ('x, 'a) cp \<Rightarrow> ('x, 'a) latched" where
  "tagged attempted m = (\<lambda>w. case m w of (Inl e, w') \<Rightarrow> (Inl (e, attempted), w') | (Inr a, w') \<Rightarrow> (Inr a, w'))"

definition evidence_conflicts :: "string \<Rightarrow> string option \<Rightarrow> evidence \<Rightarrow> bool" where
  "evidence_conflicts tgt fp e =
     (observed_target e = tgt \<or> (case fp of None \<Rightarrow> False | Some f \<Rightarrow> fingerprint e = f))"

definition own_evidence :: "string \<Rightarrow> ('x, evidence option) cp" where
  "own_evidence tid = reads (\<lambda>w. dict_get (evidence_excluding [] (ledger w)) tid)"

definition own_mismatch :: "string \<Rightarrow> string \<Rightarrow> evidence option \<Rightarrow> bool" where
  "own_mismatch tgt fp own =
     (case own of None \<Rightarrow> False | Some e \<Rightarrow> fingerprint e \<noteq> fp \<or> observed_target e \<noteq> tgt)"

definition non_content_proof ::
    "'x cp_ports \<Rightarrow> string \<Rightarrow> string \<Rightarrow> string option \<Rightarrow> ('x, string option) cp" where
  "non_content_proof P tid tgt fp =
     bnd (get_tenant_status tid) (\<lambda>found.
       case found of
         None \<Rightarrow> ret (Some ''unknown_tenant'')
       | Some rec \<Rightarrow>
           if lifecycle rec \<notin> set deprovision_eligible_states then ret (Some ''ineligible_lifecycle_state'')
           else if \<not> starts_with DEFAULT_TENANT_DB_PREFIX tgt then ret (Some ''target_outside_tenant_namespace'')
           else bnd (p_control_name P) (\<lambda>control_name.
             case control_name of
               None \<Rightarrow> ret (Some ''control_identity_unavailable'')
             | Some cn \<Rightarrow>
                 if tgt = cn then ret (Some ''control_database_target'')
                 else bnd (reads (\<lambda>w. evidence_excluding tid (ledger w))) (\<lambda>others.
                   if list_ex (\<lambda>(_, e). evidence_conflicts tgt fp e) others then ret (Some ''ledger_collision'')
                   else case fp of
                     None \<Rightarrow> ret None
                   | Some f \<Rightarrow> bnd (own_evidence tid) (\<lambda>own.
                       ret (if own_mismatch tgt f own then Some ''fingerprint_mismatch'' else None)))))"

definition quarantine_where_applicable :: "string \<Rightarrow> string \<Rightarrow> string \<Rightarrow> ('x, unit) cp" where
  "quarantine_where_applicable tid actor cid =
     bnd (get_tenant_status tid) (\<lambda>found.
       case found of
         None \<Rightarrow> ret ()
       | Some rec \<Rightarrow>
           if lifecycle rec \<in> set quarantine_eligible_states then
             andthen (quarantine_tenant tid actor cid) (audit_event tid TENANT_QUARANTINED actor cid)
           else ret ())"

definition deprovision_fail ::
    "string \<Rightarrow> string \<Rightarrow> string \<Rightarrow> string \<Rightarrow> string \<Rightarrow> bool \<Rightarrow> ('x, deprovision_outcome) latched" where
  "deprovision_fail tid tgt why actor cid quarantine =
     andthen (tagged False (if quarantine \<and> why \<in> set anomaly_reasons
                            then quarantine_where_applicable tid actor cid else ret ()))
     (andthen (tagged True (audit_event tid TENANT_DEPROVISION_FAILED actor cid))
       (ret \<lparr>dep_tenant_id = tid, dep_target = tgt, dropped = False, completed = False, dep_reason = why\<rparr>))"

definition deprovision_complete ::
    "string \<Rightarrow> string \<Rightarrow> bool \<Rightarrow> string \<Rightarrow> string \<Rightarrow> string \<Rightarrow> ('x, deprovision_outcome) latched" where
  "deprovision_complete tid tgt was_dropped why actor cid =
     andthen (tagged True (audit_event tid TENANT_DEPROVISION_COMPLETED actor cid))
       (ret \<lparr>dep_tenant_id = tid, dep_target = tgt, dropped = was_dropped, completed = True, dep_reason = why\<rparr>)"

text \<open>Elements 1, 2, 5 (name leg) and 3 of the ownership proof.\<close>

definition ownership_proof :: "'x cp_ports \<Rightarrow> string \<Rightarrow> string \<Rightarrow> ('x, string option) cp" where
  "ownership_proof P tid tgt =
     bnd (non_content_proof P tid tgt None) (\<lambda>failure.
       case failure of
         Some why \<Rightarrow> ret (Some why)
       | None \<Rightarrow> bnd (get_tenant_status tid) (\<lambda>found.
           case found of
             None \<Rightarrow> ret (Some ''unknown_tenant'')
           | Some rec \<Rightarrow>
               ret (if tenant_id_from_dsn_ref (store_ref (database_association_ref rec)) \<noteq> Some tid
                    then Some ''non_canonical_association_ref'' else None)))"

text \<open>The re-validation with the observed fingerprint, and the drop right behind it.\<close>

definition revalidate_and_drop ::
    "'x cp_ports \<Rightarrow> string \<Rightarrow> string \<Rightarrow> string \<Rightarrow> string \<Rightarrow> string \<Rightarrow> ('x, deprovision_outcome) latched" where
  "revalidate_and_drop P tid tgt fp actor cid =
     bnd (tagged False (non_content_proof P tid tgt (Some fp))) (\<lambda>failure.
       case failure of
         Some why \<Rightarrow> deprovision_fail tid tgt why actor cid True
       | None \<Rightarrow> tries (tagged False (p_deprovision P tgt))
           (\<lambda>_. deprovision_fail tid tgt ''deprovision_failed'' actor cid False)
           (\<lambda>_. deprovision_complete tid tgt True ''deprovisioned'' actor cid))"

definition census_and_drop ::
    "'x cp_ports \<Rightarrow> string list \<Rightarrow> string \<Rightarrow> string \<Rightarrow> string \<Rightarrow> string \<Rightarrow> ('x, deprovision_outcome) latched" where
  "census_and_drop P supported tid tgt actor cid =
     bnd (tagged False (p_inspect P tgt)) (\<lambda>insp.
       case insp of
         None \<Rightarrow> deprovision_fail tid tgt ''inspection_unavailable'' actor cid True
       | Some i \<Rightarrow> bnd (tagged False (own_evidence tid)) (\<lambda>own.
           if own_mismatch tgt (insp_fingerprint i) own then
             deprovision_fail tid tgt ''fingerprint_mismatch'' actor cid True
           else if classify_content i supported = CONTENT_NON_EMPTY then
             deprovision_fail tid tgt ''content_not_empty'' actor cid True
           else revalidate_and_drop P tid tgt (insp_fingerprint i) actor cid))"

definition proven_deprovision ::
    "'x cp_ports \<Rightarrow> string list \<Rightarrow> string \<Rightarrow> string \<Rightarrow> string \<Rightarrow> string \<Rightarrow> ('x, deprovision_outcome) latched" where
  "proven_deprovision P supported tid tgt actor cid =
     bnd (tagged False (ownership_proof P tid tgt)) (\<lambda>failure.
       case failure of
         Some why \<Rightarrow> deprovision_fail tid tgt why actor cid True
       | None \<Rightarrow> bnd (tagged False (p_database_exists P tgt)) (\<lambda>there.
           case there of
             None \<Rightarrow> deprovision_fail tid tgt ''inspection_unavailable'' actor cid True
           | Some False \<Rightarrow> deprovision_complete tid tgt False ''absent_noop'' actor cid
           | Some True \<Rightarrow> census_and_drop P supported tid tgt actor cid))"

text \<open>
  The outer handler: a failed emit inside it is swallowed, and the original exception is raised
  again.
\<close>

definition deprovision_tenant_database ::
    "'x cp_ports \<Rightarrow> string list \<Rightarrow> string \<Rightarrow> string \<Rightarrow> string \<Rightarrow> ('x, deprovision_outcome) cp" where
  "deprovision_tenant_database P supported tid actor cid =
     andthen (audit_event tid TENANT_DEPROVISION_REQUESTED actor cid)
       (\<lambda>w. case proven_deprovision P supported tid (tenant_database_name tid) actor cid w of
          (Inr res, w') \<Rightarrow> (Inr res, w')
        | (Inl (e, attempted), w') \<Rightarrow>
            (if attempted then raise e
             else andthen (handle (audit_event tid TENANT_DEPROVISION_FAILED actor cid) (\<lambda>_. ret ()))
                    (raise e)) w')"

section \<open>ScanForOrphans\<close>

datatype ref_state = REF_CANONICAL | REF_NON_CANONICAL | REF_NO_RECORD

record scan_entry =
  oe_tenant_id :: "string option"
  oe_database_name :: string
  oe_registry_state :: "string option"
  oe_ref_status :: ref_state
  oe_content_class :: "content_class option"
  oe_ledger_conflict :: bool
  oe_fingerprint_mismatch :: bool
  oe_control_db_target :: bool
  oe_classification :: string
  oe_action :: string
  oe_safe :: bool
  oe_reason :: string

definition ref_status :: "tenant_record option \<Rightarrow> ref_state" where
  "ref_status found =
     (case found of
        None \<Rightarrow> REF_NO_RECORD
      | Some rec \<Rightarrow>
          if tenant_id_from_dsn_ref (store_ref (database_association_ref rec)) = Some (tenant_id rec)
          then REF_CANONICAL else REF_NON_CANONICAL)"

text \<open>The loop over the ledger: (conflict with another tenant, mismatch of the own row).\<close>

fun scan_evidence ::
    "string \<Rightarrow> string \<Rightarrow> tenant_record option \<Rightarrow> bool \<times> bool \<Rightarrow> ledger_map \<Rightarrow> bool \<times> bool" where
  "scan_evidence name fp rec acc [] = acc"
| "scan_evidence name fp rec (conflict, mismatch) ((other_id, e) # rest) =
     (if (case rec of None \<Rightarrow> False | Some r \<Rightarrow> other_id = tenant_id r) then
        scan_evidence name fp rec
          (conflict, mismatch \<or> observed_target e \<noteq> name \<or> fingerprint e \<noteq> fp) rest
      else scan_evidence name fp rec
          (conflict \<or> observed_target e = name \<or> fingerprint e = fp, mismatch) rest)"

definition scan_decision ::
    "bool \<Rightarrow> tenant_record option \<Rightarrow> bool \<Rightarrow> bool \<Rightarrow> content_class \<Rightarrow> ref_state
      \<Rightarrow> string \<times> string \<times> bool \<times> string" where
  "scan_decision control_target found conflict mismatch content status =
     (if control_target then
        (''control_db_targeted'', ''manual_review'', False,
         ''candidate resolves to the Control database (never droppable)'')
      else case found of
        None \<Rightarrow> (''db_no_registry_record'', ''manual_review'', False,
                 ''physical database has no registry record (report-only; never touched)'')
      | Some rec \<Rightarrow>
          if conflict then
            (''ledger_collision'', ''manual_review'', False,
             ''another tenant's distinctness evidence identifies this database'')
          else if mismatch then
            (''fingerprint_mismatch'', ''manual_review'', False,
             ''recorded physical identity disagrees with the observed database'')
          else if lifecycle rec \<notin> set deprovision_eligible_states then
            (''active_tenant'', ''no_action'', False, ''lifecycle state is not compensation-eligible'')
          else if content = CONTENT_NON_EMPTY then
            (''non_empty_evidence'', ''preserve_evidence'', False,
             ''content beyond bootstrap is evidence (never dropped)'')
          else if status \<noteq> REF_CANONICAL then
            (''uninspectable'', ''manual_review'', False,
             ''association reference is not canonical for this tenant'')
          else
            (if content = CONTENT_EMPTY then ''eligible_empty'' else ''eligible_bootstrap_only'',
             ''explicit_deprovision_eligible'', True,
             ''ownership-proof preconditions hold (explicit deprovision only)''))"

definition inspected_entry ::
    "string list \<Rightarrow> ledger_map \<Rightarrow> string \<Rightarrow> string \<Rightarrow> tenant_record option \<Rightarrow> inspection \<Rightarrow> scan_entry" where
  "inspected_entry supported all_evidence control_name name found i =
     (let content = classify_content i supported;
          (conflict, mismatch) = scan_evidence name (insp_fingerprint i) found (False, False) all_evidence;
          (cls, action, safe, why) =
            scan_decision (name = control_name) found conflict mismatch content (ref_status found)
      in \<lparr>oe_tenant_id = map_option tenant_id found, oe_database_name = name,
          oe_registry_state = map_option (\<lambda>r. lifecycle_value (lifecycle r)) found,
          oe_ref_status = ref_status found, oe_content_class = Some content,
          oe_ledger_conflict = conflict, oe_fingerprint_mismatch = mismatch,
          oe_control_db_target = (name = control_name), oe_classification = cls,
          oe_action = action, oe_safe = safe, oe_reason = why\<rparr>)"

definition uninspectable_entry :: "string \<Rightarrow> string \<Rightarrow> tenant_record option \<Rightarrow> scan_entry" where
  "uninspectable_entry control_name name found =
     \<lparr>oe_tenant_id = map_option tenant_id found, oe_database_name = name,
      oe_registry_state = map_option (\<lambda>r. lifecycle_value (lifecycle r)) found,
      oe_ref_status = ref_status found, oe_content_class = None,
      oe_ledger_conflict = False, oe_fingerprint_mismatch = False,
      oe_control_db_target = (name = control_name), oe_classification = ''uninspectable'',
      oe_action = ''manual_review'', oe_safe = False,
      oe_reason = ''content census unavailable (fail closed)''\<rparr>"

definition classify_database ::
    "'x cp_ports \<Rightarrow> string list \<Rightarrow> ledger_map \<Rightarrow> string \<Rightarrow> string \<Rightarrow> ('x, scan_entry) cp" where
  "classify_database P supported all_evidence control_name name =
     (let tid = (if starts_with DEFAULT_TENANT_DB_PREFIX name
                 then Some (drop (length DEFAULT_TENANT_DB_PREFIX) name) else None) in
      bnd (case tid of None \<Rightarrow> ret None | Some t \<Rightarrow> if t = [] then ret None else world_get t) (\<lambda>found.
      bnd (p_inspect P name) (\<lambda>insp.
        ret (case insp of
            None \<Rightarrow> uninspectable_entry control_name name found
          | Some i \<Rightarrow> inspected_entry supported all_evidence control_name name found i))))"

fun classify_all ::
    "'x cp_ports \<Rightarrow> string list \<Rightarrow> ledger_map \<Rightarrow> string \<Rightarrow> string list \<Rightarrow> ('x, scan_entry list) cp" where
  "classify_all P supported all_evidence control_name [] = ret []"
| "classify_all P supported all_evidence control_name (name # names) =
     bnd (classify_database P supported all_evidence control_name name) (\<lambda>e.
     bnd (classify_all P supported all_evidence control_name names) (\<lambda>es. ret (e # es)))"

definition absent_entry :: "string \<Rightarrow> string \<Rightarrow> tenant_record \<Rightarrow> scan_entry" where
  "absent_entry control_name tid rec =
     (let tgt = tenant_database_name tid in
      \<lparr>oe_tenant_id = Some tid, oe_database_name = tgt,
       oe_registry_state = Some (lifecycle_value (lifecycle rec)), oe_ref_status = ref_status (Some rec),
       oe_content_class = None, oe_ledger_conflict = False, oe_fingerprint_mismatch = False,
       oe_control_db_target = (tgt = control_name),
       oe_classification = (if tgt = control_name then ''control_db_targeted''
                            else ''registry_record_database_absent''),
       oe_action = ''manual_review'', oe_safe = False,
       oe_reason = ''registry record present; physical database absent''\<rparr>)"

fun registry_sweep :: "string \<Rightarrow> string list \<Rightarrow> control_store \<Rightarrow> string list \<Rightarrow> scan_entry list" where
  "registry_sweep control_name inventory s [] = []"
| "registry_sweep control_name inventory s (tid # tids) =
     (if tenant_database_name tid \<in> set inventory then registry_sweep control_name inventory s tids
      else case get_tenant s tid of
        None \<Rightarrow> registry_sweep control_name inventory s tids
      | Some rec \<Rightarrow> absent_entry control_name tid rec # registry_sweep control_name inventory s tids)"

definition entry_key :: "scan_entry \<Rightarrow> string \<times> string" where
  "entry_key e = (oe_database_name e, case oe_tenant_id e of None \<Rightarrow> [] | Some t \<Rightarrow> t)"

definition scan_for_orphans :: "'x cp_ports \<Rightarrow> string list \<Rightarrow> ('x, scan_entry list) cp" where
  "scan_for_orphans P supported =
     bnd (p_list_candidates P) (\<lambda>names.
       case names of
         None \<Rightarrow> raise (RecoveryError ''orphan inventory unavailable (fail closed)'')
       | Some names \<Rightarrow> bnd (p_control_name P) (\<lambda>control_name.
           case control_name of
             None \<Rightarrow> raise (RecoveryError ''control database identity unavailable (fail closed)'')
           | Some cn \<Rightarrow>
               (let inventory = sort (remdups names) in
                bnd (reads (\<lambda>w. evidence_excluding [] (ledger w))) (\<lambda>all_evidence.
                bnd (classify_all P supported all_evidence cn inventory) (\<lambda>entries.
                bnd (reads (\<lambda>w. registry_sweep cn inventory (store w)
                                   (sort (remdups (list_tenant_ids (store w)))))) (\<lambda>absent.
                ret (sort_key entry_key (entries @ absent))))))))"

section \<open>Lawfulness\<close>

lemma tagged_run [simp]:
  "tagged b m w = (case m w of (Inl e, w') \<Rightarrow> (Inl (e, b), w') | (Inr a, w') \<Rightarrow> (Inr a, w'))"
  by (simp add: tagged_def)

lemma keeps_tagged [keeps_rules]: "keeps R m \<Longrightarrow> keeps R (tagged b m)"
  unfolding keeps_def by (auto split: prod.splits sum.splits) (metis snd_conv)+

lemma keeps_own_evidence [keeps_rules]: "keeps disciplined (own_evidence tid)"
  unfolding own_evidence_def by (intro keeps_rules)

lemma keeps_non_content_proof [keeps_rules]:
  "ports_lawful P \<Longrightarrow> keeps disciplined (non_content_proof P tid tgt fp)"
  unfolding non_content_proof_def by (intro keeps_rules) (simp add: ports_lawful_def)

lemma keeps_quarantine_where_applicable [keeps_rules]:
  "keeps disciplined (quarantine_where_applicable tid actor cid)"
  unfolding quarantine_where_applicable_def by (intro keeps_rules)

lemma keeps_deprovision_fail [keeps_rules]: "keeps disciplined (deprovision_fail tid tgt why actor cid q)"
  unfolding deprovision_fail_def by (intro keeps_rules)

lemma keeps_deprovision_complete [keeps_rules]:
  "keeps disciplined (deprovision_complete tid tgt was why actor cid)"
  unfolding deprovision_complete_def by (intro keeps_rules)

lemma keeps_ownership_proof [keeps_rules]: "ports_lawful P \<Longrightarrow> keeps disciplined (ownership_proof P tid tgt)"
  unfolding ownership_proof_def by (intro keeps_rules)

lemma keeps_revalidate_and_drop [keeps_rules]:
  "ports_lawful P \<Longrightarrow> keeps disciplined (revalidate_and_drop P tid tgt fp actor cid)"
  unfolding revalidate_and_drop_def by (intro keeps_rules) (simp_all add: ports_lawful_def)

lemma keeps_census_and_drop [keeps_rules]:
  "ports_lawful P \<Longrightarrow> keeps disciplined (census_and_drop P supported tid tgt actor cid)"
  unfolding census_and_drop_def by (intro keeps_rules) (simp_all add: ports_lawful_def)

lemma keeps_case_bool [keeps_rules]:
  "\<lbrakk>keeps R m; keeps R n\<rbrakk> \<Longrightarrow> keeps R (case b of True \<Rightarrow> m | False \<Rightarrow> n)"
  by (cases b) simp_all

lemma keeps_proven_deprovision [keeps_rules]:
  "ports_lawful P \<Longrightarrow> keeps disciplined (proven_deprovision P supported tid tgt actor cid)"
  unfolding proven_deprovision_def by (intro keeps_rules) (simp_all add: ports_lawful_def)

lemma deprovision_as_tries:
  "deprovision_tenant_database P supported tid actor cid =
     andthen (audit_event tid TENANT_DEPROVISION_REQUESTED actor cid)
       (tries (\<lambda>w. case proven_deprovision P supported tid (tenant_database_name tid) actor cid w of
            (Inr res, w') \<Rightarrow> (Inr (Inr res), w') | (Inl x, w') \<Rightarrow> (Inr (Inl x), w'))
         raise
         (\<lambda>x. case x of Inr res \<Rightarrow> ret res
            | Inl (e, attempted) \<Rightarrow> if attempted then raise e
                else andthen (handle (audit_event tid TENANT_DEPROVISION_FAILED actor cid) (\<lambda>_. ret ()))
                       (raise e)))"
  unfolding deprovision_tenant_database_def
  by (rule arg_cong[where f = "andthen _"], rule ext) (simp split: prod.splits sum.splits)

lemma keeps_deprovision_tenant_database [keeps_rules]:
  assumes P: "ports_lawful P"
  shows "keeps disciplined (deprovision_tenant_database P supported tid actor cid)"
proof -
  let ?m = "\<lambda>w. case proven_deprovision P supported tid (tenant_database_name tid) actor cid w of
      (Inr res, w') \<Rightarrow> (Inr (Inr res), w') | (Inl x, w') \<Rightarrow> (Inr (Inl x), w')"
  have m: "keeps disciplined ?m"
  proof (rule keepsI)
    fix w
    have "disciplined w (snd (proven_deprovision P supported tid (tenant_database_name tid) actor cid w))"
      using keeps_proven_deprovision[OF P] by (simp add: keeps_def)
    then show "disciplined w (snd (?m w))" by (auto split: prod.splits sum.splits)
  qed
  show ?thesis
    unfolding deprovision_as_tries
    by (intro disc.keeps_andthen disc.keeps_tries m keeps_audit_event disc.keeps_raise)
      (auto split: sum.split intro!: keeps_rules)
qed

section \<open>The scan is read-only\<close>

lemma quiet_reads [simp]: "quiet (reads f)" "quiet (raise e)" "quiet (world_get t)"
  by (simp_all add: quiet_def world_get_def)

lemma quiet_classify_database:
  "(\<And>g. quiet (p_inspect P g)) \<Longrightarrow> quiet (classify_database P supported l cn name)"
  unfolding classify_database_def Let_def
  by (intro quiet_bnd) (auto split: option.split prod.split)

lemma quiet_classify_all:
  "(\<And>g. quiet (p_inspect P g)) \<Longrightarrow> quiet (classify_all P supported l cn names)"
  by (induction names) (simp_all add: quiet_classify_database)

lemma quiet_scan:
  "ports_quiet P \<Longrightarrow> quiet (scan_for_orphans P supported)"
  unfolding scan_for_orphans_def Let_def
  by (intro quiet_bnd) (auto simp: ports_quiet_def quiet_classify_all split: option.split)

section \<open>The drop happens only where the proof holds\<close>

text \<open>What the ownership proof establishes about the state in which the operator is called.\<close>

definition droppable :: "string \<Rightarrow> string \<Rightarrow> string \<Rightarrow> 'x cp_world \<Rightarrow> bool" where
  "droppable tid tgt fp w \<longleftrightarrow>
     (\<exists>r. get_tenant (store w) tid = Some r \<and> lifecycle r \<in> {Provisioning, Failed, Quarantined})
     \<and> (\<forall>t e. (t, e) \<in> set (ledger w) \<longrightarrow> t \<noteq> tid \<longrightarrow> observed_target e \<noteq> tgt \<and> fingerprint e \<noteq> fp)
     \<and> (\<forall>e. dict_get (ledger w) tid = Some e \<longrightarrow> fingerprint e = fp \<and> observed_target e = tgt)"

lemma evidence_excluding_none:
  "tid \<noteq> [] \<Longrightarrow> dict_get (evidence_excluding [] l) tid = dict_get l tid"
  unfolding dict_get_def evidence_excluding_def by (induction l) auto

lemma non_content_proof_None:
  assumes q: "quiet (p_control_name P)" and tid: "tid \<noteq> []"
    and run: "non_content_proof P tid tgt (Some fp) w = (Inr None, w')"
  shows "droppable tid tgt fp w' \<and> (\<exists>cn. p_control_name P w = (Inr (Some cn), w') \<and> cn \<noteq> tgt)"
proof -
  obtain r where r: "get_tenant (store w) tid = Some r" "lifecycle r \<in> set deprovision_eligible_states"
    using run by (auto simp: non_content_proof_def get_tenant_status_def world_get_def
      split: option.splits if_splits)
  obtain q1 w1 where cn: "p_control_name P w = (q1, w1)" by (cases "p_control_name P w")
  have st: "store w1 = store w" "ledger w1 = ledger w" using q cn unfolding quiet_def by (metis snd_conv)+
  from run r cn have *: "w' = w1 \<and> (\<exists>c. q1 = Inr (Some c) \<and> c \<noteq> tgt)
     \<and> \<not> list_ex (\<lambda>(_, e). evidence_conflicts tgt (Some fp) e) (evidence_excluding tid (ledger w1))
     \<and> \<not> own_mismatch tgt fp (dict_get (ledger w1) tid)"
    by (auto simp: non_content_proof_def get_tenant_status_def world_get_def own_evidence_def
        evidence_excluding_none[OF tid] split: option.splits if_splits sum.splits)
  then have "droppable tid tgt fp w'"
    using r st by (fastforce simp: droppable_def deprovision_eligible_states_def evidence_conflicts_def
        own_mismatch_def list_ex_iff evidence_excluding_def split: option.splits)
  with * cn show ?thesis by auto
qed

text \<open>
  Two operators that agree wherever the proof holds are indistinguishable: the operation consults
  the operator nowhere else, and only with the recomputed target.
\<close>

definition drop_allowed :: "'x cp_ports \<Rightarrow> string \<Rightarrow> 'x cp_world \<Rightarrow> bool" where
  "drop_allowed P tid w \<longleftrightarrow> (\<exists>fp. droppable tid (tenant_database_name tid) fp w)
     \<and> (\<exists>w0 cn. p_control_name P w0 = (Inr (Some cn), w) \<and> cn \<noteq> tenant_database_name tid)"

lemma other_ports:
  "p_control_name (P\<lparr>p_deprovision := D\<rparr>) = p_control_name P"
  "p_inspect (P\<lparr>p_deprovision := D\<rparr>) = p_inspect P"
  "p_database_exists (P\<lparr>p_deprovision := D\<rparr>) = p_database_exists P"
  by simp_all

lemma proof_operator:
  "non_content_proof (P\<lparr>p_deprovision := D\<rparr>) tid tgt fp = non_content_proof P tid tgt fp"
  unfolding non_content_proof_def other_ports ..

lemma ownership_operator:
  "ownership_proof (P\<lparr>p_deprovision := D\<rparr>) tid tgt = ownership_proof P tid tgt"
  unfolding ownership_proof_def proof_operator ..

lemma revalidate_operator:
  assumes q: "quiet (p_control_name P)" and tid: "tid \<noteq> []"
    and D: "\<And>w. drop_allowed P tid w \<Longrightarrow> D (tenant_database_name tid) w = D' (tenant_database_name tid) w"
  shows "revalidate_and_drop (P\<lparr>p_deprovision := D\<rparr>) tid (tenant_database_name tid) fp actor cid =
         revalidate_and_drop (P\<lparr>p_deprovision := D'\<rparr>) tid (tenant_database_name tid) fp actor cid"
    (is "?l = ?r")
proof (rule ext)
  fix w
  obtain x w1 where x: "non_content_proof P tid (tenant_database_name tid) (Some fp) w = (x, w1)"
    by (cases "non_content_proof P tid (tenant_database_name tid) (Some fp) w")
  show "?l w = ?r w"
  proof (cases "x = Inr None")
    case True
    with x have "drop_allowed P tid w1"
      using non_content_proof_None[OF q tid] by (fastforce simp: drop_allowed_def)
    from D[OF this] show ?thesis using x True by (simp add: revalidate_and_drop_def proof_operator)
  next
    case False
    then show ?thesis using x
      by (auto simp: revalidate_and_drop_def proof_operator split: sum.splits option.splits)
  qed
qed

lemma deprovision_operator:
  assumes "quiet (p_control_name P)" and "tid \<noteq> []"
    and "\<And>w. drop_allowed P tid w \<Longrightarrow> D (tenant_database_name tid) w = D' (tenant_database_name tid) w"
  shows "deprovision_tenant_database (P\<lparr>p_deprovision := D\<rparr>) supported tid actor cid =
         deprovision_tenant_database (P\<lparr>p_deprovision := D'\<rparr>) supported tid actor cid"
proof -
  have same: "revalidate_and_drop (P\<lparr>p_deprovision := D\<rparr>) tid (tenant_database_name tid) fp actor cid =
      revalidate_and_drop (P\<lparr>p_deprovision := D'\<rparr>) tid (tenant_database_name tid) fp actor cid" for fp
    by (rule revalidate_operator) (rule assms, assumption?)+
  show ?thesis
    unfolding deprovision_tenant_database_def proven_deprovision_def census_and_drop_def
      other_ports ownership_operator same ..
qed

section \<open>Undisturbed runs: one terminal record, and what it says\<close>

definition calm :: "string \<Rightarrow> tenant_record option \<Rightarrow> string list \<Rightarrow> 'x cp_world \<Rightarrow> bool" where
  "calm tid r0 T w \<longleftrightarrow> sane w \<and> writers w = [] \<and> get_tenant (store w) tid = r0 \<and> trail w = T"

text \<open>The refused tenant is held in quarantine exactly for isolation-class reasons in two states.\<close>

definition held :: "tenant_record option \<Rightarrow> deprovision_outcome \<Rightarrow> bool" where
  "held r0 res \<longleftrightarrow> \<not> completed res \<and> dep_reason res \<in> set anomaly_reasons
     \<and> (case r0 of None \<Rightarrow> False | Some r \<Rightarrow> lifecycle r \<in> {Provisioning, Failed})"

definition settled :: "string \<Rightarrow> tenant_record option \<Rightarrow> string list \<Rightarrow> deprovision_outcome \<Rightarrow> 'x cp_world \<Rightarrow> bool" where
  "settled tid r0 T res w \<longleftrightarrow>
     (if held r0 res then \<exists>p. get_tenant (store w) tid = Some p \<and> lifecycle p = Quarantined
      else get_tenant (store w) tid = r0)
     \<and> trail w = T @ (if held r0 res then [''QuarantineTenant'', TENANT_QUARANTINED] else [])
         @ [if completed res then TENANT_DEPROVISION_COMPLETED else TENANT_DEPROVISION_FAILED]"

lemma quiet_calm: "quiet m \<Longrightarrow> triple (\<lambda>_ _. True) (calm tid r0 T) m (\<lambda>_. calm tid r0 T) (\<lambda>_. calm tid r0 T)"
  by (rule tripleI) (metis calm_def quiet_def quiet_sane snd_conv trail_def)

lemma event_calm:
  "triple (\<lambda>_ _. True) (calm tid r0 T) (audit_event t ac actor cid) (\<lambda>_. calm tid r0 (T @ [ac])) (\<lambda>_ _. False)"
proof (rule tripleI)
  fix w :: "'x cp_world" and r w' assume c: "calm tid r0 T w" and run: "audit_event t ac actor cid w = (r, w')"
  have w': "r = Inr ()" "\<exists>a. store w' = append_audit a (store w) \<and> aud_action a = ac"
    "ledger w' = ledger w" "writers w' = writers w"
    using run by (auto simp: audit_event_def audit_record_def now_iso_def Let_def)
  then have "sane w'" using c unfolding sane_def calm_def by auto
  with w' c show "True \<and> (\<forall>a. r = Inr a \<longrightarrow> calm tid r0 (T @ [ac]) w') \<and> (\<forall>e. r = Inl e \<longrightarrow> False)"
    by (auto simp: calm_def trail_def)
qed

lemma quiet_non_content_proof: "ports_quiet P \<Longrightarrow> quiet (non_content_proof P tid tgt fp)"
  unfolding non_content_proof_def get_tenant_status_def own_evidence_def
  by (intro quiet_bnd) (auto simp: ports_quiet_def split: option.split)

lemma quiet_ownership_proof: "ports_quiet P \<Longrightarrow> quiet (ownership_proof P tid tgt)"
  unfolding ownership_proof_def get_tenant_status_def
  by (intro quiet_bnd) (auto simp: quiet_non_content_proof split: option.split)

lemma tagged_triple:
  "triple R A m Q (\<lambda>_. E) \<Longrightarrow> triple R A (tagged b m) Q (\<lambda>x w. snd x = b \<and> E w)"
  unfolding triple_def by (fastforce split: prod.splits sum.splits)

abbreviation unmarked :: "string \<Rightarrow> tenant_record option \<Rightarrow> string list \<Rightarrow> cp_error \<times> bool \<Rightarrow> 'x cp_world \<Rightarrow> bool" where
  "unmarked tid r0 T \<equiv> (\<lambda>x w. \<not> snd x \<and> calm tid r0 T w)"

lemma tagged_calm:
  assumes "quiet m"
  shows "triple (\<lambda>_ _. True) (calm tid r0 T) (tagged False m) (\<lambda>_. calm tid r0 T) (unmarked tid r0 T)"
  by (rule triple_conseq[OF tagged_triple[OF quiet_calm[OF assms]]]) auto

lemma quarantine_where_applicable_calm:
  "triple (\<lambda>_ _. True) (calm tid r0 T) (quarantine_where_applicable tid actor cid :: ('x, unit) cp)
     (\<lambda>_. case r0 of Some r \<Rightarrow> (if lifecycle r \<in> {Provisioning, Failed} then
            (\<lambda>w. \<exists>p. calm tid (Some p) (T @ [''QuarantineTenant'', TENANT_QUARANTINED]) w \<and> lifecycle p = Quarantined)
          else calm tid r0 T) | None \<Rightarrow> calm tid r0 T) (\<lambda>_ _. False)"
proof (cases "\<exists>r. r0 = Some r \<and> lifecycle r \<in> {Provisioning, Failed}")
  case False
  then show ?thesis
    by (intro tripleI) (auto simp: quarantine_where_applicable_def get_tenant_status_def world_get_def
        calm_def quarantine_eligible_states_def split: option.splits)
next
  case True
  then obtain r where r: "r0 = Some r" "lifecycle r \<in> {Provisioning, Failed}" by blast
  let ?swap = "swap_and_audit r id Quarantined ''QuarantineTenant'' actor cid :: ('x, tenant_record) cp"
  have swap: "triple (\<lambda>_ _. True) (calm tid r0 T) ?swap
      (\<lambda>_ w. \<exists>p. calm tid (Some p) (T @ [''QuarantineTenant'']) w \<and> lifecycle p = Quarantined) (\<lambda>_ _. False)"
  proof (cases "tenant_id r = tid")
    case True
    show ?thesis
      by (rule triple_conseq[OF swap_and_audit_at[where rec = r and T = T]])
        (use True r in \<open>auto simp: calm_def at_def\<close>)
  next
    case False
    then show ?thesis using r unfolding triple_def calm_def by (auto dest: seen_get)
  qed
  have "triple (\<lambda>_ _. True) (calm tid r0 T)
      (andthen ?swap (audit_event tid TENANT_QUARANTINED actor cid))
      (\<lambda>_ w. \<exists>p. calm tid (Some p) (T @ [''QuarantineTenant'', TENANT_QUARANTINED]) w \<and> lifecycle p = Quarantined)
      (\<lambda>_ _. False)"
  proof (rule any.triple_andthen[OF swap], rule tripleI)
    fix w :: "'x cp_world" and q w'
    assume "\<exists>p. calm tid (Some p) (T @ [''QuarantineTenant'']) w \<and> lifecycle p = Quarantined"
      and run: "audit_event tid TENANT_QUARANTINED actor cid w = (q, w')"
    then obtain p where p: "calm tid (Some p) (T @ [''QuarantineTenant'']) w" "lifecycle p = Quarantined" by blast
    from tripleD[OF event_calm p(1) run] p(2)
    show "True \<and> (\<forall>a. q = Inr a \<longrightarrow> (\<exists>p. calm tid (Some p) (T @ [''QuarantineTenant'', TENANT_QUARANTINED]) w'
        \<and> lifecycle p = Quarantined)) \<and> (\<forall>e. q = Inl e \<longrightarrow> False)" by auto
  qed
  moreover have "triple (\<lambda>_ _. True) (calm tid r0 T) (quarantine_where_applicable tid actor cid) Q E"
    if "triple (\<lambda>_ _. True) (calm tid r0 T) (andthen ?swap (audit_event tid TENANT_QUARANTINED actor cid)) Q E" for Q E
  proof (rule tripleI)
    fix w :: "'x cp_world" and q w'
    assume c: "calm tid r0 T w" and run: "quarantine_where_applicable tid actor cid w = (q, w')"
    have "andthen ?swap (audit_event tid TENANT_QUARANTINED actor cid) w = (q, w')"
      using c run r
      by (auto simp: quarantine_where_applicable_def get_tenant_status_def world_get_def calm_def
          quarantine_eligible_states_def quarantine_tenant_def registry_transition_def phase_4_states_def)
    from tripleD[OF that c this] show "True \<and> (\<forall>a. q = Inr a \<longrightarrow> Q a w') \<and> (\<forall>e. q = Inl e \<longrightarrow> E e w')" .
  qed
  ultimately show ?thesis using r by simp
qed

lemma deprovision_fail_settled:
  assumes "quarantine \<or> why \<notin> set anomaly_reasons"
  shows "triple (\<lambda>_ _. True) (calm tid r0 T) (deprovision_fail tid tgt why actor cid quarantine :: ('x, _) latched)
    (settled tid r0 T) (unmarked tid r0 T)"
proof -
  let ?out = "\<lparr>dep_tenant_id = tid, dep_target = tgt, dropped = False, completed = False, dep_reason = why\<rparr>"
  let ?q = "if quarantine \<and> why \<in> set anomaly_reasons then quarantine_where_applicable tid actor cid
     else ret () :: ('x, unit) cp"
  let ?H = "held r0 ?out"
  let ?mid = "\<lambda>w :: 'x cp_world. \<exists>r1. calm tid r1 (T @ (if ?H then [''QuarantineTenant'', TENANT_QUARANTINED] else [])) w
     \<and> (if ?H then \<exists>p. r1 = Some p \<and> lifecycle p = Quarantined else r1 = r0)"
  have q: "triple (\<lambda>_ _. True) (calm tid r0 T) ?q (\<lambda>_. ?mid) (\<lambda>_ _. False)"
  proof (cases "why \<in> set anomaly_reasons")
    case True
    then show ?thesis using assms
      by (auto simp: held_def split: option.splits
          intro!: triple_conseq[OF quarantine_where_applicable_calm]) blast+
  next
    case False
    then show ?thesis by (auto simp: held_def intro!: any.triple_ret)
  qed
  have tq: "triple (\<lambda>_ _. True) (calm tid r0 T) (tagged False ?q) (\<lambda>_. ?mid) (unmarked tid r0 T)"
    by (rule triple_conseq[OF tagged_triple[OF q]]) auto
  have e: "triple (\<lambda>_ _. True) ?mid (audit_event tid TENANT_DEPROVISION_FAILED actor cid)
      (\<lambda>_. settled tid r0 T ?out) (\<lambda>_ _. False)"
  proof (rule tripleI)
    fix w :: "'x cp_world" and x w'
    assume "?mid w" and run: "audit_event tid TENANT_DEPROVISION_FAILED actor cid w = (x, w')"
    then obtain r1 where r1: "calm tid r1 (T @ (if ?H then [''QuarantineTenant'', TENANT_QUARANTINED] else [])) w"
      "if ?H then \<exists>p. r1 = Some p \<and> lifecycle p = Quarantined else r1 = r0" by blast
    from tripleD[OF event_calm r1(1) run] r1(2)
    show "True \<and> (\<forall>a. x = Inr a \<longrightarrow> settled tid r0 T ?out w') \<and> (\<forall>e. x = Inl e \<longrightarrow> False)"
      by (auto simp: settled_def calm_def split: if_splits)
  qed
  have te: "triple (\<lambda>_ _. True) ?mid (tagged True (audit_event tid TENANT_DEPROVISION_FAILED actor cid))
      (\<lambda>_. settled tid r0 T ?out) (unmarked tid r0 T)"
    by (rule triple_conseq[OF tagged_triple[OF e]]) auto
  show ?thesis
    unfolding deprovision_fail_def
    by (rule any.triple_andthen[OF tq], rule any.triple_andthen[OF te]) (rule any.triple_ret)
qed

lemma deprovision_complete_settled:
  "triple (\<lambda>_ _. True) (calm tid r0 T) (deprovision_complete tid tgt was why actor cid)
    (settled tid r0 T) (unmarked tid r0 T)"
  unfolding deprovision_complete_def
proof (rule any.triple_andthen)
  show "triple (\<lambda>_ _. True) (calm tid r0 T) (tagged True (audit_event tid TENANT_DEPROVISION_COMPLETED actor cid))
      (\<lambda>_. calm tid r0 (T @ [TENANT_DEPROVISION_COMPLETED])) (unmarked tid r0 T)"
    by (rule triple_conseq[OF tagged_triple[OF event_calm]]) auto
qed (rule any.triple_ret, simp add: settled_def held_def calm_def)

lemma proven_deprovision_settled:
  assumes P: "ports_quiet P"
  shows "triple (\<lambda>_ _. True) (calm tid r0 T) (proven_deprovision P supported tid tgt actor cid)
    (settled tid r0 T) (unmarked tid r0 T)"
proof -
  have q: "quiet (p_database_exists P tgt)" "quiet (p_inspect P tgt)" "quiet (p_deprovision P tgt)"
    "quiet (own_evidence tid)"
    using P by (simp_all add: ports_quiet_def own_evidence_def)
  have fail: "triple (\<lambda>_ _. True) (calm tid r0 T) (deprovision_fail tid tgt why actor cid True)
      (settled tid r0 T) (unmarked tid r0 T)" for why
    by (rule deprovision_fail_settled) simp
  have drop: "triple (\<lambda>_ _. True) (calm tid r0 T) (revalidate_and_drop P tid tgt fp actor cid)
      (settled tid r0 T) (unmarked tid r0 T)" for fp
    unfolding revalidate_and_drop_def
  proof (rule any.triple_bnd[OF tagged_calm[OF quiet_non_content_proof[OF P]]])
    fix failure :: "string option"
    have "triple (\<lambda>_ _. True) (calm tid r0 T) (tries (tagged False (p_deprovision P tgt))
           (\<lambda>_. deprovision_fail tid tgt ''deprovision_failed'' actor cid False)
           (\<lambda>_. deprovision_complete tid tgt True ''deprovisioned'' actor cid))
        (settled tid r0 T) (unmarked tid r0 T)"
    proof (rule any.triple_tries[OF tagged_calm[OF q(3)]])
      show "triple (\<lambda>_ _. True) (unmarked tid r0 T e) (deprovision_fail tid tgt ''deprovision_failed'' actor cid False)
          (settled tid r0 T) (unmarked tid r0 T)" for e
        by (rule triple_conseq[OF deprovision_fail_settled]) (auto simp: anomaly_reasons_def)
    qed (rule deprovision_complete_settled)
    then show "triple (\<lambda>_ _. True) (calm tid r0 T) (case failure of
         Some why \<Rightarrow> deprovision_fail tid tgt why actor cid True
       | None \<Rightarrow> tries (tagged False (p_deprovision P tgt))
           (\<lambda>_. deprovision_fail tid tgt ''deprovision_failed'' actor cid False)
           (\<lambda>_. deprovision_complete tid tgt True ''deprovisioned'' actor cid))
        (settled tid r0 T) (unmarked tid r0 T)"
      using fail by (cases failure) simp_all
  qed
  have census: "triple (\<lambda>_ _. True) (calm tid r0 T) (census_and_drop P supported tid tgt actor cid)
      (settled tid r0 T) (unmarked tid r0 T)"
    unfolding census_and_drop_def
    by (rule any.triple_bnd[OF tagged_calm[OF q(2)]])
      (auto split: option.split intro!: fail drop triple_if any.triple_bnd[OF tagged_calm[OF q(4)]])
  have exists: "triple (\<lambda>_ _. True) (calm tid r0 T) (bnd (tagged False (p_database_exists P tgt)) (\<lambda>there.
           case there of
             None \<Rightarrow> deprovision_fail tid tgt ''inspection_unavailable'' actor cid True
           | Some False \<Rightarrow> deprovision_complete tid tgt False ''absent_noop'' actor cid
           | Some True \<Rightarrow> census_and_drop P supported tid tgt actor cid))
      (settled tid r0 T) (unmarked tid r0 T)"
    by (rule any.triple_bnd[OF tagged_calm[OF q(1)]])
      (auto split: option.split bool.split intro: fail census deprovision_complete_settled)
  show ?thesis
    unfolding proven_deprovision_def
    by (rule any.triple_bnd[OF tagged_calm[OF quiet_ownership_proof[OF P]]])
      (auto split: option.split intro: fail exists)
qed

lemma deprovision_settled:
  assumes P: "ports_quiet P" and c: "calm tid r0 T w"
    and run: "deprovision_tenant_database P supported tid actor cid w = (r, w')"
  shows "case r of Inr res \<Rightarrow> settled tid r0 (T @ [TENANT_DEPROVISION_REQUESTED]) res w'
    | Inl e \<Rightarrow> get_tenant (store w') tid = r0
        \<and> trail w' = T @ [TENANT_DEPROVISION_REQUESTED, TENANT_DEPROVISION_FAILED]"
proof -
  let ?T = "T @ [TENANT_DEPROVISION_REQUESTED]"
  obtain x w1 where ev: "audit_event tid TENANT_DEPROVISION_REQUESTED actor cid w = (x, w1)"
    by (cases "audit_event tid TENANT_DEPROVISION_REQUESTED actor cid w")
  from tripleD[OF event_calm c ev] have x: "x = Inr ()" and c1: "calm tid r0 ?T w1" by (cases x; auto)+
  obtain y w2 where pd: "proven_deprovision P supported tid (tenant_database_name tid) actor cid w1 = (y, w2)"
    by (cases "proven_deprovision P supported tid (tenant_database_name tid) actor cid w1")
  note post = tripleD[OF proven_deprovision_settled[OF P] c1 pd]
  show ?thesis
  proof (cases y)
    case (Inr res)
    then show ?thesis using run ev x pd post by (auto simp: deprovision_tenant_database_def)
  next
    case (Inl ea)
    then obtain e where y: "y = Inl (e, False)" and c2: "calm tid r0 ?T w2" using post by (cases ea) auto
    obtain z w3 where f: "audit_event tid TENANT_DEPROVISION_FAILED actor cid w2 = (z, w3)"
      by (cases "audit_event tid TENANT_DEPROVISION_FAILED actor cid w2")
    from tripleD[OF event_calm c2 f] have "z = Inr ()" "calm tid r0 (?T @ [TENANT_DEPROVISION_FAILED]) w3"
      by (cases z; auto)+
    then show ?thesis using run ev x pd y f by (auto simp: deprovision_tenant_database_def calm_def)
  qed
qed

section \<open>The scan and the operation agree\<close>

text \<open>
  Ports that only read the outside world: the inspection, the existence check and the control
  name. Then the scan's \<open>safe_to_deprovision\<close> is exactly what the operation decides.
\<close>

definition reading_ports :: "'x cp_ports \<Rightarrow> ('x \<Rightarrow> inspection option) \<Rightarrow> ('x \<Rightarrow> string option) \<Rightarrow> string \<Rightarrow> bool" where
  "reading_ports P insp cname tid \<longleftrightarrow>
     p_inspect P (tenant_database_name tid) = ext_reads insp \<and> p_control_name P = ext_reads cname
     \<and> p_database_exists P (tenant_database_name tid) = ext_reads (\<lambda>_. Some True)
     \<and> (\<forall>w. \<exists>w'. p_deprovision P (tenant_database_name tid) w = (Inr (), w'))"

definition no_conflict :: "string \<Rightarrow> string \<Rightarrow> string \<Rightarrow> ledger_map \<Rightarrow> bool" where
  "no_conflict tid tgt fp l \<longleftrightarrow>
     (\<forall>(t, e) \<in> set l. t \<noteq> tid \<longrightarrow> observed_target e \<noteq> tgt \<and> fingerprint e \<noteq> fp)"

definition own_row_ok :: "string \<Rightarrow> string \<Rightarrow> string \<Rightarrow> ledger_map \<Rightarrow> bool" where
  "own_row_ok tid tgt fp l \<longleftrightarrow>
     (\<forall>(t, e) \<in> set l. t = tid \<longrightarrow> observed_target e = tgt \<and> fingerprint e = fp)"

lemma prefix_target [simp]: "starts_with DEFAULT_TENANT_DB_PREFIX (tenant_database_name tid)"
  by (simp add: tenant_database_name_def)

lemma own_row_ok_get:
  "dict_ok l \<Longrightarrow> own_row_ok tid tgt fp l \<longleftrightarrow> \<not> own_mismatch tgt fp (dict_get l tid)"
  by (auto simp: own_row_ok_def own_mismatch_def dict_mem_iff split: option.splits)

lemma others_ok:
  "list_ex (\<lambda>(_, e). evidence_conflicts tgt (Some fp) e) (evidence_excluding tid l) \<longleftrightarrow> \<not> no_conflict tid tgt fp l"
  "list_ex (\<lambda>(_, e). evidence_conflicts tgt None e) (evidence_excluding tid l) \<longleftrightarrow>
     \<not> (\<forall>(t, e) \<in> set l. t \<noteq> tid \<longrightarrow> observed_target e \<noteq> tgt)"
  by (auto simp: no_conflict_def list_ex_iff evidence_excluding_def evidence_conflicts_def)

lemma non_content_proof_reading:
  assumes ports: "reading_ports P insp cname tid" and tid: "tid \<noteq> []" and ok: "dict_ok (ledger w)"
  shows "\<exists>v. non_content_proof P tid (tenant_database_name tid) fp w = (Inr v, w) \<and> (v = None \<longleftrightarrow>
     (\<exists>r. get_tenant (store w) tid = Some r \<and> lifecycle r \<in> set deprovision_eligible_states)
     \<and> (\<exists>c. cname (ext w) = Some c \<and> c \<noteq> tenant_database_name tid)
     \<and> (\<forall>(t, e) \<in> set (ledger w). t \<noteq> tid \<longrightarrow> observed_target e \<noteq> tenant_database_name tid)
     \<and> (\<forall>f. fp = Some f \<longrightarrow> no_conflict tid (tenant_database_name tid) f (ledger w)
          \<and> own_row_ok tid (tenant_database_name tid) f (ledger w)))"
proof (cases fp)
  case None
  then show ?thesis using ports
    by (auto simp: reading_ports_def non_content_proof_def get_tenant_status_def world_get_def
        ext_reads_def others_ok split: option.splits)
next
  case (Some f)
  have "no_conflict tid (tenant_database_name tid) f (ledger w) \<Longrightarrow>
      (\<forall>(t, e) \<in> set (ledger w). t \<noteq> tid \<longrightarrow> observed_target e \<noteq> tenant_database_name tid)"
    by (auto simp: no_conflict_def)
  then show ?thesis using ports Some own_row_ok_get[OF ok]
    by (auto simp: reading_ports_def non_content_proof_def get_tenant_status_def world_get_def
        ext_reads_def others_ok own_evidence_def evidence_excluding_none[OF tid] split: option.splits)
qed

lemma deprovision_fail_not_dropped:
  "deprovision_fail tid tgt why actor cid q w = (Inr res, w') \<Longrightarrow> \<not> dropped res"
  by (auto simp: deprovision_fail_def split: sum.splits prod.splits)

lemma scan_evidence_split:
  assumes "tenant_id r = tid"
  shows "scan_evidence name fp (Some r) (c, m) l =
    (c \<or> \<not> no_conflict tid name fp l, m \<or> \<not> own_row_ok tid name fp l)"
  using assms
  by (induction l arbitrary: c m) (auto simp: no_conflict_def own_row_ok_def)

lemma excluding_none_conflict:
  "[] \<notin> fst ` set l \<Longrightarrow> evidence_excluding [] l = l"
  by (force simp: evidence_excluding_def filter_id_conv)

lemma safe_decision:
  "fst (snd (snd (scan_decision ct (Some r) cf mm ct2 st))) \<longleftrightarrow>
     \<not> ct \<and> \<not> cf \<and> \<not> mm \<and> lifecycle r \<in> set deprovision_eligible_states
     \<and> ct2 \<noteq> CONTENT_NON_EMPTY \<and> st = REF_CANONICAL"
  by (simp add: scan_decision_def)

lemma drop_decision:
  assumes ports: "reading_ports P insp cname tid" and tid: "tid \<noteq> []"
    and w: "sane w" and r: "get_tenant (store w) tid = Some r"
  shows "(\<exists>res w'. deprovision_tenant_database P supported tid actor cid w = (Inr res, w') \<and> dropped res)
    \<longleftrightarrow> lifecycle r \<in> set deprovision_eligible_states
      \<and> (\<exists>c. cname (ext w) = Some c \<and> c \<noteq> tenant_database_name tid)
      \<and> ref_status (Some r) = REF_CANONICAL
      \<and> (\<exists>i. insp (ext w) = Some i \<and> classify_content i supported \<noteq> CONTENT_NON_EMPTY
           \<and> no_conflict tid (tenant_database_name tid) (insp_fingerprint i) (ledger w)
           \<and> own_row_ok tid (tenant_database_name tid) (insp_fingerprint i) (ledger w))"
    (is "?L \<longleftrightarrow> ?R")
proof -
  let ?tgt = "tenant_database_name tid"
  obtain w1 where w1: "audit_event tid TENANT_DEPROVISION_REQUESTED actor cid w = (Inr (), w1)"
    and get: "get_tenant (store w1) tid = Some r" and lg: "ledger w1 = ledger w" and ex: "ext w1 = ext w"
    using r by (auto simp: audit_event_def audit_record_def now_iso_def Let_def)
  have ok: "dict_ok (ledger w1)" using sane_parts(2)[OF w] lg by (simp add: one_holder_def)
  have id: "tenant_id r = tid" using seen_get[OF w r] by simp
  note proof1 = non_content_proof_reading[OF ports tid ok]
  obtain v0 where v0: "non_content_proof P tid ?tgt None w1 = (Inr v0, w1)"
    "v0 = None \<longleftrightarrow> lifecycle r \<in> set deprovision_eligible_states
     \<and> (\<exists>c. cname (ext w) = Some c \<and> c \<noteq> ?tgt)
     \<and> (\<forall>(t, e) \<in> set (ledger w). t \<noteq> tid \<longrightarrow> observed_target e \<noteq> ?tgt)"
    using proof1[of None] get lg ex by auto
  have v1: "\<exists>v. non_content_proof P tid ?tgt (Some f) w1 = (Inr v, w1) \<and> (v = None \<longleftrightarrow>
      lifecycle r \<in> set deprovision_eligible_states \<and> (\<exists>c. cname (ext w) = Some c \<and> c \<noteq> ?tgt)
      \<and> (\<forall>(t, e) \<in> set (ledger w). t \<noteq> tid \<longrightarrow> observed_target e \<noteq> ?tgt)
      \<and> no_conflict tid ?tgt f (ledger w) \<and> own_row_ok tid ?tgt f (ledger w))" for f
    using proof1[of "Some f"] get lg ex by auto
  have drop: "(\<exists>res w'. revalidate_and_drop P tid ?tgt f actor cid w1 = (Inr res, w') \<and> dropped res)
      \<longleftrightarrow> fst (non_content_proof P tid ?tgt (Some f) w1) = Inr None" for f
  proof -
    obtain v where v: "non_content_proof P tid ?tgt (Some f) w1 = (Inr v, w1)" using v1[of f] by blast
    obtain w2 where "p_deprovision P ?tgt w1 = (Inr (), w2)"
      using ports by (auto simp: reading_ports_def)
    with v show ?thesis
      by (cases v) (auto simp: revalidate_and_drop_def deprovision_complete_def audit_event_def
          audit_record_def now_iso_def Let_def dest: deprovision_fail_not_dropped)
  qed
  have last: "fst (non_content_proof P tid ?tgt (Some f) w1) = Inr None \<longleftrightarrow>
      lifecycle r \<in> set deprovision_eligible_states \<and> (\<exists>c. cname (ext w) = Some c \<and> c \<noteq> ?tgt)
      \<and> (\<forall>(t, e) \<in> set (ledger w). t \<noteq> tid \<longrightarrow> observed_target e \<noteq> ?tgt)
      \<and> no_conflict tid ?tgt f (ledger w) \<and> own_row_ok tid ?tgt f (ledger w)" for f
    using v1[of f] by (elim exE conjE) simp
  have own: "own_evidence tid w1 = (Inr (dict_get (ledger w) tid), w1)"
    by (simp add: own_evidence_def evidence_excluding_none[OF tid] lg)
  have census: "(\<exists>res w'. census_and_drop P supported tid ?tgt actor cid w1 = (Inr res, w') \<and> dropped res)
      \<longleftrightarrow> (\<exists>i. insp (ext w) = Some i \<and> classify_content i supported \<noteq> CONTENT_NON_EMPTY
           \<and> own_row_ok tid ?tgt (insp_fingerprint i) (ledger w)
           \<and> fst (non_content_proof P tid ?tgt (Some (insp_fingerprint i)) w1) = Inr None)"
    using ports own own_row_ok_get[OF ok] lg ex drop
    by (cases "insp (ext w)") (auto simp: census_and_drop_def reading_ports_def ext_reads_def
        dest: deprovision_fail_not_dropped)
  have proven: "(\<exists>res w'. proven_deprovision P supported tid ?tgt actor cid w1 = (Inr res, w') \<and> dropped res)
      \<longleftrightarrow> v0 = None \<and> ref_status (Some r) = REF_CANONICAL
        \<and> (\<exists>res w'. census_and_drop P supported tid ?tgt actor cid w1 = (Inr res, w') \<and> dropped res)"
    using ports v0(1) get id
    by (cases v0) (auto simp: proven_deprovision_def ownership_proof_def get_tenant_status_def world_get_def
        reading_ports_def ext_reads_def ref_status_def dest: deprovision_fail_not_dropped)
  have "?L \<longleftrightarrow> (\<exists>res w'. proven_deprovision P supported tid ?tgt actor cid w1 = (Inr res, w') \<and> dropped res)"
    using w1 by (auto simp: deprovision_tenant_database_def split: prod.splits sum.splits)
  also have "\<dots> \<longleftrightarrow> ?R"
    unfolding proven census v0(2) last
    by (auto simp: no_conflict_def)
  finally show ?thesis .
qed

lemma inspected_entry_safe:
  "oe_safe (inspected_entry supported l cn name found i) = fst (snd (snd (scan_decision (name = cn) found
     (fst (scan_evidence name (insp_fingerprint i) found (False, False) l))
     (snd (scan_evidence name (insp_fingerprint i) found (False, False) l))
     (classify_content i supported) (ref_status found))))"
proof -
  obtain c m where cm: "scan_evidence name (insp_fingerprint i) found (False, False) l = (c, m)"
    by (cases "scan_evidence name (insp_fingerprint i) found (False, False) l")
  obtain cls action safe why where "scan_decision (name = cn) found c m (classify_content i supported)
      (ref_status found) = (cls, action, safe, why)" by (metis prod_cases4)
  with cm show ?thesis by (simp add: inspected_entry_def)
qed

lemma classify_database_safe:
  assumes tid: "tid \<noteq> []" and r: "get_tenant (store w) tid = Some r"
    and insp: "p_inspect P (tenant_database_name tid) w = (Inr x, w)"
    and run: "classify_database P supported l cn (tenant_database_name tid) w = (Inr entry, w')"
  shows "oe_safe entry \<longleftrightarrow> (\<exists>i. x = Some i \<and> fst (snd (snd (scan_decision (tenant_database_name tid = cn) (Some r)
     (fst (scan_evidence (tenant_database_name tid) (insp_fingerprint i) (Some r) (False, False) l))
     (snd (scan_evidence (tenant_database_name tid) (insp_fingerprint i) (Some r) (False, False) l))
     (classify_content i supported) (ref_status (Some r))))))"
proof -
  have "drop (length DEFAULT_TENANT_DB_PREFIX) (tenant_database_name tid) = tid"
    by (simp add: tenant_database_name_def)
  then have "entry = (case x of None \<Rightarrow> uninspectable_entry cn (tenant_database_name tid) (Some r)
      | Some i \<Rightarrow> inspected_entry supported l cn (tenant_database_name tid) (Some r) i)"
    using tid r insp run by (simp add: classify_database_def Let_def world_get_def)
  then show ?thesis
    by (cases x) (simp_all add: uninspectable_entry_def inspected_entry_safe)
qed

lemma scan_decision_agrees:
  assumes ports: "reading_ports P insp cname tid" and tid: "tid \<noteq> []" and w: "sane w"
    and r: "get_tenant (store w) tid = Some r" and ne: "[] \<notin> fst ` set (ledger w)"
    and cn: "cname (ext w) = Some cn"
    and scan: "classify_database P supported (evidence_excluding [] (ledger w)) cn (tenant_database_name tid) w
      = (Inr entry, w')"
  shows "oe_safe entry \<longleftrightarrow>
    (\<exists>res w'. deprovision_tenant_database P supported tid actor cid w = (Inr res, w') \<and> dropped res)"
proof -
  have "tenant_id r = tid" using seen_get[OF w r] by simp
  moreover have "p_inspect P (tenant_database_name tid) w = (Inr (insp (ext w)), w)"
    using ports by (simp add: reading_ports_def ext_reads_def)
  ultimately show ?thesis
    unfolding drop_decision[OF ports tid w r] excluding_none_conflict[OF ne]
    using classify_database_safe[OF tid r _ scan, of "insp (ext w)"]
    by (auto simp: scan_evidence_split excluding_none_conflict[OF ne] safe_decision cn)
qed

end
