(* ===== verification/CP_Lifecycle.thy ===== *)
theory CP_Lifecycle
  imports CP_GateSpec
begin

text \<open>
  The tenant lifecycle service (\<open>backend/control_plane/lifecycle.py\<close>): verification by the schema
  probe alone, activation, reactivation and re-association with its version guard. The service is
  not composed by the default wiring, but it moves the same records.
\<close>

text \<open>\<open>_version_gt\<close>: numeric when both are integers, a string comparison otherwise.\<close>

definition version_gt :: "string \<Rightarrow> string \<Rightarrow> bool" where
  "version_gt new old =
     (case (py_int new, py_int old) of (Some a, Some b) \<Rightarrow> a > b | _ \<Rightarrow> new > old)"

definition lifecycle_require :: "string \<Rightarrow> ('x, tenant_record) cp" where
  "lifecycle_require tid = bnd (world_get tid) (\<lambda>found.
     case found of None \<Rightarrow> raise (LifecycleError ''unknown tenant'') | Some rec \<Rightarrow> ret rec)"

definition conflict_to_lifecycle :: "cp_error \<Rightarrow> ('x, 'a) cp" where
  "conflict_to_lifecycle e =
     (if e = ControlStoreConcurrencyError then raise (LifecycleError ''concurrent lifecycle transition'')
      else raise e)"

definition lifecycle_set ::
    "tenant_record \<Rightarrow> lifecycle_state \<Rightarrow> string \<Rightarrow> string \<Rightarrow> string \<Rightarrow> ('x, tenant_record) cp" where
  "lifecycle_set rec to_state actor cid action =
     handle (swap_and_audit rec id to_state action actor cid) conflict_to_lifecycle"

definition lifecycle_verify ::
    "'x cp_ports \<Rightarrow> string list \<Rightarrow> string \<Rightarrow> string \<Rightarrow> string \<Rightarrow> ('x, tenant_record) cp" where
  "lifecycle_verify P supported tid actor cid =
     bnd (lifecycle_require tid) (\<lambda>rec.
       if lifecycle rec \<in> {Decommissioned, Suspended, Quarantined} then
         raise (LifecycleError ''illegal lifecycle transition'')
       else andthen (lifecycle_set rec Verifying actor cid ''VerifyTenant'')
         (bnd (p_probe P (database_association_ref rec)) (\<lambda>result.
          bnd (lifecycle_require tid) (\<lambda>cur.
            if \<not> reachable result then lifecycle_set cur Failed actor cid ''VerifyTenant:unreachable''
            else if (case observed_schema_version result of None \<Rightarrow> True | Some v \<Rightarrow> v \<notin> set supported)
                 \<or> observed_schema_version result \<noteq> Some (expected_schema_version rec) then
              lifecycle_set cur Failed actor cid ''VerifyTenant:schema''
            else lifecycle_set cur Ready actor cid ''VerifyTenant:ready''))))"

definition lifecycle_activate :: "string \<Rightarrow> string \<Rightarrow> string \<Rightarrow> ('x, tenant_record) cp" where
  "lifecycle_activate tid actor cid =
     bnd (lifecycle_require tid) (\<lambda>rec.
       if lifecycle rec \<noteq> Verifying then raise (LifecycleError ''ActivateTenant requires Verifying'')
       else lifecycle_set rec Ready actor cid ''ActivateTenant'')"

definition lifecycle_reactivate ::
    "'x cp_ports \<Rightarrow> string list \<Rightarrow> string \<Rightarrow> string \<Rightarrow> string \<Rightarrow> ('x, tenant_record) cp" where
  "lifecycle_reactivate P supported tid actor cid =
     bnd (lifecycle_require tid) (\<lambda>rec.
       if lifecycle rec \<noteq> Suspended then raise (LifecycleError ''ReactivateTenant requires Suspended'')
       else andthen (lifecycle_set rec Verifying actor cid ''ReactivateTenant'')
              (lifecycle_verify P supported tid actor cid))"

definition lifecycle_reassociate :: "string \<Rightarrow> secret_ref \<Rightarrow> string \<Rightarrow> string \<Rightarrow> ('x, tenant_record) cp" where
  "lifecycle_reassociate tid new_ref actor cid =
     bnd (lifecycle_require tid) (\<lambda>rec.
       if lifecycle rec \<in> {Quarantined, Decommissioned} then
         raise (LifecycleError ''illegal lifecycle transition'')
       else if \<not> version_gt (ref_version new_ref) (ref_version (database_association_ref rec)) then
         raise (LifecycleError ''ReassociateDatabase requires an incremented association version'')
       else handle (swap_and_audit rec (\<lambda>r. r\<lparr>database_association_ref := new_ref\<rparr>) Verifying
                      ''ReassociateDatabase'' actor cid) conflict_to_lifecycle)"

section \<open>What the refusals guarantee\<close>

lemma lifecycle_refuses:
  assumes "get_tenant (store w) tid = Some r" and "lifecycle r = Quarantined \<or> lifecycle r = Decommissioned"
  shows "lifecycle_verify P supported tid actor cid w = (Inl (LifecycleError ''illegal lifecycle transition''), w)"
    and "lifecycle_reassociate tid new_ref actor cid w = (Inl (LifecycleError ''illegal lifecycle transition''), w)"
    and "fst (lifecycle_activate tid actor cid w) = Inl (LifecycleError ''ActivateTenant requires Verifying'')"
    and "fst (lifecycle_reactivate P supported tid actor cid w) = Inl (LifecycleError ''ReactivateTenant requires Suspended'')"
  using assms
  by (auto simp: lifecycle_verify_def lifecycle_reassociate_def lifecycle_activate_def
      lifecycle_reactivate_def lifecycle_require_def world_get_def)

lemma lifecycle_set_quiet_run:
  assumes "at rec T w"
  shows "\<exists>p w'. lifecycle_set rec st actor cid ac w = (Inr p, w') \<and> at p (T @ [ac]) w'
     \<and> lifecycle p = st \<and> tenant_id p = tenant_id rec \<and> rec_version p = rec_version rec + 1"
proof -
  obtain q w' where run: "swap_and_audit rec id st ac actor cid w = (q, w')"
    by (cases "swap_and_audit rec id st ac actor cid w")
  have "triple (\<lambda>_ _. True) (at rec T) (swap_and_audit rec id st ac actor cid)
      (\<lambda>p w. at p (T @ [ac]) w \<and> lifecycle p = st \<and> tenant_id p = tenant_id rec
         \<and> rec_version p = rec_version rec + 1) (\<lambda>_ _. False)"
    by (rule swap_and_audit_at) simp_all
  from tripleD[OF this assms run] run show ?thesis
    by (cases q) (auto simp: lifecycle_set_def)
qed

text \<open>
  Without concurrent writers a verification ends in \<open>Ready\<close> exactly when the probe reached the
  database and saw the expected, supported schema version.
\<close>

lemma lifecycle_verify_result:
  assumes at: "at rec T w" and id: "tenant_id rec = tid"
    and st: "lifecycle rec \<notin> {Decommissioned, Suspended, Quarantined}"
    and probe: "\<And>w. p_probe P (database_association_ref rec) w = (Inr res, w)"
  shows "\<exists>p w'. lifecycle_verify P supported tid actor cid w = (Inr p, w')
     \<and> get_tenant (store w') tid = Some p \<and> rec_version p = rec_version rec + 2
     \<and> lifecycle p = (if reachable res \<and> expected_schema_version rec \<in> set supported
          \<and> observed_schema_version res = Some (expected_schema_version rec) then Ready else Failed)"
proof -
  obtain p1 w1 where p1: "lifecycle_set rec Verifying actor cid ''VerifyTenant'' w = (Inr p1, w1)"
    "at p1 (T @ [''VerifyTenant'']) w1" "tenant_id p1 = tid" "rec_version p1 = rec_version rec + 1"
    using lifecycle_set_quiet_run[OF at, of Verifying actor cid "''VerifyTenant''"] id by auto
  have req: "lifecycle_require tid w = (Inr rec, w)" "lifecycle_require tid w1 = (Inr p1, w1)"
    using at p1 id by (simp_all add: lifecycle_require_def world_get_def at_def)
  note last = lifecycle_set_quiet_run[OF p1(2)]
  let ?ok = "reachable res \<and> expected_schema_version rec \<in> set supported
     \<and> observed_schema_version res = Some (expected_schema_version rec)"
  define fin :: "lifecycle_state \<times> string" where "fin = (if \<not> reachable res then (Failed, ''VerifyTenant:unreachable'')
     else if ?ok then (Ready, ''VerifyTenant:ready'') else (Failed, ''VerifyTenant:schema''))"
  obtain p w' where p: "lifecycle_set p1 (fst fin) actor cid (snd fin) w1 = (Inr p, w')"
    "at p ((T @ [''VerifyTenant'']) @ [snd fin]) w'" "lifecycle p = fst fin" "tenant_id p = tid"
    "rec_version p = rec_version rec + 2"
    using last[of "fst fin" actor cid "snd fin"] p1(3,4) by auto
  have "lifecycle_verify P supported tid actor cid w = (Inr p, w')"
    using p(1) req p1(1) st probe
    by (auto simp: lifecycle_verify_def fin_def split: if_splits option.splits)
  with p show ?thesis by (auto simp: at_def fin_def)
qed

end
