(* ===== verification/CP_ReadApi.thy ===== *)
theory CP_ReadApi
  imports CP_Store
begin

text \<open>
  The control plane's read side: the read service and its dispatcher
  (\<open>backend/control_plane/read_api.py\<close>), the schema compatibility check, and the storage facades
  for memberships, federation configuration and the global directory. All of it reads the store;
  the facades' writes are the store operations. The URL parsing of the standard library is an
  argument of the dispatcher: path, query, and query with blank values.
\<close>

section \<open>Storage facades\<close>

definition add_membership :: "string \<Rightarrow> string \<Rightarrow> role \<Rightarrow> control_store \<Rightarrow> membership_record \<times> control_store" where
  "add_membership p_ref tid r s =
     (let rec = \<lparr>mem_principal_ref = p_ref, mem_tenant_id = tid, mem_role = r\<rparr>
      in (rec, put_membership rec s))"

definition tenants_for :: "control_store \<Rightarrow> string \<Rightarrow> membership_record list" where
  "tenants_for s p_ref = list_memberships s (Some p_ref) None"

definition members_of :: "control_store \<Rightarrow> string \<Rightarrow> membership_record list" where
  "members_of s tid = list_memberships s None (Some tid)"

definition directory_add ::
    "directory_kind \<Rightarrow> string \<Rightarrow> string \<Rightarrow> (string \<times> string) list \<Rightarrow> control_store
      \<Rightarrow> directory_record \<times> control_store" where
  "directory_add d rid name attrs s =
     (let rec = \<lparr>dir_kind = d, record_id = rid, display_name = name, dir_attributes = attrs\<rparr>
      in (rec, put_directory_record rec s))"

section \<open>Schema compatibility\<close>

definition schema_check :: "int \<Rightarrow> int \<Rightarrow> int option \<Rightarrow> bool \<Rightarrow> schema_compat_state" where
  "schema_check lo hi observed migration_pending =
     (case observed of
        None \<Rightarrow> FAIL
      | Some v \<Rightarrow> if migration_pending then MIGRATION_REQUIRED
                  else if v < lo \<or> v > hi then VERSION_MISMATCH else PASS)"

definition schema_to_readiness :: "schema_compat_state \<Rightarrow> bool" where
  "schema_to_readiness st = (st = PASS)"

lemma schema_ready_iff:
  "schema_to_readiness (schema_check lo hi obs pend) \<longleftrightarrow> (\<exists>v. obs = Some v \<and> \<not> pend \<and> lo \<le> v \<and> v \<le> hi)"
  by (auto simp: schema_to_readiness_def schema_check_def split: option.splits)

section \<open>The read service\<close>

record tenant_state_view =
  ts_tenant_id :: string
  ts_lifecycle_state :: string
  ts_ready :: bool

record cp_routing_view =
  cr_tenant_id :: string
  cr_lifecycle_state :: string
  cr_ready :: bool
  cr_association :: secret_ref
  cr_expected_schema_version :: string

record directory_view =
  dv_directory :: string
  dv_record_id :: string
  dv_display_name :: string
  dv_attributes :: "(string \<times> string) list"

record dir_page =
  pg_records :: "directory_view list"
  pg_next_cursor :: "string option"

definition tenant_state :: "control_store \<Rightarrow> string \<Rightarrow> tenant_state_view option" where
  "tenant_state s tid = map_option (\<lambda>rec.
     \<lparr>ts_tenant_id = tenant_id rec, ts_lifecycle_state = lifecycle_value (lifecycle rec),
      ts_ready = (lifecycle rec = Ready)\<rparr>) (get_tenant s tid)"

definition routing_view :: "control_store \<Rightarrow> string \<Rightarrow> cp_routing_view option" where
  "routing_view s tid = map_option (\<lambda>rec.
     \<lparr>cr_tenant_id = tenant_id rec, cr_lifecycle_state = lifecycle_value (lifecycle rec),
      cr_ready = (lifecycle rec = Ready), cr_association = database_association_ref rec,
      cr_expected_schema_version = expected_schema_version rec\<rparr>) (get_tenant s tid)"

definition read_is_member :: "control_store \<Rightarrow> string \<Rightarrow> string \<Rightarrow> bool" where
  "read_is_member s p_ref tid = (length (list_memberships s (Some p_ref) (Some tid)) > 0)"

definition read_get_role :: "control_store \<Rightarrow> string \<Rightarrow> string \<Rightarrow> string option" where
  "read_get_role s p_ref tid =
     (case list_memberships s (Some p_ref) (Some tid) of
        [] \<Rightarrow> None
      | m # ms \<Rightarrow> Some (role_value (mem_role m)))"

fun keep_first :: "string list \<Rightarrow> membership_record list \<Rightarrow> (string \<times> string) list" where
  "keep_first seen [] = []"
| "keep_first seen (m # ms) =
     (if mem_tenant_id m \<in> set seen then keep_first seen ms
      else (mem_tenant_id m, role_value (mem_role m)) # keep_first (mem_tenant_id m # seen) ms)"

definition memberships_for_principal :: "control_store \<Rightarrow> string \<Rightarrow> (string \<times> string) list" where
  "memberships_for_principal s p_ref =
     keep_first [] (sort_key (\<lambda>m. (mem_tenant_id m, role_value (mem_role m)))
                      (list_memberships s (Some p_ref) None))"

fun first_issuer :: "control_store \<Rightarrow> string \<Rightarrow> string list \<Rightarrow> federation_config option" where
  "first_issuer s issuer [] = None"
| "first_issuer s issuer (tid # tids) =
     (case get_federation s tid of
        None \<Rightarrow> first_issuer s issuer tids
      | Some c \<Rightarrow> if oidc_issuer c = issuer then Some c else first_issuer s issuer tids)"

definition federation_for_issuer :: "control_store \<Rightarrow> string \<Rightarrow> federation_config option" where
  "federation_for_issuer s issuer = first_issuer s issuer (sort (list_tenant_ids s))"

definition dir_alias :: "string \<Rightarrow> directory_kind option" where
  "dir_alias a = (if a = ''startup'' then Some STARTUP else if a = ''investor'' then Some INVESTOR else None)"

definition read_directory_view :: "directory_record \<Rightarrow> directory_view" where
  "read_directory_view rec =
     \<lparr>dv_directory = directory_value (dir_kind rec), dv_record_id = record_id rec,
      dv_display_name = display_name rec, dv_attributes = dir_attributes rec\<rparr>"

definition read_directory_record :: "control_store \<Rightarrow> string \<Rightarrow> string \<Rightarrow> directory_view option" where
  "read_directory_record s a rid =
     (case dir_alias a of
        None \<Rightarrow> None
      | Some k \<Rightarrow> map_option read_directory_view (get_directory_record s k rid))"

definition MAX_PAGE :: int where "MAX_PAGE = 200"

text \<open>\<open>Inl\<close> is the \<open>ValueError\<close> of \<open>int()\<close> on a cursor that \<open>isdigit\<close> let through.\<close>

definition directory_page :: "control_store \<Rightarrow> string \<Rightarrow> string \<Rightarrow> int \<Rightarrow> string + dir_page option" where
  "directory_page s a cursor limit =
     (case dir_alias a of
        None \<Rightarrow> Inr None
      | Some k \<Rightarrow>
          (let limit = nat (max 1 (min limit MAX_PAGE));
               records = sort_key record_id (list_directory s k)
           in case (if py_isdigit cursor then py_int cursor else Some 0) of
                None \<Rightarrow> Inl ''ValueError''
              | Some n \<Rightarrow>
                  (let offset = nat n;
                       page = take limit (drop offset records);
                       next_cursor = (if offset + limit < length records
                                      then Some (show_nat (offset + limit)) else None)
                   in Inr (Some \<lparr>pg_records = map read_directory_view page, pg_next_cursor = next_cursor\<rparr>))))"

section \<open>The dispatcher\<close>

datatype read_body =
    Routing cp_routing_view | State tenant_state_view | Member bool | RoleIs string
  | Memberships "(string \<times> string) list" | DirRecord directory_view | DirPage dir_page
  | Federation federation_config | Err string

type_synonym query = "(string, string list) dict"

definition first_of :: "query \<Rightarrow> string \<Rightarrow> string \<Rightarrow> string" where
  "first_of q k d = (case dict_get q k of None \<Rightarrow> d | Some [] \<Rightarrow> d | Some (v # vs) \<Rightarrow> v)"

definition or_404 :: "('a \<Rightarrow> read_body) \<Rightarrow> 'a option \<Rightarrow> int \<times> read_body" where
  "or_404 f x = (case x of None \<Rightarrow> (404, Err ''not_found'') | Some b \<Rightarrow> (200, f b))"

definition read_directory_page :: "control_store \<Rightarrow> string \<Rightarrow> query \<Rightarrow> string + (int \<times> read_body)" where
  "read_directory_page s a q =
     (let cursor = first_of q ''cursor'' []; limit_raw = first_of q ''limit'' ''100'' in
      case (if py_isdigit limit_raw then py_int limit_raw else Some 100) of
        None \<Rightarrow> Inl ''ValueError''
      | Some limit \<Rightarrow> (case directory_page s a cursor limit of
            Inl e \<Rightarrow> Inl e
          | Inr page \<Rightarrow> Inr (or_404 DirPage page)))"

definition read_federation :: "control_store \<Rightarrow> query \<Rightarrow> int \<times> read_body" where
  "read_federation s blanks =
     (case dict_get blanks ''issuer'' of
        Some [issuer] \<Rightarrow> if issuer = [] then (400, Err ''invalid_issuer'')
                         else or_404 Federation (federation_for_issuer s issuer)
      | _ \<Rightarrow> (400, Err ''invalid_issuer''))"

definition read_handle ::
    "control_store \<Rightarrow> string \<Rightarrow> string \<Rightarrow> query \<Rightarrow> query \<Rightarrow> string + (int \<times> read_body)" where
  "read_handle s meth path q blanks =
     (if meth \<noteq> ''GET'' then Inr (405, Err ''method_not_allowed'')
      else case filter (\<lambda>p. p \<noteq> []) (split_on (CHR ''/'') path) of
        [a] \<Rightarrow>
          if a = ''membership'' then Inr (200, Member (read_is_member s (first_of q ''p'' []) (first_of q ''t'' [])))
          else if a = ''role'' then Inr (or_404 RoleIs (read_get_role s (first_of q ''p'' []) (first_of q ''t'' [])))
          else if a = ''memberships'' then
            Inr (200, Memberships (memberships_for_principal s (first_of q ''p'' [])))
          else if a = ''federation'' then Inr (read_federation s blanks)
          else Inr (404, Err ''not_found'')
      | [a, b] \<Rightarrow>
          if a = ''directory'' then read_directory_page s b q else Inr (404, Err ''not_found'')
      | [a, b, c] \<Rightarrow>
          if a = ''tenants'' \<and> c = ''state'' then Inr (or_404 State (tenant_state s b))
          else if a = ''directory'' then Inr (or_404 DirRecord (read_directory_record s b c))
          else Inr (404, Err ''not_found'')
      | [a, b, c, d] \<Rightarrow>
          if a = ''internal'' \<and> b = ''routing'' \<and> c = ''tenants'' then Inr (or_404 Routing (routing_view s d))
          else Inr (404, Err ''not_found'')
      | _ \<Rightarrow> Inr (404, Err ''not_found''))"

section \<open>Paging\<close>

text \<open>A client that follows \<open>next_cursor\<close> until it is absent; the first argument bounds its requests.\<close>

fun follow_pages :: "nat \<Rightarrow> control_store \<Rightarrow> string \<Rightarrow> string \<Rightarrow> int \<Rightarrow> directory_view list option" where
  "follow_pages 0 s a cursor limit = None"
| "follow_pages (Suc n) s a cursor limit =
     (case directory_page s a cursor limit of
        Inr (Some pg) \<Rightarrow>
          (case pg_next_cursor pg of
             None \<Rightarrow> Some (pg_records pg)
           | Some c \<Rightarrow> map_option (\<lambda>rest. pg_records pg @ rest) (follow_pages n s a c limit))
      | _ \<Rightarrow> None)"

lemma directory_page_at:
  assumes "dir_alias a = Some k"
  shows "directory_page s a (show_nat off) limit = Inr (Some
     \<lparr>pg_records = map read_directory_view (take (nat (max 1 (min limit MAX_PAGE)))
        (drop off (sort_key record_id (list_directory s k)))),
      pg_next_cursor = (if off + nat (max 1 (min limit MAX_PAGE)) < length (list_directory s k)
        then Some (show_nat (off + nat (max 1 (min limit MAX_PAGE)))) else None)\<rparr>)"
  using assms by (simp add: directory_page_def Let_def)

lemma directory_page_start:
  "directory_page s a [] limit = directory_page s a (show_nat 0) limit"
  by (simp add: directory_page_def py_isdigit_def[of "[]"] Let_def split: option.split)

lemma follow_from:
  assumes a: "dir_alias a = Some k"
  shows "length (list_directory s k) < off + n \<or> (n = 1 \<and> length (list_directory s k) \<le> off + nat (max 1 (min limit MAX_PAGE)))
    \<Longrightarrow> 0 < n \<Longrightarrow> follow_pages n s a (show_nat off) limit
      = Some (map read_directory_view (drop off (sort_key record_id (list_directory s k))))"
proof (induction n arbitrary: off)
  case (Suc n)
  let ?l = "nat (max 1 (min limit MAX_PAGE))"
  let ?rs = "sort_key record_id (list_directory s k)"
  have l: "0 < ?l" by simp
  show ?case
  proof (cases "off + ?l < length (list_directory s k)")
    case True
    with Suc.prems have "length (list_directory s k) < off + Suc n" by auto
    with True l have n: "0 < n" "length (list_directory s k) < (off + ?l) + n" by linarith+
    have "follow_pages n s a (show_nat (off + ?l)) limit = Some (map read_directory_view (drop (off + ?l) ?rs))"
      by (rule Suc.IH) (use n in auto)
    then show ?thesis using True
      by (simp add: directory_page_at[OF a])
        (metis (no_types, lifting) append_take_drop_id drop_drop map_append add.commute)
  next
    case False
    then show ?thesis by (simp add: directory_page_at[OF a])
  qed
qed simp

lemma follow_all:
  assumes "dir_alias a = Some k" and "length (list_directory s k) < n"
  shows "follow_pages n s a [] limit = Some (map read_directory_view (sort_key record_id (list_directory s k)))"
proof -
  have "follow_pages n s a [] limit = follow_pages n s a (show_nat 0) limit"
    by (cases n) (simp_all add: directory_page_start)
  then show ?thesis using follow_from[OF assms(1), of s 0 n limit] assms(2) by simp
qed

section \<open>Memberships and issuers\<close>

lemma keep_first_fst: "fst ` set (keep_first seen ms) = mem_tenant_id ` set ms - set seen"
  by (induction seen ms rule: keep_first.induct) auto

lemma keep_first_distinct: "distinct (map fst (keep_first seen ms))"
proof (induction seen ms rule: keep_first.induct)
  case (2 seen m ms)
  have "mem_tenant_id m \<notin> fst ` set (keep_first (mem_tenant_id m # seen) ms)"
    by (simp add: keep_first_fst)
  with 2 show ?case by simp
qed simp

lemma keep_first_sorted:
  "sorted (map mem_tenant_id ms) \<Longrightarrow> sorted (map fst (keep_first seen ms))"
proof (induction seen ms rule: keep_first.induct)
  case (2 seen m ms)
  have "\<forall>t \<in> fst ` set (keep_first (mem_tenant_id m # seen) ms). mem_tenant_id m \<le> t"
    using "2.prems" by (auto simp: keep_first_fst)
  with 2 show ?case by auto
qed simp

lemma keep_first_role:
  assumes "sorted (map (\<lambda>m. (mem_tenant_id m, role_value (mem_role m))) ms)"
    and "(t, v) \<in> set (keep_first seen ms)"
  shows "(\<exists>m \<in> set ms. mem_tenant_id m = t \<and> role_value (mem_role m) = v)
    \<and> (\<forall>m \<in> set ms. mem_tenant_id m = t \<longrightarrow> v \<le> role_value (mem_role m))"
  using assms
proof (induction seen ms rule: keep_first.induct)
  case (2 seen m ms)
  show ?case
  proof (cases "(t, v) = (mem_tenant_id m, role_value (mem_role m)) \<and> mem_tenant_id m \<notin> set seen")
    case True
    then show ?thesis using "2.prems"(1) by (force simp: less_eq_prod_simp)
  next
    case False
    have t: "t \<in> fst ` set (keep_first seen (m # ms))" using "2.prems"(2) by force
    then have "t \<notin> set seen" unfolding keep_first_fst by simp
    show ?thesis
    proof (cases "mem_tenant_id m \<in> set seen")
      case True
      with 2 \<open>t \<notin> set seen\<close> show ?thesis by auto
    next
      case F: False
      with False "2.prems"(2) have tail: "(t, v) \<in> set (keep_first (mem_tenant_id m # seen) ms)" by auto
      then have "t \<in> fst ` set (keep_first (mem_tenant_id m # seen) ms)" by force
      then have "t \<noteq> mem_tenant_id m" by (simp add: keep_first_fst)
      with "2.IH"(2)[OF F _ tail] "2.prems"(1) show ?thesis by auto
    qed
  qed
qed simp

lemma sorted_fst_of_pairs:
  "sorted (map (\<lambda>m. (f m, g m)) ms) \<Longrightarrow> sorted (map f ms)"
  for f :: "'a \<Rightarrow> 'b::linorder" and g :: "'a \<Rightarrow> 'c::linorder"
  by (induction ms) (auto simp: less_eq_prod_simp)

lemma memberships_spec:
  "sorted (map fst (memberships_for_principal s p))"
  "distinct (map fst (memberships_for_principal s p))"
  "fst ` set (memberships_for_principal s p) = mem_tenant_id ` {m \<in> set (memberships s). mem_principal_ref m = p}"
proof -
  let ?k = "\<lambda>m. (mem_tenant_id m, role_value (mem_role m))"
  have "sorted (map mem_tenant_id (sort_key ?k (list_memberships s (Some p) None)))"
    by (rule sorted_fst_of_pairs) (rule sorted_sort_key)
  then show "sorted (map fst (memberships_for_principal s p))"
    unfolding memberships_for_principal_def by (rule keep_first_sorted)
  show "distinct (map fst (memberships_for_principal s p))"
    unfolding memberships_for_principal_def by (rule keep_first_distinct)
  show "fst ` set (memberships_for_principal s p) = mem_tenant_id ` {m \<in> set (memberships s). mem_principal_ref m = p}"
    unfolding memberships_for_principal_def keep_first_fst by (auto simp: list_memberships_def)
qed

lemma first_issuer_Some:
  "sorted tids \<Longrightarrow> first_issuer s issuer tids = Some c \<Longrightarrow>
     \<exists>tid \<in> set tids. get_federation s tid = Some c \<and> oidc_issuer c = issuer
       \<and> (\<forall>t \<in> set tids. \<forall>c'. get_federation s t = Some c' \<longrightarrow> oidc_issuer c' = issuer \<longrightarrow> tid \<le> t)"
  by (induction tids) (auto split: option.splits if_splits)

lemma first_issuer_None:
  "first_issuer s issuer tids = None \<longleftrightarrow>
     (\<forall>t \<in> set tids. \<forall>c. get_federation s t = Some c \<longrightarrow> oidc_issuer c \<noteq> issuer)"
  by (induction tids) (auto split: option.splits)

end
