(* ===== verification/CP_System.thy ===== *)
theory CP_System
  imports CP_Recovery CP_Lifecycle CP_ReadApi
begin

text \<open>
  The control plane as one transition system: every operation the default composition wires
  (\<open>backend/control_plane/main.py\<close>: registry, onboarding, verification gate, recovery, orphan scan)
  is a step, with whatever actor and correlation id. The dormant lifecycle service is not a step.
\<close>

datatype cp_op =
    OpRegister string string string secret_ref string
  | OpMarkProvisioning string
  | OpSuspend string
  | OpDecommission string
  | OpQuarantine string
  | OpVerify string
  | OpReassociate string secret_ref
  | OpDisableRouting string
  | OpOnboard string string string string
  | OpRecover string
  | OpDeprovision string
  | OpScan

definition outcome_of :: "'s \<Rightarrow> ('s, 'e, 'a) proc \<Rightarrow> 's" where
  "outcome_of s m = snd (m s)"

fun perform :: "'x cp_ports \<Rightarrow> gate_config \<Rightarrow> cp_op \<Rightarrow> string \<Rightarrow> string \<Rightarrow> 'x cp_world \<Rightarrow> 'x cp_world" where
  "perform P G (OpRegister tid org sv assoc fed) actor cid w =
     outcome_of w (register_tenant tid org sv assoc fed actor cid)"
| "perform P G (OpMarkProvisioning tid) actor cid w = outcome_of w (mark_provisioning tid actor cid)"
| "perform P G (OpSuspend tid) actor cid w = outcome_of w (suspend_tenant tid actor cid)"
| "perform P G (OpDecommission tid) actor cid w = outcome_of w (decommission_tenant tid actor cid)"
| "perform P G (OpQuarantine tid) actor cid w = outcome_of w (quarantine_tenant tid actor cid)"
| "perform P G (OpVerify tid) actor cid w = outcome_of w (gate_verify P G tid actor cid)"
| "perform P G (OpReassociate tid ref) actor cid w = outcome_of w (onboarding_reassociate P G tid ref actor cid)"
| "perform P G (OpDisableRouting tid) actor cid w = outcome_of w (onboarding_disable_routing P tid actor cid)"
| "perform P G (OpOnboard tid org fed sv) actor cid w = outcome_of w (onboard P G tid org fed sv actor cid)"
| "perform P G (OpRecover tid) actor cid w = outcome_of w (recover P G tid actor cid)"
| "perform P G (OpDeprovision tid) actor cid w =
     outcome_of w (deprovision_tenant_database P (g_supported G) tid actor cid)"
| "perform P G OpScan actor cid w = outcome_of w (scan_for_orphans P (g_supported G))"

inductive cp_run :: "'x cp_ports \<Rightarrow> gate_config \<Rightarrow> 'x cp_world \<Rightarrow> 'x cp_world \<Rightarrow> bool"
  for P :: "'x cp_ports" and G :: gate_config where
  start: "cp_run P G w w"
| step: "cp_run P G u v \<Longrightarrow> cp_run P G u (perform P G op actor cid v)"

lemma keeps_classify_all:
  assumes "ports_lawful P" shows "keeps disciplined (classify_all P supported l cn names)"
proof (induction names)
  case Nil
  show ?case unfolding classify_all.simps by (rule disc.keeps_ret)
next
  case (Cons n names)
  have "keeps disciplined (classify_database P supported l cn n)"
    unfolding classify_database_def Let_def
    by (intro keeps_rules) (use assms in \<open>simp add: ports_lawful_def\<close>)
  with Cons show ?case unfolding classify_all.simps by (intro keeps_rules)
qed

lemma keeps_scan:
  assumes "ports_lawful P" shows "keeps disciplined (scan_for_orphans P supported)"
  unfolding scan_for_orphans_def Let_def
  by (intro keeps_rules keeps_classify_all[OF assms]) (use assms in \<open>simp_all add: ports_lawful_def\<close>)

lemma perform_disciplined:
  assumes P: "ports_lawful P" shows "disciplined w (perform P G op actor cid w)"
proof -
  have k: "disciplined w (outcome_of w m)" if "keeps disciplined m" for m :: "('x, 'b) cp" and w :: "'x cp_world"
    using that by (simp add: keeps_def outcome_of_def)
  show ?thesis
    by (cases op)
      (simp_all add: k keeps_register_tenant keeps_mark_provisioning keeps_suspend_tenant
        keeps_decommission_tenant keeps_quarantine_tenant keeps_gate_verify[OF P]
        keeps_onboarding_reassociate[OF P] keeps_onboarding_disable_routing[OF P] keeps_onboard[OF P]
        keeps_recover[OF P] keeps_deprovision_tenant_database[OF P] keeps_scan[OF P])
qed

lemma cp_run_disciplined: "\<lbrakk>cp_run P G u v; ports_lawful P\<rbrakk> \<Longrightarrow> disciplined u v"
  by (induction rule: cp_run.induct) (auto intro: disciplined_trans perform_disciplined)

lemma cp_run_trans: "cp_run P G v w \<Longrightarrow> cp_run P G u v \<Longrightarrow> cp_run P G u w"
  by (induction rule: cp_run.induct) (auto intro: cp_run.step)

end
