(* ===== verification/CP_Secrets.thy ===== *)
theory CP_Secrets
  imports CP_Onboarding
begin

text \<open>
  The environment/file secret stores: the tenant-DSN stores of the control plane and of the
  database router (\<open>env_tenant_dsn_secret_store.py\<close>, \<open>env_tenant_secret_store.py\<close>, the same code
  twice) and the trust-anchor store (\<open>env_reference_secret_store.py\<close>). The process environment
  and the secret directory are arguments: maps from names to contents. Names are ASCII.
\<close>

datatype secret_error = PermissionError string | LookupError string

definition is_upper_ascii :: "char \<Rightarrow> bool" where
  "is_upper_ascii c = (65 \<le> char_code c \<and> char_code c \<le> 90)"

definition to_upper_char :: "char \<Rightarrow> char" where
  "to_upper_char c = (if is_lower_ascii c then char_of (char_code c - 32) else c)"

definition key_char :: "char \<Rightarrow> char" where
  "key_char c = (if is_lower_ascii c \<or> is_upper_ascii c \<or> is_digit c then to_upper_char c else CHR ''_'')"

definition env_key :: "string \<Rightarrow> string \<Rightarrow> string \<Rightarrow> string" where
  "env_key prefix sref version = prefix @ map key_char sref @ ''_V'' @ version"

definition lookup_secret ::
    "string \<Rightarrow> (string \<Rightarrow> string option) \<Rightarrow> (string \<Rightarrow> string option) option \<Rightarrow> secret_ref
      \<Rightarrow> secret_error + string" where
  "lookup_secret prefix env dir ref =
     (case env (env_key prefix (store_ref ref) (ref_version ref)) of
        Some v \<Rightarrow> Inr v
      | None \<Rightarrow>
          (case (case dir of None \<Rightarrow> None | Some files \<Rightarrow> files (store_ref ref @ ''@'' @ ref_version ref)) of
             Some content \<Rightarrow> Inr (strip content)
           | None \<Rightarrow> Inl (LookupError (store_ref ref @ ''@'' @ ref_version ref))))"

definition TENANT_SECRET_PREFIX :: string where
  "TENANT_SECRET_PREFIX = ''SNACKPORTAL_TENANT_SECRET_''"

definition tenant_ref_allowed :: "string \<Rightarrow> bool" where
  "tenant_ref_allowed s = starts_with ''tenant/'' s"

definition tenant_resolve ::
    "(string \<Rightarrow> string option) \<Rightarrow> (string \<Rightarrow> string option) option \<Rightarrow> secret_ref \<Rightarrow> secret_error + string" where
  "tenant_resolve env dir ref =
     (if \<not> tenant_ref_allowed (store_ref ref)
      then Inl (PermissionError ''provider resolves tenant database references only'')
      else lookup_secret TENANT_SECRET_PREFIX env dir ref)"

definition tenant_current_version :: "(string \<Rightarrow> string option) \<Rightarrow> string \<Rightarrow> secret_error + string" where
  "tenant_current_version env s =
     (if \<not> tenant_ref_allowed s
      then Inl (PermissionError ''provider resolves tenant database references only'')
      else Inr (case env (env_key TENANT_SECRET_PREFIX s ''current'') of Some v \<Rightarrow> v | None \<Rightarrow> ''1''))"

definition TRUST_SECRET_PREFIX :: string where
  "TRUST_SECRET_PREFIX = ''SNACKPORTAL_SECRET_''"

definition trust_ref_allowed :: "string list \<Rightarrow> string \<Rightarrow> bool" where
  "trust_ref_allowed allowed s = (s \<in> set allowed)"

definition trust_resolve ::
    "string list \<Rightarrow> (string \<Rightarrow> string option) \<Rightarrow> (string \<Rightarrow> string option) option \<Rightarrow> secret_ref
      \<Rightarrow> secret_error + string" where
  "trust_resolve allowed env dir ref =
     (if \<not> trust_ref_allowed allowed (store_ref ref)
      then Inl (PermissionError ''provider supports trust-anchor resolution only'')
      else lookup_secret TRUST_SECRET_PREFIX env dir ref)"

definition trust_current_version ::
    "string list \<Rightarrow> (string \<Rightarrow> string option) \<Rightarrow> string \<Rightarrow> secret_error + string" where
  "trust_current_version allowed env s =
     (if \<not> trust_ref_allowed allowed s
      then Inl (PermissionError ''provider supports trust-anchor resolution only'')
      else Inr (case env (env_key TRUST_SECRET_PREFIX s ''current'') of Some v \<Rightarrow> v | None \<Rightarrow> ''1''))"

definition trust_default_allowed :: "string list" where
  "trust_default_allowed = [''bootstrap/trust-anchor'']"

section \<open>The interface: a store guarded by an allow-list\<close>

locale guarded_store =
  fixes allowed :: "string \<Rightarrow> bool"
    and resolve :: "(string \<Rightarrow> string option) \<Rightarrow> secret_ref \<Rightarrow> secret_error + string"
    and key :: "secret_ref \<Rightarrow> string"
  assumes denies: "\<not> allowed (store_ref ref) \<Longrightarrow> \<exists>m. resolve env ref = Inl (PermissionError m)"
    and reads_one: "env (key ref) = env' (key ref) \<Longrightarrow> resolve env ref = resolve env' ref"
begin

lemma never_outside: "resolve env ref = Inr v \<Longrightarrow> allowed (store_ref ref)"
  using denies[of ref env] by auto

lemma blind_to_others: "k \<noteq> key ref \<Longrightarrow> resolve (env(k := x)) ref = resolve env ref"
  by (rule reads_one) simp

end

interpretation tenant_secrets: guarded_store tenant_ref_allowed "\<lambda>env. tenant_resolve env dir"
    "\<lambda>ref. env_key TENANT_SECRET_PREFIX (store_ref ref) (ref_version ref)" for dir
  by unfold_locales (auto simp: tenant_resolve_def lookup_secret_def)

interpretation trust_secrets: guarded_store "trust_ref_allowed allowed" "\<lambda>env. trust_resolve allowed env dir"
    "\<lambda>ref. env_key TRUST_SECRET_PREFIX (store_ref ref) (ref_version ref)" for allowed dir
  by unfold_locales (auto simp: trust_resolve_def lookup_secret_def)

section \<open>Distinct tenants, distinct keys\<close>

lemma key_char_inj:
  assumes "tenant_id_char a" "tenant_id_char b" "key_char a = key_char b" shows "a = b"
proof -
  have code: "char_code (key_char c) = (if is_lower_ascii c then char_code c - 32 else char_code c)"
    if "tenant_id_char c" for c
    using that by (auto simp: tenant_id_char_def key_char_def to_upper_char_def is_lower_ascii_def
        is_digit_def char_code_def)
  have rng: "(97 \<le> char_code c \<and> char_code c \<le> 122) \<or> (48 \<le> char_code c \<and> char_code c \<le> 57) \<or> char_code c = 95"
    if "tenant_id_char c" for c
    using that by (auto simp: tenant_id_char_def is_lower_ascii_def is_digit_def char_code_def)
  have "char_code a = char_code b"
    using code[OF assms(1)] code[OF assms(2)] rng[OF assms(1)] rng[OF assms(2)] assms(3)
    by (auto simp: is_lower_ascii_def split: if_splits)
  then show ?thesis by (simp add: char_code_def)
qed

lemma map_key_char_inj:
  "\<lbrakk>list_all tenant_id_char xs; list_all tenant_id_char ys; map key_char xs = map key_char ys\<rbrakk> \<Longrightarrow> xs = ys"
proof (induction xs arbitrary: ys)
  case (Cons x xs)
  then show ?case by (cases ys) (auto dest: key_char_inj)
qed simp

text \<open>A version without underscores is the part after the last one, so the key splits uniquely.\<close>

lemma last_part_unique:
  assumes "CHR ''_'' \<notin> set v" "CHR ''_'' \<notin> set v'"
    and "p @ CHR ''_'' # v = p' @ CHR ''_'' # v'"
  shows "p = p' \<and> v = v'"
proof -
  have r: "takeWhile (\<lambda>c. c \<noteq> CHR ''_'') (rev (q @ CHR ''_'' # u)) = rev u" if "CHR ''_'' \<notin> set u" for q u
    using that by (auto simp: takeWhile_append2 takeWhile_tail)
  have "rev v = rev v'" using r[OF assms(1), of p] r[OF assms(2), of p'] assms(3) by metis
  then show ?thesis using assms(3) by simp
qed

lemma tenant_env_key_inj:
  assumes t: "tenant_id_shape t" "tenant_id_shape t'" and v: "CHR ''_'' \<notin> set v" "CHR ''_'' \<notin> set v'"
    and eq: "env_key TENANT_SECRET_PREFIX (tenant_dsn_ref t) v = env_key TENANT_SECRET_PREFIX (tenant_dsn_ref t') v'"
  shows "t = t' \<and> v = v'"
proof -
  have "map key_char (tenant_dsn_ref t) @ CHR ''_'' # (CHR ''V'' # v)
      = map key_char (tenant_dsn_ref t') @ CHR ''_'' # (CHR ''V'' # v')"
    using eq by (simp add: env_key_def)
  then have "map key_char (tenant_dsn_ref t) = map key_char (tenant_dsn_ref t') \<and> CHR ''V'' # v = CHR ''V'' # v'"
    by (rule last_part_unique[rotated 2]) (use v in auto)
  then have "map key_char t = map key_char t'" "v = v'"
    by (simp_all add: tenant_dsn_ref_def)
  then show ?thesis using t map_key_char_inj by (auto simp: tenant_id_shape_def)
qed

end
