(* ===== verification/Config.thy ===== *)
theory Config
  imports Prelude
begin

text \<open>
  How the composition roots read their settings: a variable that is unset, empty or blank selects nothing,
  an internal \<open>http\<close> base URL selects a transport, and anything else is a \<open>ValueError\<close>. URLs are split as
  \<open>urllib.parse.urlsplit\<close> does; its further checks of a host in brackets and of characters that change under
  normalization are an argument.
\<close>

type_synonym env = "string \<Rightarrow> string option"

definition env_value :: "env \<Rightarrow> string \<Rightarrow> string" where
  "env_value env name = strip (case env name of None \<Rightarrow> [] | Some v \<Rightarrow> v)"

section \<open>URLs\<close>

record url_parts =
  up_scheme :: string
  up_netloc :: string
  up_path :: string
  up_query :: string
  up_fragment :: string

definition is_alpha :: "char \<Rightarrow> bool" where
  "is_alpha c = ((65 \<le> char_code c \<and> char_code c \<le> 90) \<or> (97 \<le> char_code c \<and> char_code c \<le> 122))"

definition scheme_char :: "char \<Rightarrow> bool" where
  "scheme_char c = (is_alpha c \<or> is_digit c \<or> c \<in> set ''+-.'')"

text \<open>Leading control characters and blanks are dropped, line breaks and tabs everywhere.\<close>

definition url_clean :: "string \<Rightarrow> string" where
  "url_clean s = filter (\<lambda>c. char_code c \<notin> {9, 10, 13}) (dropWhile (\<lambda>c. char_code c \<le> 32) s)"

definition split_scheme :: "string \<Rightarrow> string \<times> string" where
  "split_scheme s =
     (let pre = takeWhile (\<lambda>c. c \<noteq> CHR '':'') s; rest = dropWhile (\<lambda>c. c \<noteq> CHR '':'') s in
      if pre \<noteq> [] \<and> rest \<noteq> [] \<and> is_alpha (hd pre) \<and> list_all scheme_char pre then (to_lower pre, tl rest) else ([], s))"

definition split_netloc :: "string \<Rightarrow> string \<times> string" where
  "split_netloc s =
     (if starts_with ''//'' s
      then (takeWhile (\<lambda>c. c \<notin> set ''/?#'') (drop 2 s), dropWhile (\<lambda>c. c \<notin> set ''/?#'') (drop 2 s)) else ([], s))"

text \<open>The part before the first mark and the part after it.\<close>

definition split_at :: "char \<Rightarrow> string \<Rightarrow> string \<times> string" where
  "split_at m s = (takeWhile (\<lambda>c. c \<noteq> m) s, drop 1 (dropWhile (\<lambda>c. c \<noteq> m) s))"

definition urlsplit :: "(string \<Rightarrow> bool) \<Rightarrow> string \<Rightarrow> url_parts option" where
  "urlsplit netloc_ok url =
     (case split_scheme (url_clean url) of (scheme, rest) \<Rightarrow>
      case split_netloc rest of (netloc, tail) \<Rightarrow>
        if (CHR ''['' \<in> set netloc) \<noteq> (CHR '']'' \<in> set netloc) \<or> \<not> netloc_ok netloc then None
        else (case split_at CHR ''#'' tail of (before, fragment) \<Rightarrow>
              case split_at CHR ''?'' before of (path, query) \<Rightarrow>
                Some \<lparr>up_scheme = scheme, up_netloc = netloc, up_path = path, up_query = query, up_fragment = fragment\<rparr>))"

section \<open>Settings\<close>

definition http_base :: "(string \<Rightarrow> bool) \<Rightarrow> string \<Rightarrow> bool" where
  "http_base netloc_ok raw =
     (case urlsplit netloc_ok raw of None \<Rightarrow> False | Some u \<Rightarrow> up_scheme u = ''http'' \<and> up_netloc u \<noteq> [])"

text \<open>An internal base URL without userinfo, query and fragment.\<close>

definition bare_http_base :: "(string \<Rightarrow> bool) \<Rightarrow> string \<Rightarrow> bool" where
  "bare_http_base netloc_ok raw =
     (case urlsplit netloc_ok raw of
        None \<Rightarrow> False
      | Some u \<Rightarrow> up_scheme u = ''http'' \<and> up_netloc u \<noteq> [] \<and> CHR ''@'' \<notin> set (up_netloc u) \<and> up_query u = [] \<and> up_fragment u = [])"

text \<open>Nothing when the setting is blank, \<open>ValueError\<close> when it is no such URL.\<close>

definition selected :: "(string \<Rightarrow> bool) \<Rightarrow> env \<Rightarrow> string \<Rightarrow> string + string option" where
  "selected admits env name =
     (let raw = env_value env name in
      if raw = [] then Inr None else if admits raw then Inr (Some raw) else Inl ''ValueError'')"

definition port_from_env :: "env \<Rightarrow> string \<Rightarrow> string + int" where
  "port_from_env env name =
     (let raw = env_value env name in
      if raw = [] then Inr 0
      else case py_int raw of
          None \<Rightarrow> Inl ''ValueError''
        | Some port \<Rightarrow> if 0 \<le> port \<and> port \<le> 65535 then Inr port else Inl ''ValueError'')"

definition host_from_env :: "env \<Rightarrow> string \<Rightarrow> string" where
  "host_from_env env name = (let raw = env_value env name in if raw = [] then ''127.0.0.1'' else raw)"

text \<open>\<open>base_url.rstrip("/")\<close>, to which every client appends its path.\<close>

definition rstrip_slash :: "string \<Rightarrow> string" where
  "rstrip_slash s = rev (dropWhile (\<lambda>c. c = CHR ''/'') (rev s))"

lemma selected_cases:
  "selected admits env name = Inr (Some raw) \<Longrightarrow> raw = env_value env name \<and> raw \<noteq> [] \<and> admits raw"
  "selected admits env name = Inr None \<Longrightarrow> env_value env name = []"
  by (auto simp: selected_def Let_def split: if_splits)

lemma port_bounds: "port_from_env env name = Inr port \<Longrightarrow> 0 \<le> port \<and> port \<le> 65535"
  by (auto simp: port_from_env_def Let_def split: if_splits option.splits)


text \<open>
  The parts of \<open>urllib.parse\<close> with which a client builds and the read dispatcher takes apart a request target:
  \<open>quote\<close>, \<open>unquote\<close> and \<open>parse_qs\<close>. Decoding bytes as UTF-8 with replacement characters is an argument; what the
  code relies on of it is that encoded text decodes to itself.
\<close>

section \<open>Percent encoding\<close>

definition utf8_char :: "char \<Rightarrow> nat list" where
  "utf8_char c = (let n = char_code c in if n < 128 then [n] else [192 + n div 64, 128 + n mod 64])"

definition utf8_encode :: "string \<Rightarrow> nat list" where
  "utf8_encode s = concat (map utf8_char s)"

definition hex_digit :: "nat \<Rightarrow> char" where
  "hex_digit n = char_of (if n < 10 then 48 + n else 55 + n)"

definition hex_value :: "char \<Rightarrow> nat option" where
  "hex_value c =
     (let n = char_code c in
      if 48 \<le> n \<and> n \<le> 57 then Some (n - 48)
      else if 65 \<le> n \<and> n \<le> 70 then Some (n - 55)
      else if 97 \<le> n \<and> n \<le> 102 then Some (n - 87) else None)"

definition percent :: "nat \<Rightarrow> string" where
  "percent b = [CHR ''%'', hex_digit (b div 16), hex_digit (b mod 16)]"

definition unreserved :: "char \<Rightarrow> bool" where
  "unreserved c = (is_alpha c \<or> is_digit c \<or> c \<in> set ''_.-~'')"

definition quote_char :: "char \<Rightarrow> string" where
  "quote_char c = (if unreserved c \<or> c = CHR ''/'' then [c] else concat (map percent (utf8_char c)))"

definition quote :: "string \<Rightarrow> string" where
  "quote s = concat (map quote_char s)"

text \<open>\<open>unquote_to_bytes\<close>: an escape that is none stays as it is.\<close>

fun percent_bytes :: "string \<Rightarrow> nat list" where
  "percent_bytes (c # h # l # s) =
     (if c = CHR ''%'' then
        (case (hex_value h, hex_value l) of
           (Some a, Some b) \<Rightarrow> (16 * a + b) # percent_bytes s
         | _ \<Rightarrow> 37 # percent_bytes (h # l # s))
      else char_code c # percent_bytes (h # l # s))"
| "percent_bytes s = map char_code s"

text \<open>Only runs of ASCII characters are decoded.\<close>

definition ascii :: "char \<Rightarrow> bool" where "ascii c = (char_code c < 128)"

function unquote_runs :: "(nat list \<Rightarrow> string) \<Rightarrow> string \<Rightarrow> string" where
  "unquote_runs utf8 [] = []"
| "unquote_runs utf8 (c # s) =
     (if ascii c then utf8 (percent_bytes (c # takeWhile ascii s)) @ unquote_runs utf8 (dropWhile ascii s)
      else c # unquote_runs utf8 s)"
  by pat_completeness auto
termination
  by (relation "measure (\<lambda>(utf8, s). length s)") (auto simp: length_dropWhile_le le_imp_less_Suc)

definition unquote :: "(nat list \<Rightarrow> string) \<Rightarrow> string \<Rightarrow> string" where
  "unquote utf8 s = (if CHR ''%'' \<in> set s then unquote_runs utf8 s else s)"

section \<open>Query strings\<close>

definition plus_to_blank :: "string \<Rightarrow> string" where
  "plus_to_blank s = map (\<lambda>c. if c = CHR ''+'' then CHR '' '' else c) s"

definition qsl_pair :: "(nat list \<Rightarrow> string) \<Rightarrow> bool \<Rightarrow> string \<Rightarrow> (string \<times> string) option" where
  "qsl_pair utf8 keep_blank part =
     (case split_at CHR ''='' part of (name, value) \<Rightarrow>
        if part = [] \<or> (value = [] \<and> \<not> keep_blank) then None
        else Some (unquote utf8 (plus_to_blank name), unquote utf8 (plus_to_blank value)))"

fun add_values :: "(string, string list) dict \<Rightarrow> (string \<times> string) list \<Rightarrow> (string, string list) dict" where
  "add_values d [] = d"
| "add_values d ((k, v) # kvs) = add_values (dict_put k ((case dict_get d k of None \<Rightarrow> [] | Some vs \<Rightarrow> vs) @ [v]) d) kvs"

definition parse_qs :: "(nat list \<Rightarrow> string) \<Rightarrow> bool \<Rightarrow> string \<Rightarrow> (string, string list) dict" where
  "parse_qs utf8 keep_blank qs = add_values [] (List.map_filter (qsl_pair utf8 keep_blank) (split_on CHR ''&'' qs))"

section \<open>What is quoted reads back\<close>

definition utf8_codec :: "(nat list \<Rightarrow> string) \<Rightarrow> bool" where
  "utf8_codec utf8 \<longleftrightarrow> (\<forall>s. utf8 (utf8_encode s) = s)"

lemma utf8_codecD [simp]: "utf8_codec utf8 \<Longrightarrow> utf8 (utf8_encode s) = s"
  by (simp add: utf8_codec_def)

lemma char_code_less: "char_code c < 256"
  by (simp add: char_code_def)

lemma char_of_code [simp]: "char_of (char_code c) = c" "n < 256 \<Longrightarrow> char_code (char_of n) = n"
  by (simp_all add: char_code_def)

lemma hex_digits [simp]:
  assumes "n < 16"
  shows "hex_value (hex_digit n) = Some n" "char_code (hex_digit n) < 128" "is_alpha (hex_digit n) \<or> is_digit (hex_digit n)"
  using assms by (auto simp: hex_value_def hex_digit_def is_alpha_def is_digit_def Let_def)

lemma percent_bytes_percent: "b < 256 \<Longrightarrow> percent_bytes (percent b @ s) = b # percent_bytes s"
  by (simp add: percent_def)

lemma percent_bytes_plain: "c \<noteq> CHR ''%'' \<Longrightarrow> percent_bytes (c # s) = char_code c # percent_bytes s"
  by (cases s rule: percent_bytes.cases) auto

lemma utf8_bytes: "b \<in> set (utf8_char c) \<Longrightarrow> b < 256"
  using char_code_less[of c] by (auto simp: utf8_char_def Let_def split: if_splits)

lemma unreserved_code: "unreserved c \<Longrightarrow> char_code c < 128 \<and> c \<notin> set ''%+&=?#:''"
  by (auto simp: unreserved_def is_alpha_def is_digit_def char_code_def)

lemma percent_bytes_percents: "\<forall>b\<in>set bs. b < 256 \<Longrightarrow> percent_bytes (concat (map percent bs) @ s) = bs @ percent_bytes s"
  by (induction bs) (simp_all add: percent_bytes_percent)

lemma percent_bytes_char: "percent_bytes (quote_char c @ s) = utf8_char c @ percent_bytes s"
proof (cases "unreserved c \<or> c = CHR ''/''")
  case True
  then have "char_code c < 128" "c \<noteq> CHR ''%''" using unreserved_code by (auto simp: char_code_def)
  with True show ?thesis by (simp add: quote_char_def utf8_char_def percent_bytes_plain)
next
  case False
  then show ?thesis using percent_bytes_percents[of "utf8_char c" s] utf8_bytes by (auto simp: quote_char_def)
qed

lemma percent_bytes_quote: "percent_bytes (quote s) = utf8_encode s"
  by (induction s) (simp_all add: quote_def utf8_encode_def percent_bytes_char)

lemma hex_unreserved: "n < 16 \<Longrightarrow> unreserved (hex_digit n)"
  unfolding unreserved_def by (metis hex_digits(3))

lemma percent_chars: "b < 256 \<Longrightarrow> c \<in> set (percent b) \<Longrightarrow> unreserved c \<or> c = CHR ''%''"
  using hex_unreserved[of "b div 16"] hex_unreserved[of "b mod 16"] by (auto simp: percent_def)

lemma quote_char_chars: "c \<in> set (quote_char x) \<Longrightarrow> unreserved c \<or> c = CHR ''/'' \<or> c = CHR ''%''"
  using percent_chars utf8_bytes by (auto simp: quote_char_def split: if_splits)

lemma quote_chars: "c \<in> set (quote s) \<Longrightarrow> unreserved c \<or> c = CHR ''/'' \<or> c = CHR ''%''"
  using quote_char_chars by (auto simp: quote_def)

lemma quote_ascii: "c \<in> set (quote s) \<Longrightarrow> ascii c"
  using quote_chars[of c s] unreserved_code[of c] by (auto simp: ascii_def char_code_def)

lemma quote_without: "c \<in> set (quote s) \<Longrightarrow> c \<notin> set ''+&=?#:''"
  using quote_chars[of c s] unreserved_code[of c] by auto

lemma quote_char_length: "quote_char c = [c] \<or> CHR ''%'' \<in> set (quote_char c)"
  by (simp add: quote_char_def utf8_char_def percent_def Let_def)

lemma quote_plain: "CHR ''%'' \<notin> set (quote s) \<Longrightarrow> quote s = s"
proof (induction s)
  case (Cons c s)
  then show ?case using quote_char_length[of c] by (auto simp: quote_def)
qed (simp add: quote_def)

lemma quote_slash: "CHR ''/'' \<notin> set s \<Longrightarrow> CHR ''/'' \<notin> set (quote s)"
proof -
  have "\<not> unreserved CHR ''/''" by (simp add: unreserved_def is_alpha_def is_digit_def char_code_def)
  then have "b < 256 \<Longrightarrow> CHR ''/'' \<notin> set (percent b)" for b using percent_chars by blast
  then have "CHR ''/'' \<in> set (quote_char c) \<Longrightarrow> c = CHR ''/''" for c
    using utf8_bytes by (auto simp: quote_char_def split: if_splits)
  then show "CHR ''/'' \<notin> set s \<Longrightarrow> CHR ''/'' \<notin> set (quote s)" by (auto simp: quote_def)
qed

lemma quote_unreserved: "\<forall>c\<in>set s. unreserved c \<Longrightarrow> quote s = s"
  by (induction s) (simp_all add: quote_def quote_char_def)

lemma quote_Nil [simp]: "quote [] = []"
  by (simp add: quote_def)

lemma quote_empty [simp]: "quote s = [] \<longleftrightarrow> s = []"
  by (cases s) (auto simp: quote_def quote_char_def utf8_char_def percent_def Let_def)

lemma unquote_ascii:
  assumes "\<forall>c\<in>set s. ascii c" "s \<noteq> []"
  shows "unquote_runs utf8 s = utf8 (percent_bytes s)"
proof -
  obtain c t where s: "s = c # t" using assms(2) by (cases s) auto
  then have "takeWhile ascii t = t" "dropWhile ascii t = []" "ascii c" using assms(1) by auto
  then show ?thesis
    by (metis append_Nil2 s unquote_runs.simps)
qed

lemma unquote_quote:
  assumes "utf8_codec utf8" shows "unquote utf8 (quote s) = s"
proof (cases "CHR ''%'' \<in> set (quote s)")
  case True
  then have "unquote_runs utf8 (quote s) = utf8 (percent_bytes (quote s))"
    using quote_ascii by (intro unquote_ascii) auto
  with True assms show ?thesis by (simp add: unquote_def percent_bytes_quote)
next
  case False
  then show ?thesis using quote_plain by (simp add: unquote_def)
qed

lemma plus_quote: "plus_to_blank (quote s) = quote s"
  using quote_without[of _ s] by (auto simp: plus_to_blank_def intro!: map_idI)

lemma plain_unquote: "CHR ''%'' \<notin> set k \<Longrightarrow> CHR ''+'' \<notin> set k \<Longrightarrow> unquote utf8 (plus_to_blank k) = k"
  by (auto simp: unquote_def plus_to_blank_def map_idI image_iff intro!: map_idI split: if_splits)

lemma split_at_cut: "m \<notin> set s \<Longrightarrow> split_at m (s @ m # t) = (s, t)"
  by (simp add: split_at_def takeWhile_append dropWhile_append)

lemma qsl_pair_quote:
  assumes "utf8_codec utf8" and "set k \<inter> set ''=%+'' = {}"
  shows "qsl_pair utf8 keep (k @ CHR ''='' # quote v) = (if v = [] \<and> \<not> keep then None else Some (k, v))"
proof -
  have "CHR ''='' \<notin> set k" "CHR ''%'' \<notin> set k" "CHR ''+'' \<notin> set k" using assms(2) by auto
  then show ?thesis
    by (simp add: qsl_pair_def split_at_cut plus_quote unquote_quote[OF assms(1)] plain_unquote)
qed

lemma parse_one:
  assumes "utf8_codec utf8" and "set k \<inter> set ''=%+&'' = {}"
  shows "parse_qs utf8 keep (k @ CHR ''='' # quote v) = (if v = [] \<and> \<not> keep then [] else [(k, [v])])"
proof -
  have "CHR ''&'' \<notin> set (k @ CHR ''='' # quote v)" using assms(2) quote_without by fastforce
  then have "split_on CHR ''&'' (k @ CHR ''='' # quote v) = [k @ CHR ''='' # quote v]" by (rule split_on_nomark)
  moreover have "set k \<inter> set ''=%+'' = {}" using assms(2) by auto
  ultimately show ?thesis
    using qsl_pair_quote[OF assms(1)] qsl_pair_quote[OF assms(1), where v = "[]"] by (simp add: parse_qs_def List.map_filter_def dict_get_def dict_put_def)
qed

lemma parse_two:
  assumes "utf8_codec utf8" and "set k \<inter> set ''=%+&'' = {}" "set l \<inter> set ''=%+&'' = {}" "k \<noteq> l"
  shows "parse_qs utf8 False (k @ CHR ''='' # quote v @ CHR ''&'' # l @ CHR ''='' # quote u)
    = (if v = [] then [] else [(k, [v])]) @ (if u = [] then [] else [(l, [u])])"
proof -
  have amp: "CHR ''&'' \<notin> set (k @ CHR ''='' # quote v)" "CHR ''&'' \<notin> set (l @ CHR ''='' # quote u)"
    using assms(2,3) quote_without by fastforce+
  then have "split_on CHR ''&'' ((k @ CHR ''='' # quote v) @ CHR ''&'' # l @ CHR ''='' # quote u)
      = [k @ CHR ''='' # quote v, l @ CHR ''='' # quote u]"
    using split_on_cut[OF amp(1), of "l @ CHR ''='' # quote u"] split_on_nomark[OF amp(2)] by simp
  moreover have "set k \<inter> set ''=%+'' = {}" "set l \<inter> set ''=%+'' = {}" using assms(2,3) by auto
  ultimately show ?thesis
    using qsl_pair_quote[OF assms(1)] qsl_pair_quote[OF assms(1), where v = "[]"] assms(4) by (simp add: parse_qs_def List.map_filter_def dict_get_def dict_put_def)
qed

section \<open>A decoder that does\<close>

fun utf8_decode :: "nat list \<Rightarrow> string" where
  "utf8_decode [] = []"
| "utf8_decode (b # bs) =
     (if b < 128 then char_of b # utf8_decode bs
      else case bs of [] \<Rightarrow> [CHR ''?''] | e # es \<Rightarrow> char_of ((b - 192) * 64 + (e - 128)) # utf8_decode es)"

lemma utf8_decode_codec: "utf8_codec utf8_decode"
  unfolding utf8_codec_def
proof
  fix s
  show "utf8_decode (utf8_encode s) = s"
  proof (induction s)
    case (Cons c s)
    have "char_code c div 64 * 64 + char_code c mod 64 = char_code c" by simp
    with Cons show ?case using char_of_code(1)[of c] by (simp add: utf8_encode_def utf8_char_def Let_def del: char_of_code)
  qed (simp add: utf8_encode_def)
qed

end
