(* ===== verification/CP_Compose.thy ===== *)
theory CP_Compose
  imports CP_System CP_Memory CP_Secrets Config
begin

text \<open>
  The composition root of the control plane (\<open>backend/control_plane/main.py\<close>): the four backend selectors
  and their coherence rule, the composed objects with the secret references they hold, the posture guards
  in front of onboarding and recovery, the gate that resolves the evidence of the Control database on first
  use, and the settings of the read edge and of the audit ingest edges. Objects are described by their
  constructor and arguments; nothing is opened at composition. Messages of errors are shortened.
\<close>

section \<open>Selectors\<close>

definition CONTROL_STORE_ENV :: string where "CONTROL_STORE_ENV = ''SP2_CP_CONTROL_STORE''"
definition PROVISIONING_ADAPTER_ENV :: string where "PROVISIONING_ADAPTER_ENV = ''SP2_CP_PROVISIONING_ADAPTER''"
definition TENANT_SCHEMA_APPLICATOR_ENV :: string where "TENANT_SCHEMA_APPLICATOR_ENV = ''SP2_CP_TENANT_SCHEMA_APPLICATOR''"
definition DISTINCTNESS_LEDGER_ENV :: string where "DISTINCTNESS_LEDGER_ENV = ''SP2_CP_DISTINCTNESS_LEDGER''"
definition CONTROL_STORE_DSN_REF_ENV :: string where "CONTROL_STORE_DSN_REF_ENV = ''SP2_CP_CONTROL_STORE_DSN_REF''"
definition DEFAULT_CONTROL_STORE_DSN_REF :: string where "DEFAULT_CONTROL_STORE_DSN_REF = ''control/control-store-dsn''"
definition PROVISIONING_ADMIN_DSN_REF :: string where "PROVISIONING_ADMIN_DSN_REF = ''control/provisioning-admin-dsn''"

lemmas selector_names = CONTROL_STORE_ENV_def PROVISIONING_ADAPTER_ENV_def TENANT_SCHEMA_APPLICATOR_ENV_def
  DISTINCTNESS_LEDGER_ENV_def CONTROL_STORE_DSN_REF_ENV_def

definition LIVE_SELECTOR_ENVS :: "string list" where
  "LIVE_SELECTOR_ENVS = [PROVISIONING_ADAPTER_ENV, TENANT_SCHEMA_APPLICATOR_ENV, DISTINCTNESS_LEDGER_ENV]"

text \<open>\<open>os.environ.get(name) or default\<close>.\<close>

definition env_or :: "env \<Rightarrow> string \<Rightarrow> string \<Rightarrow> string" where
  "env_or env name dflt = (case env name of None \<Rightarrow> dflt | Some v \<Rightarrow> if v = [] then dflt else v)"

definition selector_value :: "env \<Rightarrow> string \<Rightarrow> string" where
  "selector_value env name = to_lower (strip (env_or env name ''in_memory''))"

definition control_store_selector :: "env \<Rightarrow> string + string" where
  "control_store_selector env =
     (case env CONTROL_STORE_ENV of
        None \<Rightarrow> Inr ''in_memory''
      | Some raw \<Rightarrow> let kind = to_lower (strip raw) in if kind = [] then Inl ''ValueError'' else Inr kind)"

definition check_selector_coherence :: "env \<Rightarrow> string + unit" where
  "check_selector_coherence env =
     (if list_ex (\<lambda>n. selector_value env n = ''postgres'') LIVE_SELECTOR_ENVS
         \<and> list_ex (\<lambda>n. selector_value env n \<noteq> ''postgres'') (CONTROL_STORE_ENV # LIVE_SELECTOR_ENVS)
      then Inl ''ValueError'' else Inr ())"

section \<open>Secret references\<close>

record secret_binding =
  sb_allowed :: "string list"
  sb_ref :: secret_ref

definition widened :: "string \<Rightarrow> secret_binding" where
  "widened sref = \<lparr>sb_allowed = trust_default_allowed @ [sref], sb_ref = \<lparr>store_ref = sref, ref_version = ''1''\<rparr>\<rparr>"

definition control_store_ref :: "env \<Rightarrow> string" where
  "control_store_ref env = strip (env_or env CONTROL_STORE_DSN_REF_ENV DEFAULT_CONTROL_STORE_DSN_REF)"

definition control_store_secret_binding :: "env \<Rightarrow> secret_binding" where
  "control_store_secret_binding env = widened (control_store_ref env)"

definition admin_secret_binding :: secret_binding where
  "admin_secret_binding = widened PROVISIONING_ADMIN_DSN_REF"

text \<open>What a composed object gets when it resolves its reference on first use.\<close>

definition resolve_binding ::
    "env \<Rightarrow> (string \<Rightarrow> string option) option \<Rightarrow> secret_binding \<Rightarrow> secret_ref \<Rightarrow> secret_error + string" where
  "resolve_binding env dir b ref = trust_resolve (sb_allowed b) env dir ref"

section \<open>Composed objects\<close>

datatype composed_store = MemoryStore | DurableStore secret_binding
datatype store_factory = SharedFactory composed_store | FreshFactory secret_binding
datatype composed_ledger = MemoryLedger | DurableLedger secret_binding
datatype composed_operator = MemoryOperator | PhysicalOperator secret_binding
datatype composed_gate = MemoryGate | LazyGate secret_binding
datatype composed_applicator = MemoryApplicator | PhysicalApplicator
datatype composed_inspection = MemoryInspection | PhysicalInspection secret_binding secret_binding

definition build_store :: "env \<Rightarrow> string + composed_store" where
  "build_store env = sbind (control_store_selector env) (\<lambda>kind.
     if kind = ''in_memory'' then Inr MemoryStore
     else if kind = ''postgres'' then Inr (DurableStore (control_store_secret_binding env))
     else Inl ''ValueError'')"

definition build_store_factory :: "env \<Rightarrow> bool \<Rightarrow> composed_store \<Rightarrow> string + store_factory" where
  "build_store_factory env explicit st =
     (if explicit then Inr (SharedFactory st)
      else sbind (control_store_selector env) (\<lambda>kind.
        if kind = ''in_memory'' then Inr (SharedFactory st)
        else if kind = ''postgres'' then Inr (FreshFactory (control_store_secret_binding env))
        else Inl ''ValueError''))"

definition by_selector :: "env \<Rightarrow> string \<Rightarrow> 'a \<Rightarrow> 'a \<Rightarrow> string + 'a" where
  "by_selector env name memory postgres =
     (let kind = selector_value env name in
      if kind = [] \<or> kind = ''in_memory'' then Inr memory
      else if kind = ''postgres'' then Inr postgres else Inl ''ValueError'')"

definition build_ledger :: "env \<Rightarrow> string + composed_ledger" where
  "build_ledger env = by_selector env DISTINCTNESS_LEDGER_ENV MemoryLedger (DurableLedger (control_store_secret_binding env))"

definition build_postgres_provisioning :: "env \<Rightarrow> composed_operator \<times> composed_gate" where
  "build_postgres_provisioning env =
     (PhysicalOperator admin_secret_binding, LazyGate (control_store_secret_binding env))"

definition build_provisioning :: "env \<Rightarrow> string + composed_operator \<times> composed_gate" where
  "build_provisioning env =
     by_selector env PROVISIONING_ADAPTER_ENV (MemoryOperator, MemoryGate) (build_postgres_provisioning env)"

definition build_schema_applicator :: "env \<Rightarrow> string + composed_applicator" where
  "build_schema_applicator env = by_selector env TENANT_SCHEMA_APPLICATOR_ENV MemoryApplicator PhysicalApplicator"

definition build_recovery_inspection :: "env \<Rightarrow> composed_inspection" where
  "build_recovery_inspection env =
     (if selector_value env PROVISIONING_ADAPTER_ENV = ''postgres''
      then PhysicalInspection admin_secret_binding (control_store_secret_binding env)
      else MemoryInspection)"

text \<open>The posture is computed from the composed objects: nothing where store and operator match.\<close>

definition store_durable :: "composed_store \<Rightarrow> bool" where
  "store_durable st = (case st of MemoryStore \<Rightarrow> False | DurableStore _ \<Rightarrow> True)"

definition live_postgres :: "composed_operator \<Rightarrow> bool" where
  "live_postgres x = (case x of MemoryOperator \<Rightarrow> False | PhysicalOperator _ \<Rightarrow> True)"

definition kind_name :: "bool \<Rightarrow> string" where
  "kind_name b = (if b then ''postgres'' else ''in_memory'')"

definition mixed_effective_posture :: "composed_store \<Rightarrow> composed_operator \<Rightarrow> string option" where
  "mixed_effective_posture st x =
     (if store_durable st = live_postgres x then None
      else Some (''control store='' @ kind_name (store_durable st) @ '', provisioning operator='' @ kind_name (live_postgres x)))"

record control_plane_app =
  ap_store :: composed_store
  ap_factory :: store_factory
  ap_ledger :: composed_ledger
  ap_operator :: composed_operator
  ap_gate :: composed_gate
  ap_applicator :: composed_applicator
  ap_inspection :: composed_inspection
  ap_onboarding_guard :: "string option"
  ap_recovery_guard :: "string option"

text \<open>\<open>ControlPlane(store)\<close>: the explicit store wins over the selector, the rest is always selected.\<close>

definition control_plane :: "env \<Rightarrow> composed_store option \<Rightarrow> string + control_plane_app" where
  "control_plane env explicit =
     sbind (check_selector_coherence env) (\<lambda>_.
     sbind (case explicit of Some st \<Rightarrow> Inr st | None \<Rightarrow> build_store env) (\<lambda>st.
     sbind (build_store_factory env (explicit \<noteq> None) st) (\<lambda>factory.
     sbind (build_ledger env) (\<lambda>ledger.
     sbind (build_provisioning env) (\<lambda>(operator, gate).
     sbind (build_schema_applicator env) (\<lambda>applicator.
     Inr \<lparr>ap_store = st, ap_factory = factory, ap_ledger = ledger, ap_operator = operator, ap_gate = gate,
       ap_applicator = applicator, ap_inspection = build_recovery_inspection env,
       ap_onboarding_guard = mixed_effective_posture st operator,
       ap_recovery_guard = mixed_effective_posture st operator\<rparr>))))))"

definition create_app :: "env \<Rightarrow> string + control_plane_app" where
  "create_app env = control_plane env None"

section \<open>Guarded operations\<close>

definition guarded_entry :: "string option \<Rightarrow> string \<Rightarrow> ('x, 'a) cp \<Rightarrow> ('x, 'a) cp" where
  "guarded_entry posture operation m =
     (case posture of
        None \<Rightarrow> m
      | Some p \<Rightarrow> raise (ProvisioningError (operation @ ''() is disabled under a MIXED effective composition: '' @ p)))"

text \<open>The operations of the composed plane; only onboarding and recovery are behind a guard.\<close>

fun plane_perform :: "control_plane_app \<Rightarrow> 'x cp_ports \<Rightarrow> gate_config \<Rightarrow> cp_op \<Rightarrow> string \<Rightarrow> string \<Rightarrow> 'x cp_world \<Rightarrow> 'x cp_world" where
  "plane_perform app P G (OpOnboard tid org fed sv) actor cid w =
     outcome_of w (guarded_entry (ap_onboarding_guard app) ''onboard'' (onboard P G tid org fed sv actor cid))"
| "plane_perform app P G (OpReassociate tid ref) actor cid w =
     outcome_of w (guarded_entry (ap_onboarding_guard app) ''reassociate'' (onboarding_reassociate P G tid ref actor cid))"
| "plane_perform app P G (OpRecover tid) actor cid w =
     outcome_of w (guarded_entry (ap_onboarding_guard app) ''recover'' (recover P G tid actor cid))"
| "plane_perform app P G (OpDeprovision tid) actor cid w =
     outcome_of w (guarded_entry (ap_recovery_guard app) ''deprovision_tenant_database''
       (deprovision_tenant_database P (g_supported G) tid actor cid))"
| "plane_perform app P G OpScan actor cid w =
     outcome_of w (guarded_entry (ap_recovery_guard app) ''scan_for_orphans'' (scan_for_orphans P (g_supported G)))"
| "plane_perform app P G op actor cid w = perform P G op actor cid w"

section \<open>The gate with lazily resolved Control-database evidence\<close>

record 'x lazy_world =
  lw_control :: "evidence option"
  lw_world :: "'x cp_world"

definition proven_control_evidence :: "evidence option \<Rightarrow> evidence option" where
  "proven_control_evidence e =
     (case e of
        None \<Rightarrow> None
      | Some ev \<Rightarrow> if \<not> sentinel_written ev \<or> sentinel_token ev \<in> {None, Some []} then None else Some ev)"

definition gate_with :: "'x cp_ports \<Rightarrow> gate_config \<Rightarrow> evidence \<Rightarrow> string \<Rightarrow> string \<Rightarrow> string
    \<Rightarrow> ('x lazy_world, cp_error, outcome) proc" where
  "gate_with P G e tid actor cid s =
     (case gate_verify P (G\<lparr>g_control := e\<rparr>) tid actor cid (lw_world s) of (r, w) \<Rightarrow> (r, s\<lparr>lw_world := w\<rparr>))"

text \<open>\<open>gather\<close> asks the evidence provider about the Control database; what it proves is kept.\<close>

definition lazy_verify :: "('x, evidence option) cp \<Rightarrow> 'x cp_ports \<Rightarrow> gate_config \<Rightarrow> string \<Rightarrow> string \<Rightarrow> string
    \<Rightarrow> ('x lazy_world, cp_error, outcome) proc" where
  "lazy_verify gather P G tid actor cid s =
     (case lw_control s of
        Some e \<Rightarrow> gate_with P G e tid actor cid s
      | None \<Rightarrow>
          (case gather (lw_world s) of
             (Inl x, w) \<Rightarrow> (Inl x, s\<lparr>lw_world := w\<rparr>)
           | (Inr got, w) \<Rightarrow>
               (case proven_control_evidence got of
                  None \<Rightarrow> (Inl (ProvisioningError ''control database distinctness evidence unavailable''), s\<lparr>lw_world := w\<rparr>)
                | Some e \<Rightarrow> gate_with P G e tid actor cid (s\<lparr>lw_control := Some e, lw_world := w\<rparr>))))"

section \<open>Edges\<close>

definition LOOPBACK_HOSTS :: "string list" where
  "LOOPBACK_HOSTS = [''127.0.0.1'', ''localhost'', ''::1'']"

definition read_server_from_env :: "env \<Rightarrow> string + (control_plane_app \<times> string \<times> int) option" where
  "read_server_from_env env =
     (let host = env_value env ''SP2_CP_READ_HOST'' in
      if host = [] then Inr None
      else sbind (port_from_env env ''SP2_CP_READ_PORT'') (\<lambda>port.
           sbind (create_app env) (\<lambda>app. Inr (Some (app, host, port)))))"

definition audit_store_from_env :: "env \<Rightarrow> string + secret_binding" where
  "audit_store_from_env env =
     (if control_store_ref env = [] then Inl ''ValueError'' else Inr (control_store_secret_binding env))"

definition audit_server_from_env :: "string \<Rightarrow> string \<Rightarrow> env \<Rightarrow> string + (secret_binding \<times> string \<times> int) option" where
  "audit_server_from_env host_name port_name env =
     (let host = env_value env host_name in
      if host = [] then Inr None
      else if host \<notin> set LOOPBACK_HOSTS then Inl ''ValueError''
      else sbind (port_from_env env port_name) (\<lambda>port.
           sbind (audit_store_from_env env) (\<lambda>b. Inr (Some (b, host, port)))))"

definition routing_audit_server_from_env :: "env \<Rightarrow> string + (secret_binding \<times> string \<times> int) option" where
  "routing_audit_server_from_env = audit_server_from_env ''SP2_CP_ROUTING_AUDIT_HOST'' ''SP2_CP_ROUTING_AUDIT_PORT''"

definition gateway_audit_server_from_env :: "env \<Rightarrow> string + (secret_binding \<times> string \<times> int) option" where
  "gateway_audit_server_from_env = audit_server_from_env ''SP2_CP_GATEWAY_AUDIT_HOST'' ''SP2_CP_GATEWAY_AUDIT_PORT''"

definition import_audit_server_from_env :: "env \<Rightarrow> string + (secret_binding \<times> string \<times> int) option" where
  "import_audit_server_from_env = audit_server_from_env ''SP2_CP_IMPORT_AUDIT_HOST'' ''SP2_CP_IMPORT_AUDIT_PORT''"

end
