(* ===== verification/CP_EndToEnd.thy ===== *)
theory CP_EndToEnd
  imports CP_System
begin

text \<open>
  The success path end to end: registering, provisioning and verifying a new tenant with the
  in-memory providers of the default composition ends in \<open>Ready\<close>, whatever tenants are onboarded
  already.
\<close>

section \<open>Exact effects of undisturbed steps\<close>

definition held_at :: "tenant_record \<Rightarrow> string list \<Rightarrow> ledger_map \<Rightarrow> 'x cp_world \<Rightarrow> bool" where
  "held_at rec T l w \<longleftrightarrow> at rec T w \<and> ledger w = l"

definition same_target :: "tenant_record \<Rightarrow> tenant_record \<Rightarrow> bool" where
  "same_target p r \<longleftrightarrow> tenant_id p = tenant_id r
     \<and> database_association_ref p = database_association_ref r
     \<and> expected_schema_version p = expected_schema_version r"

lemma same_target_refl [simp]: "same_target r r"
  by (simp add: same_target_def)

lemma event_held:
  "triple (\<lambda>_ _. True) (held_at rec T l) (audit_event tid ac actor cid) (\<lambda>_. held_at rec (T @ [ac]) l) nofail"
  unfolding held_at_def
  by (rule triple_conseq[OF triple_frame[OF audit_event_at, where K = "\<lambda>w. ledger w = l"]]) auto

lemma world_cas_Inr: "world_cas u v w = (Inr p, w') \<Longrightarrow> p = u\<lparr>rec_version := v + 1\<rparr>"
  by (cases rule: cas_cases[of "store (env_step w)" u v]) (auto simp: world_cas_def Let_def)

lemma swap_and_audit_Inr:
  assumes run: "swap_and_audit rec chg st ac actor cid w = (Inr p, w')"
  shows "p = (chg (rec\<lparr>lifecycle := st, updated_at := clock w (tick w)\<rparr>))\<lparr>rec_version := rec_version rec + 1\<rparr>"
proof -
  let ?u = "chg (rec\<lparr>lifecycle := st, updated_at := clock w (tick w)\<rparr>)"
  obtain q w2 where cas: "world_cas ?u (rec_version rec) (w\<lparr>tick := Suc (tick w)\<rparr>) = (q, w2)"
    by (cases "world_cas ?u (rec_version rec) (w\<lparr>tick := Suc (tick w)\<rparr>)")
  with run have "q = Inr p"
    by (cases q) (simp_all add: swap_and_audit_def now_iso_def audit_record_def Let_def)
  from world_cas_Inr[OF cas[unfolded this]] show ?thesis .
qed

lemma swap_held:
  "triple (\<lambda>_ _. True) (held_at rec T l) (swap_and_audit rec id st ac actor cid)
     (\<lambda>p w. held_at p (T @ [ac]) l w \<and> lifecycle p = st \<and> same_target p rec) nofail"
proof (rule tripleI)
  fix w :: "'x cp_world" and r w'
  assume h: "held_at rec T l w" and run: "swap_and_audit rec id st ac actor cid w = (r, w')"
  have t: "triple (\<lambda>_ _. True) (at rec T) (swap_and_audit rec id st ac actor cid)
      (\<lambda>p w. at p (T @ [ac]) w \<and> lifecycle p = st \<and> tenant_id p = tenant_id rec
         \<and> rec_version p = rec_version rec + 1) nofail"
    by (rule swap_and_audit_at) simp_all
  have at0: "at rec T w" and l: "ledger w = l" using h by (simp_all add: held_at_def)
  have post: "\<exists>p. r = Inr p \<and> at p (T @ [ac]) w' \<and> lifecycle p = st"
    using tripleD[OF t at0 run] by (cases r) blast+
  then obtain p where p: "r = Inr p" "at p (T @ [ac]) w'" "lifecycle p = st" by blast
  have "ledger w' = l" using ledger_swap_and_audit[of rec id st ac actor cid w] run l by simp
  moreover have "same_target p rec"
  proof -
    note swap_and_audit_Inr[OF run[unfolded p(1)]]
    then show ?thesis by (simp add: same_target_def)
  qed
  ultimately show "True \<and> (\<forall>a. r = Inr a \<longrightarrow> held_at a (T @ [ac]) l w' \<and> lifecycle a = st \<and> same_target a rec)
      \<and> (\<forall>e. r = Inl e \<longrightarrow> False)" using p by (simp add: held_at_def)
qed

lemma register_held:
  assumes "admissible tid"
  shows "triple (\<lambda>_ _. True) (\<lambda>w. calm tid None T w \<and> ledger w = l) (register_tenant tid org sv assoc fed actor cid)
     (\<lambda>r w. held_at r (T @ [''RegisterTenant'']) l w \<and> lifecycle r = Registered \<and> tenant_id r = tid
        \<and> database_association_ref r = assoc \<and> expected_schema_version r = sv) nofail"
proof (rule tripleI)
  fix w :: "'x cp_world" and r w'
  assume c: "calm tid None T w \<and> ledger w = l" and run: "register_tenant tid org sv assoc fed actor cid w = (r, w')"
  have "disciplined w w'" using keepsD[OF keeps_register_tenant run] .
  then have "sane w'" using c by (auto simp: disciplined_def calm_def)
  then show "True \<and> (\<forall>a. r = Inr a \<longrightarrow> held_at a (T @ [''RegisterTenant'']) l w' \<and> lifecycle a = Registered
      \<and> tenant_id a = tid \<and> database_association_ref a = assoc \<and> expected_schema_version a = sv)
      \<and> (\<forall>e. r = Inl e \<longrightarrow> False)"
    using c run assms
    by (auto simp: register_tenant_def admissible_def world_get_def calm_def now_iso_def audit_record_def
        world_put_def held_at_def at_def trail_def Let_def put_tenant_def get_tenant_def)
qed

section \<open>Canonical identifiers and evidence\<close>

lemma admissible_tid:
  assumes "admissible tid"
  shows "tid \<noteq> []" "CHR ''/'' \<notin> set tid" "tid \<noteq> ''control''"
proof -
  have sh: "tenant_id_shape tid" and lo: "to_lower tid \<noteq> ''control''"
    using assms by (auto simp: admissible_def reserved_tenant_ids_def)
  then show "tid \<noteq> []" "CHR ''/'' \<notin> set tid"
    by (auto simp: tenant_id_shape_def list_all_iff tenant_id_char_def is_lower_ascii_def is_digit_def char_code_def)
  show "tid \<noteq> ''control''" using lo by (auto simp: to_lower_def to_lower_char_def char_code_def)
qed

definition canonical_ref :: "string \<Rightarrow> secret_ref" where
  "canonical_ref tid = \<lparr>store_ref = tenant_dsn_ref tid, ref_version = ''1''\<rparr>"

definition mem_row :: "string \<Rightarrow> string \<Rightarrow> evidence" where
  "mem_row tid token =
     \<lparr>system_identifier = NONPROD_TENANT_SYSTEM_IDENTIFIER,
      database_identity = tenant_database_name tid @ '':db'', observed_target = tenant_database_name tid,
      ev_secret_ref_key = tenant_dsn_ref tid, sentinel_namespace = ''dv_sentinel_'' @ tid,
      sentinel_token = Some token, sentinel_written = True\<rparr>"

lemma canonical_evidence:
  assumes "admissible tid"
  shows "canonical_mem_evidence (canonical_ref tid) token (''dv_sentinel_'' @ tid) = mem_row tid token"
proof -
  have "tenant_id_from_dsn_ref (tenant_dsn_ref tid) = Some tid"
    using admissible_tid[OF assms] by (simp add: dsn_ref_inverse)
  then show ?thesis
    by (simp add: canonical_mem_evidence_def mem_evidence_def canonical_ref_def mem_row_def Let_def)
qed

lemma mem_row_control:
  assumes "admissible tid" shows "\<not> collides_control (mem_row tid token) nonprod_control_db_evidence"
  using admissible_tid(3)[OF assms]
  by (simp add: collides_control_def mem_row_def nonprod_control_db_evidence_def fingerprint_def
      fingerprint_of_def NONPROD_TENANT_SYSTEM_IDENTIFIER_def tenant_database_name_def
      DEFAULT_TENANT_DB_PREFIX_def tenant_dsn_ref_def TENANT_DSN_REF_PREFIX_def)

lemma mem_row_tenant:
  "\<lbrakk>t \<noteq> tid; tok \<noteq> token\<rbrakk> \<Longrightarrow> \<not> collides_tenant (mem_row tid token) (mem_row t tok)"
  by (simp add: collides_tenant_def mem_row_def fingerprint_def fingerprint_of_def tenant_dsn_ref_def)

text \<open>A ledger as earlier onboardings of this composition left it; \<open>token\<close> is not used in it.\<close>

definition mem_ledger_rows :: "string \<Rightarrow> ledger_map \<Rightarrow> bool" where
  "mem_ledger_rows token l \<longleftrightarrow> (\<forall>(t, e) \<in> set l. \<exists>tok. tok \<noteq> token \<and> e = mem_row t tok)"

lemma mem_row_verified:
  assumes tid: "admissible tid" and "token \<noteq> []" and "mem_ledger_rows token l"
  shows "verify_distinct tid (Some (mem_row tid token)) (tenant_database_name tid) nonprod_control_db_evidence
     (evidence_excluding tid l) = mk_outcome VERIFIED REASON_VERIFIED"
proof -
  have "\<not> inventory_collision tid (mem_row tid token) l"
    using assms(3) mem_row_tenant by (fastforce simp: inventory_collision_iff mem_ledger_rows_def)
  then show ?thesis
    using assms(2) mem_row_control[OF tid]
    by (simp add: verify_distinct_def inventory_collision_excluding)
      (simp add: mem_row_def NONPROD_TENANT_SYSTEM_IDENTIFIER_def truthy_opt_def)
qed

lemma mem_row_free:
  assumes "mem_ledger_rows token l" shows "\<not> holds_elsewhere tid (mem_row tid token) l"
  using assms
  by (fastforce simp: holds_elsewhere_iff mem_ledger_rows_def mem_row_def fingerprint_def fingerprint_of_def)

section \<open>The gate succeeds\<close>

lemma commit_held:
  assumes nh: "\<not> holds_elsewhere tid ev l" and id: "tenant_id rec = tid"
  shows "triple (\<lambda>_ _. True) (held_at rec T l) (gate_commit rec tid ev verdict actor cid)
     (\<lambda>v w. v = verdict \<and> (\<exists>p. held_at p (T @ [DISTINCTNESS_VERIFICATION_PASSED, ROUTING_ENABLED])
          (dict_put tid ev l) w \<and> tenant_id p = tid \<and> lifecycle p = Ready)) nofail"
proof -
  have rec: "triple (\<lambda>_ _. True) (held_at rec T l) (ledger_record tid ev) (\<lambda>_. held_at rec T (dict_put tid ev l)) nofail"
  proof (rule tripleI)
    fix w :: "'x cp_world" and r w'
    assume h: "held_at rec T l w" and run: "ledger_record tid ev w = (r, w')"
    have "sane w'" using keepsD[OF keeps_ledger_record run] h by (auto simp: disciplined_def held_at_def at_def)
    then show "True \<and> (\<forall>a. r = Inr a \<longrightarrow> held_at rec T (dict_put tid ev l) w') \<and> (\<forall>e. r = Inl e \<longrightarrow> False)"
      using h run nh by (auto simp: ledger_record_def record_evidence_def held_at_def at_def trail_def)
  qed
  show ?thesis
    unfolding gate_commit_def gate_transition_def
  proof (rule any.triple_tries[OF rec], rule conflict_nofail, rule any.triple_tries[OF swap_held], rule conflict_nofail)
    fix p
    show "triple (\<lambda>_ _. True) (\<lambda>w. held_at p (T @ [DISTINCTNESS_VERIFICATION_PASSED]) (dict_put tid ev l) w
          \<and> lifecycle p = Ready \<and> same_target p rec)
        (andthen (audit_event tid ROUTING_ENABLED actor cid) (ret verdict))
        (\<lambda>v w. v = verdict \<and> (\<exists>p. held_at p (T @ [DISTINCTNESS_VERIFICATION_PASSED, ROUTING_ENABLED])
          (dict_put tid ev l) w \<and> tenant_id p = tid \<and> lifecycle p = Ready)) nofail"
      by (rule triple_pure, rule any.triple_andthen[OF event_held], rule any.triple_ret)
        (use id in \<open>auto simp: same_target_def\<close>)
  qed
qed

definition ready_target :: "string \<Rightarrow> tenant_record \<Rightarrow> bool" where
  "ready_target tid rec \<longleftrightarrow> tenant_id rec = tid \<and> database_association_ref rec = canonical_ref tid
     \<and> expected_schema_version rec = ''1''"

abbreviation onboarded :: "string \<Rightarrow> string \<Rightarrow> ledger_map \<Rightarrow> string list \<Rightarrow> outcome \<Rightarrow> 'x cp_world \<Rightarrow> bool" where
  "onboarded tid token l T \<equiv> (\<lambda>v w. v = mk_outcome VERIFIED REASON_VERIFIED
     \<and> (\<exists>p. held_at p T (dict_put tid (mem_row tid token) l) w \<and> tenant_id p = tid \<and> lifecycle p = Ready))"

lemma checks_held:
  assumes tid: "admissible tid" and tok: "token \<noteq> []" and l: "mem_ledger_rows token l"
    and rec: "ready_target tid rec"
  shows "triple (\<lambda>_ _. True) (held_at rec T l) (gate_checks (mem_ports token) mem_gate rec tid actor cid)
     (onboarded tid token l (T @ [DISTINCTNESS_VERIFICATION_PASSED, ROUTING_ENABLED])) nofail"
proof (rule tripleI)
  fix w :: "mem_ext cp_world" and r w'
  assume h: "held_at rec T l w" and run: "gate_checks (mem_ports token) mem_gate rec tid actor cid w = (r, w')"
  have key: "secret_ref_key (canonical_ref tid) \<noteq> ''sp2_control''"
    by (simp add: secret_ref_key_def canonical_ref_def tenant_dsn_ref_def TENANT_DSN_REF_PREFIX_def)
  have "gate_commit rec tid (mem_row tid token) (mk_outcome VERIFIED REASON_VERIFIED) actor cid w = (r, w')"
    using run h rec key mem_row_verified[OF tid tok l] canonical_evidence[OF tid, of token]
    by (simp add: gate_checks_def mem_ports_def mem_probe_def mem_gate_def schema_rejected_def ready_target_def
        gate_distinctness_def held_at_def nonprod_control_db_evidence_def[THEN arg_cong[where f = ev_secret_ref_key]]
        mk_outcome_def Let_def)
  moreover have "tenant_id rec = tid" using rec by (simp add: ready_target_def)
  ultimately show "True \<and> (\<forall>a. r = Inr a \<longrightarrow> onboarded tid token l (T @ [DISTINCTNESS_VERIFICATION_PASSED, ROUTING_ENABLED]) a w')
      \<and> (\<forall>e. r = Inl e \<longrightarrow> False)"
    using tripleD[OF commit_held[OF mem_row_free[OF l]] h] by blast
qed

lemma verify_held:
  assumes tid: "admissible tid" and tok: "token \<noteq> []" and l: "mem_ledger_rows token l"
    and rec: "ready_target tid rec" and st: "lifecycle rec \<notin> {Decommissioned, Suspended, Quarantined}"
  shows "triple (\<lambda>_ _. True) (held_at rec T l) (gate_verify (mem_ports token) mem_gate tid actor cid)
     (onboarded tid token l (T @ [DISTINCTNESS_VERIFICATION_STARTED, DISTINCTNESS_VERIFICATION_PASSED, ROUTING_ENABLED]))
     nofail"
proof -
  have req: "triple (\<lambda>_ _. True) (held_at rec T l) (gate_require tid)
      (\<lambda>r w. held_at rec T l w \<and> r = rec) nofail"
    by (rule tripleI) (use rec in \<open>auto simp: gate_require_def world_get_def held_at_def at_def ready_target_def\<close>)
  have enter: "triple (\<lambda>_ _. True) (held_at rec T l) (gate_enter rec tid actor cid)
      (\<lambda>x w. \<exists>p. x = Inr p \<and> held_at p (T @ [DISTINCTNESS_VERIFICATION_STARTED]) l w \<and> ready_target tid p) nofail"
    unfolding gate_enter_def gate_transition_def
    by (rule any.triple_tries[OF swap_held], rule conflict_nofail, rule any.triple_ret)
      (use rec in \<open>auto simp: ready_target_def same_target_def\<close>)
  have rest: "triple (\<lambda>_ _. True) (\<lambda>w. \<exists>p. x = Inr p \<and> held_at p (T @ [DISTINCTNESS_VERIFICATION_STARTED]) l w \<and> ready_target tid p)
      (case x of Inl verdict \<Rightarrow> ret verdict | Inr rec1 \<Rightarrow> gate_checks (mem_ports token) mem_gate rec1 tid actor cid)
      (onboarded tid token l (T @ [DISTINCTNESS_VERIFICATION_STARTED, DISTINCTNESS_VERIFICATION_PASSED, ROUTING_ENABLED]))
      nofail" for x :: "outcome + tenant_record"
    using checks_held[OF tid tok l] unfolding triple_def by (cases x) fastforce+
  show ?thesis
    unfolding gate_verify_def
  proof (rule any.triple_bnd[OF req])
    fix r
    show "triple (\<lambda>_ _. True) (\<lambda>w. held_at rec T l w \<and> r = rec)
       (if lifecycle r \<in> {Decommissioned, Suspended, Quarantined}
        then raise (ProvisioningError ''illegal lifecycle transition'')
        else bnd (gate_enter r tid actor cid) (\<lambda>entered. case entered of Inl verdict \<Rightarrow> ret verdict
          | Inr rec1 \<Rightarrow> gate_checks (mem_ports token) mem_gate rec1 tid actor cid))
       (onboarded tid token l (T @ [DISTINCTNESS_VERIFICATION_STARTED, DISTINCTNESS_VERIFICATION_PASSED, ROUTING_ENABLED]))
       nofail"
    proof (rule triple_pure, rule triple_if)
      assume "r = rec" and "lifecycle r \<in> {Decommissioned, Suspended, Quarantined}"
      with st show "triple (\<lambda>_ _. True) (held_at rec T l) (raise (ProvisioningError ''illegal lifecycle transition''))
        (onboarded tid token l (T @ [DISTINCTNESS_VERIFICATION_STARTED, DISTINCTNESS_VERIFICATION_PASSED, ROUTING_ENABLED]))
        nofail" by blast
    next
      assume r: "r = rec"
      show "triple (\<lambda>_ _. True) (held_at rec T l)
        (bnd (gate_enter r tid actor cid) (\<lambda>entered. case entered of Inl verdict \<Rightarrow> ret verdict
          | Inr rec1 \<Rightarrow> gate_checks (mem_ports token) mem_gate rec1 tid actor cid))
        (onboarded tid token l (T @ [DISTINCTNESS_VERIFICATION_STARTED, DISTINCTNESS_VERIFICATION_PASSED, ROUTING_ENABLED]))
        nofail" unfolding r by (rule any.triple_bnd[OF enter rest])
    qed
  qed
qed

section \<open>Onboarding succeeds\<close>

definition onboarding_trail :: "string list" where
  "onboarding_trail =
     [''RegisterTenant'', ''MarkProvisioning'', DATABASE_PROVISION_REQUESTED, DATABASE_PROVISION_SUCCEEDED,
      TENANT_SCHEMA_APPLICATION_STARTED, TENANT_SCHEMA_APPLICATION_SUCCEEDED, SECRET_REFERENCE_REGISTERED,
      DATABASE_ASSOCIATED, DISTINCTNESS_VERIFICATION_STARTED, DISTINCTNESS_VERIFICATION_PASSED, ROUTING_ENABLED]"

lemma quiet_held:
  assumes "quiet m"
  shows "triple (\<lambda>_ _. True) (held_at rec T l) m (\<lambda>_. held_at rec T l) (\<lambda>_. held_at rec T l)"
  unfolding held_at_def by (rule triple_frame[OF quiet_at[OF assms]]) (use assms in \<open>simp add: quiet_def\<close>)

lemma quiet_noraise_held:
  assumes "quiet m" and "\<And>w e w'. m w \<noteq> (Inl e, w')"
  shows "triple (\<lambda>_ _. True) (held_at rec T l) m (\<lambda>_. held_at rec T l) nofail"
  using quiet_held[OF assms(1), of rec T l] assms(2) unfolding triple_def by metis

lemma provision_apply_verify_held:
  assumes tid: "admissible tid" and tok: "token \<noteq> []" and l: "mem_ledger_rows token l"
    and rec: "ready_target tid rec" and st: "lifecycle rec \<notin> {Decommissioned, Suspended, Quarantined}"
  shows "triple (\<lambda>_ _. True) (held_at rec T l)
    (provision_apply_verify (mem_ports token) mem_gate tid tgt assoc actor cid)
    (onboarded tid token l (T @ drop 2 onboarding_trail)) nofail"
proof -
  have prov: "triple (\<lambda>_ _. True) (held_at rec T l) (p_provision (mem_ports token) tid tgt) (\<lambda>_. held_at rec T l) nofail" for T
  proof (rule quiet_noraise_held)
    show "quiet (p_provision (mem_ports token) tid tgt)" using ports_quiet_mem by (simp add: ports_quiet_def)
  qed (simp add: mem_ports_def mem_provision_def ext_reads_def ext_writes_def)
  have schema: "triple (\<lambda>_ _. True) (held_at rec T l) (p_apply_schema (mem_ports token) tid tgt assoc) (\<lambda>_. held_at rec T l) nofail" for T
  proof (rule quiet_noraise_held)
    show "quiet (p_apply_schema (mem_ports token) tid tgt assoc)" using ports_quiet_mem by (simp add: ports_quiet_def)
  qed (simp add: mem_ports_def mem_apply_schema_def ext_writes_def)
  show ?thesis
    unfolding provision_apply_verify_def
    by (rule any.triple_andthen[OF event_held], rule any.triple_tries[OF prov], rule conflict_nofail,
        rule any.triple_andthen[OF event_held], rule any.triple_andthen[OF event_held],
        rule any.triple_tries[OF schema], rule conflict_nofail,
        rule any.triple_andthen[OF event_held], rule any.triple_andthen[OF event_held],
        rule any.triple_andthen[OF event_held], rule triple_conseq[OF verify_held[OF tid tok l rec st]])
      (auto simp: onboarding_trail_def)
qed

lemma onboard_held:
  assumes tid: "admissible tid" and tok: "token \<noteq> []" and l: "mem_ledger_rows token l"
    and w: "calm tid None T w" "ledger w = l"
    and run: "onboard (mem_ports token) mem_gate tid org fed ''1'' actor cid w = (r, w')"
  shows "\<exists>v. r = Inr v \<and> onboarded tid token l (T @ onboarding_trail) v w'"
proof -
  let ?assoc = "canonical_ref tid"
  have mark: "triple (\<lambda>_ _. True) (\<lambda>w. held_at rec (T @ [''RegisterTenant'']) l w \<and> lifecycle rec = Registered
        \<and> tenant_id rec = tid \<and> database_association_ref rec = ?assoc \<and> expected_schema_version rec = ''1'')
      (andthen (mark_provisioning tid actor cid)
        (provision_apply_verify (mem_ports token) mem_gate tid (tenant_database_name tid) ?assoc actor cid))
      (onboarded tid token l (T @ onboarding_trail)) nofail" for rec
  proof -
    let ?C = "lifecycle rec = Registered \<and> tenant_id rec = tid \<and> database_association_ref rec = ?assoc
      \<and> expected_schema_version rec = ''1''"
    have "triple (\<lambda>_ _. True) (held_at rec (T @ [''RegisterTenant'']) l) (mark_provisioning tid actor cid :: (mem_ext, _) cp)
        (\<lambda>p w. (held_at p (T @ [''RegisterTenant'', ''MarkProvisioning'']) l w \<and> lifecycle p = Provisioning)
           \<and> ready_target tid p) nofail" if C: ?C
    proof (rule tripleI)
      fix w :: "mem_ext cp_world" and q w'
      assume h: "held_at rec (T @ [''RegisterTenant'']) l w" and run: "mark_provisioning tid actor cid w = (q, w')"
      have "swap_and_audit rec id Provisioning ''MarkProvisioning'' actor cid w = (q, w')"
        using run h C by (simp add: mark_provisioning_def registry_transition_def phase_4_states_def world_get_def
            held_at_def at_def)
      from tripleD[OF swap_held h this] C show "True \<and> (\<forall>a. q = Inr a \<longrightarrow>
          (held_at a (T @ [''RegisterTenant'', ''MarkProvisioning'']) l w' \<and> lifecycle a = Provisioning)
          \<and> ready_target tid a) \<and> (\<forall>e. q = Inl e \<longrightarrow> False)"
        by (auto simp: ready_target_def same_target_def)
    qed
    moreover have "triple (\<lambda>_ _. True)
        (\<lambda>w. (held_at p (T @ [''RegisterTenant'', ''MarkProvisioning'']) l w \<and> lifecycle p = Provisioning) \<and> ready_target tid p)
        (provision_apply_verify (mem_ports token) mem_gate tid (tenant_database_name tid) ?assoc actor cid)
        (onboarded tid token l (T @ onboarding_trail)) nofail" for p
      by (intro triple_pure, rule triple_conseq[OF provision_apply_verify_held[OF tid tok l]])
        (auto simp: onboarding_trail_def)
    ultimately have "triple (\<lambda>_ _. True) (held_at rec (T @ [''RegisterTenant'']) l)
      (andthen (mark_provisioning tid actor cid)
        (provision_apply_verify (mem_ports token) mem_gate tid (tenant_database_name tid) ?assoc actor cid))
      (onboarded tid token l (T @ onboarding_trail)) nofail" if ?C
      unfolding andthen_def using that by (blast intro: any.triple_bnd)
    then show ?thesis by (rule triple_pure)
  qed
  have fresh: "onboard_fresh (mem_ports token) mem_gate tid org fed ''1'' actor cid w = (r, w')"
    using run w(1) by (simp add: onboard_def get_tenant_status_def world_get_def calm_def)
  have "triple (\<lambda>_ _. True) (\<lambda>w. calm tid None T w \<and> ledger w = l)
      (onboard_fresh (mem_ports token) mem_gate tid org fed ''1'' actor cid)
      (onboarded tid token l (T @ onboarding_trail)) nofail"
    unfolding onboard_fresh_def canonical_ref_def[symmetric] Let_def andthen_def[of "register_tenant _ _ _ _ _ _ _"]
    by (rule any.triple_bnd[OF register_held[OF tid] mark])
  from tripleD[OF this _ fresh] w show ?thesis by (cases r) auto
qed

end
