(* ===== verification/CP_Claims.thy ===== *)
theory CP_Claims
  imports CP_EndToEnd CP_Secrets
begin

text \<open>
  The properties of the control plane, each stated over the model's definitions and, where it has
  hypotheses, applied to a concrete state.
\<close>

section \<open>Sample states\<close>

definition sample_record :: "lifecycle_state \<Rightarrow> tenant_record" where
  "sample_record st = \<lparr>tenant_id = ''acme'', organization_ref = ''org'', lifecycle = st,
     expected_schema_version = ''1'', database_association_ref = canonical_ref ''acme'',
     federation_config_ref = ''fed'', created_at = ''t'', updated_at = ''t'', rec_version = 3\<rparr>"

definition sample_world :: "lifecycle_state \<Rightarrow> mem_ext cp_world" where
  "sample_world st = (mem_world mem_ext_init)\<lparr>store := put_tenant (sample_record st) (empty_store 1 True)\<rparr>"

lemma sample_fields [simp]:
  "tenant_id (sample_record st) = ''acme''" "lifecycle (sample_record st) = st"
  "rec_version (sample_record st) = 3" "database_association_ref (sample_record st) = canonical_ref ''acme''"
  "expected_schema_version (sample_record st) = ''1''"
  by (simp_all add: sample_record_def)

lemma sample_world_parts [simp]:
  "store (sample_world st) = put_tenant (sample_record st) (empty_store 1 True)"
  "ledger (sample_world st) = []" "writers (sample_world st) = []" "ext (sample_world st) = mem_ext_init"
  by (simp_all add: sample_world_def mem_world_def)

lemma get_empty [simp]: "get_tenant (empty_store v b) tid = None"
  by (simp add: get_tenant_def empty_store_def)

lemma sample_sane [simp]: "sane (sample_world st)"
proof -
  have "store_ok (put_tenant (sample_record st) (empty_store 1 True))"
    by (auto simp: store_ok_def) (simp add: put_tenant_def empty_store_def)
  then show ?thesis unfolding sane_def by (simp add: one_holder_def)
qed

lemma sample_at: "at (sample_record st) [] (sample_world st)"
  by (simp add: at_def trail_def) (simp add: put_tenant_def empty_store_def)

lemma acme_admissible: "admissible ''acme''"
  by (simp add: admissible_def reserved_tenant_ids_def tenant_id_shape_def tenant_id_char_def
      is_lower_ascii_def char_code_def to_lower_def to_lower_char_def)

section \<open>The verification gate\<close>


lemma sample_verified: "\<exists>w'. gate_verify (mem_ports ''k'') mem_gate ''acme'' ''op'' ''c'' (sample_world Provisioning)
    = (Inr (mk_outcome VERIFIED REASON_VERIFIED), w')"
proof -
  obtain r w' where run: "gate_verify (mem_ports ''k'') mem_gate ''acme'' ''op'' ''c'' (sample_world Provisioning) = (r, w')"
    by (cases "gate_verify (mem_ports ''k'') mem_gate ''acme'' ''op'' ''c'' (sample_world Provisioning)")
  have h: "held_at (sample_record Provisioning) [] [] (sample_world Provisioning)"
    using sample_at by (simp add: held_at_def)
  have t: "triple (\<lambda>_ _. True) (held_at (sample_record Provisioning) [] [])
      (gate_verify (mem_ports ''k'') mem_gate ''acme'' ''op'' ''c'')
      (onboarded ''acme'' ''k'' [] ([] @ [DISTINCTNESS_VERIFICATION_STARTED, DISTINCTNESS_VERIFICATION_PASSED, ROUTING_ENABLED]))
      nofail"
    by (rule verify_held[OF acme_admissible]) (simp_all add: mem_ledger_rows_def ready_target_def)
  note post = tripleD[OF t h run]
  show ?thesis
  proof (cases r)
    case (Inl e)
    from post[THEN conjunct2, THEN conjunct2, rule_format, OF Inl] show ?thesis ..
  next
    case (Inr v)
    from post[THEN conjunct2, THEN conjunct1, rule_format, OF Inr]
    have v: "v = mk_outcome VERIFIED REASON_VERIFIED" by (rule conjunct1)
    show ?thesis by (rule exI) (rule run[unfolded Inr v])
  qed
qed




text \<open>A verifier that loses the entry race yields: when the record it read was moved on to a
settled state before its first write, it returns VERIFICATION_INCOMPLETE, touches neither the
winner's record nor the ledger, and probes nothing.\<close>

theorem gate_yields_to_winner:
  assumes "writers w = [f]" and "get_tenant (store w) tid = Some rec" and "tenant_id rec = tid"
    and "lifecycle rec \<notin> {Decommissioned, Suspended, Quarantined}"
    and "get_tenant (f (store w)) tid = Some q" and "rec_version q \<noteq> rec_version rec"
    and "lifecycle q \<in> {Suspended, Quarantined, Decommissioned, Failed}"
  shows "\<exists>w'. gate_verify P G tid actor cid w
      = (Inr (mk_outcome VERIFICATION_INCOMPLETE REASON_CONCURRENT_LIFECYCLE_WINNER), w')
    \<and> store w' = f (store w) \<and> ledger w' = ledger w"
proof -
  let ?w1 = "w\<lparr>tick := Suc (tick w), store := f (store w), writers := []\<rparr>"
  have "compare_and_swap_tenant (rec\<lparr>lifecycle := Verifying, updated_at := clock w (tick w)\<rparr>) (rec_version rec)
      (f (store w)) = (Inl ControlStoreConcurrencyError, f (store w))"
    by (rule mem.refuse) (use assms in simp)
  then have "swap_and_audit rec id Verifying DISTINCTNESS_VERIFICATION_STARTED actor cid w
      = (Inl ControlStoreConcurrencyError, ?w1)"
    using assms(1) by (simp add: swap_and_audit_def now_iso_def world_cas_def env_step_def Let_def)
  then have "gate_verify P G tid actor cid w
      = (Inr (mk_outcome VERIFICATION_INCOMPLETE REASON_CONCURRENT_LIFECYCLE_WINNER), ?w1)"
    using assms(2-7)
    by (simp add: gate_verify_def gate_require_def world_get_def gate_enter_def gate_transition_def)
  then show ?thesis by (intro exI[of _ ?w1]) simp
qed

definition quarantined_meanwhile :: "control_store \<Rightarrow> control_store" where
  "quarantined_meanwhile s = put_tenant ((sample_record Quarantined)\<lparr>rec_version := 4\<rparr>) s"

theorem gate_yields_to_winner_witness:
  "\<exists>w' :: mem_ext cp_world. gate_verify (mem_ports ''k'') mem_gate ''acme'' ''op'' ''c''
        ((sample_world Provisioning)\<lparr>writers := [quarantined_meanwhile]\<rparr>)
      = (Inr (mk_outcome VERIFICATION_INCOMPLETE REASON_CONCURRENT_LIFECYCLE_WINNER), w')
    \<and> store w' = quarantined_meanwhile (store (sample_world Provisioning)) \<and> ledger w' = []"
  using gate_yields_to_winner[of "(sample_world Provisioning)\<lparr>writers := [quarantined_meanwhile]\<rparr>"
      quarantined_meanwhile "''acme''" "sample_record Provisioning"
      "(sample_record Quarantined)\<lparr>rec_version := 4\<rparr>" "mem_ports ''k''" mem_gate "''op''" "''c''"]
  by (simp add: quarantined_meanwhile_def)

text \<open>C13: The failure path drops the evidence before its compare-and-swap, so a verifier that fails
after another verifier of the same tenant has committed loses the swap but still erases the
winner's evidence: the tenant stays Ready with no evidence in the ledger.\<close>

theorem late_failure_erases_evidence:
  assumes "get_tenant (store w) tid = Some q" and "lifecycle q = Ready" and "writers w = []"
    and "tenant_id rec = tid" and "rec_version q \<noteq> rec_version rec"
  shows "\<exists>w'. gate_fail rec result why event actor cid anomaly w
      = (Inl (ProvisioningError ''concurrent lifecycle transition''), w')
    \<and> get_tenant (store w') tid = Some q \<and> dict_get (ledger w') tid = None"
proof -
  let ?w1 = "w\<lparr>ledger := ledger_remove tid (ledger w)\<rparr>"
  let ?w2 = "?w1\<lparr>tick := Suc (tick w)\<rparr>"
  have cas: "compare_and_swap_tenant (rec\<lparr>lifecycle := st, updated_at := ts\<rparr>) (rec_version rec) (store w)
      = (Inl ControlStoreConcurrencyError, store w)" for st ts
    by (rule mem.refuse) (use assms in simp)
  have swap: "gate_transition rec st event actor cid ?w1 = (Inl ControlStoreConcurrencyError, ?w2)" for st
    using cas assms(3)
    by (simp add: gate_transition_def swap_and_audit_def now_iso_def world_cas_def env_step_def Let_def)
  have "gate_fail rec result why event actor cid anomaly w
      = (Inl (ProvisioningError ''concurrent lifecycle transition''), ?w2)"
    using swap assms(4) by (simp add: gate_fail_def ledger_drop_def conflict_to_provisioning_def)
  then show ?thesis using assms(1) by (intro exI[of _ ?w2]) (simp add: ledger_remove_def)
qed

theorem late_failure_erases_evidence_witness:
  "\<exists>w' :: mem_ext cp_world. gate_fail ((sample_record Verifying)\<lparr>rec_version := 2\<rparr>) VERIFICATION_INCOMPLETE ''x''
        EV_VERIFICATION_INCOMPLETE ''op'' ''c'' False
        ((sample_world Ready)\<lparr>ledger := [(''acme'', mem_row ''acme'' ''k'')]\<rparr>)
      = (Inl (ProvisioningError ''concurrent lifecycle transition''), w')
    \<and> get_tenant (store w') ''acme'' = Some (sample_record Ready) \<and> dict_get (ledger w') ''acme'' = None"
  by (rule late_failure_erases_evidence) simp_all

section \<open>Onboarding\<close>

text \<open>C14: With the in-memory providers of the default composition, onboarding an admissible tenant
that is not registered succeeds, whatever tenants were onboarded before: the verdict is VERIFIED,
the tenant is stored Ready, its evidence is added to the ledger, and the audit trail grows by the
whole onboarding sequence in order.\<close>

theorem onboarding_succeeds:
  assumes "admissible tid" and "token \<noteq> []" and "mem_ledger_rows token (ledger w)"
    and "sane w" and "writers w = []" and "get_tenant (store w) tid = None"
  shows "\<exists>w'. onboard (mem_ports token) mem_gate tid org fed ''1'' actor cid w
        = (Inr (mk_outcome VERIFIED REASON_VERIFIED), w')
    \<and> rests tid Ready (trail w @ onboarding_trail) w'
    \<and> ledger w' = dict_put tid (mem_row tid token) (ledger w)"
proof -
  obtain r w' where run: "onboard (mem_ports token) mem_gate tid org fed ''1'' actor cid w = (r, w')"
    by (cases "onboard (mem_ports token) mem_gate tid org fed ''1'' actor cid w")
  have "calm tid None (trail w) w" using assms(4-6) by (simp add: calm_def)
  from onboard_held[OF assms(1-3) this refl run] obtain v p where
    v: "r = Inr v" "v = mk_outcome VERIFIED REASON_VERIFIED"
    and p: "held_at p (trail w @ onboarding_trail) (dict_put tid (mem_row tid token) (ledger w)) w'"
      "tenant_id p = tid" "lifecycle p = Ready" by (elim exE conjE)
  have "rests tid Ready (trail w @ onboarding_trail) w'"
    unfolding rests_def using p by (intro exI[of _ p]) (simp add: held_at_def)
  then show ?thesis using run v p(1) by (intro exI[of _ w']) (simp add: held_at_def)
qed

theorem onboarding_succeeds_witness:
  "\<exists>w' :: mem_ext cp_world. onboard (mem_ports ''k'') mem_gate ''acme'' ''org'' ''fed'' ''1'' ''op'' ''c'' (mem_world mem_ext_init)
      = (Inr (mk_outcome VERIFIED REASON_VERIFIED), w')
    \<and> rests ''acme'' Ready (trail (mem_world mem_ext_init :: mem_ext cp_world) @ onboarding_trail) w'
    \<and> ledger w' = dict_put ''acme'' (mem_row ''acme'' ''k'') (ledger (mem_world mem_ext_init :: mem_ext cp_world))"
  by (rule onboarding_succeeds[OF acme_admissible])
    (simp_all add: mem_ledger_rows_def mem_world_def[of mem_ext_init, THEN arg_cong[where f = ledger]]
      mem_world_def[of mem_ext_init, THEN arg_cong[where f = writers]]
      mem_world_def[of mem_ext_init, THEN arg_cong[where f = store]])

text \<open>An onboarding that reports a routable outcome leaves the tenant stored as Ready, whichever
path it took: fresh, resumed, or already onboarded.\<close>

theorem onboarding_routable_is_ready:
  assumes "ports_lawful P" and "sane w" and "onboard P G tid org fed sv actor cid w = (Inr v, w')"
    and "routable v"
  shows "\<exists>r. get_tenant (store w') tid = Some r \<and> lifecycle r = Ready"
  using tripleD[OF onboard_post[OF assms(1)] assms(2,3)] assms(4) by simp

theorem onboarding_routable_is_ready_witness:
  "\<exists>w' :: mem_ext cp_world. \<exists>r. get_tenant (store w') ''acme'' = Some r \<and> lifecycle r = Ready"
proof -
  have run: "onboard (mem_ports ''k'') mem_gate ''acme'' ''org'' ''fed'' ''1'' ''op'' ''c'' (sample_world Ready)
      = (Inr (mk_outcome VERIFIED ''already_onboarded''), sample_world Ready)"
    by (simp add: onboard_def get_tenant_status_def world_get_def)
  have "routable (mk_outcome VERIFIED ''already_onboarded'')" by (simp add: routable_def mk_outcome_def)
  from onboarding_routable_is_ready[OF ports_quiet_lawful[OF ports_quiet_mem] sample_sane run this]
  show ?thesis by (rule exI[of _ "sample_world Ready"])
qed

text \<open>Onboarding a tenant that is past provisioning changes nothing and consults no provider: it
answers already_onboarded for Ready and the state's own refusal otherwise.\<close>

theorem onboarding_settled_tenant_untouched:
  assumes "get_tenant (store w) tid = Some rec" and "lifecycle rec \<notin> {Registered, Provisioning}"
  shows "onboard P G tid org fed sv actor cid w = (Inr (mk_outcome
      (if lifecycle rec = Ready then VERIFIED else VERIFICATION_INCOMPLETE)
      (terminal_onboard_reason (lifecycle rec))), w)"
  using assms
  by (simp add: onboard_def get_tenant_status_def world_get_def terminal_onboard_reason_def)

theorem onboarding_settled_tenant_untouched_witness:
  "onboard (mem_ports ''k'') mem_gate ''acme'' ''org'' ''fed'' ''1'' ''op'' ''c'' (sample_world Quarantined)
    = (Inr (mk_outcome VERIFICATION_INCOMPLETE ''quarantined''), sample_world Quarantined)"
  using onboarding_settled_tenant_untouched[of "sample_world Quarantined" "''acme''" "sample_record Quarantined"
      "mem_ports ''k''" mem_gate "''org''" "''fed''" "''1''" "''op''" "''c''"]
  by (simp add: terminal_onboard_reason_def)

text \<open>Recovering a failed tenant whose audit history holds an isolation anomaly never verifies it:
no provider is consulted, the tenant ends Quarantined and the attempt gets its start and terminal
records.\<close>

theorem recovery_holds_anomalous_tenant:
  assumes "at rec T w" and "tenant_id rec = tid" and "lifecycle rec = Failed"
    and "anomaly_history tid (audit_log (store w))"
  shows "\<exists>w'. recover P G tid actor cid w = (Inr (mk_outcome ISOLATION_ANOMALY ''anomaly_history''), w')
    \<and> rests tid Quarantined
        (T @ [ONBOARDING_RECOVERY_STARTED, ''QuarantineTenant'', TENANT_QUARANTINED, ONBOARDING_RECOVERY_FAILED]) w'"
proof -
  obtain w1 where w1: "audit_event tid ONBOARDING_RECOVERY_STARTED actor cid w = (Inr (), w1)"
    and log: "\<exists>a. store w1 = append_audit a (store w)"
    by (simp add: audit_event_def audit_record_def now_iso_def Let_def) blast
  from tripleD[OF audit_event_at assms(1) w1] have at1: "at rec (T @ [ONBOARDING_RECOVERY_STARTED]) w1" by simp
  have hist: "anomaly_history tid (list_audit (store w1))"
    using assms(4) log by (auto simp: anomaly_history_def list_audit_def)
  let ?rest = "andthen (swap_and_audit rec id Quarantined ''QuarantineTenant'' actor cid)
       (andthen (audit_event tid TENANT_QUARANTINED actor cid)
       (andthen (audit_event tid ONBOARDING_RECOVERY_FAILED actor cid)
       (ret (mk_outcome ISOLATION_ANOMALY ''anomaly_history''))))"
  have rest: "triple (\<lambda>_ _. True) (at rec (T @ [ONBOARDING_RECOVERY_STARTED])) ?rest
      (\<lambda>v w. v = mk_outcome ISOLATION_ANOMALY ''anomaly_history'' \<and> rests tid Quarantined
        (T @ [ONBOARDING_RECOVERY_STARTED, ''QuarantineTenant'', TENANT_QUARANTINED, ONBOARDING_RECOVERY_FAILED]) w) nofail"
    unfolding gate_transition_def[symmetric] assms(2)[symmetric]
    by (rule any.triple_andthen[OF transition_rests], rule any.triple_andthen[OF event_rests],
        rule any.triple_andthen[OF event_rests], rule any.triple_ret) simp
  obtain q w' where q: "?rest w1 = (q, w')" by (cases "?rest w1")
  note post = tripleD[OF rest at1 q]
  have "recover P G tid actor cid w = (q, w')"
    using q w1 hist at1 assms(1-3)
    by (simp add: recover_def get_tenant_status_def world_get_def at_def quarantine_tenant_def
        registry_transition_def phase_4_states_def)
  with post show ?thesis by (cases q) (intro exI[of _ w'], simp_all)
qed

theorem recovery_holds_anomalous_tenant_witness:
  "\<exists>w' :: mem_ext cp_world. rests ''acme'' Quarantined
     [EV_ISOLATION_ANOMALY, ONBOARDING_RECOVERY_STARTED, ''QuarantineTenant'', TENANT_QUARANTINED, ONBOARDING_RECOVERY_FAILED] w'"
proof -
  let ?a = "\<lparr>aud_actor = ''op'', aud_tenant_id = Some ''acme'', aud_action = EV_ISOLATION_ANOMALY,
     aud_from_state = None, aud_to_state = None, aud_timestamp = ''t'', aud_correlation_id = ''c''\<rparr>"
  let ?w = "(sample_world Failed)\<lparr>store := append_audit ?a (store (sample_world Failed))\<rparr>"
  have "at (sample_record Failed) ([] @ [EV_ISOLATION_ANOMALY]) ?w"
    by (rule at_frame[OF sample_at, where a = ?a]) simp_all
  from recovery_holds_anomalous_tenant[OF this, of "''acme''" "mem_ports ''k''" mem_gate "''op''" "''c''"]
  show ?thesis by (auto simp: anomaly_history_def)
qed

section \<open>Registry and store\<close>

text \<open>Registration admits exactly the well-formed, unreserved identifiers. A refused identifier
changes nothing; a known tenant is returned unchanged; a new one is stored as Registered with
version 0 beside the untouched others.\<close>

theorem registration_outcome:
  "case register_tenant tid org sv assoc fed actor cid w of (r, w') \<Rightarrow>
     if \<not> admissible tid then (\<exists>why. r = Inl (InvalidTenantId tid why)) \<and> w' = w
     else case get_tenant (store w) tid of
         Some rec \<Rightarrow> r = Inr rec \<and> w' = w
       | None \<Rightarrow> \<exists>rec. r = Inr rec \<and> tenant_id rec = tid \<and> lifecycle rec = Registered \<and> rec_version rec = 0
           \<and> database_association_ref rec = assoc
           \<and> get_tenant (store w') = (get_tenant (store w))(tid \<mapsto> rec)
           \<and> trail w' = trail w @ [''RegisterTenant''] \<and> ledger w' = ledger w"
  by (auto simp: register_tenant_def admissible_def world_get_def now_iso_def audit_record_def world_put_def
      trail_def Let_def fun_eq_iff split: option.splits)

text \<open>Undisturbed, a registry transition succeeds exactly from its allowed states: it stores the
new state under the next version with one audit record of the change, answers a tenant already in
the target state without any effect, and refuses everything else without any effect.\<close>

theorem registry_transition_outcome:
  assumes "at rec T w" and "tenant_id rec = tid" and "to_state \<notin> {Verifying, Ready, Failed}"
  shows "case registry_transition tid to_state allowed action actor cid w of (r, w') \<Rightarrow>
     if lifecycle rec = to_state then r = Inr rec \<and> w' = w
     else if lifecycle rec \<notin> set allowed then r = Inl (RegistryError ''illegal lifecycle transition'') \<and> w' = w
     else \<exists>p. r = Inr p \<and> at p (T @ [action]) w' \<and> lifecycle p = to_state \<and> tenant_id p = tid
        \<and> rec_version p = rec_version rec + 1"
proof -
  have get: "world_get tid w = (Inr (Some rec), w)" using assms(1,2) by (simp add: at_def world_get_def)
  have ph: "to_state \<notin> set phase_4_states" using assms(3) by (simp add: phase_4_states_def)
  obtain q w' where swap: "swap_and_audit rec id to_state action actor cid w = (q, w')"
    by (cases "swap_and_audit rec id to_state action actor cid w")
  have t: "triple (\<lambda>_ _. True) (at rec T) (swap_and_audit rec id to_state action actor cid)
      (\<lambda>p w. at p (T @ [action]) w \<and> lifecycle p = to_state \<and> tenant_id p = tenant_id rec
         \<and> rec_version p = rec_version rec + 1) nofail"
    by (rule swap_and_audit_at) simp_all
  from tripleD[OF t assms(1) swap] show ?thesis
    using get ph swap assms(2) by (cases q) (simp_all add: registry_transition_def)
qed

theorem registry_transition_outcome_witness:
  "case registry_transition ''acme'' Suspended [Ready] ''SuspendTenant'' ''op'' ''c'' (sample_world Failed) of
     (r, w') \<Rightarrow> r = Inl (RegistryError ''illegal lifecycle transition'') \<and> w' = sample_world Failed"
  using registry_transition_outcome[OF sample_at[of Failed], of "''acme''" Suspended "[Ready]" "''SuspendTenant''" "''op''" "''c''"]
  by simp

text \<open>No update is lost: when a compare-and-swap succeeds, the stored record is the written one
under the next version, and every later swap of that tenant against the old version is refused
and leaves the store as it is.\<close>

theorem no_lost_update:
  assumes "compare_and_swap_tenant u v s = (Inr p, s')" and "tenant_id u' = tenant_id u"
  shows "get_tenant s' (tenant_id u) = Some p \<and> rec_version p = v + 1
    \<and> compare_and_swap_tenant u' v s' = (Inl ControlStoreConcurrencyError, s')"
  using mem.winner_stored[OF assms(1)] mem.second_writer_refused[OF assms] by blast

theorem no_lost_update_witness:
  "compare_and_swap_tenant (sample_record Suspended) 3
     (snd (compare_and_swap_tenant (sample_record Quarantined) 3 (put_tenant (sample_record Ready) (empty_store 1 True))))
   = (Inl ControlStoreConcurrencyError,
      snd (compare_and_swap_tenant (sample_record Quarantined) 3 (put_tenant (sample_record Ready) (empty_store 1 True))))"
proof -
  let ?s = "put_tenant (sample_record Ready) (empty_store 1 True)"
  obtain p s' where c: "compare_and_swap_tenant (sample_record Quarantined) 3 ?s = (Inr p, s')"
    using cas_hit[of ?s "sample_record Quarantined" "sample_record Ready" 3] by simp
  from no_lost_update[OF this, of "sample_record Suspended"] show ?thesis by (simp add: c)
qed

text \<open>Two tenants cannot both record evidence of one physical database: the second write is
refused without effect.\<close>

theorem ledger_race_has_one_winner:
  assumes "one_holder l" and "record_evidence t1 e1 l = (Inr (), l1)" and "t1 \<noteq> t2"
    and "fingerprint e1 = fingerprint e2"
  shows "record_evidence t2 e2 l1 = (Inl DistinctnessCollisionError, l1)"
  by (rule mem_ledger.race_has_one_winner[OF assms])

theorem ledger_race_has_one_winner_witness:
  "record_evidence ''b'' (mem_row ''a'' ''x'') [(''a'', mem_row ''a'' ''k'')]
    = (Inl DistinctnessCollisionError, [(''a'', mem_row ''a'' ''k'')])"
  by (rule ledger_race_has_one_winner[of "[]" "''a''" "mem_row ''a'' ''k''"])
    (simp_all add: one_holder_def record_evidence_def dict_put_def mem_row_def fingerprint_def)

text \<open>The distinctness decision accepts exactly the evidence that is complete, sentinel-proven,
observed at the intended target, and shares no identity with the Control database or with another
tenant of the inventory.\<close>

theorem distinctness_decision:
  "out_result (verify_distinct tid cand target control_db inventory) = VERIFIED \<longleftrightarrow>
     (\<exists>e. cand = Some e \<and> system_identifier e \<noteq> [] \<and> database_identity e \<noteq> []
        \<and> sentinel_written e \<and> truthy_opt (sentinel_token e) \<and> observed_target e = target
        \<and> \<not> collides_control e control_db
        \<and> \<not> (\<exists>t x. (t, x) \<in> set inventory \<and> t \<noteq> tid \<and> collides_tenant e x))"
  unfolding verify_distinct_verified inventory_collision_iff ..

section \<open>The control plane as a whole\<close>



section \<open>Recovery\<close>


definition guarded_operator :: "string \<Rightarrow> (mem_ext, unit) cp" where
  "guarded_operator tgt w = (if (\<exists>r. get_tenant (store w) ''acme'' = Some r \<and> lifecycle r = Ready)
     then raise (PortError ''unsafe'') w else ret () w)"


text \<open>An undisturbed deprovisioning records the request and then exactly one terminal record, also
when a provider raises. A refusal for an isolation reason holds a Provisioning or Failed tenant in
quarantine; otherwise the tenant's record is untouched.\<close>

theorem deprovision_one_terminal:
  assumes "ports_quiet P" and "sane w" and "writers w = []"
    and "deprovision_tenant_database P supported tid actor cid w = (r, w')"
  shows "case r of
      Inr res \<Rightarrow> settled tid (get_tenant (store w) tid) (trail w @ [TENANT_DEPROVISION_REQUESTED]) res w'
    | Inl e \<Rightarrow> get_tenant (store w') tid = get_tenant (store w) tid
        \<and> trail w' = trail w @ [TENANT_DEPROVISION_REQUESTED, TENANT_DEPROVISION_FAILED]"
proof -
  have "calm tid (get_tenant (store w) tid) (trail w) w" using assms(2,3) by (simp add: calm_def)
  from deprovision_settled[OF assms(1) this assms(4)] show ?thesis .
qed

theorem deprovision_one_terminal_witness:
  "case deprovision_tenant_database (mem_ports ''k'') [''1''] ''none'' ''op'' ''c'' (sample_world Ready) of (r, w') \<Rightarrow>
     (case r of Inr res \<Rightarrow> settled ''none'' None [TENANT_DEPROVISION_REQUESTED] res w'
      | Inl e \<Rightarrow> trail w' = [TENANT_DEPROVISION_REQUESTED, TENANT_DEPROVISION_FAILED])"
proof -
  obtain r w' where run: "deprovision_tenant_database (mem_ports ''k'') [''1''] ''none'' ''op'' ''c'' (sample_world Ready) = (r, w')"
    by (cases "deprovision_tenant_database (mem_ports ''k'') [''1''] ''none'' ''op'' ''c'' (sample_world Ready)")
  have w: "writers (sample_world Ready) = []" "trail (sample_world Ready) = []"
    "get_tenant (store (sample_world Ready)) ''none'' = None"
    using sample_at[of Ready] by (simp_all add: at_def)
  from deprovision_one_terminal[OF ports_quiet_mem sample_sane w(1) run] run show ?thesis
    by (simp add: w(2,3) del: sample_world_parts split: sum.splits)
qed

text \<open>The orphan scan and the operation agree: for a registered tenant whose database exists, the
scan marks the database safe to deprovision exactly when an immediately following deprovisioning
drops it.\<close>

theorem scan_agrees_with_operation:
  assumes "reading_ports P insp cname tid" and "tid \<noteq> []" and "sane w"
    and "get_tenant (store w) tid = Some r" and "[] \<notin> fst ` set (ledger w)"
    and "cname (ext w) = Some cn"
    and "classify_database P supported (evidence_excluding [] (ledger w)) cn (tenant_database_name tid) w
      = (Inr entry, w')"
  shows "oe_safe entry \<longleftrightarrow>
    (\<exists>res w'. deprovision_tenant_database P supported tid actor cid w = (Inr res, w') \<and> dropped res)"
  by (rule scan_decision_agrees[OF assms])

definition probe_ports :: "mem_ext cp_ports" where
  "probe_ports = (mem_ports ''k'')\<lparr>p_inspect := (\<lambda>_. ext_reads (\<lambda>_. Some (empty_inspection ''sp2_tenant_acme''))),
     p_database_exists := (\<lambda>_. ext_reads (\<lambda>_. Some True)), p_control_name := ext_reads (\<lambda>_. Some ''sp2_control'')\<rparr>"

theorem scan_agrees_with_operation_witness:
  "\<exists>entry w'. classify_database probe_ports [''1''] [] ''sp2_control'' ''sp2_tenant_acme'' (sample_world Failed)
      = (Inr entry, w')
    \<and> (oe_safe entry \<longleftrightarrow> (\<exists>res w'. deprovision_tenant_database probe_ports [''1''] ''acme'' ''op'' ''c''
          (sample_world Failed) = (Inr res, w') \<and> dropped res))"
proof -
  have name: "tenant_database_name ''acme'' = ''sp2_tenant_acme''"
    by (simp add: tenant_database_name_def DEFAULT_TENANT_DB_PREFIX_def)
  have ports: "reading_ports probe_ports (\<lambda>_. Some (empty_inspection ''sp2_tenant_acme'')) (\<lambda>_. Some ''sp2_control'') ''acme''"
    by (simp add: reading_ports_def probe_ports_def mem_ports_def mem_deprovision_def ext_writes_def)
  have run: "classify_database probe_ports [''1''] (evidence_excluding [] (ledger (sample_world Failed))) ''sp2_control''
      (tenant_database_name ''acme'') (sample_world Failed)
    = (Inr (inspected_entry [''1''] [] ''sp2_control'' ''sp2_tenant_acme'' (Some (sample_record Failed))
         (empty_inspection ''sp2_tenant_acme'')), sample_world Failed)"
    by (simp add: classify_database_def probe_ports_def name starts_with_def DEFAULT_TENANT_DB_PREFIX_def
        world_get_def ext_reads_def evidence_excluding_def Let_def)
  have "get_tenant (store (sample_world Failed)) ''acme'' = Some (sample_record Failed)" by simp
  note agree = scan_agrees_with_operation[OF ports _ sample_sane this _ _ run, of "''op''" "''c''"]
  show ?thesis
    by (intro exI[of _ "inspected_entry [''1''] [] ''sp2_control'' ''sp2_tenant_acme'' (Some (sample_record Failed))
         (empty_inspection ''sp2_tenant_acme'')"] exI[of _ "sample_world Failed"] conjI agree)
      (use run in \<open>simp_all add: name evidence_excluding_def\<close>)
qed

text \<open>The content census never takes data for bootstrap: a database it does not call non-empty
holds only bootstrap tables, and every table of it outside the sentinel, the seed agent and the
schema version is empty.\<close>

theorem census_keeps_data:
  "classify_content i supported \<noteq> CONTENT_NON_EMPTY \<longleftrightarrow>
     (\<forall>(name, n) \<in> set (user_tables i). name \<in> set BOOTSTRAP_TABLE_SET
        \<and> (name = ''public.agents'' \<longrightarrow> n = 1 \<and> agents_total i = 1 \<and> agents_system_primary i = 1)
        \<and> (name = ''public.schema_version'' \<longrightarrow> n \<ge> 0 \<and> schema_versions i \<noteq> []
             \<and> set (schema_versions i) \<subseteq> set supported)
        \<and> (name \<notin> {''dv_sentinel.marker'', ''public.agents'', ''public.schema_version''} \<longrightarrow> n = 0))"
proof -
  have rule_iff: "\<not> table_rule_fails i supported name n \<longleftrightarrow>
      (name = ''public.agents'' \<longrightarrow> n = 1 \<and> agents_total i = 1 \<and> agents_system_primary i = 1)
      \<and> (name = ''public.schema_version'' \<longrightarrow> n \<ge> 0 \<and> schema_versions i \<noteq> []
           \<and> set (schema_versions i) \<subseteq> set supported)
      \<and> (name \<notin> {''dv_sentinel.marker'', ''public.agents'', ''public.schema_version''} \<longrightarrow> n = 0)" for name n
    by (auto simp: table_rule_fails_def list_ex_iff)
  show ?thesis
    unfolding rule_iff[symmetric]
    by (cases "user_tables i = []") (auto simp: classify_content_def Let_def list_all_iff list_ex_iff)
qed

theorem census_keeps_data_witness:
  "classify_content ((empty_inspection ''sp2_tenant_acme'')\<lparr>user_tables := [(''public.lineage'', 3)]\<rparr>) [''1'']
     = CONTENT_NON_EMPTY"
  using census_keeps_data[of "(empty_inspection ''sp2_tenant_acme'')\<lparr>user_tables := [(''public.lineage'', 3)]\<rparr>" "[''1'']"]
  by (simp add: empty_inspection_def)

section \<open>The lifecycle service\<close>

text \<open>The dormant lifecycle service reads the record again after its probe and swaps against the
fresh version, so a quarantine committed while the probe ran is overwritten: verification still
ends in Ready.\<close>

theorem lifecycle_verify_overwrites_quarantine:
  assumes "at rec T w" and "tenant_id rec = tid"
    and "lifecycle rec \<notin> {Decommissioned, Suspended, Quarantined}"
    and "\<And>v. p_probe P (database_association_ref rec) v = (Inr res, f v)"
    and "\<And>p v. at p (T @ [''VerifyTenant'']) v \<Longrightarrow> tenant_id p = tid \<Longrightarrow> lifecycle p = Verifying
       \<Longrightarrow> rests tid Quarantined T2 (f v)"
    and "reachable res" and "observed_schema_version res = Some (expected_schema_version rec)"
    and "expected_schema_version rec \<in> set supported"
  shows "\<exists>p w'. lifecycle_verify P supported tid actor cid w = (Inr p, w')
    \<and> rests tid Ready (T2 @ [''VerifyTenant:ready'']) w'"
proof -
  from lifecycle_set_quiet_run[OF assms(1), of Verifying actor cid "''VerifyTenant''"] obtain p1 w1 where
    p1: "lifecycle_set rec Verifying actor cid ''VerifyTenant'' w = (Inr p1, w1)"
    "at p1 (T @ [''VerifyTenant'']) w1" "lifecycle p1 = Verifying" "tenant_id p1 = tid"
    unfolding assms(2) by (elim exE conjE)
  from assms(5)[OF p1(2,4,3)] obtain q where q: "at q T2 (f w1)" "tenant_id q = tid"
    unfolding rests_def by (elim exE conjE)
  from lifecycle_set_quiet_run[OF q(1), of Ready actor cid "''VerifyTenant:ready''"] obtain p2 w2 where
    p2: "lifecycle_set q Ready actor cid ''VerifyTenant:ready'' (f w1) = (Inr p2, w2)"
    "at p2 (T2 @ [''VerifyTenant:ready'']) w2" "lifecycle p2 = Ready" "tenant_id p2 = tid"
    unfolding q(2) by (elim exE conjE)
  have req: "lifecycle_require tid w = (Inr rec, w)" "lifecycle_require tid (f w1) = (Inr q, f w1)"
    using assms(1,2) q by (simp_all add: lifecycle_require_def world_get_def at_def)
  have "lifecycle_verify P supported tid actor cid w = (Inr p2, w2)"
    using req assms(3,4,6-8) p1(1) p2(1) by (simp add: lifecycle_verify_def)
  moreover have "rests tid Ready (T2 @ [''VerifyTenant:ready'']) w2"
    unfolding rests_def using p2 by (intro exI[of _ p2] conjI)
  ultimately show ?thesis by (intro exI[of _ p2] exI[of _ w2] conjI)
qed

text \<open>A sibling gate that quarantines the tenant while the probe runs.\<close>

definition sibling_quarantines :: "mem_ext cp_world \<Rightarrow> mem_ext cp_world" where
  "sibling_quarantines v = (case get_tenant (store v) ''acme'' of None \<Rightarrow> v
     | Some p \<Rightarrow> snd (gate_fail p ISOLATION_ANOMALY REASON_TENANT_COLLISION DISTINCTNESS_VERIFICATION_FAILED
                       ''sibling'' ''c2'' True v))"

theorem lifecycle_verify_overwrites_quarantine_witness:
  "\<exists>p w'. lifecycle_verify ((mem_ports ''k'')\<lparr>p_probe := (\<lambda>_ v. (Inr \<lparr>reachable = True, observed_schema_version = Some ''1''\<rparr>,
        sibling_quarantines v))\<rparr>) [''1''] ''acme'' ''op'' ''c'' (sample_world Failed) = (Inr p, w')
    \<and> rests ''acme'' Ready (([] @ [''VerifyTenant''] @ verdict_trail ISOLATION_ANOMALY) @ [''VerifyTenant:ready'']) w'"
proof (rule lifecycle_verify_overwrites_quarantine[OF sample_at,
      where res = "\<lparr>reachable = True, observed_schema_version = Some ''1''\<rparr>"])
  fix p :: tenant_record and v :: "mem_ext cp_world"
  assume at: "at p ([] @ [''VerifyTenant'']) v" and id: "tenant_id p = ''acme''"
  let ?m = "gate_fail p ISOLATION_ANOMALY REASON_TENANT_COLLISION DISTINCTNESS_VERIFICATION_FAILED ''sibling'' ''c2'' True"
  obtain r v' where run: "?m v = (r, v')" by (cases "?m v")
  have "triple (\<lambda>_ _. True) (at p ([] @ [''VerifyTenant''])) ?m
      (\<lambda>o1 w. o1 = mk_outcome ISOLATION_ANOMALY REASON_TENANT_COLLISION
         \<and> concluded (tenant_id p) ([] @ [''VerifyTenant'']) ISOLATION_ANOMALY w) nofail"
    by (rule gate_fail_concluded) simp_all
  from tripleD[OF this at run] have "concluded ''acme'' [''VerifyTenant''] ISOLATION_ANOMALY v'"
    by (cases r) (simp_all add: id)
  moreover have "sibling_quarantines v = v'"
    using at run by (simp add: sibling_quarantines_def at_def id)
  ultimately show "rests ''acme'' Quarantined ([] @ [''VerifyTenant''] @ verdict_trail ISOLATION_ANOMALY) (sibling_quarantines v)"
    by (simp add: concluded_def verdict_state_def)
qed simp_all

section \<open>Reads and secrets\<close>

text \<open>C16: Paging through a directory from the start and following next_cursor returns every record
exactly once, in identifier order, for every page size, within one request per record plus one.\<close>

theorem paging_is_complete:
  assumes "dir_alias a = Some k"
  shows "follow_pages (Suc (length (list_directory s k))) s a [] limit
     = Some (map read_directory_view (sort_key record_id (list_directory s k)))"
  by (rule follow_all[OF assms]) simp

theorem paging_is_complete_witness:
  "follow_pages (Suc (length (list_directory (empty_store 1 True) STARTUP))) (empty_store 1 True) ''startup'' [] 5
     = Some (map read_directory_view (sort_key record_id (list_directory (empty_store 1 True) STARTUP)))"
  by (rule paging_is_complete) (simp add: dir_alias_def)

text \<open>A directory page request raises exactly for a known directory and a cursor that isdigit
accepts but int refuses: one made of digits with at least one superscript digit.\<close>

theorem directory_page_raises:
  "(\<exists>e. directory_page s a cursor limit = Inl e) \<longleftrightarrow>
     dir_alias a \<noteq> None \<and> py_isdigit cursor \<and> \<not> list_all is_digit cursor"
  using py_int_isdigit[of cursor]
  by (auto simp: directory_page_def Let_def split: option.splits if_splits)

text \<open>The membership enumeration of a principal lists each of its tenants exactly once, in order,
with the least role value among the principal's records for that tenant.\<close>

theorem memberships_enumeration:
  "sorted (map fst (memberships_for_principal s p)) \<and> distinct (map fst (memberships_for_principal s p))
   \<and> (\<forall>t. (\<exists>v. (t, v) \<in> set (memberships_for_principal s p)) \<longleftrightarrow>
        (\<exists>m \<in> set (memberships s). mem_principal_ref m = p \<and> mem_tenant_id m = t))
   \<and> (\<forall>t v m. (t, v) \<in> set (memberships_for_principal s p) \<longrightarrow> m \<in> set (memberships s)
        \<longrightarrow> mem_principal_ref m = p \<longrightarrow> mem_tenant_id m = t \<longrightarrow> v \<le> role_value (mem_role m))"
proof -
  have mem: "(\<exists>v. (t, v) \<in> set (memberships_for_principal s p)) \<longleftrightarrow>
      (\<exists>m \<in> set (memberships s). mem_principal_ref m = p \<and> mem_tenant_id m = t)" for t
  proof -
    have "(\<exists>v. (t, v) \<in> set (memberships_for_principal s p)) \<longleftrightarrow> t \<in> fst ` set (memberships_for_principal s p)"
      by force
    then show ?thesis unfolding memberships_spec(3) by blast
  qed
  have least: "v \<le> role_value (mem_role m)"
    if "(t, v) \<in> set (memberships_for_principal s p)" "m \<in> set (memberships s)" "mem_principal_ref m = p"
      "mem_tenant_id m = t" for t v m
    using keep_first_role[OF sorted_sort_key, of t v "[]" "list_memberships s (Some p) None"] that
    by (simp add: memberships_for_principal_def list_memberships_def)
  show ?thesis
    by (intro conjI allI impI memberships_spec(1,2) mem least)
qed

theorem memberships_enumeration_witness:
  "(''b'', ''INVESTOR_USER'') \<notin> set (memberships_for_principal
     (put_membership \<lparr>mem_principal_ref = ''u'', mem_tenant_id = ''a'', mem_role = INVESTOR_USER\<rparr> (empty_store 1 True)) ''u'')"
proof -
  let ?s = "put_membership \<lparr>mem_principal_ref = ''u'', mem_tenant_id = ''a'', mem_role = INVESTOR_USER\<rparr> (empty_store 1 True)"
  note enum = memberships_enumeration[of ?s "''u''", THEN conjunct2, THEN conjunct2, THEN conjunct1]
  from enum have "\<not> (\<exists>v. (''b'', v) \<in> set (memberships_for_principal ?s ''u''))"
    by (simp add: put_membership_def empty_store_def)
  then show ?thesis by blast
qed

text \<open>Distinct admitted tenants never share a connection secret: for versions without an
underscore, the environment variable of a canonical reference determines the tenant and the
version.\<close>

theorem tenant_secrets_are_separate:
  assumes "admissible t" and "admissible t'" and "CHR ''_'' \<notin> set v" and "CHR ''_'' \<notin> set v'"
    and "env_key TENANT_SECRET_PREFIX (tenant_dsn_ref t) v = env_key TENANT_SECRET_PREFIX (tenant_dsn_ref t') v'"
  shows "t = t' \<and> v = v'"
  using assms by (intro tenant_env_key_inj) (simp_all add: admissible_def)

theorem tenant_secrets_are_separate_witness:
  "env_key TENANT_SECRET_PREFIX (tenant_dsn_ref ''acme'') ''1'' \<noteq> env_key TENANT_SECRET_PREFIX (tenant_dsn_ref ''acme'') ''2''"
  using tenant_secrets_are_separate[OF acme_admissible acme_admissible, of "''1''" "''2''"] by auto

text \<open>A canonical tenant reference parses back to its tenant, and nothing else parses: the
recovered identifier is non-empty, has no slash, and rebuilds the very reference.\<close>

theorem tenant_reference_roundtrip:
  "tenant_id_from_dsn_ref s = Some t \<longleftrightarrow> s = tenant_dsn_ref t \<and> t \<noteq> [] \<and> CHR ''/'' \<notin> set t"
  by (rule dsn_ref_inverse)

end
