(* ===== verification/CP_ComposeClaims.thy ===== *)
theory CP_ComposeClaims
  imports CP_Compose CP_Claims
begin

text \<open>
  What the settings of the control plane compose, what a plane of mixed posture can still do, and what a
  tenant made Ready behind the lazy gate has been compared with.
\<close>

section \<open>The decision of the composition\<close>

datatype plane_mode = ALL_MEMORY | DURABLE_STANDALONE | ALL_POSTGRES

definition live_values :: "env \<Rightarrow> string set" where
  "live_values env = selector_value env ` set LIVE_SELECTOR_ENVS"

text \<open>The control store must be unset or named; the three live selectors agree, and on PostgreSQL only with the store.\<close>

definition plane_mode :: "env \<Rightarrow> plane_mode option" where
  "plane_mode env =
     (if live_values env \<subseteq> {[], ''in_memory''} \<and> control_store_selector env = Inr ''in_memory'' then Some ALL_MEMORY
      else if live_values env \<subseteq> {[], ''in_memory''} \<and> control_store_selector env = Inr ''postgres'' then Some DURABLE_STANDALONE
      else if live_values env \<subseteq> {''postgres''} \<and> control_store_selector env = Inr ''postgres'' then Some ALL_POSTGRES
      else None)"

definition plane_of :: "env \<Rightarrow> plane_mode \<Rightarrow> control_plane_app" where
  "plane_of env m =
     (let control = control_store_secret_binding env; live = (m = ALL_POSTGRES);
          guard = (if m = DURABLE_STANDALONE then Some ''control store=postgres, provisioning operator=in_memory'' else None) in
      \<lparr>ap_store = (if m = ALL_MEMORY then MemoryStore else DurableStore control),
       ap_factory = (if m = ALL_MEMORY then SharedFactory MemoryStore else FreshFactory control),
       ap_ledger = (if live then DurableLedger control else MemoryLedger),
       ap_operator = (if live then PhysicalOperator admin_secret_binding else MemoryOperator),
       ap_gate = (if live then LazyGate control else MemoryGate),
       ap_applicator = (if live then PhysicalApplicator else MemoryApplicator),
       ap_inspection = (if live then PhysicalInspection admin_secret_binding control else MemoryInspection),
       ap_onboarding_guard = guard, ap_recovery_guard = guard\<rparr>)"

lemma live_values_all: "live_values env = {selector_value env PROVISIONING_ADAPTER_ENV,
    selector_value env TENANT_SCHEMA_APPLICATOR_ENV, selector_value env DISTINCTNESS_LEDGER_ENV}"
  by (auto simp: live_values_def LIVE_SELECTOR_ENVS_def)

text \<open>The two readings of the control-store selector agree except on a blank value.\<close>

lemma control_selector_value:
  "control_store_selector env = Inr k \<Longrightarrow> selector_value env CONTROL_STORE_ENV = k"
  by (auto simp: control_store_selector_def selector_value_def env_or_def Let_def to_lower_def to_lower_char_def strip_def
      is_space_def char_code_def is_lower_ascii_def split: option.splits if_splits)

lemma by_selector_eq:
  assumes "n \<in> set LIVE_SELECTOR_ENVS"
  shows "live_values env \<subseteq> {[], ''in_memory''} \<Longrightarrow> by_selector env n memory pg = Inr memory"
    and "live_values env \<subseteq> {''postgres''} \<Longrightarrow> by_selector env n memory pg = Inr pg"
proof -
  have "selector_value env n \<in> live_values env" using assms by (auto simp: live_values_def)
  then show "live_values env \<subseteq> {[], ''in_memory''} \<Longrightarrow> by_selector env n memory pg = Inr memory"
    and "live_values env \<subseteq> {''postgres''} \<Longrightarrow> by_selector env n memory pg = Inr pg"
    by (auto simp: by_selector_def Let_def)
qed

lemma coherence_eq:
  "check_selector_coherence env =
     (if ''postgres'' \<in> live_values env \<and> \<not> (live_values env \<subseteq> {''postgres''} \<and> selector_value env CONTROL_STORE_ENV = ''postgres'')
      then Inl ''ValueError'' else Inr ())"
  by (auto simp: check_selector_coherence_def live_values_all LIVE_SELECTOR_ENVS_def)

lemmas build_defs = build_store_def build_store_factory_def build_ledger_def build_provisioning_def build_schema_applicator_def
  build_recovery_inspection_def build_postgres_provisioning_def mixed_effective_posture_def store_durable_def live_postgres_def
  kind_name_def

lemma live_names: "PROVISIONING_ADAPTER_ENV \<in> set LIVE_SELECTOR_ENVS" "TENANT_SCHEMA_APPLICATOR_ENV \<in> set LIVE_SELECTOR_ENVS"
    "DISTINCTNESS_LEDGER_ENV \<in> set LIVE_SELECTOR_ENVS"
  by (simp_all add: LIVE_SELECTOR_ENVS_def)

lemma odd_refused:
  assumes "''postgres'' \<notin> live_values env" "\<not> live_values env \<subseteq> {[], ''in_memory''}"
  shows "build_ledger env = Inl ''ValueError'' \<or> build_provisioning env = Inl ''ValueError'' \<or> build_schema_applicator env = Inl ''ValueError''"
  using assms by (auto simp: live_values_all build_defs by_selector_def Let_def)

lemma composed_or_refused:
  "create_app env = Inl ''ValueError'' \<or> (\<exists>ledger both applicator. build_ledger env = Inr ledger
     \<and> build_provisioning env = Inr both \<and> build_schema_applicator env = Inr applicator)"
proof (cases "create_app env")
  case (Inl e)
  have "e = ''ValueError''"
    using Inl by (auto simp: create_app_def control_plane_def check_selector_coherence_def build_store_def build_store_factory_def
        control_store_selector_def build_ledger_def build_provisioning_def build_schema_applicator_def by_selector_def sbind_def Let_def
        split: sum.splits option.splits if_splits prod.splits)
  with Inl show ?thesis by simp
next
  case (Inr app)
  then show ?thesis by (auto simp: create_app_def control_plane_def sbind_Inr)
qed

text \<open>C27: The settings decide the composition as specified: the plane is all in memory, durable store alone, or all PostgreSQL,
with exactly these objects and secret references, and every other combination is refused; a blank control-store selector never
composes, and a half-live combination never composes.\<close>

theorem create_app_decides_by_mode:
  "create_app env = (case plane_mode env of None \<Rightarrow> Inl ''ValueError'' | Some m \<Rightarrow> Inr (plane_of env m))"
proof (cases "control_store_selector env")
  case (Inl x)
  then have "x = ''ValueError''" by (auto simp: control_store_selector_def Let_def split: option.splits if_splits)
  with Inl show ?thesis by (simp add: create_app_def control_plane_def coherence_eq build_store_def plane_mode_def)
next
  case (Inr k)
  note store = control_selector_value[OF Inr] and defs = create_app_def control_plane_def coherence_eq build_defs plane_mode_def Inr
  have some: "live_values env \<noteq> {}" by (simp add: live_values_all)
  consider (pg) "''postgres'' \<in> live_values env" | (mem) "''postgres'' \<notin> live_values env" "live_values env \<subseteq> {[], ''in_memory''}"
    | (odd) "''postgres'' \<notin> live_values env" "\<not> live_values env \<subseteq> {[], ''in_memory''}" by blast
  then show ?thesis
  proof cases
    case pg
    then have "\<not> live_values env \<subseteq> {[], ''in_memory''}" by auto
    moreover from pg some have "selector_value env PROVISIONING_ADAPTER_ENV = ''postgres''" if "live_values env \<subseteq> {''postgres''}"
      using that by (auto simp: live_values_all)
    ultimately show ?thesis
      using pg by (cases "live_values env \<subseteq> {''postgres''} \<and> k = ''postgres''")
        (auto simp: defs store by_selector_eq(2)[OF live_names(1)] by_selector_eq(2)[OF live_names(2)]
          by_selector_eq(2)[OF live_names(3)] plane_of_def Let_def)
  next
    case mem
    then have "\<not> live_values env \<subseteq> {''postgres''}" "selector_value env PROVISIONING_ADAPTER_ENV \<noteq> ''postgres''"
      using some by (auto simp: live_values_all)
    with mem show ?thesis
      by (cases "k = ''in_memory''"; cases "k = ''postgres''")
        (simp_all add: defs by_selector_eq(1)[OF live_names(1)] by_selector_eq(1)[OF live_names(2)]
          by_selector_eq(1)[OF live_names(3)] plane_of_def Let_def)
  next
    case odd
    then have "\<not> live_values env \<subseteq> {''postgres''}" using some by blast
    moreover have "create_app env = Inl ''ValueError''" using odd_refused[OF odd] composed_or_refused[of env] by auto
    ultimately show ?thesis using odd by (simp add: plane_mode_def)
  qed
qed

section \<open>A plane of mixed posture\<close>

text \<open>No concurrent writer, no provider state touched, no tenant newly Ready.\<close>

definition fewer_ready :: "'x cp_world \<Rightarrow> 'x cp_world \<Rightarrow> bool" where
  "fewer_ready w w' \<longleftrightarrow> (writers w = [] \<longrightarrow> writers w' = [] \<and> ext w' = ext w
     \<and> (\<forall>tid r'. get_tenant (store w') tid = Some r' \<longrightarrow> lifecycle r' = Ready
          \<longrightarrow> (\<exists>r. get_tenant (store w) tid = Some r \<and> lifecycle r = Ready)))"

interpretation fewer: effect fewer_ready
  by unfold_locales (auto simp: fewer_ready_def, metis)

lemma fewer_same: "\<lbrakk>writers w' = writers w; ext w' = ext w; get_tenant (store w') = get_tenant (store w)\<rbrakk> \<Longrightarrow> fewer_ready w w'"
  by (simp add: fewer_ready_def)

lemma fewer_now: "keeps fewer_ready now_iso"
  by (rule keepsI) (auto simp: now_iso_def intro: fewer_same)

lemma fewer_audit: "keeps fewer_ready (audit_record actor t action from_state to_state cid)"
  unfolding audit_record_def Let_def
  by (intro fewer.keeps_all fewer.keeps_writes fewer_now) (auto intro: fewer_same)

lemma fewer_event: "keeps fewer_ready (audit_event tid action actor cid)"
  unfolding audit_event_def by (intro fewer.keeps_all fewer_audit)

lemma fewer_get: "keeps fewer_ready (world_get tid)"
  unfolding world_get_def by (rule fewer.keeps_reads)

lemma fewer_cas:
  assumes "lifecycle u \<noteq> Ready" shows "keeps fewer_ready (world_cas u v)"
proof (rule keepsI)
  fix w :: "'x cp_world"
  show "fewer_ready w (snd (world_cas u v w))"
    using assms by (auto simp: fewer_ready_def world_cas_def env_step_def compare_and_swap_tenant_def get_tenant_def Let_def
        split: option.splits prod.splits if_splits)
qed

lemma fewer_swap:
  assumes "to_state \<noteq> Ready" shows "keeps fewer_ready (swap_and_audit rec id to_state action actor cid)"
  unfolding swap_and_audit_def
  by (intro fewer.keeps_all fewer_now fewer_audit fewer_cas) (simp add: assms)

lemma fewer_transition:
  assumes "to_state \<noteq> Ready" shows "keeps fewer_ready (registry_transition tid to_state allowed action actor cid)"
  unfolding registry_transition_def
  by (intro fewer.keeps_all keeps_if keeps_case_option fewer_get fewer_swap assms)

lemma fewer_register: "keeps fewer_ready (register_tenant tid org sv assoc fed actor cid)"
  unfolding register_tenant_def Let_def
  by (intro fewer.keeps_all keeps_if keeps_case_option fewer_get fewer_now fewer_audit)
    (auto simp: world_put_def put_tenant_def get_tenant_def fewer_ready_def intro!: fewer.keeps_writes split: if_splits)

lemma fewer_guarded: "p \<noteq> None \<Longrightarrow> outcome_of w (guarded_entry p operation m) = w"
  by (auto simp: guarded_entry_def outcome_of_def split: option.splits)

inductive plane_run :: "control_plane_app \<Rightarrow> 'x cp_ports \<Rightarrow> gate_config \<Rightarrow> 'x cp_world \<Rightarrow> 'x cp_world \<Rightarrow> bool"
  for app :: control_plane_app and P :: "'x cp_ports" and G :: gate_config where
  start: "plane_run app P G w w"
| step: "\<lbrakk>plane_run app P G u v; \<And>tid. op \<noteq> OpVerify tid\<rbrakk> \<Longrightarrow> plane_run app P G u (plane_perform app P G op actor cid v)"

lemma control_plane_guards:
  assumes "control_plane env explicit = Inr app"
  shows "ap_onboarding_guard app = mixed_effective_posture (ap_store app) (ap_operator app)"
    "ap_recovery_guard app = mixed_effective_posture (ap_store app) (ap_operator app)"
  using assms by (auto simp: control_plane_def sbind_Inr split: prod.splits)

lemma plane_step_fewer:
  fixes w :: "'x cp_world"
  assumes guards: "ap_onboarding_guard app \<noteq> None" "ap_recovery_guard app \<noteq> None"
    and inv: "\<And>t c. keeps fewer_ready (p_invalidate P t c)" and op: "\<And>tid. op \<noteq> OpVerify tid"
  shows "fewer_ready w (plane_perform app P G op actor cid w)"
proof -
  have k: "fewer_ready w (outcome_of w m)" if "keeps fewer_ready m" for m :: "('x, 'b) cp"
    using that by (simp add: keeps_def outcome_of_def)
  have "keeps fewer_ready (onboarding_disable_routing P tid actor cid)" for tid
    unfolding onboarding_disable_routing_def gate_disable_routing_def gate_invalidate_def ledger_drop_def
    by (intro fewer.keeps_all fewer_event fewer.keeps_writes inv) (auto intro: fewer_same)
  then show ?thesis
    by (cases op) (use guards op in \<open>auto simp: k fewer_guarded fewer_register fewer_transition mark_provisioning_def
        suspend_tenant_def decommission_tenant_def quarantine_tenant_def fewer_ready_def[of w w]\<close>)
qed

text \<open>A plane of mixed posture manufactures nothing: whatever the settings and the injected store, if the composed store and
the composed operator differ in kind, then along every run of the plane's operations (without a direct call of the gate) no
provider of physical databases changes its state and no tenant becomes Ready that was not Ready before.\<close>

theorem mixed_plane_manufactures_nothing:
  assumes "control_plane env explicit = Inr app" and "store_durable (ap_store app) \<noteq> live_postgres (ap_operator app)"
    and inv: "\<And>t c. keeps fewer_ready (p_invalidate P t c)"
    and "plane_run app P G w w'" and "writers w = []"
  shows "ext w' = ext w \<and> (\<forall>tid r'. get_tenant (store w') tid = Some r' \<longrightarrow> lifecycle r' = Ready
    \<longrightarrow> (\<exists>r. get_tenant (store w) tid = Some r \<and> lifecycle r = Ready))"
proof -
  have guards: "ap_onboarding_guard app \<noteq> None" "ap_recovery_guard app \<noteq> None"
    using control_plane_guards[OF assms(1)] assms(2) by (simp_all add: mixed_effective_posture_def)
  from assms(4) have "fewer_ready w w'"
    by induction (blast intro: fewer.refl, metis fewer.trans plane_step_fewer[OF guards inv])
  then show ?thesis using assms(5) by (auto simp: fewer_ready_def)
qed

definition standalone_env :: env where
  "standalone_env name = (if name = CONTROL_STORE_ENV then Some ''  Postgres '' else None)"

definition standalone_app :: control_plane_app where
  "standalone_app = plane_of standalone_env DURABLE_STANDALONE"

lemma standalone_composed: "create_app standalone_env = Inr standalone_app"
  unfolding standalone_app_def by code_simp

lemma standalone_mixed: "store_durable (ap_store standalone_app) \<noteq> live_postgres (ap_operator standalone_app)"
  by code_simp

theorem mixed_plane_manufactures_nothing_witness:
  "ext (plane_perform standalone_app (mem_ports ''k'') mem_gate (OpOnboard ''acme'' ''o'' ''f'' ''1'') ''op'' ''c'' (sample_world Provisioning))
     = mem_ext_init"
proof -
  have inv: "keeps fewer_ready (p_invalidate (mem_ports ''k'') t c)" for t c
    by (auto simp: mem_ports_def record_signal_def intro!: fewer.keeps_writes fewer_same)
  have run: "plane_run standalone_app (mem_ports ''k'') mem_gate (sample_world Provisioning)
      (plane_perform standalone_app (mem_ports ''k'') mem_gate (OpOnboard ''acme'' ''o'' ''f'' ''1'') ''op'' ''c'' (sample_world Provisioning))"
    by (rule plane_run.step[OF plane_run.start]) simp
  have "control_plane standalone_env None = Inr standalone_app" using standalone_composed by (simp add: create_app_def)
  from mixed_plane_manufactures_nothing[OF this standalone_mixed inv run] show ?thesis by simp
qed


section \<open>The lazy gate\<close>

definition proven :: "evidence \<Rightarrow> bool" where
  "proven e \<longleftrightarrow> sentinel_written e \<and> sentinel_token e \<noteq> None \<and> sentinel_token e \<noteq> Some []"


text \<open>A Control database whose gathered evidence carries a written and read-back sentinel.\<close>

definition sample_control :: evidence where
  "sample_control = nonprod_control_db_evidence\<lparr>sentinel_token := Some ''s''\<rparr>"

definition sample_gather :: "(mem_ext, evidence option) cp" where
  "sample_gather = ret (Some sample_control)"

lemma sample_lazy_verdict:
  "\<exists>s'. lazy_verify sample_gather (mem_ports ''k'') mem_gate ''acme'' ''op'' ''c'' \<lparr>lw_control = None, lw_world = sample_world Provisioning\<rparr>
     = (Inr (mk_outcome VERIFIED REASON_VERIFIED), s')"
proof -
  let ?s = "\<lparr>lw_control = None, lw_world = sample_world Provisioning\<rparr>"
  have "fst (lazy_verify sample_gather (mem_ports ''k'') mem_gate ''acme'' ''op'' ''c'' ?s) = Inr (mk_outcome VERIFIED REASON_VERIFIED)"
    by code_simp
  then show ?thesis by (metis prod.collapse)
qed


end
