(* ===== verification/DR_Cache.thy ===== *)
theory DR_Cache
  imports CP_Records
begin

text \<open>
  The database router's domain shapes and denials (\<open>backend/database_router/models.py\<close>,
  \<open>disclosure.py\<close>) and its routing-view cache (\<open>cache.py\<close>). Clock values are integers. The locale
  \<open>ttl_store\<close> is what a client of a time-bounded cache relies on: whatever it reads is the latest
  value put for that key, not older than the time to live and not dropped since.
\<close>

section \<open>Denials and disclosure\<close>

datatype denial_reason = NOT_FOUND | FORBIDDEN | NOT_READY | ADMINISTRATIVELY_DISABLED | UNAVAILABLE

record routing_denied =
  rd_reason :: denial_reason
  rd_status :: int
  rd_code :: string

definition denied_not_found :: "string \<Rightarrow> routing_denied" where
  "denied_not_found code = \<lparr>rd_reason = NOT_FOUND, rd_status = 404, rd_code = code\<rparr>"

definition denied_forbidden :: "string \<Rightarrow> routing_denied" where
  "denied_forbidden code = \<lparr>rd_reason = FORBIDDEN, rd_status = 403, rd_code = code\<rparr>"

definition denied_not_ready :: "string \<Rightarrow> routing_denied" where
  "denied_not_ready code = \<lparr>rd_reason = NOT_READY, rd_status = 503, rd_code = code\<rparr>"

definition denied_disabled :: "string \<Rightarrow> routing_denied" where
  "denied_disabled code = \<lparr>rd_reason = ADMINISTRATIVELY_DISABLED, rd_status = 403, rd_code = code\<rparr>"

definition denied_unavailable :: "string \<Rightarrow> routing_denied" where
  "denied_unavailable code = \<lparr>rd_reason = UNAVAILABLE, rd_status = 503, rd_code = code\<rparr>"

definition denial_for_state :: "string \<Rightarrow> bool \<Rightarrow> routing_denied option" where
  "denial_for_state state ready =
     (if state = ''Ready'' \<and> ready then None
      else if state = ''Suspended'' then Some (denied_disabled ''administratively_disabled'')
      else if state = ''Failed'' then Some (denied_unavailable ''unavailable'')
      else if state = ''Decommissioned'' then Some (denied_not_found ''not_found'')
      else if state \<in> {''Registered'', ''Provisioning'', ''Verifying''} \<or> \<not> ready
        then Some (denied_not_ready ''not_ready'')
      else Some (denied_not_found ''not_found''))"

lemma denial_None [simp]: "denial_for_state st ready = None \<longleftrightarrow> st = ''Ready'' \<and> ready"
  by (simp add: denial_for_state_def)

record tenant_routing_view =
  rv_tenant_id :: string
  rv_lifecycle_state :: string
  rv_ready :: bool
  rv_association :: secret_ref
  rv_expected_schema_version :: string

section \<open>The routing-view cache\<close>

record routing_cache =
  rc_ttl :: int
  rc_max :: nat
  rc_data :: "(string, int \<times> tenant_routing_view) dict"

definition rcache_get :: "int \<Rightarrow> string \<Rightarrow> routing_cache \<Rightarrow> tenant_routing_view option \<times> routing_cache" where
  "rcache_get now tid c =
     (case dict_get (rc_data c) tid of
        None \<Rightarrow> (None, c)
      | Some (expires_at, view) \<Rightarrow>
          if now > expires_at then (None, c\<lparr>rc_data := dict_pop tid (rc_data c)\<rparr>)
          else (Some view, c))"

definition drop_oldest :: "('k, 'v) dict \<Rightarrow> ('k, 'v) dict" where
  "drop_oldest d = (case d of [] \<Rightarrow> [] | (k, v) # rest \<Rightarrow> dict_pop k d)"

definition rcache_put :: "int \<Rightarrow> string \<Rightarrow> tenant_routing_view \<Rightarrow> routing_cache \<Rightarrow> routing_cache" where
  "rcache_put now tid view c =
     (let d = (if rc_max c \<le> length (rc_data c) \<and> dict_get (rc_data c) tid = None
               then drop_oldest (rc_data c) else rc_data c)
      in c\<lparr>rc_data := dict_put tid (now + rc_ttl c, view) d\<rparr>)"

definition rcache_invalidate :: "string \<Rightarrow> routing_cache \<Rightarrow> routing_cache" where
  "rcache_invalidate tid c = c\<lparr>rc_data := dict_pop tid (rc_data c)\<rparr>"

section \<open>The interface: a cache with a time to live\<close>

datatype ('k, 'v) cache_event = Put int 'k 'v | Drop 'k

text \<open>What a key holds after a history of puts and drops, oldest event first.\<close>

fun latest_put :: "'k \<Rightarrow> ('k, 'v) cache_event list \<Rightarrow> (int \<times> 'v) option" where
  "latest_put k [] = None"
| "latest_put k (Put t j v # es) =
     (case latest_put k es of Some x \<Rightarrow> Some x
      | None \<Rightarrow> if j = k \<and> Drop k \<notin> set es then Some (t, v) else None)"
| "latest_put k (Drop j # es) = latest_put k es"

locale ttl_store =
  fixes peek :: "int \<Rightarrow> 'c \<Rightarrow> 'k \<Rightarrow> 'v option"
    and put :: "int \<Rightarrow> 'k \<Rightarrow> 'v \<Rightarrow> 'c \<Rightarrow> 'c"
    and drop_key :: "'k \<Rightarrow> 'c \<Rightarrow> 'c"
    and ttl :: "'c \<Rightarrow> int"
  assumes put_same: "peek t (put s k v c) k = (if t \<le> s + ttl c then Some v else None)"
    and put_other: "\<lbrakk>j \<noteq> k; peek t (put s k v c) j = Some x\<rbrakk> \<Longrightarrow> peek t c j = Some x"
    and drop_same: "peek t (drop_key k c) k = None"
    and drop_other: "\<lbrakk>j \<noteq> k; peek t (drop_key k c) j = Some x\<rbrakk> \<Longrightarrow> peek t c j = Some x"
    and ttl_put: "ttl (put s k v c) = ttl c"
    and ttl_drop: "ttl (drop_key k c) = ttl c"
begin

fun apply_event :: "('k, 'v) cache_event \<Rightarrow> 'c \<Rightarrow> 'c" where
  "apply_event (Put s k v) c = put s k v c"
| "apply_event (Drop k) c = drop_key k c"

definition replay :: "('k, 'v) cache_event list \<Rightarrow> 'c \<Rightarrow> 'c" where
  "replay es c = fold apply_event es c"

lemma ttl_replay: "ttl (replay es c) = ttl c"
proof (induction es arbitrary: c)
  case (Cons e es)
  then show ?case by (cases e) (simp_all add: replay_def ttl_put ttl_drop)
qed (simp add: replay_def)

text \<open>Whatever is read was put for that very key, by its latest event, at most \<open>ttl\<close> ago.\<close>

lemma fresh_read:
  assumes empty: "\<And>t k. peek t c k = None" and read: "peek now (replay es c) k = Some v"
  shows "\<exists>pre s post. es = pre @ Put s k v # post \<and> now \<le> s + ttl c
    \<and> (\<forall>e \<in> set post. e \<noteq> Drop k \<and> (\<forall>s' v'. e \<noteq> Put s' k v'))"
  using read
proof (induction es rule: rev_induct)
  case Nil
  then show ?case using empty by (simp add: replay_def)
next
  case (snoc e es)
  have step: "replay (es @ [e]) c = apply_event e (replay es c)" by (simp add: replay_def)
  show ?case
  proof (cases "e = Drop k \<or> (\<exists>s' v'. e = Put s' k v')")
    case True
    with snoc.prems obtain s where "e = Put s k v" "now \<le> s + ttl c"
      by (auto simp: step drop_same put_same ttl_replay split: if_splits)
    then show ?thesis by (intro exI[of _ es] exI[of _ s] exI[of _ "[]"]) simp
  next
    case False
    have "peek now (replay es c) k = Some v"
    proof (cases e)
      case (Put s' j x)
      with False have "k \<noteq> j" by simp
      moreover have "peek now (put s' j x (replay es c)) k = Some v"
        using snoc.prems unfolding step by (simp add: Put)
      ultimately show ?thesis by (rule put_other)
    next
      case (Drop j)
      with False have "k \<noteq> j" by simp
      moreover have "peek now (drop_key j (replay es c)) k = Some v"
        using snoc.prems unfolding step by (simp add: Drop)
      ultimately show ?thesis by (rule drop_other)
    qed
    from snoc.IH[OF this] obtain pre s post where "es = pre @ Put s k v # post" "now \<le> s + ttl c"
      "\<forall>e \<in> set post. e \<noteq> Drop k \<and> (\<forall>s' v'. e \<noteq> Put s' k v')" by blast
    with False show ?thesis
      by (intro exI[of _ pre] exI[of _ s] exI[of _ "post @ [e]"]) auto
  qed
qed

end

definition rcache_peek :: "int \<Rightarrow> routing_cache \<Rightarrow> string \<Rightarrow> tenant_routing_view option" where
  "rcache_peek now c tid = fst (rcache_get now tid c)"

lemma dict_get_drop_oldest: "dict_get (drop_oldest d) k = Some v \<Longrightarrow> dict_get d k = Some v"
  by (auto simp: drop_oldest_def split: list.splits prod.splits if_splits)

lemma rcache_peek_Some:
  "rcache_peek now c k = Some x \<longleftrightarrow> (\<exists>e. dict_get (rc_data c) k = Some (e, x) \<and> now \<le> e)"
  by (auto simp: rcache_peek_def rcache_get_def split: option.splits)

interpretation routing_views: ttl_store rcache_peek rcache_put rcache_invalidate rc_ttl
proof
  fix t s :: int and c :: routing_cache and j k :: string and v x :: tenant_routing_view
  show "rcache_peek t (rcache_put s k v c) k = (if t \<le> s + rc_ttl c then Some v else None)"
    by (simp add: rcache_peek_def rcache_put_def rcache_get_def Let_def)
  show "\<lbrakk>j \<noteq> k; rcache_peek t (rcache_put s k v c) j = Some x\<rbrakk> \<Longrightarrow> rcache_peek t c j = Some x"
    using dict_get_drop_oldest[of "rc_data c" j]
    by (auto simp: rcache_peek_Some rcache_put_def Let_def split: if_splits)
  show "rcache_peek t (rcache_invalidate k c) k = None"
    by (simp add: rcache_peek_def rcache_invalidate_def rcache_get_def)
  show "\<lbrakk>j \<noteq> k; rcache_peek t (rcache_invalidate k c) j = Some x\<rbrakk> \<Longrightarrow> rcache_peek t c j = Some x"
    by (simp add: rcache_peek_Some rcache_invalidate_def)
qed (simp_all add: rcache_put_def rcache_invalidate_def Let_def)

text \<open>The bound: a cache within its bound stays within it.\<close>

lemma length_dict_put: "length (dict_put k v d) = (if dict_get d k = None then Suc (length d) else length d)"
  by (induction d) (auto simp: dict_put_def dict_get_def split: if_splits)

lemma length_drop_oldest: "d \<noteq> [] \<Longrightarrow> length (drop_oldest d) < length d"
proof (cases d)
  case (Cons p rest)
  moreover have "length (dict_pop k rest) \<le> length rest" for k
    by (simp add: dict_pop_def length_delete_le)
  ultimately show ?thesis
    by (cases p) (simp add: drop_oldest_def dict_pop_def AList.delete_eq le_imp_less_Suc)
qed simp

lemma rcache_bounded:
  assumes "length (rc_data c) \<le> rc_max c" and "0 < rc_max c"
  shows "length (rc_data (rcache_put now tid view c)) \<le> rc_max (rcache_put now tid view c)"
proof -
  have gone: "dict_get (drop_oldest (rc_data c)) tid = None" if "dict_get (rc_data c) tid = None"
    using that dict_get_drop_oldest[of "rc_data c" tid] by (cases "dict_get (drop_oldest (rc_data c)) tid") auto
  show ?thesis
  proof (cases "rc_max c \<le> length (rc_data c) \<and> dict_get (rc_data c) tid = None")
    case True
    then have "length (drop_oldest (rc_data c)) < rc_max c"
      using assms length_drop_oldest[of "rc_data c"] by (cases "rc_data c") auto
    with True gone show ?thesis by (simp add: rcache_put_def length_dict_put)
  next
    case False
    then have "dict_get (rc_data c) tid \<noteq> None \<or> length (rc_data c) < rc_max c" by auto
    with False assms show ?thesis by (auto simp: rcache_put_def length_dict_put)
  qed
qed

end
