(* ===== verification/DR_Pool.thy ===== *)
theory DR_Pool
  imports DR_Cache
begin

text \<open>
  The per-tenant connection pools (\<open>backend/database_router/pool.py\<close>). Connections have an
  identity and the tenant and version they were opened for; closing one is a record in
  \<open>pm_closed\<close>. Liveness and the outcome of a reset are questions to the outside world, opening is
  a procedure of it. Every operation holds the manager's lock, so each is one step.
\<close>

section \<open>State\<close>

datatype dr_error = Denied routing_denied | Fault string

record conn =
  conn_id :: nat
  conn_tenant :: string
  conn_version :: string

record pool =
  pool_max :: nat
  pool_idle :: "(conn \<times> int) list"
  pool_in_use :: "conn list"

record pool_mgr =
  pm_max :: nat
  pm_idle_timeout :: int
  pm_pools :: "(string \<times> string, pool) dict"
  pm_closed :: "conn list"

definition pool_key :: "conn \<Rightarrow> string \<times> string" where
  "pool_key c = (conn_tenant c, conn_version c)"

definition new_pool :: "nat \<Rightarrow> pool" where
  "new_pool n = \<lparr>pool_max = n, pool_idle = [], pool_in_use = []\<rparr>"

definition empty_pool :: "pool \<Rightarrow> bool" where
  "empty_pool p = (pool_idle p = [] \<and> pool_in_use p = [])"

definition close_conns :: "conn list \<Rightarrow> pool_mgr \<Rightarrow> pool_mgr" where
  "close_conns cs pm = pm\<lparr>pm_closed := pm_closed pm @ cs\<rparr>"

section \<open>Operations\<close>

definition evict_idle :: "int \<Rightarrow> pool_mgr \<Rightarrow> pool_mgr" where
  "evict_idle now pm =
     (let stale = (\<lambda>(c, last_used). now - last_used > pm_idle_timeout pm) in
      pm\<lparr>pm_pools := filter (\<lambda>(_, p). \<not> empty_pool p)
            (map (\<lambda>(k, p). (k, p\<lparr>pool_idle := filter (\<lambda>x. \<not> stale x) (pool_idle p)\<rparr>)) (pm_pools pm)),
         pm_closed := pm_closed pm
            @ concat (map (\<lambda>(_, p). map fst (filter stale (pool_idle p))) (pm_pools pm))\<rparr>)"

text \<open>Pop idle connections from the end until one is alive: (it, the rest, the ones to close).\<close>

fun take_alive :: "(conn \<Rightarrow> bool) \<Rightarrow> (conn \<times> int) list \<Rightarrow> conn option \<times> (conn \<times> int) list \<times> conn list" where
  "take_alive alive [] = (None, [], [])"
| "take_alive alive ((c, t) # rest) =
     (if alive c then (Some c, rest, [])
      else case take_alive alive rest of (r, rest', closed) \<Rightarrow> (r, rest', c # closed))"

definition set_pool :: "string \<times> string \<Rightarrow> pool \<Rightarrow> pool_mgr \<Rightarrow> pool_mgr" where
  "set_pool key p pm = pm\<lparr>pm_pools := dict_put key p (pm_pools pm)\<rparr>"

definition forget_if_empty :: "string \<times> string \<Rightarrow> pool \<Rightarrow> pool_mgr \<Rightarrow> pool_mgr" where
  "forget_if_empty key p pm =
     (if empty_pool p then pm\<lparr>pm_pools := dict_pop key (pm_pools pm)\<rparr> else pm)"

definition pool_acquire ::
    "int \<Rightarrow> ('w \<Rightarrow> conn \<Rightarrow> bool) \<Rightarrow> ('w, dr_error, conn) proc \<Rightarrow> string \<Rightarrow> string
      \<Rightarrow> ('w \<times> pool_mgr, dr_error, conn) proc" where
  "pool_acquire now alive open_fn tid ver = (\<lambda>(w, pm).
     let key = (tid, ver);
         pm1 = evict_idle now pm;
         p0 = (case dict_get (pm_pools pm1) key of None \<Rightarrow> new_pool (pm_max pm1) | Some p \<Rightarrow> p)
     in case take_alive (alive w) (rev (pool_idle p0)) of (found, rest, broken) \<Rightarrow>
       (let p1 = p0\<lparr>pool_idle := rev rest\<rparr>;
            pm2 = close_conns broken (set_pool key p1 pm1)
        in case found of
             Some c \<Rightarrow> (Inr c, w, set_pool key (p1\<lparr>pool_in_use := List.insert c (pool_in_use p1)\<rparr>) pm2)
           | None \<Rightarrow>
               if length (pool_in_use p1) \<ge> pool_max p1 then (Inl (Fault ''PoolExhausted''), w, pm2)
               else case open_fn w of
                   (Inl e, w') \<Rightarrow> (Inl e, w', forget_if_empty key p1 pm2)
                 | (Inr c, w') \<Rightarrow>
                     if conn_tenant c \<noteq> tid \<or> conn_version c \<noteq> ver then
                       (Inl (Fault ''PoolExhausted''), w', forget_if_empty key p1 (close_conns [c] pm2))
                     else (Inr c, w', set_pool key (p1\<lparr>pool_in_use := List.insert c (pool_in_use p1)\<rparr>) pm2)))"

definition pool_release ::
    "int \<Rightarrow> int \<Rightarrow> ('w \<Rightarrow> conn \<Rightarrow> bool) \<Rightarrow> ('w \<Rightarrow> conn \<Rightarrow> bool) \<Rightarrow> conn \<Rightarrow> 'w \<Rightarrow> pool_mgr \<Rightarrow> pool_mgr" where
  "pool_release now now2 alive resets c w pm =
     (case dict_get (pm_pools pm) (pool_key c) of
        None \<Rightarrow> close_conns [c] pm
      | Some p \<Rightarrow>
          if c \<notin> set (pool_in_use p) then close_conns [c] pm
          else let p1 = p\<lparr>pool_in_use := removeAll c (pool_in_use p)\<rparr>;
                   pm1 = set_pool (pool_key c) p1 pm
               in if \<not> resets w c then close_conns [c] pm1
                  else if \<not> alive w c then close_conns [c] pm1
                  else evict_idle now2 (set_pool (pool_key c) (p1\<lparr>pool_idle := pool_idle p1 @ [(c, now)]\<rparr>) pm1))"

definition pool_discard :: "conn \<Rightarrow> pool_mgr \<Rightarrow> pool_mgr" where
  "pool_discard c pm =
     close_conns [c]
       (case dict_get (pm_pools pm) (pool_key c) of
          None \<Rightarrow> pm
        | Some p \<Rightarrow> set_pool (pool_key c) (p\<lparr>pool_in_use := removeAll c (pool_in_use p)\<rparr>) pm)"

definition pool_invalidate_version :: "string \<Rightarrow> string \<Rightarrow> pool_mgr \<Rightarrow> pool_mgr" where
  "pool_invalidate_version tid keep pm =
     (let gone = (\<lambda>((t, v), _). t = tid \<and> v \<noteq> keep) in
      pm\<lparr>pm_pools := filter (\<lambda>x. \<not> gone x) (pm_pools pm),
         pm_closed := pm_closed pm
           @ concat (map (\<lambda>(_, p). map fst (pool_idle p)) (filter gone (pm_pools pm)))\<rparr>)"

definition pool_keys :: "pool_mgr \<Rightarrow> (string \<times> string) list" where
  "pool_keys pm = dict_keys (pm_pools pm)"

definition pool_counts :: "string \<Rightarrow> string \<Rightarrow> pool_mgr \<Rightarrow> nat \<times> nat" where
  "pool_counts tid ver pm =
     (case dict_get (pm_pools pm) (tid, ver) of
        None \<Rightarrow> (0, 0)
      | Some p \<Rightarrow> (length (pool_idle p), length (pool_in_use p)))"

section \<open>The invariant\<close>

text \<open>
  \<open>out\<close> is the set of connections the callers hold. Pools only hold connections of their own key;
  what is in use is held by a caller, what is idle is not; nothing held or idle is closed.
\<close>

definition pool_ok :: "nat \<Rightarrow> conn set \<Rightarrow> conn list \<Rightarrow> string \<times> string \<Rightarrow> pool \<Rightarrow> bool" where
  "pool_ok mx out closed k p \<longleftrightarrow>
     pool_max p = mx \<and> length (pool_idle p) + length (pool_in_use p) \<le> mx
     \<and> distinct (map fst (pool_idle p)) \<and> distinct (pool_in_use p)
     \<and> (\<forall>c \<in> set (pool_in_use p). pool_key c = k \<and> c \<in> out)
     \<and> (\<forall>c \<in> fst ` set (pool_idle p). pool_key c = k \<and> c \<notin> out \<and> c \<notin> set closed)"

definition pool_inv :: "conn set \<Rightarrow> pool_mgr \<Rightarrow> bool" where
  "pool_inv out pm \<longleftrightarrow> dict_ok (pm_pools pm) \<and> out \<inter> set (pm_closed pm) = {}
     \<and> (\<forall>k p. dict_get (pm_pools pm) k = Some p \<longrightarrow> pool_ok (pm_max pm) out (pm_closed pm) k p)"

text \<open>A connection is fresh when no caller holds it, no pool has it idle and it was never closed.\<close>

definition fresh_conn :: "conn set \<Rightarrow> pool_mgr \<Rightarrow> conn \<Rightarrow> bool" where
  "fresh_conn out pm c \<longleftrightarrow> c \<notin> out \<and> c \<notin> set (pm_closed pm)
     \<and> (\<forall>k p. dict_get (pm_pools pm) k = Some p \<longrightarrow> c \<notin> fst ` set (pool_idle p))"

lemma pool_invD:
  "\<lbrakk>pool_inv out pm; dict_get (pm_pools pm) k = Some p\<rbrakk> \<Longrightarrow> pool_ok (pm_max pm) out (pm_closed pm) k p"
  unfolding pool_inv_def by blast

text \<open>The shape of every pool operation: some pools become new ones, some connections are closed.\<close>

lemma pool_invI:
  assumes inv: "pool_inv out pm" and mx: "pm_max pm' = pm_max pm" and ok: "dict_ok (pm_pools pm')"
    and closed: "set (pm_closed pm') = set (pm_closed pm) \<union> C" and out: "out' \<inter> set (pm_closed pm') = {}"
    and pools: "\<And>k p'. dict_get (pm_pools pm') k = Some p' \<Longrightarrow> pool_ok (pm_max pm) out' (pm_closed pm') k p'"
  shows "pool_inv out' pm'"
  using assms by (simp add: pool_inv_def)

lemma dict_get_filter_map:
  assumes "dict_ok d"
  shows "dict_get (filter (\<lambda>(_, p). keep p) (map (\<lambda>(k, p). (k, g p)) d)) k =
    (case dict_get d k of None \<Rightarrow> None | Some p \<Rightarrow> if keep (g p) then Some (g p) else None)"
  using assms
proof (induction d)
  case (Cons x d)
  obtain a b where x: "x = (a, b)" by (cases x)
  have none: "dict_get d a = None" using Cons.prems x
    by (auto simp: dict_ok_def dict_get_def map_of_eq_None_iff)
  have ok: "dict_ok d" using Cons.prems x by (simp add: dict_ok_def)
  show ?case using Cons.IH[OF ok] none x by (cases "k = a") (simp_all add: dict_get_def)
qed (simp add: dict_get_def)

lemma dict_ok_filter_map: "dict_ok d \<Longrightarrow> dict_ok (filter q (map (\<lambda>(k, p). (k, g p)) d))"
proof (induction d)
  case (Cons x d)
  then show ?case by (cases x) (force simp: dict_ok_def)
qed (simp add: dict_ok_def)

lemma dict_get_filter_key:
  "dict_get (filter (\<lambda>(k, _). q k) d) j = (if q j then dict_get d j else None)"
  by (induction d) (auto simp: dict_get_def)

lemma dict_ok_filter: "dict_ok d \<Longrightarrow> dict_ok (filter q d)"
  by (simp add: dict_ok_def distinct_map inj_on_def)

lemma evict_closed:
  assumes inv: "pool_inv out pm"
  shows "c \<in> set (pm_closed (evict_idle now pm)) \<longleftrightarrow> c \<in> set (pm_closed pm) \<or>
    (\<exists>k p t. dict_get (pm_pools pm) k = Some p \<and> (c, t) \<in> set (pool_idle p) \<and> now - t > pm_idle_timeout pm)"
proof -
  have ok: "dict_ok (pm_pools pm)" using inv by (simp add: pool_inv_def)
  show ?thesis
    by (force simp: evict_idle_def Let_def dict_mem_iff[OF ok, symmetric])
qed

lemma evict_get:
  assumes "pool_inv out pm"
  shows "dict_get (pm_pools (evict_idle now pm)) k = Some p' \<longleftrightarrow>
    (\<exists>p. dict_get (pm_pools pm) k = Some p \<and> \<not> empty_pool p'
       \<and> p' = p\<lparr>pool_idle := filter (\<lambda>(c, t). \<not> now - t > pm_idle_timeout pm) (pool_idle p)\<rparr>)"
proof -
  let ?g = "\<lambda>p. p\<lparr>pool_idle := filter (\<lambda>(c, t). \<not> now - t > pm_idle_timeout pm) (pool_idle p)\<rparr>"
  have flt: "(\<lambda>x. \<not> (\<lambda>(c :: conn, t). now - t > pm_idle_timeout pm) x) = (\<lambda>(c, t). \<not> now - t > pm_idle_timeout pm)"
    by auto
  have ok: "dict_ok (pm_pools pm)" using assms by (simp add: pool_inv_def)
  have "pm_pools (evict_idle now pm) = filter (\<lambda>(_, p). \<not> empty_pool p) (map (\<lambda>(k, p). (k, ?g p)) (pm_pools pm))"
    unfolding evict_idle_def Let_def flt by simp
  then show ?thesis
    by (simp add: dict_get_filter_map[OF ok, where keep = "\<lambda>p. \<not> empty_pool p" and g = ?g] split: option.split)
      blast
qed

lemma idle_time_unique:
  "\<lbrakk>distinct (map fst xs); (c, t) \<in> set xs; (c, t') \<in> set xs\<rbrakk> \<Longrightarrow> t = t'"
  by (metis eq_key_imp_eq_value)

lemma evict_inv:
  assumes inv: "pool_inv out pm" shows "pool_inv out (evict_idle now pm)"
proof (rule pool_invI[OF inv])
  show "pm_max (evict_idle now pm) = pm_max pm" by (simp add: evict_idle_def Let_def)
  show "dict_ok (pm_pools (evict_idle now pm))"
    using inv by (simp add: evict_idle_def Let_def dict_ok_filter_map pool_inv_def)
  show "set (pm_closed (evict_idle now pm)) = set (pm_closed pm) \<union> {c. \<exists>k p t. dict_get (pm_pools pm) k = Some p
      \<and> (c, t) \<in> set (pool_idle p) \<and> now - t > pm_idle_timeout pm}"
    using evict_closed[OF inv] by blast
  have idle_out: "c \<notin> out" "pool_key c = k" if "dict_get (pm_pools pm) k = Some p" "(c, t) \<in> set (pool_idle p)" for k p c t
    using pool_invD[OF inv that(1)] that(2) by (force simp: pool_ok_def)+
  have "out \<inter> set (pm_closed pm) = {}" using inv by (simp add: pool_inv_def)
  then show "out \<inter> set (pm_closed (evict_idle now pm)) = {}"
    using evict_closed[OF inv] idle_out(1) by blast
  fix k p' assume "dict_get (pm_pools (evict_idle now pm)) k = Some p'"
  then obtain p where p: "dict_get (pm_pools pm) k = Some p"
    "p' = p\<lparr>pool_idle := filter (\<lambda>(c, t). \<not> now - t > pm_idle_timeout pm) (pool_idle p)\<rparr>"
    using evict_get[OF inv] by blast
  note old = pool_invD[OF inv p(1)]
  have "c \<notin> set (pm_closed (evict_idle now pm))" if c: "(c, t) \<in> set (pool_idle p)" "\<not> now - t > pm_idle_timeout pm" for c t
  proof
    assume "c \<in> set (pm_closed (evict_idle now pm))"
    moreover have "c \<notin> set (pm_closed pm)" using old c(1) by (force simp: pool_ok_def)
    ultimately obtain k2 p2 t2 where e: "dict_get (pm_pools pm) k2 = Some p2" "(c, t2) \<in> set (pool_idle p2)"
      "now - t2 > pm_idle_timeout pm" using evict_closed[OF inv] by blast
    have "k2 = k" using idle_out(2)[OF e(1,2)] idle_out(2)[OF p(1) c(1)] by simp
    with e p(1) have "(c, t2) \<in> set (pool_idle p)" by simp
    then have "t2 = t" using old c(1) idle_time_unique by (force simp: pool_ok_def)
    with e(3) c(2) show False by simp
  qed
  then show "pool_ok (pm_max pm) out (pm_closed (evict_idle now pm)) k p'"
    using old unfolding p(2) pool_ok_def
    by (auto intro: distinct_map_filter order_trans[OF add_right_mono[OF length_filter_le]])
qed

lemma take_alive_split:
  assumes "take_alive alive xs = (r, rest, broken)"
  shows "case r of None \<Rightarrow> rest = [] \<and> broken = map fst xs
    | Some c \<Rightarrow> alive c \<and> (\<exists>t. map fst xs = broken @ c # map fst rest \<and> set rest \<subseteq> set xs)"
  using assms
proof (induction xs arbitrary: r rest broken)
  case (Cons x xs)
  obtain c t where x: "x = (c, t)" by (cases x)
  show ?case
  proof (cases "alive c")
    case True
    with Cons.prems x show ?thesis by auto
  next
    case False
    obtain r1 rest1 b1 where t1: "take_alive alive xs = (r1, rest1, b1)" by (metis prod_cases3)
    with False Cons.prems x have "r = r1" "rest = rest1" "broken = c # b1" by auto
    with Cons.IH[OF t1] x show ?thesis by (auto split: option.splits)
  qed
qed simp

lemma replace_pool:
  assumes inv: "pool_inv out pm" and mx: "pm_max pm' = pm_max pm"
    and pools: "pm_pools pm' = dict_put k p (pm_pools pm) \<and> pool_ok (pm_max pm) out' (pm_closed pm') k p
      \<or> pm_pools pm' = dict_pop k (pm_pools pm)"
    and closed: "set (pm_closed pm') = set (pm_closed pm) \<union> C"
    and idle: "\<And>j q c. \<lbrakk>j \<noteq> k; dict_get (pm_pools pm) j = Some q; c \<in> fst ` set (pool_idle q)\<rbrakk> \<Longrightarrow> c \<notin> C \<and> c \<notin> out'"
    and used: "\<And>j q c. \<lbrakk>j \<noteq> k; dict_get (pm_pools pm) j = Some q; c \<in> set (pool_in_use q)\<rbrakk> \<Longrightarrow> c \<in> out'"
    and out: "out' \<inter> set (pm_closed pm') = {}"
  shows "pool_inv out' pm'"
proof (rule pool_invI[OF inv mx _ closed out])
  show "dict_ok (pm_pools pm')" using inv pools by (auto simp: pool_inv_def)
  fix j q assume q: "dict_get (pm_pools pm') j = Some q"
  show "pool_ok (pm_max pm) out' (pm_closed pm') j q"
  proof (cases "j = k")
    case True
    then show ?thesis using q pools by auto
  next
    case False
    then have old: "dict_get (pm_pools pm) j = Some q" using q pools by (auto split: if_splits)
    show ?thesis
      using pool_invD[OF inv old] idle[OF False old] used[OF False old]
      unfolding pool_ok_def closed by blast
  qed
qed

lemma fresh_evict:
  assumes inv: "pool_inv out pm" and "fresh_conn out pm c"
  shows "fresh_conn out (evict_idle now pm) c"
proof -
  have idle: "c \<notin> fst ` set (pool_idle p)" if "dict_get (pm_pools pm) k = Some p" for k p
    using assms(2) that unfolding fresh_conn_def by blast
  have "c \<notin> set (pm_closed (evict_idle now pm))"
  proof
    assume "c \<in> set (pm_closed (evict_idle now pm))"
    then consider "c \<in> set (pm_closed pm)" | k p t where "dict_get (pm_pools pm) k = Some p" "(c, t) \<in> set (pool_idle p)"
      unfolding evict_closed[OF inv] by blast
    then show False
    proof cases
      case 1
      with assms(2) show False by (simp add: fresh_conn_def)
    next
      case 2
      from idle[OF 2(1)] imageI[OF 2(2), of fst] show False by simp
    qed
  qed
  moreover have "c \<notin> fst ` set (pool_idle q)" if q: "dict_get (pm_pools (evict_idle now pm)) k = Some q" for k q
  proof -
    from q obtain p where p: "dict_get (pm_pools pm) k = Some p"
      and e: "q = p\<lparr>pool_idle := filter (\<lambda>(c, t). \<not> now - t > pm_idle_timeout pm) (pool_idle p)\<rparr>"
      unfolding evict_get[OF inv] by (elim exE conjE)
    have "set (pool_idle q) \<subseteq> set (pool_idle p)" by (simp add: e)
    with idle[OF p] show ?thesis by (meson image_mono subsetD)
  qed
  ultimately show ?thesis using assms(2) unfolding fresh_conn_def by simp
qed

lemma empty_pool_ok: "pool_ok mx out closed k (new_pool mx)"
  by (simp add: pool_ok_def new_pool_def)

lemma acquire_pool_start:
  assumes inv: "pool_inv out pm"
    and p0: "p0 = (case dict_get (pm_pools pm) k of None \<Rightarrow> new_pool (pm_max pm) | Some p \<Rightarrow> p)"
  shows "pool_ok (pm_max pm) out (pm_closed pm) k p0"
  using pool_invD[OF inv] empty_pool_ok by (cases "dict_get (pm_pools pm) k") (auto simp: p0)

lemma other_key_idle:
  "\<lbrakk>pool_inv out pm; j \<noteq> k; dict_get (pm_pools pm) j = Some q; c \<in> fst ` set (pool_idle q)\<rbrakk> \<Longrightarrow> pool_key c \<noteq> k \<and> c \<notin> out"
  using pool_invD[of out pm j q] by (auto simp: pool_ok_def)

lemma other_key_used:
  "\<lbrakk>pool_inv out pm; j \<noteq> k; dict_get (pm_pools pm) j = Some q; c \<in> set (pool_in_use q)\<rbrakk> \<Longrightarrow> pool_key c \<noteq> k \<and> c \<in> out"
  using pool_invD[of out pm j q] by (auto simp: pool_ok_def)

lemma pool_acquire_inv:
  assumes inv: "pool_inv out pm"
    and run: "pool_acquire now alive open_fn tid ver (w, pm) = (r, w', pm')"
    and fresh: "\<And>c w1. open_fn w = (Inr c, w1) \<Longrightarrow> fresh_conn out pm c"
  shows "case r of Inr c \<Rightarrow> pool_inv (insert c out) pm' \<and> c \<notin> out \<and> conn_tenant c = tid \<and> conn_version c = ver
    | Inl e \<Rightarrow> pool_inv out pm'"
proof -
  let ?k = "(tid, ver)" and ?pm1 = "evict_idle now pm"
  define p0 where "p0 = (case dict_get (pm_pools ?pm1) ?k of None \<Rightarrow> new_pool (pm_max ?pm1) | Some p \<Rightarrow> p)"
  obtain found rest broken where t: "take_alive (alive w) (rev (pool_idle p0)) = (found, rest, broken)"
    by (metis prod_cases3)
  define p1 where "p1 = p0\<lparr>pool_idle := rev rest\<rparr>"
  define pm2 where "pm2 = close_conns broken (set_pool ?k p1 ?pm1)"
  have inv1: "pool_inv out ?pm1" by (rule evict_inv[OF inv])
  have ok0: "pool_ok (pm_max ?pm1) out (pm_closed ?pm1) ?k p0"
    by (rule acquire_pool_start[OF inv1 p0_def])
  have d0: "distinct (map fst (rev (pool_idle p0)))" using ok0 by (simp add: pool_ok_def rev_map[symmetric])
  have split: "case found of None \<Rightarrow> rest = [] \<and> broken = map fst (rev (pool_idle p0))
     | Some c \<Rightarrow> alive w c \<and> (\<exists>t. map fst (rev (pool_idle p0)) = broken @ c # map fst rest \<and> set rest \<subseteq> set (rev (pool_idle p0)))"
    by (rule take_alive_split[OF t])
  have parts: "set broken \<subseteq> fst ` set (pool_idle p0)" "fst ` set rest \<subseteq> fst ` set (pool_idle p0)"
    "distinct (map fst rest)" "set broken \<inter> fst ` set rest = {}"
  proof -
    show "set broken \<subseteq> fst ` set (pool_idle p0)" "fst ` set rest \<subseteq> fst ` set (pool_idle p0)"
      "distinct (map fst rest)" "set broken \<inter> fst ` set rest = {}"
      using split d0 by (cases found; auto simp: set_eq_iff[of "set (map _ _)"] dest!: arg_cong[where f = set])+
  qed
  have len: "length rest + length (pool_in_use p0) + (case found of None \<Rightarrow> 0 | Some _ \<Rightarrow> 1) \<le> pm_max ?pm1"
    using split ok0 by (cases found) (auto simp: pool_ok_def dest!: arg_cong[where f = length])
  have pools2: "pm_max pm2 = pm_max ?pm1" "pm_pools pm2 = dict_put ?k p1 (pm_pools ?pm1)"
    "set (pm_closed pm2) = set (pm_closed ?pm1) \<union> set broken"
    by (simp_all add: pm2_def close_conns_def set_pool_def)
  have keys: "pool_key c = ?k" "c \<notin> out" "c \<notin> set (pm_closed ?pm1)" if "c \<in> fst ` set (pool_idle p0)" for c
    using ok0 that by (auto simp: pool_ok_def)
  have out1: "out \<inter> set (pm_closed ?pm1) = {}" using inv1 by (simp add: pool_inv_def)
  have ok1: "pool_ok (pm_max ?pm1) out (pm_closed pm2) ?k p1"
  proof -
    have "fst ` set (pool_idle p1) = fst ` set rest" by (simp add: p1_def)
    moreover have "pool_key c = ?k \<and> c \<notin> out \<and> c \<notin> set (pm_closed pm2)" if "c \<in> fst ` set rest" for c
      using that parts keys unfolding pools2(3) by blast
    ultimately show ?thesis using ok0 len parts(3) unfolding pool_ok_def
      by (simp add: p1_def rev_map[symmetric] split: option.splits)
  qed
  have inv2: "pool_inv out pm2"
  proof (rule replace_pool[OF inv1 pools2(1) _ pools2(3)])
    show "pm_pools pm2 = dict_put ?k p1 (pm_pools ?pm1) \<and> pool_ok (pm_max ?pm1) out (pm_closed pm2) ?k p1
      \<or> pm_pools pm2 = dict_pop ?k (pm_pools ?pm1)" using pools2(2) ok1 by simp
    show "out \<inter> set (pm_closed pm2) = {}" using out1 parts(1) keys(2) unfolding pools2(3) by blast
    fix j q c assume j: "j \<noteq> ?k" "dict_get (pm_pools ?pm1) j = Some q"
    show "c \<in> fst ` set (pool_idle q) \<Longrightarrow> c \<notin> set broken \<and> c \<notin> out"
      using other_key_idle[OF inv1 j] parts(1) keys(1) by blast
    show "c \<in> set (pool_in_use q) \<Longrightarrow> c \<in> out" using other_key_used[OF inv1 j] by blast
  qed
  have lend: "pool_inv (insert c out) (set_pool ?k (p1\<lparr>pool_in_use := List.insert c (pool_in_use p1)\<rparr>) pm2)"
    if c: "pool_key c = ?k" "c \<notin> out" "c \<notin> set (pm_closed pm2)" "c \<notin> fst ` set (pool_idle p1)"
      "length (pool_idle p1) + Suc (length (pool_in_use p1)) \<le> pm_max pm2" for c
  proof (rule replace_pool[OF inv2, where C = "{}"])
    have nin: "c \<notin> set (pool_in_use p1)" using ok1 c(2) by (auto simp: pool_ok_def)
    then show "pm_pools (set_pool ?k (p1\<lparr>pool_in_use := List.insert c (pool_in_use p1)\<rparr>) pm2)
        = dict_put ?k (p1\<lparr>pool_in_use := List.insert c (pool_in_use p1)\<rparr>) (pm_pools pm2)
      \<and> pool_ok (pm_max pm2) (insert c out)
          (pm_closed (set_pool ?k (p1\<lparr>pool_in_use := List.insert c (pool_in_use p1)\<rparr>) pm2)) ?k
          (p1\<lparr>pool_in_use := List.insert c (pool_in_use p1)\<rparr>)
      \<or> pm_pools (set_pool ?k (p1\<lparr>pool_in_use := List.insert c (pool_in_use p1)\<rparr>) pm2) = dict_pop ?k (pm_pools pm2)"
      using ok1 c pools2(1) by (auto simp: set_pool_def pool_ok_def)
    have "out \<inter> set (pm_closed pm2) = {}" using inv2 by (simp add: pool_inv_def)
    then show "insert c out \<inter> set (pm_closed (set_pool ?k (p1\<lparr>pool_in_use := List.insert c (pool_in_use p1)\<rparr>) pm2)) = {}"
      using c(3) by (simp add: set_pool_def)
    fix j q d assume j: "j \<noteq> ?k" "dict_get (pm_pools pm2) j = Some q"
    show "d \<in> fst ` set (pool_idle q) \<Longrightarrow> d \<notin> {} \<and> d \<notin> insert c out"
      using other_key_idle[OF inv2 j] c(1) by blast
    show "d \<in> set (pool_in_use q) \<Longrightarrow> d \<in> insert c out" using other_key_used[OF inv2 j] by blast
  qed (simp_all add: set_pool_def)
  have run2: "(case found of Some c \<Rightarrow> (Inr c, w, set_pool ?k (p1\<lparr>pool_in_use := List.insert c (pool_in_use p1)\<rparr>) pm2)
      | None \<Rightarrow> if length (pool_in_use p1) \<ge> pool_max p1 then (Inl (Fault ''PoolExhausted''), w, pm2)
          else case open_fn w of
              (Inl e, w') \<Rightarrow> (Inl e, w', forget_if_empty ?k p1 pm2)
            | (Inr c, w') \<Rightarrow>
                if conn_tenant c \<noteq> tid \<or> conn_version c \<noteq> ver then
                  (Inl (Fault ''PoolExhausted''), w', forget_if_empty ?k p1 (close_conns [c] pm2))
                else (Inr c, w', set_pool ?k (p1\<lparr>pool_in_use := List.insert c (pool_in_use p1)\<rparr>) pm2))
      = (r, w', pm')"
    using run unfolding pool_acquire_def Let_def prod.case unfolding p0_def[symmetric]
    unfolding t prod.case unfolding p1_def[symmetric] unfolding pm2_def[symmetric] .
  show ?thesis
  proof (cases found)
    case (Some c)
    with split obtain t where m: "map fst (rev (pool_idle p0)) = broken @ c # map fst rest" by auto
    have "c \<in> fst ` set (pool_idle p0)" using arg_cong[OF m, of set] by auto
    moreover have "c \<notin> set broken" "c \<notin> fst ` set rest" using d0 unfolding m by auto
    ultimately have "pool_inv (insert c out) (set_pool ?k (p1\<lparr>pool_in_use := List.insert c (pool_in_use p1)\<rparr>) pm2)"
      using keys[of c] len Some by (intro lend) (auto simp: pools2 p1_def)
    then show ?thesis using run2 Some keys[of c] \<open>c \<in> fst ` set (pool_idle p0)\<close>
      by (auto simp: pool_key_def)
  next
    case None
    have forget: "pool_inv out (forget_if_empty ?k p1 pm3)" if i: "pool_inv out pm3" for pm3
    proof (cases "empty_pool p1")
      case True
      have "pool_inv out (pm3\<lparr>pm_pools := dict_pop ?k (pm_pools pm3)\<rparr>)"
        by (rule replace_pool[OF i, where C = "{}" and k = ?k])
          (use i other_key_idle[OF i] other_key_used[OF i] in \<open>auto simp: pool_inv_def\<close>)
      with True show ?thesis by (simp add: forget_if_empty_def)
    qed (simp add: forget_if_empty_def i)
    have fresh2: "fresh_conn out pm2 c" if "open_fn w = (Inr c, w1)" for c w1
    proof -
      have f: "fresh_conn out ?pm1 c" by (rule fresh_evict[OF inv fresh[OF that]])
      then have "c \<notin> fst ` set (pool_idle p0)"
        by (cases "dict_get (pm_pools ?pm1) ?k") (simp_all add: p0_def new_pool_def fresh_conn_def)
      with f parts(1,2) show ?thesis
        unfolding fresh_conn_def pools2 by (auto simp: p1_def split: if_splits)
    qed
    show ?thesis
    proof (cases "length (pool_in_use p1) \<ge> pool_max p1")
      case True
      then show ?thesis using run2 None inv2 by auto
    next
      case False
      obtain q w1 where o: "open_fn w = (q, w1)" by (cases "open_fn w")
      show ?thesis
      proof (cases q)
        case (Inl e)
        then show ?thesis using run2 None False o forget[OF inv2] by auto
      next
        case (Inr c)
        with o have f: "fresh_conn out pm2 c" by (simp add: fresh2)
        show ?thesis
        proof (cases "conn_tenant c \<noteq> tid \<or> conn_version c \<noteq> ver")
          case True
          have "pool_inv out (close_conns [c] pm2)"
            using f inv2 by (auto simp: pool_inv_def pool_ok_def close_conns_def fresh_conn_def)
          from forget[OF this] show ?thesis using run2 None False o Inr True by auto
        next
          case bound: False
          have "rest = []" using split None by simp
          then have "pool_inv (insert c out) (set_pool ?k (p1\<lparr>pool_in_use := List.insert c (pool_in_use p1)\<rparr>) pm2)"
            using f bound False ok1 pools2(1)
            by (intro lend) (auto simp: fresh_conn_def pool_key_def p1_def pool_ok_def)
          then show ?thesis using run2 None False o Inr bound f by (auto simp: fresh_conn_def)
        qed
      qed
    qed
  qed
qed

lemma close_held:
  assumes inv: "pool_inv out pm" and c: "c \<in> out"
    and nu: "\<And>p. dict_get (pm_pools pm) (pool_key c) = Some p \<Longrightarrow> c \<notin> set (pool_in_use p)"
  shows "pool_inv (out - {c}) (close_conns [c] pm)"
proof (rule pool_invI[OF inv, where C = "{c}"])
  show "dict_ok (pm_pools (close_conns [c] pm))" using inv by (simp add: pool_inv_def close_conns_def)
  show "(out - {c}) \<inter> set (pm_closed (close_conns [c] pm)) = {}"
    using inv by (auto simp: pool_inv_def close_conns_def)
  fix k p assume "dict_get (pm_pools (close_conns [c] pm)) k = Some p"
  then have p: "dict_get (pm_pools pm) k = Some p" by (simp add: close_conns_def)
  note ok = pool_invD[OF inv p]
  have "c \<notin> set (pool_in_use p)" using ok nu p by (cases "k = pool_key c") (auto simp: pool_ok_def)
  moreover have "c \<notin> fst ` set (pool_idle p)" using ok c by (auto simp: pool_ok_def)
  ultimately show "pool_ok (pm_max pm) (out - {c}) (pm_closed (close_conns [c] pm)) k p"
    using ok by (auto simp: pool_ok_def close_conns_def)
qed (simp_all add: close_conns_def)

lemma return_pool:
  assumes inv: "pool_inv out pm" and c: "c \<in> out" and p: "dict_get (pm_pools pm) (pool_key c) = Some p"
    and p': "pool_in_use p' = removeAll c (pool_in_use p)" "pool_max p' = pool_max p"
    and idle: "pool_idle p' = pool_idle p \<and> closed = [c]
       \<or> (\<exists>t. pool_idle p' = pool_idle p @ [(c, t)]) \<and> c \<in> set (pool_in_use p) \<and> closed = []"
  shows "pool_inv (out - {c}) (close_conns closed (set_pool (pool_key c) p' pm))"
proof (rule replace_pool[OF inv, where C = "set closed" and k = "pool_key c"])
  note ok = pool_invD[OF inv p]
  have out: "out \<inter> set (pm_closed pm) = {}" using inv by (simp add: pool_inv_def)
  have len: "length (removeAll c (pool_in_use p)) \<le> length (pool_in_use p)"
    "c \<in> set (pool_in_use p) \<Longrightarrow> length (removeAll c (pool_in_use p)) < length (pool_in_use p)"
    by (simp_all add: length_removeAll_less_eq length_removeAll_less)
  have ci: "c \<notin> fst ` set (pool_idle p)" using ok c by (auto simp: pool_ok_def)
  have used: "length (pool_in_use p') \<le> length (pool_in_use p)" "distinct (pool_in_use p')"
    "\<forall>d \<in> set (pool_in_use p'). pool_key d = pool_key c \<and> d \<in> out - {c}" "pool_max p' = pm_max pm"
    using ok len(1) unfolding p' by (auto simp: pool_ok_def distinct_removeAll)
  have total: "length (pool_idle p) + length (pool_in_use p) \<le> pm_max pm"
    and idles: "distinct (map fst (pool_idle p))"
      "\<forall>d \<in> fst ` set (pool_idle p). pool_key d = pool_key c \<and> d \<notin> out \<and> d \<notin> set (pm_closed pm)"
    using ok by (simp_all add: pool_ok_def)
  have okp: "pool_ok (pm_max pm) (out - {c}) (pm_closed pm @ closed) (pool_key c) p'"
    using idle
  proof
    assume i: "pool_idle p' = pool_idle p \<and> closed = [c]"
    then have "pool_idle p' = pool_idle p" "closed = [c]" by simp_all
    moreover have "d \<noteq> c" if "d \<in> fst ` set (pool_idle p)" for d using ci that by blast
    ultimately show ?thesis using total idles used unfolding pool_ok_def by simp
  next
    assume "(\<exists>t. pool_idle p' = pool_idle p @ [(c, t)]) \<and> c \<in> set (pool_in_use p) \<and> closed = []"
    then obtain t where i: "pool_idle p' = pool_idle p @ [(c, t)]" "closed = []" "c \<in> set (pool_in_use p)" by blast
    moreover have "length (pool_in_use p') < length (pool_in_use p)" unfolding p' by (rule len(2)[OF i(3)])
    moreover have "c \<notin> set (pm_closed pm)" using out c by blast
    ultimately show ?thesis using total idles used ci unfolding pool_ok_def by simp
  qed
  show "pm_pools (close_conns closed (set_pool (pool_key c) p' pm)) = dict_put (pool_key c) p' (pm_pools pm)
      \<and> pool_ok (pm_max pm) (out - {c}) (pm_closed (close_conns closed (set_pool (pool_key c) p' pm))) (pool_key c) p'
    \<or> pm_pools (close_conns closed (set_pool (pool_key c) p' pm)) = dict_pop (pool_key c) (pm_pools pm)"
    using okp by (simp add: close_conns_def set_pool_def)
  show "(out - {c}) \<inter> set (pm_closed (close_conns closed (set_pool (pool_key c) p' pm))) = {}"
    using out idle by (auto simp: close_conns_def set_pool_def)
  fix j q d assume j: "j \<noteq> pool_key c" "dict_get (pm_pools pm) j = Some q"
  show "d \<in> fst ` set (pool_idle q) \<Longrightarrow> d \<notin> set closed \<and> d \<notin> out - {c}"
    using other_key_idle[OF inv j, of d] idle by fastforce
  show "d \<in> set (pool_in_use q) \<Longrightarrow> d \<in> out - {c}" using other_key_used[OF inv j] by blast
qed (simp_all add: close_conns_def set_pool_def)

lemma close_conns_Nil [simp]: "close_conns [] pm = pm"
  by (simp add: close_conns_def)

lemma pool_release_inv:
  assumes inv: "pool_inv out pm" and c: "c \<in> out"
  shows "pool_inv (out - {c}) (pool_release now now2 alive resets c w pm)"
proof (cases "dict_get (pm_pools pm) (pool_key c)")
  case None
  then show ?thesis using close_held[OF inv c] by (simp add: pool_release_def)
next
  case (Some p)
  let ?p1 = "p\<lparr>pool_in_use := removeAll c (pool_in_use p)\<rparr>"
  have closed: "pool_inv (out - {c}) (close_conns [c] (set_pool (pool_key c) ?p1 pm))"
    by (rule return_pool[OF inv c Some]) simp_all
  show ?thesis
  proof (cases "c \<in> set (pool_in_use p)")
    case False
    then show ?thesis using Some close_held[OF inv c] by (simp add: pool_release_def)
  next
    case True
    have "pool_inv (out - {c}) (close_conns [] (set_pool (pool_key c) (?p1\<lparr>pool_idle := pool_idle ?p1 @ [(c, now)]\<rparr>) pm))"
      by (rule return_pool[OF inv c Some]) (use True in simp_all)
    moreover have "set_pool (pool_key c) q (set_pool (pool_key c) ?p1 pm) = set_pool (pool_key c) q pm" for q
      by (simp add: set_pool_def dict_put_def)
    ultimately have "pool_inv (out - {c}) (evict_idle now2 (set_pool (pool_key c)
        (?p1\<lparr>pool_idle := pool_idle ?p1 @ [(c, now)]\<rparr>) (set_pool (pool_key c) ?p1 pm)))"
      by (simp add: evict_inv)
    then show ?thesis using Some True closed by (simp add: pool_release_def Let_def)
  qed
qed

lemma pool_discard_inv:
  assumes inv: "pool_inv out pm" and c: "c \<in> out"
  shows "pool_inv (out - {c}) (pool_discard c pm)"
proof (cases "dict_get (pm_pools pm) (pool_key c)")
  case None
  then show ?thesis using close_held[OF inv c] by (simp add: pool_discard_def)
next
  case (Some p)
  have "pool_inv (out - {c}) (close_conns [c] (set_pool (pool_key c) (p\<lparr>pool_in_use := removeAll c (pool_in_use p)\<rparr>) pm))"
    by (rule return_pool[OF inv c Some]) simp_all
  then show ?thesis using Some by (simp add: pool_discard_def)
qed

lemma pool_invalidate_inv:
  assumes inv: "pool_inv out pm" shows "pool_inv out (pool_invalidate_version tid keep pm)"
proof -
  let ?pm = "pool_invalidate_version tid keep pm"
  let ?C = "{c. \<exists>k p. dict_get (pm_pools pm) k = Some p \<and> fst k = tid \<and> snd k \<noteq> keep \<and> c \<in> fst ` set (pool_idle p)}"
  have ok: "dict_ok (pm_pools pm)" and out: "out \<inter> set (pm_closed pm) = {}" using inv by (simp_all add: pool_inv_def)
  have closed: "set (pm_closed ?pm) = set (pm_closed pm) \<union> ?C"
    by (force simp: pool_invalidate_version_def Let_def dict_mem_iff[OF ok, symmetric])
  have pools: "dict_get (pm_pools ?pm) k = (if fst k = tid \<and> snd k \<noteq> keep then None else dict_get (pm_pools pm) k)" for k
    using dict_get_filter_key[of "\<lambda>(t, v). \<not> (t = tid \<and> v \<noteq> keep)" "pm_pools pm" k]
    by (simp add: pool_invalidate_version_def Let_def case_prod_unfold)
  have C: "pool_key c \<notin> {k. dict_get (pm_pools ?pm) k \<noteq> None} \<and> c \<notin> out" if "c \<in> ?C" for c
  proof -
    from that obtain k p where k: "dict_get (pm_pools pm) k = Some p" "fst k = tid" "snd k \<noteq> keep"
      "c \<in> fst ` set (pool_idle p)" by blast
    then have "pool_key c = k" "c \<notin> out" using pool_invD[OF inv k(1)] by (auto simp: pool_ok_def)
    with k show ?thesis by (simp add: pools)
  qed
  show ?thesis
  proof (rule pool_invI[OF inv _ _ closed])
    show "dict_ok (pm_pools ?pm)" using ok by (simp add: pool_invalidate_version_def Let_def dict_ok_filter)
    show "out \<inter> set (pm_closed ?pm) = {}" using out C unfolding closed by blast
    fix k p assume p: "dict_get (pm_pools ?pm) k = Some p"
    then have "dict_get (pm_pools pm) k = Some p" by (simp add: pools split: if_splits)
    note ok = pool_invD[OF inv this]
    have "c \<notin> ?C" if "c \<in> fst ` set (pool_idle p)" for c
    proof
      assume "c \<in> ?C"
      from C[OF this] have "dict_get (pm_pools ?pm) (pool_key c) = None" by simp
      moreover have "pool_key c = k" using ok that by (auto simp: pool_ok_def)
      ultimately show False using p by simp
    qed
    then show "pool_ok (pm_max pm) out (pm_closed ?pm) k p"
      using ok unfolding pool_ok_def closed by blast
  qed (simp add: pool_invalidate_version_def Let_def)
qed

section \<open>Runs of a pool manager\<close>

text \<open>
  Every interleaving of lock-protected operations, with the set of connections the callers hold.
  A successful open delivers a fresh connection.
\<close>

inductive pool_run :: "pool_mgr \<Rightarrow> 'w \<Rightarrow> pool_mgr \<Rightarrow> conn set \<Rightarrow> bool" for start :: pool_mgr where
  init: "pool_run start w start {}"
| outside: "pool_run start w pm out \<Longrightarrow> pool_run start w' pm out"
| acquired: "\<lbrakk>pool_run start w pm out; pool_acquire now alive open_fn tid ver (w, pm) = (Inr c, w', pm');
     \<And>c w1. open_fn w = (Inr c, w1) \<Longrightarrow> fresh_conn out pm c\<rbrakk> \<Longrightarrow> pool_run start w' pm' (insert c out)"
| refused: "\<lbrakk>pool_run start w pm out; pool_acquire now alive open_fn tid ver (w, pm) = (Inl e, w', pm');
     \<And>c w1. open_fn w = (Inr c, w1) \<Longrightarrow> fresh_conn out pm c\<rbrakk> \<Longrightarrow> pool_run start w' pm' out"
| released: "\<lbrakk>pool_run start w pm out; c \<in> out\<rbrakk>
     \<Longrightarrow> pool_run start w (pool_release now now2 alive resets c w pm) (out - {c})"
| discarded: "\<lbrakk>pool_run start w pm out; c \<in> out\<rbrakk> \<Longrightarrow> pool_run start w (pool_discard c pm) (out - {c})"
| invalidated: "pool_run start w pm out \<Longrightarrow> pool_run start w (pool_invalidate_version tid keep pm) out"

definition new_manager :: "nat \<Rightarrow> int \<Rightarrow> pool_mgr" where
  "new_manager n timeout = \<lparr>pm_max = n, pm_idle_timeout = timeout, pm_pools = [], pm_closed = []\<rparr>"

lemma new_manager_inv: "pool_inv {} (new_manager n timeout)"
  by (simp add: pool_inv_def new_manager_def)

lemma pool_run_inv: "\<lbrakk>pool_run start w pm out; pool_inv {} start\<rbrakk> \<Longrightarrow> pool_inv out pm"
proof (induction rule: pool_run.induct)
  case (acquired w pm out now alive open_fn tid ver c w' pm')
  then show ?case using pool_acquire_inv[of out pm now alive open_fn tid ver w "Inr c" w' pm'] by simp
next
  case (refused w pm out now alive open_fn tid ver e w' pm')
  then show ?case using pool_acquire_inv[of out pm now alive open_fn tid ver w "Inl e" w' pm'] by simp
qed (simp_all add: pool_release_inv pool_discard_inv pool_invalidate_inv)

lemma pool_acquire_in_use:
  assumes "pool_acquire now alive open_fn tid ver (w, pm) = (Inr c, w', pm')"
  shows "\<exists>p. dict_get (pm_pools pm') (tid, ver) = Some p \<and> c \<in> set (pool_in_use p)"
  using assms
  by (auto simp: pool_acquire_def Let_def set_pool_def split: prod.splits option.splits sum.splits if_splits)

section \<open>The interface: exclusive, bound loans\<close>

locale exclusive_pool =
  fixes ok :: "conn set \<Rightarrow> 'p \<Rightarrow> bool"
    and lends :: "conn set \<Rightarrow> 'p \<Rightarrow> string \<Rightarrow> string \<Rightarrow> conn \<Rightarrow> 'p \<Rightarrow> bool"
  assumes loan: "\<lbrakk>ok out p; lends out p t v c p'\<rbrakk>
     \<Longrightarrow> ok (insert c out) p' \<and> c \<notin> out \<and> conn_tenant c = t \<and> conn_version c = v"
begin

lemma two_borrowers:
  "\<lbrakk>ok out p; lends out p t v c p1; lends (insert c out) p1 t' v' c' p2\<rbrakk> \<Longrightarrow> c' \<noteq> c \<and> conn_tenant c' = t'"
  using loan[of out p t v c p1] loan[of "insert c out" p1 t' v' c' p2] by blast

end

definition pool_lends :: "conn set \<Rightarrow> pool_mgr \<Rightarrow> string \<Rightarrow> string \<Rightarrow> conn \<Rightarrow> pool_mgr \<Rightarrow> bool" where
  "pool_lends out pm tid ver c pm' \<longleftrightarrow>
     (\<exists>now alive w w' r. pool_acquire now alive (\<lambda>w :: unit. (r, w)) tid ver (w, pm) = (Inr c, w', pm')
        \<and> (\<forall>d. r = Inr d \<longrightarrow> fresh_conn out pm d))"

interpretation pools: exclusive_pool pool_inv pool_lends
proof
  fix out p t v c p' assume "pool_inv out p" "pool_lends out p t v c p'"
  then show "pool_inv (insert c out) p' \<and> c \<notin> out \<and> conn_tenant c = t \<and> conn_version c = v"
    unfolding pool_lends_def using pool_acquire_inv[of out p] by fastforce
qed

end
