(* ===== verification/Shared.thy ===== *)
theory Shared
  imports Prelude
begin

text \<open>
  The values \<open>json.loads\<close> returns, as the services inspect them: what \<open>isinstance\<close> and \<open>get\<close> see of
  a decoded document, and the cells of a database row. Objects are dictionaries with distinct keys.
  Numbers with a fraction or exponent carry the source text \<open>float()\<close> was given.
\<close>

datatype json =
    JNull
  | JBool bool
  | JInt int
  | JFloat string
  | JStr string
  | JList "json list"
  | JObj "(string \<times> json) list"

text \<open>\<open>d.get(k)\<close> and \<open>d[k]\<close> on a decoded object.\<close>

definition obj_get :: "(string \<times> json) list \<Rightarrow> string \<Rightarrow> json" where
  "obj_get d k = (case dict_get d k of None \<Rightarrow> JNull | Some v \<Rightarrow> v)"

definition has_keys :: "(string \<times> json) list \<Rightarrow> string list \<Rightarrow> bool" where
  "has_keys d ks = (set (map fst d) = set ks)"

text \<open>Python truth of a decoded value; a float is false exactly when it is a zero.\<close>

definition zero_float :: "string \<Rightarrow> bool" where
  "zero_float t = list_all (\<lambda>c. c \<notin> set ''123456789NIan'') (takeWhile (\<lambda>c. c \<noteq> CHR ''e'' \<and> c \<noteq> CHR ''E'') t)"

definition truthy :: "json \<Rightarrow> bool" where
  "truthy v = (case v of
      JNull \<Rightarrow> False | JBool b \<Rightarrow> b | JInt n \<Rightarrow> n \<noteq> 0 | JFloat t \<Rightarrow> \<not> zero_float t
    | JStr s \<Rightarrow> s \<noteq> [] | JList xs \<Rightarrow> xs \<noteq> [] | JObj d \<Rightarrow> d \<noteq> [])"

definition str_or_null :: "json \<Rightarrow> string option option" where
  "str_or_null v = (case v of JNull \<Rightarrow> Some None | JStr s \<Rightarrow> Some (Some s) | _ \<Rightarrow> None)"

text \<open>
  The version test \<open>envelope["v"] != 1\<close> of the internal surfaces compares with Python's \<open>==\<close>, which \<open>True\<close> and \<open>1.0\<close> satisfy; the texts of the
  floats equal to one are an argument.
\<close>

definition is_version_one :: "(string \<Rightarrow> bool) \<Rightarrow> json \<Rightarrow> bool" where
  "is_version_one float_one v =
     (case v of JInt n \<Rightarrow> n = 1 | JBool b \<Rightarrow> b | JFloat t \<Rightarrow> float_one t | _ \<Rightarrow> False)"

text \<open>UTF-8 length of a string whose characters are the first 256 code points.\<close>

definition utf8_length :: "string \<Rightarrow> nat" where
  "utf8_length s = sum_list (map (\<lambda>c. if char_code c < 128 then 1 else 2) s)"

lemma utf8_length_ge: "length s \<le> utf8_length s"
  by (induction s) (simp_all add: utf8_length_def)


text \<open>
  Shapes the services share: the request context (\<open>backend/shared/context.py\<close>), the lineage intent of
  an import (\<open>shared/lineage.py\<close>) and the operational audit event (\<open>shared/audit.py\<close>). Actors and targets of
  an event are references, in the auth router whatever the token's claims decoded to.
\<close>

record request_context =
  rq_correlation_id :: string
  rq_request_id :: "string option"
  rq_active_tenant_id :: "string option"
  rq_principal_ref :: "string option"
  rq_role :: "string option"

record operational_event =
  oe_actor_ref :: json
  oe_action :: string
  oe_correlation_id :: string
  oe_outcome :: string
  oe_target_ref :: "json option"
record lineage_intent =
  li_event_type :: string
  li_occurred_at :: string
  li_actor_ref :: string
  li_source_ref :: string
  li_target_ref :: string
  li_operation :: string
  li_schema_version :: string
  li_derivation_ref :: "string option"
  li_parent_lineage_ref :: "string option"
  li_correlation_id :: "string option"


text \<open>
  The routed tenant session (\<open>backend/shared/session.py\<close>): the small tabular vocabulary the import
  and lineage services and the startup operations are written against. A session is a record of
  its operations over a state \<open>'s\<close> of the session and the database behind it; any operation may
  raise. Rows are dictionaries from column names to cells.
\<close>

type_synonym row = "(string, json) dict"

record ('s, 'e) tenant_session =
  ss_tenant_id :: string
  ss_begin :: "('s, 'e, unit) proc"
  ss_commit :: "('s, 'e, unit) proc"
  ss_rollback :: "('s, 'e, unit) proc"
  ss_close :: "('s, 'e, unit) proc"
  ss_upsert :: "string \<Rightarrow> row \<Rightarrow> row \<Rightarrow> ('s, 'e, bool) proc"
  ss_append :: "string \<Rightarrow> row \<Rightarrow> ('s, 'e, unit) proc"
  ss_update :: "string \<Rightarrow> row \<Rightarrow> row \<Rightarrow> ('s, 'e, unit) proc"
  ss_get :: "string \<Rightarrow> row \<Rightarrow> ('s, 'e, row option) proc"
  ss_latest :: "string \<Rightarrow> row \<Rightarrow> string \<Rightarrow> ('s, 'e, row option) proc"

text \<open>The read-only session of the lineage service.\<close>

record ('s, 'e) read_session =
  rs_tenant_id :: string
  rs_close :: "('s, 'e, unit) proc"
  rs_page :: "string \<Rightarrow> row \<Rightarrow> string \<Rightarrow> bool \<Rightarrow> json option \<Rightarrow> int \<Rightarrow> ('s, 'e, row list) proc"
  rs_traverse :: "string \<Rightarrow> json \<Rightarrow> string \<Rightarrow> string \<Rightarrow> int \<Rightarrow> bool \<Rightarrow> ('s, 'e, row list) proc"

text \<open>\<open>sep.join(parts)\<close>.\<close>

fun join :: "string \<Rightarrow> string list \<Rightarrow> string" where
  "join sep [] = []"
| "join sep [p] = p"
| "join sep (p # q # ps) = p @ sep @ join sep (q # ps)"

text \<open>\<open>dict.update\<close> with the items of another dictionary, in order.\<close>

definition dict_merge :: "('k, 'v) dict \<Rightarrow> ('k, 'v) dict \<Rightarrow> ('k, 'v) dict" where
  "dict_merge d e = fold (\<lambda>(k, v). dict_put k v) e d"

lemma dict_get_merge:
  "dict_ok e \<Longrightarrow> dict_get (dict_merge d e) k = (case dict_get e k of None \<Rightarrow> dict_get d k | Some v \<Rightarrow> Some v)"
proof (induction e arbitrary: d)
  case (Cons x e)
  obtain j v where x: "x = (j, v)" by (cases x)
  have ok: "dict_ok e" and none: "dict_get e j = None" using Cons.prems x
    by (auto simp: dict_ok_def dict_get_def map_of_eq_None_iff)
  have "dict_get (dict_merge d (x # e)) k = (case dict_get e k of None \<Rightarrow> dict_get (dict_put j v d) k | Some u \<Rightarrow> Some u)"
    using Cons.IH[OF ok, of "dict_put j v d"] by (simp add: dict_merge_def x)
  moreover have "dict_get (x # e) k = (if j = k then Some v else dict_get e k)" by (simp add: dict_get_def x)
  ultimately show ?case using none by (auto split: option.splits)
qed (simp add: dict_merge_def)

section \<open>What a transaction promises\<close>

text \<open>
  \<open>stored\<close> reads the committed contents of the tenant database off the state. Only a commit
  publishes; a commit that raises publishes nothing.
\<close>

definition transactional :: "('s, 'e) tenant_session \<Rightarrow> ('s \<Rightarrow> 'd) \<Rightarrow> bool" where
  "transactional S stored \<longleftrightarrow>
     keeps (\<lambda>s t. stored t = stored s) (ss_begin S) \<and> keeps (\<lambda>s t. stored t = stored s) (ss_rollback S)
     \<and> keeps (\<lambda>s t. stored t = stored s) (ss_close S)
     \<and> (\<forall>t k r. keeps (\<lambda>s t. stored t = stored s) (ss_upsert S t k r))
     \<and> (\<forall>t r. keeps (\<lambda>s t. stored t = stored s) (ss_append S t r))
     \<and> (\<forall>t k r. keeps (\<lambda>s t. stored t = stored s) (ss_update S t k r))
     \<and> (\<forall>t k. keeps (\<lambda>s t. stored t = stored s) (ss_get S t k))
     \<and> (\<forall>t k c. keeps (\<lambda>s t. stored t = stored s) (ss_latest S t k c))
     \<and> (\<forall>s e t. ss_commit S s = (Inl e, t) \<longrightarrow> stored t = stored s)"

lemma transactional_keeps:
  assumes "transactional S stored"
  shows "keeps (unchanged stored) (ss_begin S)" "keeps (unchanged stored) (ss_rollback S)"
    "keeps (unchanged stored) (ss_close S)" "keeps (unchanged stored) (ss_upsert S t k r)"
    "keeps (unchanged stored) (ss_append S t r)" "keeps (unchanged stored) (ss_update S t k r)"
    "keeps (unchanged stored) (ss_get S t k)" "keeps (unchanged stored) (ss_latest S t k c)"
  using assms unfolding transactional_def unchanged_def[abs_def] by simp_all

end
