(* ===== verification/DR_Router.thy ===== *)
theory DR_Router
  imports DR_Pool Shared
begin

text \<open>
  The database router (\<open>backend/database_router/resolver.py\<close>, \<open>router.py\<close>, with the shapes of
  \<open>models.py\<close>, \<open>shared/context.py\<close> and \<open>shared/session.py\<close>). The router's own state is the view
  cache and its one or two pool managers. The control plane's read API, the secret store, the
  database driver, the audit sink, the clocks and the identifier source are the outside world
  \<open>'w\<close>, reached through the record of ports; each may raise.
\<close>

section \<open>Requests, results, events\<close>

datatype lane = INTERACTIVE | BULK

definition lane_value :: "lane \<Rightarrow> string" where
  "lane_value l = (case l of INTERACTIVE \<Rightarrow> ''interactive'' | BULK \<Rightarrow> ''bulk'')"

datatype routing_target = TO_TENANT | TO_CONTROL

record route_result =
  rr_target :: routing_target
  rr_tenant_id :: "string option"
  rr_association_version :: "string option"
  rr_connection :: "conn option"
  rr_lane :: lane

record routing_event =
  re_actor_ref :: string
  re_action :: string
  re_correlation_id :: string
  re_outcome :: string
  re_target_ref :: "string option"
  re_event_id :: string
  re_event_version :: int
  re_occurred_at :: string
  re_source_service :: string
  re_source_version :: string
  re_request_ref :: "string option"
  re_resolved_tenant_ref :: "string option"
  re_public_code :: "string option"
  re_association_store_ref :: "string option"
  re_association_version :: "string option"
  re_lane :: "string option"

section \<open>State and ports\<close>

record 'w router =
  rt_world :: 'w
  rt_cache :: routing_cache
  rt_pool :: pool_mgr
  rt_bulk :: "pool_mgr option"

record 'w router_ports =
  rp_now :: "'w \<Rightarrow> int"
  rp_mint :: "'w \<Rightarrow> (string \<times> string) \<times> 'w"
  rp_read :: "string \<Rightarrow> ('w, dr_error, tenant_routing_view option) proc"
  rp_secret :: "secret_ref \<Rightarrow> ('w, dr_error, string) proc"
  rp_open :: "string \<Rightarrow> string \<Rightarrow> string \<Rightarrow> ('w, dr_error, conn) proc"
  rp_alive :: "'w \<Rightarrow> conn \<Rightarrow> bool"
  rp_resets :: "'w \<Rightarrow> conn \<Rightarrow> bool"
  rp_initiate :: "routing_event \<Rightarrow> ('w, dr_error, unit) proc"
  rp_supported :: "string list"

type_synonym ('w, 'a) dr = "('w router, dr_error, 'a) proc"

definition outside :: "('w, dr_error, 'a) proc \<Rightarrow> ('w, 'a) dr" where
  "outside m = (\<lambda>s. case m (rt_world s) of (r, w) \<Rightarrow> (r, s\<lparr>rt_world := w\<rparr>))"

lemma outside_run [simp]:
  "outside m s = (case m (rt_world s) of (r, w) \<Rightarrow> (r, s\<lparr>rt_world := w\<rparr>))"
  by (simp add: outside_def)

section \<open>The resolver\<close>

definition cached_view :: "'w router_ports \<Rightarrow> string \<Rightarrow> ('w, tenant_routing_view option) dr" where
  "cached_view P tid = (\<lambda>s. case rcache_get (rp_now P (rt_world s)) tid (rt_cache s) of
     (hit, c) \<Rightarrow> (Inr hit, s\<lparr>rt_cache := c\<rparr>))"

definition remember_view :: "'w router_ports \<Rightarrow> string \<Rightarrow> tenant_routing_view \<Rightarrow> ('w, unit) dr" where
  "remember_view P tid view =
     writes (\<lambda>s. s\<lparr>rt_cache := rcache_put (rp_now P (rt_world s)) tid view (rt_cache s)\<rparr>)"

definition fetch_view :: "'w router_ports \<Rightarrow> string \<Rightarrow> ('w, tenant_routing_view) dr" where
  "fetch_view P tid =
     tries (outside (rp_read P tid))
       (\<lambda>_. raise (Denied (denied_unavailable ''control_plane_unavailable'')))
       (\<lambda>answer. case answer of
          None \<Rightarrow> raise (Denied (denied_not_found ''not_found''))
        | Some view \<Rightarrow> andthen (remember_view P tid view) (ret view))"

definition admit_view :: "'w router_ports \<Rightarrow> tenant_routing_view \<Rightarrow> ('w, tenant_routing_view) dr" where
  "admit_view P view =
     (case denial_for_state (rv_lifecycle_state view) (rv_ready view) of
        Some d \<Rightarrow> raise (Denied d)
      | None \<Rightarrow>
          if rv_expected_schema_version view \<notin> set (rp_supported P)
          then raise (Denied (denied_not_ready ''schema_out_of_range''))
          else ret view)"

definition router_resolve :: "'w router_ports \<Rightarrow> string \<Rightarrow> ('w, tenant_routing_view) dr" where
  "router_resolve P tid =
     bnd (cached_view P tid) (\<lambda>hit.
     bnd (case hit of Some view \<Rightarrow> ret view | None \<Rightarrow> fetch_view P tid) (\<lambda>view.
     admit_view P view))"

definition router_invalidate_tenant :: "string \<Rightarrow> ('w, unit) dr" where
  "router_invalidate_tenant tid = writes (\<lambda>s. s\<lparr>rt_cache := rcache_invalidate tid (rt_cache s)\<rparr>)"

section \<open>Lanes and connections\<close>

definition pool_for :: "lane \<Rightarrow> 'w router \<Rightarrow> pool_mgr" where
  "pool_for l s = (case (l, rt_bulk s) of (BULK, Some pm) \<Rightarrow> pm | _ \<Rightarrow> rt_pool s)"

definition put_pool_for :: "lane \<Rightarrow> pool_mgr \<Rightarrow> 'w router \<Rightarrow> 'w router" where
  "put_pool_for l pm s =
     (case (l, rt_bulk s) of (BULK, Some _) \<Rightarrow> s\<lparr>rt_bulk := Some pm\<rparr> | _ \<Rightarrow> s\<lparr>rt_pool := pm\<rparr>)"

text \<open>The credential is resolved at connect time only, and is passed to the driver at once.\<close>

definition open_connection :: "'w router_ports \<Rightarrow> string \<Rightarrow> secret_ref \<Rightarrow> ('w, dr_error, conn) proc" where
  "open_connection P tid ref =
     bnd (rp_secret P ref) (\<lambda>descriptor. rp_open P tid (ref_version ref) descriptor)"

definition lane_acquire ::
    "'w router_ports \<Rightarrow> lane \<Rightarrow> string \<Rightarrow> secret_ref \<Rightarrow> ('w, conn) dr" where
  "lane_acquire P l tid ref = (\<lambda>s.
     case pool_acquire (rp_now P (rt_world s)) (rp_alive P) (open_connection P tid ref) tid (ref_version ref)
            (rt_world s, pool_for l s) of
       (r, w, pm) \<Rightarrow> (r, put_pool_for l pm (s\<lparr>rt_world := w\<rparr>)))"

definition router_acquire ::
    "'w router_ports \<Rightarrow> string \<Rightarrow> secret_ref \<Rightarrow> lane \<Rightarrow> ('w, conn) dr" where
  "router_acquire P tid ref l =
     tries (lane_acquire P l tid ref)
       (\<lambda>e. case e of
          Denied d \<Rightarrow> raise (Denied d)
        | Fault _ \<Rightarrow> raise (Denied (denied_unavailable ''connection_unavailable'')))
       ret"

definition lane_discard :: "lane \<Rightarrow> conn \<Rightarrow> ('w, unit) dr" where
  "lane_discard l c = writes (\<lambda>s. put_pool_for l (pool_discard c (pool_for l s)) s)"

definition router_release :: "'w router_ports \<Rightarrow> route_result \<Rightarrow> ('w, unit) dr" where
  "router_release P res =
     (case rr_connection res of
        None \<Rightarrow> ret ()
      | Some c \<Rightarrow> writes (\<lambda>s. let now = rp_now P (rt_world s) in
          put_pool_for (rr_lane res)
            (pool_release now now (rp_alive P) (rp_resets P) c (rt_world s) (pool_for (rr_lane res) s)) s))"

section \<open>Audit\<close>

definition mint ::
    "'w router_ports \<Rightarrow> request_context \<Rightarrow> string \<Rightarrow> string \<Rightarrow> string option \<Rightarrow> string option
      \<Rightarrow> string option \<Rightarrow> string option \<Rightarrow> string option \<Rightarrow> string option \<Rightarrow> ('w, routing_event) dr" where
  "mint P ctx action result tid resolved code assoc_ref assoc_version l = (\<lambda>s.
     case rp_mint P (rt_world s) of ((event_id, occurred_at), w) \<Rightarrow>
       (Inr \<lparr>re_actor_ref = (case rq_principal_ref ctx of None \<Rightarrow> ''<unknown>''
                              | Some p \<Rightarrow> if p = [] then ''<unknown>'' else p),
             re_action = action, re_correlation_id = rq_correlation_id ctx, re_outcome = result,
             re_target_ref = tid, re_event_id = event_id, re_event_version = 1,
             re_occurred_at = occurred_at, re_source_service = ''database_router'',
             re_source_version = ''4'', re_request_ref = rq_request_id ctx,
             re_resolved_tenant_ref = resolved, re_public_code = code,
             re_association_store_ref = assoc_ref, re_association_version = assoc_version,
             re_lane = l\<rparr>,
        s\<lparr>rt_world := w\<rparr>))"

definition route_ok ::
    "'w router_ports \<Rightarrow> request_context \<Rightarrow> string option \<Rightarrow> string \<Rightarrow> string option \<Rightarrow> string option
      \<Rightarrow> string option \<Rightarrow> string option \<Rightarrow> ('w, unit) dr" where
  "route_ok P ctx tid action resolved assoc_ref assoc_version l =
     bnd (mint P ctx action ''success'' tid resolved None assoc_ref assoc_version l)
       (\<lambda>ev. outside (rp_initiate P ev))"

definition route_denied :: "'w router_ports \<Rightarrow> request_context \<Rightarrow> string option \<Rightarrow> string \<Rightarrow> ('w, unit) dr" where
  "route_denied P ctx tid code =
     bnd (mint P ctx ''RouteDenied'' (''denied:'' @ code) tid None (Some code) None None None)
       (\<lambda>ev. outside (rp_initiate P ev))"

definition route_anomaly ::
    "'w router_ports \<Rightarrow> request_context \<Rightarrow> string option \<Rightarrow> string option \<Rightarrow> ('w, unit) dr" where
  "route_anomaly P ctx tid resolved =
     bnd (mint P ctx ''IsolationAnomaly'' ''anomaly:tenant_binding'' tid resolved None None None None)
       (\<lambda>ev. outside (rp_initiate P ev))"

section \<open>Routing\<close>

definition determine_target :: "request_context \<Rightarrow> bool \<Rightarrow> dr_error + routing_target" where
  "determine_target ctx bootstrap_phase0 =
     (if rq_active_tenant_id ctx \<noteq> None then
        (if bootstrap_phase0 then Inl (Denied (denied_unavailable ''tenant_routing_unavailable''))
         else Inr TO_TENANT)
      else if rq_role ctx = Some ''CONTROL'' then Inr TO_CONTROL
      else Inl (Denied (denied_forbidden ''no_active_tenant'')))"

text \<open>\<open>except RoutingDenied as denied: self._denied(...); raise\<close>: another exception passes unaudited.\<close>

definition audit_and_reraise ::
    "'w router_ports \<Rightarrow> request_context \<Rightarrow> string option \<Rightarrow> dr_error \<Rightarrow> ('w, 'a) dr" where
  "audit_and_reraise P ctx tid e =
     (case e of
        Denied d \<Rightarrow> andthen (route_denied P ctx tid (rd_code d)) (raise (Denied d))
      | Fault m \<Rightarrow> raise (Fault m))"

definition hand_back ::
    "'w router_ports \<Rightarrow> request_context \<Rightarrow> string \<Rightarrow> lane \<Rightarrow> tenant_routing_view \<Rightarrow> conn
      \<Rightarrow> ('w, route_result) dr" where
  "hand_back P ctx tid l view c =
     (if conn_tenant c \<noteq> tid then
        andthen (route_anomaly P ctx (Some tid) (Some (conn_tenant c)))
        (andthen (lane_discard l c)
        (raise (Denied (denied_unavailable ''routing_isolation_fault''))))
      else tries (route_ok P ctx (Some tid) ''Route'' (Some (conn_tenant c))
                    (Some (store_ref (rv_association view))) (Some (conn_version c)) (Some (lane_value l)))
             (\<lambda>_. andthen (lane_discard l c) (raise (Denied (denied_unavailable ''routing_audit_unavailable''))))
             (\<lambda>_. ret \<lparr>rr_target = TO_TENANT, rr_tenant_id = Some tid,
                       rr_association_version = Some (conn_version c), rr_connection = Some c, rr_lane = l\<rparr>))"

definition bind_tenant :: "'w router_ports \<Rightarrow> string \<Rightarrow> lane \<Rightarrow> ('w, tenant_routing_view \<times> conn) dr" where
  "bind_tenant P tid l =
     bnd (router_resolve P tid) (\<lambda>view.
     bnd (router_acquire P (rv_tenant_id view) (rv_association view) l) (\<lambda>c. ret (view, c)))"

definition route_tenant :: "'w router_ports \<Rightarrow> request_context \<Rightarrow> string \<Rightarrow> lane \<Rightarrow> ('w, route_result) dr" where
  "route_tenant P ctx tid l =
     tries (bind_tenant P tid l) (audit_and_reraise P ctx (Some tid))
       (\<lambda>(view, c). hand_back P ctx tid l view c)"

definition route_control :: "'w router_ports \<Rightarrow> request_context \<Rightarrow> ('w, route_result) dr" where
  "route_control P ctx =
     tries (route_ok P ctx None ''RouteControl'' None None None None)
       (\<lambda>_. raise (Denied (denied_unavailable ''routing_audit_unavailable'')))
       (\<lambda>_. ret \<lparr>rr_target = TO_CONTROL, rr_tenant_id = None, rr_association_version = None,
                 rr_connection = None, rr_lane = INTERACTIVE\<rparr>)"

definition route :: "'w router_ports \<Rightarrow> request_context \<Rightarrow> bool \<Rightarrow> lane \<Rightarrow> ('w, route_result) dr" where
  "route P ctx bootstrap_phase0 l =
     (case determine_target ctx bootstrap_phase0 of
        Inl e \<Rightarrow> audit_and_reraise P ctx (rq_active_tenant_id ctx) e
      | Inr TO_CONTROL \<Rightarrow> route_control P ctx
      | Inr TO_TENANT \<Rightarrow> route_tenant P ctx (the (rq_active_tenant_id ctx)) l)"

lemma pool_for_put [simp]: "pool_for l (put_pool_for l pm s) = pm"
  by (simp add: pool_for_def put_pool_for_def split: lane.splits option.splits)

lemma put_pool_for_other [simp]:
  "rt_world (put_pool_for l pm s) = rt_world s" "rt_cache (put_pool_for l pm s) = rt_cache s"
  by (simp_all add: put_pool_for_def split: lane.splits option.splits)

lemma pool_for_world [simp]: "pool_for l (s\<lparr>rt_world := w\<rparr>) = pool_for l s"
  "pool_for l (s\<lparr>rt_cache := c\<rparr>) = pool_for l s"
  by (simp_all add: pool_for_def split: lane.splits option.splits)

section \<open>Which calls can raise what\<close>

lemma denial_Ready [simp]: "denial_for_state ''Ready'' True = None"
  by simp

lemma cached_view_run:
  "cached_view P tid s = (Inr (rcache_peek (rp_now P (rt_world s)) (rt_cache s) tid),
     s\<lparr>rt_cache := snd (rcache_get (rp_now P (rt_world s)) tid (rt_cache s))\<rparr>)"
  by (simp add: cached_view_def rcache_peek_def case_prod_unfold)

lemma admit_view_Inr:
  "admit_view P view s = (Inr v, s') \<longleftrightarrow> v = view \<and> s' = s \<and> rv_lifecycle_state view = ''Ready'' \<and> rv_ready view
     \<and> rv_expected_schema_version view \<in> set (rp_supported P)"
  by (auto simp: admit_view_def split: option.splits)

lemma fetch_view_Inl: "fetch_view P tid s = (Inl e, s') \<Longrightarrow> \<exists>d. e = Denied d"
  by (auto simp: fetch_view_def remember_view_def split: prod.splits sum.splits option.splits)

lemma admit_view_Inl: "admit_view P view s = (Inl e, s') \<Longrightarrow> \<exists>d. e = Denied d"
  by (auto simp: admit_view_def split: option.splits if_splits)

lemma resolve_Inl:
  assumes "router_resolve P tid s = (Inl e, s')" shows "\<exists>d. e = Denied d"
proof (cases "rcache_peek (rp_now P (rt_world s)) (rt_cache s) tid")
  case None
  with assms show ?thesis
    by (auto simp: router_resolve_def cached_view_run dest: fetch_view_Inl admit_view_Inl split: prod.splits sum.splits)
next
  case (Some v)
  with assms show ?thesis by (auto simp: router_resolve_def cached_view_run dest: admit_view_Inl)
qed

lemma acquire_Inl: "router_acquire P tid ref l s = (Inl e, s') \<Longrightarrow> \<exists>d. e = Denied d"
  by (auto simp: router_acquire_def split: prod.splits sum.splits dr_error.splits)

lemma bind_Inl: "bind_tenant P tid l s = (Inl e, s') \<Longrightarrow> \<exists>d. e = Denied d"
  by (auto simp: bind_tenant_def dest: resolve_Inl acquire_Inl split: prod.splits sum.splits)

text \<open>A view the router may route by: Ready, of a supported schema, and cached or just read.\<close>

definition admitted :: "'w router_ports \<Rightarrow> 'w router \<Rightarrow> string \<Rightarrow> tenant_routing_view \<Rightarrow> bool" where
  "admitted P s tid view \<longleftrightarrow>
     rv_lifecycle_state view = ''Ready'' \<and> rv_ready view \<and> rv_expected_schema_version view \<in> set (rp_supported P)
     \<and> (rcache_peek (rp_now P (rt_world s)) (rt_cache s) tid = Some view
        \<or> (\<exists>w. rp_read P tid (rt_world s) = (Inr (Some view), w)))"

lemma resolve_Inr:
  assumes "router_resolve P tid s = (Inr view, s')"
  shows "admitted P s tid view"
proof (cases "rcache_peek (rp_now P (rt_world s)) (rt_cache s) tid")
  case None
  with assms show ?thesis
    by (auto simp: router_resolve_def cached_view_run admitted_def admit_view_Inr fetch_view_def remember_view_def
        split: prod.splits sum.splits option.splits)
next
  case (Some v)
  with assms show ?thesis by (auto simp: router_resolve_def cached_view_run admitted_def admit_view_Inr)
qed

lemma bind_Inr:
  "bind_tenant P tid l s = (Inr (view, c), s') \<longleftrightarrow> (\<exists>s1. router_resolve P tid s = (Inr view, s1)
     \<and> router_acquire P (rv_tenant_id view) (rv_association view) l s1 = (Inr c, s'))"
  by (auto simp: bind_tenant_def split: prod.splits sum.splits)

lemma acquire_Inr:
  "router_acquire P tid ref l s = (Inr c, s') \<longleftrightarrow> lane_acquire P l tid ref s = (Inr c, s')"
  by (auto simp: router_acquire_def split: prod.splits sum.splits dr_error.splits)

section \<open>The pools across a request\<close>

lemma resolve_pools:
  assumes "router_resolve P tid s = (r, s')"
  shows "pool_for l s' = pool_for l s" "rt_bulk s' = rt_bulk s"
  using assms
  by (auto simp: router_resolve_def cached_view_run fetch_view_def remember_view_def admit_view_def
      split: prod.splits sum.splits option.splits if_splits)

lemma lane_acquire_inv:
  assumes inv: "pool_inv out (pool_for l s)"
    and run: "lane_acquire P l tid ref s = (r, s')"
    and fresh: "\<And>d w c w1. rp_open P tid (ref_version ref) d w = (Inr c, w1) \<Longrightarrow> fresh_conn out (pool_for l s) c"
  shows "case r of Inr c \<Rightarrow> pool_inv (insert c out) (pool_for l s') \<and> c \<notin> out \<and> conn_tenant c = tid \<and> conn_version c = ref_version ref
    | Inl e \<Rightarrow> pool_inv out (pool_for l s')"
proof -
  obtain w pm where a: "pool_acquire (rp_now P (rt_world s)) (rp_alive P) (open_connection P tid ref) tid
      (ref_version ref) (rt_world s, pool_for l s) = (r, w, pm)" and s': "s' = put_pool_for l pm (s\<lparr>rt_world := w\<rparr>)"
    using run by (auto simp: lane_acquire_def split: prod.splits)
  have opened: "fresh_conn out (pool_for l s) c" if "open_connection P tid ref (rt_world s) = (Inr c, w1)" for c w1
    using that fresh by (auto simp: open_connection_def split: prod.splits sum.splits)
  have "case r of Inr c \<Rightarrow> pool_inv (insert c out) pm \<and> c \<notin> out \<and> conn_tenant c = tid \<and> conn_version c = ref_version ref
    | Inl e \<Rightarrow> pool_inv out pm" by (rule pool_acquire_inv[OF inv a]) (rule opened)
  then show ?thesis by (cases r) (simp_all add: s')
qed

lemma route_ok_pools: "route_ok P ctx t a x y z l s = (r, s') \<Longrightarrow> pool_for k s' = pool_for k s"
  by (auto simp: route_ok_def mint_def split: prod.splits)

lemma route_anomaly_pools: "route_anomaly P ctx t x s = (r, s') \<Longrightarrow> pool_for k s' = pool_for k s"
  by (auto simp: route_anomaly_def mint_def split: prod.splits)

lemma route_denied_pools: "route_denied P ctx t x s = (r, s') \<Longrightarrow> pool_for k s' = pool_for k s"
  by (auto simp: route_denied_def mint_def split: prod.splits)

lemma reraise_Inl: "audit_and_reraise P ctx t e s = (r, s') \<Longrightarrow> (\<exists>x. r = Inl x) \<and> pool_for k s' = pool_for k s"
  by (auto simp: audit_and_reraise_def dest: route_denied_pools[of P ctx t _ s _ _ k] split: dr_error.splits prod.splits sum.splits)

lemma lane_discard_run: "lane_discard l c s = (Inr (), put_pool_for l (pool_discard c (pool_for l s)) s)"
  by (simp add: lane_discard_def)

lemma bind_inv:
  assumes inv: "pool_inv out (pool_for l s)" and run: "bind_tenant P tid l s = (r, s')"
    and fresh: "\<And>t v d w c w1. rp_open P t v d w = (Inr c, w1) \<Longrightarrow> fresh_conn out (pool_for l s) c"
  shows "case r of Inr (view, c) \<Rightarrow> pool_inv (insert c out) (pool_for l s') \<and> c \<notin> out
        \<and> conn_tenant c = rv_tenant_id view \<and> conn_version c = ref_version (rv_association view)
    | Inl e \<Rightarrow> pool_inv out (pool_for l s')"
proof -
  obtain q s1 where q: "router_resolve P tid s = (q, s1)" by (cases "router_resolve P tid s")
  note same = resolve_pools(1)[OF q, of l]
  show ?thesis
  proof (cases q)
    case (Inl e)
    with run q have "r = Inl e" "s' = s1" by (simp_all add: bind_tenant_def)
    with same inv show ?thesis by simp
  next
    case (Inr view)
    obtain p s2 where p: "lane_acquire P l (rv_tenant_id view) (rv_association view) s1 = (p, s2)"
      by (cases "lane_acquire P l (rv_tenant_id view) (rv_association view) s1")
    have "case p of Inr c \<Rightarrow> pool_inv (insert c out) (pool_for l s2) \<and> c \<notin> out
        \<and> conn_tenant c = rv_tenant_id view \<and> conn_version c = ref_version (rv_association view)
      | Inl e \<Rightarrow> pool_inv out (pool_for l s2)"
      by (rule lane_acquire_inv[OF _ p]) (simp_all add: same inv fresh)
    with run q Inr p show ?thesis
      by (cases p) (auto simp: bind_tenant_def router_acquire_def split: dr_error.splits)
  qed
qed

section \<open>What a route hands back\<close>

lemma mint_run:
  obtains ev s1 where "mint P ctx action result t resolved code aref aver ln s = (Inr ev, s1)"
    and "rt_world s1 = snd (rp_mint P (rt_world s))"
    and "re_action ev = action" "re_outcome ev = result" "re_target_ref ev = t"
    and "re_resolved_tenant_ref ev = resolved" "re_public_code ev = code"
    and "re_correlation_id ev = rq_correlation_id ctx"
proof -
  obtain i o' w where "rp_mint P (rt_world s) = ((i, o'), w)" by (metis prod_cases3 surj_pair)
  then show ?thesis by (intro that) (auto simp: mint_def)
qed

lemma emit_accepted:
  assumes "\<And>ev w. re_action ev = ''IsolationAnomaly'' \<Longrightarrow> fst (rp_initiate P ev w) = Inr ()"
  shows "fst (route_anomaly P ctx t x s) = Inr ()"
proof -
  obtain ev s1 where m: "mint P ctx ''IsolationAnomaly'' ''anomaly:tenant_binding'' t x None None None None s = (Inr ev, s1)"
    and "re_action ev = ''IsolationAnomaly''" by (rule mint_run)
  then show ?thesis
    using assms[of ev "rt_world s1"] by (cases "rp_initiate P ev (rt_world s1)") (simp add: route_anomaly_def)
qed

lemma hand_back_Inr:
  assumes "hand_back P ctx tid l view c s = (Inr res, s')"
  shows "conn_tenant c = tid \<and> pool_for k s' = pool_for k s
    \<and> res = \<lparr>rr_target = TO_TENANT, rr_tenant_id = Some tid, rr_association_version = Some (conn_version c),
             rr_connection = Some c, rr_lane = l\<rparr>"
  using assms unfolding hand_back_def
  by (auto split: if_splits prod.splits sum.splits dest: route_ok_pools[of P ctx _ _ _ _ _ _ s _ _ k])

lemma hand_back_Inl:
  assumes inv: "pool_inv (insert c out) (pool_for l s)" "c \<notin> out"
    and run: "hand_back P ctx tid l view c s = (Inl e, s')"
    and told: "\<And>ev w. \<lbrakk>conn_tenant c \<noteq> tid; re_action ev = ''IsolationAnomaly''\<rbrakk> \<Longrightarrow> fst (rp_initiate P ev w) = Inr ()"
  shows "pool_inv out (pool_for l s')"
proof -
  have gone: "pool_inv out (pool_discard c (pool_for l s))"
    using pool_discard_inv[OF inv(1), of c] inv(2) by simp
  show ?thesis
  proof (cases "conn_tenant c = tid")
    case True
    with run obtain x s1 where "route_ok P ctx (Some tid) ''Route'' (Some (conn_tenant c))
        (Some (store_ref (rv_association view))) (Some (conn_version c)) (Some (lane_value l)) s = (Inl x, s1)"
      and s': "s' = put_pool_for l (pool_discard c (pool_for l s1)) s1"
      by (auto simp: hand_back_def lane_discard_run split: prod.splits sum.splits)
    from route_ok_pools[OF this(1)] gone show ?thesis by (simp add: s')
  next
    case False
    obtain q s1 where q: "route_anomaly P ctx (Some tid) (Some (conn_tenant c)) s = (q, s1)"
      by (cases "route_anomaly P ctx (Some tid) (Some (conn_tenant c)) s")
    moreover have "fst (route_anomaly P ctx (Some tid) (Some (conn_tenant c)) s) = Inr ()"
      by (rule emit_accepted) (rule told[OF False])
    ultimately have "s' = put_pool_for l (pool_discard c (pool_for l s1)) s1"
      using run False by (simp add: hand_back_def lane_discard_run)
    with route_anomaly_pools[OF q] gone show ?thesis by simp
  qed
qed

lemma route_control_run:
  "route_control P ctx s = (r, s') \<Longrightarrow> pool_for k s' = pool_for k s \<and> (\<forall>res. r = Inr res \<longrightarrow>
     rr_target res = TO_CONTROL \<and> rr_tenant_id res = None \<and> rr_connection res = None)"
  by (auto simp: route_control_def split: prod.splits sum.splits dest: route_ok_pools[of P ctx _ _ _ _ _ _ s _ _ k])

section \<open>The audit trail of a request\<close>

text \<open>
  \<open>attempts\<close> reads the events handed to the audit sink off the outside world. Only the sink is
  handed events, and what it raises is not a routing denial.
\<close>

definition observed :: "'w router_ports \<Rightarrow> ('w \<Rightarrow> routing_event list) \<Rightarrow> bool" where
  "observed P attempts \<longleftrightarrow>
     (\<forall>w. attempts (snd (rp_mint P w)) = attempts w)
     \<and> (\<forall>t. keeps (\<lambda>w w'. attempts w' = attempts w) (rp_read P t))
     \<and> (\<forall>r. keeps (\<lambda>w w'. attempts w' = attempts w) (rp_secret P r))
     \<and> (\<forall>t v d. keeps (\<lambda>w w'. attempts w' = attempts w) (rp_open P t v d))
     \<and> (\<forall>ev. keeps (\<lambda>w w'. attempts w' = attempts w @ [ev]) (rp_initiate P ev))
     \<and> (\<forall>ev w d. fst (rp_initiate P ev w) \<noteq> Inl (Denied d))"

definition unaudited :: "('w \<Rightarrow> routing_event list) \<Rightarrow> 'w router \<Rightarrow> 'w router \<Rightarrow> bool" where
  "unaudited attempts s t \<longleftrightarrow> attempts (rt_world t) = attempts (rt_world s)"

interpretation unaudited: effect "unaudited attempts" for attempts
  by unfold_locales (simp_all add: unaudited_def)

lemma keeps_outside: "keeps (\<lambda>w w'. attempts w' = attempts w) m \<Longrightarrow> keeps (unaudited attempts) (outside m)"
  by (auto simp: keeps_def unaudited_def split: prod.splits) (metis snd_conv)

lemma pool_acquire_world:
  "fst (snd (pool_acquire now alive opn tid ver (w, pm))) \<in> {w, snd (opn w)}"
  by (auto simp: pool_acquire_def Let_def split: prod.splits option.splits sum.splits)

lemma keeps_lane_acquire:
  fixes P :: "'w router_ports"
  assumes "observed P attempts" shows "keeps (unaudited attempts) (lane_acquire P l tid ref)"
proof (rule keepsI)
  fix s :: "'w router"
  let ?o = "open_connection P tid ref" and ?w = "rt_world s"
  obtain r w pm where a: "pool_acquire (rp_now P ?w) (rp_alive P) ?o tid (ref_version ref) (?w, pool_for l s) = (r, w, pm)"
    by (metis prod_cases3)
  have "attempts (snd (?o ?w)) = attempts ?w"
  proof -
    obtain q w1 where q: "rp_secret P ref ?w = (q, w1)" by (cases "rp_secret P ref ?w")
    have w1: "attempts w1 = attempts ?w" using assms q unfolding observed_def keeps_def by (metis snd_conv)
    have "attempts (snd (rp_open P tid (ref_version ref) d w1)) = attempts w1" for d
      using assms unfolding observed_def keeps_def by blast
    with q w1 show ?thesis by (cases q) (simp_all add: open_connection_def)
  qed
  moreover have "w \<in> {?w, snd (?o ?w)}" using pool_acquire_world[of "rp_now P ?w" "rp_alive P" ?o] a by (metis fst_conv snd_conv)
  ultimately have "attempts w = attempts ?w" by blast
  with a show "unaudited attempts s (snd (lane_acquire P l tid ref s))"
    by (simp add: lane_acquire_def unaudited_def)
qed

lemma keeps_bind:
  assumes "observed P attempts" shows "keeps (unaudited attempts) (bind_tenant P tid l)"
proof -
  have "keeps (unaudited attempts) (cached_view P tid)" "keeps (unaudited attempts) (remember_view P tid v)" for v
    by (simp_all add: keeps_def cached_view_run remember_view_def unaudited_def)
  moreover have "keeps (unaudited attempts) (outside (rp_read P tid))"
    using assms by (intro keeps_outside) (simp add: observed_def)
  moreover have "keeps (unaudited attempts) (admit_view P v)" for v
    unfolding admit_view_def
    by (auto split: option.splits intro: unaudited.keeps_all)
  moreover note keeps_lane_acquire[OF assms]
  ultimately show ?thesis
    unfolding bind_tenant_def router_resolve_def fetch_view_def router_acquire_def
    by (auto intro!: unaudited.keeps_all split: option.splits dr_error.splits)
qed

lemma emit_attempt:
  assumes obs: "observed P attempts"
    and run: "bnd (mint P ctx action result t resolved code aref aver ln) (\<lambda>ev. outside (rp_initiate P ev)) s = (r, s')"
  obtains ev where "attempts (rt_world s') = attempts (rt_world s) @ [ev]"
    and "re_action ev = action" "re_outcome ev = result" "re_target_ref ev = t"
    and "re_resolved_tenant_ref ev = resolved" "re_public_code ev = code"
    and "re_correlation_id ev = rq_correlation_id ctx" and "\<And>d. r \<noteq> Inl (Denied d)"
proof -
  obtain ev s1 where m: "mint P ctx action result t resolved code aref aver ln s = (Inr ev, s1)"
    and w: "rt_world s1 = snd (rp_mint P (rt_world s))"
    and ev: "re_action ev = action" "re_outcome ev = result" "re_target_ref ev = t"
      "re_resolved_tenant_ref ev = resolved" "re_public_code ev = code"
      "re_correlation_id ev = rq_correlation_id ctx"
    by (rule mint_run)
  obtain i w2 where i: "rp_initiate P ev (rt_world s1) = (i, w2)" by (cases "rp_initiate P ev (rt_world s1)")
  with run m have out: "r = i" "rt_world s' = w2" by auto
  have "attempts (rt_world s1) = attempts (rt_world s)" using obs w by (simp add: observed_def)
  moreover have "attempts w2 = attempts (rt_world s1) @ [ev]"
    using obs i unfolding observed_def keeps_def by (metis snd_conv)
  moreover have "\<And>d. i \<noteq> Inl (Denied d)" using obs i unfolding observed_def by (metis fst_conv)
  ultimately show thesis using that[OF _ ev] out by simp
qed

text \<open>What the one event of a request says, against what the caller gets.\<close>

definition event_matches :: "routing_event \<Rightarrow> dr_error + route_result \<Rightarrow> bool" where
  "event_matches ev r =
     (case r of
        Inr res \<Rightarrow> re_outcome ev = ''success'' \<and> re_target_ref ev = rr_tenant_id res
          \<and> re_action ev = (if rr_target res = TO_CONTROL then ''RouteControl'' else ''Route'')
      | Inl (Denied d) \<Rightarrow>
          (re_action ev = ''RouteDenied'' \<and> re_public_code ev = Some (rd_code d))
          \<or> (re_action ev = ''IsolationAnomaly'' \<and> rd_code d = ''routing_isolation_fault'')
          \<or> (re_outcome ev = ''success'' \<and> rd_code d = ''routing_audit_unavailable'')
      | Inl (Fault _) \<Rightarrow> re_action ev \<in> {''RouteDenied'', ''IsolationAnomaly''})"

definition audited ::
    "('w \<Rightarrow> routing_event list) \<Rightarrow> request_context \<Rightarrow> 'w router \<Rightarrow> dr_error + route_result \<Rightarrow> 'w router \<Rightarrow> bool" where
  "audited attempts ctx s r s' \<longleftrightarrow> (\<exists>ev. attempts (rt_world s') = attempts (rt_world s) @ [ev]
     \<and> re_correlation_id ev = rq_correlation_id ctx \<and> event_matches ev r)"

lemma audited_reraise:
  assumes obs: "observed P attempts" and run: "audit_and_reraise P ctx t (Denied d) s = (r, s')"
  shows "audited attempts ctx s r s'"
proof -
  obtain q s1 where q: "route_denied P ctx t (rd_code d) s = (q, s1)" by (cases "route_denied P ctx t (rd_code d) s")
  from emit_attempt[OF obs q[unfolded route_denied_def]] obtain ev where
    ev: "attempts (rt_world s1) = attempts (rt_world s) @ [ev]" "re_action ev = ''RouteDenied''"
      "re_public_code ev = Some (rd_code d)" "re_correlation_id ev = rq_correlation_id ctx"
    and noden: "\<And>x. q \<noteq> Inl (Denied x)" by metis
  show ?thesis
  proof (cases q)
    case (Inl e)
    with noden obtain m where "e = Fault m" by (cases e) auto
    with run q Inl have "r = Inl (Fault m)" "s' = s1" by (simp_all add: audit_and_reraise_def)
    with ev show ?thesis unfolding audited_def event_matches_def by (intro exI[of _ ev]) simp
  next
    case (Inr u)
    with run q have "r = Inl (Denied d)" "s' = s1" by (simp_all add: audit_and_reraise_def)
    with ev show ?thesis unfolding audited_def event_matches_def by (intro exI[of _ ev]) simp
  qed
qed

lemma audited_control:
  assumes obs: "observed P attempts" and run: "route_control P ctx s = (r, s')"
  shows "audited attempts ctx s r s'"
proof -
  obtain q s1 where q: "route_ok P ctx None ''RouteControl'' None None None None s = (q, s1)"
    by (cases "route_ok P ctx None ''RouteControl'' None None None None s")
  from emit_attempt[OF obs q[unfolded route_ok_def]] obtain ev where
    ev: "attempts (rt_world s1) = attempts (rt_world s) @ [ev]" "re_action ev = ''RouteControl''"
      "re_outcome ev = ''success''" "re_target_ref ev = None" "re_correlation_id ev = rq_correlation_id ctx" by metis
  from run q have "s' = s1" "r = (case q of Inl _ \<Rightarrow> Inl (Denied (denied_unavailable ''routing_audit_unavailable''))
      | Inr _ \<Rightarrow> Inr \<lparr>rr_target = TO_CONTROL, rr_tenant_id = None, rr_association_version = None,
                 rr_connection = None, rr_lane = INTERACTIVE\<rparr>)"
    by (cases q; simp add: route_control_def)+
  with ev show ?thesis unfolding audited_def event_matches_def
    by (intro exI[of _ ev]) (cases q; simp add: denied_unavailable_def)
qed

lemma audited_hand_back:
  assumes obs: "observed P attempts" and run: "hand_back P ctx tid l view c s = (r, s')"
  shows "audited attempts ctx s r s'"
proof (cases "conn_tenant c = tid")
  case True
  let ?ok = "route_ok P ctx (Some tid) ''Route'' (Some (conn_tenant c))
        (Some (store_ref (rv_association view))) (Some (conn_version c)) (Some (lane_value l))"
  obtain q s1 where q: "?ok s = (q, s1)" by (cases "?ok s")
  from emit_attempt[OF obs q[unfolded route_ok_def]] obtain ev where
    ev: "attempts (rt_world s1) = attempts (rt_world s) @ [ev]" "re_action ev = ''Route''"
      "re_outcome ev = ''success''" "re_target_ref ev = Some tid" "re_correlation_id ev = rq_correlation_id ctx" by metis
  from run q True have "rt_world s' = rt_world s1"
    "r = (case q of Inl _ \<Rightarrow> Inl (Denied (denied_unavailable ''routing_audit_unavailable''))
      | Inr _ \<Rightarrow> Inr \<lparr>rr_target = TO_TENANT, rr_tenant_id = Some tid,
                 rr_association_version = Some (conn_version c), rr_connection = Some c, rr_lane = l\<rparr>)"
    by (cases q; simp add: hand_back_def lane_discard_run; auto)+
  with ev show ?thesis unfolding audited_def event_matches_def
    by (intro exI[of _ ev]) (cases q; simp add: denied_unavailable_def)
next
  case False
  let ?an = "route_anomaly P ctx (Some tid) (Some (conn_tenant c))"
  obtain q s1 where q: "?an s = (q, s1)" by (cases "?an s")
  from emit_attempt[OF obs q[unfolded route_anomaly_def]] obtain ev where
    ev: "attempts (rt_world s1) = attempts (rt_world s) @ [ev]" "re_action ev = ''IsolationAnomaly''"
      "re_correlation_id ev = rq_correlation_id ctx" and noden: "\<And>x. q \<noteq> Inl (Denied x)" by metis
  show ?thesis
  proof (cases q)
    case (Inl e)
    with noden obtain m where "e = Fault m" by (cases e) auto
    with run q Inl False have "r = Inl (Fault m)" "s' = s1" by (simp_all add: hand_back_def)
    with ev show ?thesis unfolding audited_def event_matches_def by (intro exI[of _ ev]) simp
  next
    case (Inr u)
    with run q False have "r = Inl (Denied (denied_unavailable ''routing_isolation_fault''))" "rt_world s' = rt_world s1"
      by (auto simp: hand_back_def lane_discard_run)
    with ev show ?thesis unfolding audited_def event_matches_def
      by (intro exI[of _ ev]) (simp add: denied_unavailable_def)
  qed
qed

lemma audited_after: "\<lbrakk>unaudited attempts s t; audited attempts ctx t r s'\<rbrakk> \<Longrightarrow> audited attempts ctx s r s'"
  by (simp add: audited_def unaudited_def)

lemma audited_tenant:
  assumes obs: "observed P attempts" and run: "route_tenant P ctx tid l s = (r, s')"
  shows "audited attempts ctx s r s'"
proof -
  obtain q s1 where q: "bind_tenant P tid l s = (q, s1)" by (cases "bind_tenant P tid l s")
  have quiet: "unaudited attempts s s1" by (rule keepsD[OF keeps_bind[OF obs] q])
  show ?thesis
  proof (cases q)
    case (Inl e)
    with q bind_Inl obtain d where "e = Denied d" by blast
    with run q Inl have "audit_and_reraise P ctx (Some tid) (Denied d) s1 = (r, s')" by (simp add: route_tenant_def)
    from audited_after[OF quiet audited_reraise[OF obs this]] show ?thesis .
  next
    case (Inr vc)
    with run q have "hand_back P ctx tid l (fst vc) (snd vc) s1 = (r, s')"
      by (simp add: route_tenant_def case_prod_unfold)
    from audited_after[OF quiet audited_hand_back[OF obs this]] show ?thesis .
  qed
qed

section \<open>Requests as a whole\<close>

lemma route_cases:
  assumes "route P ctx phase0 l s = (Inr res, s')"
  obtains (control) "rq_active_tenant_id ctx = None" "rq_role ctx = Some ''CONTROL''" "route_control P ctx s = (Inr res, s')"
    | (tenant) tid view c s1 where "rq_active_tenant_id ctx = Some tid" "\<not> phase0"
        "bind_tenant P tid l s = (Inr (view, c), s1)" "hand_back P ctx tid l view c s1 = (Inr res, s')"
proof (cases "determine_target ctx phase0")
  case (Inl e)
  then show ?thesis using assms reraise_Inl by (fastforce simp: route_def)
next
  case (Inr t)
  show ?thesis
  proof (cases t)
    case TO_CONTROL
    with Inr assms show ?thesis by (intro control) (auto simp: route_def determine_target_def split: if_splits)
  next
    case TO_TENANT
    with Inr obtain tid where tid: "rq_active_tenant_id ctx = Some tid" "\<not> phase0"
      by (auto simp: determine_target_def split: if_splits)
    with assms Inr TO_TENANT have run: "route_tenant P ctx tid l s = (Inr res, s')" by (simp add: route_def)
    obtain q s1 where q: "bind_tenant P tid l s = (q, s1)" by (cases "bind_tenant P tid l s")
    show ?thesis
    proof (cases q)
      case (Inl e)
      with run q have "audit_and_reraise P ctx (Some tid) e s1 = (Inr res, s')" by (simp add: route_tenant_def)
      from reraise_Inl[OF this] show ?thesis by simp
    next
      case (Inr vc)
      then show ?thesis using run q tid by (cases vc) (auto intro!: tenant simp: route_tenant_def)
    qed
  qed
qed

lemma route_Inr_inv:
  assumes "pool_inv out (pool_for l s)" and "route P ctx phase0 l s = (Inr res, s')"
    and "\<And>t v d w c w1. rp_open P t v d w = (Inr c, w1) \<Longrightarrow> fresh_conn out (pool_for l s) c"
  shows "(rr_target res = TO_CONTROL \<and> rr_connection res = None \<and> rq_active_tenant_id ctx = None
        \<and> rq_role ctx = Some ''CONTROL'' \<and> pool_for l s' = pool_for l s)
    \<or> (\<exists>tid c view. rq_active_tenant_id ctx = Some tid \<and> \<not> phase0
        \<and> rr_connection res = Some c \<and> rr_tenant_id res = Some tid \<and> conn_tenant c = tid \<and> c \<notin> out
        \<and> conn_version c = ref_version (rv_association view)
        \<and> admitted P s tid view \<and> pool_inv (insert c out) (pool_for l s'))"
  using assms(2)
proof (cases rule: route_cases)
  case control
  from route_control_run[OF control(3), of l] control(1,2) show ?thesis by simp
next
  case (tenant tid view c s1)
  from bind_inv[OF assms(1) tenant(3) assms(3)] have b: "pool_inv (insert c out) (pool_for l s1)" "c \<notin> out"
    "conn_version c = ref_version (rv_association view)" by simp_all
  from hand_back_Inr[OF tenant(4), of l] have h: "conn_tenant c = tid" "pool_for l s' = pool_for l s1"
    "rr_connection res = Some c" "rr_tenant_id res = Some tid" by simp_all
  from tenant(3) obtain s0 where "router_resolve P tid s = (Inr view, s0)" unfolding bind_Inr by (elim exE conjE)
  from resolve_Inr[OF this] b h tenant(1,2) show ?thesis
    by (intro disjI2 exI[of _ tid] exI[of _ c] exI[of _ view] conjI) simp_all
qed

lemma route_Inl_inv:
  assumes "pool_inv out (pool_for l s)" and "route P ctx phase0 l s = (Inl e, s')"
    and "\<And>t v d w c w1. rp_open P t v d w = (Inr c, w1) \<Longrightarrow> fresh_conn out (pool_for l s) c"
    and "\<And>ev w. re_action ev = ''IsolationAnomaly'' \<Longrightarrow> fst (rp_initiate P ev w) = Inr ()"
  shows "pool_inv out (pool_for l s')"
proof (cases "determine_target ctx phase0")
  case (Inl x)
  with assms(2) have "audit_and_reraise P ctx (rq_active_tenant_id ctx) x s = (Inl e :: dr_error + route_result, s')"
    by (simp add: route_def)
  from reraise_Inl[OF this, of l] assms(1) show ?thesis by simp
next
  case (Inr t)
  show ?thesis
  proof (cases t)
    case TO_CONTROL
    with assms(2) Inr have "route_control P ctx s = (Inl e, s')" by (simp add: route_def)
    from route_control_run[OF this, of l] assms(1) show ?thesis by simp
  next
    case TO_TENANT
    let ?tid = "the (rq_active_tenant_id ctx)"
    from TO_TENANT assms(2) Inr have run: "route_tenant P ctx ?tid l s = (Inl e, s')" by (simp add: route_def)
    obtain q s1 where q: "bind_tenant P ?tid l s = (q, s1)" by (cases "bind_tenant P ?tid l s")
    note b = bind_inv[OF assms(1) q assms(3)]
    show ?thesis
    proof (cases q)
      case (Inl x)
      with run q have "audit_and_reraise P ctx (Some ?tid) x s1 = (Inl e :: dr_error + route_result, s')" by (simp add: route_tenant_def)
      from reraise_Inl[OF this, of l] b Inl show ?thesis by simp
    next
      case (Inr vc)
      with run q have "hand_back P ctx ?tid l (fst vc) (snd vc) s1 = (Inl e, s')"
        by (simp add: route_tenant_def case_prod_unfold)
      from hand_back_Inl[OF _ _ this assms(4)] b Inr show ?thesis by (simp add: case_prod_unfold)
    qed
  qed
qed

end
