(* ===== verification/DR_Dispatch.thy ===== *)
theory DR_Dispatch
  imports DR_Router Shared
begin

text \<open>
  The internal dispatch surface of the router
  (\<open>backend/database_router/adapters/providers/http_dispatch_api.py\<close>): the request envelope, the
  routing decision and the references-only answer. The body is given as \<open>json.loads\<close> decodes it,
  \<open>None\<close> where it raises; the HTTP framework around it is not modelled.
\<close>

datatype dispatch_error = EnvelopeError string | RouterError dr_error

definition DISPATCH_CATEGORIES :: "string list" where
  "DISPATCH_CATEGORIES = [''TENANT_OPERATION'', ''GLOBAL_DIRECTORY_READ'', ''MEMBERSHIPS_FOR_PRINCIPAL'', ''IMPORT_INITIATION'']"

definition CONTEXT_KEYS :: "string list" where
  "CONTEXT_KEYS = [''correlation_id'', ''request_id'', ''active_tenant_id'', ''principal_ref'', ''role'']"

definition optional_str :: "json \<Rightarrow> dispatch_error + string option" where
  "optional_str v =
     (case v of JNull \<Rightarrow> Inr None | JStr s \<Rightarrow> Inr (Some s)
      | _ \<Rightarrow> Inl (EnvelopeError ''context field must be a string or null''))"

definition reconstruct_context :: "json \<Rightarrow> dispatch_error + request_context" where
  "reconstruct_context v =
     (case v of
        JObj d \<Rightarrow>
          if \<not> has_keys d CONTEXT_KEYS
          then Inl (EnvelopeError ''context keys must be exactly the five RequestContext fields'')
          else (case obj_get d ''correlation_id'' of
              JStr cid \<Rightarrow>
                (case optional_str (obj_get d ''request_id'') of Inl e \<Rightarrow> Inl e | Inr request_id \<Rightarrow>
                (case optional_str (obj_get d ''active_tenant_id'') of Inl e \<Rightarrow> Inl e | Inr tenant \<Rightarrow>
                (case optional_str (obj_get d ''principal_ref'') of Inl e \<Rightarrow> Inl e | Inr who \<Rightarrow>
                (case optional_str (obj_get d ''role'') of Inl e \<Rightarrow> Inl e | Inr r \<Rightarrow>
                   Inr \<lparr>rq_correlation_id = cid, rq_request_id = request_id, rq_active_tenant_id = tenant,
                        rq_principal_ref = who, rq_role = r\<rparr>))))
            | _ \<Rightarrow> Inl (EnvelopeError ''correlation_id must be a non-null string''))
      | _ \<Rightarrow> Inl (EnvelopeError ''context keys must be exactly the five RequestContext fields''))"

definition open_envelope :: "(string \<Rightarrow> bool) \<Rightarrow> json option \<Rightarrow> dispatch_error + request_context" where
  "open_envelope float_one body =
     (case body of
        None \<Rightarrow> Inl (EnvelopeError ''body is not valid JSON'')
      | Some (JObj d) \<Rightarrow>
          if \<not> has_keys d [''v'', ''context'', ''category'']
          then Inl (EnvelopeError ''request keys must be exactly {v, context, category}'')
          else if \<not> is_version_one float_one (obj_get d ''v'') then Inl (EnvelopeError ''unknown envelope version'')
          else (case obj_get d ''category'' of
              JStr c \<Rightarrow> if c \<notin> set DISPATCH_CATEGORIES then Inl (EnvelopeError ''unknown dispatch category'')
                        else reconstruct_context (obj_get d ''context'')
            | _ \<Rightarrow> Inl (EnvelopeError ''unknown dispatch category''))
      | Some _ \<Rightarrow> Inl (EnvelopeError ''request keys must be exactly {v, context, category}''))"

definition dispatch_decide ::
    "'w router_ports \<Rightarrow> (string \<Rightarrow> bool) \<Rightarrow> json option \<Rightarrow> ('w router, dispatch_error, int \<times> string \<times> bool) proc" where
  "dispatch_decide P float_one body =
     (case open_envelope float_one body of
        Inl e \<Rightarrow> raise e
      | Inr ctx \<Rightarrow> (\<lambda>s. case route P ctx False INTERACTIVE s of
          (Inl (Denied d), s1) \<Rightarrow> (Inr (rd_status d, rd_code d, False), s1)
        | (Inl (Fault m), s1) \<Rightarrow> (Inl (RouterError (Fault m)), s1)
        | (Inr res, s1) \<Rightarrow> (case router_release P res s1 of
              (Inl e, s2) \<Rightarrow> (Inl (RouterError e), s2)
            | (Inr _, s2) \<Rightarrow> (Inr (200, ''ok'', True), s2))))"

text \<open>The handler: a query-bearing target is refused before the body is read, any exception is a 503.\<close>

definition dispatch_handle ::
    "'w router_ports \<Rightarrow> (string \<Rightarrow> bool) \<Rightarrow> bool \<Rightarrow> json option \<Rightarrow> 'w router
      \<Rightarrow> (int \<times> (int \<times> string \<times> bool) option) \<times> 'w router" where
  "dispatch_handle P float_one query_bearing body s =
     (if query_bearing then ((404, None), s)
      else case dispatch_decide P float_one body s of
          (Inl e, s1) \<Rightarrow> ((503, None), s1)
        | (Inr (status, code, dispatched), s1) \<Rightarrow> ((status, Some (status, code, dispatched)), s1))"

lemma open_envelope_Inr:
  assumes "open_envelope f body = Inr ctx"
  obtains d where "body = Some (JObj d)" "has_keys d [''v'', ''context'', ''category'']"
    "reconstruct_context (obj_get d ''context'') = Inr ctx"
  using assms by (auto simp: open_envelope_def split: option.splits json.splits if_splits)

lemma router_release_inv:
  assumes "pool_inv (insert c out) (pool_for (rr_lane res) s)" and "c \<notin> out" and "rr_connection res = Some c"
    and "router_release P res s = (r, s')"
  shows "r = Inr () \<and> pool_inv out (pool_for (rr_lane res) s')"
  using assms pool_release_inv[OF assms(1), of c] by (auto simp: router_release_def Let_def)

lemma dispatch_inv:
  assumes inv: "pool_inv out (pool_for INTERACTIVE s)"
    and fresh: "\<And>t v d w c w1. rp_open P t v d w = (Inr c, w1) \<Longrightarrow> fresh_conn out (pool_for INTERACTIVE s) c"
    and sink: "\<And>ev w. re_action ev = ''IsolationAnomaly'' \<Longrightarrow> fst (rp_initiate P ev w) = Inr ()"
    and run: "dispatch_decide P f body s = (r, s')"
  shows "pool_inv out (pool_for INTERACTIVE s')"
proof (cases "open_envelope f body")
  case (Inl e)
  with run inv show ?thesis by (simp add: dispatch_decide_def)
next
  case (Inr ctx)
  obtain q s1 where q: "route P ctx False INTERACTIVE s = (q, s1)" by (cases "route P ctx False INTERACTIVE s")
  show ?thesis
  proof (cases q)
    case (Inl e)
    have "pool_inv out (pool_for INTERACTIVE s1)" using route_Inl_inv[OF inv q[unfolded Inl] fresh sink] .
    moreover have "s' = s1" using run Inr q Inl by (simp add: dispatch_decide_def split: dr_error.splits)
    ultimately show ?thesis by simp
  next
    case res: (Inr res)
    obtain x s2 where x: "router_release P res s1 = (x, s2)" by (cases "router_release P res s1")
    then have s': "s' = s2" using run Inr q res by (cases x) (simp_all add: dispatch_decide_def)
    from q[unfolded res] show ?thesis
    proof (cases rule: route_cases)
      case control
      from route_control_run[OF control(3), of INTERACTIVE] x inv s' show ?thesis by (simp add: router_release_def)
    next
      case (tenant tid view c s0)
      from bind_inv[OF inv tenant(3) fresh] have b: "pool_inv (insert c out) (pool_for INTERACTIVE s0)" "c \<notin> out" by simp_all
      from hand_back_Inr[OF tenant(4), of INTERACTIVE] have h: "pool_for INTERACTIVE s1 = pool_for INTERACTIVE s0"
        "rr_connection res = Some c" "rr_lane res = INTERACTIVE" by simp_all
      show ?thesis using router_release_inv[of c out res s1 P x s2] b h x s' by simp
    qed
  qed
qed

end
