(* ===== verification/DR_Claims.thy ===== *)
theory DR_Claims
  imports DR_Dispatch CP_ReadApi CP_World
begin

text \<open>
  What the database router promises: it serves the active tenant of the request and no other, one
  audit event per request, no connection kept by a refused request, and, over the control plane's
  own read model, exactly the tenants the registry stores as Ready.
\<close>

section \<open>A concrete outside world\<close>

text \<open>
  For the witnesses: the world is the control plane's store, the events handed to the sink and
  the number of connections opened; the sink refuses the actions it is told to refuse.
\<close>

definition http_routing_view :: "cp_routing_view \<Rightarrow> tenant_routing_view" where
  "http_routing_view v =
     \<lparr>rv_tenant_id = cr_tenant_id v, rv_lifecycle_state = cr_lifecycle_state v, rv_ready = cr_ready v,
      rv_association = cr_association v, rv_expected_schema_version = cr_expected_schema_version v\<rparr>"

record edge_world =
  ew_store :: control_store
  ew_events :: "routing_event list"
  ew_opened :: nat

definition edge_ports :: "string list \<Rightarrow> edge_world router_ports" where
  "edge_ports refuses =
     \<lparr>rp_now = (\<lambda>_. 0),
      rp_mint = (\<lambda>w. ((''id'', ''t''), w)),
      rp_read = (\<lambda>tid. reads (\<lambda>w. map_option http_routing_view (routing_view (ew_store w) tid))),
      rp_secret = (\<lambda>ref. ret ''dsn''),
      rp_open = (\<lambda>tid ver d w. (Inr \<lparr>conn_id = ew_opened w, conn_tenant = tid, conn_version = ver\<rparr>,
                    w\<lparr>ew_opened := Suc (ew_opened w)\<rparr>)),
      rp_alive = (\<lambda>_ _. True), rp_resets = (\<lambda>_ _. True),
      rp_initiate = (\<lambda>ev w. (if re_action ev \<in> set refuses then Inl (Fault ''sink down'') else Inr (),
                    w\<lparr>ew_events := ew_events w @ [ev]\<rparr>)),
      rp_supported = [''1'']\<rparr>"

definition acme_tenant :: "lifecycle_state \<Rightarrow> tenant_record" where
  "acme_tenant st = \<lparr>tenant_id = ''acme'', organization_ref = ''org'', lifecycle = st,
     expected_schema_version = ''1'', database_association_ref = \<lparr>store_ref = ''tenant/acme/dsn'', ref_version = ''1''\<rparr>,
     federation_config_ref = ''fed'', created_at = ''t'', updated_at = ''t'', rec_version = 0\<rparr>"

definition edge_router :: "lifecycle_state \<Rightarrow> edge_world router" where
  "edge_router st =
     \<lparr>rt_world = \<lparr>ew_store = put_tenant (acme_tenant st) (empty_store 1 True), ew_events = [], ew_opened = 0\<rparr>,
      rt_cache = \<lparr>rc_ttl = 30, rc_max = 8, rc_data = []\<rparr>, rt_pool = new_manager 4 60, rt_bulk = None\<rparr>"

definition acme_request :: request_context where
  "acme_request = \<lparr>rq_correlation_id = ''c'', rq_request_id = None, rq_active_tenant_id = Some ''acme'',
     rq_principal_ref = Some ''p'', rq_role = None\<rparr>"

definition acme_conn :: conn where
  "acme_conn = \<lparr>conn_id = 0, conn_tenant = ''acme'', conn_version = ''1''\<rparr>"

lemmas edge_defs = edge_ports_def edge_router_def acme_request_def acme_tenant_def acme_conn_def new_manager_def
  http_routing_view_def routing_view_def

lemmas route_defs = route_def determine_target_def route_tenant_def bind_tenant_def router_resolve_def cached_view_def
  fetch_view_def remember_view_def admit_view_def router_acquire_def lane_acquire_def open_connection_def hand_back_def
  route_ok_def route_anomaly_def route_denied_def mint_def lane_discard_def pool_for_def put_pool_for_def
  audit_and_reraise_def

lemmas pool_defs = pool_acquire_def evict_idle_def close_conns_def set_pool_def new_pool_def pool_discard_def pool_key_def

lemma edge_view:
  "routing_view (put_tenant (acme_tenant st) (empty_store 1 True)) ''acme''
    = Some \<lparr>cr_tenant_id = ''acme'', cr_lifecycle_state = lifecycle_value st, cr_ready = (st = Ready),
        cr_association = \<lparr>store_ref = ''tenant/acme/dsn'', ref_version = ''1''\<rparr>, cr_expected_schema_version = ''1''\<rparr>"
  by (simp add: edge_defs get_tenant_def put_tenant_def)

lemma edge_route_ready:
  "fst (route (edge_ports []) acme_request False INTERACTIVE (edge_router Ready))
    = Inr \<lparr>rr_target = TO_TENANT, rr_tenant_id = Some ''acme'', rr_association_version = Some ''1'',
           rr_connection = Some acme_conn, rr_lane = INTERACTIVE\<rparr>"
  by (simp add: route_defs pool_defs edge_ports_def edge_router_def new_manager_def acme_request_def edge_view
      rcache_get_def rcache_put_def Let_def acme_conn_def http_routing_view_def lifecycle_value_def)

lemma edge_run:
  obtains s' where "route (edge_ports []) acme_request False INTERACTIVE (edge_router Ready)
    = (Inr \<lparr>rr_target = TO_TENANT, rr_tenant_id = Some ''acme'', rr_association_version = Some ''1'',
           rr_connection = Some acme_conn, rr_lane = INTERACTIVE\<rparr>, s')"
  using edge_route_ready by (metis prod.collapse)

lemma edge_pool: "pool_for INTERACTIVE (edge_router st) = new_manager 4 60"
  by (simp add: edge_router_def pool_for_def)

lemma edge_fresh: "fresh_conn {} (pool_for INTERACTIVE (edge_router st)) c"
  by (simp add: edge_pool fresh_conn_def new_manager_def)

section \<open>Routing\<close>

text \<open>C3: A request is served for its own active tenant and no other: what comes back is either the
control target, for a CONTROL principal without an active tenant and without any connection, or a
connection that no caller held before, bound to exactly the active tenant and to the version of an
association whose view, cached or just read, is Ready with a supported schema. The pools keep
their invariant, with that connection as the only new loan.\<close>

theorem route_binds_active_tenant:
  assumes "pool_inv out (pool_for l s)" and "route P ctx phase0 l s = (Inr res, s')"
    and "\<And>t v d w c w1. rp_open P t v d w = (Inr c, w1) \<Longrightarrow> fresh_conn out (pool_for l s) c"
  shows "(rr_target res = TO_CONTROL \<and> rr_connection res = None \<and> rq_active_tenant_id ctx = None
        \<and> rq_role ctx = Some ''CONTROL'' \<and> pool_for l s' = pool_for l s)
    \<or> (\<exists>tid c view. rq_active_tenant_id ctx = Some tid \<and> \<not> phase0
        \<and> rr_connection res = Some c \<and> rr_tenant_id res = Some tid \<and> conn_tenant c = tid \<and> c \<notin> out
        \<and> conn_version c = ref_version (rv_association view)
        \<and> admitted P s tid view \<and> pool_inv (insert c out) (pool_for l s'))"
  using assms by (rule route_Inr_inv)

theorem route_binds_active_tenant_witness:
  "\<exists>view. admitted (edge_ports []) (edge_router Ready) ''acme'' view
     \<and> conn_version acme_conn = ref_version (rv_association view)"
proof -
  obtain s' where run: "route (edge_ports []) acme_request False INTERACTIVE (edge_router Ready)
    = (Inr \<lparr>rr_target = TO_TENANT, rr_tenant_id = Some ''acme'', rr_association_version = Some ''1'',
           rr_connection = Some acme_conn, rr_lane = INTERACTIVE\<rparr>, s')" by (rule edge_run)
  have inv: "pool_inv {} (pool_for INTERACTIVE (edge_router Ready))"
    by (simp add: edge_pool new_manager_inv)
  from route_binds_active_tenant[OF inv run edge_fresh] show ?thesis
    by simp (elim exE conjE, intro exI conjI, assumption+)
qed

text \<open>C17: Every request hands the audit sink exactly one event, whatever its outcome and whether or
not the sink accepts it: the success event of the target, the denial with the caller's own code,
or the isolation anomaly; nothing else the router calls is audited.\<close>

theorem route_audited_once:
  assumes "observed P attempts" and "route P ctx phase0 l s = (r, s')"
  shows "\<exists>ev. attempts (rt_world s') = attempts (rt_world s) @ [ev]
    \<and> re_correlation_id ev = rq_correlation_id ctx \<and> event_matches ev r"
proof -
  have "audited attempts ctx s r s'"
  proof (cases "determine_target ctx phase0")
    case (Inl e)
    then obtain d where "e = Denied d" by (auto simp: determine_target_def split: if_splits)
    with Inl assms show ?thesis by (auto simp: route_def intro: audited_reraise)
  next
    case (Inr t)
    with assms show ?thesis
      by (cases t) (auto simp: route_def intro: audited_control audited_tenant)
  qed
  then show ?thesis unfolding audited_def .
qed

lemma edge_observed: "observed (edge_ports refuses) ew_events"
  by (auto simp: observed_def edge_ports_def keeps_def)

theorem route_audited_once_witness:
  "\<exists>(s' :: edge_world router) ev. ew_events (rt_world s') = [ev] \<and> re_correlation_id ev = ''c'' \<and> re_outcome ev = ''success''"
proof -
  obtain s' where run: "route (edge_ports []) acme_request False INTERACTIVE (edge_router Ready)
    = (Inr \<lparr>rr_target = TO_TENANT, rr_tenant_id = Some ''acme'', rr_association_version = Some ''1'',
           rr_connection = Some acme_conn, rr_lane = INTERACTIVE\<rparr>, s')" by (rule edge_run)
  from route_audited_once[OF edge_observed run] obtain ev where
    "ew_events (rt_world s') = ew_events (rt_world (edge_router Ready)) @ [ev]"
    "re_correlation_id ev = rq_correlation_id acme_request"
    "event_matches ev (Inr \<lparr>rr_target = TO_TENANT, rr_tenant_id = Some ''acme'', rr_association_version = Some ''1'',
           rr_connection = Some acme_conn, rr_lane = INTERACTIVE\<rparr>)" by (elim exE conjE)
  then show ?thesis
    by (intro exI[of _ s'] exI[of _ ev] conjI) (simp_all add: edge_router_def acme_request_def event_matches_def)
qed

text \<open>A refused request keeps no connection: whatever failed (the registry read, the credential,
the driver, the audit of an allowed route, the binding check), the pools are left with the loans
they had before, provided the sink takes the anomaly event of a binding check that failed.\<close>

theorem refused_route_keeps_no_connection:
  assumes "pool_inv out (pool_for l s)" and "route P ctx phase0 l s = (Inl e, s')"
    and "\<And>t v d w c w1. rp_open P t v d w = (Inr c, w1) \<Longrightarrow> fresh_conn out (pool_for l s) c"
    and "\<And>ev w. re_action ev = ''IsolationAnomaly'' \<Longrightarrow> fst (rp_initiate P ev w) = Inr ()"
  shows "pool_inv out (pool_for l s')"
  using assms by (rule route_Inl_inv)

lemma edge_suspended:
  "fst (route (edge_ports []) acme_request False INTERACTIVE (edge_router Suspended))
    = Inl (Denied (denied_disabled ''administratively_disabled''))"
  by (simp add: route_defs pool_defs edge_ports_def edge_router_def new_manager_def acme_request_def edge_view
      rcache_get_def rcache_put_def Let_def http_routing_view_def lifecycle_value_def denial_for_state_def)

theorem refused_route_keeps_no_connection_witness:
  "\<exists>s'. route (edge_ports []) acme_request False INTERACTIVE (edge_router Suspended)
      = (Inl (Denied (denied_disabled ''administratively_disabled'')), s') \<and> pool_inv {} (pool_for INTERACTIVE s')"
proof -
  obtain s' where run: "route (edge_ports []) acme_request False INTERACTIVE (edge_router Suspended)
      = (Inl (Denied (denied_disabled ''administratively_disabled'')), s')"
    using edge_suspended by (metis prod.collapse)
  have inv: "pool_inv {} (pool_for INTERACTIVE (edge_router Suspended))"
    by (simp add: edge_pool new_manager_inv)
  have sink: "\<And>ev w. fst (rp_initiate (edge_ports []) ev w) = Inr ()" by (simp add: edge_ports_def)
  from refused_route_keeps_no_connection[OF inv run edge_fresh sink] run show ?thesis
    by (intro exI[of _ s'] conjI)
qed

text \<open>If the binding check fails and the sink refuses the anomaly event, the request fails with the
sink's exception before the connection is discarded: the connection stays in use in its pool, open,
with no caller holding it.\<close>

theorem anomaly_without_audit_leaks_connection:
  assumes "pool_inv out (pool_for l s)" and "rq_active_tenant_id ctx = Some tid"
    and "bind_tenant P tid l s = (Inr (view, c), s1)" and "conn_tenant c \<noteq> tid"
    and "\<And>t v d w c w1. rp_open P t v d w = (Inr c, w1) \<Longrightarrow> fresh_conn out (pool_for l s) c"
    and "\<And>ev w. re_action ev = ''IsolationAnomaly'' \<Longrightarrow> fst (rp_initiate P ev w) = Inl (Fault m)"
  shows "\<exists>s' p. route P ctx False l s = (Inl (Fault m), s')
    \<and> dict_get (pm_pools (pool_for l s')) (pool_key c) = Some p \<and> c \<in> set (pool_in_use p)
    \<and> c \<notin> set (pm_closed (pool_for l s'))"
proof -
  from bind_inv[OF assms(1,3,5)] have b: "pool_inv (insert c out) (pool_for l s1)"
    "pool_key c = (rv_tenant_id view, ref_version (rv_association view))" by (simp_all add: pool_key_def)
  from assms(3) obtain s0 where "lane_acquire P l (rv_tenant_id view) (rv_association view) s0 = (Inr c, s1)"
    unfolding bind_Inr acquire_Inr by (elim exE conjE)
  then obtain w pm where "pool_acquire (rp_now P (rt_world s0)) (rp_alive P)
      (open_connection P (rv_tenant_id view) (rv_association view)) (rv_tenant_id view)
      (ref_version (rv_association view)) (rt_world s0, pool_for l s0) = (Inr c, w, pm)" "pool_for l s1 = pm"
    by (auto simp: lane_acquire_def split: prod.splits)
  with pool_acquire_in_use b(2) obtain p where p: "dict_get (pm_pools (pool_for l s1)) (pool_key c) = Some p"
    "c \<in> set (pool_in_use p)" by metis
  obtain q s' where q: "route_anomaly P ctx (Some tid) (Some (conn_tenant c)) s1 = (q, s')"
    by (cases "route_anomaly P ctx (Some tid) (Some (conn_tenant c)) s1")
  have "q = Inl (Fault m)"
  proof -
    obtain ev s2 where "mint P ctx ''IsolationAnomaly'' ''anomaly:tenant_binding'' (Some tid) (Some (conn_tenant c))
        None None None None s1 = (Inr ev, s2)" "re_action ev = ''IsolationAnomaly''" by (rule mint_run)
    with q assms(6)[of ev "rt_world s2"] show ?thesis
      by (cases "rp_initiate P ev (rt_world s2)") (simp add: route_anomaly_def)
  qed
  with q assms(2-4) have "route P ctx False l s = (Inl (Fault m), s')"
    by (simp add: route_def determine_target_def route_tenant_def hand_back_def)
  moreover have "pool_for l s' = pool_for l s1" by (rule route_anomaly_pools[OF q])
  moreover have "c \<notin> set (pm_closed (pool_for l s1))" using b(1) by (auto simp: pool_inv_def)
  ultimately show ?thesis using p by (intro exI[of _ s'] exI[of _ p]) simp
qed

definition stray_view :: tenant_routing_view where
  "stray_view = \<lparr>rv_tenant_id = ''other'', rv_lifecycle_state = ''Ready'', rv_ready = True,
     rv_association = \<lparr>store_ref = ''tenant/other/dsn'', ref_version = ''1''\<rparr>, rv_expected_schema_version = ''1''\<rparr>"

theorem anomaly_without_audit_leaks_connection_witness:
  "\<exists>s'. route ((edge_ports [''IsolationAnomaly''])\<lparr>rp_read := (\<lambda>_. ret (Some stray_view))\<rparr>) acme_request False INTERACTIVE
      (edge_router Ready) = (Inl (Fault ''sink down''), s')"
proof -
  let ?P = "(edge_ports [''IsolationAnomaly''])\<lparr>rp_read := (\<lambda>_. ret (Some stray_view))\<rparr>"
  have inv: "pool_inv {} (pool_for INTERACTIVE (edge_router Ready))"
    by (simp add: edge_pool new_manager_inv)
  have "fst (bind_tenant ?P ''acme'' INTERACTIVE (edge_router Ready))
      = Inr (stray_view, \<lparr>conn_id = 0, conn_tenant = ''other'', conn_version = ''1''\<rparr>)"
    by (simp add: route_defs pool_defs edge_ports_def edge_router_def new_manager_def stray_view_def
      rcache_get_def rcache_put_def Let_def)
  then obtain s1 where bound: "bind_tenant ?P ''acme'' INTERACTIVE (edge_router Ready)
      = (Inr (stray_view, \<lparr>conn_id = 0, conn_tenant = ''other'', conn_version = ''1''\<rparr>), s1)"
    by (metis prod.collapse)
  have "\<exists>s' p. route ?P acme_request False INTERACTIVE (edge_router Ready) = (Inl (Fault ''sink down''), s')
    \<and> dict_get (pm_pools (pool_for INTERACTIVE s')) (pool_key \<lparr>conn_id = 0, conn_tenant = ''other'', conn_version = ''1''\<rparr>) = Some p
    \<and> \<lparr>conn_id = 0, conn_tenant = ''other'', conn_version = ''1''\<rparr> \<in> set (pool_in_use p)
    \<and> \<lparr>conn_id = 0, conn_tenant = ''other'', conn_version = ''1''\<rparr> \<notin> set (pm_closed (pool_for INTERACTIVE s'))"
    by (rule anomaly_without_audit_leaks_connection[OF inv _ bound _ edge_fresh])
      (simp_all add: acme_request_def edge_ports_def)
  then show ?thesis by (elim exE conjE) (rule exI)
qed

section \<open>Routing over the registry\<close>

text \<open>What the disclosure standard promises for a tenant record, or its absence: a denial or a route.\<close>

definition route_spec :: "string list \<Rightarrow> tenant_record option \<Rightarrow> routing_denied option" where
  "route_spec supported found =
     (case found of
        None \<Rightarrow> Some (denied_not_found ''not_found'')
      | Some r \<Rightarrow>
          (case lifecycle r of
             Ready \<Rightarrow> if expected_schema_version r \<in> set supported then None
                      else Some (denied_not_ready ''schema_out_of_range'')
           | Suspended \<Rightarrow> Some (denied_disabled ''administratively_disabled'')
           | Failed \<Rightarrow> Some (denied_unavailable ''unavailable'')
           | Decommissioned \<Rightarrow> Some (denied_not_found ''not_found'')
           | _ \<Rightarrow> Some (denied_not_ready ''not_ready'')))"

definition answers :: "tenant_record option \<Rightarrow> tenant_routing_view option" where
  "answers found = map_option (\<lambda>r. http_routing_view
     \<lparr>cr_tenant_id = tenant_id r, cr_lifecycle_state = lifecycle_value (lifecycle r), cr_ready = (lifecycle r = Ready),
      cr_association = database_association_ref r, cr_expected_schema_version = expected_schema_version r\<rparr>) found"

lemma answers_view: "map_option http_routing_view (routing_view st tid) = answers (get_tenant st tid)"
  by (cases "get_tenant st tid") (simp_all add: answers_def routing_view_def)

lemma resolve_miss:
  assumes "rcache_peek (rp_now P (rt_world s)) (rt_cache s) tid = None"
    and "rp_read P tid (rt_world s) = (Inr (answers found), w)"
  shows "\<exists>s1. pool_for l s1 = pool_for l s \<and> router_resolve P tid s =
    (case route_spec (rp_supported P) found of Some d \<Rightarrow> (Inl (Denied d), s1) | None \<Rightarrow> (Inr (the (answers found)), s1))"
proof -
  let ?s0 = "s\<lparr>rt_cache := snd (rcache_get (rp_now P (rt_world s)) tid (rt_cache s)), rt_world := w\<rparr>"
  have miss: "router_resolve P tid s = (case answers found of None \<Rightarrow> (Inl (Denied (denied_not_found ''not_found'')), ?s0)
      | Some v \<Rightarrow> admit_view P v (?s0\<lparr>rt_cache := rcache_put (rp_now P w) tid v (rt_cache ?s0)\<rparr>))"
    using assms by (cases "answers found") (simp_all add: router_resolve_def cached_view_run fetch_view_def remember_view_def)
  show ?thesis
  proof (cases found)
    case None
    with miss show ?thesis by (intro exI[of _ ?s0]) (simp add: answers_def route_spec_def)
  next
    case (Some r)
    then obtain v where v: "answers found = Some v" by (simp add: answers_def)
    define s1 where "s1 = ?s0\<lparr>rt_cache := rcache_put (rp_now P w) tid v (rt_cache ?s0)\<rparr>"
    have "admit_view P v s1 = (case route_spec (rp_supported P) found of Some d \<Rightarrow> (Inl (Denied d), s1) | None \<Rightarrow> (Inr v, s1))"
      using Some v by (cases "lifecycle r")
        (auto simp: answers_def http_routing_view_def route_spec_def admit_view_def denial_for_state_def lifecycle_value_def)
    moreover have "router_resolve P tid s = admit_view P v s1" using miss v by (simp add: s1_def)
    moreover have "pool_for l s1 = pool_for l s" by (simp add: s1_def)
    ultimately show ?thesis using v by (intro exI[of _ s1] conjI) (simp_all split: option.split)
  qed
qed



section \<open>The dispatch surface\<close>

text \<open>The dispatch surface lends nothing: a request that is not a well-formed envelope is answered
503 without touching the router, and after every other request, served, denied or failed, the
pools hold exactly the loans they held before.\<close>

theorem dispatch_lends_nothing:
  assumes "pool_inv out (pool_for INTERACTIVE s)"
    and "\<And>t v d w c w1. rp_open P t v d w = (Inr c, w1) \<Longrightarrow> fresh_conn out (pool_for INTERACTIVE s) c"
    and "\<And>ev w. re_action ev = ''IsolationAnomaly'' \<Longrightarrow> fst (rp_initiate P ev w) = Inr ()"
    and "dispatch_handle P f False body s = ((status, answer), s')"
  shows "pool_inv out (pool_for INTERACTIVE s')
    \<and> (case open_envelope f body of Inl e \<Rightarrow> status = 503 \<and> answer = None \<and> s' = s | Inr ctx \<Rightarrow> True)"
proof -
  obtain r s1 where r: "dispatch_decide P f body s = (r, s1)" by (cases "dispatch_decide P f body s")
  with assms(4) have "s' = s1" by (cases r) (auto simp: dispatch_handle_def split: prod.splits)
  with dispatch_inv[OF assms(1-3) r] have inv: "pool_inv out (pool_for INTERACTIVE s')" by simp
  show ?thesis
  proof (cases "open_envelope f body")
    case (Inl e)
    with assms(4) have "status = 503 \<and> answer = None \<and> s' = s" by (simp add: dispatch_handle_def dispatch_decide_def)
    with inv Inl show ?thesis by simp
  next
    case (Inr ctx)
    with inv show ?thesis by simp
  qed
qed

definition acme_envelope :: json where
  "acme_envelope = JObj [(''v'', JInt 1), (''category'', JStr ''TENANT_OPERATION''),
     (''context'', JObj [(''correlation_id'', JStr ''c''), (''request_id'', JNull), (''active_tenant_id'', JStr ''acme''),
        (''principal_ref'', JStr ''p''), (''role'', JNull)])]"

lemma acme_envelope_opens: "open_envelope f (Some acme_envelope) = Inr acme_request"
  by (auto simp: acme_envelope_def open_envelope_def has_keys_def obj_get_def dict_get_def is_version_one_def
      DISPATCH_CATEGORIES_def reconstruct_context_def CONTEXT_KEYS_def optional_str_def acme_request_def)

theorem dispatch_lends_nothing_witness:
  "\<exists>answer s'. dispatch_handle (edge_ports []) (\<lambda>_. False) False (Some acme_envelope) (edge_router Ready) = (answer, s')
     \<and> pool_inv {} (pool_for INTERACTIVE s')"
proof -
  obtain status answer s' where run: "dispatch_handle (edge_ports []) (\<lambda>_. False) False (Some acme_envelope) (edge_router Ready)
      = ((status, answer), s')" by (metis prod.collapse)
  have inv: "pool_inv {} (pool_for INTERACTIVE (edge_router Ready))"
    by (simp add: edge_pool new_manager_inv)
  have sink: "\<And>ev w. fst (rp_initiate (edge_ports []) ev w) = Inr ()" by (simp add: edge_ports_def)
  from dispatch_lends_nothing[OF inv edge_fresh sink run] have "pool_inv {} (pool_for INTERACTIVE s')" by (rule conjunct1)
  with run show ?thesis by (intro exI[of _ "(status, answer)"] exI[of _ s'] conjI)
qed

end
