(* ===== verification/DR_Session.thy ===== *)
theory DR_Session
  imports DR_Router Shared
begin

text \<open>
  The routed session over a bound connection (\<open>backend/database_router/session_provider.py\<close>): how the
  tabular vocabulary becomes parameterized SQL. Executing a statement and what a query returns are
  the database's; the statement text, its parameters and the use of the rows are the code's.
  \<open>same\<close> is Python's \<open>==\<close> on cells.
\<close>

section \<open>Statements\<close>

fun quote_chars :: "string \<Rightarrow> string" where
  "quote_chars [] = []"
| "quote_chars (c # cs) = (if c = CHR 0x22 then [CHR 0x22, CHR 0x22] else [c]) @ quote_chars cs"

definition quote_ident :: "string \<Rightarrow> string" where
  "quote_ident name = [CHR 0x22] @ quote_chars name @ [CHR 0x22]"

definition where_clause :: "row \<Rightarrow> string \<times> json list" where
  "where_clause key = (join '' AND '' (map (\<lambda>(c, _). quote_ident c @ '' = %s'') key), map snd key)"

definition placeholders :: "nat \<Rightarrow> string" where
  "placeholders n = join '', '' (replicate n ''%s'')"

definition column_list :: "row \<Rightarrow> string" where
  "column_list r = join '', '' (map (\<lambda>(c, _). quote_ident c) r)"

definition append_stmt :: "string \<Rightarrow> row \<Rightarrow> string \<times> json list" where
  "append_stmt table r =
     (''INSERT INTO '' @ quote_ident table @ '' ('' @ column_list r @ '') VALUES ('' @ placeholders (length r) @ '')'',
      map snd r)"

definition upsert_stmt :: "string \<Rightarrow> row \<Rightarrow> row \<Rightarrow> string \<times> json list" where
  "upsert_stmt table key r =
     (let merged = dict_merge key r in
      (''INSERT INTO '' @ quote_ident table @ '' ('' @ column_list merged @ '') VALUES ('' @ placeholders (length merged)
         @ '') ON CONFLICT ('' @ column_list key @ '') DO UPDATE SET ''
         @ join '', '' (map (\<lambda>(c, _). quote_ident c @ '' = EXCLUDED.'' @ quote_ident c) r),
       map snd merged))"

definition update_stmt :: "string \<Rightarrow> row \<Rightarrow> row \<Rightarrow> string \<times> json list" where
  "update_stmt table key assignments =
     (''UPDATE '' @ quote_ident table @ '' SET ''
        @ join '', '' (map (\<lambda>(c, _). quote_ident c @ '' = %s'') assignments)
        @ '' WHERE '' @ fst (where_clause key),
      map snd assignments @ snd (where_clause key))"

definition get_stmt :: "string \<Rightarrow> row \<Rightarrow> string \<times> json list" where
  "get_stmt table key =
     (''SELECT * FROM '' @ quote_ident table @ '' WHERE '' @ fst (where_clause key) @ '' LIMIT 1'', snd (where_clause key))"

definition latest_stmt :: "string \<Rightarrow> row \<Rightarrow> string \<Rightarrow> string \<times> json list" where
  "latest_stmt table cond order_by =
     (if cond \<noteq> [] then
        (''SELECT * FROM '' @ quote_ident table @ '' WHERE '' @ fst (where_clause cond) @ '' ORDER BY ''
           @ quote_ident order_by @ '' DESC LIMIT 1'', snd (where_clause cond))
      else (''SELECT * FROM '' @ quote_ident table @ '' ORDER BY '' @ quote_ident order_by @ '' DESC LIMIT 1'', []))"

definition page_stmt ::
    "string \<Rightarrow> row \<Rightarrow> string \<Rightarrow> bool \<Rightarrow> json option \<Rightarrow> int \<Rightarrow> string \<times> json list" where
  "page_stmt table cond order_by descending after limit =
     (let clauses = map (\<lambda>(c, _). quote_ident c @ '' = %s'') cond
            @ (case after of None \<Rightarrow> []
               | Some _ \<Rightarrow> [quote_ident order_by @ '' '' @ (if descending then ''<'' else ''>'') @ '' %s'']);
          params = map snd cond @ (case after of None \<Rightarrow> [] | Some v \<Rightarrow> [v]);
          where_sql = (if clauses \<noteq> [] then '' WHERE '' @ join '' AND '' clauses else [])
      in (''SELECT * FROM '' @ quote_ident table @ where_sql @ '' ORDER BY '' @ quote_ident order_by @ '' ''
            @ (if descending then ''DESC'' else ''ASC'') @ '' LIMIT %s'',
          params @ [JInt limit]))"

definition TRAVERSE_SAFETY_LIMIT :: int where "TRAVERSE_SAFETY_LIMIT = 100000"

definition traverse_stmt ::
    "string \<Rightarrow> json \<Rightarrow> string \<Rightarrow> string \<Rightarrow> int \<Rightarrow> bool \<Rightarrow> string \<times> json list" where
  "traverse_stmt table start_id id_col parent_col max_depth descendants =
     (let t = quote_ident table; idc = quote_ident id_col; pc = quote_ident parent_col;
          step = (if descendants
            then ''SELECT c.*, w._depth + 1 FROM '' @ t @ '' c JOIN walk w ON c.'' @ pc @ '' = w.'' @ idc
            else ''SELECT p.*, w._depth + 1 FROM '' @ t @ '' p JOIN walk w ON p.'' @ idc @ '' = w.'' @ pc)
      in (''WITH RECURSIVE walk AS (SELECT *, 0 AS _depth FROM '' @ t @ '' WHERE '' @ idc @ '' = %s UNION ALL ''
            @ step @ '' WHERE w._depth < %s) SELECT * FROM walk ORDER BY _depth LIMIT %s'',
          [start_id, JInt max_depth, JInt TRAVERSE_SAFETY_LIMIT]))"

definition lock_chain_stmt :: "string \<Rightarrow> string \<times> json list" where
  "lock_chain_stmt tenant = (''SELECT pg_advisory_xact_lock(hashtext(%s))'', [JStr (''lineage_chain:'' @ tenant)])"

section \<open>The session\<close>

record 'w connection_ports =
  cn_begin :: "('w, dr_error, unit) proc"
  cn_commit :: "('w, dr_error, unit) proc"
  cn_rollback :: "('w, dr_error, unit) proc"
  cn_execute :: "string \<times> json list \<Rightarrow> ('w, dr_error, unit) proc"
  cn_query :: "string \<times> json list \<Rightarrow> ('w, dr_error, row list) proc"

definition first_row :: "row list \<Rightarrow> row option" where
  "first_row rows = (case rows of [] \<Rightarrow> None | r # _ \<Rightarrow> Some r)"

definition pg_get :: "'w connection_ports \<Rightarrow> string \<Rightarrow> row \<Rightarrow> ('w, dr_error, row option) proc" where
  "pg_get C table key = bnd (cn_query C (get_stmt table key)) (\<lambda>rows. ret (first_row rows))"

definition pg_latest :: "'w connection_ports \<Rightarrow> string \<Rightarrow> row \<Rightarrow> string \<Rightarrow> ('w, dr_error, row option) proc" where
  "pg_latest C table cond order_by = bnd (cn_query C (latest_stmt table cond order_by)) (\<lambda>rows. ret (first_row rows))"

text \<open>Whether the stored row already holds every given cell: then the upsert is a no-op.\<close>

definition holds_all :: "(json \<Rightarrow> json \<Rightarrow> bool) \<Rightarrow> row \<Rightarrow> row \<Rightarrow> bool" where
  "holds_all same existing merged = list_all (\<lambda>(k, v). same (obj_get existing k) v) merged"

definition pg_upsert ::
    "(json \<Rightarrow> json \<Rightarrow> bool) \<Rightarrow> 'w connection_ports \<Rightarrow> string \<Rightarrow> row \<Rightarrow> row \<Rightarrow> ('w, dr_error, bool) proc" where
  "pg_upsert same C table key r =
     bnd (pg_get C table key) (\<lambda>existing.
       if (case existing of None \<Rightarrow> False | Some e \<Rightarrow> holds_all same e (dict_merge key r)) then ret False
       else andthen (cn_execute C (upsert_stmt table key r)) (ret True))"

definition pg_append :: "'w connection_ports \<Rightarrow> string \<Rightarrow> row \<Rightarrow> ('w, dr_error, unit) proc" where
  "pg_append C table r = cn_execute C (append_stmt table r)"

definition pg_update :: "'w connection_ports \<Rightarrow> string \<Rightarrow> row \<Rightarrow> row \<Rightarrow> ('w, dr_error, unit) proc" where
  "pg_update C table key assignments = cn_execute C (update_stmt table key assignments)"

definition pg_page ::
    "'w connection_ports \<Rightarrow> string \<Rightarrow> row \<Rightarrow> string \<Rightarrow> bool \<Rightarrow> json option \<Rightarrow> int \<Rightarrow> ('w, dr_error, row list) proc" where
  "pg_page C table cond order_by descending after limit = cn_query C (page_stmt table cond order_by descending after limit)"

definition pg_traverse ::
    "'w connection_ports \<Rightarrow> string \<Rightarrow> json \<Rightarrow> string \<Rightarrow> string \<Rightarrow> int \<Rightarrow> bool \<Rightarrow> ('w, dr_error, row list) proc" where
  "pg_traverse C table start_id id_col parent_col max_depth descendants =
     cn_query C (traverse_stmt table start_id id_col parent_col max_depth descendants)"

definition pg_lock_chain :: "'w connection_ports \<Rightarrow> string \<Rightarrow> ('w, dr_error, unit) proc" where
  "pg_lock_chain C tenant = cn_execute C (lock_chain_stmt tenant)"

text \<open>The session of a routed connection: closing it releases the connection to its lane's pool.\<close>

definition pg_session ::
    "'w router_ports \<Rightarrow> (json \<Rightarrow> json \<Rightarrow> bool) \<Rightarrow> 'w connection_ports \<Rightarrow> conn \<Rightarrow> route_result
      \<Rightarrow> ('w router, dr_error) tenant_session" where
  "pg_session P same C c res =
     \<lparr>ss_tenant_id = conn_tenant c, ss_begin = outside (cn_begin C), ss_commit = outside (cn_commit C),
      ss_rollback = outside (cn_rollback C), ss_close = router_release P res,
      ss_upsert = (\<lambda>t k r. outside (pg_upsert same C t k r)), ss_append = (\<lambda>t r. outside (pg_append C t r)),
      ss_update = (\<lambda>t k r. outside (pg_update C t k r)), ss_get = (\<lambda>t k. outside (pg_get C t k)),
      ss_latest = (\<lambda>t k o'. outside (pg_latest C t k o'))\<rparr>"

definition open_session ::
    "'w router_ports \<Rightarrow> (json \<Rightarrow> json \<Rightarrow> bool) \<Rightarrow> (conn \<Rightarrow> 'w connection_ports) \<Rightarrow> string \<Rightarrow> string \<Rightarrow> string option
      \<Rightarrow> lane \<Rightarrow> ('w router, dr_error, ('w router, dr_error) tenant_session) proc" where
  "open_session P same conns tid cid who l =
     bnd (route P \<lparr>rq_correlation_id = cid, rq_request_id = None, rq_active_tenant_id = Some tid,
                   rq_principal_ref = who, rq_role = None\<rparr> False l)
       (\<lambda>res. let c = the (rr_connection res) in ret (pg_session P same (conns c) c res))"

definition pg_read_session ::
    "'w router_ports \<Rightarrow> 'w connection_ports \<Rightarrow> conn \<Rightarrow> route_result \<Rightarrow> ('w router, dr_error) read_session" where
  "pg_read_session P C c res =
     \<lparr>rs_tenant_id = conn_tenant c, rs_close = router_release P res,
      rs_page = (\<lambda>t cond o' d a n. outside (pg_page C t cond o' d a n)),
      rs_traverse = (\<lambda>t i ic pc m d. outside (pg_traverse C t i ic pc m d))\<rparr>"

definition open_read_session ::
    "'w router_ports \<Rightarrow> (conn \<Rightarrow> 'w connection_ports) \<Rightarrow> string \<Rightarrow> string \<Rightarrow> string option
      \<Rightarrow> ('w router, dr_error, ('w router, dr_error) read_session) proc" where
  "open_read_session P conns tid cid who =
     bnd (route P \<lparr>rq_correlation_id = cid, rq_request_id = None, rq_active_tenant_id = Some tid,
                   rq_principal_ref = who, rq_role = None\<rparr> False INTERACTIVE)
       (\<lambda>res. let c = the (rr_connection res) in ret (pg_read_session P (conns c) c res))"

section \<open>Quoting is unambiguous\<close>

text \<open>How SQL reads a quoted identifier: up to the first quote that is not doubled.\<close>

fun read_quoted :: "string \<Rightarrow> (string \<times> string) option" where
  "read_quoted [] = None"
| "read_quoted (c # cs) =
     (if c \<noteq> CHR 0x22 then map_option (\<lambda>(n, rest). (c # n, rest)) (read_quoted cs)
      else case cs of
          [] \<Rightarrow> Some ([], [])
        | d # ds \<Rightarrow> if d = CHR 0x22 then map_option (\<lambda>(n, rest). (CHR 0x22 # n, rest)) (read_quoted ds)
                    else Some ([], d # ds))"

definition read_ident :: "string \<Rightarrow> (string \<times> string) option" where
  "read_ident s = (case s of c # cs \<Rightarrow> if c = CHR 0x22 then read_quoted cs else None | [] \<Rightarrow> None)"

lemma read_quoted_chars:
  "(case rest of [] \<Rightarrow> True | d # ds \<Rightarrow> d \<noteq> CHR 0x22) \<Longrightarrow> read_quoted (quote_chars n @ CHR 0x22 # rest) = Some (n, rest)"
  by (induction n) (auto split: list.splits)

lemma read_quote_ident:
  "(case rest of [] \<Rightarrow> True | d # ds \<Rightarrow> d \<noteq> CHR 0x22) \<Longrightarrow> read_ident (quote_ident n @ rest) = Some (n, rest)"
  by (simp add: read_ident_def quote_ident_def read_quoted_chars)

section \<open>Every statement has as many placeholders as parameters\<close>

definition count_marks :: "string \<Rightarrow> nat" where
  "count_marks s = length (filter (\<lambda>c. c = CHR ''%'') s)"

lemma count_marks_simps [simp]:
  "count_marks [] = 0" "count_marks (c # s) = (if c = CHR ''%'' then Suc (count_marks s) else count_marks s)"
  "count_marks (s @ t) = count_marks s + count_marks t"
  by (simp_all add: count_marks_def)

lemma count_join: "count_marks sep = 0 \<Longrightarrow> count_marks (join sep ps) = sum_list (map count_marks ps)"
  by (induction sep ps rule: join.induct) simp_all

lemma count_quote [simp]: "count_marks (quote_ident n) = count_marks n"
proof -
  have "count_marks (quote_chars n) = count_marks n" by (induction n) auto
  then show ?thesis by (simp add: quote_ident_def)
qed

lemma count_placeholders [simp]: "count_marks (placeholders n) = n"
  by (simp add: placeholders_def count_join sum_list_replicate)

text \<open>Identifiers without a percent sign.\<close>

definition plain_cols :: "row \<Rightarrow> bool" where
  "plain_cols r \<longleftrightarrow> (\<forall>(c, _) \<in> set r. count_marks c = 0)"

lemma count_cols:
  assumes "plain_cols r"
  shows "count_marks (column_list r) = 0"
    and "count_marks (join '', '' (map (\<lambda>(c, _). quote_ident c @ '' = %s'') r)) = length r"
    and "count_marks (join '' AND '' (map (\<lambda>(c, _). quote_ident c @ '' = %s'') r)) = length r"
    and "count_marks (join '', '' (map (\<lambda>(c, _). quote_ident c @ '' = EXCLUDED.'' @ quote_ident c) r)) = 0"
  using assms
  by (induction r) (auto simp: plain_cols_def column_list_def count_join)

lemma plain_merge: "\<lbrakk>plain_cols d; plain_cols e\<rbrakk> \<Longrightarrow> plain_cols (dict_merge d e)"
proof -
  have put: "set (dict_put k v x) \<subseteq> insert (k, v) (set x)" for k :: string and v :: json and x
    by (induction x) (auto simp: dict_put_def)
  have "set (dict_merge d e) \<subseteq> set d \<union> set e"
  proof (induction e arbitrary: d)
    case (Cons x e)
    have "set (dict_merge d (x # e)) \<subseteq> set (dict_put (fst x) (snd x) d) \<union> set e"
      using Cons[of "dict_put (fst x) (snd x) d"] by (simp add: dict_merge_def case_prod_unfold)
    with put[of "fst x" "snd x" d] show ?case by auto
  qed (simp add: dict_merge_def)
  then show "\<lbrakk>plain_cols d; plain_cols e\<rbrakk> \<Longrightarrow> plain_cols (dict_merge d e)" unfolding plain_cols_def by blast
qed

end
