(* ===== verification/DR_Startup.thy ===== *)
theory DR_Startup
  imports DR_Session
begin

text \<open>
  The bounded tenant startup operations (\<open>backend/database_router/tenant_startup_ops.py\<close>): one routed
  session per operation, validation before any write, one transaction, and the projection of the
  row to the record the caller gets. The session provider is an argument.
\<close>

datatype startup_error = ValueError string | SessionError dr_error

type_synonym ('s, 'a) startup = "('s, startup_error, 'a) proc"

record startup_record =
  su_record_ref :: string
  su_display_name :: string
  su_short_description :: "string option"
  su_investment_stage :: "string option"
  su_lineage_reference :: "string option"

definition MAX_REF_BYTES :: nat where "MAX_REF_BYTES = 512"
definition MAX_SHORT_DESCRIPTION_CHARS :: nat where "MAX_SHORT_DESCRIPTION_CHARS = 500"

definition checked_ref :: "string \<Rightarrow> string \<Rightarrow> ('s, unit) startup" where
  "checked_ref v field =
     (if v = [] \<or> utf8_length v > MAX_REF_BYTES
      then raise (ValueError (''tenant startup '' @ field @ '' must be a bounded non-empty reference''))
      else ret ())"

definition from_session :: "('s, dr_error, 'a) proc \<Rightarrow> ('s, 'a) startup" where
  "from_session m = (\<lambda>s. case m s of (Inl e, t) \<Rightarrow> (Inl (SessionError e), t) | (Inr a, t) \<Rightarrow> (Inr a, t))"

definition startup_key :: "string \<Rightarrow> row" where
  "startup_key ref = [(''global_startup_id'', JStr ref)]"

definition lineage_reference ::
    "('s, dr_error) tenant_session \<Rightarrow> string \<Rightarrow> string \<Rightarrow> ('s, string option) startup" where
  "lineage_reference S tenant ref =
     bnd (from_session (ss_latest S ''lineage'' [(''target_ref'', JStr (tenant @ '':startups:'' @ ref))] ''seq'')) (\<lambda>found.
       ret (case found of
          None \<Rightarrow> None
        | Some r \<Rightarrow> (case obj_get r ''lineage_id'' of JStr i \<Rightarrow> if i = [] then None else Some i | _ \<Rightarrow> None)))"

definition abandon :: "('s, dr_error) tenant_session \<Rightarrow> ('s, unit) startup" where
  "abandon S = handle (from_session (ss_rollback S)) (\<lambda>_. ret ())"

definition cell_str :: "json \<Rightarrow> string option" where
  "cell_str v = (case v of JStr s \<Rightarrow> Some s | _ \<Rightarrow> None)"

definition project_record :: "string \<Rightarrow> row \<Rightarrow> string option \<Rightarrow> ('s, startup_record) startup" where
  "project_record ref r lineage_ref =
     (case obj_get r ''company_name'' of
        JStr nm \<Rightarrow>
          if nm = [] then raise (ValueError ''tenant startup row carries no display name'')
          else ret \<lparr>su_record_ref = ref, su_display_name = nm,
                    su_short_description = cell_str (obj_get r ''short_description''),
                    su_investment_stage = cell_str (obj_get r ''investment_stage''),
                    su_lineage_reference = lineage_ref\<rparr>
      | _ \<Rightarrow> raise (ValueError ''tenant startup row carries no display name''))"

text \<open>\<open>try: body / except Exception: abandon; raise / finally: close\<close>.\<close>

definition in_transaction :: "('s, dr_error) tenant_session \<Rightarrow> ('s, 'a) startup \<Rightarrow> ('s, 'a) startup" where
  "in_transaction S body =
     tries (handle body (\<lambda>e. andthen (abandon S) (raise e)))
       (\<lambda>e. andthen (from_session (ss_close S)) (raise e))
       (\<lambda>x. andthen (from_session (ss_close S)) (ret x))"

type_synonym 's provider =
  "string \<Rightarrow> string \<Rightarrow> string option \<Rightarrow> lane \<Rightarrow> ('s, dr_error, ('s, dr_error) tenant_session) proc"

definition startup_read_body :: "('s, dr_error) tenant_session \<Rightarrow> string \<Rightarrow> string \<Rightarrow> ('s, (row \<times> string option) option) startup" where
  "startup_read_body S tenant ref =
     andthen (from_session (ss_begin S))
     (bnd (from_session (ss_get S ''startups'' (startup_key ref))) (\<lambda>found.
      bnd (case found of None \<Rightarrow> ret None | Some r \<Rightarrow> lineage_reference S tenant ref) (\<lambda>lineage_ref.
      andthen (from_session (ss_commit S))
        (ret (map_option (\<lambda>r. (r, lineage_ref)) found)))))"

definition project_found ::
    "string \<Rightarrow> (row \<times> string option) option \<Rightarrow> ('s, startup_record option) startup" where
  "project_found ref found =
     (case found of
        None \<Rightarrow> ret None
      | Some (r, lineage_ref) \<Rightarrow> bnd (project_record ref r lineage_ref) (\<lambda>rec. ret (Some rec)))"

definition startup_read ::
    "'s provider \<Rightarrow> string \<Rightarrow> string \<Rightarrow> string \<Rightarrow> string \<Rightarrow> ('s, startup_record option) startup" where
  "startup_read open_s tenant ref cid who =
     andthen (checked_ref tenant ''tenant_ref'')
     (andthen (checked_ref ref ''startup_ref'')
     (bnd (from_session (open_s tenant cid (Some who) INTERACTIVE)) (\<lambda>S.
      bnd (in_transaction S (startup_read_body S tenant ref)) (project_found ref))))"

definition short_cell :: "string option \<Rightarrow> json" where
  "short_cell short = (case short of None \<Rightarrow> JNull | Some t \<Rightarrow> JStr t)"

definition update_body ::
    "('s, dr_error) tenant_session \<Rightarrow> string \<Rightarrow> string \<Rightarrow> string option \<Rightarrow> ('s, (row \<times> string option) option) startup" where
  "update_body S tenant ref short =
     andthen (from_session (ss_begin S))
     (bnd (from_session (ss_get S ''startups'' (startup_key ref))) (\<lambda>existing.
      case existing of
        None \<Rightarrow> andthen (from_session (ss_rollback S)) (ret None)
      | Some _ \<Rightarrow>
          andthen (from_session (ss_update S ''startups'' (startup_key ref) [(''short_description'', short_cell short)]))
          (bnd (from_session (ss_get S ''startups'' (startup_key ref))) (\<lambda>reread.
            case reread of
              None \<Rightarrow> raise (ValueError ''tenant startup update persistence witness failed'')
            | Some r \<Rightarrow>
                if obj_get r ''short_description'' \<noteq> short_cell short
                then raise (ValueError ''tenant startup update persistence witness failed'')
                else bnd (lineage_reference S tenant ref) (\<lambda>lineage_ref.
                  andthen (from_session (ss_commit S)) (ret (Some (r, lineage_ref))))))))"

definition startup_update ::
    "'s provider \<Rightarrow> string \<Rightarrow> string \<Rightarrow> string option \<Rightarrow> string \<Rightarrow> string \<Rightarrow> ('s, startup_record option) startup" where
  "startup_update open_s tenant ref short cid who =
     andthen (checked_ref tenant ''tenant_ref'')
     (andthen (checked_ref ref ''startup_ref'')
     (andthen (if short \<noteq> None \<and> length (the short) > MAX_SHORT_DESCRIPTION_CHARS
               then raise (ValueError ''short_description exceeds the 500-character bound'') else ret ())
     (bnd (from_session (open_s tenant cid (Some who) INTERACTIVE)) (\<lambda>S.
      bnd (in_transaction S (update_body S tenant ref short)) (project_found ref)))))"

section \<open>Reading never writes, a failed update never half-writes\<close>

text \<open>
  \<open>commits_last R m\<close>: a procedure that raises leaves the committed contents as they were; one that
  returns may have changed them.
\<close>

definition publishes :: "('s \<Rightarrow> 'd) \<Rightarrow> ('s, 'e, 'a) proc \<Rightarrow> bool" where
  "publishes stored m \<longleftrightarrow> (\<forall>s e t. m s = (Inl e, t) \<longrightarrow> stored t = stored s)"

lemma keeps_from_session: "keeps R m \<Longrightarrow> keeps R (from_session m)"
  by (auto simp: keeps_def from_session_def split: prod.splits sum.splits) (metis snd_conv)+

lemma keeps_publishes: "keeps (unchanged stored) m \<Longrightarrow> publishes stored m"
  unfolding publishes_def unchanged_def keeps_def by (metis snd_conv)

lemma publishes_bnd:
  "\<lbrakk>keeps (unchanged stored) m; \<And>a. publishes stored (f a)\<rbrakk> \<Longrightarrow> publishes stored (bnd m f)"
  unfolding publishes_def keeps_def unchanged_def
  by (auto split: prod.splits sum.splits) (metis snd_conv)+

lemma publishes_andthen:
  "\<lbrakk>keeps (unchanged stored) m; publishes stored n\<rbrakk> \<Longrightarrow> publishes stored (andthen m n)"
  unfolding andthen_def by (rule publishes_bnd)

lemma publishes_commit:
  "transactional S stored \<Longrightarrow> publishes stored (andthen (from_session (ss_commit S)) (ret x))"
  by (auto simp: publishes_def transactional_def from_session_def split: prod.splits sum.splits)

lemmas startup_keeps = unchanged.keeps_all transactional_keeps keeps_from_session keeps_publishes
  publishes_bnd publishes_andthen publishes_commit

lemma keeps_lineage_reference:
  "transactional S stored \<Longrightarrow> keeps (unchanged stored) (lineage_reference S tenant ref)"
  unfolding lineage_reference_def by (intro startup_keeps)

lemma keeps_abandon: "transactional S stored \<Longrightarrow> keeps (unchanged stored) (abandon S)"
  unfolding abandon_def by (intro startup_keeps)

lemma publishes_update_body:
  assumes "transactional S stored" shows "publishes stored (update_body S tenant ref short)"
  unfolding update_body_def
  by (intro publishes_andthen publishes_bnd keeps_from_session transactional_keeps[OF assms])
    (auto split: option.splits intro!: publishes_andthen publishes_bnd keeps_from_session transactional_keeps[OF assms]
      keeps_publishes[OF unchanged.keeps_ret] keeps_publishes[OF unchanged.keeps_raise] publishes_commit[OF assms]
      keeps_lineage_reference[OF assms])

lemma in_transaction_raises:
  assumes S: "transactional S stored" and body: "publishes stored body"
    and run: "in_transaction S body s = (Inl e, t)"
  shows "stored t = stored s \<or> (\<exists>x s1 d. body s = (Inr x, s1) \<and> ss_close S s1 = (Inl d, t) \<and> e = SessionError d)"
proof -
  obtain r s1 where b: "body s = (r, s1)" by (cases "body s")
  have close: "stored u = stored v" if "ss_close S v = (q, u)" for q u v
    using transactional_keeps(3)[OF S] that unfolding keeps_def unchanged_def by (metis snd_conv)
  show ?thesis
  proof (cases r)
    case (Inl d)
    obtain q s2 where ab: "abandon S s1 = (q, s2)" by (cases "abandon S s1")
    have "q = Inr ()" using ab by (auto simp: abandon_def split: prod.splits sum.splits)
    moreover have "stored s1 = stored s" using body b Inl by (simp add: publishes_def)
    moreover have "stored s2 = stored s1" using keepsD[OF keeps_abandon[OF S] ab] by (simp add: unchanged_def)
    moreover obtain c s3 where c: "ss_close S s2 = (c, s3)" by (cases "ss_close S s2")
    ultimately show ?thesis using run b Inl ab close[OF c]
      by (cases c) (simp_all add: in_transaction_def from_session_def)
  next
    case (Inr x)
    obtain c s2 where c: "ss_close S s1 = (c, s2)" by (cases "ss_close S s1")
    with run b Inr show ?thesis by (cases c) (auto simp: in_transaction_def from_session_def)
  qed
qed

end
