(* ===== verification/DR_SessionClaims.thy ===== *)
theory DR_SessionClaims
  imports DR_Startup
begin

text \<open>
  What the routed session and the startup operations promise: identifiers cannot escape their
  quotes, every statement has exactly its parameters, and an update that raises wrote nothing,
  except where the projection of the committed row fails.
\<close>

section \<open>Statements\<close>

text \<open>A quoted identifier reads back as exactly the name it was made from, whatever characters the
name has, and what follows it is untouched: no table or column name can end its own quotes.\<close>

theorem quoted_identifier_roundtrip:
  assumes "rest = [] \<or> hd rest \<noteq> CHR 0x22"
  shows "read_ident (quote_ident name @ rest) = Some (name, rest)"
  using assms by (intro read_quote_ident) (auto split: list.splits)

theorem quoted_identifier_roundtrip_witness:
  "read_ident (quote_ident [CHR ''a'', CHR 0x22, CHR '';''] @ '' = 1'') = Some ([CHR ''a'', CHR 0x22, CHR '';''], '' = 1'')"
  by (rule quoted_identifier_roundtrip) simp

text \<open>As long as no identifier contains a percent sign, every statement of the session has exactly
as many parameter marks as parameters.\<close>

theorem statements_are_parameterized:
  assumes "count_marks table = 0" and "plain_cols key" and "plain_cols r" and "count_marks order_by = 0"
    and "count_marks id_col = 0" and "count_marks parent_col = 0"
  shows "list_all (\<lambda>(sql, params). count_marks sql = length params)
    [append_stmt table r, upsert_stmt table key r, update_stmt table key r, get_stmt table key,
     latest_stmt table key order_by, page_stmt table key order_by descending after limit,
     traverse_stmt table start_id id_col parent_col max_depth descendants, lock_chain_stmt tenant]"
proof -
  note cols = count_cols[OF assms(2)] count_cols[OF assms(3)] count_cols[OF plain_merge[OF assms(2,3)]]
  have page: "case page_stmt table key order_by descending after limit of (sql, params) \<Rightarrow> count_marks sql = length params"
  proof -
    let ?f = "\<lambda>(c, _ :: json). quote_ident c @ '' = %s''"
    have "sum_list (map (count_marks \<circ> ?f) key) = length key"
      using assms(2) by (induction key) (auto simp: plain_cols_def)
    then have marks: "count_marks (join '' AND '' (map ?f key @ xs)) = length key + sum_list (map count_marks xs)" for xs
      by (simp add: count_join)
    show ?thesis
    proof (cases after)
      case None
      then show ?thesis using assms(1,4) marks[of "[]"] by (simp add: page_stmt_def Let_def)
    next
      case (Some v)
      then show ?thesis using assms(1,4) marks by (simp add: page_stmt_def Let_def)
    qed
  qed
  show ?thesis using page assms(1,4-6) cols
    by (simp add: append_stmt_def upsert_stmt_def update_stmt_def get_stmt_def latest_stmt_def where_clause_def
        traverse_stmt_def lock_chain_stmt_def Let_def)
qed

theorem statements_are_parameterized_witness:
  "fst (append_stmt ''t'' [(''a'', JInt 1)]) = ''INSERT INTO '' @ quote_ident ''t'' @ '' ('' @ quote_ident ''a'' @ '') VALUES (%s)''
   \<and> count_marks (fst (append_stmt ''t'' [(''a'', JInt 1)])) = 1"
  using statements_are_parameterized[of "''t''" "[]" "[(''a'', JInt 1)]" "''o''" "''i''" "''p''" False None 1 JNull 1 False "''x''"]
  by (simp add: plain_cols_def append_stmt_def column_list_def placeholders_def)

section \<open>Startup operations\<close>

text \<open>C13: An update that raises wrote nothing: the committed contents are those before the call, unless
the commit had already gone through and only the projection of the row, or returning the
connection, failed.\<close>

theorem failed_update_writes_nothing:
  assumes "\<And>s S s1. open_s tenant cid (Some who) INTERACTIVE s = (Inr S, s1) \<Longrightarrow> transactional S stored"
    and "keeps (\<lambda>s t. stored t = stored s) (open_s tenant cid (Some who) INTERACTIVE)"
    and "startup_update open_s tenant ref short cid who s = (Inl e, t)"
  shows "stored t = stored s \<or> e = ValueError ''tenant startup row carries no display name'' \<or> (\<exists>d. e = SessionError d)"
proof -
  let ?open = "open_s tenant cid (Some who) INTERACTIVE"
  consider "t = s" | "utf8_length tenant \<le> MAX_REF_BYTES" "tenant \<noteq> []" "utf8_length ref \<le> MAX_REF_BYTES" "ref \<noteq> []"
    "\<not> (short \<noteq> None \<and> length (the short) > MAX_SHORT_DESCRIPTION_CHARS)"
    using assms(3) by (fastforce simp: startup_update_def checked_ref_def split: if_splits)
  then show ?thesis
  proof cases
    case 2
    obtain q s1 where q: "?open s = (q, s1)" by (cases "?open s")
    have s1: "stored s1 = stored s" using assms(2) q unfolding keeps_def by (metis snd_conv)
    show ?thesis
    proof (cases q)
      case (Inl d)
      with assms(3) 2 q s1 show ?thesis by (auto simp: startup_update_def checked_ref_def from_session_def)
    next
      case (Inr S)
      have S: "transactional S stored" using assms(1) q Inr by blast
      obtain b s2 where b: "in_transaction S (update_body S tenant ref short) s1 = (b, s2)"
        by (cases "in_transaction S (update_body S tenant ref short) s1")
      show ?thesis
      proof (cases b)
        case (Inl d)
        with assms(3) 2 q \<open>q = Inr S\<close> b have "e = d" "t = s2"
          by (auto simp: startup_update_def checked_ref_def from_session_def)
        with in_transaction_raises[OF S publishes_update_body[OF S] b[unfolded Inl]] s1 show ?thesis by auto
      next
        case found: (Inr found)
        with assms(3) 2 q Inr b have p: "project_found ref found s2 = (Inl e, t)"
          by (auto simp: startup_update_def checked_ref_def from_session_def)
        then have "e = ValueError ''tenant startup row carries no display name''"
          by (auto simp: project_found_def project_record_def split: option.splits prod.splits json.splits if_splits)
        then show ?thesis by simp
      qed
    qed
  qed simp
qed

text \<open>A database of one startup row, with the working copy of the open transaction.\<close>

definition row_session :: "(row \<times> row, dr_error) tenant_session" where
  "row_session =
     \<lparr>ss_tenant_id = ''acme'', ss_begin = writes (\<lambda>(c, w). (c, c)), ss_commit = writes (\<lambda>(c, w). (w, w)),
      ss_rollback = writes (\<lambda>(c, w). (c, c)), ss_close = ret (),
      ss_upsert = (\<lambda>t k r. andthen (writes (\<lambda>(c, w). (c, dict_merge w r))) (ret True)),
      ss_append = (\<lambda>t r. ret ()),
      ss_update = (\<lambda>t k r. writes (\<lambda>(c, w). (c, dict_merge w r))),
      ss_get = (\<lambda>t k. reads (\<lambda>(c, w). Some w)), ss_latest = (\<lambda>t k o'. ret None)\<rparr>"

lemma row_session_transactional: "transactional row_session fst"
  by (auto simp: transactional_def row_session_def keeps_def)

theorem failed_update_writes_nothing_witness:
  "fst (snd (startup_update (\<lambda>_ _ _ _. ret row_session) ''acme'' ''s1'' (Some (replicate 501 CHR ''x'')) ''c'' ''p'' ([], []))) = []"
proof -
  let ?run = "startup_update (\<lambda>_ _ _ _. ret row_session) ''acme'' ''s1'' (Some (replicate 501 CHR ''x'')) ''c'' ''p'' ([], [])"
  have run: "?run = (Inl (ValueError ''short_description exceeds the 500-character bound''), ([], []))"
    by (simp add: startup_update_def checked_ref_def utf8_length_def MAX_REF_BYTES_def MAX_SHORT_DESCRIPTION_CHARS_def)
  have "fst ([] :: row, [] :: row) = fst ([] :: row, [] :: row) \<or> ValueError ''short_description exceeds the 500-character bound''
      = ValueError ''tenant startup row carries no display name''
      \<or> (\<exists>d. ValueError ''short_description exceeds the 500-character bound'' = SessionError d)"
    by (rule failed_update_writes_nothing[OF _ _ run]) (simp_all add: row_session_transactional keeps_def)
  with run show ?thesis by simp
qed

text \<open>The projection of the row runs after the commit: updating a startup whose row has no company
name raises, and the new short description is committed all the same.\<close>

theorem update_without_name_commits_and_raises:
  "startup_update (\<lambda>_ _ _ _. ret row_session) ''acme'' ''s1'' (Some ''new'') ''c'' ''p''
      ([(''short_description'', JStr ''old'')], [])
    = (Inl (ValueError ''tenant startup row carries no display name''),
       ([(''short_description'', JStr ''new'')], [(''short_description'', JStr ''new'')]))"
  by (simp add: startup_update_def checked_ref_def utf8_length_def MAX_REF_BYTES_def MAX_SHORT_DESCRIPTION_CHARS_def
      from_session_def in_transaction_def update_body_def row_session_def dict_merge_def dict_put_def short_cell_def
      obj_get_def dict_get_def lineage_reference_def project_found_def project_record_def)

end
