(* ===== verification/Wire.thy ===== *)
theory Wire
  imports Shared "HOL-Library.Countable"
begin

text \<open>
  What the internal HTTP clients and edges of the services share: a transport, the bounded answers of an
  append-only ingest edge and how every durable audit client judges them, the bounded retry, and the
  checks an edge puts on a reference field. A transport sends a document to a path and gives back the
  status and body, a mirrored error status whose body may be unreadable, or no answer. Bodies are decoded
  by an argument (\<open>decode\<close> then \<open>json.loads\<close>, \<open>None\<close> where either raises).
\<close>

section \<open>Transport\<close>

datatype exchange = Response int string | HttpFailure int "string option" | NoAnswer

type_synonym 's transport = "string \<Rightarrow> json \<Rightarrow> 's \<Rightarrow> exchange \<times> 's"

definition sending :: "('s \<Rightarrow> exchange \<times> 's) \<Rightarrow> (exchange \<Rightarrow> 'e + 'a) \<Rightarrow> ('s, 'e, 'a) proc" where
  "sending post read s = (case post s of (x, t) \<Rightarrow> (read x, t))"

text \<open>\<open>isinstance(v, bool) or v != 1\<close>: a float equal to one passes, a Boolean does not.\<close>

definition plain_version_one :: "(string \<Rightarrow> bool) \<Rightarrow> json \<Rightarrow> bool" where
  "plain_version_one float_one v = (case v of JInt n \<Rightarrow> n = 1 | JFloat t \<Rightarrow> float_one t | _ \<Rightarrow> False)"

definition json_opt :: "string option \<Rightarrow> json" where
  "json_opt v = (case v of None \<Rightarrow> JNull | Some s \<Rightarrow> JStr s)"

section \<open>Durable audit clients\<close>

datatype transport_kind = KIND_INVALID | KIND_CONFLICT | KIND_UNAVAILABLE

text \<open>The failure of one post: a kind, or an unhashable result raising \<open>TypeError\<close>.\<close>

datatype audit_failure = TransportError transport_kind | AuditRaised string

definition status_to_kind :: "int \<Rightarrow> transport_kind" where
  "status_to_kind status =
     (if status = 409 then KIND_CONFLICT else if status = 503 then KIND_UNAVAILABLE else KIND_INVALID)"

definition judge_audit_answer :: "(string \<Rightarrow> bool) \<Rightarrow> (string \<Rightarrow> json option) \<Rightarrow> exchange \<Rightarrow> audit_failure + unit" where
  "judge_audit_answer float_one loads x =
     (case x of
        NoAnswer \<Rightarrow> Inl (TransportError KIND_UNAVAILABLE)
      | HttpFailure status _ \<Rightarrow> Inl (TransportError (status_to_kind status))
      | Response status raw \<Rightarrow>
          if status \<noteq> 200 then Inl (TransportError KIND_INVALID)
          else (case loads raw of
              Some (JObj d) \<Rightarrow>
                if \<not> has_keys d [''version'', ''result''] \<or> \<not> plain_version_one float_one (obj_get d ''version'')
                then Inl (TransportError KIND_INVALID)
                else (case obj_get d ''result'' of
                    JStr r \<Rightarrow> if r \<in> {''INSERTED'', ''DUPLICATE_MATCH''} then Inr () else Inl (TransportError KIND_INVALID)
                  | JList _ \<Rightarrow> Inl (AuditRaised ''TypeError'')
                  | JObj _ \<Rightarrow> Inl (AuditRaised ''TypeError'')
                  | _ \<Rightarrow> Inl (TransportError KIND_INVALID))
            | _ \<Rightarrow> Inl (TransportError KIND_INVALID)))"

text \<open>One post of an event under the version 1 envelope.\<close>

definition post_event ::
    "'s transport \<Rightarrow> (string \<Rightarrow> bool) \<Rightarrow> (string \<Rightarrow> json option) \<Rightarrow> string \<Rightarrow> json \<Rightarrow> ('s, audit_failure, unit) proc" where
  "post_event post float_one loads path event =
     sending (post path (JObj [(''version'', JInt 1), (''event'', event)])) (judge_audit_answer float_one loads)"

text \<open>One retry of the same event, only for the transient kind.\<close>

definition retry_once :: "('s, audit_failure, unit) proc \<Rightarrow> ('s, audit_failure, unit) proc" where
  "retry_once m = tries m (\<lambda>f. if f = TransportError KIND_UNAVAILABLE then m else raise f) ret"

section \<open>Reference fields\<close>

fun occurs_in :: "string \<Rightarrow> string \<Rightarrow> bool" where
  "occurs_in p [] = (p = [])"
| "occurs_in p (c # cs) = (starts_with p (c # cs) \<or> occurs_in p cs)"

definition SECRET_SHAPES :: "string list" where
  "SECRET_SHAPES = [''eyJ'', ''-----BEGIN'', ''AKIA'', ''ghp_'', ''xox'', ''://'']"

definition MAX_REF_LENGTH :: nat where "MAX_REF_LENGTH = 512"

definition secret_shaped :: "string \<Rightarrow> bool" where
  "secret_shaped s = list_ex (\<lambda>marker. occurs_in marker s) SECRET_SHAPES"

text \<open>Every refusal of an edge is the same answer, so a refused field is just nothing.\<close>

definition checked_string :: "json \<Rightarrow> string option" where
  "checked_string v = (case v of
      JStr s \<Rightarrow> if MAX_REF_LENGTH < length s \<or> secret_shaped s then None else Some s
    | _ \<Rightarrow> None)"

definition required_string :: "(string \<times> json) list \<Rightarrow> string \<Rightarrow> string option" where
  "required_string d k = (case checked_string (obj_get d k) of Some s \<Rightarrow> if s = [] then None else Some s | None \<Rightarrow> None)"

definition optional_string :: "(string \<times> json) list \<Rightarrow> string \<Rightarrow> string option option" where
  "optional_string d k = (case obj_get d k of JNull \<Rightarrow> Some None | v \<Rightarrow> map_option Some (checked_string v))"

section \<open>Answers of an edge\<close>

text \<open>A status with a document or, where the body is empty, without one.\<close>

record edge_answer =
  ea_status :: int
  ea_body :: "json option"

definition empty_response :: "int \<Rightarrow> edge_answer" where
  "empty_response status = \<lparr>ea_status = status, ea_body = None\<rparr>"

definition json_response :: "int \<Rightarrow> json \<Rightarrow> edge_answer" where
  "json_response status v = \<lparr>ea_status = status, ea_body = Some v\<rparr>"

definition result_response :: "int \<Rightarrow> string \<Rightarrow> edge_answer" where
  "result_response status result = json_response status (JObj [(''version'', JInt 1), (''result'', JStr result)])"

text \<open>
  An edge with one surface as the transport of its client sees it: another path is refused, an error
  status arrives as a failure, and \<open>dumps\<close> renders the documents on the wire.
\<close>

definition exchange_of :: "(json \<Rightarrow> string) \<Rightarrow> edge_answer \<Rightarrow> exchange" where
  "exchange_of dumps a =
     (let body = (case ea_body a of None \<Rightarrow> [] | Some v \<Rightarrow> dumps v) in
      if 400 \<le> ea_status a then HttpFailure (ea_status a) (Some body) else Response (ea_status a) body)"

definition serving :: "(json \<Rightarrow> string) \<Rightarrow> string \<Rightarrow> (string \<Rightarrow> 's \<Rightarrow> edge_answer \<times> 's) \<Rightarrow> 's transport" where
  "serving dumps surface answer path v s =
     (if path = surface then (case answer (dumps v) s of (a, t) \<Rightarrow> (exchange_of dumps a, t))
      else (HttpFailure 404 (Some []), s))"


text \<open>
  What the code relies on of the JSON library, that a rendered document decodes to itself, and a rendering
  that does: decoded documents are countable, and a document is written as its number.
\<close>

definition codec :: "(json \<Rightarrow> string) \<Rightarrow> (string \<Rightarrow> json option) \<Rightarrow> bool" where
  "codec dumps loads \<longleftrightarrow> (\<forall>v. loads (dumps v) = Some v)"

lemma codecD [simp]: "codec dumps loads \<Longrightarrow> loads (dumps v) = Some v"
  by (simp add: codec_def)

instance json :: countable
  by countable_datatype

definition numbered_dumps :: "json \<Rightarrow> string" where
  "numbered_dumps v = show_nat (to_nat v)"

definition numbered_loads :: "string \<Rightarrow> json option" where
  "numbered_loads s = map_option (\<lambda>n. from_nat (nat n)) (py_int s)"

lemma numbered_codec: "codec numbered_dumps numbered_loads"
  by (simp add: codec_def numbered_dumps_def numbered_loads_def)

text \<open>The same, with names for a few documents: what a concrete run evaluates.\<close>

definition named_dumps :: "(string \<times> json) list \<Rightarrow> json \<Rightarrow> string" where
  "named_dumps names v = (case find (\<lambda>(n, d). d = v) names of Some (n, _) \<Rightarrow> n | None \<Rightarrow> numbered_dumps v)"

definition named_loads :: "(string \<times> json) list \<Rightarrow> string \<Rightarrow> json option" where
  "named_loads names s = (case map_of names s of Some d \<Rightarrow> Some d | None \<Rightarrow> numbered_loads s)"

lemma named_codec:
  assumes "distinct (map fst names)" "\<And>n d. (n, d) \<in> set names \<Longrightarrow> \<not> list_all is_digit n"
  shows "codec (named_dumps names) (named_loads names)"
  unfolding codec_def
proof
  fix v
  show "named_loads names (named_dumps names v) = Some v"
  proof (cases "find (\<lambda>(n, d). d = v) names")
    case None
    have "map_of names (numbered_dumps v) = None"
      using assms(2) show_nat_digits by (fastforce simp: map_of_eq_None_iff numbered_dumps_def)
    with None show ?thesis using numbered_codec by (simp add: named_dumps_def named_loads_def)
  next
    case (Some q)
    then obtain n where "q = (n, v)" "(n, v) \<in> set names" by (auto simp: find_Some_iff) (metis nth_mem)
    with Some assms(1) show ?thesis by (simp add: named_dumps_def named_loads_def map_of_is_SomeI)
  qed
qed

end
