(* ===== verification/DR_StartupEdge.thy ===== *)
theory DR_StartupEdge
  imports DR_Startup Wire
begin

text \<open>
  The internal tenant startup edge of the database router
  (\<open>backend/database_router/adapters/providers/http_tenant_startup_api.py\<close>): the bounded envelope of its two
  surfaces and the answers its client can see. The executor behind it is an argument. Every refusal of the
  validation is the same answer, so it is the absence of arguments.
\<close>

definition TEXT_SECRET_SHAPES :: "string list" where
  "TEXT_SECRET_SHAPES = [''eyJ'', ''-----BEGIN'', ''AKIA'', ''ghp_'', ''xox'']"

definition MAX_BODY :: nat where "MAX_BODY = 32768"

definition STARTUP_READ_KEYS :: "string list" where
  "STARTUP_READ_KEYS = [''v'', ''startup_ref'', ''target_tenant_ref'', ''correlation_id'', ''actor_ref'']"

definition STARTUP_UPDATE_KEYS :: "string list" where
  "STARTUP_UPDATE_KEYS = STARTUP_READ_KEYS @ [''short_description'']"

definition required_ref :: "(string \<times> json) list \<Rightarrow> string \<Rightarrow> string option" where
  "required_ref d k =
     (case obj_get d k of
        JStr s \<Rightarrow> if s = [] \<or> MAX_REF_LENGTH < length s \<or> secret_shaped s then None else Some s
      | _ \<Rightarrow> None)"

definition text_shaped :: "string \<Rightarrow> bool" where
  "text_shaped s = list_ex (\<lambda>marker. occurs_in marker s) TEXT_SECRET_SHAPES"

definition bounded_short_description :: "(string \<times> json) list \<Rightarrow> string option option" where
  "bounded_short_description d =
     (case obj_get d ''short_description'' of
        JNull \<Rightarrow> Some None
      | JStr s \<Rightarrow> if MAX_SHORT_DESCRIPTION_CHARS < length s \<or> text_shaped s then None else Some (Some s)
      | _ \<Rightarrow> None)"

definition parse_startup_envelope ::
    "(string \<Rightarrow> bool) \<Rightarrow> (string \<Rightarrow> json option) \<Rightarrow> string list \<Rightarrow> string \<Rightarrow> (string \<times> json) list option" where
  "parse_startup_envelope float_one loads keys raw =
     (case loads raw of
        Some (JObj d) \<Rightarrow> if has_keys d keys \<and> plain_version_one float_one (obj_get d ''v'') then Some d else None
      | _ \<Rightarrow> None)"

record startup_arguments =
  sa_tenant_ref :: string
  sa_startup_ref :: string
  sa_correlation_id :: string
  sa_actor_ref :: string
  sa_short_description :: "string option"

definition startup_arguments_of ::
    "(string \<Rightarrow> bool) \<Rightarrow> (string \<Rightarrow> json option) \<Rightarrow> bool \<Rightarrow> string \<Rightarrow> startup_arguments option" where
  "startup_arguments_of float_one loads is_update raw =
     (if MAX_BODY < length raw then None
      else Option.bind (parse_startup_envelope float_one loads (if is_update then STARTUP_UPDATE_KEYS else STARTUP_READ_KEYS) raw) (\<lambda>d.
           Option.bind (if is_update then bounded_short_description d else Some None) (\<lambda>short.
           Option.bind (required_ref d ''target_tenant_ref'') (\<lambda>tenant.
           Option.bind (required_ref d ''startup_ref'') (\<lambda>ref.
           Option.bind (required_ref d ''correlation_id'') (\<lambda>cid.
           Option.bind (required_ref d ''actor_ref'') (\<lambda>actor.
             Some \<lparr>sa_tenant_ref = tenant, sa_startup_ref = ref, sa_correlation_id = cid, sa_actor_ref = actor,
               sa_short_description = short\<rparr>)))))))"

definition record_json :: "startup_record \<Rightarrow> json" where
  "record_json r =
     JObj [(''record_ref'', JStr (su_record_ref r)), (''display_name'', JStr (su_display_name r)),
       (''short_description'', json_opt (su_short_description r)), (''investment_stage'', json_opt (su_investment_stage r)),
       (''lineage_reference'', json_opt (su_lineage_reference r))]"

text \<open>The executor: the two operations of \<open>TenantStartupOperations\<close>.\<close>

record 's startup_ops =
  op_read :: "string \<Rightarrow> string \<Rightarrow> string \<Rightarrow> string \<Rightarrow> ('s, startup_record option) startup"
  op_update :: "string \<Rightarrow> string \<Rightarrow> string option \<Rightarrow> string \<Rightarrow> string \<Rightarrow> ('s, startup_record option) startup"

definition startup_execute :: "'s startup_ops \<Rightarrow> bool \<Rightarrow> startup_arguments \<Rightarrow> ('s, startup_record option) startup" where
  "startup_execute ops is_update a =
     (if is_update
      then op_update ops (sa_tenant_ref a) (sa_startup_ref a) (sa_short_description a) (sa_correlation_id a) (sa_actor_ref a)
      else op_read ops (sa_tenant_ref a) (sa_startup_ref a) (sa_correlation_id a) (sa_actor_ref a))"

definition answer_record :: "startup_error + startup_record option \<Rightarrow> edge_answer" where
  "answer_record r =
     (case r of
        Inl _ \<Rightarrow> result_response 503 ''UNAVAILABLE''
      | Inr None \<Rightarrow> result_response 404 ''NOT_FOUND''
      | Inr (Some rec) \<Rightarrow> json_response 200 (JObj [(''version'', JInt 1), (''record'', record_json rec)]))"

definition startup_handle ::
    "(string \<Rightarrow> bool) \<Rightarrow> (string \<Rightarrow> json option) \<Rightarrow> 's startup_ops \<Rightarrow> bool \<Rightarrow> bool \<Rightarrow> string \<Rightarrow> 's \<Rightarrow> edge_answer \<times> 's" where
  "startup_handle float_one loads ops is_update has_query raw s =
     (if has_query then (empty_response 404, s)
      else case startup_arguments_of float_one loads is_update raw of
          None \<Rightarrow> (result_response 400 ''INVALID'', s)
        | Some a \<Rightarrow> (case startup_execute ops is_update a s of (r, t) \<Rightarrow> (answer_record r, t)))"

definition startup_edge :: "(json \<Rightarrow> string) \<Rightarrow> (string \<Rightarrow> bool) \<Rightarrow> (string \<Rightarrow> json option) \<Rightarrow> 's startup_ops \<Rightarrow> 's transport" where
  "startup_edge dumps float_one loads ops path =
     (if path = ''/internal/tenant/startups/update''
      then serving dumps path (startup_handle float_one loads ops True False) path
      else serving dumps ''/internal/tenant/startups/read'' (startup_handle float_one loads ops False False) path)"

text \<open>The composed executor: the operations over a session provider.\<close>

definition tenant_startup_ops :: "'s provider \<Rightarrow> 's startup_ops" where
  "tenant_startup_ops open_s = \<lparr>op_read = startup_read open_s, op_update = startup_update open_s\<rparr>"

end
