(* ===== verification/GW_Core.thy ===== *)
theory GW_Core
  imports Shared Wire Complex_Main
begin

text \<open>
  The shapes and pure stages of the API gateway: requests, decisions, events and answers
  (\<open>backend/api_gateway/models.py\<close>), the portal shapes (\<open>portal.py\<close>), the tenant carriers (\<open>carrier.py\<close>),
  the dispatch taxonomy (\<open>dispatch.py\<close>) and the request context (\<open>request_context.py\<close>).
\<close>

section \<open>Portal shapes\<close>

record directory_entry =
  de_record_ref :: string
  de_display_name :: string

record global_summary =
  gs_records :: "directory_entry list"
  gs_record_origin :: string
  gs_record_residency :: string
  gs_record_type :: string

definition global_startup_summary :: "directory_entry list \<Rightarrow> global_summary" where
  "global_startup_summary rs =
     \<lparr>gs_records = rs, gs_record_origin = ''global'', gs_record_residency = ''global'', gs_record_type = ''GlobalStartupDirectory''\<rparr>"

definition global_investor_summary :: "directory_entry list \<Rightarrow> global_summary" where
  "global_investor_summary rs =
     \<lparr>gs_records = rs, gs_record_origin = ''global'', gs_record_residency = ''global'', gs_record_type = ''GlobalInvestorDirectory''\<rparr>"

record membership_entry =
  me_tenant_id :: string
  me_role :: string
  me_display_ref :: string

record import_initiation =
  ii_source_ref :: string
  ii_target_tenant_ref :: string
  ii_initiation :: string

record import_result =
  ix_source_ref :: string
  ix_target_tenant_ref :: string
  ix_tenant_record_ref :: string
  ix_lineage_ref :: string
  ix_import_id :: string
  ix_outcome :: string

record startup_detail =
  sd_record_ref :: string
  sd_display_name :: string
  sd_short_description :: "string option"
  sd_investment_stage :: "string option"
  sd_record_origin :: string
  sd_record_residency :: string
  sd_record_type :: string
  sd_lineage_reference :: "string option"

text \<open>The six approved shapes; the composer refuses no value of this type.\<close>

datatype portal_dto =
    GlobalStartupSummaryDTO global_summary
  | GlobalInvestorSummaryDTO global_summary
  | WorkspaceMembershipDTO "membership_entry list"
  | ImportInitiationDTO import_initiation
  | ImportResultDTO import_result
  | TenantStartupDetailDTO startup_detail

definition SHORT_DESCRIPTION_MAX_CHARS :: nat where "SHORT_DESCRIPTION_MAX_CHARS = 500"

definition compose_display_ref :: "string \<Rightarrow> string" where
  "compose_display_ref tenant = ''ref:tenant/'' @ tenant @ ''/display''"

text \<open>The update body as \<open>json.loads\<close> decodes it, \<open>None\<close> where it raises; the answer is the new value.\<close>

definition parse_update_request :: "json option \<Rightarrow> string + string option" where
  "parse_update_request body =
     (case body of
        None \<Rightarrow> Inl ''malformed tenant startup update body''
      | Some (JObj d) \<Rightarrow>
          if \<not> has_keys d [''short_description''] then Inl ''tenant startup update must carry exactly the one allowlisted field''
          else (case obj_get d ''short_description'' of
              JNull \<Rightarrow> Inr None
            | JStr v \<Rightarrow> if length v > SHORT_DESCRIPTION_MAX_CHARS then Inl ''short_description exceeds the 500-character bound''
                else Inr (Some v)
            | _ \<Rightarrow> Inl ''short_description must be a UTF-8 string or null'')
      | Some _ \<Rightarrow> Inl ''tenant startup update must carry exactly the one allowlisted field'')"

text \<open>\<open>dataclasses.asdict\<close>, in field order.\<close>

definition summary_json :: "global_summary \<Rightarrow> json" where
  "summary_json g =
     JObj [(''records'', JList (map (\<lambda>e. JObj [(''record_ref'', JStr (de_record_ref e)), (''display_name'', JStr (de_display_name e))]) (gs_records g))),
       (''record_origin'', JStr (gs_record_origin g)), (''record_residency'', JStr (gs_record_residency g)),
       (''record_type'', JStr (gs_record_type g))]"

fun portal_json :: "portal_dto \<Rightarrow> json" where
  "portal_json (GlobalStartupSummaryDTO g) = summary_json g"
| "portal_json (GlobalInvestorSummaryDTO g) = summary_json g"
| "portal_json (WorkspaceMembershipDTO ms) =
     JObj [(''memberships'', JList (map (\<lambda>m. JObj [(''tenant_id'', JStr (me_tenant_id m)), (''role'', JStr (me_role m)),
       (''display_ref'', JStr (me_display_ref m))]) ms))]"
| "portal_json (ImportInitiationDTO i) =
     JObj [(''source_ref'', JStr (ii_source_ref i)), (''target_tenant_ref'', JStr (ii_target_tenant_ref i)),
       (''initiation'', JStr (ii_initiation i))]"
| "portal_json (ImportResultDTO i) =
     JObj [(''source_ref'', JStr (ix_source_ref i)), (''target_tenant_ref'', JStr (ix_target_tenant_ref i)),
       (''tenant_record_ref'', JStr (ix_tenant_record_ref i)), (''lineage_ref'', JStr (ix_lineage_ref i)),
       (''import_id'', JStr (ix_import_id i)), (''outcome'', JStr (ix_outcome i))]"
| "portal_json (TenantStartupDetailDTO d) =
     JObj [(''record_ref'', JStr (sd_record_ref d)), (''display_name'', JStr (sd_display_name d)),
       (''short_description'', json_opt (sd_short_description d)), (''investment_stage'', json_opt (sd_investment_stage d)),
       (''record_origin'', JStr (sd_record_origin d)), (''record_residency'', JStr (sd_record_residency d)),
       (''record_type'', JStr (sd_record_type d)), (''lineage_reference'', json_opt (sd_lineage_reference d))]"

section \<open>Requests, decisions, events, answers\<close>

datatype dispatch_category = TENANT_OPERATION | GLOBAL_DIRECTORY_READ | MEMBERSHIPS_FOR_PRINCIPAL | IMPORT_INITIATION

datatype database_domain = DOMAIN_CONTROL | DOMAIN_TENANT

datatype audit_action =
    CARRIER_MISMATCH | CARRIER_ON_CONTROL_ANOMALY | ROUTE_DENIED | ISOLATION_ANOMALY
  | WORKSPACE_MEMBERSHIPS_READ | TENANT_STARTUP_READ | TENANT_STARTUP_UPDATE

definition category_value :: "dispatch_category \<Rightarrow> string" where
  "category_value c =
     (case c of TENANT_OPERATION \<Rightarrow> ''TENANT_OPERATION'' | GLOBAL_DIRECTORY_READ \<Rightarrow> ''GLOBAL_DIRECTORY_READ''
      | MEMBERSHIPS_FOR_PRINCIPAL \<Rightarrow> ''MEMBERSHIPS_FOR_PRINCIPAL'' | IMPORT_INITIATION \<Rightarrow> ''IMPORT_INITIATION'')"

definition action_value :: "audit_action \<Rightarrow> string" where
  "action_value a =
     (case a of CARRIER_MISMATCH \<Rightarrow> ''CarrierMismatch'' | CARRIER_ON_CONTROL_ANOMALY \<Rightarrow> ''CarrierOnControlAnomaly''
      | ROUTE_DENIED \<Rightarrow> ''RouteDenied'' | ISOLATION_ANOMALY \<Rightarrow> ''IsolationAnomaly''
      | WORKSPACE_MEMBERSHIPS_READ \<Rightarrow> ''workspace_memberships_read'' | TENANT_STARTUP_READ \<Rightarrow> ''tenant_startup_read''
      | TENANT_STARTUP_UPDATE \<Rightarrow> ''tenant_startup_update'')"

record inbound_request =
  ib_method :: string
  ib_path :: string
  ib_host :: string
  ib_headers :: "(string, string) dict"
  ib_query :: "(string, string) dict"
  ib_cookies :: "(string, string) dict"
  ib_authorization :: "string option"
  ib_patch_body :: "string option"

record auth_result =
  az_correlation_id :: string
  az_principal_ref :: string
  az_active_tenant_id :: "string option"
  az_role :: "string option"

record dispatch_decision =
  dd_category :: dispatch_category
  dd_domain :: database_domain
  dd_target_tenant_id :: "string option"

record gateway_event =
  ge_action :: audit_action
  ge_correlation_id :: string
  ge_outcome :: string
  ge_actor_ref :: "string option"
  ge_tenant_ref :: "string option"
  ge_carrier_ref :: "string option"
  ge_audit_id :: "string option"
  ge_subject_ref :: "string option"
  ge_occurred_at :: "string option"
  ge_event_version :: "int option"
  ge_record_ref :: "string option"

record gateway_response =
  gr_status :: int
  gr_public_code :: string
  gr_dispatched :: bool
  gr_category :: "dispatch_category option"
  gr_portal_dto :: "portal_dto option"

record route_outcome =
  ro_status :: int
  ro_public_code :: string
  ro_dispatched :: bool

record request_metric =
  rm_category :: "string option"
  rm_outcome :: string
  rm_status :: int
  rm_duration_ms :: rat

text \<open>The refusal of the authenticator, and every other exception by its type's name.\<close>

datatype gw_error = RequestRejected int string | GwException string

definition carrier_mismatch :: gw_error where "carrier_mismatch = RequestRejected 403 ''carrier_mismatch''"
definition gw_unauthenticated :: gw_error where "gw_unauthenticated = RequestRejected 401 ''unauthenticated''"
definition forbidden :: gw_error where "forbidden = RequestRejected 403 ''forbidden''"
definition unavailable :: gw_error where "unavailable = RequestRejected 503 ''unavailable''"

section \<open>Internet addresses\<close>

text \<open>
  \<open>ipaddress.ip_address\<close> accepts a string: dotted quads without leading zeros, and the eight hextets
  of version 6 with at most one run of zeros left out, a trailing quad, a scope after a percent sign.
\<close>

definition octet_ok :: "string \<Rightarrow> bool" where
  "octet_ok s = (s \<noteq> [] \<and> list_all is_digit s \<and> length s \<le> 3 \<and> (s = ''0'' \<or> hd s \<noteq> CHR ''0'')
     \<and> (case digits_value False 0 s of Some n \<Rightarrow> n \<le> 255 | None \<Rightarrow> False))"

definition ipv4_ok :: "string \<Rightarrow> bool" where
  "ipv4_ok s = (length (split_on (CHR ''.'') s) = 4 \<and> list_all octet_ok (split_on (CHR ''.'') s))"

definition hex_char :: "char \<Rightarrow> bool" where
  "hex_char c = (c \<in> set ''0123456789abcdefABCDEF'')"

definition hextet_ok :: "string \<Rightarrow> bool" where
  "hextet_ok s = (s \<noteq> [] \<and> list_all hex_char s \<and> length s \<le> 4)"

text \<open>The parts between the colons, a trailing dotted quad standing for two of them.\<close>

definition v6_parts :: "string \<Rightarrow> string list option" where
  "v6_parts addr =
     (let parts = split_on (CHR '':'') addr in
      if length parts < 3 then None
      else if CHR ''.'' \<in> set (last parts)
        then (if ipv4_ok (last parts) then Some (butlast parts @ [''0'', ''0'']) else None)
      else Some parts)"

definition v6_parts_ok :: "string list \<Rightarrow> bool" where
  "v6_parts_ok parts =
     (let inner = [i. i \<leftarrow> [1..<length parts - 1], parts ! i = []] in
      if length parts > 9 then False
      else case inner of
        [] \<Rightarrow> length parts = 8 \<and> list_all hextet_ok parts
      | [k] \<Rightarrow>
          (let lead = hd parts = []; trail = last parts = [];
               hi = k - (if lead then 1 else 0); lo = length parts - k - 1 - (if trail then 1 else 0) in
           (lead \<longrightarrow> hi = 0) \<and> (trail \<longrightarrow> lo = 0) \<and> hi + lo < 8
           \<and> list_all hextet_ok (take hi parts) \<and> list_all hextet_ok (drop (length parts - lo) parts))
      | _ \<Rightarrow> False)"

definition ipv6_ok :: "string \<Rightarrow> bool" where
  "ipv6_ok s =
     (let addr = takeWhile (\<lambda>c. c \<noteq> CHR ''%'') s; rest = dropWhile (\<lambda>c. c \<noteq> CHR ''%'') s in
      CHR ''/'' \<notin> set s \<and> (rest = [] \<or> (tl rest \<noteq> [] \<and> CHR ''%'' \<notin> set (tl rest)))
      \<and> (case v6_parts addr of None \<Rightarrow> False | Some parts \<Rightarrow> v6_parts_ok parts))"

definition ip_literal :: "string \<Rightarrow> bool" where
  "ip_literal s = (ipv4_ok s \<or> ipv6_ok s)"

section \<open>Carriers\<close>

definition CARRIER_HEADER :: string where "CARRIER_HEADER = ''x-tenant-id''"

definition PROHIBITED_HEADERS :: "string list" where
  "PROHIBITED_HEADERS = [''x-workspace-id'', ''x-workspace'', ''workspace'']"

definition CARRIER_REF_MAX_LEN :: nat where "CARRIER_REF_MAX_LEN = 64"

text \<open>The host without its port and brackets; an unterminated bracket is malformed.\<close>

definition bare_host :: "string \<Rightarrow> string option" where
  "bare_host h =
     (if starts_with ''['' h then
        (if CHR '']'' \<in> set h then Some (takeWhile (\<lambda>c. c \<noteq> CHR '']'') (tl h)) else None)
      else if length (filter (\<lambda>c. c = CHR '':'') h) = 1 then Some (takeWhile (\<lambda>c. c \<noteq> CHR '':'') h)
      else Some h)"

definition subdomain :: "string \<Rightarrow> string option" where
  "subdomain host =
     (let h = to_lower (strip host) in
      if h = [] then None
      else case bare_host h of
        None \<Rightarrow> None
      | Some b \<Rightarrow>
          if b = [] \<or> ip_literal b then None
          else (let labels = split_on (CHR ''.'') b in
                if 3 \<le> length labels \<and> hd labels \<noteq> [] then Some (hd labels) else None))"

definition header_carriers :: "(string, string) dict \<Rightarrow> string list" where
  "header_carriers hs = [strip v. (k, v) \<leftarrow> hs, to_lower k = CARRIER_HEADER \<and> strip v \<noteq> []]"

definition recognized_carriers :: "inbound_request \<Rightarrow> string list" where
  "recognized_carriers req =
     (case subdomain (ib_host req) of None \<Rightarrow> [] | Some sub \<Rightarrow> [sub]) @ header_carriers (ib_headers req)"

text \<open>\<open>p in s\<close> for strings.\<close>

definition names_tenant :: "string \<Rightarrow> bool" where
  "names_tenant k = (occurs_in ''tenant'' (to_lower k) \<or> occurs_in ''workspace'' (to_lower k))"

definition prohibited_carrier_present :: "inbound_request \<Rightarrow> bool" where
  "prohibited_carrier_present req =
     (list_ex names_tenant (dict_keys (ib_cookies req)) \<or> list_ex names_tenant (dict_keys (ib_query req))
      \<or> list_ex (\<lambda>k. to_lower k \<in> set PROHIBITED_HEADERS) (dict_keys (ib_headers req)))"

definition opaque_carrier_ref :: "string \<Rightarrow> string" where
  "opaque_carrier_ref v = take CARRIER_REF_MAX_LEN (''carrier:'' @ strip v)"

section \<open>Dispatch\<close>

datatype dispatch_denied = DispatchError string bool

definition CONTROL_CATEGORIES :: "dispatch_category list" where
  "CONTROL_CATEGORIES = [GLOBAL_DIRECTORY_READ, MEMBERSHIPS_FOR_PRINCIPAL]"

definition category_domain :: "dispatch_category \<Rightarrow> database_domain" where
  "category_domain c = (if c \<in> set CONTROL_CATEGORIES then DOMAIN_CONTROL else DOMAIN_TENANT)"

definition under :: "string \<Rightarrow> string \<Rightarrow> bool" where
  "under base path = (path = base \<or> starts_with (base @ ''/'') path)"

definition default_classifier :: "inbound_request \<Rightarrow> dispatch_denied + dispatch_category" where
  "default_classifier req =
     (if under ''/tenant'' (ib_path req) then Inr TENANT_OPERATION
      else if under ''/directory'' (ib_path req) then Inr GLOBAL_DIRECTORY_READ
      else if under ''/memberships'' (ib_path req) then Inr MEMBERSHIPS_FOR_PRINCIPAL
      else if under ''/import'' (ib_path req) then Inr IMPORT_INITIATION
      else Inl (DispatchError ''unknown_route'' False))"

definition decide :: "dispatch_category \<Rightarrow> request_context \<Rightarrow> dispatch_denied + dispatch_decision" where
  "decide c ctx =
     (if category_domain c = DOMAIN_TENANT then
        (if rq_active_tenant_id ctx = None then Inl (DispatchError ''tenant_context_required'' False)
         else Inr \<lparr>dd_category = c, dd_domain = DOMAIN_TENANT, dd_target_tenant_id = rq_active_tenant_id ctx\<rparr>)
      else Inr \<lparr>dd_category = c, dd_domain = DOMAIN_CONTROL, dd_target_tenant_id = None\<rparr>)"

definition assert_single_database :: "dispatch_decision \<Rightarrow> dispatch_denied + unit" where
  "assert_single_database d =
     (if dd_domain d = DOMAIN_TENANT \<and> dd_target_tenant_id d = None then Inl (DispatchError ''isolation_anomaly'' True)
      else if dd_domain d = DOMAIN_CONTROL \<and> dd_target_tenant_id d \<noteq> None then Inl (DispatchError ''isolation_anomaly'' True)
      else Inr ())"

definition build_request_context :: "auth_result \<Rightarrow> request_context" where
  "build_request_context auth =
     \<lparr>rq_correlation_id = az_correlation_id auth, rq_request_id = Some (az_correlation_id auth),
      rq_active_tenant_id = az_active_tenant_id auth, rq_principal_ref = Some (az_principal_ref auth), rq_role = az_role auth\<rparr>"

end
