(* ===== verification/GW_Gateway.thy ===== *)
theory GW_Gateway
  imports GW_Core Shared
begin

text \<open>
  The request pipeline of the API gateway (\<open>backend/api_gateway/gateway.py\<close>) over its ports
  (\<open>ports.py\<close>). A port is an argument that may raise; the optional ones are options. The body of an
  update is decoded by an argument (\<open>json.loads\<close>).
\<close>

section \<open>Ports\<close>

record import_initiation_request =
  iq_source_ref :: string
  iq_target_tenant_ref :: string
  iq_operation_key :: string
  iq_correlation_id :: string
  iq_actor_ref :: string

record import_initiation_outcome =
  io_ok :: bool
  io_state :: string
  io_replayed :: bool
  io_applied_count :: int
  io_noop_count :: int
  io_import_id :: string

record startup_read_request =
  su_startup_ref :: string
  su_target_tenant_ref :: string
  su_correlation_id :: string
  su_actor_ref :: string

record startup_update_request = startup_read_request +
  su_short_description :: "string option"

type_synonym ('s, 'a) gw_proc = "('s, gw_error, 'a) proc"

datatype directory_dto = StartupSummary global_summary | InvestorSummary global_summary

record 's control_read =
  cr_directory :: "string \<Rightarrow> ('s, directory_dto option) gw_proc"
  cr_memberships :: "string \<Rightarrow> ('s, membership_entry list option) gw_proc"

record 's startup_port =
  sp_read :: "startup_read_request \<Rightarrow> ('s, startup_detail option) gw_proc"
  sp_update :: "startup_update_request \<Rightarrow> ('s, startup_detail option) gw_proc"

record 's gateway =
  gw_authenticate :: "string option \<Rightarrow> string list \<Rightarrow> string \<Rightarrow> ('s, auth_result) gw_proc"
  gw_dispatch :: "request_context \<Rightarrow> dispatch_decision \<Rightarrow> ('s, route_outcome) gw_proc"
  gw_control_read :: "'s control_read option"
  gw_classify :: "inbound_request \<Rightarrow> dispatch_denied + dispatch_category"
  gw_audit :: "gateway_event \<Rightarrow> ('s, unit) gw_proc"
  gw_metrics :: "request_metric \<Rightarrow> ('s, unit) gw_proc"
  gw_import :: "(import_initiation_request \<Rightarrow> ('s, import_initiation_outcome) gw_proc) option"
  gw_startup :: "'s startup_port option"
  gw_loads :: "string \<Rightarrow> json option"
  gw_uuid :: "('s, string) gw_proc"
  gw_now :: "('s, string) gw_proc"
  gw_monotonic :: "('s, rat) gw_proc"

section \<open>Path and header parameters\<close>

definition DIRECTORY_PREFIX :: string where "DIRECTORY_PREFIX = ''/directory/''"
definition IMPORT_PREFIX :: string where "IMPORT_PREFIX = ''/import/''"
definition TENANT_STARTUP_PREFIX :: string where "TENANT_STARTUP_PREFIX = ''/tenant/startups/''"
definition MAX_STARTUP_REF_BYTES :: nat where "MAX_STARTUP_REF_BYTES = 512"
definition MAX_OPERATION_KEY_LEN :: nat where "MAX_OPERATION_KEY_LEN = 200"

definition directory_kind_of :: "string \<Rightarrow> string" where
  "directory_kind_of path = (if starts_with DIRECTORY_PREFIX path then drop (length DIRECTORY_PREFIX) path else [])"

definition import_source_ref :: "string \<Rightarrow> string" where
  "import_source_ref path = (if starts_with IMPORT_PREFIX path then drop (length IMPORT_PREFIX) path else [])"

definition tenant_startup_ref :: "string \<Rightarrow> string option" where
  "tenant_startup_ref path =
     (if \<not> starts_with TENANT_STARTUP_PREFIX path then None
      else (let suffix = drop (length TENANT_STARTUP_PREFIX) path in
        if suffix = [] \<or> CHR ''/'' \<in> set suffix \<or> utf8_length suffix > MAX_STARTUP_REF_BYTES then None else Some suffix))"

fun correlation_header :: "(string, string) dict \<Rightarrow> string option" where
  "correlation_header [] = None"
| "correlation_header ((k, v) # hs) =
     (if to_lower k = ''x-correlation-id'' \<and> strip v \<noteq> [] then Some (strip v) else correlation_header hs)"

definition correlation_id :: "'s gateway \<Rightarrow> inbound_request \<Rightarrow> ('s, string) gw_proc" where
  "correlation_id G req = (case correlation_header (ib_headers req) of None \<Rightarrow> gw_uuid G | Some c \<Rightarrow> ret c)"

fun operation_header :: "(string, string) dict \<Rightarrow> string option" where
  "operation_header [] = None"
| "operation_header ((k, v) # hs) =
     (if to_lower k = ''x-operation-key'' \<and> strip v \<noteq> [] \<and> length (strip v) \<le> MAX_OPERATION_KEY_LEN
      then Some (strip v) else operation_header hs)"

definition operation_key :: "'s gateway \<Rightarrow> inbound_request \<Rightarrow> ('s, string) gw_proc" where
  "operation_key G req = (case operation_header (ib_headers req) of None \<Rightarrow> gw_uuid G | Some k \<Rightarrow> ret k)"

section \<open>Answers and events\<close>

definition answer :: "int \<Rightarrow> string \<Rightarrow> dispatch_category option \<Rightarrow> gateway_response" where
  "answer status code c = \<lparr>gr_status = status, gr_public_code = code, gr_dispatched = False, gr_category = c, gr_portal_dto = None\<rparr>"

definition served :: "dispatch_category \<Rightarrow> portal_dto \<Rightarrow> gateway_response" where
  "served c dto = \<lparr>gr_status = 200, gr_public_code = ''ok'', gr_dispatched = True, gr_category = Some c, gr_portal_dto = Some dto\<rparr>"

definition edge_event :: "audit_action \<Rightarrow> string \<Rightarrow> string \<Rightarrow> string option \<Rightarrow> string option \<Rightarrow> string option \<Rightarrow> gateway_event" where
  "edge_event action cid outcome actor tenant carrier =
     \<lparr>ge_action = action, ge_correlation_id = cid, ge_outcome = outcome, ge_actor_ref = actor, ge_tenant_ref = tenant,
      ge_carrier_ref = carrier, ge_audit_id = None, ge_subject_ref = None, ge_occurred_at = None, ge_event_version = None,
      ge_record_ref = None\<rparr>"

text \<open>The event with its minted identity, handed to the sink.\<close>

definition sink_event :: "'s gateway \<Rightarrow> gateway_event \<Rightarrow> ('s, unit) gw_proc" where
  "sink_event G ev =
     bnd (gw_uuid G) (\<lambda>audit_id. bnd (gw_now G) (\<lambda>now.
       gw_audit G (ev\<lparr>ge_audit_id := Some audit_id, ge_occurred_at := Some now, ge_event_version := Some 1\<rparr>)))"

text \<open>
  \<open>emit\<close>: at most one event of an action per request (the correlation identifier is the request's), a
  sink that raises is answered with \<open>False\<close>. The actions emitted so far are passed on.
\<close>

definition emit_edge :: "'s gateway \<Rightarrow> audit_action list \<Rightarrow> gateway_event \<Rightarrow> ('s, bool \<times> audit_action list) gw_proc" where
  "emit_edge G emitted ev =
     (if ge_action ev \<in> set emitted then ret (True, emitted)
      else tries (sink_event G ev) (\<lambda>_. ret (False, ge_action ev # emitted)) (\<lambda>_. ret (True, ge_action ev # emitted)))"

text \<open>A denial is handed back only with its event in the sink.\<close>

definition deny_with_event ::
    "'s gateway \<Rightarrow> audit_action list \<Rightarrow> gateway_event \<Rightarrow> dispatch_category option \<Rightarrow> gateway_response \<Rightarrow> ('s, gateway_response) gw_proc" where
  "deny_with_event G emitted ev c resp =
     bnd (emit_edge G emitted ev) (\<lambda>(ok, _). ret (if ok then resp else answer 503 ''unavailable'' c))"

text \<open>A success is handed back only with its event in the sink.\<close>

definition serve_with_event :: "'s gateway \<Rightarrow> gateway_event \<Rightarrow> dispatch_category \<Rightarrow> portal_dto \<Rightarrow> ('s, gateway_response) gw_proc" where
  "serve_with_event G ev c dto =
     tries (sink_event G ev) (\<lambda>_. ret (answer 503 ''unavailable'' (Some c))) (\<lambda>_. ret (served c dto))"

section \<open>The routes\<close>

definition startup_event :: "inbound_request \<Rightarrow> string \<Rightarrow> auth_result \<Rightarrow> string \<Rightarrow> string \<Rightarrow> gateway_event" where
  "startup_event req cid auth tenant ref =
     (edge_event (if ib_method req = ''GET'' then TENANT_STARTUP_READ else TENANT_STARTUP_UPDATE) cid ''success''
        (Some (az_principal_ref auth)) (Some tenant) None)\<lparr>ge_record_ref := Some ref\<rparr>"

definition startup_request :: "string \<Rightarrow> string \<Rightarrow> string \<Rightarrow> auth_result \<Rightarrow> startup_read_request" where
  "startup_request ref tenant cid auth =
     \<lparr>su_startup_ref = ref, su_target_tenant_ref = tenant, su_correlation_id = cid, su_actor_ref = az_principal_ref auth\<rparr>"

definition finish_startup ::
    "'s gateway \<Rightarrow> inbound_request \<Rightarrow> string \<Rightarrow> auth_result \<Rightarrow> string \<Rightarrow> string \<Rightarrow> dispatch_category \<Rightarrow> startup_detail option
      \<Rightarrow> ('s, gateway_response) gw_proc" where
  "finish_startup G req cid auth tenant ref c detail =
     (case detail of
        None \<Rightarrow> ret (answer 404 ''not_found'' (Some c))
      | Some d \<Rightarrow> serve_with_event G (startup_event req cid auth tenant ref) c (TenantStartupDetailDTO d))"

definition serve_startup ::
    "'s gateway \<Rightarrow> 's startup_port \<Rightarrow> inbound_request \<Rightarrow> string \<Rightarrow> auth_result \<Rightarrow> string option \<Rightarrow> string \<Rightarrow> dispatch_category
      \<Rightarrow> ('s, gateway_response) gw_proc" where
  "serve_startup G P req cid auth target ref c =
     (case target of
        None \<Rightarrow> raise (GwException ''AssertionError'')
      | Some tenant \<Rightarrow>
          if ib_method req = ''PATCH'' then
            (case parse_update_request (gw_loads G (case ib_patch_body req of None \<Rightarrow> [] | Some b \<Rightarrow> b)) of
               Inl _ \<Rightarrow> ret (answer 403 ''forbidden'' (Some c))
             | Inr short \<Rightarrow>
                 tries (sp_update P (startup_read_request.extend (startup_request ref tenant cid auth) (startup_update_request.fields short)))
                   (\<lambda>_. ret (answer 503 ''unavailable'' (Some c)))
                   (finish_startup G req cid auth tenant ref c))
          else
            tries (sp_read P (startup_request ref tenant cid auth))
              (\<lambda>_. ret (answer 503 ''unavailable'' (Some c)))
              (finish_startup G req cid auth tenant ref c))"

definition directory_portal :: "directory_dto \<Rightarrow> portal_dto" where
  "directory_portal d = (case d of StartupSummary g \<Rightarrow> GlobalStartupSummaryDTO g | InvestorSummary g \<Rightarrow> GlobalInvestorSummaryDTO g)"

definition compose_control ::
    "'s control_read \<Rightarrow> inbound_request \<Rightarrow> auth_result \<Rightarrow> dispatch_category \<Rightarrow> ('s, portal_dto option) gw_proc" where
  "compose_control R req auth c =
     (if c = GLOBAL_DIRECTORY_READ
      then bnd (cr_directory R (directory_kind_of (ib_path req))) (\<lambda>page. ret (map_option directory_portal page))
      else bnd (cr_memberships R (az_principal_ref auth)) (\<lambda>ms. ret (map_option WorkspaceMembershipDTO ms)))"

definition memberships_event :: "string \<Rightarrow> auth_result \<Rightarrow> gateway_event" where
  "memberships_event cid auth =
     (edge_event WORKSPACE_MEMBERSHIPS_READ cid ''success'' (Some (az_principal_ref auth)) None None)
       \<lparr>ge_subject_ref := Some (az_principal_ref auth)\<rparr>"

definition serve_control ::
    "'s gateway \<Rightarrow> 's control_read \<Rightarrow> inbound_request \<Rightarrow> string \<Rightarrow> audit_action list \<Rightarrow> auth_result \<Rightarrow> request_context
      \<Rightarrow> dispatch_category \<Rightarrow> ('s, gateway_response) gw_proc" where
  "serve_control G R req cid emitted auth ctx c =
     tries (compose_control R req auth c)
       (\<lambda>_. ret (answer 503 ''unavailable'' (Some c)))
       (\<lambda>composed. case composed of
          None \<Rightarrow> deny_with_event G emitted
            (edge_event ROUTE_DENIED cid ''rejected'' (Some (az_principal_ref auth)) (rq_active_tenant_id ctx) None)
            (Some c) (answer 403 ''forbidden'' None)
        | Some dto \<Rightarrow>
            if c = MEMBERSHIPS_FOR_PRINCIPAL then serve_with_event G (memberships_event cid auth) c dto
            else ret (served c dto))"

definition import_token :: "import_initiation_outcome \<Rightarrow> string" where
  "import_token r = (if io_replayed r then ''replayed'' else if 1 \<le> io_applied_count r then ''created'' else ''noop'')"

definition import_dto :: "string \<Rightarrow> string \<Rightarrow> import_initiation_outcome \<Rightarrow> portal_dto" where
  "import_dto source tenant r =
     ImportResultDTO \<lparr>ix_source_ref = source, ix_target_tenant_ref = tenant,
       ix_tenant_record_ref = tenant @ '':startups:'' @ source, ix_lineage_ref = io_import_id r, ix_import_id = io_import_id r,
       ix_outcome = import_token r\<rparr>"

definition serve_import ::
    "'s gateway \<Rightarrow> (import_initiation_request \<Rightarrow> ('s, import_initiation_outcome) gw_proc) \<Rightarrow> inbound_request \<Rightarrow> string
      \<Rightarrow> audit_action list \<Rightarrow> auth_result \<Rightarrow> request_context \<Rightarrow> string option \<Rightarrow> dispatch_category \<Rightarrow> ('s, gateway_response) gw_proc" where
  "serve_import G initiate req cid emitted auth ctx target c =
     (case target of
        None \<Rightarrow> raise (GwException ''AssertionError'')
      | Some tenant \<Rightarrow>
          (let source = import_source_ref (ib_path req) in
           bnd (operation_key G req) (\<lambda>key.
           bnd (initiate \<lparr>iq_source_ref = source, iq_target_tenant_ref = tenant, iq_operation_key = key,
                  iq_correlation_id = cid, iq_actor_ref = az_principal_ref auth\<rparr>) (\<lambda>r.
             if \<not> io_ok r \<or> io_state r \<noteq> ''applied'' then ret (answer 503 ''unavailable'' (Some c))
             else if io_applied_count r = 0 \<and> io_noop_count r = 0 then
               deny_with_event G emitted
                 (edge_event ROUTE_DENIED cid ''rejected'' (Some (az_principal_ref auth)) (rq_active_tenant_id ctx) None)
                 (Some c) (answer 403 ''forbidden'' None)
             else ret (served c (import_dto source tenant r))))))"

definition hand_off ::
    "'s gateway \<Rightarrow> inbound_request \<Rightarrow> request_context \<Rightarrow> dispatch_decision \<Rightarrow> ('s, gateway_response) gw_proc" where
  "hand_off G req ctx d =
     bnd (gw_dispatch G ctx d) (\<lambda>o'.
       ret \<lparr>gr_status = ro_status o', gr_public_code = ro_public_code o', gr_dispatched = ro_dispatched o',
            gr_category = Some (dd_category d),
            gr_portal_dto =
              (case dd_target_tenant_id d of
                 Some tenant \<Rightarrow>
                   if gw_control_read G \<noteq> None \<and> dd_category d = IMPORT_INITIATION \<and> ro_dispatched o' \<and> ro_status o' < 400
                   then Some (ImportInitiationDTO \<lparr>ii_source_ref = import_source_ref (ib_path req),
                     ii_target_tenant_ref = tenant, ii_initiation = ''accepted''\<rparr>)
                   else None
               | None \<Rightarrow> None)\<rparr>)"

definition serve_rest ::
    "'s gateway \<Rightarrow> inbound_request \<Rightarrow> string \<Rightarrow> audit_action list \<Rightarrow> auth_result \<Rightarrow> request_context \<Rightarrow> dispatch_decision
      \<Rightarrow> ('s, gateway_response) gw_proc" where
  "serve_rest G req cid emitted auth ctx d =
     (let hand_over =
        (case gw_import G of
           Some initiate \<Rightarrow>
             if dd_category d = IMPORT_INITIATION
             then serve_import G initiate req cid emitted auth ctx (dd_target_tenant_id d) (dd_category d)
             else hand_off G req ctx d
         | None \<Rightarrow> hand_off G req ctx d) in
      case gw_control_read G of
        Some R \<Rightarrow> if dd_domain d = DOMAIN_CONTROL then serve_control G R req cid emitted auth ctx (dd_category d) else hand_over
      | None \<Rightarrow> hand_over)"

definition serve_decision ::
    "'s gateway \<Rightarrow> inbound_request \<Rightarrow> string \<Rightarrow> audit_action list \<Rightarrow> auth_result \<Rightarrow> request_context \<Rightarrow> dispatch_decision
      \<Rightarrow> ('s, gateway_response) gw_proc" where
  "serve_decision G req cid emitted auth ctx d =
     (case gw_startup G of
        None \<Rightarrow> serve_rest G req cid emitted auth ctx d
      | Some P \<Rightarrow>
          (case tenant_startup_ref (ib_path req) of
             Some ref \<Rightarrow>
               if dd_category d = TENANT_OPERATION \<and> ib_method req \<in> {''GET'', ''PATCH''}
               then serve_startup G P req cid auth (dd_target_tenant_id d) ref (dd_category d)
               else serve_rest G req cid emitted auth ctx d
           | None \<Rightarrow> serve_rest G req cid emitted auth ctx d))"

section \<open>The pipeline\<close>

definition dispatch_decision_of :: "'s gateway \<Rightarrow> inbound_request \<Rightarrow> request_context \<Rightarrow> dispatch_denied + dispatch_decision" where
  "dispatch_decision_of G req ctx =
     sbind (gw_classify G req) (\<lambda>c. sbind (decide c ctx) (\<lambda>d. sbind (assert_single_database d) (\<lambda>_. Inr d)))"

definition route_authenticated ::
    "'s gateway \<Rightarrow> inbound_request \<Rightarrow> string \<Rightarrow> audit_action list \<Rightarrow> auth_result \<Rightarrow> ('s, gateway_response) gw_proc" where
  "route_authenticated G req cid emitted auth =
     (let ctx = build_request_context auth in
      case dispatch_decision_of G req ctx of
        Inl (DispatchError code anomaly) \<Rightarrow>
          deny_with_event G emitted
            (edge_event (if anomaly then ISOLATION_ANOMALY else ROUTE_DENIED) cid ''rejected'' (Some (az_principal_ref auth))
              (rq_active_tenant_id ctx) None)
            None (answer 403 (if anomaly then ''isolation_anomaly'' else code) None)
      | Inr d \<Rightarrow> serve_decision G req cid emitted auth ctx d)"

definition authenticated ::
    "'s gateway \<Rightarrow> inbound_request \<Rightarrow> string \<Rightarrow> string list \<Rightarrow> auth_result \<Rightarrow> ('s, gateway_response) gw_proc" where
  "authenticated G req cid carriers auth =
     (if az_active_tenant_id auth = None \<and> carriers \<noteq> [] then
        bnd (emit_edge G [] (edge_event CARRIER_ON_CONTROL_ANOMALY cid ''observed'' (Some (az_principal_ref auth)) None
               (Some (opaque_carrier_ref (hd carriers)))))
          (\<lambda>(ok, emitted). if ok then route_authenticated G req cid emitted auth else ret (answer 503 ''unavailable'' None))
      else route_authenticated G req cid [] auth)"

definition rejected_event :: "string \<Rightarrow> string list \<Rightarrow> string \<Rightarrow> gateway_event" where
  "rejected_event cid carriers code =
     (if code = ''carrier_mismatch''
      then edge_event CARRIER_MISMATCH cid ''rejected'' None None
        (if carriers \<noteq> [] then Some (opaque_carrier_ref (hd carriers)) else None)
      else edge_event ROUTE_DENIED cid ''rejected'' None None None)"

definition straddle_event :: "string \<Rightarrow> string list \<Rightarrow> gateway_event" where
  "straddle_event cid carriers =
     edge_event ISOLATION_ANOMALY cid ''rejected'' None None (Some (opaque_carrier_ref (join '','' (sort (remdups carriers)))))"

definition edge_handle :: "'s gateway \<Rightarrow> inbound_request \<Rightarrow> ('s, gateway_response) gw_proc" where
  "edge_handle G req =
     bnd (correlation_id G req) (\<lambda>cid.
       let carriers = recognized_carriers req in
       if 1 < length (remdups carriers)
       then deny_with_event G [] (straddle_event cid carriers) None (answer 403 ''isolation_anomaly'' None)
       else tries (gw_authenticate G (ib_authorization req) carriers cid)
         (\<lambda>e. case e of
            RequestRejected status code \<Rightarrow> deny_with_event G [] (rejected_event cid carriers code) None (answer status code None)
          | GwException x \<Rightarrow> raise e)
         (authenticated G req cid carriers))"

definition metric_of :: "gateway_response \<Rightarrow> rat \<Rightarrow> request_metric" where
  "metric_of resp duration =
     \<lparr>rm_category = map_option category_value (gr_category resp), rm_outcome = gr_public_code resp,
      rm_status = gr_status resp, rm_duration_ms = duration * 1000\<rparr>"

definition gateway_handle :: "'s gateway \<Rightarrow> inbound_request \<Rightarrow> ('s, gateway_response) gw_proc" where
  "gateway_handle G req =
     bnd (gw_monotonic G) (\<lambda>start.
     bnd (edge_handle G req) (\<lambda>resp.
     bnd (gw_monotonic G) (\<lambda>now.
     andthen (gw_metrics G (metric_of resp (now - start))) (ret resp))))"

end
