(* ===== verification/GW_Clients.thy ===== *)
theory GW_Clients
  imports GW_Gateway
begin

text \<open>
  The transport clients of the gateway (\<open>backend/api_gateway/adapters/providers\<close>): what each sends and
  how it reads the answer.
\<close>

section \<open>Authenticator\<close>

definition SUCCESS_KEYS :: "string list" where
  "SUCCESS_KEYS = [''correlation_id'', ''principal_ref'', ''active_tenant_id'', ''role'']"

definition auth_envelope :: "string option \<Rightarrow> string list \<Rightarrow> string \<Rightarrow> json" where
  "auth_envelope authorization carriers cid =
     JObj [(''v'', JInt 1), (''authorization'', json_opt authorization), (''recognized_carriers'', JList (map JStr carriers)),
       (''correlation_id'', JStr cid)]"

definition map_success :: "(string \<Rightarrow> json option) \<Rightarrow> string \<Rightarrow> gw_error + auth_result" where
  "map_success loads raw =
     (case loads raw of
        Some (JObj d) \<Rightarrow>
          if \<not> has_keys d SUCCESS_KEYS then Inl unavailable
          else (case (obj_get d ''correlation_id'', obj_get d ''principal_ref'') of
              (JStr cid, JStr who) \<Rightarrow>
                (case (str_or_null (obj_get d ''active_tenant_id''), str_or_null (obj_get d ''role'')) of
                   (Some tenant, Some r) \<Rightarrow>
                     Inr \<lparr>az_correlation_id = cid, az_principal_ref = who, az_active_tenant_id = tenant, az_role = r\<rparr>
                 | _ \<Rightarrow> Inl unavailable)
            | _ \<Rightarrow> Inl unavailable)
      | _ \<Rightarrow> Inl unavailable)"

definition read_public_code :: "(string \<Rightarrow> json option) \<Rightarrow> nat \<Rightarrow> string option \<Rightarrow> string option" where
  "read_public_code loads max_bytes body =
     (case body of
        None \<Rightarrow> None
      | Some raw \<Rightarrow>
          if max_bytes < length raw then None
          else (case loads raw of
              Some (JObj d) \<Rightarrow> (case obj_get d ''public_code'' of JStr code \<Rightarrow> Some code | _ \<Rightarrow> None)
            | _ \<Rightarrow> None))"

definition map_error :: "(string \<Rightarrow> json option) \<Rightarrow> nat \<Rightarrow> int \<Rightarrow> string option \<Rightarrow> gw_error" where
  "map_error loads max_bytes status body =
     (if status = 401 then gw_unauthenticated
      else if status = 403 then
        (if read_public_code loads max_bytes body = Some ''carrier_mismatch'' then carrier_mismatch else forbidden)
      else unavailable)"

definition read_auth_answer :: "(string \<Rightarrow> json option) \<Rightarrow> nat \<Rightarrow> exchange \<Rightarrow> gw_error + auth_result" where
  "read_auth_answer loads max_bytes x =
     (case x of
        Response _ raw \<Rightarrow> if max_bytes < length raw then Inl unavailable else map_success loads raw
      | HttpFailure status body \<Rightarrow> Inl (map_error loads max_bytes status body)
      | NoAnswer \<Rightarrow> Inl unavailable)"

definition http_authenticate ::
    "'s transport \<Rightarrow> (string \<Rightarrow> json option) \<Rightarrow> nat \<Rightarrow> string option \<Rightarrow> string list \<Rightarrow> string \<Rightarrow> ('s, auth_result) gw_proc" where
  "http_authenticate post loads max_bytes authorization carriers cid =
     sending (post ''/internal/auth/authenticate'' (auth_envelope authorization carriers cid)) (read_auth_answer loads max_bytes)"

section \<open>Router dispatch\<close>

definition ALLOWED_PUBLIC_CODES :: "string list" where
  "ALLOWED_PUBLIC_CODES = [''ok'', ''not_found'', ''no_active_tenant'', ''forbidden'', ''administratively_disabled'',
     ''not_ready'', ''schema_out_of_range'', ''unavailable'', ''tenant_routing_unavailable'', ''control_plane_unavailable'',
     ''connection_unavailable'', ''routing_isolation_fault'']"

definition FAIL_CLOSED :: route_outcome where
  "FAIL_CLOSED = \<lparr>ro_status = 503, ro_public_code = ''unavailable'', ro_dispatched = False\<rparr>"

definition context_json :: "request_context \<Rightarrow> json" where
  "context_json ctx =
     JObj [(''correlation_id'', JStr (rq_correlation_id ctx)), (''request_id'', json_opt (rq_request_id ctx)),
       (''active_tenant_id'', json_opt (rq_active_tenant_id ctx)), (''principal_ref'', json_opt (rq_principal_ref ctx)),
       (''role'', json_opt (rq_role ctx))]"

definition dispatch_envelope :: "request_context \<Rightarrow> dispatch_decision \<Rightarrow> json" where
  "dispatch_envelope ctx d =
     JObj [(''v'', JInt 1), (''context'', context_json ctx), (''category'', JStr (category_value (dd_category d)))]"

definition map_outcome :: "(string \<Rightarrow> json option) \<Rightarrow> string \<Rightarrow> route_outcome" where
  "map_outcome loads raw =
     (case loads raw of
        Some (JObj d) \<Rightarrow>
          if \<not> has_keys d [''status'', ''public_code'', ''dispatched''] then FAIL_CLOSED
          else (case (obj_get d ''status'', obj_get d ''public_code'', obj_get d ''dispatched'') of
              (JInt status, JStr code, JBool dispatched) \<Rightarrow>
                if code \<notin> set ALLOWED_PUBLIC_CODES then FAIL_CLOSED
                else \<lparr>ro_status = status, ro_public_code = code, ro_dispatched = dispatched\<rparr>
            | _ \<Rightarrow> FAIL_CLOSED)
      | _ \<Rightarrow> FAIL_CLOSED)"

definition read_dispatch_answer :: "(string \<Rightarrow> json option) \<Rightarrow> exchange \<Rightarrow> route_outcome" where
  "read_dispatch_answer loads x =
     (case x of
        Response _ raw \<Rightarrow> map_outcome loads raw
      | HttpFailure _ None \<Rightarrow> FAIL_CLOSED
      | HttpFailure _ (Some raw) \<Rightarrow> map_outcome loads raw
      | NoAnswer \<Rightarrow> FAIL_CLOSED)"

definition http_dispatch ::
    "'s transport \<Rightarrow> (string \<Rightarrow> json option) \<Rightarrow> request_context \<Rightarrow> dispatch_decision \<Rightarrow> ('s, route_outcome) gw_proc" where
  "http_dispatch post loads ctx d =
     sending (post ''/internal/dispatch/route'' (dispatch_envelope ctx d)) (\<lambda>x. Inr (read_dispatch_answer loads x))"

section \<open>Import initiation\<close>

definition IMPORT_FAIL_CLOSED :: import_initiation_outcome where
  "IMPORT_FAIL_CLOSED = \<lparr>io_ok = False, io_state = [], io_replayed = False, io_applied_count = 0, io_noop_count = 0, io_import_id = []\<rparr>"

definition OUTCOME_KEYS :: "string list" where
  "OUTCOME_KEYS = [''state'', ''replayed'', ''applied_count'', ''noop_count'', ''import_id'']"

definition initiation_envelope :: "import_initiation_request \<Rightarrow> json" where
  "initiation_envelope r =
     JObj [(''source_ref'', JStr (iq_source_ref r)), (''target_tenant_ref'', JStr (iq_target_tenant_ref r)),
       (''operation_key'', JStr (iq_operation_key r)), (''correlation_id'', JStr (iq_correlation_id r)),
       (''actor_ref'', JStr (iq_actor_ref r))]"

definition map_initiation_outcome :: "json \<Rightarrow> import_initiation_outcome" where
  "map_initiation_outcome v =
     (case v of
        JObj o' \<Rightarrow>
          if \<not> has_keys o' OUTCOME_KEYS then IMPORT_FAIL_CLOSED
          else (case (obj_get o' ''state'', obj_get o' ''replayed'', obj_get o' ''applied_count'', obj_get o' ''noop_count'', obj_get o' ''import_id'') of
              (JStr state, JBool replayed, JInt applied, JInt noop, JStr job) \<Rightarrow>
                \<lparr>io_ok = True, io_state = state, io_replayed = replayed, io_applied_count = applied, io_noop_count = noop,
                 io_import_id = job\<rparr>
            | _ \<Rightarrow> IMPORT_FAIL_CLOSED)
      | _ \<Rightarrow> IMPORT_FAIL_CLOSED)"

definition map_initiation :: "(string \<Rightarrow> bool) \<Rightarrow> (string \<Rightarrow> json option) \<Rightarrow> string \<Rightarrow> import_initiation_outcome" where
  "map_initiation float_one loads raw =
     (case loads raw of
        Some (JObj d) \<Rightarrow>
          if has_keys d [''version'', ''outcome''] \<and> plain_version_one float_one (obj_get d ''version'')
          then map_initiation_outcome (obj_get d ''outcome'') else IMPORT_FAIL_CLOSED
      | _ \<Rightarrow> IMPORT_FAIL_CLOSED)"

definition http_initiate ::
    "'s transport \<Rightarrow> (string \<Rightarrow> bool) \<Rightarrow> (string \<Rightarrow> json option) \<Rightarrow> import_initiation_request
      \<Rightarrow> ('s, import_initiation_outcome) gw_proc" where
  "http_initiate post float_one loads r =
     sending (post ''/internal/import/initiate'' (initiation_envelope r))
       (\<lambda>x. Inr (case x of Response _ raw \<Rightarrow> map_initiation float_one loads raw | _ \<Rightarrow> IMPORT_FAIL_CLOSED))"

section \<open>Tenant startups\<close>

definition RECORD_KEYS :: "string list" where
  "RECORD_KEYS = [''record_ref'', ''display_name'', ''short_description'', ''investment_stage'', ''lineage_reference'']"

definition client_ref :: "json \<Rightarrow> gw_error + string" where
  "client_ref v =
     (case v of
        JStr t \<Rightarrow> if t = [] \<or> 512 < utf8_length t then Inl (GwException ''ValueError'') else Inr t
      | _ \<Rightarrow> Inl (GwException ''ValueError''))"

definition client_nullable :: "nat \<Rightarrow> json \<Rightarrow> gw_error + string option" where
  "client_nullable bound v =
     (case v of
        JNull \<Rightarrow> Inr None
      | JStr t \<Rightarrow> if bound < length t then Inl (GwException ''ValueError'') else Inr (Some t)
      | _ \<Rightarrow> Inl (GwException ''ValueError''))"

definition startup_envelope :: "startup_read_request \<Rightarrow> (string \<times> json) list" where
  "startup_envelope r =
     [(''v'', JInt 1), (''startup_ref'', JStr (su_startup_ref r)), (''target_tenant_ref'', JStr (su_target_tenant_ref r)),
      (''correlation_id'', JStr (su_correlation_id r)), (''actor_ref'', JStr (su_actor_ref r))]"

definition client_startup_record :: "string \<Rightarrow> json \<Rightarrow> gw_error + startup_detail" where
  "client_startup_record ref v =
     (case v of
        JObj d \<Rightarrow>
          if \<not> has_keys d RECORD_KEYS then Inl (GwException ''ValueError'')
          else sbind (client_ref (obj_get d ''record_ref'')) (\<lambda>record_ref.
            if record_ref \<noteq> ref then Inl (GwException ''ValueError'')
            else sbind (client_ref (obj_get d ''display_name'')) (\<lambda>name.
              sbind (client_nullable SHORT_DESCRIPTION_MAX_CHARS (obj_get d ''short_description'')) (\<lambda>short.
              sbind (client_nullable 200 (obj_get d ''investment_stage'')) (\<lambda>stage.
              sbind (client_nullable 512 (obj_get d ''lineage_reference'')) (\<lambda>lineage.
                Inr \<lparr>sd_record_ref = record_ref, sd_display_name = name, sd_short_description = short,
                  sd_investment_stage = stage, sd_record_origin = ''tenant'', sd_record_residency = ''tenant'',
                  sd_record_type = ''startup'', sd_lineage_reference = lineage\<rparr>)))))
      | _ \<Rightarrow> Inl (GwException ''ValueError''))"

definition read_startup_answer ::
    "(string \<Rightarrow> bool) \<Rightarrow> (string \<Rightarrow> json option) \<Rightarrow> nat \<Rightarrow> string \<Rightarrow> exchange \<Rightarrow> gw_error + startup_detail option" where
  "read_startup_answer float_one loads max_bytes ref x =
     (case x of
        NoAnswer \<Rightarrow> Inl (GwException ''URLError'')
      | HttpFailure status _ \<Rightarrow> if status = 404 then Inr None else Inl (GwException ''HTTPError'')
      | Response status raw \<Rightarrow>
          if status \<noteq> 200 \<or> max_bytes < length raw then Inl (GwException ''ValueError'')
          else (case loads raw of
              Some (JObj d) \<Rightarrow>
                if has_keys d [''version'', ''record''] \<and> plain_version_one float_one (obj_get d ''version'')
                then sbind (client_startup_record ref (obj_get d ''record'')) (\<lambda>detail. Inr (Some detail))
                else Inl (GwException ''ValueError'')
            | _ \<Rightarrow> Inl (GwException ''ValueError'')))"

definition http_startup_read ::
    "'s transport \<Rightarrow> (string \<Rightarrow> bool) \<Rightarrow> (string \<Rightarrow> json option) \<Rightarrow> nat \<Rightarrow> startup_read_request \<Rightarrow> ('s, startup_detail option) gw_proc" where
  "http_startup_read post float_one loads max_bytes r =
     sending (post ''/internal/tenant/startups/read'' (JObj (startup_envelope r)))
       (read_startup_answer float_one loads max_bytes (su_startup_ref r))"

definition http_startup_update ::
    "'s transport \<Rightarrow> (string \<Rightarrow> bool) \<Rightarrow> (string \<Rightarrow> json option) \<Rightarrow> nat \<Rightarrow> startup_update_request \<Rightarrow> ('s, startup_detail option) gw_proc" where
  "http_startup_update post float_one loads max_bytes r =
     sending (post ''/internal/tenant/startups/update''
         (JObj (startup_envelope (startup_read_request.truncate r) @ [(''short_description'', json_opt (su_short_description r))])))
       (read_startup_answer float_one loads max_bytes (su_startup_ref r))"

section \<open>Control plane reads\<close>

fun directory_entries :: "json list \<Rightarrow> gw_error + directory_entry list" where
  "directory_entries [] = Inr []"
| "directory_entries (v # vs) =
     (case v of
        JObj d \<Rightarrow>
          (case (obj_get d ''record_id'', obj_get d ''display_name'') of
             (JStr rid, JStr name) \<Rightarrow>
               sbind (directory_entries vs) (\<lambda>es. Inr (\<lparr>de_record_ref = rid, de_display_name = name\<rparr> # es))
           | _ \<Rightarrow> Inl (GwException ''ValueError''))
      | _ \<Rightarrow> Inl (GwException ''ValueError''))"

fun membership_entries :: "json list \<Rightarrow> gw_error + membership_entry list" where
  "membership_entries [] = Inr []"
| "membership_entries (v # vs) =
     (case v of
        JObj d \<Rightarrow>
          if \<not> has_keys d [''tenant_id'', ''role''] then Inl (GwException ''ValueError'')
          else (case (obj_get d ''tenant_id'', obj_get d ''role'') of
             (JStr tenant, JStr r) \<Rightarrow>
               sbind (membership_entries vs) (\<lambda>es.
                 Inr (\<lparr>me_tenant_id = tenant, me_role = r, me_display_ref = compose_display_ref tenant\<rparr> # es))
           | _ \<Rightarrow> Inl (GwException ''ValueError''))
      | _ \<Rightarrow> Inl (GwException ''ValueError''))"

text \<open>\<open>_get\<close>: the decoded object, nothing on a 404; a body that does not decode raises.\<close>

definition read_document :: "(string \<Rightarrow> json option) \<Rightarrow> nat \<Rightarrow> exchange \<Rightarrow> gw_error + (string \<times> json) list option" where
  "read_document loads max_bytes x =
     (case x of
        NoAnswer \<Rightarrow> Inl (GwException ''URLError'')
      | HttpFailure status _ \<Rightarrow> if status = 404 then Inr None else Inl (GwException ''HTTPError'')
      | Response _ raw \<Rightarrow>
          if max_bytes < length raw then Inl (GwException ''ValueError'')
          else (case loads raw of Some (JObj d) \<Rightarrow> Inr (Some d) | _ \<Rightarrow> Inl (GwException ''ValueError'')))"

definition entries_of :: "string \<Rightarrow> (json list \<Rightarrow> gw_error + 'a) \<Rightarrow> (string \<times> json) list option \<Rightarrow> gw_error + 'a option" where
  "entries_of key parse doc =
     (case doc of
        None \<Rightarrow> Inr None
      | Some d \<Rightarrow> (case obj_get d key of JList vs \<Rightarrow> sbind (parse vs) (\<lambda>es. Inr (Some es)) | _ \<Rightarrow> Inl (GwException ''ValueError'')))"

definition APPROVED_KINDS :: "string list" where "APPROVED_KINDS = [''startup'', ''investor'']"

text \<open>A read sends no body; \<open>fetch\<close> gets a path, \<open>percent_quote\<close> is \<open>urllib.parse.quote\<close>.\<close>

definition http_directory ::
    "(string \<Rightarrow> 's \<Rightarrow> exchange \<times> 's) \<Rightarrow> (string \<Rightarrow> string) \<Rightarrow> (string \<Rightarrow> json option) \<Rightarrow> nat \<Rightarrow> string \<Rightarrow> ('s, directory_dto option) gw_proc" where
  "http_directory fetch percent_quote loads max_bytes kind =
     (if kind \<notin> set APPROVED_KINDS then ret None
      else sending (fetch (''/directory/'' @ percent_quote kind)) (\<lambda>x.
        sbind (read_document loads max_bytes x) (\<lambda>doc. sbind (entries_of ''records'' directory_entries doc) (\<lambda>found.
          Inr (map_option (\<lambda>es. if kind = ''startup'' then StartupSummary (global_startup_summary es)
            else InvestorSummary (global_investor_summary es)) found)))))"

definition http_memberships ::
    "(string \<Rightarrow> 's \<Rightarrow> exchange \<times> 's) \<Rightarrow> (string \<Rightarrow> string) \<Rightarrow> (string \<Rightarrow> json option) \<Rightarrow> nat \<Rightarrow> string \<Rightarrow> ('s, membership_entry list option) gw_proc" where
  "http_memberships fetch percent_quote loads max_bytes who =
     sending (fetch (''/memberships?p='' @ percent_quote who)) (\<lambda>x.
       sbind (read_document loads max_bytes x) (\<lambda>doc. entries_of ''memberships'' membership_entries doc))"

section \<open>Durable audit\<close>

definition wire_event :: "gateway_event \<Rightarrow> json" where
  "wire_event e =
     JObj [(''audit_id'', json_opt (ge_audit_id e)),
       (''event_version'', case ge_event_version e of None \<Rightarrow> JNull | Some v \<Rightarrow> JInt v),
       (''occurred_at'', json_opt (ge_occurred_at e)), (''correlation_id'', JStr (ge_correlation_id e)),
       (''action'', JStr (action_value (ge_action e))), (''outcome'', JStr (ge_outcome e)),
       (''actor_ref'', json_opt (ge_actor_ref e)), (''subject_ref'', json_opt (ge_subject_ref e)),
       (''tenant_ref'', json_opt (ge_tenant_ref e)), (''carrier_ref'', json_opt (ge_carrier_ref e)),
       (''record_ref'', json_opt (ge_record_ref e))]"

definition durable_emit ::
    "'s transport \<Rightarrow> (string \<Rightarrow> bool) \<Rightarrow> (string \<Rightarrow> json option) \<Rightarrow> gateway_event \<Rightarrow> ('s, audit_failure, unit) proc" where
  "durable_emit post float_one loads e = post_event post float_one loads ''/internal/gateway-audit/events'' (wire_event e)"

definition bounded_emit :: "(gateway_event \<Rightarrow> ('s, audit_failure, unit) proc) \<Rightarrow> gateway_event \<Rightarrow> ('s, audit_failure, unit) proc" where
  "bounded_emit inner e = retry_once (inner e)"

definition CLM_DURABLE_ACTIONS :: "audit_action list" where
  "CLM_DURABLE_ACTIONS = [WORKSPACE_MEMBERSHIPS_READ, TENANT_STARTUP_READ, TENANT_STARTUP_UPDATE, ROUTE_DENIED, CARRIER_MISMATCH]"

definition audit_error :: "audit_failure \<Rightarrow> gw_error" where
  "audit_error f = (case f of TransportError _ \<Rightarrow> GwException ''DurableAuditTransportError'' | AuditRaised x \<Rightarrow> GwException x)"

definition partition_emit ::
    "(gateway_event \<Rightarrow> ('s, audit_failure, unit) proc) \<Rightarrow> (gateway_event \<Rightarrow> ('s, unit) gw_proc) \<Rightarrow> gateway_event \<Rightarrow> ('s, unit) gw_proc" where
  "partition_emit durable in_memory e =
     (if ge_action e \<in> set CLM_DURABLE_ACTIONS
      then (\<lambda>s. case durable e s of (Inl f, t) \<Rightarrow> (Inl (audit_error f), t) | (Inr u, t) \<Rightarrow> (Inr u, t))
      else in_memory e)"

end
