(* ===== verification/DR_StartupWire.thy ===== *)
theory DR_StartupWire
  imports DR_StartupEdge GW_Clients
begin

text \<open>
  The tenant startup client of the gateway over the internal startup edge of the database router: what one
  call does to the executor and what the gateway gets back.
\<close>

section \<open>One call\<close>

definition ref_ok :: "string \<Rightarrow> bool" where
  "ref_ok s \<longleftrightarrow> s \<noteq> [] \<and> length s \<le> MAX_REF_LENGTH \<and> \<not> secret_shaped s"

definition text_ok :: "string option \<Rightarrow> bool" where
  "text_ok v \<longleftrightarrow> (case v of None \<Rightarrow> True | Some s \<Rightarrow> length s \<le> MAX_SHORT_DESCRIPTION_CHARS \<and> \<not> text_shaped s)"

definition refs_ok :: "startup_read_request \<Rightarrow> bool" where
  "refs_ok r \<longleftrightarrow> ref_ok (su_target_tenant_ref r) \<and> ref_ok (su_startup_ref r) \<and> ref_ok (su_correlation_id r) \<and> ref_ok (su_actor_ref r)"

text \<open>The detail the gateway composes of a record, where the record is within the bounds the client checks.\<close>

definition opt_within :: "nat \<Rightarrow> string option \<Rightarrow> bool" where
  "opt_within bound v \<longleftrightarrow> (case v of None \<Rightarrow> True | Some s \<Rightarrow> length s \<le> bound)"

definition returnable :: "string \<Rightarrow> startup_record \<Rightarrow> bool" where
  "returnable ref rec \<longleftrightarrow> su_record_ref rec = ref \<and> ref \<noteq> [] \<and> utf8_length ref \<le> 512
     \<and> su_display_name rec \<noteq> [] \<and> utf8_length (su_display_name rec) \<le> 512
     \<and> opt_within SHORT_DESCRIPTION_MAX_CHARS (startup_record.su_short_description rec)
     \<and> opt_within 200 (su_investment_stage rec) \<and> opt_within 512 (su_lineage_reference rec)"

definition detail_of :: "startup_record \<Rightarrow> startup_detail" where
  "detail_of rec = \<lparr>sd_record_ref = su_record_ref rec, sd_display_name = su_display_name rec,
     sd_short_description = startup_record.su_short_description rec, sd_investment_stage = su_investment_stage rec,
     sd_record_origin = ''tenant'', sd_record_residency = ''tenant'', sd_record_type = ''startup'',
     sd_lineage_reference = su_lineage_reference rec\<rparr>"

definition record_document :: "startup_record \<Rightarrow> json" where
  "record_document rec = JObj [(''version'', JInt 1), (''record'', record_json rec)]"

text \<open>What the gateway gets of the executor's outcome.\<close>

definition seen_by_client ::
    "(json \<Rightarrow> string) \<Rightarrow> nat \<Rightarrow> string \<Rightarrow> startup_error + startup_record option \<Rightarrow> gw_error + startup_detail option" where
  "seen_by_client dumps max_bytes ref r =
     (case r of
        Inl _ \<Rightarrow> Inl (GwException ''HTTPError'')
      | Inr None \<Rightarrow> Inr None
      | Inr (Some rec) \<Rightarrow>
          if length (dumps (record_document rec)) \<le> max_bytes \<and> returnable ref rec then Inr (Some (detail_of rec))
          else Inl (GwException ''ValueError''))"

lemma nullable_opt: "client_nullable bound (json_opt v) = (if opt_within bound v then Inr v else Inl (GwException ''ValueError''))"
  by (cases v) (auto simp: client_nullable_def json_opt_def opt_within_def)

lemma client_record:
  "client_startup_record ref (record_json rec) = (if returnable ref rec then Inr (detail_of rec) else Inl (GwException ''ValueError''))"
  by (auto simp: client_startup_record_def record_json_def has_keys_def RECORD_KEYS_def obj_get_def dict_get_def nullable_opt
      returnable_def client_ref_def detail_of_def)

lemma answer_seen:
  assumes "codec dumps loads"
  shows "read_startup_answer float_one loads max_bytes ref (exchange_of dumps (answer_record r)) = seen_by_client dumps max_bytes ref r"
proof (cases r)
  case (Inr found)
  then show ?thesis
    using codecD[OF assms]
    by (cases found) (auto simp: answer_record_def result_response_def json_response_def exchange_of_def read_startup_answer_def
        seen_by_client_def has_keys_def obj_get_def dict_get_def plain_version_one_def client_record record_document_def)
qed (simp add: answer_record_def result_response_def json_response_def exchange_of_def read_startup_answer_def seen_by_client_def)

lemma refused_seen:
  "read_startup_answer float_one loads max_bytes ref (exchange_of dumps (result_response 400 ''INVALID'')) = Inl (GwException ''HTTPError'')"
  by (simp add: result_response_def json_response_def exchange_of_def read_startup_answer_def)

lemma required_ok: "obj_get d k = JStr s \<Longrightarrow> required_ref d k = (if ref_ok s then Some s else None)"
  by (auto simp: required_ref_def ref_ok_def)

definition read_document_of :: "startup_read_request \<Rightarrow> json" where
  "read_document_of r = JObj (startup_envelope r)"

definition update_document_of :: "startup_update_request \<Rightarrow> json" where
  "update_document_of r = JObj (startup_envelope (startup_read_request.truncate r)
     @ [(''short_description'', json_opt (startup_update_request.su_short_description r))])"

lemma read_arguments:
  assumes "codec dumps loads"
  shows "startup_arguments_of float_one loads False (dumps (read_document_of r)) =
    (if length (dumps (read_document_of r)) \<le> MAX_BODY \<and> refs_ok r
     then Some \<lparr>sa_tenant_ref = su_target_tenant_ref r, sa_startup_ref = su_startup_ref r, sa_correlation_id = su_correlation_id r,
       sa_actor_ref = su_actor_ref r, sa_short_description = None\<rparr> else None)"
  using codecD[OF assms, of "read_document_of r"]
  by (auto simp: startup_arguments_of_def parse_startup_envelope_def read_document_of_def startup_envelope_def STARTUP_READ_KEYS_def
      has_keys_def plain_version_one_def required_ok obj_get_def dict_get_def refs_ok_def)

lemma update_arguments:
  assumes "codec dumps loads"
  shows "startup_arguments_of float_one loads True (dumps (update_document_of r)) =
    (if length (dumps (update_document_of r)) \<le> MAX_BODY \<and> refs_ok (startup_read_request.truncate r)
        \<and> text_ok (startup_update_request.su_short_description r)
     then Some \<lparr>sa_tenant_ref = su_target_tenant_ref r, sa_startup_ref = su_startup_ref r, sa_correlation_id = su_correlation_id r,
       sa_actor_ref = su_actor_ref r, sa_short_description = startup_update_request.su_short_description r\<rparr> else None)"
proof -
  let ?d = "startup_envelope (startup_read_request.truncate r) @ [(''short_description'', json_opt (startup_update_request.su_short_description r))]"
  have short: "bounded_short_description ?d = (if text_ok (startup_update_request.su_short_description r)
      then Some (startup_update_request.su_short_description r) else None)"
    by (cases "startup_update_request.su_short_description r")
      (auto simp: bounded_short_description_def startup_envelope_def obj_get_def dict_get_def json_opt_def text_ok_def)
  have fields: "obj_get ?d ''target_tenant_ref'' = JStr (su_target_tenant_ref r)" "obj_get ?d ''startup_ref'' = JStr (su_startup_ref r)"
    "obj_get ?d ''correlation_id'' = JStr (su_correlation_id r)" "obj_get ?d ''actor_ref'' = JStr (su_actor_ref r)"
    "obj_get ?d ''v'' = JInt 1" "has_keys ?d STARTUP_UPDATE_KEYS"
    by (auto simp: startup_envelope_def obj_get_def dict_get_def has_keys_def STARTUP_UPDATE_KEYS_def STARTUP_READ_KEYS_def
        startup_read_request.truncate_def)
  have same: "refs_ok (startup_read_request.truncate r) \<longleftrightarrow> ref_ok (su_target_tenant_ref r) \<and> ref_ok (su_startup_ref r)
      \<and> ref_ok (su_correlation_id r) \<and> ref_ok (su_actor_ref r)"
    by (simp add: refs_ok_def startup_read_request.truncate_def)
  show ?thesis
    using codecD[OF assms, of "update_document_of r"]
    by (auto simp: startup_arguments_of_def parse_startup_envelope_def update_document_of_def plain_version_one_def short fields
        required_ok[OF fields(1)] required_ok[OF fields(2)] required_ok[OF fields(3)] required_ok[OF fields(4)] same)
qed

text \<open>C30: A tenant startup call of the gateway reaches the executor as it was made or not at all: over the internal edge, an
update or read whose references and text the edge admits runs the executor exactly once with exactly the values of the request,
and the gateway gets the projection of the executor's record for this reference, not found, or an error; any other call leaves
the executor untouched and is an error.\<close>

theorem startup_call_reaches_executor:
  assumes codec: "codec dumps loads"
  shows "http_startup_update (startup_edge dumps float_one loads ops) float_one loads max_bytes r s =
      (if length (dumps (update_document_of r)) \<le> MAX_BODY \<and> refs_ok (startup_read_request.truncate r)
          \<and> text_ok (startup_update_request.su_short_description r)
       then (case op_update ops (su_target_tenant_ref r) (su_startup_ref r) (startup_update_request.su_short_description r)
               (su_correlation_id r) (su_actor_ref r) s of (x, t) \<Rightarrow> (seen_by_client dumps max_bytes (su_startup_ref r) x, t))
       else (Inl (GwException ''HTTPError''), s))
    \<and> http_startup_read (startup_edge dumps float_one loads ops) float_one loads max_bytes q s =
      (if length (dumps (read_document_of q)) \<le> MAX_BODY \<and> refs_ok q
       then (case op_read ops (su_target_tenant_ref q) (su_startup_ref q) (su_correlation_id q) (su_actor_ref q) s of
               (x, t) \<Rightarrow> (seen_by_client dumps max_bytes (su_startup_ref q) x, t))
       else (Inl (GwException ''HTTPError''), s))"
  unfolding http_startup_update_def http_startup_read_def update_document_of_def[symmetric] read_document_of_def[symmetric]
  by (auto simp: sending_def startup_edge_def serving_def startup_handle_def update_arguments[OF codec] read_arguments[OF codec]
      startup_execute_def answer_seen[OF codec] refused_seen split: prod.splits)

text \<open>A description that carries a secret marker can never be saved and is reported as an outage: the gateway takes the body as
a valid update (at most 500 characters), but the internal edge refuses the text, so the call raises, which the pipeline answers
with 503, and the executor is not reached.\<close>

theorem marked_description_is_never_saved:
  assumes codec: "codec dumps loads" and marked: "startup_update_request.su_short_description r = Some t"
    and "length t \<le> SHORT_DESCRIPTION_MAX_CHARS" and "text_shaped t"
  shows "parse_update_request (loads (dumps (JObj [(''short_description'', JStr t)]))) = Inr (Some t)
    \<and> http_startup_update (startup_edge dumps float_one loads ops) float_one loads max_bytes r s = (Inl (GwException ''HTTPError''), s)"
proof
  show "parse_update_request (loads (dumps (JObj [(''short_description'', JStr t)]))) = Inr (Some t)"
    using codecD[OF codec] assms(3) by (auto simp: parse_update_request_def has_keys_def obj_get_def dict_get_def)
  have "\<not> text_ok (startup_update_request.su_short_description r)" using marked assms(4) by (simp add: text_ok_def)
  then show "http_startup_update (startup_edge dumps float_one loads ops) float_one loads max_bytes r s = (Inl (GwException ''HTTPError''), s)"
    unfolding http_startup_update_def update_document_of_def[symmetric]
    by (simp add: sending_def startup_edge_def serving_def startup_handle_def update_arguments[OF codec] refused_seen)
qed

section \<open>Witnesses\<close>

definition fjord :: startup_update_request where
  "fjord = \<lparr>su_startup_ref = ''s1'', su_target_tenant_ref = ''acme'', su_correlation_id = ''c1'', su_actor_ref = ''u1'',
     su_short_description = Some ''Xoxo, a foxox farm''\<rparr>"

definition heard_ops :: "string option list startup_ops" where
  "heard_ops = \<lparr>op_read = (\<lambda>t r c a. ret None),
     op_update = (\<lambda>t r d c a. andthen (writes (\<lambda>s. s @ [d])) (ret (Some \<lparr>su_record_ref = r, su_display_name = ''Fjord'',
        su_short_description = d, su_investment_stage = None, su_lineage_reference = None\<rparr>)))\<rparr>"

definition plain_fjord :: startup_update_request where
  "plain_fjord = fjord\<lparr>startup_update_request.su_short_description := Some ''A farm''\<rparr>"

definition fjord_names :: "(string \<times> json) list" where
  "fjord_names = [(''update'', update_document_of plain_fjord),
     (''record'', record_document \<lparr>su_record_ref = ''s1'', su_display_name = ''Fjord'', su_short_description = Some ''A farm'',
        su_investment_stage = None, su_lineage_reference = None\<rparr>)]"

lemma fjord_codec: "codec (named_dumps fjord_names) (named_loads fjord_names)"
  by (rule named_codec) (auto simp: fjord_names_def is_digit_def char_code_def)

theorem startup_call_reaches_executor_witness:
  "http_startup_update (startup_edge (named_dumps fjord_names) (\<lambda>_. False) (named_loads fjord_names) heard_ops) (\<lambda>_. False)
     (named_loads fjord_names) 65536 plain_fjord []
   = (Inr (Some (detail_of \<lparr>su_record_ref = ''s1'', su_display_name = ''Fjord'', su_short_description = Some ''A farm'',
        su_investment_stage = None, su_lineage_reference = None\<rparr>)), [Some ''A farm''])"
proof -
  have docs: "named_dumps fjord_names (update_document_of plain_fjord) = ''update''"
    "named_dumps fjord_names (record_document \<lparr>su_record_ref = ''s1'', su_display_name = ''Fjord'', su_short_description = Some ''A farm'',
        su_investment_stage = None, su_lineage_reference = None\<rparr>) = ''record''"
    by (simp_all add: named_dumps_def fjord_names_def update_document_of_def record_document_def)
  have ok: "refs_ok (startup_read_request.truncate plain_fjord)" "text_ok (startup_update_request.su_short_description plain_fjord)"
    by code_simp+
  from startup_call_reaches_executor[OF fjord_codec, of "\<lambda>_. False" heard_ops 65536 plain_fjord "[]"] docs ok show ?thesis
    by (simp add: MAX_BODY_def heard_ops_def plain_fjord_def fjord_def seen_by_client_def returnable_def utf8_length_def char_code_def
        opt_within_def SHORT_DESCRIPTION_MAX_CHARS_def)
qed

theorem marked_description_is_never_saved_witness:
  "http_startup_update (startup_edge numbered_dumps (\<lambda>_. False) numbered_loads heard_ops) (\<lambda>_. False) numbered_loads 65536 fjord []
   = (Inl (GwException ''HTTPError''), [])"
proof -
  have "text_shaped ''Xoxo, a foxox farm''" by code_simp
  with marked_description_is_never_saved[OF numbered_codec, of fjord "''Xoxo, a foxox farm''" "\<lambda>_. False" heard_ops 65536 "[]"]
  show ?thesis by (simp add: fjord_def SHORT_DESCRIPTION_MAX_CHARS_def)
qed

end
