(* ===== verification/AR_Models.thy ===== *)
theory AR_Models
  imports Shared
begin

text \<open>
  The auth router's domain shapes, denials and ports (\<open>backend/auth_router/models.py\<close>, \<open>ports.py\<close>). Claim values are what \<open>json.loads\<close> decoded: the code does not check that
  a subject or a tenant claim is a string.
\<close>

datatype auth_role = CONTROL | MASTER_AGENT | TENANT_ADMIN | TENANT_AGENT | STARTUP_USER | INVESTOR_USER

definition auth_role_value :: "auth_role \<Rightarrow> string" where
  "auth_role_value r = (case r of
      CONTROL \<Rightarrow> ''CONTROL'' | MASTER_AGENT \<Rightarrow> ''MASTER_AGENT'' | TENANT_ADMIN \<Rightarrow> ''TENANT_ADMIN''
    | TENANT_AGENT \<Rightarrow> ''TENANT_AGENT'' | STARTUP_USER \<Rightarrow> ''STARTUP_USER'' | INVESTOR_USER \<Rightarrow> ''INVESTOR_USER'')"

record issuer_config =
  ic_issuer :: string
  ic_audience :: string
  ic_allowed_algs :: "string list"
  ic_jwks :: "(string, json) dict"
  ic_tenant_claim :: string

record claims =
  cl_subject :: json
  cl_issuer :: string
  cl_audience :: string
  cl_tenant :: "json option"

record federation_view =
  fv_tenant_id :: string
  fv_oidc_issuer :: string
  fv_oidc_audience :: string
  fv_jwks_ref :: string
  fv_claim_to_tenant_rule :: string

record auth_tenant_state =
  tv_tenant_id :: string
  tv_lifecycle_state :: string
  tv_ready :: bool

record auth_context =
  ax_correlation_id :: string
  ax_principal_ref :: json
  ax_active_tenant_id :: "json option"
  ax_role :: "string option"

datatype auth_reason = UNAUTHENTICATED | AUTH_FORBIDDEN | AUTH_NOT_READY | AUTH_UNAVAILABLE

record auth_denied =
  ad_reason :: auth_reason
  ad_http_status :: int
  ad_public_code :: string

definition unauthenticated :: "string \<Rightarrow> auth_denied" where
  "unauthenticated code = \<lparr>ad_reason = UNAUTHENTICATED, ad_http_status = 401, ad_public_code = code\<rparr>"

definition auth_forbidden :: "string \<Rightarrow> auth_denied" where
  "auth_forbidden code = \<lparr>ad_reason = AUTH_FORBIDDEN, ad_http_status = 403, ad_public_code = code\<rparr>"

definition auth_not_ready :: "string \<Rightarrow> auth_denied" where
  "auth_not_ready code = \<lparr>ad_reason = AUTH_NOT_READY, ad_http_status = 403, ad_public_code = code\<rparr>"

definition auth_unavailable :: "string \<Rightarrow> auth_denied" where
  "auth_unavailable code = \<lparr>ad_reason = AUTH_UNAVAILABLE, ad_http_status = 503, ad_public_code = code\<rparr>"

text \<open>An exception of the service: a denial, or any other exception by its type's name.\<close>

datatype auth_error = AuthDenied auth_denied | Raised string

text \<open>The read port of the control plane: every method may raise.\<close>

record 'w read_port =
  rd_federation :: "json \<Rightarrow> ('w, auth_error, federation_view option) proc"
  rd_tenant_state :: "json \<Rightarrow> ('w, auth_error, auth_tenant_state option) proc"
  rd_is_member :: "json \<Rightarrow> json \<Rightarrow> ('w, auth_error, bool) proc"
  rd_get_role :: "json \<Rightarrow> json \<Rightarrow> ('w, auth_error, auth_role option) proc"

lemma denial_status [simp]:
  "ad_http_status (unauthenticated c) = 401" "ad_http_status (auth_forbidden c) = 403"
  "ad_http_status (auth_not_ready c) = 403" "ad_http_status (auth_unavailable c) = 503"
  "ad_public_code (unauthenticated c) = c" "ad_public_code (auth_forbidden c) = c"
  "ad_public_code (auth_not_ready c) = c" "ad_public_code (auth_unavailable c) = c"
  by (simp_all add: unauthenticated_def auth_forbidden_def auth_not_ready_def auth_unavailable_def)

end
