(* ===== verification/AR_Auth.thy ===== *)
theory AR_Auth
  imports Complex_Main AR_Models
begin

text \<open>
  Authentication: token validation (\<open>backend/auth_router/jwt_validation.py\<close>), tenant context
  (\<open>tenant_context.py\<close>) and the authenticator that orders them and audits the outcome
  (\<open>authenticator.py\<close>). Base64, JSON, the signature check and \<open>float()\<close> are arguments; a float is an
  exact rational, an infinity or NaN, so rounding is not modelled.
\<close>

section \<open>Stage 1: token validation\<close>

datatype flt = Fin rat | PosInf | NegInf | NaN

fun flt_add :: "flt \<Rightarrow> flt \<Rightarrow> flt" where
  "flt_add (Fin a) (Fin b) = Fin (a + b)"
| "flt_add (Fin a) y = y"
| "flt_add x (Fin b) = x"
| "flt_add PosInf PosInf = PosInf"
| "flt_add NegInf NegInf = NegInf"
| "flt_add _ _ = NaN"

fun flt_less :: "flt \<Rightarrow> flt \<Rightarrow> bool" where
  "flt_less (Fin a) (Fin b) = (a < b)"
| "flt_less NaN _ = False"
| "flt_less _ NaN = False"
| "flt_less NegInf y = (y \<noteq> NegInf)"
| "flt_less PosInf _ = False"
| "flt_less (Fin a) y = (y = PosInf)"

record jwt_env =
  jv_b64 :: "string \<Rightarrow> string option"
  jv_loads :: "string \<Rightarrow> json option"
  jv_verify :: "string \<Rightarrow> string \<Rightarrow> json \<Rightarrow> string \<Rightarrow> auth_error + bool"
  jv_float :: "json \<Rightarrow> auth_error + flt"
  jv_skew :: flt

definition b64url_decode :: "jwt_env \<Rightarrow> string \<Rightarrow> string option" where
  "b64url_decode J segment = jv_b64 J (segment @ replicate (nat ((- int (length segment)) mod 4)) CHR ''='')"

definition decode_segment :: "jwt_env \<Rightarrow> string \<Rightarrow> json option" where
  "decode_segment J segment = (case b64url_decode J segment of None \<Rightarrow> None | Some b \<Rightarrow> jv_loads J b)"

definition split_token :: "string \<Rightarrow> auth_error + (string \<times> string \<times> string)" where
  "split_token token =
     (case split_on CHR ''.'' token of
        [h, p, s] \<Rightarrow> Inr (h, p, s)
      | _ \<Rightarrow> Inl (AuthDenied (unauthenticated ''malformed_token'')))"

definition audience_ok :: "json \<Rightarrow> string \<Rightarrow> bool" where
  "audience_ok aud expected =
     (case aud of JStr a \<Rightarrow> a = expected | JList xs \<Rightarrow> JStr expected \<in> set xs | _ \<Rightarrow> False)"

definition alg_is_none :: "json \<Rightarrow> bool" where
  "alg_is_none alg = (\<not> truthy alg \<or> (case alg of JStr a \<Rightarrow> to_lower a = ''none'' | _ \<Rightarrow> False))"

definition deny401 :: "string \<Rightarrow> auth_error + 'a" where
  "deny401 code = Inl (AuthDenied (unauthenticated code))"

text \<open>The header: algorithm and key. A header that is no object has no \<open>get\<close>; a list is no dictionary key.\<close>

definition check_header :: "issuer_config \<Rightarrow> json \<Rightarrow> auth_error + (string \<times> json)" where
  "check_header cfg header =
     (case header of
        JObj h \<Rightarrow>
          if alg_is_none (obj_get h ''alg'') then deny401 ''alg_none_rejected''
          else (case obj_get h ''alg'' of
              JStr alg \<Rightarrow>
                if alg \<notin> set (ic_allowed_algs cfg) then deny401 ''alg_not_allowed''
                else if \<not> truthy (obj_get h ''kid'') then deny401 ''missing_kid''
                else (case obj_get h ''kid'' of
                    JStr kid \<Rightarrow>
                      if obj_get (ic_jwks cfg) kid = JNull then deny401 ''unknown_kid''
                      else Inr (alg, obj_get (ic_jwks cfg) kid)
                  | JList _ \<Rightarrow> Inl (Raised ''TypeError'')
                  | JObj _ \<Rightarrow> Inl (Raised ''TypeError'')
                  | _ \<Rightarrow> deny401 ''unknown_kid'')
            | _ \<Rightarrow> deny401 ''alg_not_allowed'')
      | _ \<Rightarrow> Inl (Raised ''AttributeError''))"

definition is_ascii :: "string \<Rightarrow> bool" where
  "is_ascii s = list_all (\<lambda>c. char_code c < 128) s"

definition check_signature :: "jwt_env \<Rightarrow> string \<Rightarrow> string \<Rightarrow> string \<Rightarrow> string \<times> json \<Rightarrow> auth_error + unit" where
  "check_signature J h p sig = (\<lambda>(alg, key).
     if \<not> is_ascii (h @ ''.'' @ p) then Inl (Raised ''UnicodeEncodeError'')
     else case b64url_decode J sig of
         None \<Rightarrow> deny401 ''bad_signature_encoding''
       | Some signature \<Rightarrow> (case jv_verify J (h @ ''.'' @ p) signature key alg of
             Inl e \<Rightarrow> Inl e
           | Inr True \<Rightarrow> Inr ()
           | Inr False \<Rightarrow> deny401 ''bad_signature''))"

definition check_expiry :: "jwt_env \<Rightarrow> rat \<Rightarrow> (string \<times> json) list \<Rightarrow> auth_error + unit" where
  "check_expiry J now p =
     (if obj_get p ''exp'' = JNull then deny401 ''expired''
      else case jv_float J (obj_get p ''exp'') of
          Inl e \<Rightarrow> Inl e
        | Inr expiry \<Rightarrow>
            if flt_less (flt_add expiry (jv_skew J)) (Fin now) then deny401 ''expired''
            else if obj_get p ''nbf'' = JNull then Inr ()
            else (case jv_float J (obj_get p ''nbf'') of
                Inl e \<Rightarrow> Inl e
              | Inr nbf \<Rightarrow> if flt_less (flt_add (Fin now) (jv_skew J)) nbf then deny401 ''not_yet_valid'' else Inr ()))"

definition check_claims :: "jwt_env \<Rightarrow> issuer_config \<Rightarrow> rat \<Rightarrow> json \<Rightarrow> auth_error + claims" where
  "check_claims J cfg now payload =
     (case payload of
        JObj p \<Rightarrow>
          if obj_get p ''iss'' \<noteq> JStr (ic_issuer cfg) then deny401 ''iss_mismatch''
          else if \<not> audience_ok (obj_get p ''aud'') (ic_audience cfg) then deny401 ''aud_mismatch''
          else (case check_expiry J now p of
              Inl e \<Rightarrow> Inl e
            | Inr _ \<Rightarrow>
                if \<not> truthy (obj_get p ''sub'') then deny401 ''missing_sub''
                else Inr \<lparr>cl_subject = obj_get p ''sub'', cl_issuer = ic_issuer cfg, cl_audience = ic_audience cfg,
                          cl_tenant = (case obj_get p (ic_tenant_claim cfg) of JNull \<Rightarrow> None | t \<Rightarrow> Some t)\<rparr>)
      | _ \<Rightarrow> Inl (Raised ''AttributeError''))"

definition validate_token :: "jwt_env \<Rightarrow> issuer_config \<Rightarrow> rat \<Rightarrow> string \<Rightarrow> auth_error + claims" where
  "validate_token J cfg now token =
     (case split_token token of
        Inl e \<Rightarrow> Inl e
      | Inr (h, p, sig) \<Rightarrow>
          (case (decode_segment J h, decode_segment J p) of
             (Some header, Some payload) \<Rightarrow>
               (case check_header cfg header of Inl e \<Rightarrow> Inl e | Inr ak \<Rightarrow>
               (case check_signature J h p sig ak of Inl e \<Rightarrow> Inl e | Inr _ \<Rightarrow> check_claims J cfg now payload))
           | _ \<Rightarrow> deny401 ''undecodable_token''))"

section \<open>Stage 2: tenant context\<close>

definition resolve_context ::
    "'w read_port \<Rightarrow> string \<Rightarrow> string option \<Rightarrow> claims \<Rightarrow> ('w, auth_error, auth_context) proc" where
  "resolve_context P cid carrier cl =
     (case cl_tenant cl of
        None \<Rightarrow> ret \<lparr>ax_correlation_id = cid, ax_principal_ref = cl_subject cl, ax_active_tenant_id = None, ax_role = None\<rparr>
      | Some active \<Rightarrow>
          if carrier \<noteq> None \<and> active \<noteq> JStr (the carrier) then raise (AuthDenied (auth_forbidden ''carrier_mismatch''))
          else tries (bnd (rd_tenant_state P active) (\<lambda>st. bnd (rd_is_member P (cl_subject cl) active) (\<lambda>m. ret (st, m))))
            (\<lambda>_. raise (AuthDenied (auth_unavailable ''control_plane_unavailable'')))
            (\<lambda>(st, m).
              if st = None \<or> \<not> m then raise (AuthDenied (auth_forbidden ''tenant_access_denied''))
              else if \<not> tv_ready (the st) then raise (AuthDenied (auth_not_ready ''tenant_not_ready''))
              else tries (rd_get_role P (cl_subject cl) active)
                (\<lambda>_. raise (AuthDenied (auth_unavailable ''control_plane_unavailable'')))
                (\<lambda>r. ret \<lparr>ax_correlation_id = cid, ax_principal_ref = cl_subject cl, ax_active_tenant_id = Some active,
                         ax_role = map_option auth_role_value r\<rparr>)))"

section \<open>The authenticator\<close>

record 'w authenticator =
  au_jwt :: jwt_env
  au_clock :: "'w \<Rightarrow> rat \<times> 'w"
  au_read :: "'w read_port"
  au_audit :: "operational_event \<Rightarrow> ('w, auth_error, unit) proc"
  au_issuers :: "(string, issuer_config) dict"

text \<open>The unverified issuer selects the key set; anything that fails on the way selects none.\<close>

definition issuer_for :: "'w authenticator \<Rightarrow> string \<Rightarrow> issuer_config option" where
  "issuer_for A token =
     (case split_on CHR ''.'' token of
        _ # p # _ \<Rightarrow>
          (case decode_segment (au_jwt A) p of
             Some (JObj d) \<Rightarrow> (case obj_get d ''iss'' of JStr iss \<Rightarrow> dict_get (au_issuers A) iss | _ \<Rightarrow> None)
           | _ \<Rightarrow> None)
      | _ \<Rightarrow> None)"

definition audit_ok :: "'w authenticator \<Rightarrow> string \<Rightarrow> json \<Rightarrow> json option \<Rightarrow> string \<Rightarrow> ('w, auth_error, unit) proc" where
  "audit_ok A cid who tenant action =
     au_audit A \<lparr>oe_actor_ref = (if truthy who then who else JStr ''<unknown>''), oe_action = action,
       oe_correlation_id = cid, oe_outcome = ''success'', oe_target_ref = tenant\<rparr>"

definition audit_deny ::
    "'w authenticator \<Rightarrow> string \<Rightarrow> json \<Rightarrow> json option \<Rightarrow> string \<Rightarrow> string \<Rightarrow> ('w, auth_error, unit) proc" where
  "audit_deny A cid who tenant action code =
     au_audit A \<lparr>oe_actor_ref = (if truthy who then who else JStr ''<unauthenticated>''), oe_action = action,
       oe_correlation_id = cid, oe_outcome = ''denied:'' @ code, oe_target_ref = tenant\<rparr>"

definition now_of :: "'w authenticator \<Rightarrow> ('w, auth_error, rat) proc" where
  "now_of A = (\<lambda>w. case au_clock A w of (now, w') \<Rightarrow> (Inr now, w'))"

definition validate_or_audit :: "'w authenticator \<Rightarrow> string \<Rightarrow> issuer_config \<Rightarrow> string \<Rightarrow> ('w, auth_error, claims) proc" where
  "validate_or_audit A cid cfg token =
     bnd (now_of A) (\<lambda>now. case validate_token (au_jwt A) cfg now token of
        Inr cl \<Rightarrow> ret cl
      | Inl (AuthDenied d) \<Rightarrow>
          andthen (audit_deny A cid JNull None ''Authenticate'' (ad_public_code d)) (raise (AuthDenied d))
      | Inl (Raised x) \<Rightarrow> raise (Raised x))"

definition resolve_or_audit ::
    "'w authenticator \<Rightarrow> string \<Rightarrow> string option \<Rightarrow> claims \<Rightarrow> ('w, auth_error, auth_context) proc" where
  "resolve_or_audit A cid carrier cl =
     handle (resolve_context (au_read A) cid carrier cl) (\<lambda>e. case e of
        AuthDenied d \<Rightarrow>
          andthen (audit_deny A cid (cl_subject cl) (cl_tenant cl)
            (if ad_public_code d = ''carrier_mismatch'' then ''CarrierMismatch'' else ''TenantAccessDenied'') (ad_public_code d))
          (raise e)
      | Raised x \<Rightarrow> raise e)"

definition switches :: "string option \<Rightarrow> json option \<Rightarrow> bool" where
  "switches previous active =
     (case (previous, active) of
        (Some t, Some a) \<Rightarrow> t \<noteq> [] \<and> truthy a \<and> a \<noteq> JStr t
      | _ \<Rightarrow> False)"

definition audit_success ::
    "'w authenticator \<Rightarrow> string \<Rightarrow> string option \<Rightarrow> auth_context \<Rightarrow> ('w, auth_error, unit) proc" where
  "audit_success A cid previous ctx =
     andthen (audit_ok A cid (ax_principal_ref ctx) (ax_active_tenant_id ctx) ''Authenticate'')
       (if switches previous (ax_active_tenant_id ctx)
        then audit_ok A cid (ax_principal_ref ctx) (ax_active_tenant_id ctx) ''TenantSwitch'' else ret ())"

definition authenticate ::
    "'w authenticator \<Rightarrow> string \<Rightarrow> string \<Rightarrow> string option \<Rightarrow> string option \<Rightarrow> ('w, auth_error, auth_context) proc" where
  "authenticate A token cid carrier previous =
     (case issuer_for A token of
        None \<Rightarrow> andthen (audit_deny A cid JNull None ''Authenticate'' ''unknown_issuer'')
                  (raise (AuthDenied (unauthenticated ''unknown_issuer'')))
      | Some cfg \<Rightarrow>
          bnd (validate_or_audit A cid cfg token) (\<lambda>cl.
          bnd (resolve_or_audit A cid carrier cl) (\<lambda>ctx.
          andthen (audit_success A cid previous ctx) (ret ctx))))"

end
