(* ===== verification/AR_Cache.thy ===== *)
theory AR_Cache
  imports AR_Models DR_Cache
begin

text \<open>
  The auth router's bounded cache and the read-through decorator of the control-plane read port
  (\<open>backend/auth_router/caching.py\<close>). \<open>TtlCache\<close> is a second provider of the interface \<open>ttl_store\<close>.
  Clock values are integers; \<open>text_of\<close> is what an f-string makes of a claim value, the string itself
  for a string.
\<close>

section \<open>The cache\<close>

record 'v ttl_cache =
  tc_ttl :: int
  tc_max :: nat
  tc_data :: "(string, int \<times> 'v) dict"

definition tcache_get :: "int \<Rightarrow> string \<Rightarrow> 'v ttl_cache \<Rightarrow> 'v option \<times> 'v ttl_cache" where
  "tcache_get now k c =
     (case dict_get (tc_data c) k of
        None \<Rightarrow> (None, c)
      | Some (expires_at, v) \<Rightarrow>
          if now > expires_at then (None, c\<lparr>tc_data := dict_pop k (tc_data c)\<rparr>) else (Some v, c))"

definition tcache_put :: "int \<Rightarrow> string \<Rightarrow> 'v \<Rightarrow> 'v ttl_cache \<Rightarrow> 'v ttl_cache" where
  "tcache_put now k v c =
     (let d = (if tc_max c \<le> length (tc_data c) then drop_oldest (tc_data c) else tc_data c)
      in c\<lparr>tc_data := dict_put k (now + tc_ttl c, v) d\<rparr>)"

definition tcache_invalidate :: "string \<Rightarrow> 'v ttl_cache \<Rightarrow> 'v ttl_cache" where
  "tcache_invalidate k c = c\<lparr>tc_data := dict_pop k (tc_data c)\<rparr>"

text \<open>\<open>needle in text\<close>.\<close>

fun contains :: "string \<Rightarrow> string \<Rightarrow> bool" where
  "contains needle [] = (needle = [])"
| "contains needle (c # cs) = (starts_with needle (c # cs) \<or> contains needle cs)"

definition tcache_invalidate_tenant :: "string \<Rightarrow> 'v ttl_cache \<Rightarrow> 'v ttl_cache" where
  "tcache_invalidate_tenant tid c =
     c\<lparr>tc_data := fold dict_pop (filter (contains tid) (map fst (tc_data c))) (tc_data c)\<rparr>"

section \<open>The read-through port\<close>

datatype cached = CFederation federation_view | CState auth_tenant_state | CMember bool | CRole auth_role

record 'w cached_world =
  cw_cache :: "cached ttl_cache"
  cw_world :: 'w

definition tick :: "('w \<Rightarrow> int \<times> 'w) \<Rightarrow> ('w cached_world, auth_error, int) proc" where
  "tick clock s = (case clock (cw_world s) of (now, w) \<Rightarrow> (Inr now, s\<lparr>cw_world := w\<rparr>))"

text \<open>\<open>get\<close> looks the clock up only when the key is there.\<close>

definition cached_lookup :: "('w \<Rightarrow> int \<times> 'w) \<Rightarrow> string \<Rightarrow> ('w cached_world, auth_error, cached option) proc" where
  "cached_lookup clock k =
     bnd (reads (\<lambda>s. dict_get (tc_data (cw_cache s)) k)) (\<lambda>item.
       if item = None then ret None
       else bnd (tick clock) (\<lambda>now s. case tcache_get now k (cw_cache s) of (v, c) \<Rightarrow> (Inr v, s\<lparr>cw_cache := c\<rparr>)))"

definition cached_store :: "('w \<Rightarrow> int \<times> 'w) \<Rightarrow> string \<Rightarrow> cached \<Rightarrow> ('w cached_world, auth_error, unit) proc" where
  "cached_store clock k v =
     bnd (tick clock) (\<lambda>now. writes (\<lambda>s. s\<lparr>cw_cache := tcache_put now k v (cw_cache s)\<rparr>))"

definition inner :: "('w, auth_error, 'a) proc \<Rightarrow> ('w cached_world, auth_error, 'a) proc" where
  "inner m s = (case m (cw_world s) of (r, w) \<Rightarrow> (r, s\<lparr>cw_world := w\<rparr>))"

definition read_through ::
    "('w \<Rightarrow> int \<times> 'w) \<Rightarrow> string \<Rightarrow> ('w, auth_error, cached option) proc \<Rightarrow> ('w cached_world, auth_error, cached option) proc" where
  "read_through clock k loader =
     bnd (cached_lookup clock k) (\<lambda>hit. case hit of
        Some v \<Rightarrow> ret (Some v)
      | None \<Rightarrow> bnd (inner loader) (\<lambda>found. case found of
            None \<Rightarrow> ret None
          | Some v \<Rightarrow> andthen (cached_store clock k v) (ret (Some v))))"

definition fed_key :: "(json \<Rightarrow> string) \<Rightarrow> json \<Rightarrow> string" where
  "fed_key text_of issuer = ''fed::'' @ text_of issuer"

definition state_key :: "(json \<Rightarrow> string) \<Rightarrow> json \<Rightarrow> string" where
  "state_key text_of tid = ''state::'' @ text_of tid"

definition member_key :: "(json \<Rightarrow> string) \<Rightarrow> json \<Rightarrow> json \<Rightarrow> string" where
  "member_key text_of who tid = ''member::'' @ text_of tid @ ''::'' @ text_of who"

definition role_key :: "(json \<Rightarrow> string) \<Rightarrow> json \<Rightarrow> json \<Rightarrow> string" where
  "role_key text_of who tid = ''role::'' @ text_of tid @ ''::'' @ text_of who"

definition load :: "('a \<Rightarrow> cached option) \<Rightarrow> ('w, auth_error, 'a) proc \<Rightarrow> ('w, auth_error, cached option) proc" where
  "load wrap m = bnd m (\<lambda>a. ret (wrap a))"

text \<open>
  The decorated port. The four key prefixes keep the kinds of values apart, so the last branch of
  each projection is never taken.
\<close>

definition caching_read ::
    "(json \<Rightarrow> string) \<Rightarrow> ('w \<Rightarrow> int \<times> 'w) \<Rightarrow> 'w read_port \<Rightarrow> 'w cached_world read_port" where
  "caching_read text_of clock P =
     \<lparr>rd_federation = (\<lambda>i. bnd (read_through clock (fed_key text_of i) (load (map_option CFederation) (rd_federation P i)))
        (\<lambda>v. ret (case v of Some (CFederation f) \<Rightarrow> Some f | _ \<Rightarrow> None))),
      rd_tenant_state = (\<lambda>t. bnd (read_through clock (state_key text_of t) (load (map_option CState) (rd_tenant_state P t)))
        (\<lambda>v. ret (case v of Some (CState st) \<Rightarrow> Some st | _ \<Rightarrow> None))),
      rd_is_member = (\<lambda>p t. bnd (read_through clock (member_key text_of p t) (load (\<lambda>b. Some (CMember b)) (rd_is_member P p t)))
        (\<lambda>v. ret (case v of Some (CMember b) \<Rightarrow> b | _ \<Rightarrow> False))),
      rd_get_role = (\<lambda>p t. bnd (read_through clock (role_key text_of p t) (load (map_option CRole) (rd_get_role P p t)))
        (\<lambda>v. ret (case v of Some (CRole r) \<Rightarrow> Some r | _ \<Rightarrow> None)))\<rparr>"

definition caching_invalidate_tenant :: "string \<Rightarrow> 'w cached_world \<Rightarrow> 'w cached_world" where
  "caching_invalidate_tenant tid s = s\<lparr>cw_cache := tcache_invalidate_tenant tid (cw_cache s)\<rparr>"

section \<open>The cache keeps the interface's promises\<close>

definition tcache_peek :: "int \<Rightarrow> 'v ttl_cache \<Rightarrow> string \<Rightarrow> 'v option" where
  "tcache_peek now c k = fst (tcache_get now k c)"

lemma tcache_peek_Some:
  "tcache_peek now c k = Some x \<longleftrightarrow> (\<exists>e. dict_get (tc_data c) k = Some (e, x) \<and> now \<le> e)"
  by (auto simp: tcache_peek_def tcache_get_def split: option.splits)

interpretation tcache: ttl_store tcache_peek tcache_put tcache_invalidate tc_ttl
proof
  fix t s :: int and c :: "'v ttl_cache" and j k :: string and v x :: 'v
  show "tcache_peek t (tcache_put s k v c) k = (if t \<le> s + tc_ttl c then Some v else None)"
    by (simp add: tcache_peek_def tcache_put_def tcache_get_def Let_def)
  show "\<lbrakk>j \<noteq> k; tcache_peek t (tcache_put s k v c) j = Some x\<rbrakk> \<Longrightarrow> tcache_peek t c j = Some x"
    using dict_get_drop_oldest[of "tc_data c" j]
    by (auto simp: tcache_peek_Some tcache_put_def Let_def split: if_splits)
  show "tcache_peek t (tcache_invalidate k c) k = None"
    by (simp add: tcache_peek_def tcache_invalidate_def tcache_get_def)
  show "\<lbrakk>j \<noteq> k; tcache_peek t (tcache_invalidate k c) j = Some x\<rbrakk> \<Longrightarrow> tcache_peek t c j = Some x"
    by (simp add: tcache_peek_Some tcache_invalidate_def)
qed (simp_all add: tcache_put_def tcache_invalidate_def Let_def)

lemma tcache_bounded:
  assumes "length (tc_data c) \<le> tc_max c" and "0 < tc_max c"
  shows "length (tc_data (tcache_put now k v c)) \<le> tc_max (tcache_put now k v c)"
proof (cases "tc_max c \<le> length (tc_data c)")
  case True
  then have "length (drop_oldest (tc_data c)) < tc_max c"
    using assms length_drop_oldest[of "tc_data c"] by (cases "tc_data c") auto
  with True show ?thesis by (simp add: tcache_put_def length_dict_put)
qed (simp add: tcache_put_def length_dict_put)

lemma dict_get_fold_pop:
  "dict_get (fold dict_pop ks d) k = (if k \<in> set ks then None else dict_get d k)"
  by (induction ks arbitrary: d) auto

lemma contains_append [simp]: "contains t (a @ t @ b)"
proof (induction a)
  case Nil
  show ?case
  proof (cases "t @ b")
    case (Cons x xs)
    with starts_with_append[of t b] show ?thesis by simp
  qed simp
qed simp

lemma invalidated_key: "contains tid k \<Longrightarrow> dict_get (tc_data (tcache_invalidate_tenant tid c)) k = None"
proof -
  assume k: "contains tid k"
  show ?thesis
  proof (cases "dict_get (tc_data c) k")
    case None
    then show ?thesis by (simp add: tcache_invalidate_tenant_def dict_get_fold_pop)
  next
    case (Some x)
    then have "k \<in> set (map fst (tc_data c))" by (force simp: dict_get_def dest: map_of_SomeD)
    with k show ?thesis by (simp add: tcache_invalidate_tenant_def dict_get_fold_pop)
  qed
qed

end
