(* ===== verification/AR_Http.thy ===== *)
theory AR_Http
  imports AR_Auth AR_Cache
begin

text \<open>
  The internal authenticate surface (\<open>backend/auth_router/adapters/providers/http_authenticate_api.py\<close>)
  and the composition of the authenticator from the environment (\<open>backend/auth_router/main.py\<close>). The
  body is what \<open>json.loads\<close> makes of it, \<open>None\<close> where it raises; the HTTP framework is not modelled.
\<close>

section \<open>The surface\<close>

datatype auth_api_error = AuthEnvelope string | AuthReject int string | AuthOther auth_error

definition AUTH_KEYS :: "string list" where
  "AUTH_KEYS = [''v'', ''authorization'', ''recognized_carriers'', ''correlation_id'']"

definition bearer_token :: "json \<Rightarrow> string option" where
  "bearer_token v =
     (case v of
        JStr a \<Rightarrow>
          (let scheme = takeWhile (\<lambda>c. c \<noteq> CHR '' '') a; tail = dropWhile (\<lambda>c. c \<noteq> CHR '' '') a in
           if tail = [] \<or> to_lower scheme \<noteq> ''bearer'' then None
           else if tl tail = [] \<or> hd (tl tail) = CHR '' '' then None
           else Some (tl tail))
      | _ \<Rightarrow> None)"

fun distinct_carriers :: "string list \<Rightarrow> json list \<Rightarrow> auth_api_error + string list" where
  "distinct_carriers seen [] = Inr seen"
| "distinct_carriers seen (c # cs) =
     (case c of
        JStr t \<Rightarrow> distinct_carriers (if t \<in> set seen then seen else seen @ [t]) cs
      | _ \<Rightarrow> Inl (AuthEnvelope ''recognized_carriers must contain only strings''))"

definition reduce_carriers :: "json \<Rightarrow> auth_api_error + string option" where
  "reduce_carriers v =
     (case v of
        JList cs \<Rightarrow>
          (case distinct_carriers [] cs of
             Inl e \<Rightarrow> Inl e
           | Inr [] \<Rightarrow> Inr None
           | Inr [t] \<Rightarrow> Inr (Some t)
           | Inr _ \<Rightarrow> Inl (AuthReject 403 ''carrier_mismatch''))
      | _ \<Rightarrow> Inl (AuthEnvelope ''recognized_carriers must be a list''))"

definition map_denied :: "auth_denied \<Rightarrow> auth_api_error" where
  "map_denied d =
     (if ad_http_status d = 401 then AuthReject 401 ''unauthenticated''
      else if ad_http_status d = 403
        then AuthReject 403 (if ad_public_code d = ''carrier_mismatch'' then ''carrier_mismatch'' else ''forbidden'')
      else AuthReject 503 ''unavailable'')"

definition open_auth_envelope ::
    "(string \<Rightarrow> bool) \<Rightarrow> json option \<Rightarrow> auth_api_error + (string \<times> string \<times> string option)" where
  "open_auth_envelope float_one body =
     (case body of
        None \<Rightarrow> Inl (AuthEnvelope ''body is not valid JSON'')
      | Some (JObj d) \<Rightarrow>
          if \<not> has_keys d AUTH_KEYS
          then Inl (AuthEnvelope ''request keys must be exactly {v, authorization, recognized_carriers, correlation_id}'')
          else if \<not> is_version_one float_one (obj_get d ''v'') then Inl (AuthEnvelope ''unknown envelope version'')
          else (case obj_get d ''correlation_id'' of
              JStr cid \<Rightarrow>
                if cid = [] then Inl (AuthEnvelope ''correlation_id must be a non-empty string'')
                else (case bearer_token (obj_get d ''authorization'') of
                    None \<Rightarrow> Inl (AuthReject 401 ''unauthenticated'')
                  | Some token \<Rightarrow> (case reduce_carriers (obj_get d ''recognized_carriers'') of
                        Inl e \<Rightarrow> Inl e
                      | Inr carrier \<Rightarrow> Inr (token, cid, carrier)))
            | _ \<Rightarrow> Inl (AuthEnvelope ''correlation_id must be a non-empty string''))
      | Some _ \<Rightarrow> Inl (AuthEnvelope ''request keys must be exactly {v, authorization, recognized_carriers, correlation_id}''))"

definition auth_api ::
    "'w authenticator \<Rightarrow> (string \<Rightarrow> bool) \<Rightarrow> json option \<Rightarrow> ('w, auth_api_error, auth_context) proc" where
  "auth_api A float_one body =
     (case open_auth_envelope float_one body of
        Inl e \<Rightarrow> raise e
      | Inr (token, cid, carrier) \<Rightarrow>
          (\<lambda>w. case authenticate A token cid carrier None w of
             (Inr ctx, w') \<Rightarrow> (Inr ctx, w')
           | (Inl (AuthDenied d), w') \<Rightarrow> (Inl (map_denied d), w')
           | (Inl (Raised x), w') \<Rightarrow> (Inl (AuthOther (Raised x)), w')))"

datatype auth_reply = EmptyReply int | RejectReply int string | ContextReply auth_context

definition auth_handle ::
    "'w authenticator \<Rightarrow> (string \<Rightarrow> bool) \<Rightarrow> bool \<Rightarrow> json option \<Rightarrow> 'w \<Rightarrow> auth_reply \<times> 'w" where
  "auth_handle A float_one query_bearing body w =
     (if query_bearing then (EmptyReply 404, w)
      else case auth_api A float_one body w of
          (Inr ctx, w') \<Rightarrow> (ContextReply ctx, w')
        | (Inl (AuthReject status code), w') \<Rightarrow> (RejectReply status code, w')
        | (Inl (AuthEnvelope m), w') \<Rightarrow> (EmptyReply 503, w')
        | (Inl (AuthOther x), w') \<Rightarrow> (EmptyReply 503, w'))"

section \<open>Composition from the environment\<close>

definition ASYMMETRIC_ALGS :: "string list" where
  "ASYMMETRIC_ALGS = [''RS256'', ''RS384'', ''RS512'', ''ES256'']"

text \<open>The algorithm list: each entry must be one of the four; a list or object in it is unhashable.\<close>

fun checked_algs :: "json list \<Rightarrow> string + string list" where
  "checked_algs [] = Inr []"
| "checked_algs (a # as) =
     (case a of
        JStr s \<Rightarrow>
          if s \<in> set ASYMMETRIC_ALGS then (case checked_algs as of Inl e \<Rightarrow> Inl e | Inr rest \<Rightarrow> Inr (s # rest))
          else Inl ''ValueError''
      | JList _ \<Rightarrow> Inl ''TypeError''
      | JObj _ \<Rightarrow> Inl ''TypeError''
      | _ \<Rightarrow> Inl ''ValueError'')"

definition issuer_config_of :: "string \<Rightarrow> json \<Rightarrow> string + issuer_config" where
  "issuer_config_of key cfg =
     (case cfg of
        JObj d \<Rightarrow>
          if obj_get d ''issuer'' \<noteq> JStr key then Inl ''ValueError''
          else (case (obj_get d ''audience'', obj_get d ''allowed_algs'') of
              (JStr audience, JList algs) \<Rightarrow>
                if audience = [] \<or> algs = [] then Inl ''ValueError''
                else (case checked_algs algs of
                    Inl e \<Rightarrow> Inl e
                  | Inr allowed \<Rightarrow>
                      (case (obj_get d ''jwks'', case dict_get d ''tenant_claim'' of None \<Rightarrow> JStr ''tenant'' | Some t \<Rightarrow> t) of
                         (JObj jwks, JStr claim) \<Rightarrow>
                           if jwks = [] \<or> claim = [] then Inl ''ValueError''
                           else Inr \<lparr>ic_issuer = key, ic_audience = audience, ic_allowed_algs = allowed,
                                     ic_jwks = jwks, ic_tenant_claim = claim\<rparr>
                       | _ \<Rightarrow> Inl ''ValueError''))
            | _ \<Rightarrow> Inl ''ValueError'')
      | _ \<Rightarrow> Inl ''ValueError'')"

fun issuers_of :: "(string \<times> json) list \<Rightarrow> string + (string, issuer_config) dict" where
  "issuers_of [] = Inr []"
| "issuers_of ((key, cfg) # rest) =
     (case issuer_config_of key cfg of
        Inl e \<Rightarrow> Inl e
      | Inr c \<Rightarrow> (case issuers_of rest of Inl e \<Rightarrow> Inl e | Inr cs \<Rightarrow> Inr ((key, c) # cs)))"

definition issuers_from_env :: "(string \<Rightarrow> json option) \<Rightarrow> string option \<Rightarrow> string + (string, issuer_config) dict" where
  "issuers_from_env loads value =
     (let raw = strip (case value of None \<Rightarrow> [] | Some v \<Rightarrow> v) in
      if raw = [] then Inl ''ValueError''
      else case loads raw of
          Some (JObj d) \<Rightarrow> if d = [] then Inl ''ValueError'' else issuers_of d
        | _ \<Rightarrow> Inl ''ValueError'')"

definition authenticate_port_from_env :: "string option \<Rightarrow> string + int" where
  "authenticate_port_from_env value =
     (let raw = strip (case value of None \<Rightarrow> [] | Some v \<Rightarrow> v) in
      if raw = [] then Inr 0
      else case py_int raw of
          None \<Rightarrow> Inl ''ValueError''
        | Some port \<Rightarrow> if 0 \<le> port \<and> port \<le> 65535 then Inr port else Inl ''ValueError'')"

text \<open>The cached read port is built with the default bound of 1024 entries and starts empty.\<close>

definition new_cached_world :: "int \<Rightarrow> 'w \<Rightarrow> 'w cached_world" where
  "new_cached_world ttl w = \<lparr>cw_cache = \<lparr>tc_ttl = ttl, tc_max = 1024, tc_data = []\<rparr>, cw_world = w\<rparr>"

definition build_authenticator ::
    "jwt_env \<Rightarrow> (json \<Rightarrow> string) \<Rightarrow> ('w \<Rightarrow> int \<times> 'w) \<Rightarrow> ('w \<Rightarrow> rat \<times> 'w) \<Rightarrow> 'w read_port
      \<Rightarrow> (operational_event \<Rightarrow> ('w, auth_error, unit) proc) \<Rightarrow> (string, issuer_config) dict \<Rightarrow> 'w cached_world authenticator" where
  "build_authenticator J text_of monotonic wall read audit issuers =
     \<lparr>au_jwt = J, au_clock = (\<lambda>s. case wall (cw_world s) of (t, w) \<Rightarrow> (t, s\<lparr>cw_world := w\<rparr>)),
      au_read = caching_read text_of monotonic read, au_audit = (\<lambda>ev. inner (audit ev)), au_issuers = issuers\<rparr>"

end
