(* ===== verification/AR_AuthFacts.thy ===== *)
theory AR_AuthFacts
  imports AR_Http
begin

text \<open>
  What an accepted token, a resolved context and a composed issuer table imply, and how the
  authenticator's audit trail grows.
\<close>

section \<open>Accepted tokens\<close>

lemma split_token_Inr: "split_token token = Inr (h, p, s) \<Longrightarrow> split_on CHR ''.'' token = [h, p, s]"
  by (auto simp: split_token_def split: list.splits)

lemma check_header_Inr:
  assumes "check_header cfg header = Inr (alg, key)"
  obtains h kid where "header = JObj h" "obj_get h ''alg'' = JStr alg" "alg \<in> set (ic_allowed_algs cfg)"
    "to_lower alg \<noteq> ''none''" "obj_get h ''kid'' = JStr kid" "obj_get (ic_jwks cfg) kid = key" "key \<noteq> JNull"
  using assms
  by (auto simp: check_header_def alg_is_none_def deny401_def split: json.splits if_splits)

lemma check_signature_Inr:
  assumes "check_signature J h p sig (alg, key) = Inr u"
  obtains signature where "b64url_decode J sig = Some signature" "jv_verify J (h @ ''.'' @ p) signature key alg = Inr True"
  using assms by (auto simp: check_signature_def deny401_def split: if_splits option.splits sum.splits bool.splits)

lemma check_expiry_Inr:
  assumes "check_expiry J now p = Inr u"
  obtains expiry where "jv_float J (obj_get p ''exp'') = Inr expiry" "\<not> flt_less (flt_add expiry (jv_skew J)) (Fin now)"
    "obj_get p ''nbf'' = JNull \<or> (\<exists>nbf. jv_float J (obj_get p ''nbf'') = Inr nbf \<and> \<not> flt_less (flt_add (Fin now) (jv_skew J)) nbf)"
  using assms by (auto simp: check_expiry_def deny401_def split: if_splits sum.splits)

text \<open>What the payload of an accepted token holds at the given time.\<close>

definition payload_accepted :: "jwt_env \<Rightarrow> issuer_config \<Rightarrow> rat \<Rightarrow> (string \<times> json) list \<Rightarrow> bool" where
  "payload_accepted J cfg now p \<longleftrightarrow>
     obj_get p ''iss'' = JStr (ic_issuer cfg) \<and> audience_ok (obj_get p ''aud'') (ic_audience cfg)
     \<and> truthy (obj_get p ''sub'')
     \<and> (\<exists>expiry. jv_float J (obj_get p ''exp'') = Inr expiry \<and> \<not> flt_less (flt_add expiry (jv_skew J)) (Fin now))
     \<and> (obj_get p ''nbf'' = JNull
        \<or> (\<exists>nbf. jv_float J (obj_get p ''nbf'') = Inr nbf \<and> \<not> flt_less (flt_add (Fin now) (jv_skew J)) nbf))"

definition claimed_tenant :: "issuer_config \<Rightarrow> (string \<times> json) list \<Rightarrow> json option" where
  "claimed_tenant cfg p = (case obj_get p (ic_tenant_claim cfg) of JNull \<Rightarrow> None | t \<Rightarrow> Some t)"

lemma check_claims_Inr:
  assumes "check_claims J cfg now payload = Inr cl"
  obtains p where "payload = JObj p" "payload_accepted J cfg now p"
    "cl_subject cl = obj_get p ''sub''" "cl_tenant cl = claimed_tenant cfg p"
proof -
  from assms obtain p where p: "payload = JObj p" by (cases payload) (simp_all add: check_claims_def)
  with assms have c: "obj_get p ''iss'' = JStr (ic_issuer cfg)" "audience_ok (obj_get p ''aud'') (ic_audience cfg)"
    by (auto simp: check_claims_def deny401_def split: if_splits)
  with assms p obtain u where u: "check_expiry J now p = Inr u"
    by (cases "check_expiry J now p") (auto simp: check_claims_def)
  with assms p c have d: "truthy (obj_get p ''sub'')" by (auto simp: check_claims_def deny401_def split: if_splits)
  from u have e: "payload_accepted J cfg now p"
    by (rule check_expiry_Inr) (use c d in \<open>auto simp: payload_accepted_def\<close>)
  have "cl = \<lparr>cl_subject = obj_get p ''sub'', cl_issuer = ic_issuer cfg, cl_audience = ic_audience cfg,
              cl_tenant = claimed_tenant cfg p\<rparr>"
    using assms p c u d by (simp add: check_claims_def claimed_tenant_def)
  then have "cl_subject cl = obj_get p ''sub''" "cl_tenant cl = claimed_tenant cfg p" by simp_all
  with p e show thesis by (rule that)
qed

text \<open>The proof a token carries: signed by a key of the issuer under an allowed algorithm.\<close>

definition token_proven :: "jwt_env \<Rightarrow> issuer_config \<Rightarrow> rat \<Rightarrow> string \<Rightarrow> string \<Rightarrow> (string \<times> json) list \<Rightarrow> bool" where
  "token_proven J cfg now token alg p \<longleftrightarrow>
     (\<exists>h_b64 p_b64 s_b64 h kid signature.
        split_on CHR ''.'' token = [h_b64, p_b64, s_b64]
      \<and> decode_segment J h_b64 = Some (JObj h) \<and> decode_segment J p_b64 = Some (JObj p)
      \<and> obj_get h ''alg'' = JStr alg \<and> alg \<in> set (ic_allowed_algs cfg) \<and> to_lower alg \<noteq> ''none''
      \<and> obj_get h ''kid'' = JStr kid \<and> obj_get (ic_jwks cfg) kid \<noteq> JNull
      \<and> b64url_decode J s_b64 = Some signature
      \<and> jv_verify J (h_b64 @ ''.'' @ p_b64) signature (obj_get (ic_jwks cfg) kid) alg = Inr True)
     \<and> payload_accepted J cfg now p"

lemma validate_Inr:
  assumes "validate_token J cfg now token = Inr cl"
  obtains alg p where "token_proven J cfg now token alg p"
    "cl_subject cl = obj_get p ''sub''" "cl_tenant cl = claimed_tenant cfg p"
proof -
  from assms obtain h pb s where s: "split_token token = Inr (h, pb, s)"
    by (cases "split_token token") (auto simp: validate_token_def)
  with assms obtain header payload where d: "decode_segment J h = Some header" "decode_segment J pb = Some payload"
    by (auto simp: validate_token_def deny401_def split: option.splits)
  with assms s obtain alg key where hk: "check_header cfg header = Inr (alg, key)"
    by (cases "check_header cfg header") (auto simp: validate_token_def)
  with assms s d obtain u where u: "check_signature J h pb s (alg, key) = Inr u"
    by (cases "check_signature J h pb s (alg, key)") (auto simp: validate_token_def)
  from assms s d hk u have c: "check_claims J cfg now payload = Inr cl" by (simp add: validate_token_def)
  from c obtain p where p: "payload = JObj p" "payload_accepted J cfg now p"
    "cl_subject cl = obj_get p ''sub''" "cl_tenant cl = claimed_tenant cfg p" by (rule check_claims_Inr)
  from hk obtain hd kid where h: "header = JObj hd" "obj_get hd ''alg'' = JStr alg" "alg \<in> set (ic_allowed_algs cfg)"
    "to_lower alg \<noteq> ''none''" "obj_get hd ''kid'' = JStr kid" "obj_get (ic_jwks cfg) kid = key" "key \<noteq> JNull"
    by (rule check_header_Inr)
  from u obtain signature where g: "b64url_decode J s = Some signature"
    "jv_verify J (h @ ''.'' @ pb) signature key alg = Inr True" by (rule check_signature_Inr)
  have "token_proven J cfg now token alg p"
    unfolding token_proven_def
    using split_token_Inr[OF s] d h p g
    by (intro conjI exI[of _ h] exI[of _ pb] exI[of _ s] exI[of _ hd] exI[of _ kid] exI[of _ signature]) simp_all
  then show thesis using p that by blast
qed

section \<open>Resolved contexts\<close>

definition tenant_admitted :: "'w read_port \<Rightarrow> json \<Rightarrow> json \<Rightarrow> 'w \<Rightarrow> string option \<Rightarrow> bool" where
  "tenant_admitted P who tid w role \<longleftrightarrow>
     (\<exists>st w1 w2 r w3. rd_tenant_state P tid w = (Inr (Some st), w1) \<and> tv_ready st
        \<and> rd_is_member P who tid w1 = (Inr True, w2)
        \<and> rd_get_role P who tid w2 = (Inr r, w3) \<and> role = map_option auth_role_value r)"

lemma resolve_context_Inr:
  assumes "resolve_context P cid carrier cl w = (Inr ctx, w')"
  shows "ax_correlation_id ctx = cid \<and> ax_principal_ref ctx = cl_subject cl \<and> ax_active_tenant_id ctx = cl_tenant cl
    \<and> (case cl_tenant cl of
         None \<Rightarrow> ax_role ctx = None
       | Some t \<Rightarrow> (carrier = None \<or> t = JStr (the carrier)) \<and> tenant_admitted P (cl_subject cl) t w (ax_role ctx))"
proof (cases "cl_tenant cl")
  case None
  with assms show ?thesis by (auto simp: resolve_context_def)
next
  case (Some t)
  with assms have c: "carrier = None \<or> t = JStr (the carrier)" by (auto simp: resolve_context_def split: if_splits)
  obtain a w1 where a: "rd_tenant_state P t w = (a, w1)" by (cases "rd_tenant_state P t w")
  obtain b w2 where b: "rd_is_member P (cl_subject cl) t w1 = (b, w2)" by (cases "rd_is_member P (cl_subject cl) t w1")
  obtain r w3 where r: "rd_get_role P (cl_subject cl) t w2 = (r, w3)" by (cases "rd_get_role P (cl_subject cl) t w2")
  from assms Some c a b obtain st where st: "a = Inr (Some st)" "b = Inr True" "tv_ready st"
    by (cases a; cases b) (auto simp: resolve_context_def split: if_splits)
  with assms Some c a b r obtain role where role: "r = Inr role" by (cases r) (auto simp: resolve_context_def)
  with assms Some c a b r st show ?thesis
    by (auto simp: resolve_context_def tenant_admitted_def)
qed

lemma issuers_asymmetric:
  assumes "issuers_from_env loads value = Inr issuers" and "dict_get issuers iss = Some cfg"
  shows "set (ic_allowed_algs cfg) \<subseteq> set ASYMMETRIC_ALGS"
proof -
  have algs: "checked_algs xs = Inr as \<Longrightarrow> set as \<subseteq> set ASYMMETRIC_ALGS" for xs as
    by (induction xs arbitrary: as) (auto split: json.splits if_splits sum.splits)
  have one: "issuer_config_of key c = Inr x \<Longrightarrow> set (ic_allowed_algs x) \<subseteq> set ASYMMETRIC_ALGS" for key c x
    by (auto simp: issuer_config_of_def dest!: algs split: json.splits if_splits sum.splits option.splits)
  have all: "issuers_of d = Inr xs \<Longrightarrow> (k, x) \<in> set xs \<Longrightarrow> a \<in> set (ic_allowed_algs x) \<Longrightarrow> a \<in> set ASYMMETRIC_ALGS" for d xs k x a
    by (induction d arbitrary: xs) (auto dest!: subsetD[OF one] split: sum.splits)
  from assms(1) obtain d where "issuers_of d = Inr issuers"
    by (auto simp: issuers_from_env_def Let_def split: if_splits option.splits json.splits)
  from all[OF this dict_get_mem[OF assms(2)]] show ?thesis by blast
qed

lemma issuer_for_Some:
  assumes "issuer_for A token = Some cfg"
  obtains iss where "dict_get (au_issuers A) iss = Some cfg"
  using assms by (auto simp: issuer_for_def split: list.splits option.splits json.splits)

end
