(* ===== verification/AR_Claims.thy ===== *)
theory AR_Claims
  imports AR_AuthFacts
begin

text \<open>The properties of the auth router, each applied to a concrete issuer, token and control plane.\<close>

section \<open>A sample authenticator\<close>

text \<open>The world of the sample is the audit trail; segments of a token name their documents.\<close>

definition sample_jwt :: "json \<Rightarrow> json \<Rightarrow> jwt_env" where
  "sample_jwt header payload =
     \<lparr>jv_b64 = Some, jv_loads = (\<lambda>t. if t = ''h==='' then Some header else if t = ''p==='' then Some payload else None),
      jv_verify = (\<lambda>signed sig key alg. Inr (signed = ''h.p'' \<and> sig = ''s==='' \<and> key = JStr ''pub'' \<and> alg = ''RS256'')),
      jv_float = (\<lambda>v. case v of JInt n \<Rightarrow> Inr (Fin (of_int n)) | _ \<Rightarrow> Inl (Raised ''TypeError'')), jv_skew = Fin 60\<rparr>"

definition sample_header :: json where
  "sample_header = JObj [(''alg'', JStr ''RS256''), (''kid'', JStr ''k1'')]"

definition sample_payload :: "json \<Rightarrow> json" where
  "sample_payload tenant =
     JObj [(''iss'', JStr ''idp''), (''aud'', JStr ''snack''), (''exp'', JInt 1000), (''sub'', JStr ''ada''), (''tenant'', tenant)]"

definition sample_issuer :: issuer_config where
  "sample_issuer = \<lparr>ic_issuer = ''idp'', ic_audience = ''snack'', ic_allowed_algs = [''RS256''],
     ic_jwks = [(''k1'', JStr ''pub'')], ic_tenant_claim = ''tenant''\<rparr>"

definition sample_read :: "auth_tenant_state option \<Rightarrow> bool \<Rightarrow> operational_event list read_port" where
  "sample_read st member =
     \<lparr>rd_federation = (\<lambda>_. ret None), rd_tenant_state = (\<lambda>_. ret st), rd_is_member = (\<lambda>_ _. ret member),
      rd_get_role = (\<lambda>_ _. ret (Some auth_role.TENANT_AGENT))\<rparr>"

definition sample_state :: "bool \<Rightarrow> auth_tenant_state" where
  "sample_state ready = \<lparr>tv_tenant_id = ''acme'', tv_lifecycle_state = (if ready then ''Ready'' else ''Verifying''), tv_ready = ready\<rparr>"

definition sample_auth ::
    "json \<Rightarrow> json \<Rightarrow> auth_tenant_state option \<Rightarrow> bool \<Rightarrow> operational_event list authenticator" where
  "sample_auth header payload st member =
     \<lparr>au_jwt = sample_jwt header payload, au_clock = (\<lambda>w. (1030, w)), au_read = sample_read st member,
      au_audit = (\<lambda>ev. writes (\<lambda>w. w @ [ev])), au_issuers = [(''idp'', sample_issuer)]\<rparr>"

lemmas sample_defs = sample_auth_def sample_jwt_def sample_header_def sample_payload_def sample_issuer_def
  sample_read_def sample_state_def

lemmas auth_defs = authenticate_def issuer_for_def decode_segment_def b64url_decode_def validate_or_audit_def
  validate_token_def split_token_def check_header_def alg_is_none_def check_signature_def is_ascii_def
  check_claims_def check_expiry_def audience_ok_def resolve_or_audit_def resolve_context_def audit_success_def
  audit_ok_def audit_deny_def now_of_def switches_def deny401_def obj_get_def dict_get_def truthy_def to_lower_def
  to_lower_char_def char_code_def auth_role_value_def

definition sample_event :: "json option \<Rightarrow> string \<Rightarrow> operational_event" where
  "sample_event tenant action = \<lparr>oe_actor_ref = JStr ''ada'', oe_action = action, oe_correlation_id = ''c1'',
     oe_outcome = ''success'', oe_target_ref = tenant\<rparr>"

lemma sample_accepts:
  "authenticate (sample_auth sample_header (sample_payload (JStr ''acme'')) (Some (sample_state True)) True)
     ''h.p.s'' ''c1'' (Some ''acme'') None []
   = (Inr \<lparr>ax_correlation_id = ''c1'', ax_principal_ref = JStr ''ada'', ax_active_tenant_id = Some (JStr ''acme''),
           ax_role = Some ''TENANT_AGENT''\<rparr>, [sample_event (Some (JStr ''acme'')) ''Authenticate''])"
  by (simp add: sample_defs auth_defs sample_event_def numeral_eq_Suc)

section \<open>Who is let in\<close>

lemma authenticate_proves:
  assumes "authenticate A token cid carrier previous w = (Inr ctx, w')"
  shows "\<exists>cfg alg p.
      issuer_for A token = Some cfg \<and> token_proven (au_jwt A) cfg (fst (au_clock A w)) token alg p
    \<and> ((\<exists>loads value. issuers_from_env loads value = Inr (au_issuers A)) \<longrightarrow> alg \<in> set ASYMMETRIC_ALGS)
    \<and> ax_correlation_id ctx = cid \<and> ax_principal_ref ctx = obj_get p ''sub''
    \<and> ax_active_tenant_id ctx = claimed_tenant cfg p
    \<and> (case claimed_tenant cfg p of
         None \<Rightarrow> ax_role ctx = None
       | Some t \<Rightarrow> (carrier = None \<or> t = JStr (the carrier))
           \<and> tenant_admitted (au_read A) (obj_get p ''sub'') t (snd (au_clock A w)) (ax_role ctx))"
proof -
  obtain now w1 where now: "au_clock A w = (now, w1)" by (cases "au_clock A w")
  from assms obtain cfg where cfg: "issuer_for A token = Some cfg"
    by (cases "issuer_for A token") (auto simp: authenticate_def split: prod.splits sum.splits)
  obtain cl where cl: "validate_token (au_jwt A) cfg now token = Inr cl"
    using assms cfg now
    by (cases "validate_token (au_jwt A) cfg now token")
      (auto simp: authenticate_def validate_or_audit_def now_of_def split: prod.splits sum.splits auth_error.splits)
  obtain r w2 where r: "resolve_context (au_read A) cid carrier cl w1 = (r, w2)"
    by (cases "resolve_context (au_read A) cid carrier cl w1")
  have "\<exists>c. r = Inr c \<and> ctx = c"
    using assms cfg now cl r
    by (cases r) (auto simp: authenticate_def validate_or_audit_def now_of_def resolve_or_audit_def
        split: prod.splits sum.splits auth_error.splits)
  with r have res: "resolve_context (au_read A) cid carrier cl w1 = (Inr ctx, w2)" by auto
  from cl obtain alg p where proven: "token_proven (au_jwt A) cfg now token alg p"
    and sub: "cl_subject cl = obj_get p ''sub''" "cl_tenant cl = claimed_tenant cfg p" by (rule validate_Inr)
  from cfg obtain iss where iss: "dict_get (au_issuers A) iss = Some cfg" by (rule issuer_for_Some)
  have asym: "alg \<in> set ASYMMETRIC_ALGS" if "issuers_from_env loads raw = Inr (au_issuers A)" for loads raw
    using issuers_asymmetric[OF that iss] proven unfolding token_proven_def by blast
  note ctx = resolve_context_Inr[OF res, unfolded sub]
  have w1: "fst (au_clock A w) = now" "snd (au_clock A w) = w1" using now by simp_all
  show ?thesis
    unfolding w1 by (intro exI[of _ cfg] exI[of _ alg] exI[of _ p]) (use cfg proven asym ctx in blast)
qed



section \<open>What a refusal tells\<close>

lemma resolve_unknown_or_stranger:
  assumes "\<And>t. rd_tenant_state P t w = (Inr None, w)" and "\<And>p t. \<exists>m. rd_is_member P p t w = (Inr m, w)"
    and "\<And>t. \<exists>st. rd_tenant_state Q t w = (Inr st, w)" and "\<And>p t. rd_is_member Q p t w = (Inr False, w)"
  shows "resolve_context P cid carrier cl w = resolve_context Q cid carrier cl w"
proof (cases "cl_tenant cl")
  case (Some t)
  obtain m st where "rd_is_member P (cl_subject cl) t w = (Inr m, w)" "rd_tenant_state Q t w = (Inr st, w)"
    using assms(2,3) by blast
  with assms(1,4)[of t] assms(4)[of "cl_subject cl" t] Some
  show ?thesis
    by (cases "carrier \<noteq> None \<and> t \<noteq> JStr (the carrier)") (simp add: resolve_context_def, force simp: resolve_context_def)
qed (simp add: resolve_context_def)

lemma read_unused:
  "au_jwt (A\<lparr>au_read := P\<rparr>) = au_jwt A" "au_issuers (A\<lparr>au_read := P\<rparr>) = au_issuers A"
  "au_clock (A\<lparr>au_read := P\<rparr>) = au_clock A" "au_audit (A\<lparr>au_read := P\<rparr>) = au_audit A"
  "au_read (A\<lparr>au_read := P\<rparr>) = P"
  by simp_all

lemmas auth_flow = authenticate_def issuer_for_def validate_or_audit_def resolve_or_audit_def audit_success_def
  audit_ok_def audit_deny_def now_of_def

text \<open>A refusal does not tell whether a tenant exists: a control plane that does not know the
tenant and one that knows it but not the principal as a member lead to the same answer of the
surface and the same audit trail, for every request; and whatever happens, the surface answers one
of six fixed refusals, a context, or nothing at all.\<close>

theorem refusal_hides_existence:
  assumes "\<And>t v. rd_tenant_state P t v = (Inr None, v)" and "\<And>p t v. \<exists>m. rd_is_member P p t v = (Inr m, v)"
    and "\<And>t v. \<exists>st. rd_tenant_state Q t v = (Inr st, v)" and "\<And>p t v. rd_is_member Q p t v = (Inr False, v)"
  shows "auth_handle (A\<lparr>au_read := P\<rparr>) f query_bearing body w = auth_handle (A\<lparr>au_read := Q\<rparr>) f query_bearing body w
    \<and> (case fst (auth_handle A f query_bearing body w) of
         ContextReply ctx \<Rightarrow> True
       | EmptyReply status \<Rightarrow> status \<in> {404, 503}
       | RejectReply status code \<Rightarrow> (status, code) \<in>
           {(401, ''unauthenticated''), (403, ''carrier_mismatch''), (403, ''forbidden''), (503, ''unavailable'')})"
proof
  have same: "resolve_context P = resolve_context Q"
    by (intro ext) (rule resolve_unknown_or_stranger[OF assms])
  have "authenticate (A\<lparr>au_read := P\<rparr>) token cid carrier previous w
      = authenticate (A\<lparr>au_read := Q\<rparr>) token cid carrier previous w" for token cid carrier previous
    unfolding auth_flow read_unused same ..
  then show "auth_handle (A\<lparr>au_read := P\<rparr>) f query_bearing body w = auth_handle (A\<lparr>au_read := Q\<rparr>) f query_bearing body w"
    by (simp add: auth_handle_def auth_api_def split: sum.split prod.split)
  have carriers: "distinct_carriers seen cs = Inl e \<Longrightarrow> \<exists>m. e = AuthEnvelope m" for seen cs e
    by (induction seen cs rule: distinct_carriers.induct) (auto split: json.splits if_splits)
  have reduce: "reduce_carriers v = Inl e \<Longrightarrow> (\<exists>m. e = AuthEnvelope m) \<or> e = AuthReject 403 ''carrier_mismatch''" for v e
    by (auto simp: reduce_carriers_def dest: carriers split: json.splits sum.splits list.splits)
  have opened: "(\<exists>m. e = AuthEnvelope m) \<or> e = AuthReject 403 ''carrier_mismatch'' \<or> e = AuthReject 401 ''unauthenticated''"
    if "open_auth_envelope f body = Inl e" for e
    using that reduce by (auto simp: open_auth_envelope_def split: option.splits json.splits if_splits sum.splits)
  show "case fst (auth_handle A f query_bearing body w) of
         ContextReply ctx \<Rightarrow> True
       | EmptyReply status \<Rightarrow> status \<in> {404, 503}
       | RejectReply status code \<Rightarrow> (status, code) \<in>
           {(401, ''unauthenticated''), (403, ''carrier_mismatch''), (403, ''forbidden''), (503, ''unavailable'')}"
  proof (cases "open_auth_envelope f body")
    case (Inl e)
    with opened[OF Inl] show ?thesis by (auto simp: auth_handle_def auth_api_def)
  next
    case (Inr x)
    then show ?thesis
      by (auto simp: auth_handle_def auth_api_def map_denied_def split: prod.splits sum.splits auth_error.splits)
  qed
qed

definition sample_request :: json where
  "sample_request = JObj [(''v'', JInt 1), (''authorization'', JStr ''Bearer h.p.s''),
     (''recognized_carriers'', JList [JStr ''acme'', JStr ''acme'']), (''correlation_id'', JStr ''c1'')]"

theorem refusal_hides_existence_witness:
  "let A = sample_auth sample_header (sample_payload (JStr ''acme'')) None True in
     auth_handle (A\<lparr>au_read := sample_read None True\<rparr>) (\<lambda>_. False) False (Some sample_request) []
       = auth_handle (A\<lparr>au_read := sample_read (Some (sample_state True)) False\<rparr>) (\<lambda>_. False) False (Some sample_request) []
   \<and> fst (auth_handle (A\<lparr>au_read := sample_read None True\<rparr>) (\<lambda>_. False) False (Some sample_request) []) = RejectReply 403 ''forbidden''"
proof -
  let ?A = "sample_auth sample_header (sample_payload (JStr ''acme'')) None True"
  have a: "?A\<lparr>au_read := sample_read st m\<rparr> = sample_auth sample_header (sample_payload (JStr ''acme'')) st m" for st m
    by (simp add: sample_auth_def)
  have bearer: "bearer_token (JStr ''Bearer h.p.s'') = Some ''h.p.s''" by code_simp
  have o: "open_auth_envelope (\<lambda>_. False) (Some sample_request) = Inr (''h.p.s'', ''c1'', Some ''acme'')"
    by (simp add: sample_request_def open_auth_envelope_def has_keys_def AUTH_KEYS_def is_version_one_def obj_get_def
        dict_get_def bearer reduce_carriers_def)
  have "authenticate (sample_auth sample_header (sample_payload (JStr ''acme'')) None True) ''h.p.s'' ''c1'' (Some ''acme'') None []
      = (Inl (AuthDenied (auth_forbidden ''tenant_access_denied'')),
         [\<lparr>oe_actor_ref = JStr ''ada'', oe_action = ''TenantAccessDenied'', oe_correlation_id = ''c1'',
           oe_outcome = ''denied:tenant_access_denied'', oe_target_ref = Some (JStr ''acme'')\<rparr>])"
    by (simp add: sample_defs auth_defs numeral_eq_Suc)
  then have "fst (auth_handle (?A\<lparr>au_read := sample_read None True\<rparr>) (\<lambda>_. False) False (Some sample_request) [])
      = RejectReply 403 ''forbidden''"
    by (simp add: a auth_handle_def auth_api_def o map_denied_def)
  moreover have "auth_handle (?A\<lparr>au_read := sample_read None True\<rparr>) (\<lambda>_. False) False (Some sample_request) []
       = auth_handle (?A\<lparr>au_read := sample_read (Some (sample_state True)) False\<rparr>) (\<lambda>_. False) False (Some sample_request) []"
    by (rule conjunct1[OF refusal_hides_existence]) (auto simp: sample_read_def)
  ultimately show ?thesis by (simp add: Let_def)
qed

section \<open>The audit trail\<close>

text \<open>The sink keeps what it is given and nothing else writes to it.\<close>

definition auth_observed :: "'w authenticator \<Rightarrow> ('w \<Rightarrow> operational_event list) \<Rightarrow> bool" where
  "auth_observed A recorded \<longleftrightarrow>
     (\<forall>w. recorded (snd (au_clock A w)) = recorded w)
   \<and> (\<forall>t w. recorded (snd (rd_tenant_state (au_read A) t w)) = recorded w)
   \<and> (\<forall>p t w. recorded (snd (rd_is_member (au_read A) p t w)) = recorded w)
   \<and> (\<forall>p t w. recorded (snd (rd_get_role (au_read A) p t w)) = recorded w)
   \<and> (\<forall>ev w. \<exists>w'. au_audit A ev w = (Inr (), w') \<and> recorded w' = recorded w @ [ev])"

lemma resolve_quiet:
  assumes "auth_observed A recorded"
  shows "keeps (unchanged recorded) (resolve_context (au_read A) cid carrier cl)"
proof -
  have ports: "keeps (unchanged recorded) (rd_tenant_state (au_read A) t)"
    "keeps (unchanged recorded) (rd_is_member (au_read A) p t)" "keeps (unchanged recorded) (rd_get_role (au_read A) p t)" for p t
    using assms unfolding auth_observed_def keeps_def unchanged_def by simp_all
  show ?thesis unfolding resolve_context_def
    by (auto split: option.split prod.split intro!: keeps_if unchanged.keeps_all ports)
qed

definition denial_event :: "string \<Rightarrow> operational_event \<Rightarrow> auth_denied \<Rightarrow> bool" where
  "denial_event cid ev d \<longleftrightarrow> oe_outcome ev = ''denied:'' @ ad_public_code d \<and> oe_correlation_id ev = cid
     \<and> oe_action ev \<in> {''Authenticate'', ''CarrierMismatch'', ''TenantAccessDenied''}
     \<and> (oe_target_ref ev \<noteq> None \<longrightarrow> (oe_action ev = ''CarrierMismatch'') = (ad_public_code d = ''carrier_mismatch''))"

definition success_event :: "string \<Rightarrow> string \<Rightarrow> auth_context \<Rightarrow> operational_event" where
  "success_event cid action ctx = \<lparr>oe_actor_ref = (if truthy (ax_principal_ref ctx) then ax_principal_ref ctx else JStr ''<unknown>''),
     oe_action = action, oe_correlation_id = cid, oe_outcome = ''success'', oe_target_ref = ax_active_tenant_id ctx\<rparr>"

lemma audit_run:
  assumes "auth_observed A recorded"
  shows "\<exists>w'. au_audit A ev w = (Inr (), w') \<and> recorded w' = recorded w @ [ev]"
  using assms unfolding auth_observed_def by simp

lemma audit_success_run:
  assumes "auth_observed A recorded"
  shows "\<exists>w'. audit_success A cid previous ctx w = (Inr (), w')
    \<and> recorded w' = recorded w @ success_event cid ''Authenticate'' ctx
        # (if switches previous (ax_active_tenant_id ctx) then [success_event cid ''TenantSwitch'' ctx] else [])"
proof -
  obtain w1 where w1: "au_audit A (success_event cid ''Authenticate'' ctx) w = (Inr (), w1)"
    "recorded w1 = recorded w @ [success_event cid ''Authenticate'' ctx]" using audit_run[OF assms] by blast
  obtain w2 where w2: "au_audit A (success_event cid ''TenantSwitch'' ctx) w1 = (Inr (), w2)"
    "recorded w2 = recorded w1 @ [success_event cid ''TenantSwitch'' ctx]" using audit_run[OF assms] by blast
  show ?thesis using w1 w2
    by (simp add: audit_success_def audit_ok_def success_event_def[symmetric])
qed

text \<open>How the trail grows with an attempt and its result.\<close>

definition attempt_audited ::
    "string \<Rightarrow> string option \<Rightarrow> operational_event list \<Rightarrow> auth_error + auth_context \<Rightarrow> operational_event list \<Rightarrow> bool" where
  "attempt_audited cid previous before r after \<longleftrightarrow>
     (case r of
        Inr ctx \<Rightarrow> after = before @ success_event cid ''Authenticate'' ctx
          # (if switches previous (ax_active_tenant_id ctx) then [success_event cid ''TenantSwitch'' ctx] else [])
      | Inl (AuthDenied d) \<Rightarrow> (\<exists>ev. after = before @ [ev] \<and> denial_event cid ev d)
      | Inl (Raised x) \<Rightarrow> after = before)"

lemma denial_audited:
  assumes "auth_observed A recorded"
    and "ev = \<lparr>oe_actor_ref = who, oe_action = action, oe_correlation_id = cid, oe_outcome = ''denied:'' @ ad_public_code d,
      oe_target_ref = tenant\<rparr>"
    and "(tenant = None \<and> action = ''Authenticate'')
      \<or> action = (if ad_public_code d = ''carrier_mismatch'' then ''CarrierMismatch'' else ''TenantAccessDenied'')"
    and "andthen (au_audit A ev) (raise (AuthDenied d)) w = (r, w')"
  shows "attempt_audited cid previous (recorded w) r (recorded w')"
proof -
  obtain w1 where "au_audit A ev w = (Inr (), w1)" "recorded w1 = recorded w @ [ev]" using audit_run[OF assms(1)] by blast
  with assms(4) have "r = Inl (AuthDenied d)" "recorded w' = recorded w @ [ev]" by simp_all
  moreover have "denial_event cid ev d" using assms(2,3) by (auto simp: denial_event_def split: if_splits)
  ultimately show ?thesis by (simp add: attempt_audited_def)
qed

lemma resolution_audited:
  assumes "auth_observed A recorded"
    and run: "bnd (resolve_or_audit A cid carrier cl) (\<lambda>ctx. andthen (audit_success A cid previous ctx) (ret ctx)) w = (r, w')"
  shows "attempt_audited cid previous (recorded w) r (recorded w')"
proof -
  obtain q w1 where q: "resolve_context (au_read A) cid carrier cl w = (q, w1)"
    by (cases "resolve_context (au_read A) cid carrier cl w")
  have same: "recorded w1 = recorded w" using keepsD[OF resolve_quiet[OF assms(1)] q] by (simp add: unchanged_def)
  show ?thesis
  proof (cases q)
    case (Inr ctx)
    obtain w2 where "audit_success A cid previous ctx w1 = (Inr (), w2)"
      "recorded w2 = recorded w1 @ success_event cid ''Authenticate'' ctx
        # (if switches previous (ax_active_tenant_id ctx) then [success_event cid ''TenantSwitch'' ctx] else [])"
      using audit_success_run[OF assms(1)] by blast
    with run q Inr same show ?thesis by (auto simp: resolve_or_audit_def attempt_audited_def)
  next
    case e: (Inl e)
    show ?thesis
    proof (cases e)
      case (Raised x)
      with run q e same show ?thesis by (auto simp: resolve_or_audit_def attempt_audited_def)
    next
      case (AuthDenied d)
      let ?ev = "\<lparr>oe_actor_ref = (if truthy (cl_subject cl) then cl_subject cl else JStr ''<unauthenticated>''),
        oe_action = (if ad_public_code d = ''carrier_mismatch'' then ''CarrierMismatch'' else ''TenantAccessDenied''),
        oe_correlation_id = cid, oe_outcome = ''denied:'' @ ad_public_code d, oe_target_ref = cl_tenant cl\<rparr>"
      obtain w2 where w2: "au_audit A ?ev w1 = (Inr (), w2)" using audit_run[OF assms(1), of ?ev w1] by (elim exE conjE)
      then have "r = Inl (AuthDenied d)" "w' = w2"
        using run by (simp_all add: q e AuthDenied resolve_or_audit_def audit_deny_def)
      with w2 have "andthen (au_audit A ?ev) (raise (AuthDenied d)) w1 = (r, w')" by simp
      from denial_audited[OF assms(1) HOL.refl _ this] show ?thesis unfolding same by simp
    qed
  qed
qed

text \<open>C18: Every authentication attempt leaves exactly one event in the audit trail: the denial with the
caller's own code, or the success of the principal it admits, followed by one tenant switch exactly
when the previous tenant was another one. The only attempts that leave none are those the token
crashes with an exception that is no denial, as a header that is no object does.\<close>

theorem authentication_audited_once:
  assumes "auth_observed A recorded" and "authenticate A token cid carrier previous w = (r, w')"
  shows "attempt_audited cid previous (recorded w) r (recorded w')"
proof (cases "issuer_for A token")
  case None
  then have "andthen (audit_deny A cid JNull None ''Authenticate'' (ad_public_code (unauthenticated ''unknown_issuer'')))
      (raise (AuthDenied (unauthenticated ''unknown_issuer''))) w = (r, w')"
    using assms(2) by (simp add: authenticate_def)
  from denial_audited[OF assms(1) HOL.refl _ this[unfolded audit_deny_def]] show ?thesis by simp
next
  case (Some cfg)
  obtain now w1 where now: "au_clock A w = (now, w1)" by (cases "au_clock A w")
  have same: "recorded w1 = recorded w" using assms(1) now unfolding auth_observed_def by (metis snd_conv)
  show ?thesis
  proof (cases "validate_token (au_jwt A) cfg now token")
    case e: (Inl e)
    show ?thesis
    proof (cases e)
      case (AuthDenied d)
      have "andthen (audit_deny A cid JNull None ''Authenticate'' (ad_public_code d)) (raise (AuthDenied d)) w1
          = authenticate A token cid carrier previous w"
        by (simp add: authenticate_def Some validate_or_audit_def now_of_def now e AuthDenied split: prod.split sum.split)
      with assms(2) have "andthen (audit_deny A cid JNull None ''Authenticate'' (ad_public_code d)) (raise (AuthDenied d)) w1
          = (r, w')" by simp
      from denial_audited[OF assms(1) HOL.refl _ this[unfolded audit_deny_def]] show ?thesis unfolding same by simp
    next
      case (Raised x)
      with Some e now same assms(2) show ?thesis
        by (auto simp: authenticate_def validate_or_audit_def now_of_def attempt_audited_def)
    qed
  next
    case (Inr cl)
    have "authenticate A token cid carrier previous w
        = bnd (resolve_or_audit A cid carrier cl) (\<lambda>ctx. andthen (audit_success A cid previous ctx) (ret ctx)) w1"
      by (simp add: authenticate_def Some validate_or_audit_def now_of_def now Inr)
    from resolution_audited[OF assms(1) this[symmetric, unfolded assms(2)]] show ?thesis unfolding same .
  qed
qed

theorem authentication_audited_once_witness:
  "attempt_audited ''c1'' None []
     (fst (authenticate (sample_auth sample_header (sample_payload (JStr ''acme'')) (Some (sample_state True)) True)
        ''h.p.s'' ''c1'' (Some ''acme'') None [])) [sample_event (Some (JStr ''acme'')) ''Authenticate'']
   \<and> authenticate (sample_auth (JInt 7) (sample_payload (JStr ''acme'')) (Some (sample_state True)) True)
        ''h.p.s'' ''c1'' (Some ''acme'') None [] = (Inl (Raised ''AttributeError''), [])"
proof
  have "auth_observed (sample_auth h q st m) (\<lambda>w. w)" for h q st m
    by (simp add: auth_observed_def sample_auth_def sample_read_def)
  from authentication_audited_once[OF this sample_accepts]
  show "attempt_audited ''c1'' None []
     (fst (authenticate (sample_auth sample_header (sample_payload (JStr ''acme'')) (Some (sample_state True)) True)
        ''h.p.s'' ''c1'' (Some ''acme'') None [])) [sample_event (Some (JStr ''acme'')) ''Authenticate'']"
    by (simp add: sample_accepts)
  show "authenticate (sample_auth (JInt 7) (sample_payload (JStr ''acme'')) (Some (sample_state True)) True)
        ''h.p.s'' ''c1'' (Some ''acme'') None [] = (Inl (Raised ''AttributeError''), [])"
    by (simp add: sample_defs auth_defs numeral_eq_Suc)
qed

end
