(* ===== verification/AR_CacheClaims.thy ===== *)
theory AR_CacheClaims
  imports AR_Claims
begin

text \<open>
  How current the answers of the caching read port are: runs of questions and tenant
  invalidations over an arbitrary control plane, with the log of the answers that were stored and
  not invalidated since.
\<close>

datatype question = AskFederation string | AskState string | AskMember string string | AskRole string string

fun question_key :: "(json \<Rightarrow> string) \<Rightarrow> question \<Rightarrow> string" where
  "question_key text_of (AskFederation i) = fed_key text_of (JStr i)"
| "question_key text_of (AskState t) = state_key text_of (JStr t)"
| "question_key text_of (AskMember p t) = member_key text_of (JStr p) (JStr t)"
| "question_key text_of (AskRole p t) = role_key text_of (JStr p) (JStr t)"

fun question_load :: "'w read_port \<Rightarrow> question \<Rightarrow> ('w, auth_error, cached option) proc" where
  "question_load P (AskFederation i) = load (map_option CFederation) (rd_federation P (JStr i))"
| "question_load P (AskState t) = load (map_option CState) (rd_tenant_state P (JStr t))"
| "question_load P (AskMember p t) = load (\<lambda>b. Some (CMember b)) (rd_is_member P (JStr p) (JStr t))"
| "question_load P (AskRole p t) = load (map_option CRole) (rd_get_role P (JStr p) (JStr t))"

definition ask ::
    "(json \<Rightarrow> string) \<Rightarrow> ('w \<Rightarrow> int \<times> 'w) \<Rightarrow> 'w read_port \<Rightarrow> question \<Rightarrow> ('w cached_world, auth_error, cached option) proc" where
  "ask text_of clock P q = read_through clock (question_key text_of q) (question_load P q)"

text \<open>A tenant identifier without a colon, as every registered one is.\<close>

fun plain_question :: "question \<Rightarrow> bool" where
  "plain_question (AskFederation i) = True"
| "plain_question (AskState t) = (CHR '':'' \<notin> set t)"
| "plain_question (AskMember p t) = (CHR '':'' \<notin> set t)"
| "plain_question (AskRole p t) = (CHR '':'' \<notin> set t)"

fun about_tenant :: "string \<Rightarrow> question \<Rightarrow> bool" where
  "about_tenant tid (AskFederation i) = False"
| "about_tenant tid (AskState t) = (t = tid)"
| "about_tenant tid (AskMember p t) = (t = tid)"
| "about_tenant tid (AskRole p t) = (t = tid)"

text \<open>The answer this question stores now, with the time on its entry.\<close>

definition stored_now ::
    "(json \<Rightarrow> string) \<Rightarrow> ('w \<Rightarrow> int \<times> 'w) \<Rightarrow> 'w read_port \<Rightarrow> question \<Rightarrow> 'w cached_world \<Rightarrow> (question \<times> int \<times> cached) list" where
  "stored_now text_of clock P q s =
     (case cached_lookup clock (question_key text_of q) s of
        (Inr None, s1) \<Rightarrow> (case inner (question_load P q) s1 of
            (Inr (Some v), s2) \<Rightarrow> [(q, fst (clock (cw_world s2)), v)]
          | _ \<Rightarrow> [])
      | _ \<Rightarrow> [])"

datatype cache_op = Ask question | Forget string

fun cache_run ::
    "(json \<Rightarrow> string) \<Rightarrow> ('w \<Rightarrow> int \<times> 'w) \<Rightarrow> 'w read_port \<Rightarrow> cache_op list \<Rightarrow> 'w cached_world \<times> (question \<times> int \<times> cached) list
      \<Rightarrow> 'w cached_world \<times> (question \<times> int \<times> cached) list" where
  "cache_run text_of clock P [] sl = sl"
| "cache_run text_of clock P (Ask q # ops) sl =
     cache_run text_of clock P ops (snd (ask text_of clock P q (fst sl)), snd sl @ stored_now text_of clock P q (fst sl))"
| "cache_run text_of clock P (Forget t # ops) sl =
     cache_run text_of clock P ops (caching_invalidate_tenant t (fst sl), filter (\<lambda>(q, _). \<not> about_tenant t q) (snd sl))"

section \<open>Keys tell questions apart\<close>

lemma colon_split:
  assumes "a @ CHR '':'' # CHR '':'' # b = c @ CHR '':'' # CHR '':'' # d" and "CHR '':'' \<notin> set a" and "CHR '':'' \<notin> set c"
  shows "a = c \<and> b = d"
proof -
  have head: "takeWhile (\<lambda>x. x \<noteq> CHR '':'') (e @ CHR '':'' # f) = e" if "CHR '':'' \<notin> set e" for e f
    using that by (induction e) auto
  from head[OF assms(2)] head[OF assms(3)] assms(1) have "a = c" by metis
  with assms(1) show ?thesis by auto
qed

lemma question_key_inj:
  assumes "\<And>t. text_of (JStr t) = t" and "plain_question q" and "plain_question q'"
    and "question_key text_of q = question_key text_of q'"
  shows "q = q'"
  using assms(2,3,4)
  by (cases q; cases q') (auto simp: fed_key_def state_key_def member_key_def role_key_def assms(1) dest: colon_split)

lemma about_tenant_key:
  "(\<And>t. text_of (JStr t) = t) \<Longrightarrow> about_tenant tid q \<Longrightarrow> contains tid (question_key text_of q)"
proof -
  assume t: "\<And>t. text_of (JStr t) = t" and a: "about_tenant tid q"
  have "contains tid (''state::'' @ tid @ [])" "contains tid (''member::'' @ tid @ ''::'' @ p)"
    "contains tid (''role::'' @ tid @ ''::'' @ p)" for p by (rule contains_append)+
  with a show ?thesis
    by (cases q) (simp_all add: state_key_def member_key_def role_key_def t del: contains.simps)
qed

section \<open>Every entry is backed by the log\<close>

definition backed :: "(json \<Rightarrow> string) \<Rightarrow> 'w cached_world \<Rightarrow> (question \<times> int \<times> cached) list \<Rightarrow> bool" where
  "backed text_of s kept \<longleftrightarrow>
     (\<forall>k e v. dict_get (tc_data (cw_cache s)) k = Some (e, v) \<longrightarrow>
        (\<exists>q. (q, e - tc_ttl (cw_cache s), v) \<in> set kept \<and> question_key text_of q = k))
   \<and> length (tc_data (cw_cache s)) \<le> tc_max (cw_cache s)"

lemma length_dict_pop: "length (dict_pop k d) \<le> length d"
  by (simp add: dict_pop_def length_delete_le)

lemma length_fold_pop: "length (fold dict_pop ks d) \<le> length d"
  by (induction ks arbitrary: d) (auto intro: le_trans length_dict_pop)

lemma lookup_cases:
  assumes "cached_lookup clock k s = (r, s')"
  shows "\<exists>hit. r = Inr hit \<and> tc_ttl (cw_cache s') = tc_ttl (cw_cache s) \<and> tc_max (cw_cache s') = tc_max (cw_cache s)
    \<and> length (tc_data (cw_cache s')) \<le> length (tc_data (cw_cache s))
    \<and> (\<forall>j x. dict_get (tc_data (cw_cache s')) j = Some x \<longrightarrow> dict_get (tc_data (cw_cache s)) j = Some x)
    \<and> (\<forall>v. hit = Some v \<longrightarrow> (\<exists>e. dict_get (tc_data (cw_cache s)) k = Some (e, v) \<and> fst (clock (cw_world s)) \<le> e))"
proof (cases "dict_get (tc_data (cw_cache s)) k")
  case None
  with assms show ?thesis by (auto simp: cached_lookup_def)
next
  case (Some x)
  obtain e v where x: "x = (e, v)" by (cases x)
  obtain now w where now: "clock (cw_world s) = (now, w)" by (cases "clock (cw_world s)")
  from assms Some x now show ?thesis
    by (cases "now > e") (auto simp: cached_lookup_def tick_def tcache_get_def length_dict_pop split: if_splits)
qed

lemma backed_lookup:
  assumes "backed text_of s kept" and "cached_lookup clock k s = (r, s')"
  shows "backed text_of s' kept"
proof -
  from lookup_cases[OF assms(2)] obtain hit where "tc_ttl (cw_cache s') = tc_ttl (cw_cache s)" "tc_max (cw_cache s') = tc_max (cw_cache s)"
    "length (tc_data (cw_cache s')) \<le> length (tc_data (cw_cache s))"
    "\<forall>j x. dict_get (tc_data (cw_cache s')) j = Some x \<longrightarrow> dict_get (tc_data (cw_cache s)) j = Some x" by (elim exE conjE)
  with assms(1) show ?thesis unfolding backed_def by (auto intro: le_trans)
qed

lemma backed_put:
  assumes "backed text_of s kept" and "0 < tc_max (cw_cache s)" and "k = question_key text_of q"
  shows "backed text_of (s\<lparr>cw_world := w, cw_cache := tcache_put now k v (cw_cache s)\<rparr>) (kept @ [(q, now, v)])"
proof -
  have "length (tc_data (tcache_put now k v (cw_cache s))) \<le> tc_max (tcache_put now k v (cw_cache s))"
    using assms(1,2) by (intro tcache_bounded) (simp_all add: backed_def)
  moreover have "\<exists>q. (q, e - tc_ttl (cw_cache s), u) \<in> set (kept @ [(q0, now, v)]) \<and> question_key text_of q = j"
    if "dict_get (tc_data (tcache_put now k v (cw_cache s))) j = Some (e, u)" and "q0 = q" for j e u q0
  proof (cases "j = k")
    case True
    with that assms(3) show ?thesis by (intro exI[of _ q]) (auto simp: tcache_put_def Let_def)
  next
    case False
    with that have "dict_get (tc_data (cw_cache s)) j = Some (e, u)"
      by (auto simp: tcache_put_def Let_def split: if_splits dest: dict_get_drop_oldest)
    with assms(1) obtain q1 where "(q1, e - tc_ttl (cw_cache s), u) \<in> set kept" "question_key text_of q1 = j"
      unfolding backed_def by blast
    then show ?thesis by (intro exI[of _ q1]) simp
  qed
  ultimately show ?thesis unfolding backed_def by (simp add: tcache_put_def Let_def)
qed

lemma backed_ask:
  assumes held: "backed text_of s kept" and max: "0 < tc_max (cw_cache s)" and run: "ask text_of clock P q s = (r, s')"
  shows "backed text_of s' (kept @ stored_now text_of clock P q s)
    \<and> tc_ttl (cw_cache s') = tc_ttl (cw_cache s) \<and> tc_max (cw_cache s') = tc_max (cw_cache s)"
proof -
  let ?k = "question_key text_of q"
  obtain h s1 where l: "cached_lookup clock ?k s = (h, s1)" by (cases "cached_lookup clock ?k s")
  from lookup_cases[OF l] obtain hit where h: "h = Inr hit" and same: "tc_ttl (cw_cache s1) = tc_ttl (cw_cache s)"
    "tc_max (cw_cache s1) = tc_max (cw_cache s)" by (elim exE conjE)
  note b1 = backed_lookup[OF held l]
  show ?thesis
  proof (cases hit)
    case (Some v)
    with run l h same b1 show ?thesis by (auto simp: ask_def read_through_def stored_now_def)
  next
    case None
    obtain a w2 where a: "question_load P q (cw_world s1) = (a, w2)" by (cases "question_load P q (cw_world s1)")
    let ?s2 = "s1\<lparr>cw_world := w2\<rparr>"
    have b2: "backed text_of ?s2 kept" using b1 by (simp add: backed_def)
    show ?thesis
    proof (cases "\<exists>v. a = Inr (Some v)")
      case True
      then obtain v where v: "a = Inr (Some v)" by blast
      obtain now w3 where now: "clock w2 = (now, w3)" by (cases "clock w2")
      have "backed text_of (?s2\<lparr>cw_world := w3, cw_cache := tcache_put now ?k v (cw_cache ?s2)\<rparr>) (kept @ [(q, now, v)])"
        by (rule backed_put[OF b2]) (use max same in simp_all)
      moreover have "s' = ?s2\<lparr>cw_world := w3, cw_cache := tcache_put now ?k v (cw_cache ?s2)\<rparr>"
        using run l h None a v now by (simp add: ask_def read_through_def inner_def cached_store_def tick_def)
      moreover have "stored_now text_of clock P q s = [(q, now, v)]"
        using l h None a v now by (simp add: stored_now_def inner_def)
      ultimately show ?thesis using same by (simp add: tcache_put_def Let_def)
    next
      case False
      with run l h None a b2 same show ?thesis
        by (auto simp: ask_def read_through_def stored_now_def inner_def split: sum.splits option.splits)
    qed
  qed
qed

lemma backed_forget:
  assumes "\<And>t. text_of (JStr t) = t" and "backed text_of s kept"
  shows "backed text_of (caching_invalidate_tenant t s) (filter (\<lambda>(q, _). \<not> about_tenant t q) kept)"
proof -
  have "\<exists>q. (q, e - tc_ttl (cw_cache s), v) \<in> set (filter (\<lambda>(q, _). \<not> about_tenant t q) kept) \<and> question_key text_of q = k"
    if k: "dict_get (tc_data (tcache_invalidate_tenant t (cw_cache s))) k = Some (e, v)" for k e v
  proof -
    from k have "dict_get (tc_data (cw_cache s)) k = Some (e, v)"
      by (simp add: tcache_invalidate_tenant_def dict_get_fold_pop split: if_splits)
    with assms(2) obtain q where q: "(q, e - tc_ttl (cw_cache s), v) \<in> set kept" "question_key text_of q = k"
      unfolding backed_def by blast
    have "\<not> about_tenant t q"
      using about_tenant_key[of text_of t q, OF assms(1)] invalidated_key[of t k "cw_cache s"] k q(2) by auto
    with q show ?thesis by auto
  qed
  moreover have "length (tc_data (tcache_invalidate_tenant t (cw_cache s))) \<le> tc_max (cw_cache s)"
    using assms(2) length_fold_pop by (fastforce simp: backed_def tcache_invalidate_tenant_def intro: le_trans)
  ultimately show ?thesis
    unfolding backed_def by (simp add: caching_invalidate_tenant_def tcache_invalidate_tenant_def)
qed

lemma cache_run_backed:
  assumes "\<And>t. text_of (JStr t) = t" and "backed text_of (fst sl) (snd sl)" and "0 < tc_max (cw_cache (fst sl))"
    and "cache_run text_of clock P ops sl = (s, kept)"
  shows "backed text_of s kept \<and> tc_ttl (cw_cache s) = tc_ttl (cw_cache (fst sl))
    \<and> tc_max (cw_cache s) = tc_max (cw_cache (fst sl)) \<and> fst ` set kept \<subseteq> fst ` set (snd sl) \<union> {q. Ask q \<in> set ops}"
  using assms(2-)
proof (induction ops arbitrary: sl)
  case (Cons op ops)
  show ?case
  proof (cases op)
    case (Ask q)
    obtain r s1 where r: "ask text_of clock P q (fst sl) = (r, s1)" by (cases "ask text_of clock P q (fst sl)")
    note step = backed_ask[OF Cons.prems(1,2) r]
    have "fst ` set (stored_now text_of clock P q (fst sl)) \<subseteq> {q}"
      by (auto simp: stored_now_def split: prod.splits sum.splits option.splits)
    with Cons.IH[of "(s1, snd sl @ stored_now text_of clock P q (fst sl))"] step Cons.prems r Ask
    show ?thesis by (simp add: image_Un) blast
  next
    case (Forget t)
    with Cons.IH[of "(caching_invalidate_tenant t (fst sl), filter (\<lambda>(q, _). \<not> about_tenant t q) (snd sl))"]
      backed_forget[OF assms(1) Cons.prems(1)] Cons.prems
    have "backed text_of s kept \<and> tc_ttl (cw_cache s) = tc_ttl (cw_cache (fst sl)) \<and> tc_max (cw_cache s) = tc_max (cw_cache (fst sl))
      \<and> fst ` set kept \<subseteq> fst ` set (filter (\<lambda>(q, _). \<not> about_tenant t q) (snd sl)) \<union> {q. Ask q \<in> set ops}"
      by (simp add: caching_invalidate_tenant_def tcache_invalidate_tenant_def)
    with Forget show ?thesis by auto
  qed
qed simp

text \<open>What the log records was answered by the control plane.\<close>

lemma stored_now_answered:
  "(q, t, v) \<in> set (stored_now text_of clock P q' s) \<Longrightarrow>
     \<exists>w w'. question_load P q w = (Inr (Some v), w') \<and> fst (clock w') = t"
proof -
  assume m: "(q, t, v) \<in> set (stored_now text_of clock P q' s)"
  obtain h s1 where l: "cached_lookup clock (question_key text_of q') s = (h, s1)"
    by (cases "cached_lookup clock (question_key text_of q') s")
  obtain a w where a: "question_load P q' (cw_world s1) = (a, w)" by (cases "question_load P q' (cw_world s1)")
  from m l a have "a = Inr (Some v) \<and> q = q' \<and> fst (clock w) = t"
    by (auto simp: stored_now_def inner_def split: sum.splits option.splits)
  with a show ?thesis by blast
qed

lemma cache_run_answered:
  assumes "\<forall>(q, t, v) \<in> set (snd sl). \<exists>w w'. question_load P q w = (Inr (Some v), w') \<and> fst (clock w') = t"
    and "cache_run text_of clock P ops sl = (s, kept)" and "(q, t, v) \<in> set kept"
  shows "\<exists>w w'. question_load P q w = (Inr (Some v), w') \<and> fst (clock w') = t"
  using assms
proof (induction ops arbitrary: sl)
  case (Cons op ops)
  show ?case
  proof (cases op)
    case (Ask a)
    show ?thesis
    proof (rule Cons.IH)
      show "\<forall>(q, t, v) \<in> set (snd (snd (ask text_of clock P a (fst sl)), snd sl @ stored_now text_of clock P a (fst sl))).
          \<exists>w w'. question_load P q w = (Inr (Some v), w') \<and> fst (clock w') = t"
        using Cons.prems(1) stored_now_answered[of _ _ _ text_of clock P a "fst sl"] by fastforce
    qed (use Cons.prems Ask in simp_all)
  next
    case (Forget f)
    show ?thesis
    proof (rule Cons.IH)
      show "\<forall>(q, t, v) \<in> set (snd (caching_invalidate_tenant f (fst sl), filter (\<lambda>(q, _). \<not> about_tenant f q) (snd sl))).
          \<exists>w w'. question_load P q w = (Inr (Some v), w') \<and> fst (clock w') = t"
        using Cons.prems(1) by auto
    qed (use Cons.prems Forget in simp_all)
  qed
qed auto

text \<open>C19: The cache of the auth router never makes an answer up, mixes two questions up or serves one too
old: whatever was asked and invalidated before, an answer taken from the cache is one the control
plane gave to that very question, it entered the cache at most the time to live ago and its tenant
was not invalidated since; and the cache never outgrows its bound. The tenants asked about have no
colon in their identifier.\<close>

theorem cached_answers_are_current:
  assumes "\<And>t. text_of (JStr t) = t" and "tc_data (cw_cache s0) = []" and "0 < tc_max (cw_cache s0)"
    and "cache_run text_of clock P ops (s0, []) = (s, kept)"
    and "plain_question q" and "\<And>q'. Ask q' \<in> set ops \<Longrightarrow> plain_question q'"
    and "cached_lookup clock (question_key text_of q) s = (Inr (Some v), s')"
  shows "(\<exists>t. (q, t, v) \<in> set kept \<and> fst (clock (cw_world s)) \<le> t + tc_ttl (cw_cache s0)
      \<and> (\<exists>w w'. question_load P q w = (Inr (Some v), w') \<and> fst (clock w') = t))
    \<and> length (tc_data (cw_cache s)) \<le> tc_max (cw_cache s0)"
proof -
  have "backed text_of s0 []" using assms(2) by (simp add: backed_def)
  from cache_run_backed[of text_of "(s0, [])" clock P ops s kept, OF assms(1)] this assms(3,4)
  have b: "backed text_of s kept" "tc_ttl (cw_cache s) = tc_ttl (cw_cache s0)" "tc_max (cw_cache s) = tc_max (cw_cache s0)"
    and asked: "fst ` set kept \<subseteq> {q. Ask q \<in> set ops}" by simp_all
  from lookup_cases[OF assms(7)] obtain e where e: "dict_get (tc_data (cw_cache s)) (question_key text_of q) = Some (e, v)"
    "fst (clock (cw_world s)) \<le> e" by auto
  with b(1) obtain q1 where q1: "(q1, e - tc_ttl (cw_cache s), v) \<in> set kept" "question_key text_of q1 = question_key text_of q"
    unfolding backed_def by blast
  then have "Ask q1 \<in> set ops" using asked by force
  then have "q1 = q" by (intro question_key_inj[OF assms(1) assms(6) assms(5) q1(2)])
  with q1 have k: "(q, e - tc_ttl (cw_cache s), v) \<in> set kept" by simp
  moreover have "\<exists>w w'. question_load P q w = (Inr (Some v), w') \<and> fst (clock w') = e - tc_ttl (cw_cache s)"
    by (rule cache_run_answered[OF _ assms(4) k]) simp
  moreover have "fst (clock (cw_world s)) \<le> (e - tc_ttl (cw_cache s)) + tc_ttl (cw_cache s0)" using e b(2) by simp
  moreover have "length (tc_data (cw_cache s)) \<le> tc_max (cw_cache s0)" using b by (simp add: backed_def)
  ultimately show ?thesis by blast
qed

text \<open>A clock that stands still, a control plane that knows one tenant.\<close>

definition plain_text :: "json \<Rightarrow> string" where
  "plain_text v = (case v of JStr t \<Rightarrow> t | _ \<Rightarrow> ''?'')"

definition still_clock :: "int \<Rightarrow> int \<times> int" where
  "still_clock w = (w, w)"

definition one_tenant :: "int read_port" where
  "one_tenant = \<lparr>rd_federation = (\<lambda>_. ret None), rd_tenant_state = (\<lambda>_. ret (Some (sample_state True))),
     rd_is_member = (\<lambda>_ _. ret True), rd_get_role = (\<lambda>_ _. ret None)\<rparr>"

theorem cached_answers_are_current_witness:
  "let (s, kept) = cache_run plain_text still_clock one_tenant [Ask (AskMember ''ada'' ''acme''), Forget ''bolt'', Ask (AskState ''acme'')]
         (new_cached_world 30 (5 :: int), []) in
     fst (cached_lookup still_clock (question_key plain_text (AskMember ''ada'' ''acme'')) s) = Inr (Some (CMember True))
   \<and> (\<exists>t. (AskMember ''ada'' ''acme'', t, CMember True) \<in> set kept \<and> fst (still_clock (cw_world s)) \<le> t + 30)
   \<and> length (tc_data (cw_cache s)) \<le> 1024"
proof -
  obtain s kept where run: "cache_run plain_text still_clock one_tenant [Ask (AskMember ''ada'' ''acme''), Forget ''bolt'', Ask (AskState ''acme'')]
      (new_cached_world 30 (5 :: int), []) = (s, kept)"
    by (cases "cache_run plain_text still_clock one_tenant [Ask (AskMember ''ada'' ''acme''), Forget ''bolt'', Ask (AskState ''acme'')]
      (new_cached_world 30 (5 :: int), [])")
  have "fst (cached_lookup still_clock (question_key plain_text (AskMember ''ada'' ''acme''))
      (fst (cache_run plain_text still_clock one_tenant [Ask (AskMember ''ada'' ''acme''), Forget ''bolt'', Ask (AskState ''acme'')]
      (new_cached_world 30 (5 :: int), [])))) = Inr (Some (CMember True))" by code_simp
  with run obtain s' where hit: "cached_lookup still_clock (question_key plain_text (AskMember ''ada'' ''acme'')) s
      = (Inr (Some (CMember True)), s')"
    by (cases "cached_lookup still_clock (question_key plain_text (AskMember ''ada'' ''acme'')) s") simp
  have "(\<exists>t. (AskMember ''ada'' ''acme'', t, CMember True) \<in> set kept
        \<and> fst (still_clock (cw_world s)) \<le> t + tc_ttl (cw_cache (new_cached_world 30 (5 :: int)))
        \<and> (\<exists>w w'. question_load one_tenant (AskMember ''ada'' ''acme'') w = (Inr (Some (CMember True)), w') \<and> fst (still_clock w') = t))
      \<and> length (tc_data (cw_cache s)) \<le> tc_max (cw_cache (new_cached_world 30 (5 :: int)))"
    by (rule cached_answers_are_current[OF _ _ _ run _ _ hit]) (auto simp: plain_text_def new_cached_world_def)
  then have "\<exists>t. (AskMember ''ada'' ''acme'', t, CMember True) \<in> set kept \<and> fst (still_clock (cw_world s)) \<le> t + 30"
    "length (tc_data (cw_cache s)) \<le> 1024" by (auto simp: new_cached_world_def)
  with hit show ?thesis unfolding run Let_def prod.case by simp
qed

end
