(* ===== verification/LN_Chain.thy ===== *)
theory LN_Chain
  imports Shared
begin

text \<open>
  The lineage chain: canonical content and integrity marker
  (\<open>backend/lineage_service/canonical.py\<close>) and the append-only write path (\<open>emit.py\<close>). The keyed hash
  is an argument. \<open>str()\<close> and \<open>int()\<close> of a cell are arguments as well; an exception is its type's
  name. Text is encoded byte by byte (code points below 256 stand for themselves).
\<close>

type_synonym py_error = string

record cells =
  ce_text :: "json \<Rightarrow> string"
  ce_int :: "json \<Rightarrow> py_error + int"

definition row_item :: "row \<Rightarrow> string \<Rightarrow> py_error + json" where
  "row_item r k = (case dict_get r k of None \<Rightarrow> Inl ''KeyError'' | Some v \<Rightarrow> Inr v)"

definition row_int :: "cells \<Rightarrow> row \<Rightarrow> string \<Rightarrow> py_error + int" where
  "row_int E r k = (case row_item r k of Inl e \<Rightarrow> Inl e | Inr v \<Rightarrow> ce_int E v)"

section \<open>Canonical content and marker\<close>

definition CURRENT_MARKER_VERSION :: int where "CURRENT_MARKER_VERSION = 1"

definition SEP :: string where "SEP = [CHR 0x1F]"

definition V1_FIELDS :: "string list" where
  "V1_FIELDS = [''lineage_id'', ''seq'', ''event_type'', ''occurred_at'', ''actor_ref'', ''source_ref'',
     ''target_ref'', ''operation'', ''schema_version'', ''derivation_ref'', ''parent_lineage_ref'']"

definition field_text :: "cells \<Rightarrow> row \<Rightarrow> string \<Rightarrow> string" where
  "field_text E r f = (case obj_get r f of JNull \<Rightarrow> [] | v \<Rightarrow> ce_text E v)"

text \<open>\<open>SEP.join\<close> raises unless the previous marker is a string.\<close>

definition canonical_content :: "cells \<Rightarrow> row \<Rightarrow> json \<Rightarrow> int \<Rightarrow> py_error + string" where
  "canonical_content E r prev version =
     (if version = 1 then
        (case prev of
           JStr p \<Rightarrow> Inr (join SEP (p # map (field_text E r) V1_FIELDS))
         | _ \<Rightarrow> Inl ''TypeError'')
      else Inl ''UnknownMarkerVersion'')"

definition marker_for ::
    "cells \<Rightarrow> (string \<Rightarrow> string \<Rightarrow> string) \<Rightarrow> string \<Rightarrow> row \<Rightarrow> json \<Rightarrow> int \<Rightarrow> py_error + string" where
  "marker_for E mac key r prev version =
     (case canonical_content E r prev version of Inl e \<Rightarrow> Inl e | Inr content \<Rightarrow> Inr (mac key content))"

section \<open>Emit\<close>

record 's lineage_env =
  le_cells :: cells
  le_mac :: "string \<Rightarrow> string \<Rightarrow> string"
  le_uuid :: "('s, py_error, string) proc"
  le_current_version :: "string \<Rightarrow> ('s, py_error, string) proc"
  le_resolve :: "string \<Rightarrow> string \<Rightarrow> ('s, py_error, string) proc"
  le_audit :: "(operational_event \<Rightarrow> ('s, py_error, unit) proc) option"

definition chain_key :: "'s lineage_env \<Rightarrow> string \<Rightarrow> ('s, py_error, string) proc" where
  "chain_key E tenant =
     (let store_ref = ''lineage/'' @ tenant @ ''/chainkey'' in
      bnd (le_current_version E store_ref) (\<lambda>version. le_resolve E store_ref version))"

definition opt_cell :: "string option \<Rightarrow> json" where
  "opt_cell v = (case v of None \<Rightarrow> JNull | Some t \<Rightarrow> JStr t)"

text \<open>Sequence number, previous marker and segment of the record to append, from the chain's head.\<close>

definition FIRST_SEGMENT :: int where "FIRST_SEGMENT = 1"

definition chain_head :: "cells \<Rightarrow> row option \<Rightarrow> py_error + (int \<times> json \<times> int)" where
  "chain_head E prev =
     (case prev of
        None \<Rightarrow> Inr (1, JStr [], FIRST_SEGMENT)
      | Some r \<Rightarrow>
          if r = [] then Inr (1, JStr [], FIRST_SEGMENT)
          else (case row_int E r ''seq'' of Inl e \<Rightarrow> Inl e | Inr n \<Rightarrow>
               (case row_item r ''integrity_marker'' of Inl e \<Rightarrow> Inl e | Inr marker \<Rightarrow>
                 if obj_get r ''segment_id'' = JNull then Inr (n + 1, marker, FIRST_SEGMENT)
                 else (case ce_int E (obj_get r ''segment_id'') of Inl e \<Rightarrow> Inl e | Inr g \<Rightarrow> Inr (n + 1, marker, g)))))"

definition lineage_row :: "lineage_intent \<Rightarrow> string \<Rightarrow> int \<Rightarrow> json \<Rightarrow> int \<Rightarrow> row" where
  "lineage_row i lineage_id seq prev_marker segment_id =
     [(''lineage_id'', JStr lineage_id), (''seq'', JInt seq), (''segment_id'', JInt segment_id),
      (''event_type'', JStr (li_event_type i)), (''occurred_at'', JStr (li_occurred_at i)),
      (''actor_ref'', JStr (li_actor_ref i)), (''source_ref'', JStr (li_source_ref i)),
      (''target_ref'', JStr (li_target_ref i)), (''operation'', JStr (li_operation i)),
      (''schema_version'', JStr (li_schema_version i)), (''derivation_ref'', opt_cell (li_derivation_ref i)),
      (''parent_lineage_ref'', opt_cell (li_parent_lineage_ref i)), (''correlation_id'', opt_cell (li_correlation_id i)),
      (''marker_version'', JInt CURRENT_MARKER_VERSION), (''prev_marker'', prev_marker)]"

definition audit_written :: "'s lineage_env \<Rightarrow> lineage_intent \<Rightarrow> ('s, py_error, unit) proc" where
  "audit_written E i =
     (case le_audit E of
        None \<Rightarrow> ret ()
      | Some sink \<Rightarrow> sink \<lparr>oe_actor_ref = JStr (li_actor_ref i), oe_action = ''LineageWritten'',
          oe_correlation_id = (case li_correlation_id i of None \<Rightarrow> [] | Some c \<Rightarrow> c), oe_outcome = ''success'',
          oe_target_ref = Some (JStr (li_target_ref i))\<rparr>)"

definition emit_lineage ::
    "'s lineage_env \<Rightarrow> ('s, py_error, unit) proc option \<Rightarrow> ('s, py_error) tenant_session \<Rightarrow> lineage_intent
      \<Rightarrow> ('s, py_error, string) proc" where
  "emit_lineage E lock S i =
     andthen (case lock of None \<Rightarrow> ret () | Some l \<Rightarrow> l)
     (bnd (ss_latest S ''lineage'' [] ''seq'') (\<lambda>prev.
      bnd (lift_sum (chain_head (le_cells E) prev)) (\<lambda>(seq, prev_marker, segment_id).
      bnd (le_uuid E) (\<lambda>lineage_id.
      let r = lineage_row i lineage_id seq prev_marker segment_id in
      bnd (chain_key E (ss_tenant_id S)) (\<lambda>key.
      bnd (lift_sum (marker_for (le_cells E) (le_mac E) key r prev_marker CURRENT_MARKER_VERSION)) (\<lambda>marker.
      andthen (ss_append S ''lineage'' (r @ [(''integrity_marker'', JStr marker)]))
      (andthen (audit_written E i) (ret lineage_id))))))))"

end
