(* ===== verification/LN_Read.thy ===== *)
theory LN_Read
  imports LN_Chain
begin

text \<open>
  The read side of the lineage service: verification (\<open>backend/lineage_service/verification.py\<close>),
  segments (\<open>segmentation.py\<close>), paged queries and search (\<open>query.py\<close>, \<open>search.py\<close>), the provenance
  graph (\<open>graph.py\<close>) and retention (\<open>retention.py\<close>). The two \<open>while True\<close> loops over pages are partial
  functions: \<open>None\<close> is a loop that never ends, which a session that keeps answering full pages causes.
\<close>

section \<open>Cells with defaults\<close>

text \<open>\<open>r.get(k, "") or ""\<close>, \<open>r.get(k, "")\<close> and \<open>int(r.get(k, 1) or 1)\<close>.\<close>

definition or_empty :: "row \<Rightarrow> string \<Rightarrow> json" where
  "or_empty r k = (let v = obj_get r k in if truthy v then v else JStr [])"

definition get_or_empty :: "row \<Rightarrow> string \<Rightarrow> json" where
  "get_or_empty r k = (case dict_get r k of None \<Rightarrow> JStr [] | Some v \<Rightarrow> v)"

definition int_or_one :: "cells \<Rightarrow> row \<Rightarrow> string \<Rightarrow> py_error + int" where
  "int_or_one E r k = (let v = obj_get r k in if truthy v then ce_int E v else Inr 1)"

section \<open>Verification\<close>

record verification_finding =
  vf_kind :: string
  vf_seq :: int
  vf_lineage_id :: json
  vf_detail :: string

record verification_report =
  vr_tenant_id :: string
  vr_scanned :: nat
  vr_ok :: bool
  vr_first_seq :: "int option"
  vr_last_seq :: "int option"
  vr_findings :: "verification_finding list"

record verify_state =
  vs_findings :: "verification_finding list"
  vs_prev_marker :: json
  vs_prev_seq :: "int option"
  vs_first_seq :: "int option"

definition finding :: "string \<Rightarrow> int \<Rightarrow> row \<Rightarrow> string \<Rightarrow> verification_finding" where
  "finding kind n r detail = \<lparr>vf_kind = kind, vf_seq = n, vf_lineage_id = obj_get r ''lineage_id'', vf_detail = detail\<rparr>"

text \<open>The marker finding of a record; only the unknown version is caught.\<close>

definition marker_findings ::
    "cells \<Rightarrow> (string \<Rightarrow> string \<Rightarrow> string) \<Rightarrow> string \<Rightarrow> row \<Rightarrow> int \<Rightarrow> json \<Rightarrow> int \<Rightarrow> py_error + verification_finding list" where
  "marker_findings E mac key r n stored_prev version =
     (case marker_for E mac key r stored_prev version of
        Inl e \<Rightarrow> if e = ''UnknownMarkerVersion'' then Inr [finding ''marker_mismatch'' n r ''unknown marker_version''] else Inl e
      | Inr expected \<Rightarrow>
          if JStr expected \<noteq> obj_get r ''integrity_marker''
          then Inr [finding ''marker_mismatch'' n r ''recomputed marker != stored (tamper-evident)''] else Inr [])"

definition check_row ::
    "cells \<Rightarrow> (string \<Rightarrow> string \<Rightarrow> string) \<Rightarrow> string \<Rightarrow> row \<Rightarrow> verify_state \<Rightarrow> py_error + verify_state" where
  "check_row E mac key r st =
     sbind (row_int E r ''seq'') (\<lambda>n.
     let stored_prev = or_empty r ''prev_marker'' in
     sbind (int_or_one E r ''marker_version'') (\<lambda>version.
     sbind (marker_findings E mac key r n stored_prev version) (\<lambda>markers.
     let links = (if stored_prev \<noteq> vs_prev_marker st
           then [finding ''broken_link'' n r ''prev_marker != prior record integrity_marker''] else []);
         gaps = (if vs_prev_seq st \<noteq> None \<and> n \<noteq> the (vs_prev_seq st) + 1
           then [finding ''seq_gap'' n r ''non-contiguous seq''] else [])
     in Inr \<lparr>vs_findings = vs_findings st @ markers @ links @ gaps, vs_prev_marker = get_or_empty r ''integrity_marker'',
             vs_prev_seq = Some n, vs_first_seq = (if vs_first_seq st = None then Some n else vs_first_seq st)\<rparr>)))"

fun check_rows ::
    "cells \<Rightarrow> (string \<Rightarrow> string \<Rightarrow> string) \<Rightarrow> string \<Rightarrow> row list \<Rightarrow> verify_state \<Rightarrow> py_error + verify_state" where
  "check_rows E mac key [] st = Inr st"
| "check_rows E mac key (r # rs) st = sbind (check_row E mac key r st) (check_rows E mac key rs)"

definition start_state :: verify_state where
  "start_state = \<lparr>vs_findings = [], vs_prev_marker = JStr [], vs_prev_seq = None, vs_first_seq = None\<rparr>"

definition verify_rows ::
    "cells \<Rightarrow> (string \<Rightarrow> string \<Rightarrow> string) \<Rightarrow> string \<Rightarrow> string \<Rightarrow> row list \<Rightarrow> py_error + verification_report" where
  "verify_rows E mac key tenant rows =
     sbind (check_rows E mac key rows start_state) (\<lambda>st.
       Inr \<lparr>vr_tenant_id = tenant, vr_scanned = length rows, vr_ok = (vs_findings st = []),
            vr_first_seq = vs_first_seq st, vr_last_seq = vs_prev_seq st, vr_findings = vs_findings st\<rparr>)"

text \<open>\<open>xs[:n]\<close>.\<close>

definition slice_to :: "int \<Rightarrow> 'a list \<Rightarrow> 'a list" where
  "slice_to n xs = (if 0 \<le> n then take (nat n) xs else take (length xs - nat (- n)) xs)"

partial_function (option) scan_ascending ::
    "cells \<Rightarrow> ('s, py_error) read_session \<Rightarrow> int \<Rightarrow> int option \<Rightarrow> row list \<Rightarrow> json option \<Rightarrow> 's
      \<Rightarrow> ((py_error + row list) \<times> 's) option" where
  "scan_ascending E S page max_records out after s =
     (case rs_page S ''lineage'' [] ''seq'' False after page s of
        (Inl e, s1) \<Rightarrow> Some (Inl e, s1)
      | (Inr rows, s1) \<Rightarrow>
          if rows = [] then Some (Inr out, s1)
          else (case row_int E (last rows) ''seq'' of
              Inl e \<Rightarrow> Some (Inl e, s1)
            | Inr n \<Rightarrow>
                if max_records \<noteq> None \<and> int (length (out @ rows)) \<ge> the max_records
                then Some (Inr (slice_to (the max_records) (out @ rows)), s1)
                else if int (length rows) < page then Some (Inr (out @ rows), s1)
                else scan_ascending E S page max_records (out @ rows) (Some (JInt n)) s1))"

text \<open>\<open>try: ... finally: session.close()\<close>: an exception of the close replaces what was to be returned.\<close>

definition closing :: "('s, 'e) read_session \<Rightarrow> ('e + 'a) \<times> 's \<Rightarrow> ('e + 'a) \<times> 's" where
  "closing S = (\<lambda>(r, s). case rs_close S s of (Inl e, s') \<Rightarrow> (Inl e, s') | (Inr _, s') \<Rightarrow> (r, s'))"

type_synonym 's read_provider = "string \<Rightarrow> string \<Rightarrow> string option \<Rightarrow> ('s, py_error, ('s, py_error) read_session) proc"

definition open_for :: "'s read_provider \<Rightarrow> request_context \<Rightarrow> ('s, py_error, ('s, py_error) read_session) proc" where
  "open_for provider ctx =
     provider (case rq_active_tenant_id ctx of None \<Rightarrow> [] | Some t \<Rightarrow> t) (rq_correlation_id ctx) (rq_principal_ref ctx)"

definition show_int :: "int \<Rightarrow> string" where
  "show_int n = (if n < 0 then ''-'' @ show_nat (nat (- n)) else show_nat (nat n))"

text \<open>\<open>x or default\<close> for an optional string.\<close>

definition or_default :: "string \<Rightarrow> string option \<Rightarrow> string" where
  "or_default d v = (case v of None \<Rightarrow> d | Some t \<Rightarrow> if t = [] then d else t)"

definition audit_result :: "'s lineage_env \<Rightarrow> request_context \<Rightarrow> verification_report \<Rightarrow> ('s, py_error, unit) proc" where
  "audit_result E ctx report =
     (case le_audit E of
        None \<Rightarrow> ret ()
      | Some sink \<Rightarrow> sink \<lparr>oe_actor_ref = JStr (or_default ''<unknown>'' (rq_principal_ref ctx)),
          oe_action = (if vr_ok report then ''LineageVerified'' else ''ChainBroken''),
          oe_correlation_id = rq_correlation_id ctx,
          oe_outcome = (if vr_ok report then ''verified:'' @ show_nat (vr_scanned report)
                        else ''broken:'' @ show_nat (length (vr_findings report))),
          oe_target_ref = Some (JStr (vr_tenant_id report))\<rparr>)"

definition scan_session ::
    "'s lineage_env \<Rightarrow> int \<Rightarrow> int option \<Rightarrow> ('s, py_error) read_session \<Rightarrow> 's
      \<Rightarrow> ((py_error + (string \<times> row list)) \<times> 's) option" where
  "scan_session E page max_records S s =
     (case chain_key E (rs_tenant_id S) s of
        (Inl e, s1) \<Rightarrow> Some (Inl e, s1)
      | (Inr key, s1) \<Rightarrow>
          (case scan_ascending (le_cells E) S page max_records [] None s1 of
             None \<Rightarrow> None
           | Some (Inl e, s2) \<Rightarrow> Some (Inl e, s2)
           | Some (Inr rows, s2) \<Rightarrow> Some (Inr (key, rows), s2)))"

definition report_rows ::
    "'s lineage_env \<Rightarrow> request_context \<Rightarrow> string \<Rightarrow> string \<times> row list \<Rightarrow> ('s, py_error, verification_report) proc" where
  "report_rows E ctx tenant = (\<lambda>(key, rows).
     bnd (lift_sum (verify_rows (le_cells E) (le_mac E) key tenant rows)) (\<lambda>report.
       andthen (audit_result E ctx report) (ret report)))"

definition verify_chain ::
    "'s lineage_env \<Rightarrow> 's read_provider \<Rightarrow> int \<Rightarrow> request_context \<Rightarrow> int option \<Rightarrow> 's
      \<Rightarrow> ((py_error + verification_report) \<times> 's) option" where
  "verify_chain E provider page ctx max_records s =
     (case open_for provider ctx s of
        (Inl e, s1) \<Rightarrow> Some (Inl e, s1)
      | (Inr S, s1) \<Rightarrow>
          (case scan_session E page max_records S s1 of
             None \<Rightarrow> None
           | Some r \<Rightarrow> Some (case closing S r of
               (Inl e, s2) \<Rightarrow> (Inl e, s2)
             | (Inr kr, s2) \<Rightarrow> report_rows E ctx (rs_tenant_id S) kr s2)))"

section \<open>Segments\<close>

record segment_info =
  sg_segment_id :: int
  sg_first_seq :: int
  sg_last_seq :: int
  sg_opening_prev_marker :: json
  sg_closing_marker :: json
  sg_count :: nat

definition COUNT_PAGE :: int where "COUNT_PAGE = 1000"

partial_function (option) count_segment ::
    "cells \<Rightarrow> ('s, py_error) read_session \<Rightarrow> int \<Rightarrow> int \<Rightarrow> nat \<Rightarrow> json option \<Rightarrow> 's \<Rightarrow> ((py_error + nat) \<times> 's) option" where
  "count_segment E S page segment_id so_far after s =
     (case rs_page S ''lineage'' [(''segment_id'', JInt segment_id)] ''seq'' False after page s of
        (Inl e, s1) \<Rightarrow> Some (Inl e, s1)
      | (Inr rows, s1) \<Rightarrow>
          if rows = [] then Some (Inr so_far, s1)
          else (case row_int E (last rows) ''seq'' of
              Inl e \<Rightarrow> Some (Inl e, s1)
            | Inr n \<Rightarrow>
                if int (length rows) < page then Some (Inr (so_far + length rows), s1)
                else count_segment E S page segment_id (so_far + length rows) (Some (JInt n)) s1))"

definition first_item :: "'a list \<Rightarrow> py_error + 'a" where
  "first_item xs = (case xs of [] \<Rightarrow> Inl ''IndexError'' | x # _ \<Rightarrow> Inr x)"

definition summary_fields :: "cells \<Rightarrow> row \<Rightarrow> row list \<Rightarrow> py_error + (int \<times> int \<times> json \<times> json)" where
  "summary_fields E first last_rows =
     sbind (row_int E first ''seq'') (\<lambda>first_seq.
     sbind (first_item last_rows) (\<lambda>r.
     sbind (row_int E r ''seq'') (\<lambda>last_seq.
     sbind (row_item r ''integrity_marker'') (\<lambda>marker.
       Inr (first_seq, last_seq, or_empty first ''prev_marker'', marker)))))"

definition segment_summary ::
    "cells \<Rightarrow> ('s, py_error) read_session \<Rightarrow> int \<Rightarrow> 's \<Rightarrow> ((py_error + segment_info option) \<times> 's) option" where
  "segment_summary E S segment_id s =
     (let cond = [(''segment_id'', JInt segment_id)] in
      case rs_page S ''lineage'' cond ''seq'' False None 1 s of
        (Inl e, s1) \<Rightarrow> Some (Inl e, s1)
      | (Inr [], s1) \<Rightarrow> Some (Inr None, s1)
      | (Inr (first # _), s1) \<Rightarrow>
          (case rs_page S ''lineage'' cond ''seq'' True None 1 s1 of
             (Inl e, s2) \<Rightarrow> Some (Inl e, s2)
           | (Inr last_rows, s2) \<Rightarrow>
               (case summary_fields E first last_rows of
                  Inl e \<Rightarrow> Some (Inl e, s2)
                | Inr (first_seq, last_seq, opening, closing_marker) \<Rightarrow>
                    (case count_segment E S COUNT_PAGE segment_id 0 None s2 of
                       None \<Rightarrow> None
                     | Some (Inl e, s3) \<Rightarrow> Some (Inl e, s3)
                     | Some (Inr n, s3) \<Rightarrow>
                         Some (Inr (Some \<lparr>sg_segment_id = segment_id, sg_first_seq = first_seq, sg_last_seq = last_seq,
                           sg_opening_prev_marker = opening, sg_closing_marker = closing_marker, sg_count = n\<rparr>), s3)))))"

definition head_segment ::
    "cells \<Rightarrow> ('s, py_error) read_session \<Rightarrow> 's \<Rightarrow> ((py_error + segment_info option) \<times> 's) option" where
  "head_segment E S s =
     (case rs_page S ''lineage'' [] ''seq'' True None 1 s of
        (Inl e, s1) \<Rightarrow> Some (Inl e, s1)
      | (Inr [], s1) \<Rightarrow> Some (Inr None, s1)
      | (Inr (h # _), s1) \<Rightarrow>
          (case int_or_one E h ''segment_id'' of Inl e \<Rightarrow> Some (Inl e, s1) | Inr g \<Rightarrow> segment_summary E S g s1))"

definition in_read_session ::
    "'s read_provider \<Rightarrow> request_context \<Rightarrow> (('s, py_error) read_session \<Rightarrow> 's \<Rightarrow> ((py_error + 'a) \<times> 's) option) \<Rightarrow> 's
      \<Rightarrow> ((py_error + 'a) \<times> 's) option" where
  "in_read_session provider ctx body s =
     (case open_for provider ctx s of
        (Inl e, s1) \<Rightarrow> Some (Inl e, s1)
      | (Inr S, s1) \<Rightarrow> map_option (closing S) (body S s1))"

definition current_segment ::
    "cells \<Rightarrow> 's read_provider \<Rightarrow> request_context \<Rightarrow> 's \<Rightarrow> ((py_error + segment_info option) \<times> 's) option" where
  "current_segment E provider ctx = in_read_session provider ctx (head_segment E)"

definition segment_of ::
    "cells \<Rightarrow> 's read_provider \<Rightarrow> request_context \<Rightarrow> int \<Rightarrow> 's \<Rightarrow> ((py_error + segment_info option) \<times> 's) option" where
  "segment_of E provider ctx segment_id = in_read_session provider ctx (\<lambda>S. segment_summary E S segment_id)"

definition audit_archive :: "'s lineage_env \<Rightarrow> request_context \<Rightarrow> segment_info \<Rightarrow> ('s, py_error, unit) proc" where
  "audit_archive E ctx info =
     (case le_audit E of
        None \<Rightarrow> ret ()
      | Some sink \<Rightarrow> sink \<lparr>oe_actor_ref = JStr (or_default ''<system>'' (rq_principal_ref ctx)), oe_action = ''ArchivePrepared'',
          oe_correlation_id = rq_correlation_id ctx,
          oe_outcome = ''segment:'' @ show_int (sg_segment_id info) @ '':'' @ show_int (sg_first_seq info) @ ''-''
            @ show_int (sg_last_seq info),
          oe_target_ref = map_option JStr (rq_active_tenant_id ctx)\<rparr>)"

definition prepare_archive ::
    "'s lineage_env \<Rightarrow> 's read_provider \<Rightarrow> request_context \<Rightarrow> int \<Rightarrow> 's \<Rightarrow> ((py_error + segment_info option) \<times> 's) option" where
  "prepare_archive E provider ctx segment_id s =
     map_option (\<lambda>(r, s1). case r of
        Inl e \<Rightarrow> (Inl e, s1)
      | Inr None \<Rightarrow> (Inr None, s1)
      | Inr (Some info) \<Rightarrow> andthen (audit_archive E ctx info) (ret (Some info)) s1)
     (segment_of (le_cells E) provider ctx segment_id s)"

definition verify_continuity :: "segment_info \<Rightarrow> segment_info \<Rightarrow> bool" where
  "verify_continuity prior nxt \<longleftrightarrow> sg_opening_prev_marker nxt = sg_closing_marker prior"

end
