(* ===== verification/LN_Query.thy ===== *)
theory LN_Query
  imports LN_Read
begin

text \<open>
  Paged lookups, search, the provenance graph and retention of the lineage service
  (\<open>backend/lineage_service/query.py\<close>, \<open>search.py\<close>, \<open>graph.py\<close>, \<open>retention.py\<close>, with the views of
  \<open>models.py\<close>).
\<close>

section \<open>Record views\<close>

record lineage_view =
  lv_lineage_id :: string
  lv_seq :: int
  lv_segment_id :: int
  lv_event_type :: json
  lv_occurred_at :: json
  lv_actor_ref :: json
  lv_source_ref :: json
  lv_target_ref :: json
  lv_operation :: json
  lv_schema_version :: string
  lv_integrity_marker :: json
  lv_prev_marker :: json
  lv_marker_version :: int
  lv_derivation_ref :: json
  lv_parent_lineage_ref :: json
  lv_correlation_id :: json

definition from_row :: "cells \<Rightarrow> row \<Rightarrow> py_error + lineage_view" where
  "from_row E r =
     sbind (row_item r ''lineage_id'') (\<lambda>lineage_id.
     sbind (row_int E r ''seq'') (\<lambda>n.
     sbind (int_or_one E r ''segment_id'') (\<lambda>g.
     sbind (row_item r ''event_type'') (\<lambda>event_type.
     sbind (row_item r ''occurred_at'') (\<lambda>occurred_at.
     sbind (row_item r ''actor_ref'') (\<lambda>actor.
     sbind (row_item r ''source_ref'') (\<lambda>source.
     sbind (row_item r ''target_ref'') (\<lambda>target.
     sbind (row_item r ''operation'') (\<lambda>operation.
     sbind (row_item r ''schema_version'') (\<lambda>schema.
     sbind (row_item r ''integrity_marker'') (\<lambda>marker.
     sbind (int_or_one E r ''marker_version'') (\<lambda>version.
       Inr \<lparr>lv_lineage_id = ce_text E lineage_id, lv_seq = n, lv_segment_id = g, lv_event_type = event_type,
            lv_occurred_at = occurred_at, lv_actor_ref = actor, lv_source_ref = source, lv_target_ref = target,
            lv_operation = operation, lv_schema_version = ce_text E schema, lv_integrity_marker = marker,
            lv_prev_marker = or_empty r ''prev_marker'', lv_marker_version = version,
            lv_derivation_ref = obj_get r ''derivation_ref'', lv_parent_lineage_ref = obj_get r ''parent_lineage_ref'',
            lv_correlation_id = obj_get r ''correlation_id''\<rparr>))))))))))))"

fun views_of :: "cells \<Rightarrow> row list \<Rightarrow> py_error + lineage_view list" where
  "views_of E [] = Inr []"
| "views_of E (r # rs) = sbind (from_row E r) (\<lambda>v. sbind (views_of E rs) (\<lambda>vs. Inr (v # vs)))"

section \<open>Pages\<close>

record lineage_page =
  lp_items :: "lineage_view list"
  lp_next_cursor :: "int option"

definition PAGE_LIMIT_MAX :: int where "PAGE_LIMIT_MAX = 200"

definition clamp_limit :: "int \<Rightarrow> int \<Rightarrow> int" where
  "clamp_limit limit page_limit_max = max 1 (min limit page_limit_max)"

definition make_page :: "int \<Rightarrow> lineage_view list \<Rightarrow> lineage_page" where
  "make_page n items =
     \<lparr>lp_items = items, lp_next_cursor = (if int (length items) = n \<and> items \<noteq> [] then Some (lv_seq (last items)) else None)\<rparr>"

text \<open>Open, one page call, close; the rows become views after the session is closed.\<close>

definition session_rows ::
    "'s read_provider \<Rightarrow> request_context \<Rightarrow> row \<Rightarrow> json option \<Rightarrow> int \<Rightarrow> ('s, py_error, row list) proc" where
  "session_rows provider ctx cond after n =
     bnd (open_for provider ctx) (\<lambda>S s. closing S (rs_page S ''lineage'' cond ''seq'' True after n s))"

definition query_page ::
    "cells \<Rightarrow> 's read_provider \<Rightarrow> int \<Rightarrow> request_context \<Rightarrow> row \<Rightarrow> int option \<Rightarrow> int \<Rightarrow> ('s, py_error, lineage_page) proc" where
  "query_page E provider page_limit_max ctx cond after limit =
     (let n = clamp_limit limit page_limit_max in
      bnd (session_rows provider ctx cond (map_option JInt after) n) (\<lambda>rows.
      bnd (lift_sum (views_of E rows)) (\<lambda>items. ret (make_page n items))))"

definition query_get ::
    "cells \<Rightarrow> 's read_provider \<Rightarrow> request_context \<Rightarrow> string \<Rightarrow> ('s, py_error, lineage_view option) proc" where
  "query_get E provider ctx lineage_id =
     bnd (session_rows provider ctx [(''lineage_id'', JStr lineage_id)] None 1) (\<lambda>rows. case rows of
        [] \<Rightarrow> ret None
      | r # _ \<Rightarrow> bnd (lift_sum (from_row E r)) (\<lambda>v. ret (Some v)))"

definition query_for_record ::
    "cells \<Rightarrow> 's read_provider \<Rightarrow> int \<Rightarrow> request_context \<Rightarrow> string \<Rightarrow> int option \<Rightarrow> int \<Rightarrow> ('s, py_error, lineage_page) proc" where
  "query_for_record E provider page_limit_max ctx target after limit =
     query_page E provider page_limit_max ctx [(''target_ref'', JStr target)] after limit"

definition query_for_import ::
    "cells \<Rightarrow> 's read_provider \<Rightarrow> int \<Rightarrow> request_context \<Rightarrow> string \<Rightarrow> int option \<Rightarrow> int \<Rightarrow> ('s, py_error, lineage_page) proc" where
  "query_for_import E provider page_limit_max ctx derivation after limit =
     query_page E provider page_limit_max ctx [(''derivation_ref'', JStr derivation)] after limit"

definition query_events ::
    "cells \<Rightarrow> 's read_provider \<Rightarrow> int \<Rightarrow> request_context \<Rightarrow> string option \<Rightarrow> int option \<Rightarrow> int \<Rightarrow> ('s, py_error, lineage_page) proc" where
  "query_events E provider page_limit_max ctx event_type after limit =
     query_page E provider page_limit_max ctx
       (case event_type of None \<Rightarrow> [] | Some t \<Rightarrow> if t = [] then [] else [(''event_type'', JStr t)]) after limit"

definition search_filter :: "string option \<Rightarrow> string option \<Rightarrow> string option \<Rightarrow> string option \<Rightarrow> row" where
  "search_filter event_type operation derivation actor =
     (let given = (\<lambda>k v. case v of None \<Rightarrow> [] | Some t \<Rightarrow> [(k, JStr t)]) in
      given ''event_type'' event_type @ given ''operation'' operation @ given ''derivation_ref'' derivation
        @ given ''actor_ref'' actor)"

definition lineage_search ::
    "cells \<Rightarrow> 's read_provider \<Rightarrow> int \<Rightarrow> request_context \<Rightarrow> string option \<Rightarrow> string option \<Rightarrow> string option \<Rightarrow> string option
      \<Rightarrow> int option \<Rightarrow> int \<Rightarrow> ('s, py_error, lineage_page) proc" where
  "lineage_search E provider page_limit_max ctx event_type operation derivation actor after limit =
     (let n = clamp_limit limit page_limit_max in
      bnd (session_rows provider ctx (search_filter event_type operation derivation actor) (map_option JInt after) n) (\<lambda>rows.
      bnd (lift_sum (views_of E rows)) (\<lambda>items. ret (make_page n items))))"

section \<open>The provenance graph\<close>

record provenance_node =
  pn_lineage_id :: string
  pn_seq :: int
  pn_event_type :: json
  pn_target_ref :: json
  pn_operation :: json
  pn_parent_lineage_ref :: json

record provenance_graph =
  pg_root_lineage_id :: string
  pg_direction :: string
  pg_nodes :: "provenance_node list"
  pg_truncated :: bool

definition node_of :: "cells \<Rightarrow> row \<Rightarrow> py_error + provenance_node" where
  "node_of E r =
     sbind (row_item r ''lineage_id'') (\<lambda>lineage_id.
     sbind (row_int E r ''seq'') (\<lambda>n.
     sbind (row_item r ''event_type'') (\<lambda>event_type.
     sbind (row_item r ''target_ref'') (\<lambda>target.
     sbind (row_item r ''operation'') (\<lambda>operation.
       Inr \<lparr>pn_lineage_id = ce_text E lineage_id, pn_seq = n, pn_event_type = event_type, pn_target_ref = target,
            pn_operation = operation, pn_parent_lineage_ref = obj_get r ''parent_lineage_ref''\<rparr>)))))"

fun nodes_of :: "cells \<Rightarrow> row list \<Rightarrow> py_error + provenance_node list" where
  "nodes_of E [] = Inr []"
| "nodes_of E (r # rs) = sbind (node_of E r) (\<lambda>v. sbind (nodes_of E rs) (\<lambda>vs. Inr (v # vs)))"

definition walk_graph ::
    "cells \<Rightarrow> 's read_provider \<Rightarrow> int \<Rightarrow> int \<Rightarrow> request_context \<Rightarrow> string \<Rightarrow> bool \<Rightarrow> ('s, py_error, provenance_graph) proc" where
  "walk_graph E provider max_depth max_nodes ctx lineage_id descendants =
     bnd (bnd (open_for provider ctx) (\<lambda>S s.
        closing S (rs_traverse S ''lineage'' (JStr lineage_id) ''lineage_id'' ''parent_lineage_ref'' max_depth descendants s)))
     (\<lambda>rows. bnd (lift_sum (nodes_of E (slice_to max_nodes rows))) (\<lambda>nodes.
        ret \<lparr>pg_root_lineage_id = lineage_id, pg_direction = (if descendants then ''descendants'' else ''ancestors''),
             pg_nodes = nodes, pg_truncated = (int (length rows) > max_nodes)\<rparr>))"

definition graph_ancestors ::
    "cells \<Rightarrow> 's read_provider \<Rightarrow> int \<Rightarrow> int \<Rightarrow> request_context \<Rightarrow> string \<Rightarrow> ('s, py_error, provenance_graph) proc" where
  "graph_ancestors E provider max_depth max_nodes ctx lineage_id = walk_graph E provider max_depth max_nodes ctx lineage_id False"

definition graph_descendants ::
    "cells \<Rightarrow> 's read_provider \<Rightarrow> int \<Rightarrow> int \<Rightarrow> request_context \<Rightarrow> string \<Rightarrow> ('s, py_error, provenance_graph) proc" where
  "graph_descendants E provider max_depth max_nodes ctx lineage_id = walk_graph E provider max_depth max_nodes ctx lineage_id True"

section \<open>Retention\<close>

record retention_policy =
  rp_regime_code :: "string option"
  rp_retention_floor_days :: "int option"
  rp_retention_ceiling_days :: "int option"
  rp_residency :: "string option"
  rp_archival_target_ref :: "string option"

record retention_decision =
  rn_tenant_id :: string
  rn_action :: string
  rn_policy_configured :: bool
  rn_eligible_count :: int
  rn_detail :: string

definition audit_evaluated :: "'s lineage_env \<Rightarrow> request_context \<Rightarrow> retention_decision \<Rightarrow> ('s, py_error, unit) proc" where
  "audit_evaluated E ctx d =
     (case le_audit E of
        None \<Rightarrow> ret ()
      | Some sink \<Rightarrow> sink \<lparr>oe_actor_ref = JStr (or_default ''<system>'' (rq_principal_ref ctx)), oe_action = ''RetentionEvaluated'',
          oe_correlation_id = rq_correlation_id ctx,
          oe_outcome = (if rn_policy_configured d then ''retain:configured'' else ''retain:default''),
          oe_target_ref = Some (JStr (rn_tenant_id d))\<rparr>)"

definition retention_evaluate ::
    "'s lineage_env \<Rightarrow> request_context \<Rightarrow> retention_policy option \<Rightarrow> ('s, py_error, retention_decision) proc" where
  "retention_evaluate E ctx policy =
     (let configured = (case policy of None \<Rightarrow> False | Some p \<Rightarrow> rp_retention_floor_days p \<noteq> None);
          decision = \<lparr>rn_tenant_id = (case rq_active_tenant_id ctx of None \<Rightarrow> [] | Some t \<Rightarrow> t), rn_action = ''retain'',
            rn_policy_configured = configured, rn_eligible_count = 0,
            rn_detail = (if configured then ''retain (expiry disabled in Build Phase 6)''
                         else ''retain-all (D-08 retention values pending)'')\<rparr>
      in andthen (audit_evaluated E ctx decision) (ret decision))"

definition retention_expire :: "('s, py_error, unit) proc" where
  "retention_expire = raise ''RetentionDisabled''"

end
