(* ===== verification/LN_Facts.thy ===== *)
theory LN_Facts
  imports LN_Query
begin

text \<open>
  What an intact chain is, independently of the loop that checks it, and what the canonical content
  tells apart.
\<close>

section \<open>Intact chains\<close>

text \<open>A record that carries the marker of its own content, chained on the given marker.\<close>

definition link_ok :: "cells \<Rightarrow> (string \<Rightarrow> string \<Rightarrow> string) \<Rightarrow> string \<Rightarrow> json \<Rightarrow> row \<Rightarrow> bool" where
  "link_ok E mac key p r \<longleftrightarrow>
     or_empty r ''prev_marker'' = p \<and> int_or_one E r ''marker_version'' = Inr 1
   \<and> (\<exists>m. obj_get r ''integrity_marker'' = JStr m \<and> marker_for E mac key r p 1 = Inr m)"

definition marker_before :: "row list \<Rightarrow> nat \<Rightarrow> json" where
  "marker_before rows i = (if i = 0 then JStr [] else get_or_empty (rows ! (i - 1)) ''integrity_marker'')"

definition chain_ok :: "cells \<Rightarrow> (string \<Rightarrow> string \<Rightarrow> string) \<Rightarrow> string \<Rightarrow> row list \<Rightarrow> bool" where
  "chain_ok E mac key rows \<longleftrightarrow>
     (\<forall>i < length rows. link_ok E mac key (marker_before rows i) (rows ! i)
        \<and> (\<exists>n. row_int E (rows ! i) ''seq'' = Inr n \<and> (0 < i \<longrightarrow> row_int E (rows ! (i - 1)) ''seq'' = Inr (n - 1))))"

definition last_marker :: "row list \<Rightarrow> json" where
  "last_marker rows = (if rows = [] then JStr [] else get_or_empty (last rows) ''integrity_marker'')"

lemma marker_before_append:
  "i < length rows \<Longrightarrow> marker_before (rows @ ys) i = marker_before rows i"
  "marker_before (rows @ ys) (length rows) = last_marker rows"
  by (auto simp: marker_before_def last_marker_def nth_append last_conv_nth)

lemma chain_ok_Nil [simp]: "chain_ok E mac key []"
  by (simp add: chain_ok_def)

lemma chain_ok_snoc:
  "chain_ok E mac key (rows @ [r]) \<longleftrightarrow>
     chain_ok E mac key rows \<and> link_ok E mac key (last_marker rows) r
   \<and> (\<exists>n. row_int E r ''seq'' = Inr n \<and> (rows \<noteq> [] \<longrightarrow> row_int E (last rows) ''seq'' = Inr (n - 1)))"
proof -
  have all: "(\<forall>i < length (rows @ [r]). Q i) \<longleftrightarrow> (\<forall>i < length rows. Q i) \<and> Q (length rows)" for Q :: "nat \<Rightarrow> bool"
    by (auto simp: less_Suc_eq)
  have old: "(rows @ [r]) ! i = rows ! i" "(rows @ [r]) ! (i - 1) = rows ! (i - 1)" "marker_before (rows @ [r]) i = marker_before rows i"
    if "i < length rows" for i using that less_imp_diff_less[OF that, of 1] by (simp_all add: nth_append marker_before_append)
  have new: "(rows @ [r]) ! length rows = r" "marker_before (rows @ [r]) (length rows) = last_marker rows"
    "rows \<noteq> [] \<Longrightarrow> (rows @ [r]) ! (length rows - 1) = last rows"
    by (simp_all add: marker_before_append nth_append last_conv_nth)
  show ?thesis unfolding chain_ok_def all using old new by (cases "rows = []") auto
qed

lemma chain_ok_prefix: "chain_ok E mac key (as @ bs) \<Longrightarrow> chain_ok E mac key as"
proof (induction bs rule: rev_induct)
  case (snoc b bs)
  then show ?case unfolding append_assoc[symmetric] chain_ok_snoc by blast
qed simp

section \<open>The loop decides it\<close>

lemma check_rows_append: "check_rows E mac key (xs @ ys) st = sbind (check_rows E mac key xs st) (check_rows E mac key ys)"
proof (induction xs arbitrary: st)
  case (Cons x xs)
  then show ?case by (cases "check_row E mac key x st") simp_all
qed simp

lemma link_ok_findings:
  "link_ok E mac key p r \<longleftrightarrow> p = or_empty r ''prev_marker'' \<and>
     (\<exists>v. int_or_one E r ''marker_version'' = Inr v \<and> marker_findings E mac key r n (or_empty r ''prev_marker'') v = Inr [])"
  by (auto simp: link_ok_def marker_findings_def marker_for_def canonical_content_def finding_def
      split: sum.splits json.splits if_splits)

lemma check_row_Inr:
  assumes "check_row E mac key r st = Inr st'"
  shows "vs_prev_marker st' = get_or_empty r ''integrity_marker'' \<and> (\<exists>n. row_int E r ''seq'' = Inr n \<and> vs_prev_seq st' = Some n)
    \<and> (vs_findings st' = [] \<longleftrightarrow> vs_findings st = [] \<and> link_ok E mac key (vs_prev_marker st) r
        \<and> (\<forall>m. vs_prev_seq st = Some m \<longrightarrow> row_int E r ''seq'' = Inr (m + 1)))"
proof -
  from assms obtain n v ms where n: "row_int E r ''seq'' = Inr n" and v: "int_or_one E r ''marker_version'' = Inr v"
    and ms: "marker_findings E mac key r n (or_empty r ''prev_marker'') v = Inr ms"
    by (auto simp: check_row_def Let_def sbind_Inr)
  with assms show ?thesis
    unfolding link_ok_findings[of E mac key _ r n]
    by (auto simp: check_row_def Let_def split: if_splits)
qed

lemma check_rows_iff:
  "(\<forall>st. check_rows E mac key rows start_state = Inr st \<longrightarrow>
      vs_prev_marker st = last_marker rows
    \<and> (if rows = [] then vs_prev_seq st = None else \<exists>n. row_int E (last rows) ''seq'' = Inr n \<and> vs_prev_seq st = Some n)
    \<and> (vs_findings st = [] \<longleftrightarrow> chain_ok E mac key rows))
   \<and> (chain_ok E mac key rows \<longrightarrow> (\<exists>st. check_rows E mac key rows start_state = Inr st))"
proof (induction rows rule: rev_induct)
  case Nil
  show ?case by (simp add: start_state_def last_marker_def)
next
  case (snoc r rows)
  have step: "check_rows E mac key (rows @ [r]) start_state
      = sbind (check_rows E mac key rows start_state) (check_row E mac key r)"
    unfolding check_rows_append by (simp add: sbind_def split: sum.split)
  show ?case
  proof (intro conjI allI impI)
    fix st' assume "check_rows E mac key (rows @ [r]) start_state = Inr st'"
    then obtain st where st: "check_rows E mac key rows start_state = Inr st" and row: "check_row E mac key r st = Inr st'"
      unfolding step sbind_Inr by blast
    from snoc.IH st have ih: "vs_prev_marker st = last_marker rows" "vs_findings st = [] \<longleftrightarrow> chain_ok E mac key rows"
      "if rows = [] then vs_prev_seq st = None else \<exists>n. row_int E (last rows) ''seq'' = Inr n \<and> vs_prev_seq st = Some n"
      by blast+
    note r = check_row_Inr[OF row]
    from r show "vs_prev_marker st' = last_marker (rows @ [r])" by (simp add: last_marker_def)
    from r show "if rows @ [r] = [] then vs_prev_seq st' = None
        else \<exists>n. row_int E (last (rows @ [r])) ''seq'' = Inr n \<and> vs_prev_seq st' = Some n" by simp
    have "(\<forall>m. vs_prev_seq st = Some m \<longrightarrow> row_int E r ''seq'' = Inr (m + 1)) \<longleftrightarrow>
        (\<exists>n. row_int E r ''seq'' = Inr n \<and> (rows \<noteq> [] \<longrightarrow> row_int E (last rows) ''seq'' = Inr (n - 1)))"
      using ih(3) r by (cases "rows = []") auto
    with r ih show "vs_findings st' = [] \<longleftrightarrow> chain_ok E mac key (rows @ [r])" unfolding chain_ok_snoc by simp
  next
    assume ok: "chain_ok E mac key (rows @ [r])"
    with snoc.IH obtain st where st: "check_rows E mac key rows start_state = Inr st" unfolding chain_ok_snoc by blast
    from ok obtain n where n: "row_int E r ''seq'' = Inr n" unfolding chain_ok_snoc by blast
    from ok obtain v where "int_or_one E r ''marker_version'' = Inr v"
      "marker_findings E mac key r n (or_empty r ''prev_marker'') v = Inr []"
      unfolding chain_ok_snoc link_ok_findings[of E mac key _ r n] by blast
    with n have "\<exists>st'. check_row E mac key r st = Inr st'" by (simp add: check_row_def Let_def)
    with st show "\<exists>st'. check_rows E mac key (rows @ [r]) start_state = Inr st'" unfolding step by simp
  qed
qed

definition verifies :: "cells \<Rightarrow> (string \<Rightarrow> string \<Rightarrow> string) \<Rightarrow> string \<Rightarrow> string \<Rightarrow> row list \<Rightarrow> bool" where
  "verifies E mac key tenant rows \<longleftrightarrow> (\<exists>report. verify_rows E mac key tenant rows = Inr report \<and> vr_ok report)"

lemma verifies_iff: "verifies E mac key tenant rows \<longleftrightarrow> chain_ok E mac key rows"
proof -
  have "verifies E mac key tenant rows \<longleftrightarrow> (\<exists>st. check_rows E mac key rows start_state = Inr st \<and> vs_findings st = [])"
    by (auto simp: verifies_def verify_rows_def sbind_Inr)
  then show ?thesis using check_rows_iff by blast
qed

section \<open>What the canonical content tells apart\<close>

lemma join_inj:
  assumes "length ps = length qs" and "join SEP ps = join SEP qs"
    and "\<forall>p \<in> set ps \<union> set qs. CHR 0x1F \<notin> set p"
  shows "ps = qs"
  using assms
proof (induction ps qs rule: list_induct2)
  case (Cons p ps q qs)
  have head: "takeWhile (\<lambda>x. x \<noteq> CHR 0x1F) (e @ CHR 0x1F # f) = e" if "CHR 0x1F \<notin> set e" for e f
    using that by (induction e) auto
  show ?case
  proof (cases ps)
    case Nil
    with Cons show ?thesis by simp
  next
    case (Cons p' ps')
    then obtain q' qs' where qs: "qs = q' # qs'" using \<open>length ps = length qs\<close> by (cases qs) auto
    have eq: "p @ CHR 0x1F # join SEP ps = q @ CHR 0x1F # join SEP qs"
      using Cons.prems(1) by (simp add: \<open>ps = p' # ps'\<close> qs SEP_def)
    moreover have "CHR 0x1F \<notin> set p" "CHR 0x1F \<notin> set q" using Cons.prems(2) by simp_all
    ultimately have "p = q" using head[of p "join SEP ps"] head[of q "join SEP qs"] by metis
    with eq have "join SEP ps = join SEP qs" by simp
    with Cons.IH Cons.prems(2) \<open>p = q\<close> show ?thesis by simp
  qed
qed simp

definition plain_fields :: "cells \<Rightarrow> row \<Rightarrow> bool" where
  "plain_fields E r \<longleftrightarrow> (\<forall>f \<in> set V1_FIELDS. CHR 0x1F \<notin> set (field_text E r f))"

lemma marker_inj:
  assumes "marker_for E mac key r p 1 = Inr m" and "marker_for E mac key r' p 1 = Inr m"
    and "inj (mac key)" and "plain_fields E r" and "plain_fields E r'"
  shows "\<forall>f \<in> set V1_FIELDS. field_text E r f = field_text E r' f"
proof -
  obtain q where q: "p = JStr q" using assms(1) by (cases p) (simp_all add: marker_for_def canonical_content_def)
  have "mac key (join SEP (q # map (field_text E r) V1_FIELDS)) = mac key (join SEP (q # map (field_text E r') V1_FIELDS))"
    using assms(1,2) by (simp add: marker_for_def canonical_content_def q)
  then have "join SEP (q # map (field_text E r) V1_FIELDS) = join SEP (q # map (field_text E r') V1_FIELDS)"
    using assms(3) by (simp add: inj_eq)
  moreover have "join SEP (q # ps) = q @ SEP @ join SEP ps" if "ps \<noteq> []" for ps using that by (cases ps) simp_all
  moreover have "V1_FIELDS \<noteq> []" by (simp add: V1_FIELDS_def)
  ultimately have "join SEP (map (field_text E r) V1_FIELDS) = join SEP (map (field_text E r') V1_FIELDS)" by simp
  then have "map (field_text E r) V1_FIELDS = map (field_text E r') V1_FIELDS"
    by (rule join_inj[rotated]) (use assms(4,5) in \<open>auto simp: plain_fields_def\<close>)
  then show ?thesis by simp
qed

end
