(* ===== verification/LN_Claims.thy ===== *)
theory LN_Claims
  imports LN_Facts
begin

text \<open>The properties of the lineage service, each applied to a concrete chain.\<close>

section \<open>Verification of a whole table\<close>

definition seq_num :: "row \<Rightarrow> int" where
  "seq_num r = (case obj_get r ''seq'' of JInt n \<Rightarrow> n | _ \<Rightarrow> 0)"

text \<open>
  The documented behaviour of the paged read: rows past the cursor, ascending, bounded by the limit.
\<close>

definition pages_of :: "('s, py_error) read_session \<Rightarrow> row list \<Rightarrow> 's \<Rightarrow> bool" where
  "pages_of S rows s \<longleftrightarrow>
     (\<forall>n. rs_page S ''lineage'' [] ''seq'' False None n s = (Inr (take (nat n) rows), s))
   \<and> (\<forall>n a. rs_page S ''lineage'' [] ''seq'' False (Some (JInt a)) n s
        = (Inr (take (nat n) (filter (\<lambda>r. a < seq_num r) rows)), s))"

definition ascending :: "cells \<Rightarrow> row list \<Rightarrow> bool" where
  "ascending E rows \<longleftrightarrow> sorted_wrt (\<lambda>r r'. seq_num r < seq_num r') rows \<and> (\<forall>r \<in> set rows. row_int E r ''seq'' = Inr (seq_num r))"

definition bounded_rows :: "int option \<Rightarrow> 'a list \<Rightarrow> 'a list" where
  "bounded_rows max_records rows = (case max_records of None \<Rightarrow> rows | Some m \<Rightarrow> take (nat m) rows)"

lemma past_cursor:
  assumes "sorted_wrt (\<lambda>r r'. seq_num r < seq_num r') (xs @ r # ys)"
  shows "filter (\<lambda>x. seq_num r < seq_num x) (xs @ r # ys) = ys"
proof -
  have "filter (\<lambda>x. seq_num r < seq_num x) xs = []"
    using assms by (auto simp: filter_empty_conv sorted_wrt_append)
  moreover have "filter (\<lambda>x. seq_num r < seq_num x) ys = ys"
    using assms by (auto simp: filter_id_conv sorted_wrt_append)
  ultimately show ?thesis by simp
qed

lemma rest_page:
  assumes "pages_of S rows s" and "ascending E rows" and "rows = xs @ ys"
  shows "rs_page S ''lineage'' [] ''seq'' False (if xs = [] then None else Some (JInt (seq_num (last xs)))) n s
    = (Inr (take (nat n) ys), s)"
proof (cases xs rule: rev_exhaust)
  case Nil
  with assms show ?thesis by (simp add: pages_of_def)
next
  case (snoc zs z)
  have "sorted_wrt (\<lambda>r r'. seq_num r < seq_num r') (zs @ z # ys)" using assms(2,3) snoc by (simp add: ascending_def)
  from past_cursor[OF this] have "filter (\<lambda>r. seq_num z < seq_num r) rows = ys" by (simp add: assms(3) snoc)
  moreover have "rs_page S ''lineage'' [] ''seq'' False (Some (JInt (seq_num z))) n s
      = (Inr (take (nat n) (filter (\<lambda>r. seq_num z < seq_num r) rows)), s)"
    using assms(1) unfolding pages_of_def by blast
  ultimately show ?thesis by (simp add: snoc)
qed

lemma scan_all:
  assumes pages: "pages_of S rows s" and asc: "ascending E rows" and pos: "0 < page"
    and max: "\<forall>m. max_records = Some m \<longrightarrow> 0 \<le> m"
  shows "rows = xs @ ys \<Longrightarrow> (\<forall>m. max_records = Some m \<longrightarrow> int (length xs) < m \<or> xs = []) \<Longrightarrow>
    scan_ascending E S page max_records xs (if xs = [] then None else Some (JInt (seq_num (last xs)))) s
    = Some (Inr (bounded_rows max_records rows), s)"
proof (induction "length ys" arbitrary: xs ys rule: less_induct)
  case less
  let ?p = "take (nat page) ys"
  let ?cursor = "if xs = [] then None else Some (JInt (seq_num (last xs)))"
  have step: "scan_ascending E S page max_records xs ?cursor s =
     (if ?p = [] then Some (Inr xs, s)
      else case row_int E (last ?p) ''seq'' of
          Inl e \<Rightarrow> Some (Inl e, s)
        | Inr n \<Rightarrow>
            if max_records \<noteq> None \<and> int (length (xs @ ?p)) \<ge> the max_records
            then Some (Inr (slice_to (the max_records) (xs @ ?p)), s)
            else if int (length ?p) < page then Some (Inr (xs @ ?p), s)
            else scan_ascending E S page max_records (xs @ ?p) (Some (JInt n)) s)"
    by (subst scan_ascending.simps) (simp only: rest_page[OF pages asc less.prems(1)] prod.case sum.case)
  show ?case
  proof (cases "ys = []")
    case True
    have "bounded_rows max_records rows = xs"
      using less.prems max True by (cases max_records) (auto simp: bounded_rows_def)
    with True show ?thesis unfolding step by simp
  next
    case False
    have ne: "?p \<noteq> []" using False pos by simp
    have "last ?p \<in> set ys" by (rule in_set_takeD[OF last_in_set[OF ne]])
    then have "last ?p \<in> set rows" by (simp only: less.prems(1) set_append Un_iff simp_thms)
    then have seq: "row_int E (last ?p) ''seq'' = Inr (seq_num (last ?p))" using asc by (simp add: ascending_def)
    show ?thesis
    proof (cases "max_records \<noteq> None \<and> int (length (xs @ ?p)) \<ge> the max_records")
      case True
      then obtain m where m: "max_records = Some m" "m \<le> int (length (xs @ ?p))" "0 \<le> m" using max by auto
      have "rows = (xs @ ?p) @ drop (nat page) ys" using less.prems(1) by simp
      moreover have "nat m \<le> length (xs @ ?p)" using m(2) by simp
      ultimately have "take (nat m) (xs @ ?p) = take (nat m) rows" by (metis append_Nil2 diff_is_0_eq take_0 take_append)
      with m ne have "Some (Inr (slice_to (the max_records) (xs @ ?p)), s) = Some (Inr (bounded_rows max_records rows), s)"
        by (simp add: bounded_rows_def slice_to_def)
      with ne seq True show ?thesis unfolding step by (simp only: if_False if_True sum.case simp_thms)
    next
      case open_end: False
      show ?thesis
      proof (cases "int (length ?p) < page")
        case True
        then have "?p = ys" by simp
        moreover have "bounded_rows max_records rows = xs @ ys"
          using open_end less.prems(1) calculation by (cases max_records) (auto simp: bounded_rows_def)
        ultimately have "xs @ ?p = bounded_rows max_records rows" by simp
        with ne seq open_end True show ?thesis unfolding step by (simp only: if_False if_True sum.case simp_thms)
      next
        case long: False
        have "scan_ascending E S page max_records (xs @ ?p)
            (if xs @ ?p = [] then None else Some (JInt (seq_num (last (xs @ ?p))))) s = Some (Inr (bounded_rows max_records rows), s)"
        proof (rule less.hyps)
          show "length (drop (nat page) ys) < length ys" using False pos by simp
          show "rows = (xs @ ?p) @ drop (nat page) ys" using less.prems(1) by simp
          show "\<forall>m. max_records = Some m \<longrightarrow> int (length (xs @ ?p)) < m \<or> xs @ ?p = []" using open_end by auto
        qed
        moreover have "xs @ ?p \<noteq> []" "last (xs @ ?p) = last ?p" using ne by simp_all
        ultimately have "scan_ascending E S page max_records (xs @ ?p) (Some (JInt (seq_num (last ?p)))) s
            = Some (Inr (bounded_rows max_records rows), s)" by (simp only: if_False)
        with ne seq open_end long show ?thesis unfolding step by (simp only: if_False sum.case simp_thms)
      qed
    qed
  qed
qed

text \<open>C20: Verifying a tenant's chain ends, for every finite table and every page size: the report is that of
all rows of the table in order (of the first ones when a bound is given), and it says ok
exactly when the chain is intact: contiguous numbers, every record chained on the marker before it
and carrying the marker of its own content.\<close>

theorem verification_ends_and_decides:
  assumes "open_for provider ctx s = (Inr S, s1)" and "chain_key E (rs_tenant_id S) s1 = (Inr key, s2)"
    and "pages_of S rows s2" and "ascending (le_cells E) rows" and "rs_close S s2 = (Inr (), s3)"
    and "0 < page" and "\<forall>m. max_records = Some m \<longrightarrow> 0 \<le> m"
  shows "verify_chain E provider page ctx max_records s
      = Some (report_rows E ctx (rs_tenant_id S) (key, bounded_rows max_records rows) s3)
    \<and> (verifies (le_cells E) (le_mac E) key (rs_tenant_id S) rows \<longleftrightarrow> chain_ok (le_cells E) (le_mac E) key rows)"
proof -
  have "scan_ascending (le_cells E) S page max_records [] None s2 = Some (Inr (bounded_rows max_records rows), s2)"
    using scan_all[OF assms(3,4,6,7), of "[]" rows] by simp
  then show ?thesis using assms(1,2,5) by (simp add: verify_chain_def scan_session_def closing_def verifies_iff)
qed

section \<open>What a change of the table does\<close>

lemma chain_ok_pair:
  assumes "chain_ok E mac key (as @ r # b # cs)"
  obtains m k where "chain_ok E mac key as" "marker_for E mac key r (last_marker as) 1 = Inr m"
    "or_empty b ''prev_marker'' = JStr m" "row_int E r ''seq'' = Inr k" "row_int E b ''seq'' = Inr (k + 1)"
    "as \<noteq> [] \<longrightarrow> row_int E (last as) ''seq'' = Inr (k - 1)"
proof -
  have rb: "chain_ok E mac key ((as @ [r]) @ [b])" using assms chain_ok_prefix[of E mac key "as @ [r, b]" cs] by simp
  then have r: "chain_ok E mac key (as @ [r])" by (rule chain_ok_prefix)
  from r obtain m k where m: "obj_get r ''integrity_marker'' = JStr m" "marker_for E mac key r (last_marker as) 1 = Inr m"
    and k: "row_int E r ''seq'' = Inr k" "as \<noteq> [] \<longrightarrow> row_int E (last as) ''seq'' = Inr (k - 1)"
    unfolding chain_ok_snoc link_ok_def by blast
  have "last_marker (as @ [r]) = JStr m" using m(1) by (simp add: last_marker_def get_or_empty_def obj_get_def split: option.splits)
  with rb k(1) have "or_empty b ''prev_marker'' = JStr m" "row_int E b ''seq'' = Inr (k + 1)"
    unfolding chain_ok_snoc[of E mac key "as @ [r]"] link_ok_def by auto
  with m(2) k r show thesis by (intro that) (auto simp: chain_ok_snoc)
qed

text \<open>The record after a removed one neither continues the numbers nor the markers.\<close>

lemma removed_breaks_chain:
  assumes "chain_ok E mac key (as @ r # b # cs)" and "\<And>content. mac key content \<noteq> []"
  shows "\<not> chain_ok E mac key (as @ b # cs)"
proof
  assume "chain_ok E mac key (as @ b # cs)"
  then have cut: "chain_ok E mac key (as @ [b])" using chain_ok_prefix[of E mac key "as @ [b]" cs] by simp
  from assms(1) obtain m k where m: "marker_for E mac key r (last_marker as) 1 = Inr m" "or_empty b ''prev_marker'' = JStr m"
    and k: "row_int E b ''seq'' = Inr (k + 1)" "as \<noteq> [] \<longrightarrow> row_int E (last as) ''seq'' = Inr (k - 1)" by (rule chain_ok_pair)
  show False
  proof (cases "as = []")
    case True
    have "m \<noteq> []" using m(1) assms(2) by (auto simp: marker_for_def split: sum.splits)
    with cut True m(2) show False unfolding chain_ok_snoc by (simp add: link_ok_def last_marker_def)
  next
    case False
    with cut k show False unfolding chain_ok_snoc by auto
  qed
qed


text \<open>
  Why the fields must be free of the separator: two records that differ in two fields and have the
  same canonical content.
\<close>

definition plain_cells :: cells where
  "plain_cells = \<lparr>ce_text = (\<lambda>v. case v of JStr t \<Rightarrow> t | JInt n \<Rightarrow> show_int n | _ \<Rightarrow> ''?''),
     ce_int = (\<lambda>v. case v of JInt n \<Rightarrow> Inr n | _ \<Rightarrow> Inl ''TypeError'')\<rparr>"

lemma separator_is_ambiguous:
  "canonical_content plain_cells [(''actor_ref'', JStr (''a'' @ SEP @ ''b'')), (''source_ref'', JStr ''c'')] (JStr []) 1
   = canonical_content plain_cells [(''actor_ref'', JStr ''a''), (''source_ref'', JStr (''b'' @ SEP @ ''c''))] (JStr []) 1"
  by (simp add: canonical_content_def V1_FIELDS_def field_text_def obj_get_def dict_get_def SEP_def plain_cells_def)

section \<open>Appending keeps a chain intact\<close>

text \<open>
  The documented behaviour of the write session on the lineage table: the latest row by number is
  the last of the chain, an append adds at the end or fails without effect; nothing else the emit
  calls touches the table.
\<close>

definition chain_session :: "('s, py_error) tenant_session \<Rightarrow> ('s \<Rightarrow> row list) \<Rightarrow> bool" where
  "chain_session S table \<longleftrightarrow>
     (\<forall>s. ss_latest S ''lineage'' [] ''seq'' s = (Inr (if table s = [] then None else Some (last (table s))), s))
   \<and> (\<forall>s r q t. ss_append S ''lineage'' r s = (q, t) \<longrightarrow> table t = (case q of Inl _ \<Rightarrow> table s | Inr _ \<Rightarrow> table s @ [r]))"

definition quiet_env :: "'s lineage_env \<Rightarrow> ('s, py_error, unit) proc option \<Rightarrow> ('s \<Rightarrow> row list) \<Rightarrow> bool" where
  "quiet_env E lock table \<longleftrightarrow>
     (\<forall>l. lock = Some l \<longrightarrow> keeps (unchanged table) l) \<and> keeps (unchanged table) (le_uuid E)
   \<and> (\<forall>v. keeps (unchanged table) (le_current_version E v)) \<and> (\<forall>v w. keeps (unchanged table) (le_resolve E v w))
   \<and> (\<forall>sink ev. le_audit E = Some sink \<longrightarrow> keeps (unchanged table) (sink ev))"

definition row_of_intent :: "lineage_intent \<Rightarrow> string \<Rightarrow> row \<Rightarrow> bool" where
  "row_of_intent i lineage_id r \<longleftrightarrow> (\<exists>n p g marker. r = lineage_row i lineage_id n p g @ [(''integrity_marker'', JStr marker)])"

lemma lineage_row_cells:
  fixes i lineage_id n p g
  defines "r \<equiv> lineage_row i lineage_id n p g"
  shows "obj_get (r @ [(''integrity_marker'', JStr m)]) ''integrity_marker'' = JStr m"
    "obj_get (r @ [(''integrity_marker'', JStr m)]) ''marker_version'' = JInt 1"
    "dict_get (r @ [(''integrity_marker'', JStr m)]) ''seq'' = Some (JInt n)"
    "obj_get (r @ [(''integrity_marker'', JStr m)]) ''prev_marker'' = p"
    "f \<in> set V1_FIELDS \<Longrightarrow> obj_get (r @ [(''integrity_marker'', JStr m)]) f = obj_get r f"
  unfolding r_def by (auto simp: lineage_row_def obj_get_def dict_get_def CURRENT_MARKER_VERSION_def V1_FIELDS_def)

lemma marker_for_extended:
  "marker_for E mac key (lineage_row i lineage_id n p g @ [(''integrity_marker'', JStr m)]) q v
   = marker_for E mac key (lineage_row i lineage_id n p g) q v"
proof -
  have "map (field_text E (lineage_row i lineage_id n p g @ [(''integrity_marker'', JStr m)])) V1_FIELDS
      = map (field_text E (lineage_row i lineage_id n p g)) V1_FIELDS"
    by (rule map_cong[OF HOL.refl]) (simp add: field_text_def lineage_row_cells(5))
  then show ?thesis by (simp only: marker_for_def canonical_content_def)
qed

text \<open>The head of an intact chain gives the number and the marker the next record needs.\<close>

lemma chain_head_next:
  assumes "chain_ok E mac key rows" and "chain_head E (if rows = [] then None else Some (last rows)) = Inr (n, p, g)"
  shows "p = last_marker rows \<and> (rows \<noteq> [] \<longrightarrow> row_int E (last rows) ''seq'' = Inr (n - 1)) \<and> (\<exists>t. p = JStr t)"
proof (cases rows rule: rev_exhaust)
  case Nil
  with assms(2) show ?thesis by (auto simp: chain_head_def last_marker_def)
next
  case (snoc xs x)
  with assms(1) have link: "link_ok E mac key (last_marker xs) x" and "\<exists>k. row_int E x ''seq'' = Inr k" by (auto simp: chain_ok_snoc)
  then obtain m k where m: "obj_get x ''integrity_marker'' = JStr m" and k: "row_int E x ''seq'' = Inr k" by (auto simp: link_ok_def)
  have "x \<noteq> []" using m by (auto simp: obj_get_def)
  moreover have "row_item x ''integrity_marker'' = Inr (JStr m)" "get_or_empty x ''integrity_marker'' = JStr m"
    using m by (auto simp: row_item_def get_or_empty_def obj_get_def split: option.splits)
  ultimately have "p = JStr m \<and> last_marker rows = JStr m \<and> n = k + 1"
    using assms(2) k snoc by (auto simp: chain_head_def last_marker_def split: if_splits sum.splits)
  with k snoc show ?thesis by simp
qed

lemma appended_chain_ok:
  assumes "chain_ok E mac key rows" and "chain_head E (if rows = [] then None else Some (last rows)) = Inr (n, p, g)"
    and "\<And>k. ce_int E (JInt k) = Inr k" and "marker_for E mac key (lineage_row i lineage_id n p g) p 1 = Inr marker"
  shows "chain_ok E mac key (rows @ [lineage_row i lineage_id n p g @ [(''integrity_marker'', JStr marker)]])"
proof -
  let ?r = "lineage_row i lineage_id n p g @ [(''integrity_marker'', JStr marker)]"
  from chain_head_next[OF assms(1,2)] obtain t where p: "p = last_marker rows" "p = JStr t"
    and before: "rows \<noteq> [] \<longrightarrow> row_int E (last rows) ''seq'' = Inr (n - 1)" by blast
  have "row_int E ?r ''seq'' = Inr n" by (simp add: row_int_def row_item_def lineage_row_cells assms(3))
  moreover have "or_empty ?r ''prev_marker'' = p"
    unfolding or_empty_def lineage_row_cells Let_def using p(2) by (simp add: truthy_def)
  moreover have "int_or_one E ?r ''marker_version'' = Inr 1"
    unfolding int_or_one_def lineage_row_cells Let_def by (simp add: truthy_def assms(3))
  ultimately show ?thesis
    using assms(1,4) before p(1) by (simp add: chain_ok_snoc link_ok_def lineage_row_cells marker_for_extended)
qed

lemma quiet_step:
  "keeps (unchanged table) m \<Longrightarrow> triple (\<lambda>_ _. True) (\<lambda>t. table t = T) m (\<lambda>_ t. table t = T) (\<lambda>_ t. table t = T)"
  unfolding triple_def keeps_def unchanged_def by (metis snd_conv)

lemma pure_step:
  "triple (\<lambda>_ _. True) (\<lambda>t. table t = T) (lift_sum r) (\<lambda>a t. table t = T \<and> r = Inr a) (\<lambda>_ t. table t = T)"
  unfolding triple_def by simp

lemma quiet_chain_key: "quiet_env E lock table \<Longrightarrow> keeps (unchanged table) (chain_key E tenant)"
  unfolding chain_key_def Let_def quiet_env_def by (intro unchanged.keeps_all) simp_all

lemma quiet_audit_written: "quiet_env E lock table \<Longrightarrow> keeps (unchanged table) (audit_written E i)"
  unfolding audit_written_def quiet_env_def by (auto split: option.split intro: unchanged.keeps_ret)

lemma append_step:
  assumes "chain_session S table"
  shows "triple (\<lambda>_ _. True) (\<lambda>t. table t = T) (ss_append S ''lineage'' r) (\<lambda>_ t. table t = T @ [r]) (\<lambda>_ t. table t = T)"
  using assms unfolding triple_def chain_session_def by (auto split: sum.splits)

lemma emit_triple:
  assumes S: "chain_session S table" and env: "quiet_env E lock table"
    and key: "\<And>t k t'. chain_key E (ss_tenant_id S) t = (Inr k, t') \<Longrightarrow> k = key" and num: "\<And>k. ce_int (le_cells E) (JInt k) = Inr k"
    and ok: "chain_ok (le_cells E) (le_mac E) key T"
  shows "triple (\<lambda>_ _. True) (\<lambda>t. table t = T) (emit_lineage E lock S i)
    (\<lambda>lineage_id t. chain_ok (le_cells E) (le_mac E) key (table t) \<and> (\<exists>r. table t = T @ [r] \<and> row_of_intent i lineage_id r))
    (\<lambda>e t. chain_ok (le_cells E) (le_mac E) key (table t)
      \<and> (table t = T \<or> (\<exists>lineage_id r. table t = T @ [r] \<and> row_of_intent i lineage_id r)))"
    (is "triple _ _ _ ?Q ?E")
proof -
  have keep: "triple (\<lambda>_ _. True) (\<lambda>t. table t = T) m Q' (\<lambda>_ t. table t = T)
      \<Longrightarrow> triple (\<lambda>_ _. True) (\<lambda>t. table t = T) m Q' ?E" for m :: "('a, py_error, 'b) proc" and Q'
    by (erule triple_conseq) (use ok in simp_all)
  have finish: "triple (\<lambda>_ _. True) (\<lambda>t. table t = T @ [r]) (andthen (audit_written E i) (ret lineage_id)) ?Q ?E"
    if "chain_ok (le_cells E) (le_mac E) key (T @ [r])" and "row_of_intent i lineage_id r" for r lineage_id
    by (rule any.triple_andthen[OF triple_conseq[OF quiet_step[OF quiet_audit_written[OF env], of "T @ [r]"]]], assumption, assumption)
      (use that in \<open>auto intro!: any.triple_ret\<close>)
  have stored: "triple (\<lambda>_ _. True) (\<lambda>t. table t = T \<and> marker_for (le_cells E) (le_mac E) key (lineage_row i lineage_id n p g) p CURRENT_MARKER_VERSION = Inr marker)
      (andthen (ss_append S ''lineage'' (lineage_row i lineage_id n p g @ [(''integrity_marker'', JStr marker)]))
        (andthen (audit_written E i) (ret lineage_id))) ?Q ?E"
    if "chain_head (le_cells E) (if T = [] then None else Some (last T)) = Inr (n, p, g)" for n p g lineage_id marker
  proof (rule triple_pure)
    assume m: "marker_for (le_cells E) (le_mac E) key (lineage_row i lineage_id n p g) p CURRENT_MARKER_VERSION = Inr marker"
    show "triple (\<lambda>_ _. True) (\<lambda>t. table t = T)
      (andthen (ss_append S ''lineage'' (lineage_row i lineage_id n p g @ [(''integrity_marker'', JStr marker)]))
        (andthen (audit_written E i) (ret lineage_id))) ?Q ?E"
      by (rule any.triple_andthen[OF keep[OF append_step[OF S]]], rule finish)
        (use appended_chain_ok[OF ok that num m[unfolded CURRENT_MARKER_VERSION_def]] in \<open>auto simp: row_of_intent_def\<close>)
  qed
  have keyed: "triple (\<lambda>_ _. True) (\<lambda>t. table t = T) (chain_key E (ss_tenant_id S)) (\<lambda>k t. table t = T \<and> k = key) (\<lambda>_ t. table t = T)"
    using quiet_step[OF quiet_chain_key[OF env], of T "ss_tenant_id S"] key unfolding triple_def by blast
  have latest: "triple (\<lambda>_ _. True) (\<lambda>t. table t = T) (ss_latest S ''lineage'' [] ''seq'')
      (\<lambda>prev t. table t = T \<and> prev = (if T = [] then None else Some (last T))) (\<lambda>_ t. table t = T)"
    using S unfolding triple_def chain_session_def by simp
  have lock: "triple (\<lambda>_ _. True) (\<lambda>t. table t = T) (case lock of None \<Rightarrow> ret () | Some l \<Rightarrow> l) (\<lambda>_ t. table t = T) (\<lambda>_ t. table t = T)"
    by (rule quiet_step) (use env in \<open>auto simp: quiet_env_def split: option.split intro: unchanged.keeps_ret\<close>)
  have uuid: "keeps (unchanged table) (le_uuid E)" using env by (simp add: quiet_env_def)
  show ?thesis unfolding emit_lineage_def Let_def
    by (rule any.triple_andthen[OF keep[OF lock]], rule any.triple_bnd[OF keep[OF latest]], rule triple_pure,
        rule any.triple_bnd[OF keep[OF pure_step]], rule triple_pure, clarsimp simp only: prod.case split: prod.split,
        rule any.triple_bnd[OF keep[OF quiet_step[OF uuid]]], rule any.triple_bnd[OF keep[OF keyed]], rule triple_pure,
        simp only:, rule any.triple_bnd[OF keep[OF pure_step]], rule stored, simp only:)
qed

text \<open>C21: Emitting keeps an intact chain intact, however it ends: either the table is as it was, or exactly
one record was appended, with the fields of the intent, the next number and the marker that makes
the longer chain verify; an emit that returns has appended that record and returns its identifier.\<close>

theorem emit_extends_chain:
  assumes "chain_session S table" and "quiet_env E lock table"
    and "\<And>t k t'. chain_key E (ss_tenant_id S) t = (Inr k, t') \<Longrightarrow> k = key" and "\<And>k. ce_int (le_cells E) (JInt k) = Inr k"
    and "chain_ok (le_cells E) (le_mac E) key (table s)" and "emit_lineage E lock S i s = (q, s')"
  shows "chain_ok (le_cells E) (le_mac E) key (table s')
    \<and> (case q of
         Inr lineage_id \<Rightarrow> \<exists>r. table s' = table s @ [r] \<and> row_of_intent i lineage_id r
       | Inl e \<Rightarrow> table s' = table s \<or> (\<exists>lineage_id r. table s' = table s @ [r] \<and> row_of_intent i lineage_id r))"
  using tripleD[OF emit_triple[OF assms(1-5)] HOL.refl assms(6)] by (cases q) simp_all

section \<open>A sample chain\<close>

definition table_writer :: "(row list, py_error) tenant_session" where
  "table_writer = \<lparr>ss_tenant_id = ''acme'', ss_begin = ret (), ss_commit = ret (), ss_rollback = ret (), ss_close = ret (),
     ss_upsert = (\<lambda>_ _ _. ret True), ss_append = (\<lambda>_ r. writes (\<lambda>rows. rows @ [r])), ss_update = (\<lambda>_ _ _. ret ()),
     ss_get = (\<lambda>_ _. ret None), ss_latest = (\<lambda>_ _ _. reads (\<lambda>rows. if rows = [] then None else Some (last rows)))\<rparr>"

definition table_reader :: "(row list, py_error) read_session" where
  "table_reader = \<lparr>rs_tenant_id = ''acme'', rs_close = ret (),
     rs_page = (\<lambda>_ _ _ _ after n. reads (\<lambda>rows. take (nat n)
        (case after of Some (JInt a) \<Rightarrow> filter (\<lambda>r. a < seq_num r) rows | _ \<Rightarrow> rows))),
     rs_traverse = (\<lambda>_ _ _ _ _ _. ret [])\<rparr>"

definition sample_lineage :: "row list lineage_env" where
  "sample_lineage = \<lparr>le_cells = plain_cells, le_mac = (\<lambda>k c. k @ c), le_uuid = ret ''id1'',
     le_current_version = (\<lambda>_. ret ''v1''), le_resolve = (\<lambda>_ _. ret ''k''), le_audit = None\<rparr>"

definition sample_intent :: "string \<Rightarrow> lineage_intent" where
  "sample_intent op' = \<lparr>li_event_type = ''import'', li_occurred_at = ''t'', li_actor_ref = ''ada'', li_source_ref = ''g1'',
     li_target_ref = ''acme:startups:s1'', li_operation = op', li_schema_version = ''1'', li_derivation_ref = Some ''job'',
     li_parent_lineage_ref = None, li_correlation_id = None\<rparr>"

definition sample_row :: "string \<Rightarrow> row list \<Rightarrow> row" where
  "sample_row op' rows = last (snd (emit_lineage sample_lineage None table_writer (sample_intent op') rows))"

definition row1 :: row where "row1 = sample_row ''created'' []"
definition row2 :: row where "row2 = sample_row ''updated'' [row1]"

lemma sample_laws:
  "chain_session table_writer (\<lambda>rows. rows)" "quiet_env sample_lineage None (\<lambda>rows. rows)"
  "chain_key sample_lineage ''acme'' t = (Inr ''k'', t)" "ce_int (le_cells sample_lineage) (JInt k) = Inr k"
  by (auto simp: chain_session_def quiet_env_def table_writer_def sample_lineage_def plain_cells_def chain_key_def
      intro: unchanged.keeps_ret)

theorem emit_extends_chain_witness:
  "fst (emit_lineage sample_lineage None table_writer (sample_intent ''created'') []) = Inr ''id1''
   \<and> chain_ok plain_cells (\<lambda>k c. k @ c) ''k'' (snd (emit_lineage sample_lineage None table_writer (sample_intent ''created'') []))
   \<and> (\<exists>r. snd (emit_lineage sample_lineage None table_writer (sample_intent ''created'') []) = [r]
        \<and> row_of_intent (sample_intent ''created'') ''id1'' r)"
proof -
  let ?run = "emit_lineage sample_lineage None table_writer (sample_intent ''created'') []"
  have ok: "chain_ok (le_cells sample_lineage) (le_mac sample_lineage) ''k'' ([] :: row list)" by simp
  have k: "chain_key sample_lineage (ss_tenant_id table_writer) t = (Inr k, t') \<Longrightarrow> k = ''k''" for t k t'
    by (simp add: table_writer_def sample_laws)
  have id: "fst ?run = Inr ''id1''" by code_simp
  have env: "le_cells sample_lineage = plain_cells" "le_mac sample_lineage = (\<lambda>k c. k @ c)" by (simp_all add: sample_lineage_def)
  have "chain_ok (le_cells sample_lineage) (le_mac sample_lineage) ''k'' (snd ?run)
      \<and> (case fst ?run of
           Inr lineage_id \<Rightarrow> \<exists>r. snd ?run = [] @ [r] \<and> row_of_intent (sample_intent ''created'') lineage_id r
         | Inl e \<Rightarrow> snd ?run = [] \<or> (\<exists>lineage_id r. snd ?run = [] @ [r] \<and> row_of_intent (sample_intent ''created'') lineage_id r))"
    by (rule emit_extends_chain[OF sample_laws(1,2) _ sample_laws(4) ok surjective_pairing]) (rule k)
  then show ?thesis unfolding id env by simp
qed

lemma sample_chain_ok: "chain_ok plain_cells (\<lambda>k c. k @ c) ''k'' [row1, row2]"
proof -
  have "(case verify_rows plain_cells (\<lambda>k c. k @ c) ''k'' ''acme'' [row1, row2] of Inl _ \<Rightarrow> False | Inr rep \<Rightarrow> vr_ok rep)"
    by code_simp
  then show ?thesis unfolding verifies_iff[symmetric, of _ _ _ _ "''acme''"] verifies_def by (auto split: sum.splits)
qed


definition sample_context :: request_context where
  "sample_context = \<lparr>rq_correlation_id = ''c1'', rq_request_id = None, rq_active_tenant_id = Some ''acme'',
     rq_principal_ref = Some ''ada'', rq_role = None\<rparr>"

theorem verification_ends_and_decides_witness:
  "\<exists>report rows. verify_chain sample_lineage (\<lambda>_ _ _. ret table_reader) 1 sample_context None [row1, row2] = Some (Inr report, rows)
     \<and> vr_ok report \<and> vr_scanned report = 2"
proof -
  let ?S = table_reader
  have pages: "pages_of ?S [row1, row2] [row1, row2]" by (simp add: pages_of_def table_reader_def)
  have seqs: "seq_num row1 = 1" "seq_num row2 = 2" "row_int plain_cells row1 ''seq'' = Inr 1" "row_int plain_cells row2 ''seq'' = Inr 2"
    by code_simp+
  have asc: "ascending (le_cells sample_lineage) [row1, row2]" by (simp add: ascending_def seqs sample_lineage_def)
  have tenant: "rs_tenant_id ?S = ''acme''" by (simp add: table_reader_def)
  have run: "verify_chain sample_lineage (\<lambda>_ _ _. ret ?S) 1 sample_context None [row1, row2]
      = Some (report_rows sample_lineage sample_context (rs_tenant_id ?S) (''k'', bounded_rows None [row1, row2]) [row1, row2])
    \<and> (verifies (le_cells sample_lineage) (le_mac sample_lineage) ''k'' (rs_tenant_id ?S) [row1, row2]
      \<longleftrightarrow> chain_ok (le_cells sample_lineage) (le_mac sample_lineage) ''k'' [row1, row2])"
    by (rule verification_ends_and_decides[OF _ _ pages asc])
      (simp_all add: open_for_def tenant sample_laws, simp add: table_reader_def)
  with sample_chain_ok obtain rep where rep: "verify_rows plain_cells (\<lambda>k c. k @ c) ''k'' ''acme'' [row1, row2] = Inr rep" "vr_ok rep"
    by (auto simp: verifies_def tenant sample_lineage_def)
  have "report_rows sample_lineage sample_context ''acme'' (''k'', [row1, row2]) [row1, row2] = (Inr rep, [row1, row2])"
    using rep(1) by (simp add: report_rows_def sample_lineage_def audit_result_def)
  moreover have "vr_scanned rep = 2" using rep(1) by (auto simp: verify_rows_def sbind_Inr)
  ultimately show ?thesis using run rep(2) by (simp add: tenant bounded_rows_def)
qed

end
