(* ===== verification/IM_Import.thy ===== *)
theory IM_Import
  imports LN_Chain DR_Router
begin

text \<open>
  The import service: the validation floor (\<open>backend/import_service/validation.py\<close>) and the import unit
  of work (\<open>service.py\<close>, with the shapes of \<open>models.py\<close>). The session provider, the lineage port, the audit
  sink, the source adapters, the clock and the identifier source are arguments. An adapter's records
  are a list: it is read to its end before anything is written.
\<close>

section \<open>Shapes\<close>

datatype import_mode = ASYNC | SYNC

datatype source_kind = SOURCE_DIRECTORY | SOURCE_CSV | SOURCE_JSON

record source_descriptor =
  sd_kind :: source_kind
  sd_ref :: string
  sd_payload :: "string option"
  sd_directory_kind :: "string option"

record import_request =
  ir_tenant_id :: string
  ir_source :: source_descriptor
  ir_mode :: import_mode
  ir_operation_key :: string
  ir_correlation_id :: string
  ir_actor_ref :: string
  ir_natural_key_field :: string
  ir_target_table :: string

record raw_record =
  rw_data :: row
  rw_source_ref :: string

record import_record =
  im_natural_key :: string
  im_fields :: row
  im_pii_fields :: "string list"
  im_source_ref :: string

record import_status =
  st_import_id :: string
  st_tenant_id :: string
  st_state :: string
  st_applied_count :: int
  st_noop_count :: int
  st_rejected_count :: int
  st_last_error_summary :: string
  st_correlation_id :: string
  st_replayed :: bool

record import_event = operational_event +
  oe_source_ref :: "string option"

section \<open>The validation floor\<close>

definition PII_FIELD_NAMES :: "string list" where
  "PII_FIELD_NAMES = [''email'', ''phone'', ''ssn'', ''dob'', ''address'', ''name'', ''full_name'']"

definition MAX_LEN :: nat where "MAX_LEN = 10000"

text \<open>
  The searches for \<open>[^@\s]+@[^@\s]+\.[^@\s]+\<close> and \<open>\+?\d[\d\s\-]{7,}\d\<close>: a character before an at sign and, in the
  run after it, a dot with a character on each side; two digits with at least seven digits, blanks
  or dashes between them.
\<close>

definition mail_char :: "char \<Rightarrow> bool" where
  "mail_char c = (c \<noteq> CHR ''@'' \<and> \<not> is_space c)"

definition dotted :: "string \<Rightarrow> bool" where
  "dotted run = (run \<noteq> [] \<and> CHR ''.'' \<in> set (butlast (tl run)))"

fun email_search :: "string \<Rightarrow> bool" where
  "email_search (c # d # cs) =
     ((mail_char c \<and> d = CHR ''@'' \<and> dotted (takeWhile mail_char cs)) \<or> email_search (d # cs))"
| "email_search _ = False"

definition phone_char :: "char \<Rightarrow> bool" where
  "phone_char c = (is_digit c \<or> is_space c \<or> c = CHR ''-'')"

fun phone_search :: "string \<Rightarrow> bool" where
  "phone_search [] = False"
| "phone_search (c # cs) = ((is_digit c \<and> list_ex is_digit (drop 7 (takeWhile phone_char cs))) \<or> phone_search cs)"

definition control_char :: "char \<Rightarrow> bool" where
  "control_char c = (char_code c < 32 \<and> char_code c \<notin> {9, 10, 13})"

definition is_pii :: "string \<Rightarrow> json \<Rightarrow> bool" where
  "is_pii k v = (to_lower k \<in> set PII_FIELD_NAMES
     \<or> (case v of JStr t \<Rightarrow> email_search t \<or> phone_search t | _ \<Rightarrow> False))"

definition quoted :: "string \<Rightarrow> string" where
  "quoted k = CHR 0x27 # k @ [CHR 0x27]"

definition check_field :: "string \<Rightarrow> json \<Rightarrow> string + unit" where
  "check_field k v =
     (case v of
        JList _ \<Rightarrow> Inl (''unsupported type for field '' @ quoted k)
      | JObj _ \<Rightarrow> Inl (''unsupported type for field '' @ quoted k)
      | JStr t \<Rightarrow>
          if length t > MAX_LEN then Inl (''field '' @ quoted k @ '' exceeds max length'')
          else if list_ex control_char t then Inl (''field '' @ quoted k @ '' contains control characters'')
          else Inr ()
      | _ \<Rightarrow> Inr ())"

fun check_fields :: "row \<Rightarrow> string + (row \<times> string list)" where
  "check_fields [] = Inr ([], [])"
| "check_fields ((k, v) # rest) =
     sbind (check_field k v) (\<lambda>_. sbind (check_fields rest) (\<lambda>(fields, pii).
       Inr ((k, v) # fields, (if is_pii k v then k # pii else pii))))"

definition validate_record :: "cells \<Rightarrow> raw_record \<Rightarrow> string \<Rightarrow> string + import_record" where
  "validate_record E raw key_field =
     (if obj_get (rw_data raw) key_field \<in> {JNull, JStr []} then Inl (''missing natural key '' @ quoted key_field)
      else sbind (check_fields (rw_data raw)) (\<lambda>(fields, pii).
        Inr \<lparr>im_natural_key = ce_text E (obj_get (rw_data raw) key_field), im_fields = fields,
             im_pii_fields = pii, im_source_ref = rw_source_ref raw\<rparr>))"

section \<open>The service\<close>

datatype import_error = ImportFailed string import_status | PyError py_error

type_synonym ('s, 'a) import_proc = "('s, import_error, 'a) proc"

type_synonym 's import_session = "('s, py_error) tenant_session"

record 's import_env =
  ie_cells :: cells
  ie_open :: "string \<Rightarrow> string \<Rightarrow> string option \<Rightarrow> lane \<Rightarrow> ('s, py_error, 's import_session) proc"
  ie_emit :: "'s import_session \<Rightarrow> lineage_intent \<Rightarrow> ('s, py_error, string) proc"
  ie_audit :: "import_event \<Rightarrow> ('s, py_error, unit) proc"
  ie_sources :: "source_kind \<Rightarrow> (source_descriptor \<Rightarrow> ('s, py_error, raw_record list) proc) option"
  ie_uuid :: "('s, py_error, string) proc"
  ie_now :: "('s, py_error, string) proc"
  ie_schema_version :: string
  ie_batch_size :: int

definition py :: "('s, py_error, 'a) proc \<Rightarrow> ('s, 'a) import_proc" where
  "py m = (\<lambda>s. case m s of (Inl e, t) \<Rightarrow> (Inl (PyError e), t) | (Inr a, t) \<Rightarrow> (Inr a, t))"

definition emit_import_audit :: "'s import_env \<Rightarrow> import_request \<Rightarrow> string \<Rightarrow> string \<Rightarrow> ('s, unit) import_proc" where
  "emit_import_audit E req action outcome =
     py (ie_audit E \<lparr>oe_actor_ref = JStr (ir_actor_ref req), oe_action = action, oe_correlation_id = ir_correlation_id req,
       oe_outcome = outcome, oe_target_ref = Some (JStr (ir_tenant_id req)), oe_source_ref = Some (sd_ref (ir_source req))\<rparr>)"

definition failed_status :: "import_request \<Rightarrow> string \<Rightarrow> int \<Rightarrow> int \<Rightarrow> int \<Rightarrow> import_status" where
  "failed_status req job_id applied noop rejected =
     \<lparr>st_import_id = job_id, st_tenant_id = ir_tenant_id req, st_state = ''failed'', st_applied_count = applied,
      st_noop_count = noop, st_rejected_count = rejected, st_last_error_summary = ''batch_failed'',
      st_correlation_id = ir_correlation_id req, st_replayed = False\<rparr>"

text \<open>\<open>int(idem.get(k, 0))\<close>, and the job identifier, which the table keeps as text.\<close>

definition count_cell :: "cells \<Rightarrow> row \<Rightarrow> string \<Rightarrow> py_error + int" where
  "count_cell E r k = (case dict_get r k of None \<Rightarrow> Inr 0 | Some v \<Rightarrow> ce_int E v)"

definition job_of :: "row \<Rightarrow> py_error + string" where
  "job_of r = (case row_item r ''job_id'' of Inl e \<Rightarrow> Inl e | Inr (JStr j) \<Rightarrow> Inr j | Inr _ \<Rightarrow> Inl ''TypeError'')"

definition idem_key :: "import_request \<Rightarrow> row" where
  "idem_key req = [(''operation_key'', JStr (ir_operation_key req))]"

definition stored_status :: "cells \<Rightarrow> row \<Rightarrow> string \<Rightarrow> string \<Rightarrow> string \<Rightarrow> bool \<Rightarrow> py_error + import_status" where
  "stored_status E idem tenant cid state replayed =
     sbind (job_of idem) (\<lambda>job. sbind (count_cell E idem ''applied'') (\<lambda>a. sbind (count_cell E idem ''noop'') (\<lambda>n.
     sbind (count_cell E idem ''rejected'') (\<lambda>r.
       Inr \<lparr>st_import_id = job, st_tenant_id = tenant, st_state = state, st_applied_count = a, st_noop_count = n,
            st_rejected_count = r, st_last_error_summary = [], st_correlation_id = cid, st_replayed = replayed\<rparr>))))"

definition job_row :: "import_request \<Rightarrow> string \<Rightarrow> string \<Rightarrow> row" where
  "job_row req job_id state =
     [(''job_id'', JStr job_id), (''operation_key'', JStr (ir_operation_key req)), (''tenant_id'', JStr (ir_tenant_id req)),
      (''state'', JStr state), (''correlation_id'', JStr (ir_correlation_id req))]"

definition idem_row :: "import_request \<Rightarrow> string \<Rightarrow> string \<Rightarrow> row" where
  "idem_row req job_id status =
     [(''operation_key'', JStr (ir_operation_key req)), (''job_id'', JStr job_id), (''status'', JStr status)]"

text \<open>The job to run: a replay of a finished one, the resumption of an unfinished one, or a new one.\<close>

datatype begun = Replay import_status | Job string bool

definition create_job :: "'s import_env \<Rightarrow> 's import_session \<Rightarrow> import_request \<Rightarrow> ('s, begun) import_proc" where
  "create_job E S req =
     bnd (py (ie_uuid E)) (\<lambda>job.
     andthen (py (ss_upsert S ''import_job'' [(''job_id'', JStr job)] (job_row req job ''in_progress'')))
     (andthen (py (ss_upsert S ''import_idempotency'' (idem_key req) (idem_row req job ''in_progress'')))
     (andthen (py (ss_commit S)) (ret (Job job False)))))"

definition begin_job :: "'s import_env \<Rightarrow> 's import_session \<Rightarrow> import_request \<Rightarrow> ('s, begun) import_proc" where
  "begin_job E S req =
     andthen (py (ss_begin S))
     (bnd (py (ss_get S ''import_idempotency'' (idem_key req))) (\<lambda>found.
      case found of
        None \<Rightarrow> create_job E S req
      | Some idem \<Rightarrow>
          if idem = [] then create_job E S req
          else if obj_get idem ''status'' = JStr ''applied'' then
            andthen (py (ss_commit S))
            (bnd (py (lift_sum (stored_status (ie_cells E) idem (ir_tenant_id req) (ir_correlation_id req) ''applied'' True)))
              (\<lambda>st. ret (Replay st)))
          else andthen (py (ss_commit S)) (bnd (py (lift_sum (job_of idem))) (\<lambda>job. ret (Job job True)))))"

fun keep_valid :: "cells \<Rightarrow> string \<Rightarrow> raw_record list \<Rightarrow> import_record list \<times> nat" where
  "keep_valid E key_field [] = ([], 0)"
| "keep_valid E key_field (raw # raws) =
     (case (validate_record E raw key_field, keep_valid E key_field raws) of
        (Inl _, (valid, rejected)) \<Rightarrow> (valid, Suc rejected)
      | (Inr r, (valid, rejected)) \<Rightarrow> (r # valid, rejected))"

definition collect_records :: "'s import_env \<Rightarrow> import_request \<Rightarrow> ('s, import_record list \<times> nat) import_proc" where
  "collect_records E req =
     (case ie_sources E (sd_kind (ir_source req)) of
        None \<Rightarrow> raise (ImportFailed ''unsupported_source'' (failed_status req ''unknown'' 0 0 0))
      | Some read \<Rightarrow> bnd (py (read (ir_source req))) (\<lambda>raws.
          ret (keep_valid (ie_cells E) (ir_natural_key_field req) raws)))"

definition resume_point :: "'s import_env \<Rightarrow> 's import_session \<Rightarrow> string \<Rightarrow> ('s, int) import_proc" where
  "resume_point E S job =
     andthen (py (ss_begin S))
     (bnd (py (ss_latest S ''import_checkpoint'' [(''job_id'', JStr job)] ''batch_seq'')) (\<lambda>cp.
      andthen (py (ss_commit S))
      (case cp of
         None \<Rightarrow> ret 1
       | Some r \<Rightarrow> if r = [] then ret 1
           else bnd (py (lift_sum (row_int (ie_cells E) r ''batch_seq''))) (\<lambda>n. ret (n + 1)))))"

text \<open>\<open>[valid[i : i + size] for i in range(0, len(valid), size)]\<close>.\<close>

fun chunks :: "nat \<Rightarrow> 'a list \<Rightarrow> 'a list list" where
  "chunks n [] = []"
| "chunks n (x # xs) = take (Suc n) (x # xs) # chunks n (drop n xs)"

definition batches_of :: "int \<Rightarrow> 'a list \<Rightarrow> py_error + 'a list list" where
  "batches_of bsize xs =
     (if bsize = 0 then Inl ''ValueError'' else if bsize < 0 then Inr [] else Inr (chunks (nat bsize - 1) xs))"

definition import_intent :: "'s import_env \<Rightarrow> import_request \<Rightarrow> string \<Rightarrow> import_record \<Rightarrow> bool \<Rightarrow> string \<Rightarrow> lineage_intent" where
  "import_intent E req job r changed now =
     \<lparr>li_event_type = ''import'', li_occurred_at = now, li_actor_ref = ir_actor_ref req, li_source_ref = im_source_ref r,
      li_target_ref = ir_tenant_id req @ '':'' @ ir_target_table req @ '':'' @ im_natural_key r,
      li_operation = (if changed then ''created'' else ''noop''), li_schema_version = ie_schema_version E,
      li_derivation_ref = Some job, li_parent_lineage_ref = None, li_correlation_id = Some (ir_correlation_id req)\<rparr>"

definition apply_record ::
    "'s import_env \<Rightarrow> 's import_session \<Rightarrow> import_request \<Rightarrow> string \<Rightarrow> import_record \<Rightarrow> ('s, bool) import_proc" where
  "apply_record E S req job r =
     (let key = (ir_natural_key_field req, JStr (im_natural_key r)) in
      bnd (py (ss_upsert S (ir_target_table req) [key] (dict_put (fst key) (snd key) (im_fields r)))) (\<lambda>changed.
      bnd (py (ie_now E)) (\<lambda>now.
      andthen (py (ie_emit E S (import_intent E req job r changed now))) (ret changed))))"

fun apply_records ::
    "'s import_env \<Rightarrow> 's import_session \<Rightarrow> import_request \<Rightarrow> string \<Rightarrow> import_record list \<Rightarrow> ('s, nat) import_proc" where
  "apply_records E S req job [] = ret 0"
| "apply_records E S req job (r # rs) =
     bnd (apply_record E S req job r) (\<lambda>changed.
     bnd (apply_records E S req job rs) (\<lambda>n. ret (if changed then Suc n else n)))"

definition checkpoint_row :: "'s import_env \<Rightarrow> string \<Rightarrow> int \<Rightarrow> nat \<Rightarrow> string \<Rightarrow> row" where
  "checkpoint_row E job seq applied now =
     [(''job_id'', JStr job), (''batch_seq'', JInt seq), (''last_offset'', JInt (seq * ie_batch_size E)),
      (''applied_count'', JInt (int applied)), (''status'', JStr ''applied''), (''updated_at'', JStr now)]"

definition apply_one_batch ::
    "'s import_env \<Rightarrow> 's import_session \<Rightarrow> import_request \<Rightarrow> string \<Rightarrow> int \<Rightarrow> import_record list \<Rightarrow> ('s, nat) import_proc" where
  "apply_one_batch E S req job seq batch =
     bnd (apply_records E S req job batch) (\<lambda>applied.
     bnd (py (ie_now E)) (\<lambda>now.
     andthen (py (ss_append S ''import_checkpoint'' (checkpoint_row E job seq applied now))) (ret applied)))"

text \<open>What follows a batch that raised: roll back, record the failure in a transaction of its own.\<close>

definition mark_failed ::
    "'s import_session \<Rightarrow> import_request \<Rightarrow> string \<Rightarrow> int \<Rightarrow> int \<Rightarrow> ('s, 'a) import_proc" where
  "mark_failed S req job applied noop =
     andthen (py (ss_rollback S))
     (andthen (py (ss_begin S))
     (andthen (py (ss_upsert S ''import_idempotency'' (idem_key req) (idem_row req job ''failed'')))
     (andthen (py (ss_commit S)) (raise (ImportFailed ''batch'' (failed_status req job applied noop 0))))))"

fun run_batches ::
    "'s import_env \<Rightarrow> 's import_session \<Rightarrow> import_request \<Rightarrow> string \<Rightarrow> int \<Rightarrow> int \<Rightarrow> import_record list list \<Rightarrow> int \<Rightarrow> int
      \<Rightarrow> ('s, int \<times> int) import_proc" where
  "run_batches E S req job start_seq seq [] applied noop = ret (applied, noop)"
| "run_batches E S req job start_seq seq (batch # rest) applied noop =
     (if seq < start_seq then run_batches E S req job start_seq (seq + 1) rest applied noop
      else andthen (py (ss_begin S))
        (tries (apply_one_batch E S req job seq batch)
          (\<lambda>_. mark_failed S req job applied noop)
          (\<lambda>n. andthen (py (ss_commit S))
            (run_batches E S req job start_seq (seq + 1) rest (applied + int n) (noop + (int (length batch) - int n))))))"

definition apply_batches ::
    "'s import_env \<Rightarrow> 's import_session \<Rightarrow> import_request \<Rightarrow> string \<Rightarrow> import_record list \<Rightarrow> int \<Rightarrow> ('s, int \<times> int) import_proc" where
  "apply_batches E S req job valid start_seq =
     bnd (py (lift_sum (batches_of (ie_batch_size E) valid))) (\<lambda>batches. run_batches E S req job start_seq 1 batches 0 0)"

definition finalize ::
    "'s import_env \<Rightarrow> 's import_session \<Rightarrow> import_request \<Rightarrow> string \<Rightarrow> int \<Rightarrow> int \<Rightarrow> nat \<Rightarrow> ('s, import_status) import_proc" where
  "finalize E S req job applied noop rejected =
     andthen (py (ss_begin S))
     (andthen (py (ss_upsert S ''import_job'' [(''job_id'', JStr job)] (job_row req job ''applied'')))
     (andthen (py (ss_upsert S ''import_idempotency'' (idem_key req)
        (idem_row req job ''applied'' @ [(''applied'', JInt applied), (''noop'', JInt noop), (''rejected'', JInt (int rejected))])))
     (andthen (py (ss_commit S))
     (andthen (emit_import_audit E req ''ImportCompleted'' ''success'')
       (ret \<lparr>st_import_id = job, st_tenant_id = ir_tenant_id req, st_state = ''applied'', st_applied_count = applied,
             st_noop_count = noop, st_rejected_count = int rejected, st_last_error_summary = [],
             st_correlation_id = ir_correlation_id req, st_replayed = False\<rparr>)))))"

definition run_job ::
    "'s import_env \<Rightarrow> 's import_session \<Rightarrow> import_request \<Rightarrow> string \<Rightarrow> bool \<Rightarrow> ('s, import_status) import_proc" where
  "run_job E S req job resuming =
     andthen (emit_import_audit E req (if resuming then ''ImportResumed'' else ''ImportStarted'') ''success'')
     (bnd (collect_records E req) (\<lambda>(valid, rejected).
      bnd (resume_point E S job) (\<lambda>start_seq.
      bnd (apply_batches E S req job valid start_seq) (\<lambda>(applied, noop).
        finalize E S req job applied noop rejected))))"

definition import_body :: "'s import_env \<Rightarrow> 's import_session \<Rightarrow> import_request \<Rightarrow> ('s, import_status) import_proc" where
  "import_body E S req =
     bnd (begin_job E S req) (\<lambda>b. case b of
        Replay st \<Rightarrow> andthen (emit_import_audit E req ''ImportCompleted'' ''replayed'') (ret st)
      | Job job resuming \<Rightarrow> run_job E S req job resuming)"

definition surface_failure :: "'s import_env \<Rightarrow> import_request \<Rightarrow> import_error \<Rightarrow> ('s, import_status) import_proc" where
  "surface_failure E req e =
     (case e of
        ImportFailed code st \<Rightarrow> andthen (emit_import_audit E req ''ImportFailed'' (''error:'' @ code)) (ret st)
      | PyError x \<Rightarrow> raise e)"

definition closing_session :: "'s import_session \<Rightarrow> ('s, 'a) import_proc \<Rightarrow> ('s, 'a) import_proc" where
  "closing_session S m =
     tries m (\<lambda>e. andthen (py (ss_close S)) (raise e)) (\<lambda>x. andthen (py (ss_close S)) (ret x))"

definition start_import :: "'s import_env \<Rightarrow> import_request \<Rightarrow> ('s, import_status) import_proc" where
  "start_import E req =
     andthen (emit_import_audit E req ''ImportRequested'' ''success'')
     (bnd (py (ie_open E (ir_tenant_id req) (ir_correlation_id req) (Some (ir_actor_ref req)) BULK)) (\<lambda>S.
       closing_session S (handle (import_body E S req) (surface_failure E req))))"

definition status_of :: "cells \<Rightarrow> row \<Rightarrow> string \<Rightarrow> string \<Rightarrow> py_error + import_status" where
  "status_of E idem tenant cid =
     (case dict_get idem ''status'' of
        None \<Rightarrow> stored_status E idem tenant cid ''in_progress'' False
      | Some (JStr st) \<Rightarrow> stored_status E idem tenant cid st False
      | Some _ \<Rightarrow> Inl ''TypeError'')"

definition import_get_status ::
    "'s import_env \<Rightarrow> string \<Rightarrow> string \<Rightarrow> string \<Rightarrow> ('s, import_status option) import_proc" where
  "import_get_status E tenant operation_key cid =
     bnd (py (ie_open E tenant cid None BULK)) (\<lambda>S.
     bnd (closing_session S (andthen (py (ss_begin S))
       (bnd (py (ss_get S ''import_idempotency'' [(''operation_key'', JStr operation_key)])) (\<lambda>found.
        andthen (py (ss_commit S)) (ret found))))) (\<lambda>found.
     case found of
       None \<Rightarrow> ret None
     | Some idem \<Rightarrow> if idem = [] then ret None
         else bnd (py (lift_sum (status_of (ie_cells E) idem tenant cid))) (\<lambda>st. ret (Some st))))"

end
