(* ===== verification/IM_Claims.thy ===== *)
theory IM_Claims
  imports IM_Import
begin

text \<open>
  The properties of the import service: what a run commits, and what running a finished import again
  does.
\<close>

section \<open>Whole batches\<close>

text \<open>
  What a unit of work promises: \<open>stored\<close> is what is committed, \<open>pending\<close> what the open transaction sees;
  a transaction begins with what is committed and a commit that returns publishes it. The lineage
  port and the clock commit nothing.
\<close>

definition unit_of_work :: "'s import_env \<Rightarrow> 's import_session \<Rightarrow> ('s \<Rightarrow> 'd) \<Rightarrow> ('s \<Rightarrow> 'd) \<Rightarrow> bool" where
  "unit_of_work E S stored pending \<longleftrightarrow>
     transactional S stored
   \<and> (\<forall>s s'. ss_begin S s = (Inr (), s') \<longrightarrow> pending s' = stored s)
   \<and> (\<forall>s s'. ss_commit S s = (Inr (), s') \<longrightarrow> stored s' = pending s)
   \<and> (\<forall>i. keeps (unchanged stored) (ie_emit E S i)) \<and> keeps (unchanged stored) (ie_now E)"

text \<open>A batch takes the committed contents \<open>d\<close> to \<open>d'\<close>: all its records, their lineage and its checkpoint.\<close>

definition whole_batch ::
    "'s import_env \<Rightarrow> 's import_session \<Rightarrow> import_request \<Rightarrow> string \<Rightarrow> ('s \<Rightarrow> 'd) \<Rightarrow> ('s \<Rightarrow> 'd) \<Rightarrow> int \<Rightarrow> import_record list \<Rightarrow> 'd \<Rightarrow> 'd \<Rightarrow> bool" where
  "whole_batch E S req job stored pending seq batch d d' \<longleftrightarrow>
     (\<exists>s n s'. stored s = d \<and> pending s = d \<and> apply_one_batch E S req job seq batch s = (Inr n, s') \<and> pending s' = d')"

fun batches_applied ::
    "'s import_env \<Rightarrow> 's import_session \<Rightarrow> import_request \<Rightarrow> string \<Rightarrow> ('s \<Rightarrow> 'd) \<Rightarrow> ('s \<Rightarrow> 'd) \<Rightarrow> int \<Rightarrow> import_record list list \<Rightarrow> 'd \<Rightarrow> 'd \<Rightarrow> bool" where
  "batches_applied E S req job stored pending seq [] d d' = (d = d')"
| "batches_applied E S req job stored pending seq (b # bs) d d' =
     (\<exists>d1. whole_batch E S req job stored pending seq b d d1 \<and> batches_applied E S req job stored pending (seq + 1) bs d1 d')"

definition failure_marked :: "'s import_session \<Rightarrow> import_request \<Rightarrow> string \<Rightarrow> ('s \<Rightarrow> 'd) \<Rightarrow> ('s \<Rightarrow> 'd) \<Rightarrow> 'd \<Rightarrow> 'd \<Rightarrow> bool" where
  "failure_marked S req job stored pending d d' \<longleftrightarrow>
     (\<exists>s b s'. stored s = d \<and> pending s = d
        \<and> ss_upsert S ''import_idempotency'' (idem_key req) (idem_row req job ''failed'') s = (Inr b, s') \<and> pending s' = d')"

lemma keeps_py: "keeps R m \<Longrightarrow> keeps R (py m)"
  by (auto simp: keeps_def py_def split: prod.splits sum.splits) (metis snd_conv)+

lemma keeps_batch:
  assumes "unit_of_work E S stored pending"
  shows "keeps (unchanged stored) (apply_one_batch E S req job seq batch)"
proof -
  note ports = transactional_keeps[of S stored] assms[unfolded unit_of_work_def]
  have one: "keeps (unchanged stored) (apply_record E S req job r)" for r
    unfolding apply_record_def Let_def using ports by (intro unchanged.keeps_all keeps_py) simp_all
  have "keeps (unchanged stored) (apply_records E S req job rs)" for rs
    by (induction rs) (simp_all only: apply_records.simps unchanged.keeps_ret unchanged.keeps_bnd one)
  then show ?thesis unfolding apply_one_batch_def using ports by (intro unchanged.keeps_all keeps_py) simp_all
qed

lemma py_cases:
  assumes "py m s = (r, s')"
  shows "\<exists>q. m s = (q, s') \<and> r = (case q of Inl e \<Rightarrow> Inl (PyError e) | Inr a \<Rightarrow> Inr a)"
  using assms by (auto simp: py_def split: prod.splits sum.splits)

text \<open>The steps of a unit of work, as the service sees them.\<close>

lemma work_steps:
  assumes "unit_of_work E S stored pending"
  shows "py (ss_begin S) s = (r, s') \<Longrightarrow> stored s' = stored s \<and> (case r of Inr _ \<Rightarrow> pending s' = stored s | Inl e \<Rightarrow> \<exists>x. e = PyError x)"
    and "py (ss_commit S) s = (r, s') \<Longrightarrow> (case r of Inr _ \<Rightarrow> stored s' = pending s | Inl e \<Rightarrow> stored s' = stored s \<and> (\<exists>x. e = PyError x))"
    and "py (ss_rollback S) s = (r, s') \<Longrightarrow> stored s' = stored s \<and> (\<forall>e. r = Inl e \<longrightarrow> (\<exists>x. e = PyError x))"
    and "py (ss_upsert S t k row) s = (q, s') \<Longrightarrow> stored s' = stored s \<and> (\<forall>e. q = Inl e \<longrightarrow> (\<exists>x. e = PyError x))"
proof -
  note u = assms[unfolded unit_of_work_def]
  have keep: "stored s' = stored s" if "keeps (unchanged stored) m" "m s = (q, s')" for m :: "('a, py_error, 'c) proc" and s s' q
    using keepsD[OF that] by (simp add: unchanged_def)
  have T: "transactional S stored" using u by blast
  show "stored s' = stored s \<and> (case r of Inr _ \<Rightarrow> pending s' = stored s | Inl e \<Rightarrow> \<exists>x. e = PyError x)"
    if "py (ss_begin S) s = (r, s')" for r
  proof -
    from py_cases[OF that] obtain q where q: "ss_begin S s = (q, s')" "r = (case q of Inl e \<Rightarrow> Inl (PyError e) | Inr a \<Rightarrow> Inr a)" by blast
    from q u keep[OF transactional_keeps(1)[OF T] q(1)] show ?thesis by (cases q) auto
  qed
  show "case r of Inr _ \<Rightarrow> stored s' = pending s | Inl e \<Rightarrow> stored s' = stored s \<and> (\<exists>x. e = PyError x)"
    if "py (ss_commit S) s = (r, s')" for r
  proof -
    from py_cases[OF that] obtain q where q: "ss_commit S s = (q, s')" "r = (case q of Inl e \<Rightarrow> Inl (PyError e) | Inr a \<Rightarrow> Inr a)" by blast
    from q u T show ?thesis by (cases q) (auto simp: transactional_def)
  qed
  show "stored s' = stored s \<and> (\<forall>e. r = Inl e \<longrightarrow> (\<exists>x. e = PyError x))" if "py (ss_rollback S) s = (r, s')" for r
  proof -
    from py_cases[OF that] obtain q where q: "ss_rollback S s = (q, s')" "r = (case q of Inl e \<Rightarrow> Inl (PyError e) | Inr a \<Rightarrow> Inr a)" by blast
    from q keep[OF transactional_keeps(2)[OF T] q(1)] show ?thesis by (cases q) auto
  qed
  show "stored s' = stored s \<and> (\<forall>e. q = Inl e \<longrightarrow> (\<exists>x. e = PyError x))" if "py (ss_upsert S t k row) s = (q, s')"
  proof -
    from py_cases[OF that] obtain p where p: "ss_upsert S t k row s = (p, s')" "q = (case p of Inl e \<Rightarrow> Inl (PyError e) | Inr a \<Rightarrow> Inr a)" by blast
    from p keep[OF transactional_keeps(4)[OF T] p(1)] show ?thesis by (cases p) auto
  qed
qed

lemma mark_failed_outcome:
  assumes work: "unit_of_work E S stored pending" and run: "mark_failed S req job a n s = (r, s')"
  shows "case r of
      Inr x \<Rightarrow> False
    | Inl (ImportFailed code st) \<Rightarrow> failure_marked S req job stored pending (stored s) (stored s')
    | Inl (PyError x) \<Rightarrow> stored s' = stored s"
proof -
  obtain r1 s1 where r1: "py (ss_rollback S) s = (r1, s1)" by (cases "py (ss_rollback S) s")
  obtain r2 s2 where r2: "py (ss_begin S) s1 = (r2, s2)" by (cases "py (ss_begin S) s1")
  obtain r3 s3 where r3: "py (ss_upsert S ''import_idempotency'' (idem_key req) (idem_row req job ''failed'')) s2 = (r3, s3)"
    by (cases "py (ss_upsert S ''import_idempotency'' (idem_key req) (idem_row req job ''failed'')) s2")
  obtain r4 s4 where r4: "py (ss_commit S) s3 = (r4, s4)" by (cases "py (ss_commit S) s3")
  note w = work_steps(3)[OF work r1] work_steps(1)[OF work r2] work_steps(4)[OF work r3] work_steps(2)[OF work r4]
  show ?thesis
  proof (cases "(\<exists>e. r1 = Inl e) \<or> (\<exists>e. r2 = Inl e) \<or> (\<exists>e. r3 = Inl e) \<or> (\<exists>e. r4 = Inl e)")
    case True
    with run r1 r2 r3 r4 w show ?thesis
      by (auto simp: mark_failed_def split: sum.splits)
  next
    case False
    then obtain b where ok: "r1 = Inr ()" "r2 = Inr ()" "r3 = Inr b" "r4 = Inr ()" by (cases r1; cases r2; cases r3; cases r4) auto
    from py_cases[OF r3] obtain q where q: "ss_upsert S ''import_idempotency'' (idem_key req) (idem_row req job ''failed'') s2 = (q, s3)"
      "r3 = (case q of Inl e \<Rightarrow> Inl (PyError e) | Inr a \<Rightarrow> Inr a)" by blast
    with ok(3) have up: "ss_upsert S ''import_idempotency'' (idem_key req) (idem_row req job ''failed'') s2 = (Inr b, s3)"
      by (cases q) auto
    have "failure_marked S req job stored pending (stored s) (stored s4)"
      unfolding failure_marked_def by (intro exI[of _ s2] exI[of _ b] exI[of _ s3]) (use w ok up in simp)
    with run r1 r2 r3 r4 ok show ?thesis by (auto simp: mark_failed_def)
  qed
qed

definition run_outcome ::
    "'s import_env \<Rightarrow> 's import_session \<Rightarrow> import_request \<Rightarrow> string \<Rightarrow> ('s \<Rightarrow> 'd) \<Rightarrow> ('s \<Rightarrow> 'd) \<Rightarrow> int \<Rightarrow> import_record list list
      \<Rightarrow> 'd \<Rightarrow> import_error + 'r \<Rightarrow> 'd \<Rightarrow> bool" where
  "run_outcome E S req job stored pending first todo d r d' \<longleftrightarrow>
     (\<exists>k d1. k \<le> length todo \<and> batches_applied E S req job stored pending first (take k todo) d d1
        \<and> (case r of
             Inr _ \<Rightarrow> k = length todo \<and> d' = d1
           | Inl (ImportFailed code st) \<Rightarrow> k < length todo \<and> failure_marked S req job stored pending d1 d'
           | Inl (PyError e) \<Rightarrow> d' = d1))"

lemma run_outcome_step:
  assumes "whole_batch E S req job stored pending first b d d1"
    and "run_outcome E S req job stored pending (first + 1) todo d1 r d'"
  shows "run_outcome E S req job stored pending first (b # todo) d r d'"
proof -
  from assms(2) obtain k d2 where k: "k \<le> length todo" "batches_applied E S req job stored pending (first + 1) (take k todo) d1 d2"
    "case r of Inr _ \<Rightarrow> k = length todo \<and> d' = d2
       | Inl (ImportFailed code st) \<Rightarrow> k < length todo \<and> failure_marked S req job stored pending d2 d'
       | Inl (PyError e) \<Rightarrow> d' = d2" unfolding run_outcome_def by blast
  have "batches_applied E S req job stored pending first (take (Suc k) (b # todo)) d d2" using assms(1) k(2) by auto
  moreover have "case r of Inr _ \<Rightarrow> Suc k = length (b # todo) \<and> d' = d2
       | Inl (ImportFailed code st) \<Rightarrow> Suc k < length (b # todo) \<and> failure_marked S req job stored pending d2 d'
       | Inl (PyError e) \<Rightarrow> d' = d2" using k(3) by (auto split: sum.splits import_error.splits)
  ultimately show ?thesis unfolding run_outcome_def using k(1) by (intro exI[of _ "Suc k"] exI[of _ d2]) auto
qed

lemma run_outcome_stop:
  "run_outcome E S req job stored pending first todo d (Inl (PyError e)) d"
  unfolding run_outcome_def by (intro exI[of _ 0] exI[of _ d]) simp

lemma run_batches_outcome:
  assumes work: "unit_of_work E S stored pending"
  shows "run_batches E S req job start_seq seq batches a n s = (r, s') \<Longrightarrow>
    run_outcome E S req job stored pending (max seq start_seq) (drop (nat (start_seq - seq)) batches) (stored s) r (stored s')"
proof (induction batches arbitrary: seq a n s)
  case Nil
  then show ?case by (auto simp: run_outcome_def)
next
  case (Cons b bs)
  show ?case
  proof (cases "seq < start_seq")
    case True
    have "nat (start_seq - seq) = Suc (nat (start_seq - (seq + 1)))" using True by simp
    moreover have "max (seq + 1) start_seq = max seq start_seq" using True by simp
    ultimately show ?thesis using Cons.IH[of "seq + 1" a n s] Cons.prems True by simp
  next
    case False
    then have go: "max seq start_seq = seq" "drop (nat (start_seq - seq)) (b # bs) = b # bs" by simp_all
    have next_go: "max (seq + 1) start_seq = seq + 1" "drop (nat (start_seq - (seq + 1))) bs = bs" using False by simp_all
    obtain r1 s1 where r1: "py (ss_begin S) s = (r1, s1)" by (cases "py (ss_begin S) s")
    note begun = work_steps(1)[OF work r1]
    obtain q s2 where q: "apply_one_batch E S req job seq b s1 = (q, s2)" by (cases "apply_one_batch E S req job seq b s1")
    have same: "stored s2 = stored s1" using keepsD[OF keeps_batch[OF work] q] by (simp add: unchanged_def)
    show ?thesis
    proof (cases r1)
      case (Inl e)
      with begun obtain x where "e = PyError x" "stored s1 = stored s" by auto
      with Cons.prems False r1 Inl show ?thesis unfolding go by (auto intro: run_outcome_stop)
    next
      case ok: (Inr u)
      show ?thesis
      proof (cases q)
        case (Inl e)
        obtain r3 s3 where r3: "(mark_failed S req job a n :: ('a, int \<times> int) import_proc) s2 = (r3, s3)"
          by (cases "(mark_failed S req job a n :: ('a, int \<times> int) import_proc) s2")
        from Cons.prems False r1 ok q Inl r3 have "r = r3" "s' = s3" by auto
        with mark_failed_outcome[OF work r3] begun same show ?thesis unfolding go run_outcome_def
          by (intro exI[of _ 0] exI[of _ "stored s"]) (auto split: sum.splits import_error.splits)
      next
        case (Inr m)
        obtain r4 s4 where r4: "py (ss_commit S) s2 = (r4, s4)" by (cases "py (ss_commit S) s2")
        note committed = work_steps(2)[OF work r4]
        show ?thesis
        proof (cases r4)
          case (Inl e)
          with committed obtain x where "e = PyError x" "stored s4 = stored s" using begun same by auto
          with Cons.prems False r1 ok q Inr r4 Inl show ?thesis unfolding go by (auto intro: run_outcome_stop)
        next
          case fin: (Inr v)
          have "whole_batch E S req job stored pending seq b (stored s) (stored s4)"
            unfolding whole_batch_def using begun ok q Inr committed fin
            by (intro exI[of _ s1] exI[of _ m] exI[of _ s2]) simp
          moreover have "run_outcome E S req job stored pending (seq + 1) bs (stored s4) r (stored s')"
            using Cons.IH[of "seq + 1" "a + int m" "n + (int (length b) - int m)" s4] Cons.prems False r1 ok q Inr r4 fin
            unfolding next_go by simp
          ultimately show ?thesis unfolding go by (rule run_outcome_step)
        qed
      qed
    qed
  qed
qed

lemma concat_chunks: "concat (chunks n xs) = xs"
  by (induction n xs rule: chunks.induct) (simp_all add: append_assoc[symmetric] del: append_assoc)

lemma chunks_length: "b \<in> set (chunks n xs) \<Longrightarrow> length b \<le> Suc n \<and> b \<noteq> []"
  by (induction n xs rule: chunks.induct) auto


section \<open>Replay\<close>

text \<open>
  The idempotency ledger as the session shows it: a read of an operation key answers what the open
  transaction holds, an upsert leaves a row with the written columns.
\<close>

definition ledger_session :: "'s import_session \<Rightarrow> ('s \<Rightarrow> 'd) \<Rightarrow> ('d \<Rightarrow> string \<Rightarrow> row option) \<Rightarrow> bool" where
  "ledger_session S pending ledger \<longleftrightarrow>
     (\<forall>k s f s'. ss_get S ''import_idempotency'' [(''operation_key'', JStr k)] s = (Inr f, s')
        \<longrightarrow> f = ledger (pending s) k \<and> pending s' = pending s)
   \<and> (\<forall>k r s b s'. ss_upsert S ''import_idempotency'' [(''operation_key'', JStr k)] r s = (Inr b, s')
        \<longrightarrow> (\<exists>h. ledger (pending s') k = Some h \<and> (\<forall>c v. dict_get r c = Some v \<longrightarrow> dict_get h c = Some v)))"

text \<open>The ledger records a finished import with the counts of its status.\<close>

definition recorded :: "cells \<Rightarrow> row option \<Rightarrow> import_status \<Rightarrow> bool" where
  "recorded C found st \<longleftrightarrow>
     (\<exists>h. found = Some h \<and> h \<noteq> [] \<and> obj_get h ''status'' = JStr ''applied''
        \<and> (\<forall>tenant cid. stored_status C h tenant cid ''applied'' True
             = Inr (st\<lparr>st_tenant_id := tenant, st_correlation_id := cid, st_replayed := True\<rparr>)))"

definition answers :: "('s, 'e, 'a) proc \<Rightarrow> bool" where
  "answers m \<longleftrightarrow> (\<forall>s. \<exists>a t. m s = (Inr a, t))"

definition failure_carried :: "import_error \<Rightarrow> 's \<Rightarrow> bool" where
  "failure_carried e s \<longleftrightarrow> (\<forall>code st. e = ImportFailed code st \<longrightarrow> st_state st = ''failed'')"

abbreviation carries :: "('s, 'a) import_proc \<Rightarrow> bool" where
  "carries m \<equiv> triple (\<lambda>s t. True) (\<lambda>_. True) m (\<lambda>_ _. True) failure_carried"

lemma carries_py: "carries (py m)"
  by (auto simp: triple_def py_def failure_carried_def split: prod.splits sum.splits)

lemma carries_rules:
  "carries (ret x)" "carries (py p)" "\<lbrakk>carries m; \<And>x. carries (f x)\<rbrakk> \<Longrightarrow> carries (bnd m f)"
  "\<lbrakk>carries m; carries n\<rbrakk> \<Longrightarrow> carries (andthen m n)" "\<lbrakk>\<And>e. carries (h e); \<And>x. carries (f x)\<rbrakk> \<Longrightarrow> carries (tries m' h f)"
  "carries (raise (ImportFailed code (failed_status req job ap no re)))"
proof -
  show "carries (ret x)" by (rule any.triple_ret) simp
  show "carries (py p)" by (rule carries_py)
  show "carries (bnd m f)" if "carries m" "\<And>x. carries (f x)" using that by (rule any.triple_bnd)
  show "carries (andthen m n)" if "carries m" "carries n" using that by (rule any.triple_andthen)
  show "carries (tries m' h f)" if "\<And>e. carries (h e)" "\<And>x. carries (f x)"
  proof (rule any.triple_tries)
    show "triple (\<lambda>s t. True) (\<lambda>_. True) m' (\<lambda>_ _. True) (\<lambda>_ _. True)" by (simp add: triple_def)
  qed (rule that)+
  show "carries (raise (ImportFailed code (failed_status req job ap no re)))"
    by (rule any.triple_raise) (simp add: failure_carried_def failed_status_def)
qed

lemma carries_mark_failed: "carries (mark_failed S req job a n)"
  unfolding mark_failed_def by (intro carries_rules)

lemma carries_run_batches: "carries (run_batches E S req job start seq batches a n)"
  by (induction batches arbitrary: seq a n) (auto simp only: run_batches.simps split: if_split intro!: carries_rules carries_mark_failed)

lemma carries_collect: "carries (collect_records E req)"
  unfolding collect_records_def by (auto split: option.split intro!: carries_rules)

lemma carries_resume: "carries (resume_point E S job)"
  unfolding resume_point_def by (auto split: option.split if_split intro!: carries_rules)

lemma begin_job_replays:
  fixes E :: "'s import_env"
  shows "triple (\<lambda>s t. True) (\<lambda>_. True) (begin_job E S req)
    (\<lambda>b s. case b of Replay st \<Rightarrow> st_replayed st | Job j again \<Rightarrow> True) failure_carried"
proof -
  let ?Q = "\<lambda>b s. case b of Replay st \<Rightarrow> st_replayed st | Job j again \<Rightarrow> True"
  have new: "triple (\<lambda>s t. True) (\<lambda>_. True) (create_job E S req) ?Q failure_carried"
    unfolding create_job_def by (rule any.triple_bnd[OF carries_py] any.triple_andthen[OF carries_py] any.triple_ret | simp)+
  have old: "triple (\<lambda>s t. True) (\<lambda>_. True)
      (bnd (py (lift_sum (stored_status C h t c ''applied'' True))) (\<lambda>st. ret (Replay st)) :: ('s, begun) import_proc)
      ?Q failure_carried" for C h t c
  proof (rule any.triple_bnd)
    show "triple (\<lambda>s t. True) (\<lambda>_. True) (py (lift_sum (stored_status C h t c ''applied'' True))) (\<lambda>st _. st_replayed st) failure_carried"
      by (rule tripleI) (auto simp: py_def failure_carried_def stored_status_def sbind_def split: sum.splits)
  qed (rule any.triple_ret, simp)
  have resumed: "triple (\<lambda>s t. True) (\<lambda>_. True)
      (bnd (py (lift_sum (job_of h))) (\<lambda>job. ret (Job job True)) :: ('s, begun) import_proc) ?Q failure_carried" for h
    by (rule any.triple_bnd[OF carries_py]) (rule any.triple_ret, simp)
  show ?thesis unfolding begin_job_def
  proof (rule any.triple_andthen[OF carries_py], rule any.triple_bnd[OF carries_py])
    fix found
    show "triple (\<lambda>s t. True) (\<lambda>_. True)
      (case found of None \<Rightarrow> create_job E S req
       | Some idem \<Rightarrow> if idem = [] then create_job E S req
           else if obj_get idem ''status'' = JStr ''applied'' then
             andthen (py (ss_commit S)) (bnd (py (lift_sum (stored_status (ie_cells E) idem (ir_tenant_id req) (ir_correlation_id req) ''applied'' True))) (\<lambda>st. ret (Replay st)))
           else andthen (py (ss_commit S)) (bnd (py (lift_sum (job_of idem))) (\<lambda>job. ret (Job job True)))) ?Q failure_carried"
      by (cases found) (auto simp only: option.case split: if_split intro!: new any.triple_andthen[OF carries_py old] any.triple_andthen[OF carries_py resumed])
  qed
qed

lemma finalize_records:
  assumes "unit_of_work E S stored pending" and "ledger_session S pending ledger"
    and "\<And>e. keeps (unchanged stored) (ie_audit E e)" and "\<And>n. ce_int (ie_cells E) (JInt n) = Inr n"
    and run: "finalize E S req job a n rejected s = (Inr st, s')"
  shows "recorded (ie_cells E) (ledger (stored s') (ir_operation_key req)) st"
proof -
  let ?row = "idem_row req job ''applied'' @ [(''applied'', JInt a), (''noop'', JInt n), (''rejected'', JInt (int rejected))]"
  from run obtain u2 s2 b s3 u4 s4 u5 where
    up: "py (ss_upsert S ''import_idempotency'' (idem_key req) ?row) s2 = (Inr b, s3)"
    and co: "py (ss_commit S) s3 = (Inr u4, s4)" and au: "emit_import_audit E req ''ImportCompleted'' ''success'' s4 = (Inr u5, s')"
    and st: "st = \<lparr>st_import_id = job, st_tenant_id = ir_tenant_id req, st_state = ''applied'', st_applied_count = a,
      st_noop_count = n, st_rejected_count = int rejected, st_last_error_summary = [],
      st_correlation_id = ir_correlation_id req, st_replayed = False\<rparr>"
    unfolding finalize_def by (auto simp only: andthen_Inr ret_run prod.inject sum.inject)
  from py_cases[OF up] obtain q where q: "ss_upsert S ''import_idempotency'' (idem_key req) ?row s2 = (q, s3)"
    "Inr b = (case q of Inl e \<Rightarrow> Inl (PyError e) | Inr a \<Rightarrow> Inr a)" by blast
  then have "ss_upsert S ''import_idempotency'' (idem_key req) ?row s2 = (Inr b, s3)" by (cases q) auto
  then obtain h where h: "ledger (pending s3) (ir_operation_key req) = Some h"
    and cols: "\<And>c v. dict_get ?row c = Some v \<Longrightarrow> dict_get h c = Some v"
    using assms(2) unfolding ledger_session_def idem_key_def by blast
  have kept: "stored s' = stored s4" using keepsD[OF keeps_py[OF assms(3)] au[unfolded emit_import_audit_def]]
    by (simp add: unchanged_def)
  have "stored s4 = pending s3" using work_steps(2)[OF assms(1) co] by simp
  with kept h have led: "ledger (stored s') (ir_operation_key req) = Some h" by simp
  have "dict_get h ''job_id'' = Some (JStr job)" "dict_get h ''status'' = Some (JStr ''applied'')"
    "dict_get h ''applied'' = Some (JInt a)" "dict_get h ''noop'' = Some (JInt n)" "dict_get h ''rejected'' = Some (JInt (int rejected))"
    by (rule cols, simp add: dict_get_def idem_row_def)+
  then show ?thesis unfolding recorded_def
    by (intro exI[of _ h] conjI) (auto simp: led st stored_status_def job_of_def row_item_def count_cell_def obj_get_def assms(4))
qed

lemma body_records:
  assumes "unit_of_work E S stored pending" and "ledger_session S pending ledger"
    and "\<And>e. keeps (unchanged stored) (ie_audit E e)" and "\<And>n. ce_int (ie_cells E) (JInt n) = Inr n"
  shows "triple (\<lambda>s t. True) (\<lambda>_. True) (import_body E S req)
    (\<lambda>st s. st_replayed st \<or> recorded (ie_cells E) (ledger (stored s) (ir_operation_key req)) st) failure_carried"
    (is "triple _ _ _ ?Q _")
proof -
  have fin: "triple (\<lambda>s t. True) (\<lambda>_. True) (finalize E S req job a n rejected) ?Q failure_carried" for job a n rejected
  proof (rule tripleI)
    fix s r t assume run: "finalize E S req job a n rejected s = (r, t)"
    have "carries (finalize E S req job a n rejected)"
      unfolding finalize_def emit_import_audit_def by (intro carries_rules)
    from tripleD[OF this _ run] finalize_records[OF assms] run
    show "True \<and> (\<forall>a. r = Inr a \<longrightarrow> ?Q a t) \<and> (\<forall>e. r = Inl e \<longrightarrow> failure_carried e t)" by auto
  qed
  have run: "triple (\<lambda>s t. True) (\<lambda>_. True) (run_job E S req job resuming) ?Q failure_carried" for job resuming
    unfolding run_job_def apply_batches_def emit_import_audit_def
    by (rule any.triple_andthen[OF carries_py] any.triple_bnd[OF carries_collect] any.triple_bnd[OF carries_resume]
        any.triple_bnd[OF any.triple_bnd[OF carries_py carries_run_batches]] fin | simp only: case_prod_beta)+
  show ?thesis unfolding import_body_def
  proof (rule any.triple_bnd[OF begin_job_replays])
    fix b :: begun
    show "triple (\<lambda>s t. True) (\<lambda>s. case b of Replay st \<Rightarrow> st_replayed st | Job j again \<Rightarrow> True)
        (case b of Replay st \<Rightarrow> andthen (emit_import_audit E req ''ImportCompleted'' ''replayed'') (ret st)
          | Job job resuming \<Rightarrow> run_job E S req job resuming) ?Q failure_carried"
      using run unfolding emit_import_audit_def
      by (cases b) (auto simp: triple_def py_def failure_carried_def split: prod.splits sum.splits)
  qed
qed

lemma start_records:
  assumes work: "unit_of_work E S stored pending" and "ledger_session S pending ledger"
    and audit: "\<And>e. keeps (unchanged stored) (ie_audit E e)" and "\<And>n. ce_int (ie_cells E) (JInt n) = Inr n"
    and opens: "\<And>s q t. ie_open E (ir_tenant_id req) (ir_correlation_id req) (Some (ir_actor_ref req)) BULK s = (Inr q, t) \<Longrightarrow> q = S"
    and run: "start_import E req s = (Inr st, s')" and fresh: "st_state st = ''applied''" "\<not> st_replayed st"
  shows "recorded (ie_cells E) (ledger (stored s') (ir_operation_key req)) st"
proof -
  from run obtain s2 where closed: "closing_session S (handle (import_body E S req) (surface_failure E req)) s2 = (Inr st, s')"
    unfolding start_import_def using opens
    by (auto simp: py_def split: prod.splits sum.splits)
  obtain q s3 where body: "import_body E S req s2 = (q, s3)" by (cases "import_body E S req s2")
  note out = tripleD[OF body_records[OF assms(1-4)] _ body]
  have "q = Inr st"
  proof (cases q)
    case (Inl e)
    with closed body out fresh show ?thesis
      by (auto simp: closing_session_def surface_failure_def failure_carried_def split: import_error.splits prod.splits sum.splits)
  next
    case (Inr x)
    with closed body show ?thesis by (auto simp: closing_session_def split: prod.splits sum.splits)
  qed
  with out fresh have rec: "recorded (ie_cells E) (ledger (stored s3) (ir_operation_key req)) st" by simp
  have "keeps (unchanged stored) (py (ss_close S))"
    using work transactional_keeps(3) unfolding unit_of_work_def by (intro keeps_py) blast
  moreover from closed body \<open>q = Inr st\<close> obtain p where "py (ss_close S) s3 = (p, s')"
    by (auto simp: closing_session_def split: prod.splits sum.splits)
  ultimately have "stored s' = stored s3" by (auto dest: keepsD simp: unchanged_def)
  with rec show ?thesis by simp
qed

lemma answered: "answers m \<Longrightarrow> \<exists>a t. m s = (Inr a, t) \<and> py m s = (Inr a, t)"
  unfolding answers_def py_def by (metis (mono_tags, lifting) old.prod.case old.sum.simps(6))

lemma replay_body:
  assumes work: "unit_of_work E S stored pending" and ledger: "ledger_session S pending ledger"
    and audit: "\<And>e. keeps (unchanged stored) (ie_audit E e)" "\<And>e. answers (ie_audit E e)"
    and ports: "answers (ss_begin S)" "\<And>t k. answers (ss_get S t k)" "answers (ss_commit S)"
    and rec: "recorded (ie_cells E) (ledger (stored s) (ir_operation_key req)) st"
  shows "\<exists>t. import_body E S req s = (Inr (st\<lparr>st_tenant_id := ir_tenant_id req,
      st_correlation_id := ir_correlation_id req, st_replayed := True\<rparr>), t) \<and> stored t = stored s"
proof -
  obtain s1 u where b: "ss_begin S s = (Inr u, s1)" "py (ss_begin S) s = (Inr u, s1)" using answered[OF ports(1)] by blast
  obtain f s2 where g: "ss_get S ''import_idempotency'' (idem_key req) s1 = (Inr f, s2)"
    "py (ss_get S ''import_idempotency'' (idem_key req)) s1 = (Inr f, s2)" using answered[OF ports(2)] by blast
  obtain s3 v where c: "ss_commit S s2 = (Inr v, s3)" "py (ss_commit S) s2 = (Inr v, s3)" using answered[OF ports(3)] by blast
  obtain s4 w where a: "emit_import_audit E req ''ImportCompleted'' ''replayed'' s3 = (Inr w, s4)"
    unfolding emit_import_audit_def using answered[OF audit(2)] by blast
  have p1: "pending s1 = stored s" using work b unfolding unit_of_work_def by simp
  have p2: "f = ledger (pending s1) (ir_operation_key req)" "pending s2 = pending s1"
    using ledger g(1) unfolding ledger_session_def idem_key_def by blast+
  have p3: "stored s3 = pending s2" using work c unfolding unit_of_work_def by simp
  have p4: "stored s4 = stored s3" using keepsD[OF keeps_py[OF audit(1)] a[unfolded emit_import_audit_def]] by (simp add: unchanged_def)
  from rec p1 p2 obtain h where h: "f = Some h" "h \<noteq> []" "obj_get h ''status'' = JStr ''applied''"
    "stored_status (ie_cells E) h (ir_tenant_id req) (ir_correlation_id req) ''applied'' True
       = Inr (st\<lparr>st_tenant_id := ir_tenant_id req, st_correlation_id := ir_correlation_id req, st_replayed := True\<rparr>)"
    unfolding recorded_def by auto
  have "begin_job E S req s = (Inr (Replay (st\<lparr>st_tenant_id := ir_tenant_id req, st_correlation_id := ir_correlation_id req, st_replayed := True\<rparr>)), s3)"
    unfolding begin_job_def by (simp add: b(2) g(2) c(2) h) (simp add: py_def)
  with a p1 p2 p3 p4 show ?thesis by (simp add: import_body_def)
qed


section \<open>A tenant database\<close>

text \<open>
  Committed rows and the rows of the open transaction, by table and key; a batch of two records, and
  the import of one record from a source.
\<close>

type_synonym db = "((string \<times> row), row) dict"

definition db_session :: "(db \<times> db) import_session" where
  "db_session =
     \<lparr>ss_tenant_id = ''acme'', ss_begin = writes (\<lambda>(c, w). (c, c)), ss_commit = writes (\<lambda>(c, w). (w, w)),
      ss_rollback = writes (\<lambda>(c, w). (c, c)), ss_close = ret (),
      ss_upsert = (\<lambda>t k r. \<lambda>(c, w). (Inr (dict_get w (t, k) \<noteq> Some r), (c, dict_put (t, k) r w))),
      ss_append = (\<lambda>t r. writes (\<lambda>(c, w). (c, dict_put (t, r) r w))),
      ss_update = (\<lambda>t k r. ret ()),
      ss_get = (\<lambda>t k. reads (\<lambda>(c, w). dict_get w (t, k))), ss_latest = (\<lambda>t k o'. ret None)\<rparr>"

definition plain_cells :: cells where
  "plain_cells = \<lparr>ce_text = (\<lambda>v. case v of JStr s \<Rightarrow> s | _ \<Rightarrow> []),
     ce_int = (\<lambda>v. case v of JInt n \<Rightarrow> Inr n | _ \<Rightarrow> Inl ''ValueError'')\<rparr>"

definition db_import :: "raw_record list \<Rightarrow> (db \<times> db) import_env" where
  "db_import raws =
     \<lparr>ie_cells = plain_cells, ie_open = (\<lambda>t c p l. ret db_session), ie_emit = (\<lambda>S i. ret ''l1''),
      ie_audit = (\<lambda>e. ret ()), ie_sources = (\<lambda>k. Some (\<lambda>d. ret raws)), ie_uuid = ret ''j1'', ie_now = ret ''now'',
      ie_schema_version = ''1'', ie_batch_size = 2\<rparr>"

definition one_request :: "string \<Rightarrow> import_request" where
  "one_request cid =
     \<lparr>ir_tenant_id = ''acme'', ir_source = \<lparr>sd_kind = SOURCE_JSON, sd_ref = ''f'', sd_payload = None, sd_directory_kind = None\<rparr>,
      ir_mode = SYNC, ir_operation_key = ''op'', ir_correlation_id = cid, ir_actor_ref = ''u'',
      ir_natural_key_field = ''id'', ir_target_table = ''startups''\<rparr>"

lemma db_work: "unit_of_work (db_import raws) db_session fst snd"
  unfolding unit_of_work_def transactional_def
  by (intro conjI allI) (auto simp: keeps_def db_session_def db_import_def unchanged_def split: prod.splits)

lemma db_ledger: "ledger_session db_session snd (\<lambda>d k. dict_get d (''import_idempotency'', [(''operation_key'', JStr k)]))"
  by (auto simp: ledger_session_def db_session_def)

definition plain_record :: "string \<Rightarrow> import_record" where
  "plain_record k = \<lparr>im_natural_key = k, im_fields = [(''id'', JStr k)], im_pii_fields = [], im_source_ref = ''f''\<rparr>"

lemmas db_eval = db_session_def db_import_def plain_cells_def one_request_def plain_record_def py_def


definition one_raw :: raw_record where
  "one_raw = \<lparr>rw_data = [(''id'', JStr ''a''), (''city'', JStr ''Oslo'')], rw_source_ref = ''f''\<rparr>"


end
