(* ===== verification/ReadClients.thy ===== *)
theory ReadClients
  imports AR_Auth DR_Router Config Wire
begin

text \<open>
  The clients of the control plane's read edge in the auth router (\<open>http_control_plane_read.py\<close>) and in the database
  router (\<open>http_routing_read.py\<close>). Their records are built of the decoded document without a check of its field types;
  here they are typed, and a field of another type, which the read edge never sends, is an exception.
\<close>

section \<open>Reading a document\<close>

text \<open>Nothing on a 404, an exception on any other error status, on no answer and on a body that does not decode.\<close>

definition fetched :: "(string \<Rightarrow> json option) \<Rightarrow> exchange \<Rightarrow> string + json option" where
  "fetched loads x =
     (case x of
        NoAnswer \<Rightarrow> Inl ''URLError''
      | HttpFailure status _ \<Rightarrow> if status = 404 then Inr None else Inl ''HTTPError''
      | Response _ raw \<Rightarrow> (case loads raw of None \<Rightarrow> Inl ''ValueError'' | Some v \<Rightarrow> Inr (Some v)))"

text \<open>\<open>data\<close> is falsy: absent, or an empty or zero value.\<close>

definition falsy :: "json option \<Rightarrow> bool" where
  "falsy doc = (case doc of None \<Rightarrow> True | Some v \<Rightarrow> \<not> truthy v)"

definition raised :: "string + 'a \<Rightarrow> auth_error + 'a" where
  "raised r = (case r of Inl x \<Rightarrow> Inl (Raised x) | Inr a \<Rightarrow> Inr a)"

definition quoted_claim :: "json \<Rightarrow> auth_error + string" where
  "quoted_claim v = (case v of JStr s \<Rightarrow> Inr (quote s) | _ \<Rightarrow> Inl (Raised ''TypeError''))"

section \<open>The read client of the auth router\<close>

definition federation_of :: "json option \<Rightarrow> string + federation_view option" where
  "federation_of doc =
     (if falsy doc then Inr None
      else case doc of
          Some (JObj d) \<Rightarrow>
            if \<not> has_keys d [''tenant_id'', ''oidc_issuer'', ''oidc_audience'', ''jwks_ref'', ''claim_to_tenant_rule''] then Inl ''TypeError''
            else (case map (obj_get d) [''tenant_id'', ''oidc_issuer'', ''oidc_audience'', ''jwks_ref'', ''claim_to_tenant_rule''] of
                [JStr tid, JStr issuer, JStr audience, JStr jwks, JStr rule] \<Rightarrow>
                  Inr (Some \<lparr>fv_tenant_id = tid, fv_oidc_issuer = issuer, fv_oidc_audience = audience, fv_jwks_ref = jwks,
                    fv_claim_to_tenant_rule = rule\<rparr>)
              | _ \<Rightarrow> Inl ''TypeError'')
        | _ \<Rightarrow> Inl ''TypeError'')"

definition tenant_state_of :: "json option \<Rightarrow> string + auth_tenant_state option" where
  "tenant_state_of doc =
     (if falsy doc then Inr None
      else case doc of
          Some (JObj d) \<Rightarrow>
            if \<not> has_keys d [''tenant_id'', ''lifecycle_state'', ''ready''] then Inl ''TypeError''
            else (case (obj_get d ''tenant_id'', obj_get d ''lifecycle_state'', obj_get d ''ready'') of
                (JStr tid, JStr st, JBool ready) \<Rightarrow> Inr (Some \<lparr>tv_tenant_id = tid, tv_lifecycle_state = st, tv_ready = ready\<rparr>)
              | _ \<Rightarrow> Inl ''TypeError'')
        | _ \<Rightarrow> Inl ''TypeError'')"

definition member_of :: "json option \<Rightarrow> string + bool" where
  "member_of doc =
     (if falsy doc then Inr False
      else case doc of Some (JObj d) \<Rightarrow> Inr (truthy (obj_get d ''member'')) | _ \<Rightarrow> Inl ''AttributeError'')"

definition auth_roles :: "auth_role list" where
  "auth_roles = [auth_role.CONTROL, auth_role.MASTER_AGENT, auth_role.TENANT_ADMIN, auth_role.TENANT_AGENT, auth_role.STARTUP_USER, auth_role.INVESTOR_USER]"

definition role_of :: "json option \<Rightarrow> string + auth_role option" where
  "role_of doc =
     (if falsy doc then Inr None
      else case doc of
          Some (JObj d) \<Rightarrow>
            if \<not> truthy (obj_get d ''role'') then Inr None
            else (case find (\<lambda>r. JStr (auth_role_value r) = obj_get d ''role'') auth_roles of
                None \<Rightarrow> Inl ''ValueError'' | Some r \<Rightarrow> Inr (Some r))
        | _ \<Rightarrow> Inl ''AttributeError'')"

definition reading :: "(string \<Rightarrow> 'w \<Rightarrow> exchange \<times> 'w) \<Rightarrow> (string \<Rightarrow> json option) \<Rightarrow> auth_error + string
    \<Rightarrow> (json option \<Rightarrow> string + 'a) \<Rightarrow> ('w, auth_error, 'a) proc" where
  "reading fetch loads target parse =
     (case target of
        Inl e \<Rightarrow> raise e
      | Inr path \<Rightarrow> sending (fetch path) (\<lambda>x. raised (sbind (fetched loads x) parse)))"

definition http_control_read :: "(string \<Rightarrow> 'w \<Rightarrow> exchange \<times> 'w) \<Rightarrow> (string \<Rightarrow> json option) \<Rightarrow> 'w read_port" where
  "http_control_read fetch loads =
     \<lparr>rd_federation = (\<lambda>issuer. reading fetch loads (sbind (quoted_claim issuer) (\<lambda>i. Inr (''/federation?issuer='' @ i))) federation_of),
      rd_tenant_state = (\<lambda>tid. reading fetch loads (sbind (quoted_claim tid) (\<lambda>t. Inr (''/tenants/'' @ t @ ''/state''))) tenant_state_of),
      rd_is_member = (\<lambda>who tid. reading fetch loads
        (sbind (quoted_claim who) (\<lambda>p. sbind (quoted_claim tid) (\<lambda>t. Inr (''/membership?p='' @ p @ ''&t='' @ t)))) member_of),
      rd_get_role = (\<lambda>who tid. reading fetch loads
        (sbind (quoted_claim who) (\<lambda>p. sbind (quoted_claim tid) (\<lambda>t. Inr (''/role?p='' @ p @ ''&t='' @ t)))) role_of)\<rparr>"

section \<open>The routing read client of the database router\<close>

definition association_of :: "json \<Rightarrow> secret_ref option" where
  "association_of v =
     (case v of
        JObj d \<Rightarrow> (case (obj_get d ''store_ref'', obj_get d ''version'') of
            (JStr r, JStr n) \<Rightarrow> Some \<lparr>store_ref = r, ref_version = n\<rparr> | _ \<Rightarrow> None)
      | _ \<Rightarrow> None)"

definition routing_view_of :: "json option \<Rightarrow> string + tenant_routing_view option" where
  "routing_view_of doc =
     (case doc of
        None \<Rightarrow> Inr None
      | Some (JObj d) \<Rightarrow>
          (case (association_of (obj_get d ''database_association_ref''), obj_get d ''tenant_id'', obj_get d ''lifecycle_state'',
                 obj_get d ''expected_schema_version'') of
             (Some ref, JStr tid, JStr st, JStr sv) \<Rightarrow>
               if dict_get d ''ready'' = None then Inl ''KeyError''
               else Inr (Some \<lparr>rv_tenant_id = tid, rv_lifecycle_state = st, rv_ready = truthy (obj_get d ''ready''),
                 rv_association = ref, rv_expected_schema_version = sv\<rparr>)
           | _ \<Rightarrow> Inl ''KeyError'')
      | _ \<Rightarrow> Inl ''TypeError'')"

definition http_routing_read ::
    "(string \<Rightarrow> 'w \<Rightarrow> exchange \<times> 'w) \<Rightarrow> (string \<Rightarrow> json option) \<Rightarrow> string \<Rightarrow> ('w, dr_error, tenant_routing_view option) proc" where
  "http_routing_read fetch loads tid =
     sending (fetch (''/internal/routing/tenants/'' @ quote tid)) (\<lambda>x.
       case sbind (fetched loads x) routing_view_of of Inl e \<Rightarrow> Inl (Fault e) | Inr v \<Rightarrow> Inr v)"

end
