(* ===== verification/CP_ReadEdge.thy ===== *)
theory CP_ReadEdge
  imports CP_ReadApi Config Wire
begin

text \<open>
  The read edge of the control plane (\<open>control_plane/adapters/providers/http_read_api.py\<close>): the request target as the
  dispatcher takes it apart, the documents it answers, and one unit of work per request. \<open>acquire\<close> gives the store of
  a unit of work, nothing where opening or using it raises.
\<close>

section \<open>Targets\<close>

definition read_request_target :: "string \<Rightarrow> string" where
  "read_request_target target =
     (case split_at CHR ''?'' target of (path, query) \<Rightarrow> if query = [] then path else path @ CHR ''?'' # query)"

definition read_dispatch ::
    "(string \<Rightarrow> bool) \<Rightarrow> (nat list \<Rightarrow> string) \<Rightarrow> control_store \<Rightarrow> string \<Rightarrow> string \<Rightarrow> string + (int \<times> read_body)" where
  "read_dispatch netloc_ok utf8 s meth target =
     (if meth \<noteq> ''GET'' then Inr (405, Err ''method_not_allowed'')
      else case urlsplit netloc_ok target of
          None \<Rightarrow> Inl ''ValueError''
        | Some u \<Rightarrow> read_handle s meth (up_path u) (parse_qs utf8 False (up_query u)) (parse_qs utf8 True (up_query u)))"

section \<open>Documents\<close>

definition association_json :: "secret_ref \<Rightarrow> json" where
  "association_json r = JObj [(''store_ref'', JStr (store_ref r)), (''version'', JStr (ref_version r))]"

definition directory_view_json :: "directory_view \<Rightarrow> json" where
  "directory_view_json v =
     JObj [(''directory'', JStr (dv_directory v)), (''record_id'', JStr (dv_record_id v)),
       (''display_name'', JStr (dv_display_name v)), (''attributes'', JObj (map (\<lambda>(k, a). (k, JStr a)) (dv_attributes v)))]"

definition membership_json :: "string \<times> string \<Rightarrow> json" where
  "membership_json m = JObj [(''tenant_id'', JStr (fst m)), (''role'', JStr (snd m))]"

fun read_json :: "read_body \<Rightarrow> json" where
  "read_json (Routing v) =
     JObj [(''tenant_id'', JStr (cr_tenant_id v)), (''lifecycle_state'', JStr (cr_lifecycle_state v)), (''ready'', JBool (cr_ready v)),
       (''database_association_ref'', association_json (cr_association v)),
       (''expected_schema_version'', JStr (cr_expected_schema_version v))]"
| "read_json (State v) =
     JObj [(''tenant_id'', JStr (ts_tenant_id v)), (''lifecycle_state'', JStr (ts_lifecycle_state v)), (''ready'', JBool (ts_ready v))]"
| "read_json (Member b) = JObj [(''member'', JBool b)]"
| "read_json (RoleIs r) = JObj [(''role'', JStr r)]"
| "read_json (Memberships ms) = JObj [(''memberships'', JList (map membership_json ms))]"
| "read_json (DirRecord v) = directory_view_json v"
| "read_json (DirPage p) =
     JObj [(''records'', JList (map directory_view_json (pg_records p))),
       (''next_cursor'', case pg_next_cursor p of None \<Rightarrow> JNull | Some c \<Rightarrow> JStr c)]"
| "read_json (Federation c) =
     JObj [(''tenant_id'', JStr (fed_tenant_id c)), (''oidc_issuer'', JStr (oidc_issuer c)), (''oidc_audience'', JStr (oidc_audience c)),
       (''jwks_ref'', JStr (jwks_ref c)), (''claim_to_tenant_rule'', JStr (claim_to_tenant_rule c))]"
| "read_json (Err code) = JObj [(''error'', JStr code)]"

declare read_json.simps [simp del]

section \<open>The edge\<close>

definition answer_read :: "string + (int \<times> read_body) \<Rightarrow> edge_answer" where
  "answer_read r = (case r of Inl _ \<Rightarrow> empty_response 503 | Inr (status, body) \<Rightarrow> json_response status (read_json body))"

definition read_edge ::
    "(json \<Rightarrow> string) \<Rightarrow> (string \<Rightarrow> bool) \<Rightarrow> (nat list \<Rightarrow> string) \<Rightarrow> ('w \<Rightarrow> control_store option) \<Rightarrow> string \<Rightarrow> 'w \<Rightarrow> exchange \<times> 'w" where
  "read_edge dumps netloc_ok utf8 acquire target w =
     (exchange_of dumps
        (case acquire w of
           None \<Rightarrow> empty_response 503
         | Some s \<Rightarrow> answer_read (read_dispatch netloc_ok utf8 s ''GET'' (read_request_target target))), w)"

section \<open>The targets of the clients\<close>

definition quoted_only :: "string \<Rightarrow> bool" where
  "quoted_only s \<longleftrightarrow> (\<forall>c\<in>set s. unreserved c \<or> c \<in> set ''/%=&'')"

lemma quoted_only_simps [simp]:
  "quoted_only []" "quoted_only (quote s)" "quoted_only (s @ t) \<longleftrightarrow> quoted_only s \<and> quoted_only t"
  "quoted_only (c # s) \<longleftrightarrow> (unreserved c \<or> c \<in> set ''/%=&'') \<and> quoted_only s"
  using quote_chars by (fastforce simp: quoted_only_def)+

lemma quoted_only_free: "quoted_only s \<Longrightarrow> set s \<inter> set '':?#[]'' = {} \<and> (\<forall>c\<in>set s. 32 < char_code c)"
  by (auto simp: quoted_only_def unreserved_def is_alpha_def is_digit_def char_code_def)

lemma target_split:
  assumes "quoted_only path" "quoted_only query" "starts_with ''/'' path" "\<not> starts_with ''//'' path" "netloc_ok []"
  shows "urlsplit netloc_ok (read_request_target (path @ (if query = [] then [] else CHR ''?'' # query)))
    = Some \<lparr>up_scheme = [], up_netloc = [], up_path = path, up_query = query, up_fragment = []\<rparr>"
proof -
  let ?T = "path @ (if query = [] then [] else CHR ''?'' # query)"
  have free: "set path \<inter> set '':?#[]'' = {}" "set query \<inter> set '':?#[]'' = {}" "\<forall>c\<in>set path. 32 < char_code c" "\<forall>c\<in>set query. 32 < char_code c"
    using quoted_only_free assms(1,2) by auto
  have none: "m \<notin> set s \<Longrightarrow> split_at m s = (s, [])" for m s
    unfolding split_at_def by (induction s) auto
  have q: "split_at CHR ''?'' ?T = (path, query)"
    using free(1) none[of "CHR ''?''" path] split_at_cut[of "CHR ''?''" path query] by auto
  have kept: "read_request_target ?T = ?T" using q by (simp add: read_request_target_def)
  have codes: "\<forall>c\<in>set ?T. 32 < char_code c" using free(3,4) by (auto simp: char_code_def)
  have "hd ?T = CHR ''/''" "?T \<noteq> []" using assms(3) by (cases path; simp add: starts_with_def)+
  then have clean: "url_clean ?T = ?T"
    using codes by (cases ?T) (auto simp: url_clean_def filter_id_conv)
  have "CHR ''#'' \<notin> set ?T" using free(1,2) by auto
  then have hash: "split_at CHR ''#'' ?T = (?T, [])" by (rule none)
  have "CHR '':'' \<notin> set ?T" using free(1,2) by auto
  then have "dropWhile (\<lambda>c. c \<noteq> CHR '':'') ?T = []" unfolding dropWhile_eq_Nil_conv by fast
  then have scheme: "split_scheme ?T = ([], ?T)" by (simp only: split_scheme_def Let_def) simp
  have "\<not> starts_with ''//'' ?T" using assms(3,4) by (cases path; cases "tl path") (auto simp: starts_with_def)
  then have "split_netloc ?T = ([], ?T)" by (simp add: split_netloc_def)
  then show ?thesis using assms(5) unfolding kept urlsplit_def clean scheme by (simp add: hash q del: append_assoc)
qed

lemma dispatch_at:
  assumes "quoted_only path" "quoted_only query" "starts_with ''/'' path" "\<not> starts_with ''//'' path" "netloc_ok []"
  shows "read_dispatch netloc_ok utf8 s ''GET'' (read_request_target (path @ (if query = [] then [] else CHR ''?'' # query)))
    = read_handle s ''GET'' path (parse_qs utf8 False query) (parse_qs utf8 True query)"
  using target_split[where netloc_ok = netloc_ok, OF assms] by (simp add: read_dispatch_def)

lemma fixed_path:
  "quoted_only ''/membership''" "quoted_only ''/role''" "quoted_only ''/memberships''" "quoted_only ''/federation''"
  "quoted_only ''/tenants/''" "quoted_only ''/state''" "quoted_only ''/internal/routing/tenants/''" "quoted_only ''/directory/''"
  "quoted_only ''p=''" "quoted_only ''&t=''" "quoted_only ''issuer=''"
  by (simp_all add: unreserved_def is_alpha_def is_digit_def char_code_def)

lemma segments_of:
  assumes "seg \<noteq> []" "CHR ''/'' \<notin> set seg"
  shows "filter (\<lambda>p. p \<noteq> []) (split_on CHR ''/'' (''/tenants/'' @ seg @ ''/state'')) = [''tenants'', seg, ''state'']"
    "filter (\<lambda>p. p \<noteq> []) (split_on CHR ''/'' (''/internal/routing/tenants/'' @ seg)) = [''internal'', ''routing'', ''tenants'', seg]"
    "filter (\<lambda>p. p \<noteq> []) (split_on CHR ''/'' (''/directory/'' @ seg)) = [''directory'', seg]"
  using assms split_on_cut[OF assms(2), of "''state''"] split_on_nomark[OF assms(2)] by simp_all

text \<open>What the dispatcher answers to the targets the clients build.\<close>

lemma dispatch_members:
  assumes "utf8_codec utf8" "netloc_ok []"
  shows "read_dispatch netloc_ok utf8 s ''GET'' (read_request_target (''/membership?p='' @ quote p @ ''&t='' @ quote t))
      = Inr (200, Member (read_is_member s p t))"
    and "read_dispatch netloc_ok utf8 s ''GET'' (read_request_target (''/role?p='' @ quote p @ ''&t='' @ quote t))
      = Inr (or_404 RoleIs (read_get_role s p t))"
proof -
  have q: "quoted_only (''p='' @ quote p @ ''&t='' @ quote t)" "''p='' @ quote p @ ''&t='' @ quote t \<noteq> []"
    using fixed_path by simp_all
  have parsed: "parse_qs utf8 False (''p='' @ quote p @ ''&t='' @ quote t) = (if p = [] then [] else [(''p'', [p])]) @ (if t = [] then [] else [(''t'', [t])])"
    using parse_two[OF assms(1), of "''p''" "''t''" p t] by simp
  then have args: "first_of (parse_qs utf8 False (''p='' @ quote p @ ''&t='' @ quote t)) ''p'' [] = p"
    "first_of (parse_qs utf8 False (''p='' @ quote p @ ''&t='' @ quote t)) ''t'' [] = t"
    by (simp_all add: first_of_def dict_get_def)
  show "read_dispatch netloc_ok utf8 s ''GET'' (read_request_target (''/membership?p='' @ quote p @ ''&t='' @ quote t))
      = Inr (200, Member (read_is_member s p t))"
    using dispatch_at[OF fixed_path(1) q(1), of netloc_ok utf8 s] q(2) assms(2) args by (simp add: starts_with_def read_handle_def)
  show "read_dispatch netloc_ok utf8 s ''GET'' (read_request_target (''/role?p='' @ quote p @ ''&t='' @ quote t))
      = Inr (or_404 RoleIs (read_get_role s p t))"
    using dispatch_at[OF fixed_path(2) q(1), of netloc_ok utf8 s] q(2) assms(2) args by (simp add: starts_with_def read_handle_def)
qed

lemma dispatch_one:
  assumes "utf8_codec utf8" "netloc_ok []"
  shows "read_dispatch netloc_ok utf8 s ''GET'' (read_request_target (''/memberships?p='' @ quote p))
      = Inr (200, Memberships (memberships_for_principal s p))"
    and "read_dispatch netloc_ok utf8 s ''GET'' (read_request_target (''/federation?issuer='' @ quote p))
      = Inr (if p = [] then (400, Err ''invalid_issuer'') else or_404 Federation (federation_for_issuer s p))"
proof -
  have q: "quoted_only (''p='' @ quote p)" "quoted_only (''issuer='' @ quote p)" using fixed_path by simp_all
  have parsed: "parse_qs utf8 keep (''p='' @ quote p) = (if p = [] \<and> \<not> keep then [] else [(''p'', [p])])"
    "parse_qs utf8 keep (''issuer='' @ quote p) = (if p = [] \<and> \<not> keep then [] else [(''issuer'', [p])])" for keep
    using parse_one[OF assms(1), of "''p''" keep p] parse_one[OF assms(1), of "''issuer''" keep p] by simp_all
  then have arg: "first_of (parse_qs utf8 False (''p='' @ quote p)) ''p'' [] = p" by (simp add: first_of_def dict_get_def)
  show "read_dispatch netloc_ok utf8 s ''GET'' (read_request_target (''/memberships?p='' @ quote p))
      = Inr (200, Memberships (memberships_for_principal s p))"
    using dispatch_at[OF fixed_path(3) q(1), of netloc_ok utf8 s] assms(2) arg by (simp add: starts_with_def read_handle_def)
  have issuer: "dict_get (parse_qs utf8 True (''issuer='' @ quote p)) ''issuer'' = Some [p]" using parsed by (simp add: dict_get_def)
  show "read_dispatch netloc_ok utf8 s ''GET'' (read_request_target (''/federation?issuer='' @ quote p))
      = Inr (if p = [] then (400, Err ''invalid_issuer'') else or_404 Federation (federation_for_issuer s p))"
    using dispatch_at[OF fixed_path(4) q(2), of netloc_ok utf8 s] assms(2) issuer by (simp add: starts_with_def read_handle_def read_federation_def)
qed

text \<open>Paths are not decoded: a tenant is looked up under its quoted identifier.\<close>

lemma dispatch_tenant:
  assumes "netloc_ok []" "t \<noteq> []" "CHR ''/'' \<notin> set t"
  shows "read_dispatch netloc_ok utf8 s ''GET'' (read_request_target (''/tenants/'' @ quote t @ ''/state''))
      = Inr (or_404 State (tenant_state s (quote t)))"
    and "read_dispatch netloc_ok utf8 s ''GET'' (read_request_target (''/internal/routing/tenants/'' @ quote t))
      = Inr (or_404 Routing (routing_view s (quote t)))"
proof -
  have seg: "quote t \<noteq> []" "CHR ''/'' \<notin> set (quote t)" using assms(2,3) quote_slash by simp_all
  have "quoted_only (''/tenants/'' @ quote t @ ''/state'')" "quoted_only (''/internal/routing/tenants/'' @ quote t)"
    using fixed_path by simp_all
  note at = this[THEN dispatch_at[where query = "[]" and netloc_ok = netloc_ok and s = s]]
  show "read_dispatch netloc_ok utf8 s ''GET'' (read_request_target (''/tenants/'' @ quote t @ ''/state''))
      = Inr (or_404 State (tenant_state s (quote t)))"
    using at(1) segments_of[OF seg] assms(1) by (simp add: starts_with_def read_handle_def)
  show "read_dispatch netloc_ok utf8 s ''GET'' (read_request_target (''/internal/routing/tenants/'' @ quote t))
      = Inr (or_404 Routing (routing_view s (quote t)))"
    using at(2) segments_of[OF seg] assms(1) by (simp add: starts_with_def read_handle_def)
qed

lemma dispatch_directory:
  assumes "netloc_ok []" "kind \<noteq> []" "CHR ''/'' \<notin> set kind"
  shows "read_dispatch netloc_ok utf8 s ''GET'' (read_request_target (''/directory/'' @ quote kind)) = read_directory_page s (quote kind) []"
proof -
  have seg: "quote kind \<noteq> []" "CHR ''/'' \<notin> set (quote kind)" using assms(2,3) quote_slash by simp_all
  have "quoted_only (''/directory/'' @ quote kind)" using fixed_path by simp
  note at = this[THEN dispatch_at[where query = "[]" and netloc_ok = netloc_ok and s = s]]
  have "parse_qs utf8 keep [] = []" for keep by (simp add: parse_qs_def qsl_pair_def split_at_def List.map_filter_def)
  with at show ?thesis using segments_of[OF seg] assms(1) by (simp add: starts_with_def read_handle_def)
qed

end
