(* ===== verification/GW_Edge.thy ===== *)
theory GW_Edge
  imports GW_Gateway Config
begin

text \<open>
  The northbound HTTP edge of the gateway (\<open>backend/api_gateway/adapters/providers/http_gateway_edge.py\<close>, with
  \<open>api_gateway/readiness.py\<close> and the application shape of \<open>shared/adapters/providers/fastapi_edge.py\<close>). The ASGI
  server and the web framework are arguments: which registered path template a decoded path matches. An
  exception no handler catches is answered by the application's last handler, outside the transport
  middleware. The content headers the framework adds by itself are left out.
\<close>

record edge_request =
  eq_method :: string
  eq_raw_path :: "string option"
  eq_path :: string
  eq_query :: string
  eq_headers :: "(string \<times> string) list"
  eq_body :: string

record edge_reply =
  el_status :: int
  el_body :: string
  el_preflight :: "(string \<times> string) option"

record http_answer =
  ha_status :: int
  ha_headers :: "(string, string) dict"
  ha_body :: string

section \<open>Limits and targets\<close>

definition MAX_CORRELATION_LEN :: nat where "MAX_CORRELATION_LEN = 128"
definition MAX_REQUEST_TARGET_BYTES :: nat where "MAX_REQUEST_TARGET_BYTES = 2048"
definition MAX_HEADER_COUNT :: nat where "MAX_HEADER_COUNT = 64"
definition MAX_TOTAL_HEADER_BYTES :: nat where "MAX_TOTAL_HEADER_BYTES = 16384"
definition MAX_BODY_BYTES :: int where "MAX_BODY_BYTES = 0"
definition MAX_SOURCE_REF_BYTES :: nat where "MAX_SOURCE_REF_BYTES = 512"
definition MAX_PATCH_BODY_BYTES :: int where "MAX_PATCH_BODY_BYTES = 16384"

definition is_alnum :: "char \<Rightarrow> bool" where
  "is_alnum c = (is_alpha c \<or> is_digit c)"

definition safe_correlation :: "string \<Rightarrow> bool" where
  "safe_correlation s = (s \<noteq> [] \<and> list_all (\<lambda>c. is_alnum c \<or> c \<in> set ''._-'') s)"

definition safe_import_segment :: "string \<Rightarrow> bool" where
  "safe_import_segment s = (s \<noteq> [] \<and> is_alnum (hd s) \<and> list_all (\<lambda>c. is_alnum c \<or> c \<in> set ''._-'') s)"

definition safe_startup_ref :: "string \<Rightarrow> bool" where
  "safe_startup_ref s = (s \<noteq> [] \<and> is_alnum (hd s) \<and> list_all (\<lambda>c. is_alnum c \<or> c \<in> set ''._:-'') s)"

definition valid_startup_target :: "string \<Rightarrow> bool" where
  "valid_startup_target target =
     (starts_with TENANT_STARTUP_PREFIX target
      \<and> (let suffix = drop (length TENANT_STARTUP_PREFIX) target in
         1 \<le> utf8_length suffix \<and> utf8_length suffix \<le> MAX_STARTUP_REF_BYTES \<and> safe_startup_ref suffix))"

definition valid_import_target :: "string \<Rightarrow> bool" where
  "valid_import_target target =
     (starts_with IMPORT_PREFIX target
      \<and> (let suffix = drop (length IMPORT_PREFIX) target in
         1 \<le> utf8_length suffix \<and> utf8_length suffix \<le> MAX_SOURCE_REF_BYTES
         \<and> list_all safe_import_segment (split_on CHR ''/'' suffix)))"

definition request_target :: "edge_request \<Rightarrow> string" where
  "request_target req =
     (case eq_raw_path req of None \<Rightarrow> eq_path req | Some p \<Rightarrow> p)
     @ (if eq_query req = [] then [] else CHR ''?'' # eq_query req)"

text \<open>Header names compare without case; the first of several wins.\<close>

fun header_get :: "(string \<times> string) list \<Rightarrow> string \<Rightarrow> string option" where
  "header_get [] name = None"
| "header_get ((k, v) # hs) name = (if to_lower k = to_lower name then Some v else header_get hs name)"

definition accepted_correlation :: "edge_request \<Rightarrow> string option" where
  "accepted_correlation req =
     (case header_get (eq_headers req) ''x-correlation-id'' of
        None \<Rightarrow> None
      | Some raw \<Rightarrow>
          if length (strip raw) \<le> MAX_CORRELATION_LEN \<and> safe_correlation (strip raw) then Some (strip raw) else None)"

definition body_budget :: "string \<Rightarrow> string \<Rightarrow> int" where
  "body_budget target verb =
     (if verb = ''PATCH'' \<and> valid_startup_target target then MAX_PATCH_BODY_BYTES else MAX_BODY_BYTES)"

definition header_bytes :: "(string \<times> string) list \<Rightarrow> nat" where
  "header_bytes hs = sum_list (map (\<lambda>(k, v). length k + length v + 4) hs)"

definition bounds_violation :: "edge_request \<Rightarrow> string \<Rightarrow> int \<Rightarrow> int option" where
  "bounds_violation req target budget =
     (if MAX_REQUEST_TARGET_BYTES < utf8_length target then Some 413
      else if MAX_HEADER_COUNT < length (eq_headers req) then Some 413
      else if MAX_TOTAL_HEADER_BYTES < header_bytes (eq_headers req) then Some 413
      else if header_get (eq_headers req) ''Transfer-Encoding'' \<notin> {None, Some []} then Some 413
      else case header_get (eq_headers req) ''Content-Length'' of
          None \<Rightarrow> None
        | Some raw \<Rightarrow> (case py_int raw of
              None \<Rightarrow> Some 400
            | Some n \<Rightarrow> if budget < n then Some 413 else None))"

section \<open>Handlers\<close>

record 's edge_env =
  eg_core :: "inbound_request \<Rightarrow> ('s, gateway_response) gw_proc"
  eg_mint :: "'s \<Rightarrow> string \<times> 's"
  eg_dumps :: "json \<Rightarrow> string"
  eg_dumps_compact :: "json \<Rightarrow> string"
  eg_matches :: "string \<Rightarrow> string \<Rightarrow> bool"
  eg_origins :: "string list"

definition empty_reply :: "int \<Rightarrow> edge_reply" where
  "empty_reply status = \<lparr>el_status = status, el_body = [], el_preflight = None\<rparr>"

definition preflight :: "string \<Rightarrow> string \<Rightarrow> edge_reply" where
  "preflight methods headers = \<lparr>el_status = 204, el_body = [], el_preflight = Some (methods, headers)\<rparr>"

definition liveness_json :: json where
  "liveness_json = JObj [(''service'', JStr ''api_gateway''), (''status'', JStr ''alive''), (''build_phase'', JStr ''7'')]"

definition readiness_json :: json where
  "readiness_json = JObj [(''service'', JStr ''api_gateway''), (''state'', JStr ''ready'')]"

definition forwarded_headers :: "edge_request \<Rightarrow> string \<Rightarrow> (string, string) dict" where
  "forwarded_headers req cid =
     (''x-correlation-id'', cid) #
     (case header_get (eq_headers req) ''X-Tenant-Id'' of None \<Rightarrow> [] | Some t \<Rightarrow> [(''X-Tenant-Id'', t)])"

definition import_forwarded_headers :: "edge_request \<Rightarrow> string \<Rightarrow> (string, string) dict" where
  "import_forwarded_headers req cid =
     forwarded_headers req cid @
     (case header_get (eq_headers req) ''x-operation-key'' of None \<Rightarrow> [] | Some k \<Rightarrow> [(''x-operation-key'', k)])"

definition import_result_dto :: "portal_dto \<Rightarrow> bool" where
  "import_result_dto d = (case d of ImportResultDTO _ \<Rightarrow> True | _ \<Rightarrow> False)"

definition startup_detail_dto :: "portal_dto \<Rightarrow> bool" where
  "startup_detail_dto d = (case d of TenantStartupDetailDTO _ \<Rightarrow> True | _ \<Rightarrow> False)"

text \<open>
  Only a success with a document of the route's kind is rendered; an error status is kept with an empty
  body, and anything else is a 503.
\<close>

definition terminal :: "'s edge_env \<Rightarrow> (portal_dto \<Rightarrow> bool) \<Rightarrow> gateway_response \<Rightarrow> edge_reply" where
  "terminal E expected resp =
     (case gr_portal_dto resp of
        Some dto \<Rightarrow>
          if gr_status resp = 200 \<and> expected dto
          then \<lparr>el_status = 200, el_body = eg_dumps_compact E (portal_json dto), el_preflight = None\<rparr>
          else empty_reply (if 400 \<le> gr_status resp then gr_status resp else 503)
      | None \<Rightarrow> empty_reply (if 400 \<le> gr_status resp then gr_status resp else 503))"

definition inbound :: "edge_request \<Rightarrow> string \<Rightarrow> string \<Rightarrow> (string, string) dict \<Rightarrow> string option \<Rightarrow> inbound_request" where
  "inbound req verb path headers body =
     \<lparr>ib_method = verb, ib_path = path,
      ib_host = (case header_get (eq_headers req) ''Host'' of None \<Rightarrow> [] | Some h \<Rightarrow> h),
      ib_headers = headers, ib_query = [], ib_cookies = [],
      ib_authorization = header_get (eq_headers req) ''Authorization'', ib_patch_body = body\<rparr>"

definition invoke :: "'s edge_env \<Rightarrow> (portal_dto \<Rightarrow> bool) \<Rightarrow> inbound_request \<Rightarrow> ('s, edge_reply) gw_proc" where
  "invoke E expected ib = bnd (eg_core E ib) (\<lambda>resp. ret (terminal E expected resp))"

datatype edge_route =
    MEMBERSHIPS_ROUTE | MEMBERSHIPS_PREFLIGHT | HEALTH_ROUTE | READINESS_ROUTE
  | IMPORT_ROUTE | IMPORT_PREFLIGHT | STARTUP_ROUTE | STARTUP_PREFLIGHT

definition registered_routes :: "(string \<times> string list \<times> edge_route) list" where
  "registered_routes =
     [(''/memberships'', [''GET''], MEMBERSHIPS_ROUTE),
      (''/memberships'', [''OPTIONS''], MEMBERSHIPS_PREFLIGHT),
      (''/health'', [''GET''], HEALTH_ROUTE),
      (''/readiness'', [''GET''], READINESS_ROUTE),
      (''/import/{source_ref:path}'', [''POST''], IMPORT_ROUTE),
      (''/import/{source_ref:path}'', [''OPTIONS''], IMPORT_PREFLIGHT),
      (''/tenant/startups/{startup_ref}'', [''GET'', ''PATCH''], STARTUP_ROUTE),
      (''/tenant/startups/{startup_ref}'', [''OPTIONS''], STARTUP_PREFLIGHT)]"

text \<open>The first route of a matching template that takes the method; 405 where only the template matches.\<close>

definition route_of :: "(string \<Rightarrow> string \<Rightarrow> bool) \<Rightarrow> string \<Rightarrow> string \<Rightarrow> int + edge_route" where
  "route_of matches verb path =
     (case find (\<lambda>(template, verbs, _). matches template path \<and> verb \<in> set verbs) registered_routes of
        Some (_, _, r) \<Rightarrow> Inr r
      | None \<Rightarrow> Inl (if list_ex (\<lambda>(template, _). matches template path) registered_routes then 405 else 404))"

definition handle_route :: "'s edge_env \<Rightarrow> edge_request \<Rightarrow> string \<Rightarrow> string \<Rightarrow> edge_route \<Rightarrow> ('s, edge_reply) gw_proc" where
  "handle_route E req target cid r =
     (case r of
        MEMBERSHIPS_ROUTE \<Rightarrow> invoke E (\<lambda>_. True) (inbound req ''GET'' ''/memberships'' (forwarded_headers req cid) None)
      | MEMBERSHIPS_PREFLIGHT \<Rightarrow> ret (preflight ''GET, OPTIONS'' ''Authorization, x-correlation-id'')
      | HEALTH_ROUTE \<Rightarrow> ret \<lparr>el_status = 200, el_body = eg_dumps E liveness_json, el_preflight = None\<rparr>
      | READINESS_ROUTE \<Rightarrow> ret \<lparr>el_status = 200, el_body = eg_dumps E readiness_json, el_preflight = None\<rparr>
      | IMPORT_ROUTE \<Rightarrow>
          if \<not> valid_import_target target then ret (empty_reply 404)
          else invoke E import_result_dto (inbound req ''POST'' target (import_forwarded_headers req cid) None)
      | IMPORT_PREFLIGHT \<Rightarrow>
          if \<not> valid_import_target target then ret (empty_reply 404)
          else ret (preflight ''POST, OPTIONS'' ''Authorization, x-correlation-id, x-operation-key'')
      | STARTUP_ROUTE \<Rightarrow>
          if \<not> valid_startup_target target then ret (empty_reply 404)
          else invoke E startup_detail_dto
            (inbound req (eq_method req) target (forwarded_headers req cid)
              (if eq_method req = ''PATCH'' then Some (eq_body req) else None))
      | STARTUP_PREFLIGHT \<Rightarrow>
          if \<not> valid_startup_target target then ret (empty_reply 404)
          else ret (preflight ''GET, PATCH, OPTIONS'' ''Authorization, x-correlation-id, content-type, x-tenant-id''))"

section \<open>The application\<close>

definition cors_headers :: "string list \<Rightarrow> string option \<Rightarrow> (string \<times> string) option \<Rightarrow> (string, string) dict" where
  "cors_headers allowed origin pre =
     (case origin of
        None \<Rightarrow> []
      | Some o' \<Rightarrow>
          if o' \<notin> set allowed then []
          else [(''Access-Control-Allow-Origin'', o'), (''Access-Control-Allow-Credentials'', ''false''), (''Vary'', ''Origin'')]
            @ (case pre of None \<Rightarrow> []
               | Some (methods, headers) \<Rightarrow> [(''Access-Control-Allow-Methods'', methods), (''Access-Control-Allow-Headers'', headers)]))"

definition dress :: "'s edge_env \<Rightarrow> edge_request \<Rightarrow> string \<Rightarrow> edge_reply \<Rightarrow> http_answer" where
  "dress E req cid reply =
     \<lparr>ha_status = el_status reply,
      ha_headers = (''Cache-Control'', ''no-store'') # (''x-correlation-id'', cid)
        # cors_headers (eg_origins E) (header_get (eq_headers req) ''Origin'') (el_preflight reply),
      ha_body = el_body reply\<rparr>"

definition uncaught :: http_answer where
  "uncaught = \<lparr>ha_status = 503, ha_headers = [], ha_body = []\<rparr>"

definition edge_reply_of :: "'s edge_env \<Rightarrow> edge_request \<Rightarrow> string \<Rightarrow> ('s, edge_reply) gw_proc" where
  "edge_reply_of E req cid =
     (let target = request_target req in
      case bounds_violation req target (body_budget target (eq_method req)) of
        Some status \<Rightarrow> ret (empty_reply status)
      | None \<Rightarrow>
          if eq_query req \<noteq> [] then ret (empty_reply 404)
          else case route_of (eg_matches E) (eq_method req) (eq_path req) of
              Inl status \<Rightarrow> ret (empty_reply status)
            | Inr r \<Rightarrow> handle_route E req target cid r)"

definition edge_app :: "'s edge_env \<Rightarrow> edge_request \<Rightarrow> 's \<Rightarrow> http_answer \<times> 's" where
  "edge_app E req s =
     (case (case accepted_correlation req of Some c \<Rightarrow> (c, s) | None \<Rightarrow> eg_mint E s) of (cid, s1) \<Rightarrow>
      case edge_reply_of E req cid s1 of
        (Inl _, t) \<Rightarrow> (uncaught, t)
      | (Inr reply, t) \<Rightarrow> (dress E req cid reply, t))"

end
