(* ===== verification/GW_Compose.thy ===== *)
theory GW_Compose
  imports GW_Edge GW_Clients Config
begin

text \<open>
  The composition root of the gateway (\<open>backend/api_gateway/main.py\<close>): the transport selectors, what they
  wire, and the gateway built of it. The network is an argument, one transport per base URL; the default
  audit emitter and metrics recorder are in memory and are part of the state.
\<close>

section \<open>Selectors\<close>

definition authenticator_from_env :: "(string \<Rightarrow> bool) \<Rightarrow> env \<Rightarrow> string + string option" where
  "authenticator_from_env ok env = selected (http_base ok) env ''SP2_GW_AUTH_ROUTER_BASE_URL''"

definition router_dispatch_from_env :: "(string \<Rightarrow> bool) \<Rightarrow> env \<Rightarrow> string + string option" where
  "router_dispatch_from_env ok env = selected (http_base ok) env ''SP2_GW_DB_ROUTER_BASE_URL''"

definition control_plane_read_from_env :: "(string \<Rightarrow> bool) \<Rightarrow> env \<Rightarrow> string + string option" where
  "control_plane_read_from_env ok env = selected (http_base ok) env ''SP2_GW_CONTROL_READ_BASE_URL''"

definition import_initiation_from_env :: "(string \<Rightarrow> bool) \<Rightarrow> env \<Rightarrow> string + string option" where
  "import_initiation_from_env ok env = selected (http_base ok) env ''SP2_GW_IMPORT_BASE_URL''"

definition tenant_startup_from_env :: "(string \<Rightarrow> bool) \<Rightarrow> env \<Rightarrow> string + string option" where
  "tenant_startup_from_env ok env = selected (http_base ok) env ''SP2_GW_TENANT_STARTUP_BASE_URL''"

definition audit_emitter_from_env :: "(string \<Rightarrow> bool) \<Rightarrow> env \<Rightarrow> string + string option" where
  "audit_emitter_from_env ok env = selected (http_base ok) env ''SP2_GW_AUDIT_SINK_BASE_URL''"

definition edge_port_from_env :: "env \<Rightarrow> string + int" where
  "edge_port_from_env env = port_from_env env ''SP2_GW_EDGE_PORT''"

text \<open>The entries between commas, blanks dropped.\<close>

definition edge_allowed_origins_from_env :: "env \<Rightarrow> string list" where
  "edge_allowed_origins_from_env env =
     filter (\<lambda>o'. o' \<noteq> []) (map strip (split_on CHR '','' (case env ''SP2_GW_EDGE_ALLOWED_ORIGINS'' of None \<Rightarrow> [] | Some v \<Rightarrow> v)))"

section \<open>Wiring\<close>

record gateway_wiring =
  wr_authenticator :: string
  wr_control_read :: string
  wr_router :: string
  wr_audit :: "string option"
  wr_import :: "string option"
  wr_startup :: "string option"

definition gateway_edge_deps_from_env :: "(string \<Rightarrow> bool) \<Rightarrow> env \<Rightarrow> string + (gateway_wiring \<times> string list) option" where
  "gateway_edge_deps_from_env ok env =
     sbind (authenticator_from_env ok env) (\<lambda>authenticator.
     sbind (control_plane_read_from_env ok env) (\<lambda>control_read.
     sbind (router_dispatch_from_env ok env) (\<lambda>router.
     case (authenticator, control_read, router) of
       (Some a, Some c, Some r) \<Rightarrow>
         sbind (audit_emitter_from_env ok env) (\<lambda>audit.
         sbind (import_initiation_from_env ok env) (\<lambda>imports.
         sbind (tenant_startup_from_env ok env) (\<lambda>startup.
         Inr (Some (\<lparr>wr_authenticator = a, wr_control_read = c, wr_router = r, wr_audit = audit, wr_import = imports,
           wr_startup = startup\<rparr>, edge_allowed_origins_from_env env)))))
     | _ \<Rightarrow> Inr None)))"

text \<open>What the edge server gets: the wiring, the origins, and where to listen.\<close>

definition gateway_edge_server_from_env ::
    "(string \<Rightarrow> bool) \<Rightarrow> env \<Rightarrow> string + (gateway_wiring \<times> string list \<times> string \<times> int) option" where
  "gateway_edge_server_from_env ok env =
     sbind (gateway_edge_deps_from_env ok env) (\<lambda>deps.
     case deps of
       None \<Rightarrow> Inr None
     | Some (wiring, origins) \<Rightarrow>
         sbind (edge_port_from_env env) (\<lambda>port. Inr (Some (wiring, origins, host_from_env env ''SP2_GW_EDGE_HOST'', port))))"

text \<open>The application factory of the operator: an inactive composition is an error.\<close>

definition gateway_app_from_env :: "(string \<Rightarrow> bool) \<Rightarrow> env \<Rightarrow> string + gateway_wiring \<times> string list" where
  "gateway_app_from_env ok env =
     sbind (gateway_edge_deps_from_env ok env) (\<lambda>deps. case deps of None \<Rightarrow> Inl ''RuntimeError'' | Some d \<Rightarrow> Inr d)"

section \<open>The gateway of a wiring\<close>

record 'w gateway_world =
  gs_world :: 'w
  gs_trail :: "gateway_event list"
  gs_metrics :: "request_metric list"

definition in_world :: "('w, 'e, 'a) proc \<Rightarrow> ('w gateway_world, 'e, 'a) proc" where
  "in_world m s = (case m (gs_world s) of (r, w) \<Rightarrow> (r, s\<lparr>gs_world := w\<rparr>))"

definition memory_emit :: "gateway_event \<Rightarrow> ('w gateway_world, unit) gw_proc" where
  "memory_emit e = writes (\<lambda>s. s\<lparr>gs_trail := gs_trail s @ [e]\<rparr>)"

definition memory_metrics :: "request_metric \<Rightarrow> ('w gateway_world, unit) gw_proc" where
  "memory_metrics m = writes (\<lambda>s. s\<lparr>gs_metrics := gs_metrics s @ [m]\<rparr>)"

text \<open>The world the clients reach: transports per base URL, JSON, identifiers and clocks.\<close>

record 'w outside =
  ot_post :: "string \<Rightarrow> 'w transport"
  ot_fetch :: "string \<Rightarrow> string \<Rightarrow> 'w \<Rightarrow> exchange \<times> 'w"
  ot_quote :: "string \<Rightarrow> string"
  ot_loads :: "string \<Rightarrow> json option"
  ot_float_one :: "string \<Rightarrow> bool"
  ot_uuid :: "('w, string) gw_proc"
  ot_now :: "('w, string) gw_proc"
  ot_monotonic :: "('w, rat) gw_proc"

definition kilobytes :: "nat \<Rightarrow> nat" where "kilobytes n = n * 1024"

definition build_gateway ::
    "'w outside
      \<Rightarrow> (string option \<Rightarrow> string list \<Rightarrow> string \<Rightarrow> ('w gateway_world, auth_result) gw_proc)
      \<Rightarrow> (request_context \<Rightarrow> dispatch_decision \<Rightarrow> ('w gateway_world, route_outcome) gw_proc)
      \<Rightarrow> 'w gateway_world control_read option
      \<Rightarrow> (gateway_event \<Rightarrow> ('w gateway_world, unit) gw_proc) option
      \<Rightarrow> (import_initiation_request \<Rightarrow> ('w gateway_world, import_initiation_outcome) gw_proc) option
      \<Rightarrow> 'w gateway_world startup_port option \<Rightarrow> 'w gateway_world gateway" where
  "build_gateway net authenticate dispatch control_read audit imports startup =
     \<lparr>gw_authenticate = authenticate, gw_dispatch = dispatch, gw_control_read = control_read, gw_classify = default_classifier,
      gw_audit = (case audit of Some e \<Rightarrow> e | None \<Rightarrow> memory_emit), gw_metrics = memory_metrics, gw_import = imports,
      gw_startup = startup, gw_loads = ot_loads net, gw_uuid = in_world (ot_uuid net), gw_now = in_world (ot_now net),
      gw_monotonic = in_world (ot_monotonic net)\<rparr>"

definition post_to :: "'w outside \<Rightarrow> string \<Rightarrow> 'w transport" where
  "post_to net base = ot_post net (rstrip_slash base)"

definition fetch_from :: "'w outside \<Rightarrow> string \<Rightarrow> string \<Rightarrow> 'w \<Rightarrow> exchange \<times> 'w" where
  "fetch_from net base = ot_fetch net (rstrip_slash base)"

definition wired_audit :: "'w outside \<Rightarrow> string \<Rightarrow> gateway_event \<Rightarrow> ('w gateway_world, unit) gw_proc" where
  "wired_audit net base =
     partition_emit (\<lambda>e. in_world (bounded_emit (durable_emit (post_to net base) (ot_float_one net) (ot_loads net)) e)) memory_emit"

definition wired_gateway :: "'w outside \<Rightarrow> gateway_wiring \<Rightarrow> 'w gateway_world gateway" where
  "wired_gateway net W =
     build_gateway net
       (\<lambda>a cs k. in_world (http_authenticate (post_to net (wr_authenticator W)) (ot_loads net) (kilobytes 64) a cs k))
       (\<lambda>ctx d. in_world (http_dispatch (post_to net (wr_router W)) (ot_loads net) ctx d))
       (Some \<lparr>cr_directory = (\<lambda>k. in_world (http_directory (fetch_from net (wr_control_read W)) (ot_quote net) (ot_loads net) (kilobytes 256) k)),
          cr_memberships = (\<lambda>p. in_world (http_memberships (fetch_from net (wr_control_read W)) (ot_quote net) (ot_loads net) (kilobytes 256) p))\<rparr>)
       (map_option (wired_audit net) (wr_audit W))
       (map_option (\<lambda>base r. in_world (http_initiate (post_to net base) (ot_float_one net) (ot_loads net) r)) (wr_import W))
       (map_option (\<lambda>base. \<lparr>sp_read = (\<lambda>r. in_world (http_startup_read (post_to net base) (ot_float_one net) (ot_loads net) (kilobytes 64) r)),
          sp_update = (\<lambda>r. in_world (http_startup_update (post_to net base) (ot_float_one net) (ot_loads net) (kilobytes 64) r))\<rparr>) (wr_startup W))"

end
