(* ===== verification/GW_Stack.thy ===== *)
theory GW_Stack
  imports GW_Compose AR_Http Wire
begin

text \<open>
  The gateway in front of the auth router: the internal authenticate edge as the transport its client uses
  (\<open>auth_router/adapters/providers/http_authenticate_api.py\<close>), and what the two decide together.
\<close>

definition refusal_document :: "int \<Rightarrow> string \<Rightarrow> json" where
  "refusal_document status code = JObj [(''status'', JInt status), (''public_code'', JStr code)]"

definition context_document :: "auth_context \<Rightarrow> json" where
  "context_document ctx =
     JObj [(''correlation_id'', JStr (ax_correlation_id ctx)), (''principal_ref'', ax_principal_ref ctx),
       (''active_tenant_id'', case ax_active_tenant_id ctx of None \<Rightarrow> JNull | Some v \<Rightarrow> v), (''role'', json_opt (ax_role ctx))]"

definition auth_answer :: "auth_reply \<Rightarrow> edge_answer" where
  "auth_answer r =
     (case r of
        EmptyReply status \<Rightarrow> empty_response status
      | RejectReply status code \<Rightarrow> json_response status (refusal_document status code)
      | ContextReply ctx \<Rightarrow> json_response 200 (context_document ctx))"

definition auth_edge :: "(json \<Rightarrow> string) \<Rightarrow> (string \<Rightarrow> bool) \<Rightarrow> (string \<Rightarrow> json option) \<Rightarrow> 'w authenticator \<Rightarrow> 'w transport" where
  "auth_edge dumps float_one loads A =
     serving dumps ''/internal/auth/authenticate''
       (\<lambda>raw w. case auth_handle A float_one False (loads raw) w of (r, t) \<Rightarrow> (auth_answer r, t))"

text \<open>A service whose state is a part of the world.\<close>

definition zoomed :: "('s \<Rightarrow> 'w) \<Rightarrow> ('w \<Rightarrow> 's \<Rightarrow> 's) \<Rightarrow> 'w transport \<Rightarrow> 's transport" where
  "zoomed get put tr path v s = (case tr path v (get s) of (x, t) \<Rightarrow> (x, put t s))"

section \<open>The decision of the two\<close>

definition wire_identity :: "auth_context \<Rightarrow> gw_error + auth_result" where
  "wire_identity ctx =
     (case (ax_principal_ref ctx, str_or_null (case ax_active_tenant_id ctx of None \<Rightarrow> JNull | Some v \<Rightarrow> v)) of
        (JStr who, Some tenant) \<Rightarrow>
          Inr \<lparr>az_correlation_id = ax_correlation_id ctx, az_principal_ref = who, az_active_tenant_id = tenant, az_role = ax_role ctx\<rparr>
      | _ \<Rightarrow> Inl unavailable)"

definition denied_as :: "auth_denied \<Rightarrow> gw_error" where
  "denied_as d =
     (if ad_http_status d = 401 then gw_unauthenticated
      else if ad_http_status d = 403 then (if ad_public_code d = ''carrier_mismatch'' then carrier_mismatch else forbidden)
      else unavailable)"

lemma distinct_strings:
  "\<exists>fresh. distinct_carriers seen (map JStr cs) = Inr (seen @ fresh) \<and> set (seen @ fresh) = set seen \<union> set cs
    \<and> (distinct seen \<longrightarrow> distinct (seen @ fresh))"
proof (induction cs arbitrary: seen)
  case (Cons c cs)
  show ?case
    using Cons[of "if c \<in> set seen then seen else seen @ [c]"] by (auto split: if_splits)
qed simp

lemma reduce_strings:
  "reduce_carriers (JList (map JStr cs)) =
    (if cs = [] then Inr None else if set cs = {hd cs} then Inr (Some (hd cs)) else Inl (AuthReject 403 ''carrier_mismatch''))"
proof -
  obtain ts where ts: "distinct_carriers [] (map JStr cs) = Inr ts" "set ts = set cs" "distinct ts"
    using distinct_strings[of "[]" cs] by auto
  consider "ts = []" | t where "ts = [t]" | t u rest where "ts = t # u # rest" by (metis list.exhaust)
  then show ?thesis
  proof cases
    case 1
    with ts show ?thesis by (simp add: reduce_carriers_def)
  next
    case (2 t)
    then have d: "distinct_carriers [] (map JStr cs) = Inr [t]" using ts(1) by simp
    have "set cs = {t}" unfolding ts(2)[symmetric] 2 by simp
    then have ne: "cs \<noteq> []" by (metis empty_set insert_not_empty)
    then have "hd cs \<in> {t}" using \<open>set cs = {t}\<close> hd_in_set by blast
    with d ne \<open>set cs = {t}\<close> show ?thesis by (simp add: reduce_carriers_def)
  next
    case (3 t u rest)
    then have d: "distinct_carriers [] (map JStr cs) = Inr (t # u # rest)" using ts(1) by simp
    have "t \<noteq> u" "t \<in> set cs" "u \<in> set cs" using ts(3) 3 by (auto simp: ts(2)[symmetric])
    then have "cs \<noteq> []" "set cs \<noteq> {hd cs}" by (metis empty_iff empty_set, metis singletonD)
    with d show ?thesis by (simp add: reduce_carriers_def)
  qed
qed

lemma opened_envelope:
  "open_auth_envelope float_one (Some (auth_envelope a cs k)) =
    (if k = [] then Inl (AuthEnvelope ''correlation_id must be a non-empty string'')
     else case bearer_token (json_opt a) of
         None \<Rightarrow> Inl (AuthReject 401 ''unauthenticated'')
       | Some tok \<Rightarrow> (case reduce_carriers (JList (map JStr cs)) of Inl e \<Rightarrow> Inl e | Inr carrier \<Rightarrow> Inr (tok, k, carrier)))"
proof -
  let ?d = "[(''v'', JInt 1), (''authorization'', json_opt a), (''recognized_carriers'', JList (map JStr cs)), (''correlation_id'', JStr k)]"
  have "obj_get ?d ''v'' = JInt 1" "obj_get ?d ''correlation_id'' = JStr k" "obj_get ?d ''authorization'' = json_opt a"
    "obj_get ?d ''recognized_carriers'' = JList (map JStr cs)" "has_keys ?d AUTH_KEYS"
    by (auto simp: has_keys_def AUTH_KEYS_def obj_get_def dict_get_def)
  then show ?thesis
    by (cases "bearer_token (json_opt a)") (simp_all add: open_auth_envelope_def auth_envelope_def is_version_one_def)
qed

lemma context_seen:
  "codec dumps loads \<Longrightarrow> map_success loads (dumps (context_document ctx)) = wire_identity ctx"
  by (cases "ax_role ctx") (auto simp: map_success_def context_document_def has_keys_def SUCCESS_KEYS_def obj_get_def dict_get_def
      wire_identity_def str_or_null_def json_opt_def split: json.splits option.splits)

text \<open>One call of the client over the edge.\<close>

lemma authenticate_wired:
  assumes codec: "codec dumps loads" and small: "length (dumps (refusal_document 403 ''carrier_mismatch'')) \<le> n"
  shows "http_authenticate (auth_edge dumps float_one loads A) loads n a cs k w =
    (if k = [] then (Inl unavailable, w)
     else case bearer_token (json_opt a) of
         None \<Rightarrow> (Inl gw_unauthenticated, w)
       | Some tok \<Rightarrow>
           if cs \<noteq> [] \<and> set cs \<noteq> {hd cs} then (Inl carrier_mismatch, w)
           else (case authenticate A tok k (if cs = [] then None else Some (hd cs)) None w of
               (Inr ctx, t) \<Rightarrow> (if n < length (dumps (context_document ctx)) then Inl unavailable else wire_identity ctx, t)
             | (Inl (AuthDenied d), t) \<Rightarrow> (Inl (denied_as d), t)
             | (Inl (Raised x), t) \<Rightarrow> (Inl unavailable, t)))"
proof -
  have wired: "http_authenticate (auth_edge dumps float_one loads A) loads n a cs k w =
      (case auth_handle A float_one False (Some (auth_envelope a cs k)) w of (r, t) \<Rightarrow> (read_auth_answer loads n (exchange_of dumps (auth_answer r)), t))"
    by (simp add: http_authenticate_def sending_def auth_edge_def serving_def codecD[OF codec] split: prod.splits)
  have answers: "read_auth_answer loads n (exchange_of dumps (auth_answer (EmptyReply 503))) = Inl unavailable"
    "read_auth_answer loads n (exchange_of dumps (auth_answer (RejectReply 401 c))) = Inl gw_unauthenticated"
    "read_auth_answer loads n (exchange_of dumps (auth_answer (RejectReply 503 c))) = Inl unavailable"
    "read_auth_answer loads n (exchange_of dumps (auth_answer (RejectReply 403 ''carrier_mismatch''))) = Inl carrier_mismatch"
    "c \<noteq> ''carrier_mismatch'' \<Longrightarrow> read_auth_answer loads n (exchange_of dumps (auth_answer (RejectReply 403 c))) = Inl forbidden"
    "read_auth_answer loads n (exchange_of dumps (auth_answer (ContextReply ctx)))
      = (if n < length (dumps (context_document ctx)) then Inl unavailable else wire_identity ctx)" for c ctx
    using small
    by (auto simp: auth_answer_def empty_response_def json_response_def exchange_of_def read_auth_answer_def map_error_def
        read_public_code_def codecD[OF codec] refusal_document_def obj_get_def dict_get_def context_seen[OF codec])
  show ?thesis
  proof (cases "k \<noteq> [] \<and> bearer_token (json_opt a) \<noteq> None \<and> (cs = [] \<or> set cs = {hd cs})")
    case False
    then show ?thesis
      unfolding wired
      by (cases "k = []"; cases "bearer_token (json_opt a)")
        (auto simp: auth_handle_def auth_api_def opened_envelope reduce_strings answers)
  next
    case True
    then obtain tok where tok: "bearer_token (json_opt a) = Some tok" by auto
    let ?c = "if cs = [] then None else Some (hd cs)"
    obtain r t where r: "authenticate A tok k ?c None w = (r, t)" by fastforce
    have opened: "open_auth_envelope float_one (Some (auth_envelope a cs k)) = Inr (tok, k, ?c)"
      using True tok by (auto simp: opened_envelope reduce_strings)
    show ?thesis
    proof (cases r)
      case (Inr ctx)
      with True tok opened r show ?thesis by (auto simp: wired auth_handle_def auth_api_def answers)
    next
      case (Inl e)
      with True tok opened r show ?thesis
        by (cases e) (auto simp: wired auth_handle_def auth_api_def answers map_denied_def denied_as_def)
    qed
  qed
qed

end
