(* ===== verification/GW_Facts.thy ===== *)
theory GW_Facts
  imports GW_Gateway
begin

text \<open>
  Facts about the pipeline: which tenant its ports are addressed with, and which events it leaves in
  the audit sink.
\<close>

section \<open>One tenant per request\<close>

definition foreign :: gw_error where "foreign = GwException ''foreign tenant''"

text \<open>The gateway with every tenant-bound port refusing any tenant but \<open>t\<close>.\<close>

definition guarded :: "string \<Rightarrow> 's gateway \<Rightarrow> 's gateway" where
  "guarded t G =
     G\<lparr>gw_dispatch := (\<lambda>ctx d. if dd_target_tenant_id d \<in> {None, Some t} \<and> rq_active_tenant_id ctx \<in> {None, Some t}
          then gw_dispatch G ctx d else raise foreign),
       gw_import := map_option (\<lambda>f r. if iq_target_tenant_ref r = t then f r else raise foreign) (gw_import G),
       gw_startup := map_option (\<lambda>P. \<lparr>sp_read = (\<lambda>r. if su_target_tenant_ref r = t then sp_read P r else raise foreign),
          sp_update = (\<lambda>r. if su_target_tenant_ref r = t then sp_update P r else raise foreign)\<rparr>) (gw_startup G)\<rparr>"

lemma guarded_fields [simp]:
  "gw_authenticate (guarded t G) = gw_authenticate G" "gw_control_read (guarded t G) = gw_control_read G"
  "gw_classify (guarded t G) = gw_classify G" "gw_audit (guarded t G) = gw_audit G" "gw_metrics (guarded t G) = gw_metrics G"
  "gw_loads (guarded t G) = gw_loads G" "gw_uuid (guarded t G) = gw_uuid G" "gw_now (guarded t G) = gw_now G"
  "gw_monotonic (guarded t G) = gw_monotonic G"
  by (simp_all add: guarded_def)

lemma guarded_sink [simp]: "sink_event (guarded t G) = sink_event G" "operation_key (guarded t G) = operation_key G"
  "correlation_id (guarded t G) = correlation_id G" "dispatch_decision_of (guarded t G) = dispatch_decision_of G"
  by (intro ext, simp add: sink_event_def operation_key_def correlation_id_def dispatch_decision_of_def cong: option.case_cong)+

lemma guarded_emit [simp]: "emit_edge (guarded t G) = emit_edge G" "serve_with_event (guarded t G) = serve_with_event G"
  by (intro ext, simp only: emit_edge_def serve_with_event_def guarded_sink)+

lemma guarded_deny [simp]: "deny_with_event (guarded t G) = deny_with_event G" "finish_startup (guarded t G) = finish_startup G"
  by (intro ext, simp only: deny_with_event_def finish_startup_def guarded_emit)+

lemma guarded_control [simp]: "serve_control (guarded t G) = serve_control G"
  by (intro ext, simp only: serve_control_def guarded_deny guarded_emit)

lemma dispatch_decision_target:
  "dispatch_decision_of G req ctx = Inr d \<Longrightarrow>
     dd_target_tenant_id d = (if dd_domain d = DOMAIN_TENANT then rq_active_tenant_id ctx else None)
     \<and> (dd_domain d = DOMAIN_TENANT \<longrightarrow> rq_active_tenant_id ctx \<noteq> None) \<and> dd_domain d = category_domain (dd_category d)"
  by (cases "category_domain (dd_category d)")
    (auto simp: dispatch_decision_of_def sbind_Inr decide_def assert_single_database_def category_domain_def split: if_splits)

lemma guarded_hand_off:
  "\<lbrakk>dd_target_tenant_id d \<in> {None, Some t}; rq_active_tenant_id ctx \<in> {None, Some t}\<rbrakk>
    \<Longrightarrow> hand_off (guarded t G) req ctx d = hand_off G req ctx d"
  unfolding hand_off_def guarded_fields by (simp add: guarded_def)

lemma guarded_import:
  "target \<in> {None, Some t} \<Longrightarrow>
     serve_import (guarded t G) (\<lambda>r. if iq_target_tenant_ref r = t then f r else raise foreign) req cid em auth ctx target c
     = serve_import G f req cid em auth ctx target c"
  unfolding serve_import_def guarded_deny guarded_sink by (auto simp: Let_def split: option.split)

lemma guarded_startup:
  "target \<in> {None, Some t} \<Longrightarrow>
     serve_startup (guarded t G) \<lparr>sp_read = (\<lambda>r. if su_target_tenant_ref r = t then sp_read P r else raise foreign),
          sp_update = (\<lambda>r. if su_target_tenant_ref r = t then sp_update P r else raise foreign)\<rparr> req cid auth target ref c
     = serve_startup G P req cid auth target ref c"
  unfolding serve_startup_def guarded_deny guarded_fields
  by (auto simp: startup_request_def startup_read_request.defs startup_update_request.defs
      split: option.split sum.split)

lemma guarded_rest:
  assumes "dd_target_tenant_id d \<in> {None, Some t}" "rq_active_tenant_id ctx \<in> {None, Some t}"
  shows "serve_rest (guarded t G) req cid em auth ctx d = serve_rest G req cid em auth ctx d"
proof -
  have imp: "gw_import (guarded t G) = map_option (\<lambda>f r. if iq_target_tenant_ref r = t then f r else raise foreign) (gw_import G)"
    by (simp add: guarded_def)
  show ?thesis unfolding serve_rest_def imp guarded_control guarded_fields
    by (cases "gw_import G") (simp_all add: guarded_hand_off[OF assms] guarded_import[OF assms(1)] Let_def cong: if_cong option.case_cong)
qed

lemma guarded_decision:
  assumes "dd_target_tenant_id d \<in> {None, Some t}" "rq_active_tenant_id ctx \<in> {None, Some t}"
  shows "serve_decision (guarded t G) req cid em auth ctx d = serve_decision G req cid em auth ctx d"
proof -
  have st: "gw_startup (guarded t G) = map_option (\<lambda>P. \<lparr>sp_read = (\<lambda>r. if su_target_tenant_ref r = t then sp_read P r else raise foreign),
          sp_update = (\<lambda>r. if su_target_tenant_ref r = t then sp_update P r else raise foreign)\<rparr>) (gw_startup G)"
    by (simp add: guarded_def)
  show ?thesis unfolding serve_decision_def st
    by (cases "gw_startup G") (simp_all add: guarded_rest[OF assms] guarded_startup[OF assms(1)] split: option.split cong: if_cong)
qed

lemma guarded_route:
  assumes "az_active_tenant_id auth \<in> {None, Some t}"
  shows "route_authenticated (guarded t G) req cid em auth = route_authenticated G req cid em auth"
proof (cases "dispatch_decision_of G req (build_request_context auth)")
  case (Inl e)
  then show ?thesis unfolding route_authenticated_def guarded_deny guarded_sink by (simp add: Let_def)
next
  case (Inr d)
  have own: "rq_active_tenant_id (build_request_context auth) \<in> {None, Some t}" using assms by (simp add: build_request_context_def)
  moreover have "dd_target_tenant_id d \<in> {None, Some t}" using dispatch_decision_target[OF Inr] own by auto
  ultimately show ?thesis using Inr by (simp add: route_authenticated_def Let_def guarded_decision)
qed

lemma guarded_authenticated:
  assumes "az_active_tenant_id auth \<in> {None, Some t}"
  shows "authenticated (guarded t G) req cid carriers auth = authenticated G req cid carriers auth"
proof -
  have "route_authenticated (guarded t G) req cid em auth = route_authenticated G req cid em auth" for em
    by (rule guarded_route[OF assms])
  then show ?thesis unfolding authenticated_def guarded_emit by (simp cong: if_cong)
qed

lemma guarded_handle:
  assumes "\<And>c k s x s'. gw_authenticate G (ib_authorization req) c k s = (Inr x, s') \<Longrightarrow> az_active_tenant_id x \<in> {None, Some t}"
  shows "edge_handle (guarded t G) req = edge_handle G req"
proof -
  have "tries (gw_authenticate G (ib_authorization req) c k) h (authenticated (guarded t G) req k c)
      = tries (gw_authenticate G (ib_authorization req) c k) h (authenticated G req k c)" for c k h
  proof (rule ext)
    fix s
    obtain r s' where run: "gw_authenticate G (ib_authorization req) c k s = (r, s')" by (cases "gw_authenticate G (ib_authorization req) c k s")
    show "tries (gw_authenticate G (ib_authorization req) c k) h (authenticated (guarded t G) req k c) s
      = tries (gw_authenticate G (ib_authorization req) c k) h (authenticated G req k c) s"
    proof (cases r)
      case (Inr x)
      have "authenticated (guarded t G) req k c x = authenticated G req k c x"
        by (rule guarded_authenticated) (rule assms[OF run[unfolded Inr]])
      then show ?thesis using run Inr by simp
    qed (simp add: run)
  qed
  then show ?thesis unfolding edge_handle_def guarded_deny guarded_sink guarded_fields by (simp add: Let_def cong: if_cong)
qed

section \<open>The audit trail\<close>

text \<open>The sink appends what it accepts; nothing else writes to it.\<close>

definition audit_sink :: "'s gateway \<Rightarrow> ('s \<Rightarrow> gateway_event list) \<Rightarrow> bool" where
  "audit_sink G seen \<longleftrightarrow>
     (\<forall>ev s r s'. gw_audit G ev s = (r, s') \<longrightarrow> seen s' = (case r of Inl _ \<Rightarrow> seen s | Inr _ \<Rightarrow> seen s @ [ev]))
   \<and> (\<forall>a c k. keeps (unchanged seen) (gw_authenticate G a c k)) \<and> (\<forall>ctx d. keeps (unchanged seen) (gw_dispatch G ctx d))
   \<and> (\<forall>R k. gw_control_read G = Some R \<longrightarrow> keeps (unchanged seen) (cr_directory R k) \<and> keeps (unchanged seen) (cr_memberships R k))
   \<and> (\<forall>f r. gw_import G = Some f \<longrightarrow> keeps (unchanged seen) (f r))
   \<and> (\<forall>P r u. gw_startup G = Some P \<longrightarrow> keeps (unchanged seen) (sp_read P r) \<and> keeps (unchanged seen) (sp_update P u))
   \<and> keeps (unchanged seen) (gw_uuid G) \<and> keeps (unchanged seen) (gw_now G) \<and> keeps (unchanged seen) (gw_monotonic G)
   \<and> (\<forall>m. keeps (unchanged seen) (gw_metrics G m))"

definition minted :: "string \<Rightarrow> gateway_event \<Rightarrow> bool" where
  "minted cid e \<longleftrightarrow> ge_correlation_id e = cid \<and> ge_audit_id e \<noteq> None \<and> ge_occurred_at e \<noteq> None \<and> ge_event_version e = Some 1"

definition denial_action :: "string \<Rightarrow> audit_action" where
  "denial_action code = (if code = ''isolation_anomaly'' then ISOLATION_ANOMALY
     else if code = ''carrier_mismatch'' then CARRIER_MISMATCH else ROUTE_DENIED)"

text \<open>The actions an answer is evidenced by, for a request with the given method.\<close>

definition backing :: "string \<Rightarrow> gateway_response \<Rightarrow> audit_action list \<Rightarrow> bool" where
  "backing verb resp acts \<longleftrightarrow>
     (case gr_portal_dto resp of
        Some (TenantStartupDetailDTO d) \<Rightarrow> acts = [if verb = ''GET'' then TENANT_STARTUP_READ else TENANT_STARTUP_UPDATE]
      | Some (WorkspaceMembershipDTO ms) \<Rightarrow> acts = [WORKSPACE_MEMBERSHIPS_READ]
      | Some d \<Rightarrow> acts = []
      | None \<Rightarrow>
          if gr_category resp = None \<and> gr_status resp \<noteq> 503 then acts = [denial_action (gr_public_code resp)]
          else acts = [] \<or> acts = [denial_action (gr_public_code resp)])"

definition left_behind :: "string \<Rightarrow> string \<Rightarrow> gateway_response \<Rightarrow> gateway_event list \<Rightarrow> bool" where
  "left_behind verb cid resp new \<longleftrightarrow> backing verb resp (map ge_action new) \<and> (\<forall>e\<in>set new. minted cid e)"

abbreviation leaves :: "('s \<Rightarrow> bool) \<Rightarrow> ('s, 'e, 'a) proc \<Rightarrow> ('a \<Rightarrow> 's \<Rightarrow> bool) \<Rightarrow> bool" where
  "leaves P m Q \<equiv> triple (\<lambda>s t. True) P m Q (\<lambda>_ _. True)"

lemma leaves_quiet:
  assumes "keeps (unchanged seen) m"
  shows "triple (\<lambda>s t. True) (\<lambda>s. seen s = old) m (\<lambda>_ s. seen s = old) (\<lambda>_ s. seen s = old)"
  by (rule tripleI) (use keepsD[OF assms] in \<open>auto simp: unchanged_def\<close>)

lemma leaves_weak: "triple (\<lambda>s t. True) P m Q E \<Longrightarrow> leaves P m Q"
  by (erule triple_conseq) simp_all

lemma leaves_then: "\<lbrakk>leaves P m Q'; \<And>a. leaves (Q' a) (f a) Q\<rbrakk> \<Longrightarrow> leaves P (bnd m f) Q"
  by (rule any.triple_bnd)

text \<open>An event reaches the sink with its identity, or the sink refused it.\<close>

lemma sink_event_log:
  assumes "audit_sink G seen"
  shows "triple (\<lambda>s t. True) (\<lambda>s. seen s = old) (sink_event G ev)
    (\<lambda>_ s. \<exists>e. seen s = old @ [e] \<and> minted (ge_correlation_id ev) e \<and> ge_action e = ge_action ev) (\<lambda>_ s. seen s = old)"
proof -
  note laws = assms[unfolded audit_sink_def]
  show ?thesis unfolding sink_event_def
  proof (rule any.triple_bnd, rule leaves_quiet)
    show "keeps (unchanged seen) (gw_uuid G)" using laws by blast
    fix i
    show "triple (\<lambda>s t. True) (\<lambda>s. seen s = old)
      (bnd (gw_now G) (\<lambda>now. gw_audit G (ev\<lparr>ge_audit_id := Some i, ge_occurred_at := Some now, ge_event_version := Some 1\<rparr>)))
      (\<lambda>_ s. \<exists>e. seen s = old @ [e] \<and> minted (ge_correlation_id ev) e \<and> ge_action e = ge_action ev) (\<lambda>_ s. seen s = old)"
    proof (rule any.triple_bnd, rule leaves_quiet)
      show "keeps (unchanged seen) (gw_now G)" using laws by blast
      fix now
      let ?e = "ev\<lparr>ge_audit_id := Some i, ge_occurred_at := Some now, ge_event_version := Some 1\<rparr>"
      have "minted (ge_correlation_id ev) ?e" "ge_action ?e = ge_action ev" by (simp_all add: minted_def)
      moreover have "seen s' = (case r of Inl _ \<Rightarrow> seen s | Inr _ \<Rightarrow> seen s @ [?e])" if "gw_audit G ?e s = (r, s')" for s r s'
        using laws that by blast
      ultimately show "triple (\<lambda>s t. True) (\<lambda>s. seen s = old) (gw_audit G ?e)
        (\<lambda>_ s. \<exists>e. seen s = old @ [e] \<and> minted (ge_correlation_id ev) e \<and> ge_action e = ge_action ev) (\<lambda>_ s. seen s = old)"
        by (intro tripleI) (force split: sum.splits)
    qed
  qed
qed

text \<open>Events added to the trail \<open>old\<close> that back the answer.\<close>

definition evidenced :: "('s \<Rightarrow> gateway_event list) \<Rightarrow> gateway_event list \<Rightarrow> string \<Rightarrow> string \<Rightarrow> gateway_response \<Rightarrow> 's \<Rightarrow> bool" where
  "evidenced seen old verb cid resp s \<longleftrightarrow> (\<exists>new. seen s = old @ new \<and> left_behind verb cid resp new)"

lemma evidenced_none: "\<lbrakk>seen s = old; backing verb resp []\<rbrakk> \<Longrightarrow> evidenced seen old verb cid resp s"
  unfolding evidenced_def by (intro exI[of _ "[]"]) (simp add: left_behind_def)

lemma evidenced_one: "\<lbrakk>seen s = old @ [e]; minted cid e; backing verb resp [ge_action e]\<rbrakk> \<Longrightarrow> evidenced seen old verb cid resp s"
  unfolding evidenced_def by (intro exI[of _ "[e]"]) (simp add: left_behind_def)

lemma backing_unavailable [simp]: "backing verb (answer 503 ''unavailable'' c) []"
  by (simp add: backing_def answer_def)

lemma deny_evidenced:
  assumes "audit_sink G seen" "ge_action ev \<notin> set em" "ge_correlation_id ev = cid" "backing verb resp [ge_action ev]"
  shows "leaves (\<lambda>s. seen s = old) (deny_with_event G em ev c resp) (evidenced seen old verb cid)"
proof -
  have "leaves (\<lambda>s. seen s = old) (emit_edge G em ev)
    (\<lambda>(ok, _) s. if ok then \<exists>e. seen s = old @ [e] \<and> minted cid e \<and> ge_action e = ge_action ev else seen s = old)"
    unfolding emit_edge_def using assms(2)
    by (simp add: assms(3)[symmetric])
      (intro any.triple_tries[OF sink_event_log[OF assms(1)]] any.triple_ret; simp)
  then show ?thesis unfolding deny_with_event_def
    by (rule leaves_then) (auto intro!: any.triple_ret intro: evidenced_none evidenced_one simp: assms(4))
qed

lemma serve_evidenced:
  assumes "audit_sink G seen" "ge_correlation_id ev = cid" "backing verb (served c dto) [ge_action ev]"
  shows "leaves (\<lambda>s. seen s = old) (serve_with_event G ev c dto) (evidenced seen old verb cid)"
  unfolding serve_with_event_def
  by (intro any.triple_tries[OF sink_event_log[OF assms(1)]] any.triple_ret)
    (auto intro: evidenced_none evidenced_one simp: assms(2,3))

section \<open>Every answer with its event\<close>

abbreviation leaves_evidence where
  "leaves_evidence seen old verb cid m \<equiv> leaves (\<lambda>s. seen s = old) m (evidenced seen old verb cid)"

lemma ret_evidence: "backing verb resp [] \<Longrightarrow> leaves_evidence seen old verb cid (ret resp)"
  by (rule any.triple_ret) (rule evidenced_none)

lemma raise_evidence: "leaves_evidence seen old verb cid (raise e)"
  by (rule any.triple_raise) simp

lemma port_then:
  assumes "keeps (unchanged seen) m" "\<And>e. leaves_evidence seen old verb cid (h e)" "\<And>a. leaves_evidence seen old verb cid (f a)"
  shows "leaves_evidence seen old verb cid (tries m h f)"
  by (rule any.triple_tries[OF leaves_quiet[OF assms(1)] assms(2,3)])

lemma port_bind:
  assumes "keeps (unchanged seen) m" "\<And>a. leaves_evidence seen old verb cid (f a)"
  shows "leaves_evidence seen old verb cid (bnd m f)"
  by (rule leaves_then[OF leaves_weak[OF leaves_quiet[OF assms(1)]] assms(2)])

lemma edge_event_fields [simp]:
  "ge_action (edge_event a cid out actor tenant carrier) = a" "ge_correlation_id (edge_event a cid out actor tenant carrier) = cid"
  by (simp_all add: edge_event_def)

lemma backing_simps [simp]:
  "backing verb (answer status code (Some c)) []" "backing verb (answer 503 code None) []"
  "backing verb (answer status code None) [denial_action code]"
  "verb = ''GET'' \<Longrightarrow> backing verb (served c (TenantStartupDetailDTO d)) [TENANT_STARTUP_READ]"
  "verb \<noteq> ''GET'' \<Longrightarrow> backing verb (served c (TenantStartupDetailDTO d)) [TENANT_STARTUP_UPDATE]"
  "backing verb (served c (WorkspaceMembershipDTO ms)) [WORKSPACE_MEMBERSHIPS_READ]"
  "backing verb (answer 403 ''forbidden'' None) [ROUTE_DENIED]"
  "backing verb (served c (ImportResultDTO i)) []" "backing verb (served c (directory_portal p)) []"
  by (simp_all add: backing_def answer_def served_def directory_portal_def denial_action_def split: directory_dto.split)

lemma startup_evidence:
  assumes sink: "audit_sink G seen" and P: "gw_startup G = Some P" and verb: "verb = ib_method req"
  shows "leaves_evidence seen old verb cid (serve_startup G P req cid auth target ref c)"
proof -
  have fin: "leaves_evidence seen old verb cid (finish_startup G req cid auth tenant ref c detail)" for tenant detail
    unfolding finish_startup_def
    using verb by (cases detail) (auto intro!: ret_evidence serve_evidenced[OF sink] simp: startup_event_def)
  have ports: "keeps (unchanged seen) (sp_read P r)" "keeps (unchanged seen) (sp_update P u)" for r u
    using sink P unfolding audit_sink_def by blast+
  show ?thesis unfolding serve_startup_def
    by (auto split: option.split sum.split intro!: port_then ports fin ret_evidence raise_evidence)
qed

lemma control_evidence:
  assumes sink: "audit_sink G seen" and R: "gw_control_read G = Some R" and em: "ROUTE_DENIED \<notin> set em"
    and c: "c \<in> {GLOBAL_DIRECTORY_READ, MEMBERSHIPS_FOR_PRINCIPAL}"
  shows "leaves_evidence seen old verb cid (serve_control G R req cid em auth ctx c)"
proof -
  have ports: "keeps (unchanged seen) (cr_directory R k)" "keeps (unchanged seen) (cr_memberships R w)" for k w
    using sink R unfolding audit_sink_def by blast+
  have deny: "leaves_evidence seen old verb cid (deny_with_event G em (edge_event ROUTE_DENIED cid ''rejected'' actor tenant None) (Some c) (answer 403 ''forbidden'' None))"
    for actor tenant using em by (intro deny_evidenced[OF sink]) simp_all
  let ?post = "\<lambda>composed s. seen s = old \<and> (\<forall>dto. composed = Some dto \<longrightarrow>
    (if c = GLOBAL_DIRECTORY_READ then \<exists>p. dto = directory_portal p else \<exists>ms. dto = WorkspaceMembershipDTO ms))"
  have comp: "triple (\<lambda>s t. True) (\<lambda>s. seen s = old) (compose_control R req auth c) ?post (\<lambda>_ s. seen s = old)"
    unfolding compose_control_def using c
    by (auto intro!: any.triple_bnd[OF leaves_quiet] ports any.triple_ret)
  show ?thesis unfolding serve_control_def
  proof (rule any.triple_tries[OF comp])
    fix composed
    show "triple (\<lambda>s t. True) (?post composed)
      (case composed of None \<Rightarrow> deny_with_event G em (edge_event ROUTE_DENIED cid ''rejected'' (Some (az_principal_ref auth)) (rq_active_tenant_id ctx) None)
            (Some c) (answer 403 ''forbidden'' None)
        | Some dto \<Rightarrow> if c = MEMBERSHIPS_FOR_PRINCIPAL then serve_with_event G (memberships_event cid auth) c dto else ret (served c dto))
      (evidenced seen old verb cid) (\<lambda>_ _. True)"
    proof (cases composed)
      case None
      then show ?thesis using deny by simp
    next
      case (Some dto)
      then show ?thesis using c
        by (auto intro!: triple_pure serve_evidenced[OF sink] ret_evidence simp: memberships_event_def)
    qed
  qed (rule ret_evidence, simp)
qed

lemma import_evidence:
  assumes sink: "audit_sink G seen" and f: "gw_import G = Some f" and em: "ROUTE_DENIED \<notin> set em"
  shows "leaves_evidence seen old verb cid (serve_import G f req cid em auth ctx target c)"
proof -
  have ports: "keeps (unchanged seen) (f r)" "keeps (unchanged seen) (operation_key G req)" for r
    using sink f unfolding audit_sink_def operation_key_def by (blast, auto split: option.split intro: unchanged.keeps_ret)
  have deny: "leaves_evidence seen old verb cid (deny_with_event G em (edge_event ROUTE_DENIED cid ''rejected'' actor tenant None) (Some c) (answer 403 ''forbidden'' None))"
    for actor tenant using em by (intro deny_evidenced[OF sink]) simp_all
  show ?thesis unfolding serve_import_def Let_def
    by (auto split: option.split intro!: port_bind ports deny ret_evidence raise_evidence simp: import_dto_def)
qed

lemma decision_evidence:
  assumes sink: "audit_sink G seen" and em: "ROUTE_DENIED \<notin> set em" and d: "dd_domain d = category_domain (dd_category d)"
  shows "leaves_evidence seen old (ib_method req) cid (serve_decision G req cid em auth ctx d)"
proof -
  have "keeps (unchanged seen) (gw_dispatch G ctx d)" using sink unfolding audit_sink_def by blast
  then have off: "leaves_evidence seen old (ib_method req) cid (hand_off G req ctx d)" unfolding hand_off_def
    by (rule port_bind) (rule ret_evidence, simp add: backing_def split: option.split)
  have control: "dd_category d \<in> {GLOBAL_DIRECTORY_READ, MEMBERSHIPS_FOR_PRINCIPAL}" if "dd_domain d = DOMAIN_CONTROL"
    using that d by (auto simp: category_domain_def CONTROL_CATEGORIES_def split: if_splits)
  have rest: "leaves_evidence seen old (ib_method req) cid (serve_rest G req cid em auth ctx d)"
    unfolding serve_rest_def Let_def
    by (auto split: option.split intro!: control_evidence[OF sink] import_evidence[OF sink] off em dest: control)
  show ?thesis unfolding serve_decision_def
    by (auto split: option.split intro!: startup_evidence[OF sink _ refl] rest)
qed

lemma route_evidence:
  assumes sink: "audit_sink G seen" and em: "set em \<subseteq> {CARRIER_ON_CONTROL_ANOMALY}" and G: "gw_classify G = default_classifier"
  shows "leaves_evidence seen old (ib_method req) cid (route_authenticated G req cid em auth)"
proof (cases "dispatch_decision_of G req (build_request_context auth)")
  case (Inl e)
  obtain code anomaly where e: "e = DispatchError code anomaly" by (cases e)
  have "anomaly = False \<and> code \<in> {''unknown_route'', ''tenant_context_required''}"
    using Inl e G by (auto simp: dispatch_decision_of_def sbind_def default_classifier_def decide_def assert_single_database_def split: if_splits sum.splits)
  then show ?thesis using Inl e em unfolding route_authenticated_def Let_def
    by (auto intro!: deny_evidenced[OF sink] simp: backing_def answer_def denial_action_def)
next
  case (Inr d)
  then show ?thesis using dispatch_decision_target[OF Inr] em unfolding route_authenticated_def Let_def
    by (auto intro!: decision_evidence[OF sink])
qed

text \<open>The whole trail of a request: the anomaly of a carrier on a tenantless token, then the answer's event.\<close>

definition trailed :: "('s \<Rightarrow> gateway_event list) \<Rightarrow> gateway_event list \<Rightarrow> string \<Rightarrow> gateway_response \<Rightarrow> 's \<Rightarrow> bool" where
  "trailed seen old verb resp t \<longleftrightarrow> (\<exists>cid anomaly new. seen t = old @ anomaly @ new \<and> left_behind verb cid resp new
    \<and> (anomaly = [] \<or> (\<exists>e. anomaly = [e] \<and> ge_action e = CARRIER_ON_CONTROL_ANOMALY \<and> minted cid e)))"

lemma trailed_plain: "leaves_evidence seen old verb cid m \<Longrightarrow> leaves (\<lambda>t. seen t = old) m (trailed seen old verb)"
  unfolding evidenced_def trailed_def triple_def by (metis append_Nil)

lemma trailed_anomaly:
  assumes "\<And>e. leaves_evidence seen (old @ [e]) verb cid m"
  shows "leaves (\<lambda>t. \<exists>e. seen t = old @ [e] \<and> minted cid e \<and> ge_action e = CARRIER_ON_CONTROL_ANOMALY) m (trailed seen old verb)"
proof (rule tripleI)
  fix u r v assume "\<exists>e. seen u = old @ [e] \<and> minted cid e \<and> ge_action e = CARRIER_ON_CONTROL_ANOMALY" and step: "m u = (r, v)"
  then obtain e where e: "seen u = old @ [e]" "minted cid e" "ge_action e = CARRIER_ON_CONTROL_ANOMALY" by blast
  from tripleD[OF assms e(1) step] have "\<forall>a. r = Inr a \<longrightarrow> trailed seen old verb a v"
    using e(2,3) unfolding evidenced_def trailed_def by (metis append.assoc)
  then show "True \<and> (\<forall>a. r = Inr a \<longrightarrow> trailed seen old verb a v) \<and> (\<forall>e. r = Inl e \<longrightarrow> True)" by simp
qed

lemma authenticated_trail:
  assumes sink: "audit_sink G seen" and classify: "gw_classify G = default_classifier"
  shows "leaves (\<lambda>t. seen t = old) (authenticated G req cid carriers auth) (trailed seen old (ib_method req))"
proof (cases "az_active_tenant_id auth = None \<and> carriers \<noteq> []")
  case False
  then show ?thesis by (auto simp: authenticated_def intro!: trailed_plain route_evidence[OF sink _ classify])
next
  case True
  let ?ev = "edge_event CARRIER_ON_CONTROL_ANOMALY cid ''observed'' (Some (az_principal_ref auth)) None (Some (opaque_carrier_ref (hd carriers)))"
  have emit: "leaves (\<lambda>t. seen t = old) (emit_edge G [] ?ev)
    (\<lambda>(ok, em) t. (if ok then \<exists>e. seen t = old @ [e] \<and> minted cid e \<and> ge_action e = CARRIER_ON_CONTROL_ANOMALY
       else seen t = old) \<and> em = [CARRIER_ON_CONTROL_ANOMALY])"
    unfolding emit_edge_def using sink_event_log[OF sink, of old ?ev]
    by (simp) (erule any.triple_tries; rule any.triple_ret; simp)
  have go: "leaves (\<lambda>t. \<exists>e. seen t = old @ [e] \<and> minted cid e \<and> ge_action e = CARRIER_ON_CONTROL_ANOMALY)
    (route_authenticated G req cid [CARRIER_ON_CONTROL_ANOMALY] auth) (trailed seen old (ib_method req))"
    by (rule trailed_anomaly, rule route_evidence[OF sink _ classify]) simp
  have stop: "leaves (\<lambda>t. seen t = old) (ret (answer 503 ''unavailable'' None)) (trailed seen old (ib_method req))"
    by (rule trailed_plain[where cid=cid]) (rule ret_evidence, simp)
  show ?thesis unfolding authenticated_def using True
    by simp (rule leaves_then[OF emit], simp only: split_paired_all prod.case, rule triple_pure, simp add: go stop)
qed

definition refusal_codes :: "string set" where
  "refusal_codes = {''unauthenticated'', ''carrier_mismatch'', ''forbidden'', ''unavailable''}"

lemma rejected_trail:
  assumes "audit_sink G seen" "code \<in> refusal_codes"
  shows "leaves (\<lambda>t. seen t = old) (deny_with_event G [] (rejected_event cid carriers code) None (answer status code None)) (trailed seen old verb)"
proof (rule trailed_plain[where cid=cid], rule deny_evidenced[OF assms(1)])
  have "ge_action (rejected_event cid carriers code) = denial_action code"
    using assms(2) by (auto simp: rejected_event_def denial_action_def refusal_codes_def)
  then show "backing verb (answer status code None) [ge_action (rejected_event cid carriers code)]" by simp
qed (simp_all add: rejected_event_def)

lemma straddle_trail:
  assumes "audit_sink G seen"
  shows "leaves (\<lambda>t. seen t = old) (deny_with_event G [] (straddle_event cid carriers) None (answer 403 ''isolation_anomaly'' None)) (trailed seen old verb)"
  by (rule trailed_plain[where cid=cid], rule deny_evidenced[OF assms])
    (simp_all add: straddle_event_def backing_def answer_def denial_action_def)

lemma edge_trail:
  assumes sink: "audit_sink G seen" and classify: "gw_classify G = default_classifier"
    and codes: "\<And>a c k s status code s'. gw_authenticate G a c k s = (Inl (RequestRejected status code), s') \<Longrightarrow> code \<in> refusal_codes"
  shows "leaves (\<lambda>t. seen t = old) (edge_handle G req) (trailed seen old (ib_method req))"
proof -
  have cid: "leaves (\<lambda>t. seen t = old) (correlation_id G req) (\<lambda>_ t. seen t = old)"
    using sink unfolding audit_sink_def correlation_id_def
    by (auto split: option.split intro!: leaves_weak[OF leaves_quiet] intro: unchanged.keeps_ret)
  have auth: "triple (\<lambda>s t. True) (\<lambda>t. seen t = old) (gw_authenticate G a c k) (\<lambda>_ t. seen t = old)
    (\<lambda>e t. seen t = old \<and> (\<forall>status code. e = RequestRejected status code \<longrightarrow> code \<in> refusal_codes))" for a c k
  proof (rule tripleI)
    fix u r v assume old: "seen u = old" and step: "gw_authenticate G a c k u = (r, v)"
    have "keeps (unchanged seen) (gw_authenticate G a c k)" using sink unfolding audit_sink_def by blast
    with old step have "seen v = old" by (auto dest: keepsD simp: unchanged_def)
    with step codes[of a c k u _ _ v] show "True \<and> (\<forall>x. r = Inr x \<longrightarrow> seen v = old)
      \<and> (\<forall>e. r = Inl e \<longrightarrow> seen v = old \<and> (\<forall>status code. e = RequestRejected status code \<longrightarrow> code \<in> refusal_codes))" by auto
  qed
  show ?thesis unfolding edge_handle_def Let_def
  proof (rule leaves_then[OF cid], rule triple_if[OF straddle_trail[OF sink]],
      rule any.triple_tries[OF auth _ authenticated_trail[OF sink classify]])
    fix cid e
    show "leaves (\<lambda>t. seen t = old \<and> (\<forall>status code. e = RequestRejected status code \<longrightarrow> code \<in> refusal_codes))
      (case e of RequestRejected status code \<Rightarrow> deny_with_event G [] (rejected_event cid (recognized_carriers req) code) None (answer status code None)
        | GwException x \<Rightarrow> raise e) (trailed seen old (ib_method req))"
      by (cases e) (auto intro!: triple_pure rejected_trail[OF sink] any.triple_raise)
  qed
qed

lemma handle_trail:
  assumes sink: "audit_sink G seen" and edge: "leaves (\<lambda>t. seen t = old) (edge_handle G req) (trailed seen old verb)"
  shows "leaves (\<lambda>t. seen t = old) (gateway_handle G req) (trailed seen old verb)"
proof -
  have quiet: "keeps (unchanged seen) (gw_monotonic G)" "keeps (unchanged seen) (gw_metrics G m)" for m
    using sink unfolding audit_sink_def by blast+
  have same: "trailed seen old verb x v" if "trailed seen old verb x u" "seen v = seen u" for x u v
    using that by (simp add: trailed_def)
  have metric: "leaves (trailed seen old verb x) (andthen (gw_metrics G m) (ret x)) (trailed seen old verb)" for x m
    by (rule tripleI) (use quiet(2)[of m] same in \<open>auto dest!: keepsD simp: unchanged_def split: prod.splits sum.splits\<close>)
  have clock: "leaves (trailed seen old verb x) (gw_monotonic G) (\<lambda>_. trailed seen old verb x)" for x
    by (rule tripleI) (use quiet(1) same in \<open>auto dest!: keepsD simp: unchanged_def\<close>)
  show ?thesis unfolding gateway_handle_def
    by (rule leaves_then[OF leaves_weak[OF leaves_quiet[OF quiet(1)]]], rule leaves_then[OF edge], rule leaves_then[OF clock], rule metric)
qed

end
