(* ===== verification/GW_Claims.thy ===== *)
theory GW_Claims
  imports GW_Facts
begin

text \<open>
  The properties of the request pipeline: the tenant it addresses, the events it leaves and the shape of
  its answers.
\<close>

text \<open>C10: The gateway addresses no tenant but the authenticated one: if the authenticator answers this request's
bearer credential with the tenant t or with no tenant, then replacing every tenant-bound port (router dispatch,
import initiation, startup reads and updates) by one that refuses any other tenant changes nothing, whatever the
path, host, headers, query, cookies and body of the request are.\<close>

theorem gateway_addresses_own_tenant:
  assumes "\<And>c k s x s'. gw_authenticate G (ib_authorization req) c k s = (Inr x, s') \<Longrightarrow> az_active_tenant_id x \<in> {None, Some t}"
  shows "gateway_handle (guarded t G) req = gateway_handle G req"
proof -
  have "edge_handle (guarded t G) req = edge_handle G req" by (rule guarded_handle) (rule assms)
  then show ?thesis unfolding gateway_handle_def by simp
qed


section \<open>The shape of an answer\<close>

text \<open>The shapes a category may be answered with, for a request authenticated for the given tenant.\<close>

fun dto_fits :: "string option \<Rightarrow> dispatch_category \<Rightarrow> portal_dto \<Rightarrow> bool" where
  "dto_fits tenant c (GlobalStartupSummaryDTO g) = (c = GLOBAL_DIRECTORY_READ)"
| "dto_fits tenant c (GlobalInvestorSummaryDTO g) = (c = GLOBAL_DIRECTORY_READ)"
| "dto_fits tenant c (WorkspaceMembershipDTO ms) = (c = MEMBERSHIPS_FOR_PRINCIPAL)"
| "dto_fits tenant c (ImportInitiationDTO i) = (c = IMPORT_INITIATION \<and> tenant = Some (ii_target_tenant_ref i))"
| "dto_fits tenant c (ImportResultDTO i) = (c = IMPORT_INITIATION \<and> tenant = Some (ix_target_tenant_ref i)
     \<and> ix_outcome i \<in> {''created'', ''replayed'', ''noop''})"
| "dto_fits tenant c (TenantStartupDetailDTO d) = (c = TENANT_OPERATION \<and> tenant \<noteq> None)"

definition shaped :: "string option \<Rightarrow> gateway_response \<Rightarrow> bool" where
  "shaped tenant resp \<longleftrightarrow> (\<forall>dto. gr_portal_dto resp = Some dto \<longrightarrow>
     gr_dispatched resp \<and> gr_status resp < 400 \<and> (\<exists>c. gr_category resp = Some c \<and> dto_fits tenant c dto))"

abbreviation gives where
  "gives tenant m \<equiv> leaves (\<lambda>_. True) m (\<lambda>resp _. shaped tenant resp)"

lemma shaped_simps [simp]: "shaped t (answer status code k)" "shaped t (served c dto) = dto_fits t c dto"
  by (simp_all add: shaped_def answer_def served_def)

lemma any_port: "leaves (\<lambda>_. True) m (\<lambda>_ _. True)"
  by (simp add: triple_def)

lemma gives_ret: "shaped t resp \<Longrightarrow> gives t (ret resp)"
  by (rule any.triple_ret)

lemma gives_raise: "gives t (raise e)"
  by (rule any.triple_raise) simp

lemma gives_bnd: "(\<And>a. gives t (f a)) \<Longrightarrow> gives t (bnd m f)"
  by (rule leaves_then[OF any_port])

lemma gives_tries: "\<lbrakk>\<And>e. gives t (h e); \<And>a. gives t (f a)\<rbrakk> \<Longrightarrow> gives t (tries m h f)"
  by (rule any.triple_tries[OF any_port])

lemma gives_deny: "shaped t resp \<Longrightarrow> gives t (deny_with_event G em ev c resp)"
  unfolding deny_with_event_def by (rule gives_bnd) (auto intro!: gives_ret)

lemma gives_serve: "dto_fits t c dto \<Longrightarrow> gives t (serve_with_event G ev c dto)"
  unfolding serve_with_event_def by (auto intro!: gives_tries gives_ret)

lemmas gives_rules = gives_ret gives_raise gives_bnd gives_tries gives_deny gives_serve

lemma gives_control:
  assumes "c \<in> {GLOBAL_DIRECTORY_READ, MEMBERSHIPS_FOR_PRINCIPAL}"
  shows "gives t (serve_control G R req cid em auth ctx c)"
proof -
  have "leaves (\<lambda>_. True) (compose_control R req auth c) (\<lambda>composed _. \<forall>dto. composed = Some dto \<longrightarrow> dto_fits t c dto)"
    unfolding compose_control_def using assms
    by (auto intro!: leaves_then[OF any_port] any.triple_ret simp: directory_portal_def split: directory_dto.split)
  then show ?thesis unfolding serve_control_def
  proof (rule any.triple_tries)
    fix composed
    show "leaves (\<lambda>_. \<forall>dto. composed = Some dto \<longrightarrow> dto_fits t c dto)
      (case composed of None \<Rightarrow> deny_with_event G em (edge_event ROUTE_DENIED cid ''rejected'' (Some (az_principal_ref auth)) (rq_active_tenant_id ctx) None)
            (Some c) (answer 403 ''forbidden'' None)
        | Some dto \<Rightarrow> if c = MEMBERSHIPS_FOR_PRINCIPAL then serve_with_event G (memberships_event cid auth) c dto else ret (served c dto))
      (\<lambda>resp _. shaped t resp)"
    proof (cases "\<forall>dto. composed = Some dto \<longrightarrow> dto_fits t c dto")
      case True
      then show ?thesis by (auto intro!: triple_conseq[OF gives_deny] triple_conseq[OF gives_serve] triple_conseq[OF gives_ret] split: option.split)
    qed (auto simp: triple_def)
  qed (rule gives_ret, simp)
qed

lemma gives_import: "target = t \<Longrightarrow> gives t (serve_import G f req cid em auth ctx target c)" if "c = IMPORT_INITIATION"
  unfolding serve_import_def Let_def using that
  by (auto split: option.split intro!: gives_rules simp: import_dto_def import_token_def)

lemma gives_startup: "target = t \<Longrightarrow> gives t (serve_startup G P req cid auth target ref c)" if "c = TENANT_OPERATION"
  unfolding serve_startup_def finish_startup_def using that
  by (auto split: option.split sum.split intro!: gives_rules)

lemma gives_decision:
  assumes "dispatch_decision_of G req ctx = Inr d" "rq_active_tenant_id ctx = t"
  shows "gives t (serve_decision G req cid em auth ctx d)"
proof -
  note d = dispatch_decision_target[OF assms(1)] assms(2)
  have cat: "dd_category d \<in> {GLOBAL_DIRECTORY_READ, MEMBERSHIPS_FOR_PRINCIPAL} \<longleftrightarrow> dd_domain d = DOMAIN_CONTROL"
    using d by (auto simp: category_domain_def CONTROL_CATEGORIES_def)
  have target: "dd_target_tenant_id d = t" if "dd_domain d \<noteq> DOMAIN_CONTROL"
    using d that by (cases "dd_domain d") auto
  have off: "gives t (hand_off G req ctx d)" unfolding hand_off_def
    by (rule gives_bnd, rule gives_ret) (use d in \<open>auto simp: shaped_def split: option.splits if_splits\<close>)
  have rest: "gives t (serve_rest G req cid em auth ctx d)"
    unfolding serve_rest_def Let_def using cat target
    by (auto split: option.split intro!: gives_control gives_import off)
  show ?thesis unfolding serve_decision_def using cat target
    by (auto split: option.split intro!: gives_startup rest)
qed

lemma gives_route: "gives (az_active_tenant_id auth) (route_authenticated G req cid em auth)"
  unfolding route_authenticated_def Let_def
  by (auto split: sum.split dispatch_denied.split intro!: gives_deny gives_decision simp: build_request_context_def)

lemma gives_authenticated: "gives (az_active_tenant_id auth) (authenticated G req cid carriers auth)"
proof -
  have "gives (az_active_tenant_id auth)
    (if ok then route_authenticated G req cid em auth else ret (answer 503 ''unavailable'' None))" for ok em
    by (rule triple_if[OF gives_route gives_ret]) simp
  then have "gives (az_active_tenant_id auth)
    (case p of (ok, em) \<Rightarrow> if ok then route_authenticated G req cid em auth else ret (answer 503 ''unavailable'' None))" for p
    by (cases p) (simp only: prod.case)
  then show ?thesis unfolding authenticated_def by (intro triple_if gives_bnd gives_route)
qed

lemma gateway_hands_out:
  assumes "gateway_handle G req s = (Inr resp, s')" and "gr_portal_dto resp = Some dto"
  shows "\<exists>cid u auth v c. gw_authenticate G (ib_authorization req) (recognized_carriers req) cid u = (Inr auth, v)
    \<and> gr_dispatched resp \<and> gr_status resp < 400 \<and> gr_category resp = Some c \<and> dto_fits (az_active_tenant_id auth) c dto"
proof -
  from assms(1) obtain u v where edge: "edge_handle G req u = (Inr resp, v)"
    unfolding gateway_handle_def by (auto simp: bnd_Inr andthen_Inr simp del: bnd_run andthen_run)
  then obtain cid u1 where "(if 1 < length (remdups (recognized_carriers req))
       then deny_with_event G [] (straddle_event cid (recognized_carriers req)) None (answer 403 ''isolation_anomaly'' None)
       else tries (gw_authenticate G (ib_authorization req) (recognized_carriers req) cid)
         (\<lambda>e. case e of RequestRejected status code \<Rightarrow> deny_with_event G [] (rejected_event cid (recognized_carriers req) code) None (answer status code None)
            | GwException x \<Rightarrow> raise e)
         (authenticated G req cid (recognized_carriers req))) u1 = (Inr resp, v)"
    unfolding edge_handle_def by (auto simp: bnd_Inr Let_def simp del: bnd_run)
  moreover have "gr_portal_dto r = None" if "deny_with_event G [] ev None (answer status code None) w = (Inr r, x)" for ev status code w r x
    using that by (auto simp: deny_with_event_def answer_def bnd_Inr simp del: bnd_run split: if_splits)
  ultimately obtain auth u2 u3 where auth: "gw_authenticate G (ib_authorization req) (recognized_carriers req) cid u2 = (Inr auth, u3)"
    and run: "authenticated G req cid (recognized_carriers req) auth u3 = (Inr resp, v)"
    using assms(2) by (auto split: if_splits prod.splits sum.splits gw_error.splits)
  from tripleD[OF gives_authenticated _ run] have "shaped (az_active_tenant_id auth) resp" by simp
  with auth assms(2) show ?thesis unfolding shaped_def by blast
qed

text \<open>C26: A document is handed out only after this request's credential was authenticated, only with a dispatched success
below 400, and only of a shape its dispatch category admits: an import document names the authenticated tenant as its
target, a startup document needs a tenant, and memberships or directory documents come from their own categories.\<close>

theorem gateway_documents_need_authentication:
  assumes "gateway_handle G req s = (Inr resp, s')" and "gr_portal_dto resp = Some dto"
  shows "\<exists>cid u auth v c. gw_authenticate G (ib_authorization req) (recognized_carriers req) cid u = (Inr auth, v)
    \<and> gr_dispatched resp \<and> gr_status resp < 400 \<and> gr_category resp = Some c \<and> dto_fits (az_active_tenant_id auth) c dto"
  using assms by (rule gateway_hands_out)

section \<open>A gateway\<close>

text \<open>
  One token of tenant \<open>acme\<close>, one startup record, and a sink that accepts everything; the state is the
  trail of the sink.
\<close>

definition sample_detail :: startup_detail where
  "sample_detail = \<lparr>sd_record_ref = ''s1'', sd_display_name = ''Fjord'', sd_short_description = None, sd_investment_stage = None,
     sd_record_origin = ''tenant'', sd_record_residency = ''tenant'', sd_record_type = ''startup'', sd_lineage_reference = None\<rparr>"

definition sample_gateway :: "gateway_event list gateway" where
  "sample_gateway =
     \<lparr>gw_authenticate = (\<lambda>a c k. if a = Some ''Bearer t'' then ret \<lparr>az_correlation_id = k, az_principal_ref = ''u1'',
          az_active_tenant_id = Some ''acme'', az_role = None\<rparr> else raise gw_unauthenticated),
      gw_dispatch = (\<lambda>ctx d. ret \<lparr>ro_status = 200, ro_public_code = ''ok'', ro_dispatched = True\<rparr>),
      gw_control_read = Some \<lparr>cr_directory = (\<lambda>k. ret None), cr_memberships = (\<lambda>w. ret (Some []))\<rparr>,
      gw_classify = default_classifier, gw_audit = (\<lambda>e. writes (\<lambda>s. s @ [e])), gw_metrics = (\<lambda>m. ret ()), gw_import = None,
      gw_startup = Some \<lparr>sp_read = (\<lambda>r. ret (Some sample_detail)), sp_update = (\<lambda>r. ret None)\<rparr>,
      gw_loads = (\<lambda>b. None), gw_uuid = ret ''a1'', gw_now = ret ''t1'', gw_monotonic = ret 0\<rparr>"

definition startup_get :: inbound_request where
  "startup_get = \<lparr>ib_method = ''GET'', ib_path = ''/tenant/startups/s1'', ib_host = ''acme.portal.example'',
     ib_headers = [(''X-Tenant-Id'', ''acme''), (''x-correlation-id'', ''c1'')], ib_query = [(''tenant'', ''evil'')], ib_cookies = [],
     ib_authorization = Some ''Bearer t'', ib_patch_body = None\<rparr>"

lemma sample_served: "fst (gateway_handle sample_gateway startup_get []) = Inr (served TENANT_OPERATION (TenantStartupDetailDTO sample_detail))"
  by code_simp

lemma sample_sink: "audit_sink sample_gateway (\<lambda>s. s)"
  by (auto simp: audit_sink_def sample_gateway_def keeps_def unchanged_def)

lemma sample_run:
  obtains s' where "gateway_handle sample_gateway startup_get [] = (Inr (served TENANT_OPERATION (TenantStartupDetailDTO sample_detail)), s')"
  using sample_served by (metis prod.collapse)

theorem gateway_addresses_own_tenant_witness:
  "fst (gateway_handle (guarded ''acme'' sample_gateway) startup_get []) = Inr (served TENANT_OPERATION (TenantStartupDetailDTO sample_detail))"
proof -
  have "gateway_handle (guarded ''acme'' sample_gateway) startup_get = gateway_handle sample_gateway startup_get"
    by (rule gateway_addresses_own_tenant) (auto simp: sample_gateway_def split: if_splits)
  then show ?thesis using sample_served by simp
qed


theorem gateway_documents_need_authentication_witness:
  "\<exists>cid u auth v. gw_authenticate sample_gateway (Some ''Bearer t'') (recognized_carriers startup_get) cid u = (Inr auth, v)
     \<and> az_active_tenant_id auth \<noteq> None"
proof -
  obtain s' where run: "gateway_handle sample_gateway startup_get [] = (Inr (served TENANT_OPERATION (TenantStartupDetailDTO sample_detail)), s')"
    by (rule sample_run)
  from gateway_documents_need_authentication[OF run, of "TenantStartupDetailDTO sample_detail"]
  show ?thesis by (auto simp: served_def startup_get_def)
qed

end
