(* ===== verification/GW_EdgeClaims.thy ===== *)
theory GW_EdgeClaims
  imports GW_Edge GW_Claims
begin

text \<open>
  The properties of the northbound edge: which requests can reach the gateway core, and which bytes can
  leave it.
\<close>

section \<open>Targets\<close>

text \<open>Every segment of the path is a name that starts with a letter or digit: no empty, dot or encoded one.\<close>

definition plain_path :: "string \<Rightarrow> bool" where
  "plain_path p \<longleftrightarrow> starts_with ''/'' p \<and>
     (\<forall>seg\<in>set (split_on CHR ''/'' (drop 1 p)). seg \<noteq> [] \<and> is_alnum (hd seg) \<and> list_all (\<lambda>c. is_alnum c \<or> c \<in> set ''._:-'') seg)"

lemma starts_with_drop: "starts_with pre s \<Longrightarrow> s = pre @ drop (length pre) s"
  by (simp add: starts_with_def) (metis append_take_drop_id)

lemma safe_chars: "is_alnum c \<Longrightarrow> c \<noteq> CHR ''/''"
  by (auto simp: is_alnum_def is_alpha_def is_digit_def char_code_def)

lemma memberships_plain: "plain_path ''/memberships''"
  by (simp add: plain_path_def starts_with_def is_alnum_def is_alpha_def is_digit_def char_code_def)

lemma import_plain:
  assumes "valid_import_target p" shows "plain_path p"
proof -
  obtain r where p: "p = ''/import/'' @ r" and segs: "list_all safe_import_segment (split_on CHR ''/'' r)"
    using assms starts_with_drop[of IMPORT_PREFIX p] by (auto simp: valid_import_target_def IMPORT_PREFIX_def Let_def)
  have "split_on CHR ''/'' (drop 1 p) = ''import'' # split_on CHR ''/'' r"
    using split_on_cut[of "CHR ''/''" "''import''" r] by (simp add: p)
  with segs show ?thesis
    by (auto simp: plain_path_def p starts_with_def list_all_iff safe_import_segment_def is_alnum_def is_alpha_def is_digit_def char_code_def)
qed

lemma startup_plain:
  assumes "valid_startup_target p" shows "plain_path p"
proof -
  obtain r where p: "p = ''/tenant/startups/'' @ r" and safe: "safe_startup_ref r"
    using assms starts_with_drop[of TENANT_STARTUP_PREFIX p] by (auto simp: valid_startup_target_def TENANT_STARTUP_PREFIX_def Let_def)
  have "CHR ''/'' \<notin> set r" using safe safe_chars by (fastforce simp: safe_startup_ref_def list_all_iff)
  then have "split_on CHR ''/'' (drop 1 p) = [''tenant'', ''startups'', r]"
    using split_on_cut[of "CHR ''/''" "''tenant''" "''startups/'' @ r"] split_on_cut[of "CHR ''/''" "''startups''" r]
    by (simp add: p split_on_nomark)
  with safe show ?thesis
    by (auto simp: plain_path_def p starts_with_def list_all_iff safe_startup_ref_def is_alnum_def is_alpha_def is_digit_def char_code_def)
qed

text \<open>The requests the edge passes on.\<close>

definition exposed :: "inbound_request \<Rightarrow> bool" where
  "exposed ib \<longleftrightarrow> plain_path (ib_path ib) \<and> ib_query ib = [] \<and> ib_cookies ib = []
     \<and> set (map fst (ib_headers ib)) \<subseteq> {''x-correlation-id'', ''X-Tenant-Id'', ''x-operation-key''}
     \<and> ((ib_method ib = ''GET'' \<and> ib_path ib = ''/memberships'')
        \<or> (ib_method ib = ''POST'' \<and> starts_with IMPORT_PREFIX (ib_path ib))
        \<or> (ib_method ib \<in> {''GET'', ''PATCH''} \<and> starts_with TENANT_STARTUP_PREFIX (ib_path ib)))"

lemmas inbound_defs = inbound_def import_forwarded_headers_def forwarded_headers_def

lemma memberships_exposed: "exposed (inbound req ''GET'' ''/memberships'' (forwarded_headers req cid) None)"
  by (auto simp: exposed_def inbound_defs memberships_plain split: option.splits)

lemma import_exposed: "valid_import_target p \<Longrightarrow> exposed (inbound req ''POST'' p (import_forwarded_headers req cid) None)"
  by (auto simp: exposed_def inbound_defs import_plain valid_import_target_def split: option.splits)

lemma startup_exposed:
  "\<lbrakk>valid_startup_target p; verb \<in> {''GET'', ''PATCH''}\<rbrakk> \<Longrightarrow> exposed (inbound req verb p (forwarded_headers req cid) body)"
  by (auto simp: exposed_def inbound_defs startup_plain valid_startup_target_def split: option.splits)

lemma strip_safe: "safe_correlation s \<Longrightarrow> strip s = s"
proof -
  assume safe: "safe_correlation s"
  have "\<not> is_space c" if "c \<in> set s" for c
    using that safe by (auto simp: safe_correlation_def list_all_iff is_alnum_def is_alpha_def is_digit_def is_space_def char_code_def)
  then have "dropWhile is_space s = s" "dropWhile is_space (rev s) = rev s" by (auto simp: dropWhile_eq_self_iff hd_rev)
  then show ?thesis by (simp add: strip_def)
qed

text \<open>The core reads the correlation identifier the edge answers with.\<close>

lemma forwarded_correlation:
  assumes "safe_correlation cid"
  shows "correlation_header (ib_headers (inbound req verb p (forwarded_headers req cid) body)) = Some cid"
    and "correlation_header (ib_headers (inbound req verb p (import_forwarded_headers req cid) body)) = Some cid"
proof -
  have "to_lower ''x-correlation-id'' = ''x-correlation-id''" by (simp add: to_lower_def to_lower_char_def char_code_def)
  moreover have "strip cid = cid" "cid \<noteq> []" using assms strip_safe by (auto simp: safe_correlation_def)
  ultimately show "correlation_header (ib_headers (inbound req verb p (forwarded_headers req cid) body)) = Some cid"
    and "correlation_header (ib_headers (inbound req verb p (import_forwarded_headers req cid) body)) = Some cid"
    by (simp_all add: inbound_defs)
qed

section \<open>What a request can cause\<close>

lemma route_of_verb: "route_of matches verb path = Inr r \<Longrightarrow> \<exists>t vs. (t, vs, r) \<in> set registered_routes \<and> verb \<in> set vs"
  by (auto simp: route_of_def find_Some_iff split: option.splits) (metis nth_mem)

lemma startup_route_verb: "route_of matches verb path = Inr STARTUP_ROUTE \<Longrightarrow> verb \<in> {''GET'', ''PATCH''}"
  by (drule route_of_verb) (auto simp: registered_routes_def)

lemma handle_cases:
  assumes cid: "safe_correlation cid" and verb: "r = STARTUP_ROUTE \<Longrightarrow> eq_method req \<in> {''GET'', ''PATCH''}"
  shows "(\<exists>ib expected. exposed ib \<and> correlation_header (ib_headers ib) = Some cid
      \<and> ib_authorization ib = header_get (eq_headers req) ''Authorization'' \<and> handle_route E req t cid r = invoke E expected ib)
    \<or> (\<exists>reply. (\<forall>core. handle_route (E\<lparr>eg_core := core\<rparr>) req t cid r = ret reply)
      \<and> el_body reply \<in> {[], eg_dumps E liveness_json, eg_dumps E readiness_json})"
proof -
  note asks = memberships_exposed import_exposed startup_exposed forwarded_correlation[OF cid]
  show ?thesis
  proof (cases r)
    case MEMBERSHIPS_ROUTE
    then show ?thesis
      by (intro disjI1 exI[of _ "inbound req ''GET'' ''/memberships'' (forwarded_headers req cid) None"] exI[of _ "\<lambda>_. True"])
        (simp add: handle_route_def asks, simp add: inbound_def)
  next
    case IMPORT_ROUTE
    show ?thesis
    proof (cases "valid_import_target t")
      case True
      with IMPORT_ROUTE show ?thesis
        by (intro disjI1 exI[of _ "inbound req ''POST'' t (import_forwarded_headers req cid) None"] exI[of _ import_result_dto])
          (simp add: handle_route_def asks, simp add: inbound_def)
    next
      case False
      with IMPORT_ROUTE show ?thesis by (intro disjI2 exI[of _ "empty_reply 404"]) (simp add: handle_route_def empty_reply_def)
    qed
  next
    case STARTUP_ROUTE
    show ?thesis
    proof (cases "valid_startup_target t")
      case True
      with STARTUP_ROUTE verb show ?thesis
        by (intro disjI1 exI[of _ "inbound req (eq_method req) t (forwarded_headers req cid)
            (if eq_method req = ''PATCH'' then Some (eq_body req) else None)"] exI[of _ startup_detail_dto])
          (simp add: handle_route_def asks, simp add: inbound_def)
    next
      case False
      with STARTUP_ROUTE show ?thesis by (intro disjI2 exI[of _ "empty_reply 404"]) (simp add: handle_route_def empty_reply_def)
    qed
  qed (auto simp: handle_route_def preflight_def empty_reply_def)
qed

text \<open>Either the core plays no part in the reply, or it is asked once, with an exposed request.\<close>

lemma edge_reply_cases:
  fixes E :: "'s edge_env"
  assumes "safe_correlation cid"
  obtains (fixed) reply where "\<And>core. edge_reply_of (E\<lparr>eg_core := core\<rparr>) req cid = ret reply"
      "el_body reply \<in> {[], eg_dumps E liveness_json, eg_dumps E readiness_json}"
    | (asked) ib expected where "exposed ib" "correlation_header (ib_headers ib) = Some cid"
      "ib_authorization ib = header_get (eq_headers req) ''Authorization''"
      "edge_reply_of E req cid = invoke E expected ib"
proof -
  let ?t = "request_target req"
  have other: "edge_reply_of (E\<lparr>eg_core := core\<rparr>) req cid = ret reply"
    if "bounds_violation req ?t (body_budget ?t (eq_method req)) = Some status \<and> reply = empty_reply status
      \<or> bounds_violation req ?t (body_budget ?t (eq_method req)) = None \<and> eq_query req \<noteq> [] \<and> reply = empty_reply 404" for core reply status
    using that by (auto simp: edge_reply_of_def Let_def)
  show thesis
  proof (cases "bounds_violation req ?t (body_budget ?t (eq_method req)) = None \<and> eq_query req = []")
    case False
    then obtain reply status where "bounds_violation req ?t (body_budget ?t (eq_method req)) = Some status \<and> reply = empty_reply status
      \<or> bounds_violation req ?t (body_budget ?t (eq_method req)) = None \<and> eq_query req \<noteq> [] \<and> reply = empty_reply 404"
      by (cases "bounds_violation req ?t (body_budget ?t (eq_method req))") (auto intro: that)
    from fixed[OF other[OF this]] this show thesis by (auto simp: empty_reply_def)
  next
    case True
    then have edge: "edge_reply_of F req cid = (case route_of (eg_matches F) (eq_method req) (eq_path req) of
        Inl status \<Rightarrow> ret (empty_reply status) | Inr r \<Rightarrow> handle_route F req ?t cid r)" for F :: "'s edge_env"
      by (simp add: edge_reply_of_def Let_def)
    show thesis
    proof (cases "route_of (eg_matches E) (eq_method req) (eq_path req)")
      case (Inl status)
      then show thesis by (intro fixed[of "empty_reply status"]) (simp_all add: edge empty_reply_def)
    next
      case (Inr r)
      note at = edge[unfolded Inr sum.case]
      consider (ask) ib expected where "exposed ib" "correlation_header (ib_headers ib) = Some cid"
          "ib_authorization ib = header_get (eq_headers req) ''Authorization''" "handle_route E req ?t cid r = invoke E expected ib"
        | (idle) reply where "\<And>core. handle_route (E\<lparr>eg_core := core\<rparr>) req ?t cid r = ret reply"
          "el_body reply \<in> {[], eg_dumps E liveness_json, eg_dumps E readiness_json}"
        using handle_cases[OF assms, of r req E ?t] startup_route_verb Inr by metis
      then show thesis
      proof cases
        case ask
        then show thesis using at by (intro asked) (auto simp: Inr edge)
      next
        case idle
        then show thesis by (intro fixed[of reply]) (simp_all add: Inr edge)
      qed
    qed
  qed
qed



section \<open>Witnesses\<close>

text \<open>The sample gateway behind the edge, with a one-template router and an encoder that marks what it encodes.\<close>

definition sample_edge :: "gateway_event list edge_env" where
  "sample_edge = \<lparr>eg_core = gateway_handle sample_gateway, eg_mint = (\<lambda>s. (''minted'', s)), eg_dumps = (\<lambda>_. ''operational''),
     eg_dumps_compact = (\<lambda>_. ''document''), eg_matches = (\<lambda>template path. template = ''/tenant/startups/{startup_ref}''),
     eg_origins = []\<rparr>"

definition sample_request :: edge_request where
  "sample_request = \<lparr>eq_method = ''GET'', eq_raw_path = Some ''/tenant/startups/s1'', eq_path = ''/tenant/startups/s1'', eq_query = [],
     eq_headers = [(''authorization'', ''Bearer t''), (''x-tenant-id'', ''acme''), (''cookie'', ''tenant=evil'')], eq_body = []\<rparr>"

lemma sample_edge_mint: "safe_correlation (fst (eg_mint sample_edge t))"
proof -
  have "safe_correlation ''minted''" by code_simp
  then show ?thesis by (simp add: sample_edge_def)
qed

lemma sample_edge_serves:
  "ha_status (fst (edge_app sample_edge sample_request [])) = 200 \<and> ha_body (fst (edge_app sample_edge sample_request [])) = ''document''"
  by code_simp

lemma sample_edge_other: "ha_body (fst (edge_app (sample_edge\<lparr>eg_core := \<lambda>_. raise (GwException ''x'')\<rparr>) sample_request [])) = []"
  by code_simp



end
