(* ===== verification/GW_StackClaims.thy ===== *)
theory GW_StackClaims
  imports GW_Stack GW_EdgeClaims AR_Claims
begin

text \<open>
  The properties of the gateway and the auth router together, over the wire between them.
\<close>

text \<open>C31: What the gateway learns of a credential is the decision of the auth router: over the internal edge, without a bearer
token the request is unauthenticated, with carriers that disagree it is a carrier mismatch, and otherwise the gateway gets
exactly the identity or the refusal the authenticator decides for this token, correlation identifier and carrier; a fault of
the authenticator and an identity the wire cannot carry are an outage.\<close>

theorem credential_decided_by_auth_router:
  assumes "codec dumps loads" and "length (dumps (refusal_document 403 ''carrier_mismatch'')) \<le> n"
  shows "http_authenticate (auth_edge dumps float_one loads A) loads n a cs k w =
    (if k = [] then (Inl unavailable, w)
     else case bearer_token (json_opt a) of
         None \<Rightarrow> (Inl gw_unauthenticated, w)
       | Some tok \<Rightarrow>
           if cs \<noteq> [] \<and> set cs \<noteq> {hd cs} then (Inl carrier_mismatch, w)
           else (case authenticate A tok k (if cs = [] then None else Some (hd cs)) None w of
               (Inr ctx, t) \<Rightarrow> (if n < length (dumps (context_document ctx)) then Inl unavailable else wire_identity ctx, t)
             | (Inl (AuthDenied d), t) \<Rightarrow> (Inl (denied_as d), t)
             | (Inl (Raised x), t) \<Rightarrow> (Inl unavailable, t)))"
  using assms by (rule authenticate_wired)

definition ada_context :: auth_context where
  "ada_context = \<lparr>ax_correlation_id = ''c1'', ax_principal_ref = JStr ''ada'', ax_active_tenant_id = Some (JStr ''acme''),
     ax_role = Some ''TENANT_AGENT''\<rparr>"

definition ada_names :: "(string \<times> json) list" where
  "ada_names = [(''refusal'', refusal_document 403 ''carrier_mismatch''), (''context'', context_document ada_context)]"

lemma ada_codec: "codec (named_dumps ada_names) (named_loads ada_names)"
  by (rule named_codec) (auto simp: ada_names_def is_digit_def char_code_def)

lemma ada_rendered: "named_dumps ada_names (refusal_document 403 ''carrier_mismatch'') = ''refusal''"
    "named_dumps ada_names (context_document ada_context) = ''context''"
  by (simp_all add: named_dumps_def ada_names_def refusal_document_def context_document_def)

definition ada_auth :: "operational_event list authenticator" where
  "ada_auth = sample_auth sample_header (sample_payload (JStr ''acme'')) (Some (sample_state True)) True"

lemma ada_bearer: "bearer_token (json_opt (Some ''Bearer h.p.s'')) = Some ''h.p.s''"
  by code_simp

definition ada_identity :: auth_result where
  "ada_identity = \<lparr>az_correlation_id = ''c1'', az_principal_ref = ''ada'', az_active_tenant_id = Some ''acme'', az_role = Some ''TENANT_AGENT''\<rparr>"

lemma ada_accepts: "authenticate ada_auth ''h.p.s'' ''c1'' (Some ''acme'') None [] = (Inr ada_context, [AR_Claims.sample_event (Some (JStr ''acme'')) ''Authenticate''])"
  using sample_accepts by (simp add: ada_auth_def ada_context_def)

lemma ada_wire: "wire_identity ada_context = Inr ada_identity"
  by (simp add: wire_identity_def ada_context_def ada_identity_def str_or_null_def)

theorem credential_decided_by_auth_router_witness:
  "http_authenticate (auth_edge (named_dumps ada_names) (\<lambda>_. False) (named_loads ada_names) ada_auth) (named_loads ada_names) 65536
     (Some ''Bearer h.p.s'') [''acme'', ''acme''] ''c1'' []
   = (Inr ada_identity, [AR_Claims.sample_event (Some (JStr ''acme'')) ''Authenticate''])"
  using credential_decided_by_auth_router[OF ada_codec, of 65536 "\<lambda>_. False" ada_auth "Some ''Bearer h.p.s''" "[''acme'', ''acme'']" "''c1''" "[]"]
  by (simp add: ada_rendered ada_bearer ada_accepts ada_wire)

lemma document_proven:
  assumes codec: "codec dumps loads" and small: "length (dumps (refusal_document 403 ''carrier_mismatch'')) \<le> kilobytes 64"
    and auth: "post_to net (wr_authenticator W) = zoomed get put (auth_edge dumps float_one loads A)" "ot_loads net = loads"
    and run: "gateway_handle (wired_gateway net W) req s = (Inr resp, s')" and dto: "gr_portal_dto resp = Some dto"
  shows "\<exists>tok w cfg alg p c tenant. bearer_token (json_opt (ib_authorization req)) = Some tok \<and> issuer_for A tok = Some cfg
    \<and> token_proven (au_jwt A) cfg (fst (au_clock A w)) tok alg p
    \<and> gr_category resp = Some c \<and> dto_fits tenant c dto
    \<and> (case tenant of
         None \<Rightarrow> claimed_tenant cfg p = None
       | Some t \<Rightarrow> claimed_tenant cfg p = Some (JStr t) \<and> set (recognized_carriers req) \<subseteq> {t}
           \<and> (\<exists>role. tenant_admitted (au_read A) (obj_get p ''sub'') (JStr t) (snd (au_clock A w)) role))"
proof -
  from gateway_hands_out[OF run dto] obtain cid u az v c where
    az: "gw_authenticate (wired_gateway net W) (ib_authorization req) (recognized_carriers req) cid u = (Inr az, v)"
    and fits: "gr_category resp = Some c" "dto_fits (az_active_tenant_id az) c dto" by blast
  let ?cs = "recognized_carriers req" and ?w = "get (gs_world u)"
  have "\<exists>t. http_authenticate (auth_edge dumps float_one loads A) loads (kilobytes 64) (ib_authorization req) ?cs cid ?w = (Inr az, t)"
    using az by (auto simp: wired_gateway_def build_gateway_def in_world_def http_authenticate_def sending_def auth zoomed_def
        split: prod.splits)
  then obtain t where "http_authenticate (auth_edge dumps float_one loads A) loads (kilobytes 64) (ib_authorization req) ?cs cid ?w = (Inr az, t)" ..
  note decided = this[unfolded authenticate_wired[OF codec small]]
  from decided obtain tok where tok: "bearer_token (json_opt (ib_authorization req)) = Some tok" by (auto split: if_splits option.splits)
  let ?c = "if ?cs = [] then None else Some (hd ?cs)"
  from decided tok obtain ctx t' where ctx: "authenticate A tok cid ?c None ?w = (Inr ctx, t')" "wire_identity ctx = Inr az"
      "?cs = [] \<or> set ?cs = {hd ?cs}"
    by (auto split: if_splits prod.splits sum.splits auth_error.splits)
  from authenticate_proves[OF ctx(1)] obtain cfg alg p where
    proven: "issuer_for A tok = Some cfg" "token_proven (au_jwt A) cfg (fst (au_clock A ?w)) tok alg p"
      "ax_active_tenant_id ctx = claimed_tenant cfg p"
      "case claimed_tenant cfg p of None \<Rightarrow> ax_role ctx = None
       | Some t \<Rightarrow> (?c = None \<or> t = JStr (the ?c)) \<and> tenant_admitted (au_read A) (obj_get p ''sub'') t (snd (au_clock A ?w)) (ax_role ctx)"
    by blast
  have mine: "az_active_tenant_id az = (case ax_active_tenant_id ctx of Some (JStr t) \<Rightarrow> Some t | _ \<Rightarrow> None)"
      "ax_active_tenant_id ctx \<noteq> None \<Longrightarrow> ax_active_tenant_id ctx \<noteq> Some JNull \<Longrightarrow> \<exists>t. ax_active_tenant_id ctx = Some (JStr t)"
    using ctx(2) by (auto simp: wire_identity_def str_or_null_def split: json.splits option.splits)
  have named: "claimed_tenant cfg p \<noteq> Some JNull" by (auto simp: claimed_tenant_def split: json.splits)
  have bound: "case az_active_tenant_id az of
         None \<Rightarrow> claimed_tenant cfg p = None
       | Some t \<Rightarrow> claimed_tenant cfg p = Some (JStr t) \<and> set ?cs \<subseteq> {t}
           \<and> (\<exists>role. tenant_admitted (au_read A) (obj_get p ''sub'') (JStr t) (snd (au_clock A ?w)) role)"
  proof (cases "claimed_tenant cfg p")
    case None
    then show ?thesis using mine(1) proven(3) by simp
  next
    case (Some v)
    with mine named proven(3) obtain t where t: "claimed_tenant cfg p = Some (JStr t)" by auto
    then show ?thesis using mine(1) proven(3,4) ctx(3) by (auto split: if_splits)
  qed
  show ?thesis using tok proven(1,2) fits bound by blast
qed

text \<open>A document leaves the deployment only on a proven token and a confirmed membership: whatever the other services
behind the gateway do, if the gateway wired to the auth router's edge hands out a document, then the request carried a bearer
token that the issuer's key proves for this audience and time, the document's shape fits the tenant the token claims, the control
plane confirmed that tenant as ready and the token's subject as its member, and no carrier of the request names another tenant.\<close>

theorem document_needs_token_and_membership:
  assumes codec: "codec dumps loads" and small: "length (dumps (refusal_document 403 ''carrier_mismatch'')) \<le> kilobytes 64"
    and auth: "post_to net (wr_authenticator W) = zoomed get put (auth_edge dumps float_one loads A)" "ot_loads net = loads"
    and run: "gateway_handle (wired_gateway net W) req s = (Inr resp, s')" and dto: "gr_portal_dto resp = Some dto"
  shows "\<exists>tok w cfg alg p c tenant. bearer_token (json_opt (ib_authorization req)) = Some tok \<and> issuer_for A tok = Some cfg
    \<and> token_proven (au_jwt A) cfg (fst (au_clock A w)) tok alg p
    \<and> gr_category resp = Some c \<and> dto_fits tenant c dto
    \<and> (case tenant of
         None \<Rightarrow> claimed_tenant cfg p = None
       | Some t \<Rightarrow> claimed_tenant cfg p = Some (JStr t) \<and> set (recognized_carriers req) \<subseteq> {t}
           \<and> (\<exists>role. tenant_admitted (au_read A) (obj_get p ''sub'') (JStr t) (snd (au_clock A w)) role))"
  using assms by (rule document_proven)

section \<open>A wired deployment\<close>

text \<open>The auth router at one base URL; every other base answers with a startup document.\<close>

definition ada_detail :: json where
  "ada_detail = JObj [(''version'', JInt 1), (''record'', JObj [(''record_ref'', JStr ''s1''), (''display_name'', JStr ''Fjord''),
     (''short_description'', JNull), (''investment_stage'', JNull), (''lineage_reference'', JNull)])]"

definition ada_documents :: "(string \<times> json) list" where
  "ada_documents = ada_names @ [(''detail'', ada_detail)]"

lemma ada_documents_codec: "codec (named_dumps ada_documents) (named_loads ada_documents)"
  by (rule named_codec) (auto simp: ada_documents_def ada_names_def is_digit_def char_code_def)

lemma ada_documents_rendered: "named_dumps ada_documents (refusal_document 403 ''carrier_mismatch'') = ''refusal''"
    "named_dumps ada_documents (context_document ada_context) = ''context''" "named_loads ada_documents ''detail'' = Some ada_detail"
  by (simp_all add: named_dumps_def named_loads_def ada_documents_def ada_names_def refusal_document_def context_document_def)

definition ada_net :: "operational_event list authenticator \<Rightarrow> operational_event list outside" where
  "ada_net A =
     \<lparr>ot_post = (\<lambda>base. if base = ''http://auth'' then auth_edge (named_dumps ada_documents) (\<lambda>_. False) (named_loads ada_documents) A
        else (\<lambda>_ _ w. (Response 200 ''detail'', w))),
      ot_fetch = (\<lambda>base path w. (NoAnswer, w)), ot_quote = (\<lambda>s. s), ot_loads = named_loads ada_documents, ot_float_one = (\<lambda>_. False),
      ot_uuid = ret ''a1'', ot_now = ret ''t1'', ot_monotonic = ret 0\<rparr>"

definition ada_wiring :: gateway_wiring where
  "ada_wiring = \<lparr>wr_authenticator = ''http://auth/'', wr_control_read = ''http://cp'', wr_router = ''http://router'', wr_audit = None,
     wr_import = None, wr_startup = Some ''http://startups''\<rparr>"

definition ada_get :: inbound_request where
  "ada_get = startup_get\<lparr>ib_authorization := Some ''Bearer h.p.s''\<rparr>"

definition ada_served :: startup_detail where
  "ada_served = \<lparr>sd_record_ref = ''s1'', sd_display_name = ''Fjord'', sd_short_description = None, sd_investment_stage = None,
     sd_record_origin = ''tenant'', sd_record_residency = ''tenant'', sd_record_type = ''startup'', sd_lineage_reference = None\<rparr>"

lemma zoomed_whole: "zoomed (\<lambda>w. w) (\<lambda>t _. t) tr = tr"
  by (simp add: zoomed_def fun_eq_iff)

lemma ada_posts:
  "post_to (ada_net A) ''http://auth/'' = auth_edge (named_dumps ada_documents) (\<lambda>_. False) (named_loads ada_documents) A"
  "post_to (ada_net A) ''http://startups'' = (\<lambda>_ _ w. (Response 200 ''detail'', w))"
  by (simp_all add: post_to_def ada_net_def rstrip_slash_def)

lemma ada_request:
  "correlation_header (ib_headers ada_get) = Some ''c1''" "recognized_carriers ada_get = [''acme'', ''acme'']"
  "ib_authorization ada_get = Some ''Bearer h.p.s''" "ib_path ada_get = ''/tenant/startups/s1''" "ib_method ada_get = ''GET''"
  "tenant_startup_ref ''/tenant/startups/s1'' = Some ''s1''" "default_classifier ada_get = Inr TENANT_OPERATION"
  by code_simp+

lemma ada_authenticates:
  assumes "authenticate A ''h.p.s'' ''c1'' (Some ''acme'') None [] = (Inr ada_context, trail)"
  shows "gw_authenticate (wired_gateway (ada_net A) ada_wiring) (Some ''Bearer h.p.s'') [''acme'', ''acme''] ''c1'' \<lparr>gs_world = [], gs_trail = [], gs_metrics = []\<rparr>
   = (Inr ada_identity, \<lparr>gs_world = trail, gs_trail = [], gs_metrics = []\<rparr>)"
proof -
  have "http_authenticate (post_to (ada_net A) ''http://auth/'') (named_loads ada_documents) 65536
     (Some ''Bearer h.p.s'') [''acme'', ''acme''] ''c1'' [] = (Inr ada_identity, trail)"
    using assms authenticate_wired[OF ada_documents_codec, of 65536 "\<lambda>_. False" A "Some ''Bearer h.p.s''" "[''acme'', ''acme'']" "''c1''" "[]"]
    by (simp add: ada_documents_rendered ada_bearer ada_wire ada_posts(1))
  then show ?thesis
    by (simp add: wired_gateway_def build_gateway_def in_world_def kilobytes_def) (simp add: ada_wiring_def ada_net_def)
qed

lemma ada_reads:
  assumes "su_startup_ref r = ''s1''"
  shows "http_startup_read (post_to (ada_net A) ''http://startups'') (\<lambda>_. False) (named_loads ada_documents) (kilobytes 64) r w = (Inr (Some ada_served), w)"
  using assms
  by (simp add: http_startup_read_def sending_def ada_posts read_startup_answer_def ada_documents_rendered kilobytes_def)
    (simp add: ada_detail_def has_keys_def obj_get_def dict_get_def plain_version_one_def client_startup_record_def RECORD_KEYS_def
      client_ref_def client_nullable_def utf8_length_def char_code_def ada_served_def SHORT_DESCRIPTION_MAX_CHARS_def)

definition ada_start :: "operational_event list gateway_world" where
  "ada_start = \<lparr>gs_world = [], gs_trail = [], gs_metrics = []\<rparr>"

lemma ada_parts:
  "gw_uuid (wired_gateway (ada_net A) ada_wiring) = ret ''a1''" "gw_now (wired_gateway (ada_net A) ada_wiring) = ret ''t1''"
  "gw_monotonic (wired_gateway (ada_net A) ada_wiring) = ret 0" "gw_metrics (wired_gateway (ada_net A) ada_wiring) = memory_metrics"
  "gw_audit (wired_gateway (ada_net A) ada_wiring) = memory_emit" "gw_classify (wired_gateway (ada_net A) ada_wiring) = default_classifier"
  by (simp_all add: wired_gateway_def build_gateway_def in_world_def fun_eq_iff) (simp_all add: ada_net_def ada_wiring_def ret_def)

lemma ada_startups:
  obtains P where "gw_startup (wired_gateway (ada_net A) ada_wiring) = Some P"
    "\<And>r w. su_startup_ref r = ''s1'' \<Longrightarrow> sp_read P r w = (Inr (Some ada_served), w)"
proof
  show "gw_startup (wired_gateway (ada_net A) ada_wiring) = Some
     \<lparr>sp_read = (\<lambda>r. in_world (http_startup_read (post_to (ada_net A) ''http://startups'') (ot_float_one (ada_net A)) (ot_loads (ada_net A)) (kilobytes 64) r)),
      sp_update = (\<lambda>r. in_world (http_startup_update (post_to (ada_net A) ''http://startups'') (ot_float_one (ada_net A)) (ot_loads (ada_net A)) (kilobytes 64) r))\<rparr>"
    by (simp add: wired_gateway_def build_gateway_def ada_wiring_def)
  have "ot_float_one (ada_net A) = (\<lambda>_. False)" "ot_loads (ada_net A) = named_loads ada_documents" by (simp_all add: ada_net_def)
  then show "sp_read \<lparr>sp_read = (\<lambda>r. in_world (http_startup_read (post_to (ada_net A) ''http://startups'') (ot_float_one (ada_net A)) (ot_loads (ada_net A)) (kilobytes 64) r)),
      sp_update = (\<lambda>r. in_world (http_startup_update (post_to (ada_net A) ''http://startups'') (ot_float_one (ada_net A)) (ot_loads (ada_net A)) (kilobytes 64) r))\<rparr> r w
      = (Inr (Some ada_served), w)" if "su_startup_ref r = ''s1''" for r w
    using that by (simp add: in_world_def ada_reads)
qed

lemma ada_runs:
  assumes "authenticate A ''h.p.s'' ''c1'' (Some ''acme'') None [] = (Inr ada_context, trail)"
  shows "\<exists>s'. gateway_handle (wired_gateway (ada_net A) ada_wiring) ada_get ada_start = (Inr (served TENANT_OPERATION (TenantStartupDetailDTO ada_served)), s')"
proof -
  obtain P where P: "gw_startup (wired_gateway (ada_net A) ada_wiring) = Some P"
    "\<And>r w. su_startup_ref r = ''s1'' \<Longrightarrow> sp_read P r w = (Inr (Some ada_served), w)" using ada_startups by metis
  show ?thesis
    using ada_authenticates[OF assms]
    by (simp add: Let_def gateway_handle_def ada_parts edge_handle_def correlation_id_def ada_request ada_start_def authenticated_def
        ada_identity_def route_authenticated_def dispatch_decision_of_def decide_def build_request_context_def
        assert_single_database_def category_domain_def CONTROL_CATEGORIES_def serve_decision_def P serve_startup_def
        startup_request_def finish_startup_def serve_with_event_def sink_event_def memory_emit_def memory_metrics_def)
qed

theorem document_needs_token_and_membership_witness:
  "\<exists>tok w cfg alg p. bearer_token (json_opt (Some ''Bearer h.p.s'')) = Some tok \<and> issuer_for ada_auth tok = Some cfg
    \<and> token_proven (au_jwt ada_auth) cfg (fst (au_clock ada_auth w)) tok alg p \<and> claimed_tenant cfg p = Some (JStr ''acme'')"
proof -
  obtain s' where run: "gateway_handle (wired_gateway (ada_net ada_auth) ada_wiring) ada_get ada_start
      = (Inr (served TENANT_OPERATION (TenantStartupDetailDTO ada_served)), s')" using ada_runs[OF ada_accepts] by blast
  have small: "length (named_dumps ada_documents (refusal_document 403 ''carrier_mismatch'')) \<le> kilobytes 64"
    by (simp add: ada_documents_rendered kilobytes_def)
  have wired: "post_to (ada_net ada_auth) (wr_authenticator ada_wiring) = zoomed (\<lambda>w. w) (\<lambda>t _. t)
      (auth_edge (named_dumps ada_documents) (\<lambda>_. False) (named_loads ada_documents) ada_auth)" "ot_loads (ada_net ada_auth) = named_loads ada_documents"
    by (simp_all add: ada_wiring_def ada_posts zoomed_whole) (simp add: ada_net_def)
  from document_needs_token_and_membership[OF ada_documents_codec small wired run, of "TenantStartupDetailDTO ada_served"]
  show ?thesis
    by (auto simp: served_def ada_request split: option.splits)
qed

end
