(* ===== verification/ReadClaims.thy ===== *)
theory ReadClaims
  imports ReadClients CP_ReadEdge GW_StackClaims DR_Claims
begin

text \<open>
  The reads of the services over the read edge of the control plane: what each client gets is what the control store holds.
\<close>

section \<open>Answers on the wire\<close>

lemma seen_found: "codec dumps loads \<Longrightarrow> fetched loads (exchange_of dumps (answer_read (Inr (200, b)))) = Inr (Some (read_json b))"
  by (simp add: fetched_def exchange_of_def answer_read_def json_response_def)

lemma seen_or_404:
  "codec dumps loads \<Longrightarrow> fetched loads (exchange_of dumps (answer_read (Inr (or_404 f x)))) = Inr (map_option (\<lambda>a. read_json (f a)) x)"
  by (cases x) (simp_all add: or_404_def fetched_def exchange_of_def answer_read_def json_response_def)

lemma seen_failed:
  "fetched loads (exchange_of dumps (empty_response 503)) = Inl ''HTTPError''"
  "fetched loads (exchange_of dumps (answer_read (Inr (400, e)))) = Inl ''HTTPError''"
  by (simp_all add: fetched_def exchange_of_def answer_read_def json_response_def empty_response_def)

lemmas documents = has_keys_def obj_get_def dict_get_def falsy_def truthy_def

lemma role_seen: "role_of (Some (read_json (RoleIs (role_value r)))) = Inr (Some x) \<longleftrightarrow> auth_role_value x = role_value r"
  by (cases r; cases x) (simp_all add: role_of_def documents read_json.simps auth_roles_def role_value_def auth_role_value_def)

lemma role_total: "\<exists>x. role_of (Some (read_json (RoleIs (role_value r)))) = Inr (Some x)"
  by (cases r) (simp_all add: role_of_def documents read_json.simps auth_roles_def role_value_def auth_role_value_def)

definition state_seen :: "tenant_state_view \<Rightarrow> auth_tenant_state" where
  "state_seen v = \<lparr>tv_tenant_id = ts_tenant_id v, tv_lifecycle_state = ts_lifecycle_state v, tv_ready = ts_ready v\<rparr>"

definition federation_seen :: "federation_config \<Rightarrow> federation_view" where
  "federation_seen c = \<lparr>fv_tenant_id = fed_tenant_id c, fv_oidc_issuer = oidc_issuer c, fv_oidc_audience = oidc_audience c,
     fv_jwks_ref = jwks_ref c, fv_claim_to_tenant_rule = claim_to_tenant_rule c\<rparr>"

lemma parsed_documents:
  "tenant_state_of (Some (read_json (State v))) = Inr (Some (state_seen v))"
  "federation_of (Some (read_json (Federation c))) = Inr (Some (federation_seen c))"
  "member_of (Some (read_json (Member b))) = Inr b"
  "routing_view_of (Some (read_json (Routing rv))) = Inr (Some (http_routing_view rv))"
  by (auto simp: tenant_state_of_def federation_of_def member_of_def routing_view_of_def association_of_def association_json_def
      read_json.simps documents state_seen_def federation_seen_def http_routing_view_def)

lemma parsed_nothing: "tenant_state_of None = Inr None" "federation_of None = Inr None" "role_of None = Inr None" "routing_view_of None = Inr None"
  by (simp_all add: tenant_state_of_def federation_of_def role_of_def routing_view_of_def falsy_def)

text \<open>What the wire is trusted with: documents and encoded text decode to themselves, and a path without a host is one.\<close>

definition read_wire :: "(json \<Rightarrow> string) \<Rightarrow> (string \<Rightarrow> json option) \<Rightarrow> (string \<Rightarrow> bool) \<Rightarrow> (nat list \<Rightarrow> string) \<Rightarrow> bool" where
  "read_wire dumps loads netloc_ok utf8 \<longleftrightarrow> codec dumps loads \<and> utf8_codec utf8 \<and> netloc_ok []"

lemma edge_answers:
  assumes "read_wire dumps loads netloc_ok utf8" and "acquire w = Some s"
  shows "fetched loads (fst (read_edge dumps netloc_ok utf8 acquire target w)) = (case read_dispatch netloc_ok utf8 s ''GET'' (read_request_target target) of
      Inl _ \<Rightarrow> Inl ''HTTPError'' | Inr r \<Rightarrow> fetched loads (exchange_of dumps (answer_read (Inr r))))"
    and "snd (read_edge dumps netloc_ok utf8 acquire target w) = w"
  using assms by (auto simp: read_edge_def answer_read_def seen_failed split: sum.splits)

lemma wire_reading:
  assumes "read_wire dumps loads netloc_ok utf8" and "acquire w = Some s"
    and "read_dispatch netloc_ok utf8 s ''GET'' (read_request_target target) = Inr r"
  shows "reading (read_edge dumps netloc_ok utf8 acquire) loads (Inr target) parse w
    = (raised (sbind (fetched loads (exchange_of dumps (answer_read (Inr r)))) parse), w)"
  using edge_answers[where acquire = acquire and w = w and target = target, OF assms(1,2)] assms(3)
  by (cases "read_edge dumps netloc_ok utf8 acquire target w") (simp add: reading_def sending_def)

lemma read_wireD:
  assumes "read_wire dumps loads netloc_ok utf8" shows "codec dumps loads" "utf8_codec utf8" "netloc_ok []"
  using assms by (simp_all add: read_wire_def)

lemma member_read:
  assumes wire: "read_wire dumps loads netloc_ok utf8" and got: "acquire w = Some s"
  shows "rd_is_member (http_control_read (read_edge dumps netloc_ok utf8 acquire) loads) (JStr p) (JStr t) w = (Inr (read_is_member s p t), w)"
  unfolding http_control_read_def read_port.simps quoted_claim_def json.case sbind_simps
  by (subst wire_reading[where acquire = acquire and w = w, OF wire got dispatch_members(1)[where netloc_ok = netloc_ok, OF read_wireD(2,3)[OF wire]]])
    (simp add: seen_found[OF read_wireD(1)[OF wire]] parsed_documents raised_def)

lemma role_read:
  assumes wire: "read_wire dumps loads netloc_ok utf8" and got: "acquire w = Some s"
  shows "\<exists>r. rd_get_role (http_control_read (read_edge dumps netloc_ok utf8 acquire) loads) (JStr p) (JStr t) w = (Inr r, w)
    \<and> map_option auth_role_value r = read_get_role s p t"
proof -
  have got_role: "\<exists>r. role_of (map_option (\<lambda>a. read_json (RoleIs a)) (read_get_role s p t)) = Inr r \<and> map_option auth_role_value r = read_get_role s p t"
  proof (cases "read_get_role s p t")
    case (Some v)
    then obtain m where v: "v = role_value m" by (auto simp: read_get_role_def split: list.splits)
    obtain x where "role_of (Some (read_json (RoleIs (role_value m)))) = Inr (Some x)" using role_total by blast
    with Some v show ?thesis using role_seen[of m x] by simp
  qed (simp add: parsed_nothing)
  show ?thesis
    unfolding http_control_read_def read_port.simps quoted_claim_def json.case sbind_simps
    by (subst wire_reading[where acquire = acquire and w = w, OF wire got dispatch_members(2)[where netloc_ok = netloc_ok, OF read_wireD(2,3)[OF wire]]])
      (use got_role in \<open>auto simp: seen_or_404[OF read_wireD(1)[OF wire]] raised_def\<close>)
qed

lemma federation_read:
  assumes wire: "read_wire dumps loads netloc_ok utf8" and got: "acquire w = Some s"
  shows "rd_federation (http_control_read (read_edge dumps netloc_ok utf8 acquire) loads) (JStr i) w
      = (if i = [] then Inl (Raised ''HTTPError'') else Inr (map_option federation_seen (federation_for_issuer s i)), w)"
  unfolding http_control_read_def read_port.simps quoted_claim_def json.case sbind_simps
  by (subst wire_reading[where acquire = acquire and w = w, OF wire got dispatch_one(2)[where netloc_ok = netloc_ok, OF read_wireD(2,3)[OF wire]]])
    (cases "federation_for_issuer s i"; simp add: seen_or_404[OF read_wireD(1)[OF wire]] seen_failed parsed_documents parsed_nothing raised_def)

lemma state_read:
  assumes wire: "read_wire dumps loads netloc_ok utf8" and got: "acquire w = Some s" and seg: "t \<noteq> []" "CHR ''/'' \<notin> set t"
  shows "rd_tenant_state (http_control_read (read_edge dumps netloc_ok utf8 acquire) loads) (JStr t) w
      = (Inr (map_option state_seen (tenant_state s (quote t))), w)"
  unfolding http_control_read_def read_port.simps quoted_claim_def json.case sbind_simps
  by (subst wire_reading[where acquire = acquire and w = w, OF wire got dispatch_tenant(1)[where netloc_ok = netloc_ok, OF read_wireD(3)[OF wire] seg]])
    (cases "tenant_state s (quote t)"; simp add: seen_or_404[OF read_wireD(1)[OF wire]] parsed_documents parsed_nothing raised_def)

lemma routing_read:
  assumes wire: "read_wire dumps loads netloc_ok utf8" and got: "acquire w = Some s" and seg: "t \<noteq> []" "CHR ''/'' \<notin> set t"
  shows "http_routing_read (read_edge dumps netloc_ok utf8 acquire) loads t w = (Inr (map_option http_routing_view (routing_view s (quote t))), w)"
  using edge_answers[where acquire = acquire and w = w and target = "''/internal/routing/tenants/'' @ quote t", OF wire got]
    dispatch_tenant(2)[where netloc_ok = netloc_ok, OF read_wireD(3)[OF wire] seg, of utf8 s]
  by (cases "read_edge dumps netloc_ok utf8 acquire (''/internal/routing/tenants/'' @ quote t) w"; cases "routing_view s (quote t)")
    (simp_all add: http_routing_read_def sending_def seen_or_404[OF read_wireD(1)[OF wire]] parsed_documents parsed_nothing del: append_Cons)

lemma admitted_registered:
  assumes wire: "read_wire dumps loads netloc_ok utf8" and seg: "t \<noteq> []" "\<forall>c\<in>set t. unreserved c"
    and adm: "tenant_admitted (http_control_read (read_edge dumps netloc_ok utf8 acquire) loads) who (JStr t) w role"
  shows "\<exists>s rec p. acquire w = Some s \<and> get_tenant s t = Some rec \<and> lifecycle rec = Ready \<and> who = JStr p
    \<and> (\<exists>m\<in>set (memberships s). mem_principal_ref m = p \<and> mem_tenant_id m = t \<and> role = Some (role_value (mem_role m)))"
proof -
  let ?P = "http_control_read (read_edge dumps netloc_ok utf8 acquire) loads"
  have slash: "CHR ''/'' \<notin> set t" using seg(2) by (auto simp: unreserved_def is_alpha_def is_digit_def char_code_def)
  from adm obtain st w1 w2 r w3 where got: "rd_tenant_state ?P (JStr t) w = (Inr (Some st), w1)" "tv_ready st"
      "rd_is_member ?P who (JStr t) w1 = (Inr True, w2)" "rd_get_role ?P who (JStr t) w2 = (Inr r, w3)" "role = map_option auth_role_value r"
    by (auto simp: tenant_admitted_def)
  obtain s where s: "acquire w = Some s"
  proof (cases "acquire w")
    case None
    then have "rd_tenant_state ?P (JStr t) w = (Inl (Raised ''HTTPError''), w)"
      by (simp add: http_control_read_def reading_def quoted_claim_def sending_def read_edge_def seen_failed raised_def)
    with got(1) show thesis by simp
  qed
  note state = state_read[where acquire = acquire and w = w, OF wire s seg(1) slash]
  from got(1,2) have w1: "w1 = w" and ready: "\<exists>rec. get_tenant s t = Some rec \<and> lifecycle rec = Ready"
    unfolding state quote_unreserved[OF seg(2)] by (auto simp: tenant_state_def state_seen_def)
  from got(3) obtain p where p: "who = JStr p"
    by (cases who) (auto simp: http_control_read_def reading_def quoted_claim_def raise_def)
  have mem: "read_is_member s p t" "w2 = w"
    using got(3) member_read[where acquire = acquire and w = w, OF wire s, of p t] by (simp_all add: w1 p)
  obtain r' where "rd_get_role ?P (JStr p) (JStr t) w = (Inr r', w)" "map_option auth_role_value r' = read_get_role s p t"
    using role_read[where acquire = acquire and w = w, OF wire s] by blast
  then have role: "role = read_get_role s p t" using got(4,5) by (simp add: mem(2) p)
  from mem(1) obtain m ms where ms: "list_memberships s (Some p) (Some t) = m # ms"
    by (cases "list_memberships s (Some p) (Some t)") (auto simp: read_is_member_def)
  then have "m \<in> set (list_memberships s (Some p) (Some t))" by simp
  then have "m \<in> set (memberships s)" "mem_principal_ref m = p" "mem_tenant_id m = t" by (auto simp: list_memberships_def)
  with s ready p ms show ?thesis by (auto simp: role read_get_role_def)
qed

section \<open>The reads of the gateway\<close>

definition membership_seen :: "string \<times> string \<Rightarrow> membership_entry" where
  "membership_seen m = \<lparr>me_tenant_id = fst m, me_role = snd m, me_display_ref = compose_display_ref (fst m)\<rparr>"

definition record_seen :: "directory_record \<Rightarrow> directory_entry" where
  "record_seen r = \<lparr>de_record_ref = record_id r, de_display_name = display_name r\<rparr>"

lemma memberships_parse: "membership_entries (map membership_json ms) = Inr (map membership_seen ms)"
  by (induction ms) (auto simp: membership_json_def membership_seen_def has_keys_def obj_get_def dict_get_def)

lemma records_parse: "directory_entries (map (\<lambda>r. directory_view_json (read_directory_view r)) rs) = Inr (map record_seen rs)"
  by (induction rs) (auto simp: directory_view_json_def read_directory_view_def record_seen_def obj_get_def dict_get_def)

lemma documents_read:
  assumes "codec dumps loads"
  shows "read_document loads n (exchange_of dumps (answer_read (Inr (200, Memberships ms)))) =
      (if n < length (dumps (read_json (Memberships ms))) then Inl (GwException ''ValueError'')
       else Inr (Some [(''memberships'', JList (map membership_json ms))]))"
    and "read_document loads n (exchange_of dumps (answer_read (Inr (200, DirPage p)))) =
      (if n < length (dumps (read_json (DirPage p))) then Inl (GwException ''ValueError'')
       else Inr (Some [(''records'', JList (map directory_view_json (pg_records p))),
         (''next_cursor'', case pg_next_cursor p of None \<Rightarrow> JNull | Some c \<Rightarrow> JStr c)]))"
  using assms by (simp_all add: read_document_def exchange_of_def answer_read_def json_response_def read_json.simps)

definition kind_of :: "string \<Rightarrow> directory_kind" where
  "kind_of a = (if a = ''startup'' then STARTUP else INVESTOR)"

definition first_page :: "control_store \<Rightarrow> directory_kind \<Rightarrow> directory_record list" where
  "first_page s k = take 100 (sort_key record_id (list_directory s k))"

definition first_page_document :: "control_store \<Rightarrow> directory_kind \<Rightarrow> read_body" where
  "first_page_document s k = DirPage \<lparr>pg_records = map read_directory_view (first_page s k),
     pg_next_cursor = (if 100 < length (list_directory s k) then Some (show_nat 100) else None)\<rparr>"

lemma memberships_over_edge:
  assumes wire: "read_wire dumps loads netloc_ok utf8" and got: "acquire w = Some s"
  shows "http_memberships (read_edge dumps netloc_ok utf8 acquire) quote loads n p w =
    (if n < length (dumps (read_json (Memberships (memberships_for_principal s p)))) then Inl (GwException ''ValueError'')
     else Inr (Some (map membership_seen (memberships_for_principal s p))), w)"
  using got dispatch_one(1)[where netloc_ok = netloc_ok, OF read_wireD(2,3)[OF wire], of s p]
  by (simp add: http_memberships_def sending_def read_edge_def documents_read(1)[OF read_wireD(1)[OF wire]] entries_of_def obj_get_def
      dict_get_def memberships_parse del: append_Cons)

lemma first_page_read:
  assumes "kind \<in> set APPROVED_KINDS"
  shows "read_directory_page s kind [] = Inr (200, first_page_document s (kind_of kind))"
proof -
  have k: "dir_alias kind = Some (kind_of kind)" using assms by (auto simp: APPROVED_KINDS_def dir_alias_def kind_of_def)
  have "py_int ''100'' = Some 100" "py_isdigit ''100''" by code_simp+
  then show ?thesis
    using directory_page_at[OF k, of s 0 100]
    by (simp add: read_directory_page_def first_of_def dict_get_def directory_page_start or_404_def first_page_def MAX_PAGE_def
        first_page_document_def)
qed

lemma directory_over_edge:
  assumes wire: "read_wire dumps loads netloc_ok utf8" and got: "acquire w = Some s" and kind: "kind \<in> set APPROVED_KINDS"
  shows "http_directory (read_edge dumps netloc_ok utf8 acquire) quote loads n kind w =
    (if n < length (dumps (read_json (first_page_document s (kind_of kind)))) then Inl (GwException ''ValueError'')
     else Inr (Some (if kind = ''startup'' then StartupSummary (global_startup_summary (map record_seen (first_page s STARTUP)))
       else InvestorSummary (global_investor_summary (map record_seen (first_page s INVESTOR))))), w)"
proof -
  have plain: "kind \<noteq> []" "CHR ''/'' \<notin> set kind" "quote kind = kind"
    using kind by (auto simp: APPROVED_KINDS_def quote_def quote_char_def unreserved_def is_alpha_def char_code_def)
  show ?thesis
    using got kind first_page_read[OF kind] dispatch_directory[where netloc_ok = netloc_ok, OF read_wireD(3)[OF wire] plain(1,2), of utf8 s] plain(3)
    by (auto simp: http_directory_def sending_def read_edge_def first_page_document_def documents_read(2)[OF read_wireD(1)[OF wire]]
        entries_of_def obj_get_def dict_get_def records_parse comp_def kind_of_def APPROVED_KINDS_def ret_def simp del: append_Cons)
qed

section \<open>Properties\<close>


text \<open>C39: What the portal shows of the control plane: all memberships of the principal, and of a directory only its first hundred
records in the order of their identifiers, without a sign that there are more; an answer over the client's byte bound raises.\<close>

theorem portal_shows_first_hundred:
  assumes "read_wire dumps loads netloc_ok utf8" and "acquire w = Some s" and "kind \<in> set APPROVED_KINDS"
  shows "http_memberships (read_edge dumps netloc_ok utf8 acquire) quote loads n p w =
      (if n < length (dumps (read_json (Memberships (memberships_for_principal s p)))) then Inl (GwException ''ValueError'')
       else Inr (Some (map membership_seen (memberships_for_principal s p))), w)
    \<and> http_directory (read_edge dumps netloc_ok utf8 acquire) quote loads n kind w =
      (if n < length (dumps (read_json (first_page_document s (kind_of kind)))) then Inl (GwException ''ValueError'')
       else Inr (Some (if kind = ''startup'' then StartupSummary (global_startup_summary (map record_seen (first_page s STARTUP)))
         else InvestorSummary (global_investor_summary (map record_seen (first_page s INVESTOR))))), w)"
  using memberships_over_edge[where acquire = acquire and w = w, OF assms(1,2)]
    directory_over_edge[where acquire = acquire and w = w, OF assms] by blast


section \<open>Witnesses\<close>

lemma sample_wire: "read_wire (named_dumps names) (named_loads names) (\<lambda>_. True) utf8_decode"
  if "distinct (map fst names)" "\<And>n d. (n, d) \<in> set names \<Longrightarrow> \<not> list_all is_digit n"
  using named_codec[OF that] utf8_decode_codec by (simp add: read_wire_def)

definition ada_store :: control_store where
  "ada_store = put_membership \<lparr>mem_principal_ref = ''ada'', mem_tenant_id = ''acme'', mem_role = role.TENANT_AGENT\<rparr>
     (put_tenant \<lparr>tenant_id = ''acme'', organization_ref = ''org'', lifecycle = Ready, expected_schema_version = ''1'',
        database_association_ref = \<lparr>store_ref = ''tenant/acme/dsn'', ref_version = ''1''\<rparr>, federation_config_ref = ''fed'',
        created_at = ''t'', updated_at = ''t'', rec_version = 3\<rparr> (empty_store 1 True))"

lemma ada_store_reads:
  "read_is_member ada_store ''ada'' ''acme''" "read_get_role ada_store ''ada'' ''acme'' = Some ''TENANT_AGENT''"
  "tenant_state ada_store ''acme'' = Some \<lparr>ts_tenant_id = ''acme'', ts_lifecycle_state = ''Ready'', ts_ready = True\<rparr>"
  by code_simp+

lemma acme_plain: "quote ''acme'' = ''acme''" "\<forall>c\<in>set ''acme''. unreserved c"
  by (simp_all add: quote_def quote_char_def unreserved_def is_alpha_def char_code_def)

definition ada_acquire :: "operational_event list \<Rightarrow> control_store option" where "ada_acquire w = Some ada_store"

definition registry_port :: "operational_event list read_port" where
  "registry_port = http_control_read (read_edge (named_dumps ada_documents) (\<lambda>_. True) utf8_decode ada_acquire) (named_loads ada_documents)"

definition registry_auth :: "operational_event list authenticator" where
  "registry_auth = ada_auth\<lparr>au_read := registry_port\<rparr>"

lemma ada_documents_wire: "read_wire (named_dumps ada_documents) (named_loads ada_documents) (\<lambda>_. True) utf8_decode"
  using ada_documents_codec utf8_decode_codec by (simp add: read_wire_def)


definition crowded_store :: control_store where
  "crowded_store = (empty_store 1 True)\<lparr>directory := map (\<lambda>i. ((directory_value STARTUP, show_nat i),
     \<lparr>dir_kind = STARTUP, record_id = show_nat i, display_name = ''s'', dir_attributes = []\<rparr>)) [0..<101]\<rparr>"

definition crowded_names :: "(string \<times> json) list" where
  "crowded_names = [(''page'', read_json (first_page_document crowded_store STARTUP))]"

lemma crowded: "length (list_directory crowded_store STARTUP) = 101" "length (first_page crowded_store STARTUP) = 100"
proof -
  show n: "length (list_directory crowded_store STARTUP) = 101" by (simp add: list_directory_def crowded_store_def filter_map comp_def)
  then show "length (first_page crowded_store STARTUP) = 100" by (simp add: first_page_def)
qed

theorem portal_shows_first_hundred_witness:
  "\<exists>es. fst (http_directory (read_edge (named_dumps crowded_names) (\<lambda>_. True) utf8_decode Some) quote (named_loads crowded_names) 65536 ''startup'' crowded_store)
      = Inr (Some (StartupSummary (global_startup_summary es)))
    \<and> length es = 100 \<and> length (list_directory crowded_store STARTUP) = 101"
proof -
  have wire: "read_wire (named_dumps crowded_names) (named_loads crowded_names) (\<lambda>_. True) utf8_decode"
    by (rule sample_wire) (auto simp: crowded_names_def is_digit_def char_code_def)
  have small: "named_dumps crowded_names (read_json (first_page_document crowded_store STARTUP)) = ''page''"
    by (simp add: named_dumps_def crowded_names_def)
  have k: "kind_of ''startup'' = STARTUP" "''startup'' \<in> set APPROVED_KINDS" by (simp_all add: kind_of_def APPROVED_KINDS_def)
  have "fst (http_directory (read_edge (named_dumps crowded_names) (\<lambda>_. True) utf8_decode Some) quote (named_loads crowded_names) 65536 ''startup'' crowded_store)
      = Inr (Some (StartupSummary (global_startup_summary (map record_seen (first_page crowded_store STARTUP)))))"
    using portal_shows_first_hundred[OF wire _ k(2), of Some crowded_store crowded_store 65536] by (simp add: k(1) small)
  then show ?thesis using crowded by (intro exI[of _ "map record_seen (first_page crowded_store STARTUP)"]) simp
qed

lemma registry_reads:
  "rd_is_member registry_port (JStr ''ada'') (JStr ''acme'') w = (Inr True, w)"
  "rd_get_role registry_port (JStr ''ada'') (JStr ''acme'') w = (Inr (Some auth_role.TENANT_AGENT), w)"
  "rd_tenant_state registry_port (JStr ''acme'') w = (Inr (Some (sample_state True)), w)"
proof -
  have got: "ada_acquire w = Some ada_store" by (simp add: ada_acquire_def)
  show "rd_is_member registry_port (JStr ''ada'') (JStr ''acme'') w = (Inr True, w)"
    using member_read[where acquire = ada_acquire and w = w, OF ada_documents_wire got, of "''ada''" "''acme''"]
    by (simp add: registry_port_def ada_store_reads)
  obtain r where r: "rd_get_role registry_port (JStr ''ada'') (JStr ''acme'') w = (Inr r, w)" "map_option auth_role_value r = Some ''TENANT_AGENT''"
    using role_read[where acquire = ada_acquire and w = w, OF ada_documents_wire got, of "''ada''" "''acme''"]
    by (auto simp: registry_port_def ada_store_reads)
  then have "r = Some auth_role.TENANT_AGENT" by (cases "the r") (auto simp: auth_role_value_def)
  with r show "rd_get_role registry_port (JStr ''ada'') (JStr ''acme'') w = (Inr (Some auth_role.TENANT_AGENT), w)" by simp
  show "rd_tenant_state registry_port (JStr ''acme'') w = (Inr (Some (sample_state True)), w)"
    using state_read[where acquire = ada_acquire and w = w, OF ada_documents_wire got, of "''acme''"]
    by (simp add: registry_port_def ada_store_reads acme_plain state_seen_def sample_state_def)
qed

lemma registry_accepts:
  "authenticate registry_auth ''h.p.s'' ''c1'' (Some ''acme'') None [] = (Inr ada_context, [AR_Claims.sample_event (Some (JStr ''acme'')) ''Authenticate''])"
  by (simp add: registry_auth_def ada_auth_def ada_context_def registry_reads sample_defs auth_defs AR_Claims.sample_event_def numeral_eq_Suc)


end
