(* ===== verification/AU_Ingest.thy ===== *)
theory AU_Ingest
  imports Wire "HOL-Library.Monad_Syntax"
begin

text \<open>
  The three append-only audit ingest edges of the control plane
  (\<open>backend/control_plane/adapters/providers/http_gateway_audit_api.py\<close>, \<open>http_routing_audit_api.py\<close>,
  \<open>http_import_audit_api.py\<close> with the records of \<open>gateway_audit.py\<close>, \<open>routing_audit.py\<close>, \<open>import_audit.py\<close>): how
  an envelope is validated into a record, and what is answered. The durable store behind an edge is an
  argument. Every refusal of the validation is the same answer, so it is the absence of a record.
\<close>

section \<open>Stores\<close>

datatype append_result = INSERTED | DUPLICATE_MATCH

datatype store_error = STORE_CONFLICT | STORE_INVALID | STORE_FAILED string

definition append_value :: "append_result \<Rightarrow> string" where
  "append_value r = (case r of INSERTED \<Rightarrow> ''INSERTED'' | DUPLICATE_MATCH \<Rightarrow> ''DUPLICATE_MATCH'')"

type_synonym ('s, 'r) append = "'r \<Rightarrow> ('s, store_error, append_result) proc"

definition answer_append :: "store_error + append_result \<Rightarrow> edge_answer" where
  "answer_append r = (case r of
      Inl STORE_CONFLICT \<Rightarrow> result_response 409 ''CONFLICT''
    | Inl STORE_INVALID \<Rightarrow> result_response 400 ''INVALID''
    | Inl (STORE_FAILED _) \<Rightarrow> result_response 503 ''UNAVAILABLE''
    | Inr a \<Rightarrow> result_response 200 (append_value a))"

definition ingest :: "(string \<Rightarrow> 'r option) \<Rightarrow> ('s, 'r) append \<Rightarrow> bool \<Rightarrow> string \<Rightarrow> 's \<Rightarrow> edge_answer \<times> 's" where
  "ingest parse store has_query raw s =
     (if has_query then (empty_response 404, s)
      else case parse raw of
          None \<Rightarrow> (result_response 400 ''INVALID'', s)
        | Some r \<Rightarrow> (case store r s of (a, t) \<Rightarrow> (answer_append a, t)))"

section \<open>Envelopes\<close>

text \<open>The event of a version 1 envelope, refused where it names a forbidden field or has other keys.\<close>

definition open_event ::
    "(string \<Rightarrow> bool) \<Rightarrow> (string \<Rightarrow> json option) \<Rightarrow> string list \<Rightarrow> string list \<Rightarrow> string \<Rightarrow> (string \<times> json) list option" where
  "open_event float_one loads forbidden keys raw =
     (case loads raw of
        Some (JObj envelope) \<Rightarrow>
          if \<not> has_keys envelope [''version'', ''event''] \<or> \<not> plain_version_one float_one (obj_get envelope ''version'') then None
          else (case obj_get envelope ''event'' of
              JObj event \<Rightarrow>
                if set (map fst event) \<inter> set forbidden \<noteq> {} \<or> \<not> has_keys event keys \<or> obj_get event ''event_version'' \<noteq> JInt 1
                then None else Some event
            | _ \<Rightarrow> None)
      | _ \<Rightarrow> None)"

definition check :: "bool \<Rightarrow> unit option" where
  "check b = (if b then Some () else None)"

section \<open>Gateway events\<close>

record gateway_audit_record =
  ga_audit_id :: string
  ga_event_version :: int
  ga_occurred_at :: string
  ga_correlation_id :: string
  ga_action :: string
  ga_outcome :: string
  ga_source_service :: string
  ga_actor_ref :: "string option"
  ga_subject_ref :: "string option"
  ga_tenant_ref :: "string option"
  ga_carrier_ref :: "string option"
  ga_record_ref :: "string option"

definition GATEWAY_EVENT_KEYS :: "string list" where
  "GATEWAY_EVENT_KEYS = [''audit_id'', ''event_version'', ''occurred_at'', ''correlation_id'', ''action'', ''outcome'', ''actor_ref'',
     ''subject_ref'', ''tenant_ref'', ''carrier_ref'', ''record_ref'']"

definition GATEWAY_FORBIDDEN_KEYS :: "string list" where
  "GATEWAY_FORBIDDEN_KEYS = [''id'', ''recorded_at'', ''source_service'', ''dsn'', ''password'', ''passwd'', ''secret'', ''token'', ''jwt'',
     ''bearer_token'', ''authorization'', ''request_body'', ''response_body'', ''body'', ''payload'', ''memberships'', ''records'',
     ''rows'', ''database'', ''db_name'', ''hostname'', ''topology'', ''connection'']"

definition WIRED_ACTIONS :: "string list" where
  "WIRED_ACTIONS = [''workspace_memberships_read'', ''RouteDenied'', ''CarrierMismatch'', ''tenant_startup_read'', ''tenant_startup_update'']"

text \<open>The opaque rendering of a carrier: the prefix, at least one character, at most 64 in all.\<close>

definition opaque_shaped :: "string \<Rightarrow> bool" where
  "opaque_shaped c = (starts_with ''carrier:'' c \<and> 8 < length c \<and> length c \<le> 64)"

text \<open>The actor, subject and record references an action admits.\<close>

definition gateway_refs ::
    "(string \<times> json) list \<Rightarrow> string \<Rightarrow> string \<Rightarrow> (string option \<times> string option \<times> string option) option" where
  "gateway_refs event action outcome =
     (if action = ''RouteDenied'' then do {
        check (outcome = ''rejected'');
        actor \<leftarrow> optional_string event ''actor_ref'';
        subject \<leftarrow> optional_string event ''subject_ref'';
        record_ref \<leftarrow> optional_string event ''record_ref'';
        Some (actor, subject, record_ref)
      } else if action = ''CarrierMismatch'' then do {
        check (outcome = ''rejected'');
        actor \<leftarrow> optional_string event ''actor_ref'';
        subject \<leftarrow> optional_string event ''subject_ref'';
        record_ref \<leftarrow> optional_string event ''record_ref'';
        check (record_ref = None);
        tenant \<leftarrow> optional_string event ''tenant_ref'';
        check (tenant = None);
        carrier \<leftarrow> required_string event ''carrier_ref'';
        check (opaque_shaped carrier);
        Some (actor, subject, record_ref)
      } else if action \<in> {''tenant_startup_read'', ''tenant_startup_update''} then do {
        check (outcome = ''success'');
        actor \<leftarrow> required_string event ''actor_ref'';
        subject \<leftarrow> optional_string event ''subject_ref'';
        record_ref \<leftarrow> required_string event ''record_ref'';
        tenant \<leftarrow> optional_string event ''tenant_ref'';
        check (tenant \<noteq> None);
        Some (Some actor, subject, Some record_ref)
      } else do {
        check (outcome = ''success'');
        actor \<leftarrow> required_string event ''actor_ref'';
        subject \<leftarrow> required_string event ''subject_ref'';
        record_ref \<leftarrow> optional_string event ''record_ref'';
        check (record_ref = None);
        Some (Some actor, Some subject, record_ref)
      })"

definition parse_gateway_record :: "(string \<Rightarrow> bool) \<Rightarrow> (string \<Rightarrow> json option) \<Rightarrow> string \<Rightarrow> gateway_audit_record option" where
  "parse_gateway_record float_one loads raw = do {
     event \<leftarrow> open_event float_one loads GATEWAY_FORBIDDEN_KEYS GATEWAY_EVENT_KEYS raw;
     action \<leftarrow> required_string event ''action'';
     check (action \<in> set WIRED_ACTIONS);
     outcome \<leftarrow> required_string event ''outcome'';
     refs \<leftarrow> gateway_refs event action outcome;
     audit_id \<leftarrow> required_string event ''audit_id'';
     occurred_at \<leftarrow> required_string event ''occurred_at'';
     correlation_id \<leftarrow> required_string event ''correlation_id'';
     tenant \<leftarrow> optional_string event ''tenant_ref'';
     carrier \<leftarrow> optional_string event ''carrier_ref'';
     Some \<lparr>ga_audit_id = audit_id, ga_event_version = 1, ga_occurred_at = occurred_at, ga_correlation_id = correlation_id,
       ga_action = action, ga_outcome = outcome, ga_source_service = ''api_gateway'', ga_actor_ref = fst refs,
       ga_subject_ref = fst (snd refs), ga_tenant_ref = tenant, ga_carrier_ref = carrier, ga_record_ref = snd (snd refs)\<rparr>
   }"

definition gateway_ingest ::
    "(string \<Rightarrow> bool) \<Rightarrow> (string \<Rightarrow> json option) \<Rightarrow> ('s, gateway_audit_record) append \<Rightarrow> bool \<Rightarrow> string \<Rightarrow> 's \<Rightarrow> edge_answer \<times> 's" where
  "gateway_ingest float_one loads store = ingest (parse_gateway_record float_one loads) store"

section \<open>Routing events\<close>

record routing_audit_record =
  ra_event_id :: string
  ra_event_version :: int
  ra_occurred_at :: string
  ra_correlation_id :: string
  ra_actor_ref :: string
  ra_action :: string
  ra_outcome :: string
  ra_source_service :: string
  ra_source_version :: string
  ra_request_ref :: "string option"
  ra_trace_ref :: "string option"
  ra_tenant_ref :: "string option"
  ra_resolved_tenant_ref :: "string option"
  ra_public_code :: "string option"
  ra_error_class :: "string option"
  ra_association_store_ref :: "string option"
  ra_association_version :: "string option"
  ra_lane :: "string option"

definition ROUTING_EVENT_KEYS :: "string list" where
  "ROUTING_EVENT_KEYS = [''event_id'', ''event_version'', ''occurred_at'', ''correlation_id'', ''actor_ref'', ''action'', ''outcome'',
     ''source_service'', ''source_version'', ''request_ref'', ''tenant_ref'', ''resolved_tenant_ref'', ''public_code'', ''error_class'',
     ''association_store_ref'', ''association_version'', ''lane'']"

definition ROUTING_FORBIDDEN_KEYS :: "string list" where
  "ROUTING_FORBIDDEN_KEYS = [''id'', ''store_id'', ''recorded_at'', ''trace_ref'', ''dsn'', ''password'', ''passwd'', ''secret'', ''token'',
     ''jwt'', ''bearer_token'', ''authorization'', ''request_body'', ''response_body'', ''body'', ''payload'', ''hostname'',
     ''topology'', ''connection'']"

definition ROUTING_AUDIT_STORE_ACTIONS :: "string list" where
  "ROUTING_AUDIT_STORE_ACTIONS = [''Route'', ''RouteControl'', ''RouteDenied'', ''IsolationAnomaly'']"

definition ROUTING_PUBLIC_CODES :: "string list" where
  "ROUTING_PUBLIC_CODES = [''not_found'', ''no_active_tenant'', ''not_ready'', ''schema_out_of_range'', ''administratively_disabled'',
     ''unavailable'', ''control_plane_unavailable'', ''connection_unavailable'', ''tenant_routing_unavailable'', ''routing_isolation_fault'']"

definition ERROR_CLASSES :: "string list" where
  "ERROR_CLASSES = [''secret_resolution'', ''pool'', ''connect'', ''driver'']"

definition routing_outcome_ok :: "string \<Rightarrow> string \<Rightarrow> string option \<Rightarrow> bool" where
  "routing_outcome_ok action outcome code =
     (if action \<in> {''Route'', ''RouteControl''} then outcome = ''success'' \<and> code = None
      else if action = ''RouteDenied'' then
        (case code of None \<Rightarrow> False | Some c \<Rightarrow> c \<in> set ROUTING_PUBLIC_CODES \<and> outcome = ''denied:'' @ c)
      else outcome = ''anomaly:tenant_binding'' \<and> code = None)"

definition parse_routing_record :: "(string \<Rightarrow> bool) \<Rightarrow> (string \<Rightarrow> json option) \<Rightarrow> string \<Rightarrow> routing_audit_record option" where
  "parse_routing_record float_one loads raw = do {
     event \<leftarrow> open_event float_one loads ROUTING_FORBIDDEN_KEYS ROUTING_EVENT_KEYS raw;
     action \<leftarrow> required_string event ''action'';
     check (action \<in> set ROUTING_AUDIT_STORE_ACTIONS);
     outcome \<leftarrow> required_string event ''outcome'';
     code \<leftarrow> optional_string event ''public_code'';
     check (routing_outcome_ok action outcome code);
     err \<leftarrow> optional_string event ''error_class'';
     check (case err of None \<Rightarrow> True | Some c \<Rightarrow> c \<in> set ERROR_CLASSES \<and> code = Some ''connection_unavailable'');
     lane \<leftarrow> optional_string event ''lane'';
     check (case lane of None \<Rightarrow> True | Some l \<Rightarrow> l \<in> {''interactive'', ''bulk''});
     service \<leftarrow> required_string event ''source_service'';
     check (service = ''database_router'');
     event_id \<leftarrow> required_string event ''event_id'';
     occurred_at \<leftarrow> required_string event ''occurred_at'';
     correlation_id \<leftarrow> required_string event ''correlation_id'';
     actor \<leftarrow> required_string event ''actor_ref'';
     source_version \<leftarrow> required_string event ''source_version'';
     request \<leftarrow> optional_string event ''request_ref'';
     tenant \<leftarrow> optional_string event ''tenant_ref'';
     resolved \<leftarrow> optional_string event ''resolved_tenant_ref'';
     store_ref' \<leftarrow> optional_string event ''association_store_ref'';
     version \<leftarrow> optional_string event ''association_version'';
     Some \<lparr>ra_event_id = event_id, ra_event_version = 1, ra_occurred_at = occurred_at, ra_correlation_id = correlation_id,
       ra_actor_ref = actor, ra_action = action, ra_outcome = outcome, ra_source_service = service, ra_source_version = source_version,
       ra_request_ref = request, ra_trace_ref = None, ra_tenant_ref = tenant, ra_resolved_tenant_ref = resolved, ra_public_code = code,
       ra_error_class = err, ra_association_store_ref = store_ref', ra_association_version = version, ra_lane = lane\<rparr>
   }"

definition routing_ingest ::
    "(string \<Rightarrow> bool) \<Rightarrow> (string \<Rightarrow> json option) \<Rightarrow> ('s, routing_audit_record) append \<Rightarrow> bool \<Rightarrow> string \<Rightarrow> 's \<Rightarrow> edge_answer \<times> 's" where
  "routing_ingest float_one loads store = ingest (parse_routing_record float_one loads) store"

section \<open>Import events\<close>

record import_audit_record =
  ua_audit_id :: string
  ua_event_version :: int
  ua_occurred_at :: string
  ua_correlation_id :: string
  ua_action :: string
  ua_outcome :: string
  ua_source_service :: string
  ua_actor_ref :: "string option"
  ua_target_ref :: "string option"
  ua_source_ref :: "string option"

definition IMPORT_EVENT_KEYS :: "string list" where
  "IMPORT_EVENT_KEYS = [''audit_id'', ''event_version'', ''occurred_at'', ''correlation_id'', ''action'', ''outcome'', ''actor_ref'',
     ''target_ref'', ''source_ref'']"

definition IMPORT_FORBIDDEN_KEYS :: "string list" where
  "IMPORT_FORBIDDEN_KEYS = [''id'', ''recorded_at'', ''source_service'', ''dsn'', ''password'', ''passwd'', ''secret'', ''token'', ''jwt'',
     ''bearer_token'', ''authorization'', ''request_body'', ''response_body'', ''body'', ''payload'', ''records'', ''record'', ''rows'',
     ''fields'', ''database'', ''db_name'', ''hostname'', ''topology'', ''connection'']"

definition IMPORT_ACTIONS :: "string list" where
  "IMPORT_ACTIONS = [''ImportRequested'', ''ImportStarted'', ''ImportResumed'', ''ImportCompleted'', ''ImportFailed'']"

definition check_action_outcome :: "string \<Rightarrow> string \<Rightarrow> bool" where
  "check_action_outcome action outcome =
     (if action \<in> {''ImportRequested'', ''ImportStarted'', ''ImportResumed''} then outcome = ''success''
      else if action = ''ImportCompleted'' then outcome \<in> {''success'', ''replayed''}
      else starts_with ''error:'' outcome \<and> drop 6 outcome \<noteq> [] \<and> \<not> list_ex is_space (drop 6 outcome))"

definition parse_import_record :: "(string \<Rightarrow> bool) \<Rightarrow> (string \<Rightarrow> json option) \<Rightarrow> string \<Rightarrow> import_audit_record option" where
  "parse_import_record float_one loads raw = do {
     event \<leftarrow> open_event float_one loads IMPORT_FORBIDDEN_KEYS IMPORT_EVENT_KEYS raw;
     action \<leftarrow> required_string event ''action'';
     check (action \<in> set IMPORT_ACTIONS);
     outcome \<leftarrow> required_string event ''outcome'';
     check (check_action_outcome action outcome);
     audit_id \<leftarrow> required_string event ''audit_id'';
     occurred_at \<leftarrow> required_string event ''occurred_at'';
     correlation_id \<leftarrow> required_string event ''correlation_id'';
     actor \<leftarrow> required_string event ''actor_ref'';
     target \<leftarrow> required_string event ''target_ref'';
     source \<leftarrow> required_string event ''source_ref'';
     Some \<lparr>ua_audit_id = audit_id, ua_event_version = 1, ua_occurred_at = occurred_at, ua_correlation_id = correlation_id,
       ua_action = action, ua_outcome = outcome, ua_source_service = ''import_service'', ua_actor_ref = Some actor,
       ua_target_ref = Some target, ua_source_ref = Some source\<rparr>
   }"

definition import_ingest ::
    "(string \<Rightarrow> bool) \<Rightarrow> (string \<Rightarrow> json option) \<Rightarrow> ('s, import_audit_record) append \<Rightarrow> bool \<Rightarrow> string \<Rightarrow> 's \<Rightarrow> edge_answer \<times> 's" where
  "import_ingest float_one loads store = ingest (parse_import_record float_one loads) store"

end
