(* ===== verification/AU_Clients.thy ===== *)
theory AU_Clients
  imports AU_Ingest IM_Import AR_Auth Config
begin

text \<open>
  The durable audit sinks of the database router and the import service: the wire form of their events and
  the bounded failure policies around the posts (\<open>backend/database_router/adapters/providers/http_routing_audit.py\<close>
  and \<open>BoundedRoutingAuditPolicy\<close> of \<open>database_router/main.py\<close>, \<open>import_service/adapters/providers/durable_audit_emitter.py\<close>
  and \<open>BoundedImportAuditPolicy\<close> of \<open>import_service/main.py\<close>), with the settings that select them.
\<close>

section \<open>Database router\<close>

definition routing_wire_event :: "routing_event \<Rightarrow> json" where
  "routing_wire_event e =
     JObj [(''event_id'', JStr (re_event_id e)), (''event_version'', JInt (re_event_version e)),
       (''occurred_at'', JStr (re_occurred_at e)), (''correlation_id'', JStr (re_correlation_id e)),
       (''actor_ref'', JStr (re_actor_ref e)), (''action'', JStr (re_action e)), (''outcome'', JStr (re_outcome e)),
       (''source_service'', JStr (re_source_service e)), (''source_version'', JStr (re_source_version e)),
       (''request_ref'', json_opt (re_request_ref e)), (''tenant_ref'', json_opt (re_target_ref e)),
       (''resolved_tenant_ref'', json_opt (re_resolved_tenant_ref e)), (''public_code'', json_opt (re_public_code e)),
       (''error_class'', JNull), (''association_store_ref'', json_opt (re_association_store_ref e)),
       (''association_version'', json_opt (re_association_version e)), (''lane'', json_opt (re_lane e))]"

definition http_routing_initiate ::
    "'s transport \<Rightarrow> (string \<Rightarrow> bool) \<Rightarrow> (string \<Rightarrow> json option) \<Rightarrow> routing_event \<Rightarrow> ('s, audit_failure, unit) proc" where
  "http_routing_initiate post float_one loads e =
     post_event post float_one loads ''/internal/routing-audit/events'' (routing_wire_event e)"

text \<open>The policy counts the denials whose event was lost; the rest of the world is the transport's.\<close>

record 'w degraded =
  dg_world :: 'w
  dg_route_denied :: nat
  dg_isolation_anomaly :: nat

definition through :: "('w, 'e, 'a) proc \<Rightarrow> ('w degraded, 'e, 'a) proc" where
  "through m s = (case m (dg_world s) of (r, w) \<Rightarrow> (r, s\<lparr>dg_world := w\<rparr>))"

definition degradation_snapshot :: "'w degraded \<Rightarrow> (string, nat) dict" where
  "degradation_snapshot s =
     [(''route_denied_audit_failures'', dg_route_denied s), (''isolation_anomaly_audit_failures'', dg_isolation_anomaly s)]"

definition policy_terminal :: "routing_event \<Rightarrow> audit_failure \<Rightarrow> ('w degraded, audit_failure, unit) proc" where
  "policy_terminal e f =
     (if re_action e = ''RouteDenied'' then writes (\<lambda>s. s\<lparr>dg_route_denied := dg_route_denied s + 1\<rparr>)
      else if re_action e = ''IsolationAnomaly'' then writes (\<lambda>s. s\<lparr>dg_isolation_anomaly := dg_isolation_anomaly s + 1\<rparr>)
      else raise f)"

definition routing_policy ::
    "(routing_event \<Rightarrow> ('w, audit_failure, unit) proc) \<Rightarrow> routing_event \<Rightarrow> ('w degraded, audit_failure, unit) proc" where
  "routing_policy inner e =
     tries (through (inner e))
       (\<lambda>f. if f \<noteq> TransportError KIND_UNAVAILABLE then policy_terminal e f
            else tries (through (inner e)) (policy_terminal e) ret)
       ret"

text \<open>The policy as the router's sink: whatever it raises is an exception that is no denial.\<close>

definition routing_sink :: "('w degraded, audit_failure, unit) proc \<Rightarrow> ('w degraded, dr_error, unit) proc" where
  "routing_sink m s = (case m s of
      (Inl f, t) \<Rightarrow> (Inl (Fault (case f of TransportError _ \<Rightarrow> ''RoutingAuditTransportError'' | AuditRaised x \<Rightarrow> x)), t)
    | (Inr u, t) \<Rightarrow> (Inr u, t))"

text \<open>The timeout in seconds; \<open>float()\<close> of the text is an argument (\<open>None\<close> where it raises).\<close>

definition routing_audit_timeout :: "(string \<Rightarrow> flt option) \<Rightarrow> env \<Rightarrow> string + flt" where
  "routing_audit_timeout float_of env =
     (let raw = env_value env ''SP2_DBR_ROUTING_AUDIT_TIMEOUT_SECONDS'' in
      if raw = [] then Inr (Fin 2)
      else case float_of raw of
          None \<Rightarrow> Inl ''ValueError''
        | Some t \<Rightarrow> if flt_less (Fin 0) t \<and> (flt_less t (Fin 30) \<or> t = Fin 30) then Inr t else Inl ''ValueError'')"

section \<open>Import service\<close>

definition import_wire_event :: "import_event \<Rightarrow> string \<Rightarrow> int \<Rightarrow> string \<Rightarrow> json" where
  "import_wire_event e audit_id event_version occurred_at =
     JObj [(''audit_id'', JStr audit_id), (''event_version'', JInt event_version), (''occurred_at'', JStr occurred_at),
       (''correlation_id'', JStr (oe_correlation_id e)), (''action'', JStr (oe_action e)), (''outcome'', JStr (oe_outcome e)),
       (''actor_ref'', oe_actor_ref e), (''target_ref'', case oe_target_ref e of None \<Rightarrow> JNull | Some v \<Rightarrow> v),
       (''source_ref'', json_opt (oe_source_ref e))]"

definition import_post ::
    "'s transport \<Rightarrow> (string \<Rightarrow> bool) \<Rightarrow> (string \<Rightarrow> json option) \<Rightarrow> import_event \<Rightarrow> string \<Rightarrow> int \<Rightarrow> string
      \<Rightarrow> ('s, audit_failure, unit) proc" where
  "import_post post float_one loads e audit_id event_version occurred_at =
     post_event post float_one loads ''/internal/import-audit/events'' (import_wire_event e audit_id event_version occurred_at)"

text \<open>The identity is minted once, so that the retry replays the same event.\<close>

definition import_policy ::
    "('s, audit_failure, string) proc \<Rightarrow> ('s, audit_failure, string) proc
      \<Rightarrow> (import_event \<Rightarrow> string \<Rightarrow> int \<Rightarrow> string \<Rightarrow> ('s, audit_failure, unit) proc) \<Rightarrow> import_event \<Rightarrow> ('s, audit_failure, unit) proc" where
  "import_policy uuid now inner e =
     bnd uuid (\<lambda>audit_id. bnd now (\<lambda>occurred_at. retry_once (inner e audit_id 1 occurred_at)))"

end
