(* ===== verification/AU_Facts.thy ===== *)
theory AU_Facts
  imports AU_Clients Wire
begin

text \<open>
  What an audit ingest edge makes of a posted event, and what the bounded retry makes of an edge whose
  answers may get lost.
\<close>

section \<open>Fields\<close>

text \<open>The fields an edge takes: bounded, without a marker of a secret.\<close>

definition plain :: "string \<Rightarrow> bool" where
  "plain s \<longleftrightarrow> length s \<le> MAX_REF_LENGTH \<and> \<not> secret_shaped s"

definition plain_opt :: "string option \<Rightarrow> bool" where
  "plain_opt v \<longleftrightarrow> (case v of None \<Rightarrow> True | Some s \<Rightarrow> plain s)"

lemma checked_string_plain: "checked_string (JStr s) = (if plain s then Some s else None)"
  by (simp add: checked_string_def plain_def)

lemma optional_string_opt: "obj_get d k = json_opt v \<Longrightarrow> optional_string d k = (if plain_opt v then Some v else None)"
  by (simp add: optional_string_def json_opt_def plain_opt_def checked_string_plain split: option.split)

lemma optional_string_null: "obj_get d k = JNull \<Longrightarrow> optional_string d k = Some None"
  by (simp add: optional_string_def)

lemma required_string_str: "obj_get d k = JStr s \<Longrightarrow> required_string d k = (if plain s \<and> s \<noteq> [] then Some s else None)"
  by (simp add: required_string_def checked_string_plain)

lemma bind_check [simp]: "Option.bind (check b) f = (if b then f () else None)"
  by (simp add: check_def)

lemma bind_if: "Option.bind (if b then Some x else None) f = (if b then f x else None)"
  by simp

section \<open>Envelopes\<close>

lemma open_posted:
  assumes "codec dumps loads" "has_keys event keys" "set keys \<inter> set banned = {}"
  shows "open_event float_one loads banned keys (dumps (JObj [(''version'', JInt 1), (''event'', JObj event)]))
    = (if obj_get event ''event_version'' = JInt 1 then Some event else None)"
  using assms by (simp add: open_event_def codec_def has_keys_def obj_get_def dict_get_def plain_version_one_def)

section \<open>Routing events\<close>

definition routing_record_of :: "routing_event \<Rightarrow> routing_audit_record" where
  "routing_record_of e =
     \<lparr>ra_event_id = re_event_id e, ra_event_version = 1, ra_occurred_at = re_occurred_at e,
      ra_correlation_id = re_correlation_id e, ra_actor_ref = re_actor_ref e, ra_action = re_action e, ra_outcome = re_outcome e,
      ra_source_service = re_source_service e, ra_source_version = re_source_version e, ra_request_ref = re_request_ref e,
      ra_trace_ref = None, ra_tenant_ref = re_target_ref e, ra_resolved_tenant_ref = re_resolved_tenant_ref e,
      ra_public_code = re_public_code e, ra_error_class = None, ra_association_store_ref = re_association_store_ref e,
      ra_association_version = re_association_version e, ra_lane = re_lane e\<rparr>"

text \<open>The events the edge takes.\<close>

definition required_plain :: "string list \<Rightarrow> bool" where
  "required_plain xs \<longleftrightarrow> (\<forall>s\<in>set xs. plain s \<and> s \<noteq> [])"

definition admissible_event :: "routing_event \<Rightarrow> bool" where
  "admissible_event e \<longleftrightarrow>
     required_plain [re_action e, re_outcome e, re_source_service e, re_event_id e, re_occurred_at e, re_correlation_id e,
       re_actor_ref e, re_source_version e]
     \<and> list_all plain_opt [re_public_code e, re_lane e, re_request_ref e, re_target_ref e, re_resolved_tenant_ref e,
       re_association_store_ref e, re_association_version e]
     \<and> re_event_version e = 1 \<and> re_action e \<in> set ROUTING_AUDIT_STORE_ACTIONS
     \<and> routing_outcome_ok (re_action e) (re_outcome e) (re_public_code e)
     \<and> re_lane e \<in> {None, Some ''interactive'', Some ''bulk''} \<and> re_source_service e = ''database_router''"

lemma routing_keys:
  "has_keys (case routing_wire_event e of JObj d \<Rightarrow> d) ROUTING_EVENT_KEYS" "set ROUTING_EVENT_KEYS \<inter> set ROUTING_FORBIDDEN_KEYS = {}"
  by (simp_all add: routing_wire_event_def has_keys_def ROUTING_EVENT_KEYS_def ROUTING_FORBIDDEN_KEYS_def)

lemma parse_routing_posted:
  assumes "codec dumps loads"
  shows "parse_routing_record float_one loads (dumps (JObj [(''version'', JInt 1), (''event'', routing_wire_event e)]))
    = (if admissible_event e then Some (routing_record_of e) else None)"
proof -
  obtain d where d: "routing_wire_event e = JObj d" by (simp add: routing_wire_event_def)
  note get = d[unfolded routing_wire_event_def, simplified, symmetric]
  have fields: "obj_get d ''event_id'' = JStr (re_event_id e)" "obj_get d ''event_version'' = JInt (re_event_version e)"
    "obj_get d ''occurred_at'' = JStr (re_occurred_at e)" "obj_get d ''correlation_id'' = JStr (re_correlation_id e)"
    "obj_get d ''actor_ref'' = JStr (re_actor_ref e)" "obj_get d ''action'' = JStr (re_action e)"
    "obj_get d ''outcome'' = JStr (re_outcome e)" "obj_get d ''source_service'' = JStr (re_source_service e)"
    "obj_get d ''source_version'' = JStr (re_source_version e)" "obj_get d ''request_ref'' = json_opt (re_request_ref e)"
    "obj_get d ''tenant_ref'' = json_opt (re_target_ref e)" "obj_get d ''resolved_tenant_ref'' = json_opt (re_resolved_tenant_ref e)"
    "obj_get d ''public_code'' = json_opt (re_public_code e)" "obj_get d ''error_class'' = JNull"
    "obj_get d ''association_store_ref'' = json_opt (re_association_store_ref e)"
    "obj_get d ''association_version'' = json_opt (re_association_version e)" "obj_get d ''lane'' = json_opt (re_lane e)"
    by (simp_all add: get obj_get_def dict_get_def)
  have opened: "open_event float_one loads ROUTING_FORBIDDEN_KEYS ROUTING_EVENT_KEYS
      (dumps (JObj [(''version'', JInt 1), (''event'', JObj d)])) = (if re_event_version e = 1 then Some d else None)"
    using open_posted[OF assms _ routing_keys(2)] routing_keys(1)[of e] by (simp add: d fields)
  have lane: "(case re_lane e of None \<Rightarrow> True | Some l \<Rightarrow> l \<in> {''interactive'', ''bulk''})
      \<longleftrightarrow> re_lane e \<in> {None, Some ''interactive'', Some ''bulk''}" by (auto split: option.split)
  show ?thesis
    unfolding parse_routing_record_def d opened bind_if
    by (simp only: required_string_str[OF fields(6)] required_string_str[OF fields(7)] required_string_str[OF fields(8)]
        required_string_str[OF fields(1)] required_string_str[OF fields(3)] required_string_str[OF fields(4)]
        required_string_str[OF fields(5)] required_string_str[OF fields(9)] optional_string_opt[OF fields(10)]
        optional_string_opt[OF fields(11)] optional_string_opt[OF fields(12)] optional_string_opt[OF fields(13)]
        optional_string_null[OF fields(14)] optional_string_opt[OF fields(15)] optional_string_opt[OF fields(16)]
        optional_string_opt[OF fields(17)] bind_if bind_check Option.bind.bind_lunit option.case lane)
      (auto simp: admissible_event_def required_plain_def routing_record_of_def)
qed

section \<open>Delivery\<close>

text \<open>
  What the store port promises (\<open>append_routing_audit\<close> and its siblings): an identity is stored once, an exact
  replay is a match, and a failure leaves the rows as they were or, when only its report was lost, with the row.
\<close>

definition append_outcome :: "('r \<Rightarrow> string) \<Rightarrow> 'r \<Rightarrow> 'r list \<Rightarrow> store_error + append_result \<Rightarrow> 'r list \<Rightarrow> bool" where
  "append_outcome key r old a new \<longleftrightarrow>
     (case a of
        Inr INSERTED \<Rightarrow> key r \<notin> key ` set old \<and> new = old @ [r]
      | Inr DUPLICATE_MATCH \<Rightarrow> r \<in> set old \<and> new = old
      | Inl (STORE_FAILED _) \<Rightarrow> new = old \<or> (key r \<notin> key ` set old \<and> new = old @ [r])
      | Inl _ \<Rightarrow> new = old)"

definition append_only :: "('r \<Rightarrow> string) \<Rightarrow> ('s \<Rightarrow> 'r list) \<Rightarrow> ('s, 'r) append \<Rightarrow> bool" where
  "append_only key rows store \<longleftrightarrow> (\<forall>r s a t. store r s = (a, t) \<longrightarrow> append_outcome key r (rows s) a (rows t))"

text \<open>A network over an edge: a post arrives or not, and the answer to one that arrived may be lost.\<close>

definition lossy :: "'s transport \<Rightarrow> 's transport \<Rightarrow> bool" where
  "lossy edge net \<longleftrightarrow> (\<forall>path v s. net path v s \<in> {edge path v s, (NoAnswer, s), (NoAnswer, snd (edge path v s))})"

definition grown :: "('r \<Rightarrow> string) \<Rightarrow> 'r \<Rightarrow> 'r list \<Rightarrow> 'r list \<Rightarrow> bool" where
  "grown key r old new \<longleftrightarrow> new = old \<or> (key r \<notin> key ` set old \<and> new = old @ [r])"

lemma grown_trans: "\<lbrakk>grown key r a b; grown key r b c\<rbrakk> \<Longrightarrow> grown key r a c"
  by (auto simp: grown_def)

lemma grown_mem: "\<lbrakk>grown key r a b; r \<in> set a\<rbrakk> \<Longrightarrow> r \<in> set b"
  by (auto simp: grown_def)

lemma result_judged:
  assumes "codec dumps loads"
  shows "judge_audit_answer float_one loads (exchange_of dumps (answer_append a)) = Inr () \<longleftrightarrow> (\<exists>x. a = Inr x)"
  using assms
  by (cases a rule: sum.exhaust)
    (auto simp: answer_append_def result_response_def json_response_def exchange_of_def judge_audit_answer_def codec_def has_keys_def
      obj_get_def dict_get_def plain_version_one_def append_value_def split: store_error.splits append_result.splits)

lemma refusal_judged:
  "judge_audit_answer float_one loads (exchange_of dumps (result_response 400 ''INVALID'')) \<noteq> Inr ()"
  "judge_audit_answer float_one loads NoAnswer \<noteq> Inr ()"
  by (simp_all add: result_response_def json_response_def exchange_of_def judge_audit_answer_def)

text \<open>One post of an event the edge takes.\<close>

lemma one_post:
  assumes codec: "codec dumps loads" and store: "append_only key rows store"
    and net: "lossy (serving dumps surface (ingest parse store False)) net"
    and takes: "parse (dumps (JObj [(''version'', JInt 1), (''event'', v)])) = Some r"
    and run: "post_event net float_one loads surface v s = (res, t)"
  shows "grown key r (rows s) (rows t) \<and> (res = Inr () \<longrightarrow> r \<in> set (rows t))"
proof -
  let ?doc = "JObj [(''version'', JInt 1), (''event'', v)]"
  obtain a u where u: "store r s = (a, u)" by (cases "store r s")
  have edge: "serving dumps surface (ingest parse store False) surface ?doc s = (exchange_of dumps (answer_append a), u)"
    using takes u by (simp add: serving_def ingest_def)
  have "net surface ?doc s \<in> {(exchange_of dumps (answer_append a), u), (NoAnswer, s), (NoAnswer, u)}"
    using net unfolding lossy_def edge by (metis edge snd_conv)
  moreover have "grown key r (rows s) (rows u) \<and> (\<forall>x. a = Inr x \<longrightarrow> r \<in> set (rows u))"
  proof -
    have "append_outcome key r (rows s) a (rows u)" using store u unfolding append_only_def by blast
    then show ?thesis unfolding append_outcome_def grown_def
      by (auto split: sum.splits store_error.splits append_result.splits)
  qed
  ultimately show ?thesis using run result_judged[OF codec, of float_one a] refusal_judged(2)[of float_one loads]
    by (auto simp: post_event_def sending_def grown_def)
qed

end
