(* ===== verification/AU_Claims.thy ===== *)
theory AU_Claims
  imports AU_Facts DR_Claims CP_Registry
begin

text \<open>
  The properties of the durable audit path: what the ingest edge takes, that a confirmed event is stored
  exactly once, and what the router's failure policy makes of an event that is not taken.
\<close>

section \<open>What the edge takes\<close>


definition sample_event :: routing_event where
  "sample_event = \<lparr>re_actor_ref = ''p'', re_action = ''RouteDenied'', re_correlation_id = ''c'', re_outcome = ''denied:not_ready'',
     re_target_ref = Some ''acme'', re_event_id = ''e1'', re_event_version = 1, re_occurred_at = ''t'',
     re_source_service = ''database_router'', re_source_version = ''4'', re_request_ref = None, re_resolved_tenant_ref = None,
     re_public_code = Some ''not_ready'', re_association_store_ref = None, re_association_version = None, re_lane = None\<rparr>"

lemmas plain_defs = plain_def MAX_REF_LENGTH_def secret_shaped_def SECRET_SHAPES_def starts_with_def

lemma sample_event_admissible: "admissible_event sample_event"
  by (simp add: admissible_event_def sample_event_def required_plain_def plain_opt_def plain_defs
      ROUTING_AUDIT_STORE_ACTIONS_def routing_outcome_ok_def ROUTING_PUBLIC_CODES_def)


section \<open>Delivery\<close>

text \<open>C35: A confirmed audit event is stored exactly once: over a network that may lose a post or an answer, with a store that
keeps the port's promise, an emission with its one retry leaves the rows as they were or adds this record once; it is confirmed
only if the record is stored, and for a fresh identity then exactly one row was added.\<close>

theorem audit_delivered_once:
  assumes "codec dumps loads" "append_only key rows sto" "lossy (serving dumps surface (ingest parse sto False)) net"
    and "parse (dumps (JObj [(''version'', JInt 1), (''event'', v)])) = Some r"
    and run: "retry_once (post_event net float_one loads surface v) s = (res, t)"
  shows "(rows t = rows s \<or> rows t = rows s @ [r]) \<and> (res = Inr () \<longrightarrow> r \<in> set (rows t))
    \<and> (res = Inr () \<and> key r \<notin> key ` set (rows s) \<longrightarrow> rows t = rows s @ [r])"
proof -
  note post = one_post[OF assms(1-4)]
  obtain x u where u: "post_event net float_one loads surface v s = (x, u)"
    by (cases "post_event net float_one loads surface v s")
  note first = post[OF u]
  have "grown key r (rows s) (rows t) \<and> (res = Inr () \<longrightarrow> r \<in> set (rows t))"
  proof (cases "x = Inl (TransportError KIND_UNAVAILABLE)")
    case True
    with run u have "post_event net float_one loads surface v u = (res, t)"
      by (simp add: retry_once_def split: prod.splits sum.splits)
    from post[OF this] first grown_trans[of key r "rows s" "rows u" "rows t"] show ?thesis by simp
  next
    case False
    with run u have "res = x" "t = u" by (auto simp: retry_once_def split: sum.splits if_splits)
    with first show ?thesis by simp
  qed
  then show ?thesis by (auto simp: grown_def)
qed

text \<open>A store of routing records as a list, and a network that loses the answer to the first row.\<close>

definition list_append :: "(routing_audit_record list, routing_audit_record) append" where
  "list_append r rs = (if r \<in> set rs then (Inr DUPLICATE_MATCH, rs)
     else if ra_event_id r \<in> ra_event_id ` set rs then (Inl STORE_CONFLICT, rs) else (Inr INSERTED, rs @ [r]))"

abbreviation list_edge :: "routing_audit_record list transport" where
  "list_edge \<equiv> serving numbered_dumps ''/internal/routing-audit/events''
     (ingest (parse_routing_record (\<lambda>_. False) numbered_loads) list_append False)"

definition flaky :: "routing_audit_record list transport" where
  "flaky path v rs = (case list_edge path v rs of (x, t) \<Rightarrow> (if rs = [] then NoAnswer else x, t))"

lemma list_append_only: "append_only ra_event_id (\<lambda>rs. rs) list_append"
  by (auto simp: append_only_def append_outcome_def list_append_def split: if_splits)

lemma flaky_lossy: "lossy list_edge flaky"
  by (auto simp: lossy_def flaky_def split: prod.splits)

lemma sample_parsed:
  "parse_routing_record (\<lambda>_. False) numbered_loads
     (numbered_dumps (JObj [(''version'', JInt 1), (''event'', routing_wire_event sample_event)])) = Some (routing_record_of sample_event)"
  by (simp add: parse_routing_posted[OF numbered_codec] sample_event_admissible)

theorem audit_delivered_once_witness:
  "retry_once (post_event flaky (\<lambda>_. False) numbered_loads ''/internal/routing-audit/events'' (routing_wire_event sample_event)) []
      = (Inr (), [routing_record_of sample_event])"
proof -
  let ?m = "post_event flaky (\<lambda>_. False) numbered_loads ''/internal/routing-audit/events'' (routing_wire_event sample_event)"
  obtain res t where run: "retry_once ?m [] = (res, t)" by (cases "retry_once ?m []")
  have "res = Inr ()"
    using run by (simp add: retry_once_def post_event_def sending_def flaky_def serving_def ingest_def sample_parsed list_append_def
        judge_audit_answer_def[of _ _ NoAnswer] split: prod.splits if_splits)
      (metis result_judged[OF numbered_codec])
  with audit_delivered_once[OF numbered_codec list_append_only flaky_lossy sample_parsed run] run show ?thesis by simp
qed

section \<open>The failure policy of the router\<close>

lemma through_run [simp]: "through m s = (case m (dg_world s) of (r, w) \<Rightarrow> (r, s\<lparr>dg_world := w\<rparr>))"
  by (simp add: through_def)

text \<open>A denial or anomaly event never raises, whatever becomes of it.\<close>

lemma policy_swallows:
  assumes "re_action e \<in> {''RouteDenied'', ''IsolationAnomaly''}"
  shows "fst (routing_sink (routing_policy inner e) s) = Inr ()"
  using assms by (auto simp: routing_sink_def routing_policy_def policy_terminal_def split: prod.splits sum.splits)

text \<open>A success event that is refused at every attempt raises.\<close>

lemma policy_raises:
  assumes "re_action e \<in> {''Route'', ''RouteControl''}" and "\<And>w. fst (inner e w) \<noteq> Inr ()"
  shows "fst (routing_sink (routing_policy inner e) s) \<noteq> Inr ()"
proof -
  have fails: "\<exists>f t. inner e w = (Inl f, t)" for w
    using assms(2)[of w] by (cases "inner e w"; cases "fst (inner e w)") auto
  have again: "\<exists>f t. through (inner e) u = (Inl f, t)" for u using fails[of "dg_world u"] by auto
  have "\<exists>f t. routing_policy inner e s = (Inl f, t)"
  proof -
    obtain f t where first: "through (inner e) s = (Inl f, t)" using again by blast
    obtain g u where second: "through (inner e) t = (Inl g, u)" using again by blast
    show ?thesis using assms(1) unfolding routing_policy_def tries_run first
      by (auto simp: policy_terminal_def tries_run second simp del: through_run)
  qed
  then show ?thesis by (auto simp: routing_sink_def)
qed

text \<open>An event the edge does not take is never confirmed.\<close>

lemma refused_post:
  assumes net: "lossy (serving dumps surface (ingest parse sto False)) net"
    and refused: "parse (dumps (JObj [(''version'', JInt 1), (''event'', v)])) = None"
  shows "fst (post_event net float_one loads surface v s) \<noteq> Inr ()"
proof -
  let ?doc = "JObj [(''version'', JInt 1), (''event'', v)]"
  have edge: "serving dumps surface (ingest parse sto False) surface ?doc s = (exchange_of dumps (result_response 400 ''INVALID''), s)"
    using refused by (simp add: serving_def ingest_def)
  have "fst (net surface ?doc s) \<in> {exchange_of dumps (result_response 400 ''INVALID''), NoAnswer}"
    using net unfolding lossy_def by (metis (no_types, lifting) edge fst_conv insertCI insertE singletonD)
  then show ?thesis using refusal_judged(1)[of float_one loads dumps] refusal_judged(2)[of float_one loads]
    by (cases "net surface ?doc s") (auto simp: post_event_def sending_def)
qed

lemma hand_back_served:
  assumes "hand_back P ctx tid l view c s = (Inr res, s')"
  obtains ev w where "re_action ev = ''Route''" "re_target_ref ev = Some tid" "fst (rp_initiate P ev w) = Inr ()"
proof -
  from assms have own: "conn_tenant c = tid" by (auto simp: hand_back_def split: if_splits prod.splits sum.splits)
  let ?aref = "Some (store_ref (rv_association view))" and ?ver = "Some (conn_version c)" and ?ln = "Some (lane_value l)"
  obtain ev s1 where m: "mint P ctx ''Route'' ''success'' (Some tid) (Some (conn_tenant c)) None ?aref ?ver ?ln s = (Inr ev, s1)"
    and ev: "re_action ev = ''Route''" "re_target_ref ev = Some tid" by (rule mint_run)
  have "fst (rp_initiate P ev (rt_world s1)) = Inr ()"
    using assms own m by (cases "rp_initiate P ev (rt_world s1)"; cases "fst (rp_initiate P ev (rt_world s1))")
      (auto simp: hand_back_def route_ok_def lane_discard_run)
  with ev show thesis by (rule that)
qed

lemma emit_swallowed:
  assumes "\<And>ev w. re_action ev = action \<Longrightarrow> fst (rp_initiate P ev w) = Inr ()"
  shows "fst (bnd (mint P ctx action result t resolved code aref aver lane_text) (\<lambda>ev. outside (rp_initiate P ev)) s) = Inr ()"
proof -
  obtain ev s1 where "mint P ctx action result t resolved code aref aver lane_text s = (Inr ev, s1)" "re_action ev = action"
    by (rule mint_run)
  with assms[of ev "rt_world s1"] show ?thesis by (cases "rp_initiate P ev (rt_world s1)") simp
qed

lemma reraise_denied:
  assumes "\<And>ev w. re_action ev = ''RouteDenied'' \<Longrightarrow> fst (rp_initiate P ev w) = Inr ()"
    and "audit_and_reraise P ctx t (Denied d) s = (Inl e, s')"
  shows "e = Denied d"
  using assms(2) emit_swallowed[of "''RouteDenied''" P ctx "''denied:'' @ rd_code d" t None "Some (rd_code d)" None None None s, OF assms(1)]
  by (auto simp: audit_and_reraise_def route_denied_def simp del: bnd_run split: prod.splits sum.splits)

lemma hand_back_denied:
  assumes "\<And>ev w. re_action ev = ''IsolationAnomaly'' \<Longrightarrow> fst (rp_initiate P ev w) = Inr ()"
    and "hand_back P ctx tid l view c s = (Inl e, s')"
  shows "\<exists>d. e = Denied d"
  using assms(2) emit_swallowed[of "''IsolationAnomaly''" P ctx "''anomaly:tenant_binding''" "Some tid" "Some (conn_tenant c)" None None None None s, OF assms(1)]
  by (auto simp: hand_back_def route_anomaly_def lane_discard_run simp del: bnd_run split: prod.splits sum.splits if_splits)

lemma route_Inl_denied:
  fixes P :: "'w router_ports"
  assumes run: "route P ctx phase0 l s = (Inl e, s')"
    and sink: "\<And>ev w. re_action ev \<in> {''RouteDenied'', ''IsolationAnomaly''} \<Longrightarrow> fst (rp_initiate P ev w) = Inr ()"
  shows "\<exists>d. e = Denied d"
proof (cases "determine_target ctx phase0")
  case (Inl x)
  then obtain d where "x = Denied d" by (auto simp: determine_target_def split: if_splits)
  with run Inl reraise_denied[OF sink, of ctx "rq_active_tenant_id ctx" d s e s'] show ?thesis by (auto simp: route_def)
next
  case (Inr t)
  show ?thesis
  proof (cases t)
    case TO_CONTROL
    with run Inr show ?thesis by (auto simp: route_def route_control_def split: prod.splits sum.splits)
  next
    case TO_TENANT
    let ?tid = "the (rq_active_tenant_id ctx)"
    obtain q s1 where q: "bind_tenant P ?tid l s = (q, s1)" by (cases "bind_tenant P ?tid l s")
    show ?thesis
    proof (cases q)
      case (Inl x)
      with q bind_Inl obtain d where "x = Denied d" by blast
      with run Inr TO_TENANT q Inl have "(audit_and_reraise P ctx (Some ?tid) (Denied d) :: ('w, route_result) dr) s1 = (Inl e, s')"
        by (simp add: route_def route_tenant_def)
      from reraise_denied[OF sink this] show ?thesis by simp
    next
      case (Inr vc)
      with run \<open>determine_target ctx phase0 = Inr t\<close> TO_TENANT q
      have "hand_back P ctx ?tid l (fst vc) (snd vc) s1 = (Inl e, s')"
        by (simp add: route_def route_tenant_def case_prod_unfold)
      from hand_back_denied[OF sink this] show ?thesis by simp
    qed
  qed
qed


text \<open>C37: A tenant whose identifier reads like a secret cannot be served once the audit is durable: the registry admits
identifiers such as foxoxo, but the ingest edge takes no event that names one, and without its event no request of that tenant
is let through.\<close>

theorem marked_tenant_is_never_served:
  assumes "lossy (serving dumps ''/internal/routing-audit/events'' (routing_ingest float_one loads sto False)) net"
    and "codec dumps loads"
    and sink: "rp_initiate P = (\<lambda>e. routing_sink (routing_policy (http_routing_initiate net float_one loads) e))"
    and tenant: "rq_active_tenant_id ctx = Some tid" and marked: "\<not> plain tid"
  shows "fst (route P ctx phase0 l s) \<noteq> Inr res"
proof
  assume "fst (route P ctx phase0 l s) = Inr res"
  then obtain s' where run: "route P ctx phase0 l s = (Inr res, s')" by (metis prod.collapse)
  then show False
  proof (cases rule: route_cases)
    case control
    with tenant show False by simp
  next
    case (tenant t view c s1)
    with assms(4) have tid: "t = tid" by simp
    have refuses: "fst (rp_initiate P ev w) \<noteq> Inr ()" if "re_action ev = ''Route''" "re_target_ref ev = Some tid" for ev w
      unfolding sink
    proof (rule policy_raises)
      have "\<not> admissible_event ev" using that(2) marked by (simp add: admissible_event_def plain_opt_def)
      note none = parse_routing_posted[OF assms(2), of float_one ev, unfolded if_not_P[OF this]]
      show "fst (http_routing_initiate net float_one loads ev w) \<noteq> Inr ()" for w
        unfolding http_routing_initiate_def
        by (rule refused_post[OF assms(1)[unfolded routing_ingest_def] none])
    qed (use that(1) in simp)
    from hand_back_served[OF tenant(4)] obtain ev w where "re_action ev = ''Route''" "re_target_ref ev = Some t"
      "fst (rp_initiate P ev w) = Inr ()" .
    with refuses tid show False by blast
  qed
qed

text \<open>Tenants in one lifecycle state, and a durable sink behind the policy.\<close>

definition durable_ports ::
    "string \<Rightarrow> (routing_event \<Rightarrow> (routing_audit_record list, audit_failure, unit) proc) \<Rightarrow> routing_audit_record list degraded router_ports" where
  "durable_ports state inner =
     \<lparr>rp_now = (\<lambda>_. 0), rp_mint = (\<lambda>w. ((''id'', ''t''), w)),
      rp_read = (\<lambda>tid. ret (Some \<lparr>rv_tenant_id = tid, rv_lifecycle_state = state, rv_ready = True,
        rv_association = \<lparr>store_ref = ''ref'', ref_version = ''1''\<rparr>, rv_expected_schema_version = ''1''\<rparr>)),
      rp_secret = (\<lambda>ref. ret ''dsn''),
      rp_open = (\<lambda>tid ver d. ret \<lparr>conn_id = 0, conn_tenant = tid, conn_version = ver\<rparr>),
      rp_alive = (\<lambda>_ _. True), rp_resets = (\<lambda>_ _. True), rp_initiate = (\<lambda>e. routing_sink (routing_policy inner e)),
      rp_supported = [''1'']\<rparr>"

definition durable_router :: "routing_audit_record list degraded router" where
  "durable_router =
     \<lparr>rt_world = \<lparr>dg_world = [], dg_route_denied = 0, dg_isolation_anomaly = 0\<rparr>,
      rt_cache = \<lparr>rc_ttl = 30, rc_max = 8, rc_data = []\<rparr>, rt_pool = new_manager 4 60, rt_bulk = None\<rparr>"

abbreviation unreachable :: "routing_event \<Rightarrow> (routing_audit_record list, audit_failure, unit) proc" where
  "unreachable \<equiv> (\<lambda>_. raise (TransportError KIND_UNAVAILABLE))"

lemma durable_suspended:
  "fst (route (durable_ports ''Suspended'' unreachable) acme_request False INTERACTIVE durable_router)
    = Inl (Denied (denied_disabled ''administratively_disabled''))"
  by (simp add: route_defs pool_defs durable_ports_def durable_router_def acme_request_def rcache_get_def rcache_put_def
      denial_for_state_def routing_sink_def routing_policy_def policy_terminal_def new_manager_def)

lemma durable_fresh:
  "rp_open (durable_ports state inner) t v d w = (Inr c, w1) \<Longrightarrow> fresh_conn {} (pool_for INTERACTIVE durable_router) c"
  by (simp add: fresh_conn_def durable_router_def pool_for_def new_manager_def)


definition marked_request :: request_context where
  "marked_request = acme_request\<lparr>rq_active_tenant_id := Some ''foxoxo''\<rparr>"

theorem marked_tenant_is_never_served_witness:
  "admissible ''foxoxo'' \<and> (\<forall>res.
     fst (route (durable_ports ''Ready'' (http_routing_initiate flaky (\<lambda>_. False) numbered_loads)) marked_request False INTERACTIVE
       durable_router) \<noteq> Inr res)"
proof (intro conjI allI)
  show "admissible ''foxoxo''"
    by (simp add: admissible_def tenant_id_shape_def tenant_id_char_def is_lower_ascii_def is_digit_def char_code_def to_lower_def
        to_lower_char_def reserved_tenant_ids_def)
  show "fst (route (durable_ports ''Ready'' (http_routing_initiate flaky (\<lambda>_. False) numbered_loads)) marked_request False INTERACTIVE
     durable_router) \<noteq> Inr res" for res
  proof (rule marked_tenant_is_never_served)
    show "lossy (serving numbered_dumps ''/internal/routing-audit/events'' (routing_ingest (\<lambda>_. False) numbered_loads list_append False)) flaky"
      using flaky_lossy by (simp add: routing_ingest_def)
    show "\<not> plain ''foxoxo''" by (simp add: plain_defs)
  qed (simp_all add: numbered_codec durable_ports_def marked_request_def acme_request_def)
qed

end
