(* ===== verification/S2_Types.thy ===== *)
theory S2_Types
  imports Config Wire
begin

text \<open>
  The shared vocabulary of the \<open>snackportal2\<close> services (\<open>snackportal2/shared/types.py\<close>, \<open>operations.py\<close>, \<open>errors.py\<close>,
  \<open>security.py\<close>, \<open>correlation.py\<close>): roles, database domains, the enumerated operations and the one category of each, the
  canonical denials, and the request context, which is computed from the authenticated identity alone. An exception that is
  no canonical denial is a \<open>Crash\<close>; the error handlers answer both.
\<close>

section \<open>Roles and domains\<close>

datatype platform_role = CONTROL | MASTER_AGENT | TENANT_ADMIN | TENANT_AGENT | STARTUP_USER | INVESTOR_USER

definition platform_roles :: "platform_role list" where
  "platform_roles = [platform_role.CONTROL, MASTER_AGENT, TENANT_ADMIN, TENANT_AGENT, STARTUP_USER, INVESTOR_USER]"

fun platform_role_value :: "platform_role \<Rightarrow> string" where
  "platform_role_value platform_role.CONTROL = ''CONTROL''"
| "platform_role_value MASTER_AGENT = ''MASTER_AGENT''"
| "platform_role_value TENANT_ADMIN = ''TENANT_ADMIN''"
| "platform_role_value TENANT_AGENT = ''TENANT_AGENT''"
| "platform_role_value STARTUP_USER = ''STARTUP_USER''"
| "platform_role_value INVESTOR_USER = ''INVESTOR_USER''"

text \<open>\<open>PlatformRole(v)\<close>, nothing where it raises.\<close>

definition platform_role_of :: "string \<Rightarrow> platform_role option" where
  "platform_role_of v = find (\<lambda>r. platform_role_value r = v) platform_roles"

datatype workspace_type = TENANT_WORKSPACE | CONTROL_WORKSPACE

fun workspace_value :: "workspace_type \<Rightarrow> string" where
  "workspace_value TENANT_WORKSPACE = ''TENANT_WORKSPACE''"
| "workspace_value CONTROL_WORKSPACE = ''CONTROL_WORKSPACE''"

definition workspace_of :: "string \<Rightarrow> workspace_type option" where
  "workspace_of v = find (\<lambda>w. workspace_value w = v) [TENANT_WORKSPACE, CONTROL_WORKSPACE]"

datatype s2_domain = CONTROL | TENANT

fun domain_value :: "s2_domain \<Rightarrow> string" where
  "domain_value s2_domain.CONTROL = ''CONTROL''"
| "domain_value TENANT = ''TENANT''"

definition database_domain_of :: "string \<Rightarrow> s2_domain option" where
  "database_domain_of v = find (\<lambda>d. domain_value d = v) [s2_domain.CONTROL, TENANT]"

datatype operation_category =
    TENANT_OPERATION | GLOBAL_DIRECTORY_READ | MEMBERSHIPS_FOR_PRINCIPAL | IMPORT_INITIATION | GOVERNED_SHARING

definition CATEGORY_DOMAIN :: "(operation_category, s2_domain) dict" where
  "CATEGORY_DOMAIN =
     [(TENANT_OPERATION, TENANT), (GLOBAL_DIRECTORY_READ, s2_domain.CONTROL),
      (MEMBERSHIPS_FOR_PRINCIPAL, s2_domain.CONTROL), (IMPORT_INITIATION, TENANT),
      (GOVERNED_SHARING, s2_domain.CONTROL)]"

datatype tenant_lifecycle = PROVISIONING | ACTIVE | SUSPENDED | DISABLED

fun tenant_lifecycle_value :: "tenant_lifecycle \<Rightarrow> string" where
  "tenant_lifecycle_value PROVISIONING = ''PROVISIONING''"
| "tenant_lifecycle_value ACTIVE = ''ACTIVE''"
| "tenant_lifecycle_value SUSPENDED = ''SUSPENDED''"
| "tenant_lifecycle_value DISABLED = ''DISABLED''"

definition tenant_lifecycle_of :: "string \<Rightarrow> tenant_lifecycle option" where
  "tenant_lifecycle_of v = find (\<lambda>l. tenant_lifecycle_value l = v) [PROVISIONING, ACTIVE, SUSPENDED, DISABLED]"

section \<open>Operations\<close>

datatype bff_operation =
    LIST_MEMBERSHIPS
  | READ_GLOBAL_STARTUP_DIRECTORY | READ_GLOBAL_INVESTOR_DIRECTORY
  | INITIATE_STARTUP_IMPORT
  | LIST_TENANT_STARTUPS | CREATE_TENANT_STARTUP | READ_TENANT_STARTUP | UPDATE_TENANT_STARTUP
  | LIST_TENANT_INVESTORS | CREATE_TENANT_INVESTOR | READ_TENANT_INVESTOR | UPDATE_TENANT_INVESTOR
  | LIST_TENANT_DEALS | CREATE_TENANT_DEAL | READ_TENANT_DEAL | UPDATE_TENANT_DEAL
  | LIST_TENANT_CONTACTS | CREATE_TENANT_CONTACT | READ_TENANT_CONTACT
  | READ_TENANT_LINEAGE
  | PROPOSE_DEAL_SHARE | READ_DEAL_SHARE

definition BFF_OPERATIONS :: "(bff_operation \<times> string) list" where
  "BFF_OPERATIONS =
     [(LIST_MEMBERSHIPS, ''list_memberships''),
      (READ_GLOBAL_STARTUP_DIRECTORY, ''read_global_startup_directory''),
      (READ_GLOBAL_INVESTOR_DIRECTORY, ''read_global_investor_directory''),
      (INITIATE_STARTUP_IMPORT, ''initiate_startup_import''),
      (LIST_TENANT_STARTUPS, ''list_tenant_startups''), (CREATE_TENANT_STARTUP, ''create_tenant_startup''),
      (READ_TENANT_STARTUP, ''read_tenant_startup''), (UPDATE_TENANT_STARTUP, ''update_tenant_startup''),
      (LIST_TENANT_INVESTORS, ''list_tenant_investors''), (CREATE_TENANT_INVESTOR, ''create_tenant_investor''),
      (READ_TENANT_INVESTOR, ''read_tenant_investor''), (UPDATE_TENANT_INVESTOR, ''update_tenant_investor''),
      (LIST_TENANT_DEALS, ''list_tenant_deals''), (CREATE_TENANT_DEAL, ''create_tenant_deal''),
      (READ_TENANT_DEAL, ''read_tenant_deal''), (UPDATE_TENANT_DEAL, ''update_tenant_deal''),
      (LIST_TENANT_CONTACTS, ''list_tenant_contacts''), (CREATE_TENANT_CONTACT, ''create_tenant_contact''),
      (READ_TENANT_CONTACT, ''read_tenant_contact''), (READ_TENANT_LINEAGE, ''read_tenant_lineage''),
      (PROPOSE_DEAL_SHARE, ''propose_deal_share''), (READ_DEAL_SHARE, ''read_deal_share'')]"

definition operation_value :: "bff_operation \<Rightarrow> string" where
  "operation_value op = (case dict_get BFF_OPERATIONS op of Some v \<Rightarrow> v | None \<Rightarrow> [])"

definition operation_of :: "string \<Rightarrow> bff_operation option" where
  "operation_of v = map_option fst (find (\<lambda>p. snd p = v) BFF_OPERATIONS)"

definition OPERATION_CATEGORY :: "(bff_operation, operation_category) dict" where
  "OPERATION_CATEGORY =
     [(LIST_MEMBERSHIPS, MEMBERSHIPS_FOR_PRINCIPAL),
      (READ_GLOBAL_STARTUP_DIRECTORY, GLOBAL_DIRECTORY_READ), (READ_GLOBAL_INVESTOR_DIRECTORY, GLOBAL_DIRECTORY_READ),
      (INITIATE_STARTUP_IMPORT, IMPORT_INITIATION),
      (LIST_TENANT_STARTUPS, TENANT_OPERATION), (CREATE_TENANT_STARTUP, TENANT_OPERATION),
      (READ_TENANT_STARTUP, TENANT_OPERATION), (UPDATE_TENANT_STARTUP, TENANT_OPERATION),
      (LIST_TENANT_INVESTORS, TENANT_OPERATION), (CREATE_TENANT_INVESTOR, TENANT_OPERATION),
      (READ_TENANT_INVESTOR, TENANT_OPERATION), (UPDATE_TENANT_INVESTOR, TENANT_OPERATION),
      (LIST_TENANT_DEALS, TENANT_OPERATION), (CREATE_TENANT_DEAL, TENANT_OPERATION),
      (READ_TENANT_DEAL, TENANT_OPERATION), (UPDATE_TENANT_DEAL, TENANT_OPERATION),
      (LIST_TENANT_CONTACTS, TENANT_OPERATION), (CREATE_TENANT_CONTACT, TENANT_OPERATION),
      (READ_TENANT_CONTACT, TENANT_OPERATION), (READ_TENANT_LINEAGE, TENANT_OPERATION),
      (PROPOSE_DEAL_SHARE, GOVERNED_SHARING), (READ_DEAL_SHARE, GOVERNED_SHARING)]"

definition SHARING_INERT_OPERATIONS :: "bff_operation list" where
  "SHARING_INERT_OPERATIONS = map fst (filter (\<lambda>(op, c). c = GOVERNED_SHARING) OPERATION_CATEGORY)"

text \<open>\<open>None\<close> is the \<open>UnknownOperation\<close> exception.\<close>

definition category_of :: "bff_operation \<Rightarrow> operation_category option" where
  "category_of op = dict_get OPERATION_CATEGORY op"

definition domain_of :: "bff_operation \<Rightarrow> s2_domain option" where
  "domain_of op = (case category_of op of None \<Rightarrow> None | Some c \<Rightarrow> dict_get CATEGORY_DOMAIN c)"

definition unmapped_operations :: "bff_operation list" where
  "unmapped_operations = filter (\<lambda>op. dict_get OPERATION_CATEGORY op = None) (map fst BFF_OPERATIONS)"

lemma every_operation_has_a_domain: "\<exists>d. domain_of op = Some d"
  by (cases op) (simp_all add: domain_of_def category_of_def OPERATION_CATEGORY_def CATEGORY_DOMAIN_def dict_get_def)

lemma sharing_inert: "op \<in> set SHARING_INERT_OPERATIONS \<longleftrightarrow> op = PROPOSE_DEAL_SHARE \<or> op = READ_DEAL_SHARE"
  by (simp add: SHARING_INERT_OPERATIONS_def OPERATION_CATEGORY_def)

lemma operation_roundtrip [simp]: "operation_of (operation_value op) = Some op"
  by (cases op) (simp_all add: operation_of_def operation_value_def BFF_OPERATIONS_def dict_get_def)

lemma platform_role_roundtrip [simp]: "platform_role_of (platform_role_value r) = Some r"
  by (cases r) (simp_all add: platform_role_of_def platform_roles_def)

lemma domain_roundtrip [simp]: "database_domain_of (domain_value d) = Some d"
  by (cases d) (simp_all add: database_domain_of_def)

lemma workspace_roundtrip [simp]: "workspace_of (workspace_value w) = Some w"
  by (cases w) (simp_all add: workspace_of_def)

section \<open>Canonical denials\<close>

datatype error_code =
    UNAUTHENTICATED | CARRIER_MISMATCH | ACCESS_DENIED | TENANT_NOT_FOUND | TENANT_NOT_READY | TENANT_UNAVAILABLE
  | ISOLATION_VIOLATION | INVALID_REQUEST | NOT_FOUND | INTERNAL_ERROR

definition ERROR_CODES :: "(error_code \<times> string) list" where
  "ERROR_CODES =
     [(UNAUTHENTICATED, ''unauthenticated''), (CARRIER_MISMATCH, ''carrier_mismatch''), (ACCESS_DENIED, ''access_denied''),
      (TENANT_NOT_FOUND, ''tenant_not_found''), (TENANT_NOT_READY, ''tenant_not_ready''),
      (TENANT_UNAVAILABLE, ''tenant_unavailable''), (ISOLATION_VIOLATION, ''isolation_violation''),
      (INVALID_REQUEST, ''invalid_request''), (NOT_FOUND, ''not_found''), (INTERNAL_ERROR, ''internal_error'')]"

definition code_value :: "error_code \<Rightarrow> string" where
  "code_value c = (case dict_get ERROR_CODES c of Some v \<Rightarrow> v | None \<Rightarrow> [])"

definition code_of :: "string \<Rightarrow> error_code option" where
  "code_of v = map_option fst (find (\<lambda>p. snd p = v) ERROR_CODES)"

lemma code_roundtrip [simp]: "code_of (code_value c) = Some c"
  by (cases c) (simp_all add: code_of_def code_value_def ERROR_CODES_def dict_get_def)

datatype s2_error = AppError int error_code | Crash string

definition s2_unauthenticated :: s2_error where "s2_unauthenticated = AppError 401 UNAUTHENTICATED"
definition s2_carrier_mismatch :: s2_error where "s2_carrier_mismatch = AppError 403 CARRIER_MISMATCH"
definition s2_access_denied :: s2_error where "s2_access_denied = AppError 403 ACCESS_DENIED"
definition isolation_violation :: s2_error where "isolation_violation = AppError 403 ISOLATION_VIOLATION"
definition consistent_tenant_denial :: s2_error where "consistent_tenant_denial = AppError 404 TENANT_NOT_FOUND"
definition tenant_not_ready :: s2_error where "tenant_not_ready = AppError 409 TENANT_NOT_READY"
definition tenant_unavailable :: s2_error where "tenant_unavailable = AppError 503 TENANT_UNAVAILABLE"
definition invalid_request :: s2_error where "invalid_request = AppError 422 INVALID_REQUEST"
definition record_not_found :: s2_error where "record_not_found = AppError 404 NOT_FOUND"

lemmas s2_denials = s2_unauthenticated_def s2_carrier_mismatch_def s2_access_denied_def isolation_violation_def
  consistent_tenant_denial_def tenant_not_ready_def tenant_unavailable_def invalid_request_def record_not_found_def

text \<open>The one wire shape, the handlers installed on every application, and the code of an error of the framework.\<close>

definition error_json :: "int \<Rightarrow> error_code \<Rightarrow> json" where
  "error_json status c = JObj [(''status'', JInt status), (''code'', JStr (code_value c))]"

definition as_response :: "s2_error \<Rightarrow> int \<times> json" where
  "as_response e = (case e of AppError status c \<Rightarrow> (status, error_json status c) | Crash _ \<Rightarrow> (500, error_json 500 INTERNAL_ERROR))"

definition STATUS_CODES :: "(int, error_code) dict" where
  "STATUS_CODES =
     [(400, INVALID_REQUEST), (401, UNAUTHENTICATED), (403, ACCESS_DENIED), (404, NOT_FOUND), (405, INVALID_REQUEST),
      (409, TENANT_NOT_READY), (422, INVALID_REQUEST), (503, TENANT_UNAVAILABLE)]"

definition http_error_response :: "int \<Rightarrow> int \<times> json" where
  "http_error_response status =
     (status, error_json status (case dict_get STATUS_CODES status of Some c \<Rightarrow> c | None \<Rightarrow> INTERNAL_ERROR))"

section \<open>Identity and context\<close>

record s2_auth =
  sa_correlation_id :: string
  sa_principal_ref :: string
  sa_role :: platform_role
  sa_active_tenant_ref :: "string option"

record s2_context =
  sc_correlation_id :: string
  sc_principal_ref :: string
  sc_role :: platform_role
  sc_tenant_context :: "string option"
  sc_workspace_type :: workspace_type

definition from_auth_context :: "s2_auth \<Rightarrow> s2_context" where
  "from_auth_context a =
     \<lparr>sc_correlation_id = sa_correlation_id a, sc_principal_ref = sa_principal_ref a, sc_role = sa_role a,
      sc_tenant_context = sa_active_tenant_ref a,
      sc_workspace_type = (if sa_active_tenant_ref a = None then CONTROL_WORKSPACE else TENANT_WORKSPACE)\<rparr>"

text \<open>An optional string that is missing or empty.\<close>

definition blank :: "string option \<Rightarrow> bool" where
  "blank v = (case v of None \<Rightarrow> True | Some s \<Rightarrow> s = [])"

lemma blank_simps [simp]: "blank None" "blank (Some s) \<longleftrightarrow> s = []"
  by (simp_all add: blank_def)

text \<open>The context on the wire: \<open>model_dump(mode="json")\<close>, and its validation, which ignores other fields.\<close>

definition s2_context_json :: "s2_context \<Rightarrow> json" where
  "s2_context_json c =
     JObj [(''correlation_id'', JStr (sc_correlation_id c)), (''principal_ref'', JStr (sc_principal_ref c)),
       (''role'', JStr (platform_role_value (sc_role c))), (''tenant_context'', json_opt (sc_tenant_context c)),
       (''workspace_type'', JStr (workspace_value (sc_workspace_type c)))]"

definition context_of :: "json \<Rightarrow> s2_context option" where
  "context_of v =
     (case v of
        JObj d \<Rightarrow>
          (case (obj_get d ''correlation_id'', obj_get d ''principal_ref'', obj_get d ''role'', str_or_null (obj_get d ''tenant_context''),
                 obj_get d ''workspace_type'') of
             (JStr cid, JStr p, JStr r, Some t, JStr w) \<Rightarrow>
               (case (platform_role_of r, workspace_of w) of
                  (Some role, Some ws) \<Rightarrow>
                    Some \<lparr>sc_correlation_id = cid, sc_principal_ref = p, sc_role = role, sc_tenant_context = t, sc_workspace_type = ws\<rparr>
                | _ \<Rightarrow> None)
           | _ \<Rightarrow> None)
      | _ \<Rightarrow> None)"

lemma context_roundtrip [simp]: "context_of (s2_context_json c) = Some c"
  by (cases "sc_tenant_context c") (simp_all add: context_of_def s2_context_json_def obj_get_def dict_get_def json_opt_def str_or_null_def)

text \<open>\<open>str.casefold()\<close> on Latin-1 text: lower case, with the sharp s unfolded. (The micro sign, which folds outside of Latin-1,
stays; the code compares folded text with ASCII only.)\<close>

definition casefold :: "string \<Rightarrow> string" where
  "casefold s = concat (map (\<lambda>c. if char_code c = 223 then ''ss'' else [to_lower_char c]) s)"

section \<open>Correlation identifiers and bearer credentials\<close>

definition correlation_char :: "char \<Rightarrow> bool" where
  "correlation_char c \<longleftrightarrow> is_alpha c \<or> is_digit c \<or> c \<in> set ''._:-''"

text \<open>A well-formed identifier is kept, anything else replaced by a fresh one.\<close>

definition sanitize_correlation_id :: "string \<Rightarrow> string option \<Rightarrow> string" where
  "sanitize_correlation_id fresh raw =
     (case raw of
        None \<Rightarrow> fresh
      | Some s \<Rightarrow> if list_all correlation_char s \<and> s \<noteq> [] \<and> length s \<le> 128 then s else fresh)"

definition require_bearer :: "string option \<Rightarrow> s2_error + string" where
  "require_bearer credential =
     (case credential of None \<Rightarrow> Inl s2_unauthenticated | Some c \<Rightarrow> if c = [] then Inl s2_unauthenticated else Inr c)"

section \<open>HTTP between the services\<close>

text \<open>
  What \<open>httpx\<close> gives back: a status with a body, or an exception. An edge answers a status with a document; \<open>bounded\<close> is a
  string field with a length bound that may be null, a failed validation is the canonical 422.
\<close>

datatype reply = Reply int string | Unreachable

definition reply_of :: "(json \<Rightarrow> string) \<Rightarrow> int \<times> json \<Rightarrow> reply" where
  "reply_of dumps a = Reply (fst a) (dumps (snd a))"

definition answered :: "s2_error + int \<times> json \<Rightarrow> int \<times> json" where
  "answered r = (case r of Inl e \<Rightarrow> as_response e | Inr a \<Rightarrow> a)"

definition bounded :: "nat \<Rightarrow> json \<Rightarrow> string option option" where
  "bounded n v = (case v of JNull \<Rightarrow> Some None | JStr s \<Rightarrow> if length s \<le> n then Some (Some s) else None | _ \<Rightarrow> None)"

definition bounded_text :: "nat \<Rightarrow> nat \<Rightarrow> json \<Rightarrow> string option" where
  "bounded_text low high v = (case v of JStr s \<Rightarrow> if low \<le> length s \<and> length s \<le> high then Some s else None | _ \<Rightarrow> None)"

definition validated :: "'a option \<Rightarrow> s2_error + 'a" where
  "validated v = (case v of None \<Rightarrow> Inl invalid_request | Some a \<Rightarrow> Inr a)"

text \<open>A comprehension over entries that may raise.\<close>

fun each :: "('a \<Rightarrow> 'e + 'b) \<Rightarrow> 'a list \<Rightarrow> 'e + 'b list" where
  "each f [] = Inr []"
| "each f (x # xs) = sbind (f x) (\<lambda>y. sbind (each f xs) (\<lambda>ys. Inr (y # ys)))"

lemma bounded_json_opt: "(\<And>s. v = Some s \<Longrightarrow> length s \<le> n) \<Longrightarrow> bounded n (json_opt v) = Some v"
  by (cases v) (simp_all add: bounded_def json_opt_def)

end
