(* ===== verification/S2_TenantData.thy ===== *)
theory S2_TenantData
  imports S2_Types
begin

text \<open>
  What the tenant-resident services share (\<open>shared/tenant_data.py\<close>, \<open>shared/urls.py\<close>): connection grants, the tenant-partitioned
  table, record references, and the normalization of a website.
\<close>

section \<open>Connection grants\<close>

record connection_grant =
  cg_tenant_ref :: string
  cg_target_ref :: string
  cg_expected_schema_version :: string
  cg_dsn :: string
  cg_expires_at :: string

definition grant_of :: "json \<Rightarrow> s2_error + connection_grant" where
  "grant_of v =
     (case v of
        JObj d \<Rightarrow>
          (case (obj_get d ''tenant_ref'', obj_get d ''target_ref'', obj_get d ''expected_schema_version'', obj_get d ''dsn'', obj_get d ''expires_at'') of
             (JStr t, JStr r, JStr sv, JStr dsn, JStr x) \<Rightarrow>
               Inr \<lparr>cg_tenant_ref = t, cg_target_ref = r, cg_expected_schema_version = sv, cg_dsn = dsn, cg_expires_at = x\<rparr>
           | _ \<Rightarrow> Inl (Crash ''KeyError''))
      | _ \<Rightarrow> Inl (Crash ''TypeError''))"

text \<open>A grant is built of the document without a check of its field types; here they are typed, and a field of another type, which the
router never sends, raises. The canonical denial of the router is passed on; a code outside of the vocabulary is an outage.\<close>

definition grant_denial :: "(string \<Rightarrow> json option) \<Rightarrow> int \<Rightarrow> string \<Rightarrow> s2_error" where
  "grant_denial loads status raw =
     (case (if raw = [] then Some (JObj []) else loads raw) of
        None \<Rightarrow> Crash ''JSONDecodeError''
      | Some (JObj d) \<Rightarrow>
          (case dict_get d ''code'' of
             None \<Rightarrow> AppError status TENANT_UNAVAILABLE
           | Some (JStr v) \<Rightarrow> (case code_of v of Some c \<Rightarrow> AppError status c | None \<Rightarrow> tenant_unavailable)
           | Some _ \<Rightarrow> tenant_unavailable)
      | Some _ \<Rightarrow> Crash ''AttributeError'')"

definition router_grant_for ::
    "(json \<Rightarrow> 'w \<Rightarrow> reply \<times> 'w) \<Rightarrow> (string \<Rightarrow> json option) \<Rightarrow> string option \<Rightarrow> ('w, s2_error, connection_grant) proc" where
  "router_grant_for post loads tenant_ref w =
     (if blank tenant_ref then (Inl tenant_unavailable, w)
      else case post (JObj [(''tenant_ref'', json_opt tenant_ref)]) w of
          (Unreachable, w') \<Rightarrow> (Inl tenant_unavailable, w')
        | (Reply status raw, w') \<Rightarrow>
            (if 400 \<le> status then Inl (grant_denial loads status raw)
             else case loads raw of None \<Rightarrow> Inl (Crash ''JSONDecodeError'') | Some v \<Rightarrow> grant_of v, w'))"

section \<open>The tenant-partitioned table\<close>

type_synonym row_fields = "(string, string option) dict"

record tenant_table =
  tt_rows :: "(string, (string, row_fields) dict) dict"
  tt_counters :: "(string, nat) dict"

definition empty_table :: tenant_table where
  "empty_table = \<lparr>tt_rows = [], tt_counters = []\<rparr>"

text \<open>\<open>setdefault\<close>: looking at a tenant creates its bucket.\<close>

definition bucket :: "string \<Rightarrow> tenant_table \<Rightarrow> (string, row_fields) dict" where
  "bucket t tb = (case dict_get (tt_rows tb) t of None \<Rightarrow> [] | Some b \<Rightarrow> b)"

definition counter :: "string \<Rightarrow> tenant_table \<Rightarrow> nat" where
  "counter t tb = (case dict_get (tt_counters tb) t of None \<Rightarrow> 0 | Some n \<Rightarrow> n)"

definition opened :: "string \<Rightarrow> tenant_table \<Rightarrow> tenant_table" where
  "opened t tb = tb\<lparr>tt_rows := dict_put t (bucket t tb) (tt_rows tb)\<rparr>"

definition table_insert :: "string \<Rightarrow> row_fields \<Rightarrow> tenant_table \<Rightarrow> string \<times> tenant_table" where
  "table_insert t fs tb =
     (let identity = show_nat (counter t tb + 1) in
      (identity,
       tb\<lparr>tt_counters := dict_put t (counter t tb + 1) (tt_counters tb),
          tt_rows := dict_put t (dict_put identity fs (bucket t tb)) (tt_rows tb)\<rparr>))"

definition table_get :: "string \<Rightarrow> string \<Rightarrow> tenant_table \<Rightarrow> row_fields option \<times> tenant_table" where
  "table_get t identity tb = (dict_get (bucket t tb) identity, opened t tb)"

definition dict_update :: "('k, 'v) dict \<Rightarrow> ('k, 'v) dict \<Rightarrow> ('k, 'v) dict" where
  "dict_update new d = fold (\<lambda>(k, v). dict_put k v) new d"

definition table_update :: "string \<Rightarrow> string \<Rightarrow> row_fields \<Rightarrow> tenant_table \<Rightarrow> row_fields option \<times> tenant_table" where
  "table_update t identity fs tb =
     (case dict_get (bucket t tb) identity of
        None \<Rightarrow> (None, opened t tb)
      | Some stored \<Rightarrow>
          let new = dict_update fs stored in
          (Some new, tb\<lparr>tt_rows := dict_put t (dict_put identity new (bucket t tb)) (tt_rows tb)\<rparr>))"

definition table_list :: "string \<Rightarrow> nat \<Rightarrow> tenant_table \<Rightarrow> (string \<times> row_fields) list \<times> tenant_table" where
  "table_list t limit tb = (take limit (sort_key (\<lambda>(i, f). (length i, i)) (bucket t tb)), opened t tb)"

definition table_rows :: "string \<Rightarrow> tenant_table \<Rightarrow> (string \<times> row_fields) list \<times> tenant_table" where
  "table_rows t tb = (bucket t tb, opened t tb)"

section \<open>Record references\<close>

definition record_prefix :: "string \<Rightarrow> string \<Rightarrow> string" where
  "record_prefix t family = ''ref:'' @ t @ '':'' @ family @ '':''"

definition compose_record_ref :: "string \<Rightarrow> string \<Rightarrow> string \<Rightarrow> string" where
  "compose_record_ref t family identity = record_prefix t family @ identity"

definition parse_record_ref :: "string \<Rightarrow> string \<Rightarrow> string \<Rightarrow> string option" where
  "parse_record_ref t family r =
     (if starts_with (record_prefix t family) r then
        (let identity = drop (length (record_prefix t family)) r in if identity = [] then None else Some identity)
      else None)"

section \<open>Websites\<close>

definition alnum :: "char \<Rightarrow> bool" where
  "alnum c \<longleftrightarrow> is_alpha c \<or> is_digit c"

definition host_label :: "string \<Rightarrow> bool" where
  "host_label s \<longleftrightarrow>
     s \<noteq> [] \<and> length s \<le> 63 \<and> alnum (hd s) \<and> alnum (last s) \<and> list_all (\<lambda>c. alnum c \<or> c = CHR ''-'') s"

definition website_host :: "string \<Rightarrow> bool" where
  "website_host h \<longleftrightarrow>
     (let name = takeWhile (\<lambda>c. c \<noteq> CHR '':'') h; port = drop (length name) h in
      list_all host_label (split_on CHR ''.'' name)
      \<and> (port = [] \<or> list_all is_digit (tl port) \<and> 1 \<le> length (tl port) \<and> length (tl port) \<le> 5))"

definition urlunsplit :: "string \<Rightarrow> string \<Rightarrow> string \<Rightarrow> string \<Rightarrow> string" where
  "urlunsplit scheme netloc path query =
     scheme @ ''://'' @ netloc @ (if path \<noteq> [] \<and> hd path \<noteq> CHR ''/'' then CHR ''/'' # path else path)
       @ (if query = [] then [] else CHR ''?'' # query)"

fun occurs :: "string \<Rightarrow> string \<Rightarrow> bool" where
  "occurs p [] = (p = [])"
| "occurs p (c # cs) = (starts_with p (c # cs) \<or> occurs p cs)"

definition normalize_website :: "(string \<Rightarrow> bool) \<Rightarrow> string option \<Rightarrow> s2_error + string option" where
  "normalize_website netloc_ok raw =
     (case raw of
        None \<Rightarrow> Inr None
      | Some s \<Rightarrow>
          let stripped = strip s; candidate = (if occurs ''://'' stripped then stripped else ''https://'' @ stripped) in
          if stripped = [] then Inr None
          else case urlsplit netloc_ok candidate of
              None \<Rightarrow> Inl (Crash ''ValueError'')
            | Some u \<Rightarrow>
                if up_scheme u \<notin> {''http'', ''https''} \<or> up_netloc u = [] then Inl invalid_request
                else
                  let folded = casefold (up_netloc u); host = (if starts_with ''www.'' folded then drop 4 folded else folded) in
                  if website_host host then Inr (Some (urlunsplit (up_scheme u) host (rstrip_slash (up_path u)) (up_query u)))
                  else Inl invalid_request)"

section \<open>Facts\<close>

lemma bucket_put [simp]: "bucket t (tb\<lparr>tt_rows := dict_put u b (tt_rows tb)\<rparr>) = (if t = u then b else bucket t tb)"
  by (simp add: bucket_def)

lemma bucket_opened [simp]: "bucket t (opened u tb) = bucket t tb"
  by (simp add: opened_def bucket_def split: option.splits)

lemma counter_opened [simp]: "counter t (opened u tb) = counter t tb"
  by (simp add: opened_def counter_def)

text \<open>What one tenant has: its rows and the number of the last one.\<close>

definition share :: "string \<Rightarrow> tenant_table \<Rightarrow> (string, row_fields) dict \<times> nat" where
  "share t tb = (bucket t tb, counter t tb)"

lemma share_opened [simp]: "share t (opened u tb) = share t tb"
  by (simp add: share_def)

lemma share_insert:
  "u \<noteq> t \<Longrightarrow> share u (snd (table_insert t fs tb)) = share u tb"
  "share t (snd (table_insert t fs tb)) =
     (dict_put (show_nat (counter t tb + 1)) fs (bucket t tb), counter t tb + 1)"
  by (simp_all add: table_insert_def share_def bucket_def counter_def Let_def)

lemma share_update:
  "u \<noteq> t \<Longrightarrow> share u (snd (table_update t i fs tb)) = share u tb"
  "share t (snd (table_update t i fs tb)) =
     ((case dict_get (bucket t tb) i of None \<Rightarrow> bucket t tb | Some f \<Rightarrow> dict_put i (dict_update fs f) (bucket t tb)), counter t tb)"
  by (simp_all add: table_update_def share_def bucket_def counter_def opened_def Let_def split: option.splits)

lemma parse_compose: "identity \<noteq> [] \<Longrightarrow> parse_record_ref t family (compose_record_ref t family identity) = Some identity"
  by (simp add: parse_record_ref_def compose_record_ref_def)

lemma parse_Some: "parse_record_ref t family r = Some i \<longleftrightarrow> r = compose_record_ref t family i \<and> i \<noteq> []"
  by (auto simp: parse_record_ref_def compose_record_ref_def starts_with_def Let_def split: if_splits)
    (metis append_take_drop_id)

end
