(* ===== verification/S2_Services.thy ===== *)
theory S2_Services
  imports S2_TenantData
begin

text \<open>
  The tenant-resident services over their in-memory repositories: \<open>services/startups\<close>, \<open>services/investors\<close> and \<open>services/deals\<close>
  (\<open>main.py\<close>, \<open>models.py\<close>, \<open>repository.py\<close>). A request carries the context and the fields of its operation; the one tenant it may touch
  is the signed claim of that context. An integer field is an integer of the document: the coercions of numeric strings,
  Booleans and whole floats, which the BFF never sends, are left out. The PostgreSQL repositories are the behaviour of the
  server and are not modelled.
\<close>

section \<open>Repositories\<close>

type_synonym 'a table_proc = "(tenant_table, s2_error, 'a) proc"
type_synonym render = "string \<Rightarrow> string \<Rightarrow> row_fields \<Rightarrow> s2_error + json"

definition field_of :: "row_fields \<Rightarrow> string \<Rightarrow> string option" where
  "field_of fs k = (case dict_get fs k of None \<Rightarrow> None | Some v \<Rightarrow> v)"

text \<open>\<open>fields.get(k) or ""\<close>.\<close>

definition column_text :: "row_fields \<Rightarrow> string \<Rightarrow> string" where
  "column_text fs k = (case field_of fs k of None \<Rightarrow> [] | Some s \<Rightarrow> s)"

definition repo_list :: "render \<Rightarrow> string \<Rightarrow> nat \<Rightarrow> json list table_proc" where
  "repo_list render t limit tb =
     (case table_list t limit tb of (rows, tb') \<Rightarrow> (each (\<lambda>(i, fs). render t i fs) rows, tb'))"

definition repo_read :: "string \<Rightarrow> render \<Rightarrow> string \<Rightarrow> string \<Rightarrow> json option table_proc" where
  "repo_read family render t r tb =
     (case parse_record_ref t family r of
        None \<Rightarrow> (Inr None, tb)
      | Some i \<Rightarrow>
          (case table_get t i tb of
             (None, tb') \<Rightarrow> (Inr None, tb')
           | (Some fs, tb') \<Rightarrow> (sbind (render t i fs) (\<lambda>v. Inr (Some v)), tb')))"

definition repo_create :: "render \<Rightarrow> string \<Rightarrow> row_fields \<Rightarrow> json table_proc" where
  "repo_create render t fs tb = (case table_insert t fs tb of (i, tb') \<Rightarrow> (render t i fs, tb'))"

definition repo_update :: "string \<Rightarrow> render \<Rightarrow> string \<Rightarrow> string \<Rightarrow> row_fields \<Rightarrow> json table_proc" where
  "repo_update family render t r fs tb =
     (case parse_record_ref t family r of
        None \<Rightarrow> (Inl record_not_found, tb)
      | Some i \<Rightarrow>
          (case table_update t i fs tb of
             (None, tb') \<Rightarrow> (Inl record_not_found, tb')
           | (Some new, tb') \<Rightarrow> (render t i new, tb')))"

section \<open>Requests\<close>

definition tenant_of :: "s2_context \<Rightarrow> s2_error + string" where
  "tenant_of c =
     (case sc_tenant_context c of
        None \<Rightarrow> Inl consistent_tenant_denial
      | Some t \<Rightarrow> if t = [] then Inl consistent_tenant_denial else Inr t)"

definition limit_field :: "(string \<times> json) list \<Rightarrow> nat option" where
  "limit_field d =
     (case dict_get d ''limit'' of
        None \<Rightarrow> Some 100
      | Some (JInt n) \<Rightarrow> if 1 \<le> n \<and> n \<le> 500 then Some (nat n) else None
      | _ \<Rightarrow> None)"

fun opt_fields :: "(string \<times> nat) list \<Rightarrow> (string \<times> json) list \<Rightarrow> row_fields option" where
  "opt_fields [] d = Some []"
| "opt_fields ((k, n) # rest) d =
     (case (bounded n (obj_get d k), opt_fields rest d) of (Some v, Some fs) \<Rightarrow> Some ((k, v) # fs) | _ \<Rightarrow> None)"

text \<open>An operation on a validated request: its context and the fields \<open>parse\<close> accepts, for the tenant of the context.\<close>

definition tenant_operation ::
    "((string \<times> json) list \<Rightarrow> 'q option) \<Rightarrow> (string \<Rightarrow> 'q \<Rightarrow> ('s, s2_error, int \<times> json) proc) \<Rightarrow> json \<Rightarrow> ('s, s2_error, int \<times> json) proc" where
  "tenant_operation parse run body =
     (case body of
        JObj d \<Rightarrow>
          (case (context_of (obj_get d ''context''), parse d) of
             (Some c, Some q) \<Rightarrow> (case tenant_of c of Inl e \<Rightarrow> raise e | Inr t \<Rightarrow> run t q)
           | _ \<Rightarrow> raise invalid_request)
      | _ \<Rightarrow> raise invalid_request)"

definition listed_answer :: "string \<Rightarrow> json list \<Rightarrow> int \<times> json" where
  "listed_answer t rs = (200, JObj [(''tenant_ref'', JStr t), (''records'', JList rs)])"

definition found_or_404 :: "json option \<Rightarrow> s2_error + int \<times> json" where
  "found_or_404 v = (case v of None \<Rightarrow> Inl record_not_found | Some x \<Rightarrow> Inr (200, x))"

text \<open>The surface of a service: an unknown path, a missing credential, the operation.\<close>

definition service_surface ::
    "(string \<Rightarrow> (json \<Rightarrow> ('s, s2_error, int \<times> json) proc) option) \<Rightarrow> string option \<Rightarrow> string \<Rightarrow> json \<Rightarrow> 's \<Rightarrow> (int \<times> json) \<times> 's" where
  "service_surface operation service path body s =
     (case operation path of
        None \<Rightarrow> (http_error_response 404, s)
      | Some run \<Rightarrow>
          (case require_bearer service of
             Inl e \<Rightarrow> (as_response e, s)
           | Inr _ \<Rightarrow> (case run body s of (r, s') \<Rightarrow> (answered r, s'))))"

section \<open>Startups\<close>

definition startup_record_json :: render where
  "startup_record_json t i fs =
     (case (case field_of fs ''year_founded'' of None \<Rightarrow> Some JNull | Some y \<Rightarrow> map_option JInt (py_int y)) of
        None \<Rightarrow> Inl (Crash ''ValueError'')
      | Some year \<Rightarrow> Inr (JObj
          [(''record_ref'', JStr (compose_record_ref t ''startups'' i)), (''global_startup_id'', json_opt (field_of fs ''global_startup_id'')),
           (''company_name'', JStr (column_text fs ''company_name'')), (''company_type'', json_opt (field_of fs ''company_type'')),
           (''company_url'', json_opt (field_of fs ''company_url'')), (''headquarters_country'', json_opt (field_of fs ''headquarters_country'')),
           (''headquarters_city'', json_opt (field_of fs ''headquarters_city'')), (''region'', json_opt (field_of fs ''region'')),
           (''year_founded'', year), (''industry'', json_opt (field_of fs ''industry'')),
           (''investment_stage'', json_opt (field_of fs ''investment_stage'')), (''short_description'', json_opt (field_of fs ''short_description'')),
           (''product_overview'', json_opt (field_of fs ''product_overview'')), (''lineage_reference'', json_opt (field_of fs ''lineage_reference''))]))"

definition year_field :: "int \<Rightarrow> (string \<times> json) list \<Rightarrow> string option option" where
  "year_field this_year d =
     (case obj_get d ''year_founded'' of
        JNull \<Rightarrow> Some None
      | JInt n \<Rightarrow> if 1800 \<le> n \<and> n \<le> this_year then Some (Some (show_nat (nat n))) else None
      | _ \<Rightarrow> None)"

definition startup_create_request :: "int \<Rightarrow> (string \<times> json) list \<Rightarrow> row_fields option" where
  "startup_create_request this_year d =
     (case (bounded_text 1 256 (obj_get d ''company_name''), year_field this_year d,
            opt_fields [(''company_type'', 128), (''company_url'', 512), (''headquarters_country'', 128), (''headquarters_city'', 128),
              (''region'', 128), (''industry'', 128), (''investment_stage'', 128), (''short_description'', 500),
              (''product_overview'', 4000), (''global_startup_id'', 256)] d) of
        (Some n, Some y, Some fs) \<Rightarrow> Some ((''company_name'', Some n) # (''year_founded'', y) # fs)
      | _ \<Rightarrow> None)"

definition ref_field :: "(string \<times> json) list \<Rightarrow> string option" where
  "ref_field d = bounded_text 1 256 (obj_get d ''record_ref'')"

definition description_update :: "(string \<times> json) list \<Rightarrow> (string \<times> string option) option" where
  "description_update d =
     (case (ref_field d, bounded 500 (obj_get d ''short_description'')) of (Some r, Some v) \<Rightarrow> Some (r, v) | _ \<Rightarrow> None)"

definition duplicate_request :: "(string \<times> json) list \<Rightarrow> (string \<times> string option) option" where
  "duplicate_request d =
     (case (bounded_text 1 256 (obj_get d ''company_name''), bounded 512 (obj_get d ''company_url'')) of
        (Some n, Some u) \<Rightarrow> Some (n, u) | _ \<Rightarrow> None)"

definition duplicate_reason :: "string \<Rightarrow> string option \<Rightarrow> row_fields \<Rightarrow> string option" where
  "duplicate_reason name url fs =
     (if casefold (strip (column_text fs ''company_name'')) = casefold (strip name) then Some ''name''
      else if url \<noteq> None \<and> field_of fs ''company_url'' = url then Some ''website'' else None)"

definition duplicates_json :: "string \<Rightarrow> (string \<times> row_fields \<times> string) list \<Rightarrow> json" where
  "duplicates_json t ms =
     JObj [(''candidates'', JList (map (\<lambda>(i, fs, reason).
         JObj [(''record_ref'', JStr (compose_record_ref t ''startups'' i)), (''display_name'', JStr (column_text fs ''company_name'')),
           (''reason'', JStr reason)]) ms)),
       (''blocking'', JBool (ms \<noteq> []))]"

definition find_duplicates :: "(string \<Rightarrow> bool) \<Rightarrow> string \<Rightarrow> string \<Rightarrow> string option \<Rightarrow> (string \<times> row_fields \<times> string) list table_proc" where
  "find_duplicates netloc_ok t name url tb =
     (case normalize_website netloc_ok url of
        Inl e \<Rightarrow> (Inl e, tb)
      | Inr u \<Rightarrow>
          (case table_list t 500 tb of
             (rows, tb') \<Rightarrow>
               (sbind (each (\<lambda>(i, fs). startup_record_json t i fs) rows) (\<lambda>_.
                  Inr (List.map_filter (\<lambda>(i, fs). map_option (\<lambda>reason. (i, fs, reason)) (duplicate_reason name u fs)) rows)), tb')))"

definition startups_operation ::
    "(string \<Rightarrow> bool) \<Rightarrow> int \<Rightarrow> string \<Rightarrow> (json \<Rightarrow> (tenant_table, s2_error, int \<times> json) proc) option" where
  "startups_operation netloc_ok this_year path =
     (if path = ''/internal/startups/list'' then
        Some (tenant_operation limit_field (\<lambda>t n. bnd (repo_list startup_record_json t n) (\<lambda>rs. ret (listed_answer t rs))))
      else if path = ''/internal/startups/read'' then
        Some (tenant_operation ref_field (\<lambda>t r. bnd (repo_read ''startups'' startup_record_json t r) (\<lambda>v. lift_sum (found_or_404 v))))
      else if path = ''/internal/startups/create'' then
        Some (tenant_operation (startup_create_request this_year) (\<lambda>t fs.
          case normalize_website netloc_ok (field_of fs ''company_url'') of
            Inl e \<Rightarrow> raise e
          | Inr url \<Rightarrow> bnd (repo_create startup_record_json t (dict_put ''company_url'' url fs)) (\<lambda>v. ret (201, v))))
      else if path = ''/internal/startups/update'' then
        Some (tenant_operation description_update (\<lambda>t (r, v).
          bnd (repo_update ''startups'' startup_record_json t r [(''short_description'', v)]) (\<lambda>x. ret (200, x))))
      else if path = ''/internal/startups/duplicate-check'' then
        Some (tenant_operation duplicate_request (\<lambda>t (name, url).
          bnd (find_duplicates netloc_ok t name url) (\<lambda>ms. ret (200, duplicates_json t ms))))
      else None)"

section \<open>Investors\<close>

text \<open>The focus lists are kept as JSON text; what does not decode to a list is an empty one.\<close>

definition decode_list :: "(string \<Rightarrow> json option) \<Rightarrow> (json \<Rightarrow> string) \<Rightarrow> string option \<Rightarrow> json" where
  "decode_list loads show raw =
     (if blank raw then JList []
      else case loads (the raw) of
          Some (JList xs) \<Rightarrow> JList (map (\<lambda>x. case x of JStr s \<Rightarrow> x | _ \<Rightarrow> JStr (show x)) xs)
        | _ \<Rightarrow> JList [])"

definition investor_record_json :: "(string \<Rightarrow> json option) \<Rightarrow> (json \<Rightarrow> string) \<Rightarrow> render" where
  "investor_record_json loads show t i fs =
     Inr (JObj
       [(''record_ref'', JStr (compose_record_ref t ''investors'' i)), (''global_investor_id'', json_opt (field_of fs ''global_investor_id'')),
        (''investor_name'', JStr (column_text fs ''investor_name'')), (''investor_type'', json_opt (field_of fs ''investor_type'')),
        (''website_url'', json_opt (field_of fs ''website_url'')), (''headquarters_country'', json_opt (field_of fs ''headquarters_country'')),
        (''headquarters_city'', json_opt (field_of fs ''headquarters_city'')), (''region'', json_opt (field_of fs ''region'')),
        (''investment_stage_focus'', decode_list loads show (field_of fs ''investment_stage_focus'')),
        (''industry_focus'', decode_list loads show (field_of fs ''industry_focus'')),
        (''short_description'', json_opt (field_of fs ''short_description'')), (''lineage_reference'', json_opt (field_of fs ''lineage_reference''))])"

definition focus_field :: "(json \<Rightarrow> string) \<Rightarrow> (string \<times> json) list \<Rightarrow> string \<Rightarrow> string option" where
  "focus_field dumps d k =
     (case dict_get d k of
        None \<Rightarrow> Some (dumps (JList []))
      | Some (JList xs) \<Rightarrow>
          if length xs \<le> 32 \<and> list_all (\<lambda>x. case x of JStr _ \<Rightarrow> True | _ \<Rightarrow> False) xs then Some (dumps (JList xs)) else None
      | _ \<Rightarrow> None)"

definition investor_create_request :: "(json \<Rightarrow> string) \<Rightarrow> (string \<times> json) list \<Rightarrow> row_fields option" where
  "investor_create_request dumps d =
     (case (bounded_text 1 256 (obj_get d ''investor_name''), focus_field dumps d ''investment_stage_focus'', focus_field dumps d ''industry_focus'',
            opt_fields [(''investor_type'', 128), (''website_url'', 512), (''headquarters_country'', 128), (''headquarters_city'', 128),
              (''region'', 128), (''short_description'', 500), (''global_investor_id'', 256)] d) of
        (Some n, Some a, Some b, Some fs) \<Rightarrow>
          Some ((''investor_name'', Some n) # (''investment_stage_focus'', Some a) # (''industry_focus'', Some b) # fs)
      | _ \<Rightarrow> None)"

definition investors_operation ::
    "(json \<Rightarrow> string) \<Rightarrow> (string \<Rightarrow> json option) \<Rightarrow> (json \<Rightarrow> string) \<Rightarrow> (string \<Rightarrow> bool) \<Rightarrow> string
      \<Rightarrow> (json \<Rightarrow> (tenant_table, s2_error, int \<times> json) proc) option" where
  "investors_operation dumps loads show netloc_ok path =
     (let render = investor_record_json loads show in
      if path = ''/internal/investors/list'' then
        Some (tenant_operation limit_field (\<lambda>t n. bnd (repo_list render t n) (\<lambda>rs. ret (listed_answer t rs))))
      else if path = ''/internal/investors/read'' then
        Some (tenant_operation ref_field (\<lambda>t r. bnd (repo_read ''investors'' render t r) (\<lambda>v. lift_sum (found_or_404 v))))
      else if path = ''/internal/investors/create'' then
        Some (tenant_operation (investor_create_request dumps) (\<lambda>t fs.
          case normalize_website netloc_ok (field_of fs ''website_url'') of
            Inl e \<Rightarrow> raise e
          | Inr url \<Rightarrow> bnd (repo_create render t (dict_put ''website_url'' url fs)) (\<lambda>v. ret (201, v))))
      else if path = ''/internal/investors/update'' then
        Some (tenant_operation description_update (\<lambda>t (r, v).
          bnd (repo_update ''investors'' render t r [(''short_description'', v)]) (\<lambda>x. ret (200, x))))
      else None)"

section \<open>Deals\<close>

definition DEAL_STATUSES :: "string list" where
  "DEAL_STATUSES = [''open'', ''in_diligence'', ''committed'', ''closed'', ''withdrawn'']"

definition deal_record_json :: render where
  "deal_record_json t i fs =
     Inr (JObj
       [(''record_ref'', JStr (compose_record_ref t ''deals'' i)), (''deal_name'', JStr (column_text fs ''deal_name'')),
        (''startup_ref'', JStr (compose_record_ref t ''startups'' (column_text fs ''startup_id''))),
        (''investor_ref'', if blank (field_of fs ''investor_id'') then JNull else JStr (compose_record_ref t ''investors'' (column_text fs ''investor_id''))),
        (''stage'', json_opt (field_of fs ''stage'')), (''amount'', json_opt (field_of fs ''amount'')),
        (''currency'', json_opt (field_of fs ''currency'')),
        (''status'', if field_of fs ''status'' \<in> Some ` set DEAL_STATUSES then json_opt (field_of fs ''status'') else JNull),
        (''record_origin'', JStr ''tenant''), (''record_residency'', JStr ''tenant''), (''record_type'', JStr ''deal'')])"

text \<open>A party is a record of this tenant and of the right family, or the request is refused.\<close>

definition resolve_party :: "string \<Rightarrow> string \<Rightarrow> string option \<Rightarrow> s2_error + string option" where
  "resolve_party t family r =
     (case r of
        None \<Rightarrow> Inr None
      | Some ref \<Rightarrow> (case parse_record_ref t family ref of None \<Rightarrow> Inl invalid_request | Some i \<Rightarrow> Inr (Some i)))"

record deal_create =
  dc_deal_name :: string
  dc_startup_ref :: string
  dc_investor_ref :: "string option"
  dc_rest :: row_fields
  dc_status :: string

definition deal_create_request :: "(string \<times> json) list \<Rightarrow> deal_create option" where
  "deal_create_request d =
     (case (bounded_text 1 256 (obj_get d ''deal_name''), bounded_text 1 256 (obj_get d ''startup_ref''), bounded 256 (obj_get d ''investor_ref''),
            opt_fields [(''stage'', 128), (''amount'', 64), (''currency'', 8)] d,
            case dict_get d ''status'' of None \<Rightarrow> Some ''open'' | Some (JStr s) \<Rightarrow> if s \<in> set DEAL_STATUSES then Some s else None | _ \<Rightarrow> None) of
        (Some n, Some s, Some v, Some fs, Some st) \<Rightarrow>
          Some \<lparr>dc_deal_name = n, dc_startup_ref = s, dc_investor_ref = v, dc_rest = fs, dc_status = st\<rparr>
      | _ \<Rightarrow> None)"

definition deal_fields :: "string \<Rightarrow> deal_create \<Rightarrow> s2_error + row_fields" where
  "deal_fields t q =
     sbind (resolve_party t ''startups'' (Some (dc_startup_ref q))) (\<lambda>s.
     sbind (resolve_party t ''investors'' (dc_investor_ref q)) (\<lambda>v.
       Inr ([(''startup_id'', s), (''investor_id'', v), (''deal_name'', Some (dc_deal_name q))] @ dc_rest q @ [(''status'', Some (dc_status q))])))"

definition deal_update_request :: "(string \<times> json) list \<Rightarrow> (string \<times> row_fields) option" where
  "deal_update_request d =
     (case (ref_field d, bounded 128 (obj_get d ''stage''),
            case obj_get d ''status'' of JNull \<Rightarrow> Some None | JStr s \<Rightarrow> if s \<in> set DEAL_STATUSES then Some (Some s) else None | _ \<Rightarrow> None) of
        (Some r, Some g, Some st) \<Rightarrow> Some (r, [(''stage'', g), (''status'', st)])
      | _ \<Rightarrow> None)"

text \<open>Only fields that are present are written.\<close>

definition present_fields :: "row_fields \<Rightarrow> row_fields" where
  "present_fields fs = filter (\<lambda>(k, v). v \<noteq> None) fs"

definition deals_operation :: "string \<Rightarrow> (json \<Rightarrow> (tenant_table, s2_error, int \<times> json) proc) option" where
  "deals_operation path =
     (if path = ''/internal/deals/list'' then
        Some (tenant_operation limit_field (\<lambda>t n. bnd (repo_list deal_record_json t n) (\<lambda>rs. ret (listed_answer t rs))))
      else if path = ''/internal/deals/read'' then
        Some (tenant_operation ref_field (\<lambda>t r. bnd (repo_read ''deals'' deal_record_json t r) (\<lambda>v. lift_sum (found_or_404 v))))
      else if path = ''/internal/deals/create'' then
        Some (tenant_operation deal_create_request (\<lambda>t q.
          case deal_fields t q of Inl e \<Rightarrow> raise e | Inr fs \<Rightarrow> bnd (repo_create deal_record_json t fs) (\<lambda>v. ret (201, v))))
      else if path = ''/internal/deals/update'' then
        Some (tenant_operation deal_update_request (\<lambda>t (r, fs).
          bnd (repo_update ''deals'' deal_record_json t r (present_fields fs)) (\<lambda>x. ret (200, x))))
      else None)"

end
