(* ===== verification/S2_Import.thy ===== *)
theory S2_Import
  imports S2_Services
begin

text \<open>
  The import service over its in-memory store (\<open>services/import_service/service.py\<close>, \<open>models.py\<close>, \<open>main.py\<close>) and the lineage service
  (\<open>services/lineage/main.py\<close>). The digest (SHA-256, as hexadecimal text) and the clock are arguments.
\<close>

section \<open>Global sources\<close>

record global_source =
  gs_record_ref :: string
  gs_display_name :: string
  gs_attributes :: "(string, string) dict"

definition source_attributes :: "(json \<Rightarrow> string) \<Rightarrow> json \<Rightarrow> (string, string) dict option" where
  "source_attributes show v =
     (if \<not> truthy v then Some []
      else case v of
          JObj d \<Rightarrow> Some (map (\<lambda>(k, x). (k, case x of JStr s \<Rightarrow> s | _ \<Rightarrow> show x)) d)
        | _ \<Rightarrow> None)"

text \<open>The source is built of the document without a check of its field types; here they are typed, and a field of another type,
which the control plane never sends, is a failed read.\<close>

definition global_source_of :: "(string \<Rightarrow> json option) \<Rightarrow> (json \<Rightarrow> string) \<Rightarrow> reply \<Rightarrow> global_source option" where
  "global_source_of loads show x =
     (case x of
        Unreachable \<Rightarrow> None
      | Reply status raw \<Rightarrow>
          if status \<noteq> 200 then None
          else (case loads raw of
              Some (JObj d) \<Rightarrow>
                (case (obj_get d ''record_ref'', obj_get d ''display_name'', source_attributes show (obj_get d ''attributes'')) of
                   (JStr r, JStr n, Some a) \<Rightarrow> Some \<lparr>gs_record_ref = r, gs_display_name = n, gs_attributes = a\<rparr>
                 | _ \<Rightarrow> None)
            | _ \<Rightarrow> None))"

definition http_global_directory ::
    "(string \<Rightarrow> 'w \<Rightarrow> reply \<times> 'w) \<Rightarrow> (string \<Rightarrow> json option) \<Rightarrow> (json \<Rightarrow> string) \<Rightarrow> string \<Rightarrow> 'w \<Rightarrow> global_source option \<times> 'w" where
  "http_global_directory fetch loads show source_ref w =
     (case fetch (''/internal/directories/GlobalStartupDirectory/records/'' @ source_ref) w of
        (x, w') \<Rightarrow> (global_source_of loads show x, w'))"

section \<open>The store\<close>

record s2_import_record =
  ip_import_id :: string
  ip_tenant_record_ref :: string
  ip_lineage_ref :: string

record s2_import_store =
  is_startups :: tenant_table
  is_lineage :: tenant_table
  is_by_key :: "(string \<times> string, s2_import_record) dict"

definition s2_operation_key :: "(string \<Rightarrow> string) \<Rightarrow> string \<Rightarrow> string \<Rightarrow> string" where
  "s2_operation_key digest t source_ref = ''imp-'' @ take 32 (digest (t @ char_of (0::nat) # source_ref))"

definition find_existing :: "string \<Rightarrow> string \<Rightarrow> s2_import_store \<Rightarrow> s2_import_record option" where
  "find_existing t key s = dict_get (is_by_key s) (t, key)"

definition copy_fields :: "global_source \<Rightarrow> row_fields" where
  "copy_fields g =
     [(''global_startup_id'', Some (gs_record_ref g)), (''company_name'', Some (gs_display_name g)),
      (''industry'', dict_get (gs_attributes g) ''industry''),
      (''headquarters_country'', dict_get (gs_attributes g) ''headquarters_country'')]"

definition lineage_fields :: "string \<Rightarrow> s2_context \<Rightarrow> global_source \<Rightarrow> string \<Rightarrow> string \<Rightarrow> row_fields" where
  "lineage_fields now c g target key =
     [(''event_type'', Some ''import''), (''occurred_at'', Some now), (''actor_ref'', Some (sc_principal_ref c)),
      (''operation'', Some ''global_startup_import''), (''source_ref'', Some (gs_record_ref g)), (''target_ref'', Some target),
      (''derivation_ref'', Some key), (''correlation_id'', Some (sc_correlation_id c))]"

definition write_import ::
    "string \<Rightarrow> string \<Rightarrow> string \<Rightarrow> s2_context \<Rightarrow> global_source \<Rightarrow> s2_import_store \<Rightarrow> s2_import_record \<times> s2_import_store" where
  "write_import now t key c g s =
     (case table_insert t (copy_fields g) (is_startups s) of
        (i, st) \<Rightarrow>
          let target = compose_record_ref t ''startups'' i in
          (case table_insert t (lineage_fields now c g target key) (is_lineage s) of
             (j, ln) \<Rightarrow>
               let rec = \<lparr>ip_import_id = key, ip_tenant_record_ref = target, ip_lineage_ref = compose_record_ref t ''lineage'' j\<rparr> in
               (rec, s\<lparr>is_startups := st, is_lineage := ln, is_by_key := dict_put (t, key) rec (is_by_key s)\<rparr>)))"

section \<open>One import\<close>

definition import_startup ::
    "(string \<Rightarrow> string) \<Rightarrow> string \<Rightarrow> (string \<Rightarrow> global_source option) \<Rightarrow> s2_context \<Rightarrow> string
      \<Rightarrow> (s2_import_store, s2_error, s2_import_record \<times> bool) proc" where
  "import_startup digest now directory c source_ref s =
     (case tenant_of c of
        Inl e \<Rightarrow> (Inl e, s)
      | Inr t \<Rightarrow>
          let key = s2_operation_key digest t source_ref in
          (case find_existing t key s of
             Some rec \<Rightarrow> (Inr (rec, True), s)
           | None \<Rightarrow>
               (case directory source_ref of
                  None \<Rightarrow> (Inl record_not_found, s)
                | Some g \<Rightarrow> (case write_import now t key c g s of (rec, s') \<Rightarrow> (Inr (rec, False), s')))))"

definition import_result_json :: "string \<Rightarrow> s2_context \<Rightarrow> s2_import_record \<times> bool \<Rightarrow> json" where
  "import_result_json source_ref c r =
     JObj [(''source_ref'', JStr source_ref), (''target_tenant_ref'', JStr (case sc_tenant_context c of None \<Rightarrow> [] | Some t \<Rightarrow> t)),
       (''tenant_record_ref'', JStr (ip_tenant_record_ref (fst r))), (''lineage_ref'', JStr (ip_lineage_ref (fst r))),
       (''import_id'', JStr (ip_import_id (fst r))), (''outcome'', JStr (if snd r then ''replayed'' else ''created''))]"

definition import_request_of :: "json \<Rightarrow> (s2_context \<times> string) option" where
  "import_request_of body =
     (case body of
        JObj d \<Rightarrow>
          (case (context_of (obj_get d ''context''), bounded_text 1 256 (obj_get d ''source_ref'')) of
             (Some c, Some r) \<Rightarrow> Some (c, r) | _ \<Rightarrow> None)
      | _ \<Rightarrow> None)"

definition import_operation ::
    "(string \<Rightarrow> string) \<Rightarrow> string \<Rightarrow> (string \<Rightarrow> global_source option) \<Rightarrow> string \<Rightarrow> (json \<Rightarrow> (s2_import_store, s2_error, int \<times> json) proc) option" where
  "import_operation digest now directory path =
     (if path = ''/internal/import/startup'' then
        Some (\<lambda>body. case import_request_of body of
            None \<Rightarrow> raise invalid_request
          | Some (c, r) \<Rightarrow> bnd (import_startup digest now directory c r) (\<lambda>x. ret (201, import_result_json r c x)))
      else None)"

section \<open>Lineage\<close>

definition lineage_entry_json :: render where
  "lineage_entry_json t i fs =
     Inr (JObj
       [(''lineage_ref'', JStr (compose_record_ref t ''lineage'' i)), (''event_type'', JStr (column_text fs ''event_type'')),
        (''operation'', JStr (column_text fs ''operation'')), (''source_ref'', JStr (column_text fs ''source_ref'')),
        (''target_ref'', JStr (column_text fs ''target_ref'')), (''derivation_ref'', json_opt (field_of fs ''derivation_ref''))])"

definition lineage_for_target :: "string \<Rightarrow> string \<Rightarrow> json list table_proc" where
  "lineage_for_target t target tb =
     (case table_rows t tb of
        (rows, tb') \<Rightarrow> (each (\<lambda>(i, fs). lineage_entry_json t i fs) (filter (\<lambda>(i, fs). field_of fs ''target_ref'' = Some target) rows), tb'))"

definition own_record :: "string \<Rightarrow> string \<Rightarrow> bool" where
  "own_record t r \<longleftrightarrow>
     parse_record_ref t ''startups'' r \<noteq> None \<or> parse_record_ref t ''investors'' r \<noteq> None \<or> parse_record_ref t ''deals'' r \<noteq> None"

definition entries_answer :: "string \<Rightarrow> json list \<Rightarrow> int \<times> json" where
  "entries_answer t es = (200, JObj [(''tenant_ref'', JStr t), (''entries'', JList es)])"

definition lineage_operation :: "string \<Rightarrow> (json \<Rightarrow> (tenant_table, s2_error, int \<times> json) proc) option" where
  "lineage_operation path =
     (if path = ''/internal/lineage/list'' then
        Some (tenant_operation limit_field (\<lambda>t n. bnd (repo_list lineage_entry_json t n) (\<lambda>es. ret (entries_answer t es))))
      else if path = ''/internal/lineage/for-record'' then
        Some (tenant_operation (\<lambda>d. bounded_text 1 256 (obj_get d ''target_ref'')) (\<lambda>t r.
          if own_record t r then bnd (lineage_for_target t r) (\<lambda>es. ret (entries_answer t es)) else raise record_not_found))
      else None)"

end
