(* ===== verification/S2_Facts.thy ===== *)
theory S2_Facts
  imports S2_Import
begin

text \<open>
  Shared facts of the tenant-resident services: procedures over a table that read and write the share of one tenant only, their
  composition, and the repositories as instances. The locale states what such a procedure is for any state that is split into
  shares; the table of a service and the store of the import service are its interpretations.
\<close>

section \<open>Procedures of one tenant\<close>

locale tenant_shares =
  fixes part :: "string \<Rightarrow> 's \<Rightarrow> 'p"
begin

definition own :: "string \<Rightarrow> ('s, 'e, 'a) proc \<Rightarrow> bool" where
  "own t m \<longleftrightarrow>
     (\<forall>s u. u \<noteq> t \<longrightarrow> part u (snd (m s)) = part u s)
   \<and> (\<forall>s s'. part t s = part t s' \<longrightarrow> fst (m s) = fst (m s') \<and> part t (snd (m s)) = part t (snd (m s')))"

lemma ownI:
  assumes "\<And>s u. u \<noteq> t \<Longrightarrow> part u (snd (m s)) = part u s"
    and "\<And>s s'. part t s = part t s' \<Longrightarrow> fst (m s) = fst (m s') \<and> part t (snd (m s)) = part t (snd (m s'))"
  shows "own t m"
  using assms unfolding own_def by blast

lemma own_others: "own t m \<Longrightarrow> u \<noteq> t \<Longrightarrow> part u (snd (m s)) = part u s"
  unfolding own_def by blast

lemma own_same:
  "own t m \<Longrightarrow> part t s = part t s' \<Longrightarrow> fst (m s) = fst (m s')"
  "own t m \<Longrightarrow> part t s = part t s' \<Longrightarrow> part t (snd (m s)) = part t (snd (m s'))"
  unfolding own_def by blast+

lemma own_ret: "own t (ret x)" and own_raise: "own t (raise e)" and own_lift: "own t (lift_sum r)"
  by (simp_all add: own_def)

lemma own_bnd:
  assumes "own t m" "\<And>a. own t (f a)"
  shows "own t (bnd m f)"
proof (rule ownI)
  have run: "bnd m f s = (case fst (m s) of Inl e \<Rightarrow> (Inl e, snd (m s)) | Inr a \<Rightarrow> f a (snd (m s)))" for s
    by (simp split: prod.split sum.split)
  show "part u (snd (bnd m f s)) = part u s" if "u \<noteq> t" for s u
  proof (cases "fst (m s)")
    case (Inr a)
    with own_others[OF assms(2) that, of a "snd (m s)"] own_others[OF assms(1) that, of s] show ?thesis by (simp only: run) simp
  qed (use own_others[OF assms(1) that, of s] in \<open>simp only: run, simp\<close>)
  show "fst (bnd m f s) = fst (bnd m f s') \<and> part t (snd (bnd m f s)) = part t (snd (bnd m f s'))" if same: "part t s = part t s'" for s s'
  proof (cases "fst (m s)")
    case (Inl e)
    note eq = own_same[OF assms(1) same]
    have "fst (m s') = Inl e" using Inl eq(1) by simp
    with Inl eq(2) show ?thesis by (simp only: run) simp
  next
    case (Inr a)
    note eq = own_same[OF assms(1) same]
    have "fst (m s') = Inr a" using Inr eq(1) by simp
    with Inr own_same[OF assms(2) eq(2), of a] show ?thesis by (simp only: run) simp
  qed
qed

end

interpretation tables: tenant_shares share .

lemmas table_own = tables.own_ret tables.own_raise tables.own_lift tables.own_bnd

lemma own_list: "tables.own t (repo_list render t n)"
  by (rule tables.ownI) (auto simp: repo_list_def table_list_def share_def)

lemma own_rows: "tables.own t (lineage_for_target t r)"
  by (rule tables.ownI) (auto simp: lineage_for_target_def table_rows_def share_def)

lemma own_read: "tables.own t (repo_read family render t r)"
  by (rule tables.ownI) (auto simp: repo_read_def table_get_def share_def split: option.splits)

lemma own_create: "tables.own t (repo_create render t fs)"
proof (rule tables.ownI)
  show "share u (snd (repo_create render t fs tb)) = share u tb" if "u \<noteq> t" for tb u
    using share_insert(1)[OF that, of fs tb] by (cases "table_insert t fs tb") (simp add: repo_create_def)
  show "fst (repo_create render t fs tb) = fst (repo_create render t fs tb') \<and>
      share t (snd (repo_create render t fs tb)) = share t (snd (repo_create render t fs tb'))" if "share t tb = share t tb'" for tb tb'
    using that share_insert(2)[of t fs tb] share_insert(2)[of t fs tb']
    by (simp add: repo_create_def table_insert_def Let_def share_def)
qed

lemma own_update: "tables.own t (repo_update family render t r fs)"
proof (rule tables.ownI)
  show "share u (snd (repo_update family render t r fs tb)) = share u tb" if "u \<noteq> t" for tb u
    using share_update(1)[OF that, of "the (parse_record_ref t family r)" fs tb]
    by (auto simp: repo_update_def split: prod.splits option.splits)
  show "fst (repo_update family render t r fs tb) = fst (repo_update family render t r fs tb') \<and>
      share t (snd (repo_update family render t r fs tb)) = share t (snd (repo_update family render t r fs tb'))"
    if same: "share t tb = share t tb'" for tb tb'
  proof (cases "parse_record_ref t family r")
    case (Some i)
    have "fst (table_update t i fs tb) = fst (table_update t i fs tb')"
      using same by (auto simp: table_update_def share_def Let_def split: option.split)
    moreover have "share t (snd (table_update t i fs tb)) = share t (snd (table_update t i fs tb'))"
      using same share_update(2)[of t i fs] by (simp add: share_def split: option.split)
    ultimately show ?thesis
      using Some by (cases "table_update t i fs tb"; cases "table_update t i fs tb'") (auto simp: repo_update_def split: option.split)
  qed (use same in \<open>simp add: repo_update_def\<close>)
qed

lemma own_duplicates: "tables.own t (find_duplicates netloc_ok t name url)"
  by (rule tables.ownI) (auto simp: find_duplicates_def table_list_def share_def split: sum.splits)

lemmas repo_own = table_own own_list own_rows own_read own_create own_update own_duplicates

section \<open>Operations\<close>

text \<open>The context a request carries, nothing where it is not valid.\<close>

definition request_context_of :: "json \<Rightarrow> s2_context option" where
  "request_context_of body = (case body of JObj d \<Rightarrow> context_of (obj_get d ''context'') | _ \<Rightarrow> None)"

definition request_tenant :: "json \<Rightarrow> string option" where
  "request_tenant body =
     (case request_context_of body of
        None \<Rightarrow> None
      | Some c \<Rightarrow> (case tenant_of c of Inl _ \<Rightarrow> None | Inr t \<Rightarrow> Some t))"

lemma own_operation:
  assumes "\<And>t q. request_tenant body = Some t \<Longrightarrow> tables.own t (run t q)"
  shows "(\<exists>t. request_tenant body = Some t \<and> tables.own t (tenant_operation parse run body))
    \<or> (\<exists>e. tenant_operation parse run body = raise e)"
proof (cases body)
  case (JObj d)
  show ?thesis
  proof (cases "context_of (obj_get d ''context'')")
    case (Some c)
    with JObj assms show ?thesis
      by (cases "parse d"; cases "tenant_of c") (auto simp: tenant_operation_def request_tenant_def request_context_of_def)
  qed (use JObj in \<open>auto simp: tenant_operation_def\<close>)
qed (auto simp: tenant_operation_def)

text \<open>An operation works on the share of the tenant of its request, or only raises.\<close>

definition bound_to_tenant :: "(json \<Rightarrow> (tenant_table, s2_error, int \<times> json) proc) \<Rightarrow> bool" where
  "bound_to_tenant run \<longleftrightarrow>
     (\<forall>body. (\<exists>t. request_tenant body = Some t \<and> tables.own t (run body)) \<or> (\<exists>e. run body = raise e))"

lemma bound_operation: "(\<And>t q. tables.own t (run t q)) \<Longrightarrow> bound_to_tenant (tenant_operation parse run)"
  using own_operation unfolding bound_to_tenant_def by blast

lemma startups_bound: "startups_operation netloc_ok year path = Some run \<Longrightarrow> bound_to_tenant run"
  by (auto simp: startups_operation_def split: if_splits sum.split prod.split intro!: bound_operation repo_own)

lemma investors_bound: "investors_operation dumps loads show netloc_ok path = Some run \<Longrightarrow> bound_to_tenant run"
  by (auto simp: investors_operation_def Let_def split: if_splits sum.split prod.split intro!: bound_operation repo_own)

lemma deals_bound: "deals_operation path = Some run \<Longrightarrow> bound_to_tenant run"
  by (auto simp: deals_operation_def split: if_splits sum.split prod.split intro!: bound_operation repo_own)

lemma lineage_bound: "lineage_operation path = Some run \<Longrightarrow> bound_to_tenant run"
  by (auto simp: lineage_operation_def split: if_splits intro!: bound_operation repo_own)

section \<open>Imports\<close>

definition import_share :: "string \<Rightarrow> s2_import_store \<Rightarrow> ((string, row_fields) dict \<times> nat) \<times> ((string, row_fields) dict \<times> nat) \<times> (string \<Rightarrow> s2_import_record option)" where
  "import_share t s = (share t (is_startups s), share t (is_lineage s), \<lambda>k. dict_get (is_by_key s) (t, k))"

interpretation import_stores: tenant_shares import_share .

lemma share_write:
  "u \<noteq> t \<Longrightarrow> import_share u (snd (write_import now t key c g s)) = import_share u s"
  "import_share t s = import_share t s' \<Longrightarrow> fst (write_import now t key c g s) = fst (write_import now t key c g s')
    \<and> import_share t (snd (write_import now t key c g s)) = import_share t (snd (write_import now t key c g s'))"
  by (auto simp: write_import_def import_share_def share_def table_insert_def Let_def bucket_def counter_def fun_eq_iff)

lemma own_import:
  assumes "tenant_of c = Inr t"
  shows "import_stores.own t (import_startup digest now directory c r)"
proof (rule import_stores.ownI)
  let ?k = "s2_operation_key digest t r"
  have run: "import_startup digest now directory c r s =
      (case dict_get (is_by_key s) (t, ?k) of
         Some rec \<Rightarrow> (Inr (rec, True), s)
       | None \<Rightarrow> (case directory r of None \<Rightarrow> (Inl record_not_found, s)
           | Some g \<Rightarrow> (Inr (fst (write_import now t ?k c g s), False), snd (write_import now t ?k c g s))))" for s
    using assms by (simp add: import_startup_def find_existing_def Let_def split: prod.split option.split)
  show "import_share u (snd (import_startup digest now directory c r s)) = import_share u s" if "u \<noteq> t" for s u
    using share_write(1)[OF that] by (simp add: run split: option.split)
  show "fst (import_startup digest now directory c r s) = fst (import_startup digest now directory c r s') \<and>
      import_share t (snd (import_startup digest now directory c r s)) = import_share t (snd (import_startup digest now directory c r s'))"
    if same: "import_share t s = import_share t s'" for s s'
  proof -
    have "dict_get (is_by_key s) (t, ?k) = dict_get (is_by_key s') (t, ?k)" using same by (simp add: import_share_def fun_eq_iff)
    with same share_write(2)[OF same] show ?thesis by (simp add: run split: option.split)
  qed
qed

end
