(* ===== verification/S2_Authn.thy ===== *)
theory S2_Authn
  imports S2_Types
begin

text \<open>
  The Authentication service (\<open>services/authentication/verifier.py\<close>, \<open>service.py\<close>, \<open>models.py\<close>, \<open>main.py\<close>): three verifiers, the
  claims of a verified token, the comparison with the observed carrier and the HTTP surface. The JWT library is an argument:
  what it reads of a token without verification, and the claims of a token it accepts for an anchor.
\<close>

section \<open>Verified identities\<close>

datatype carrier_check = ABSENT | MATCHED | MISMATCH | CONTROL_ANOMALY

fun carrier_check_value :: "carrier_check \<Rightarrow> string" where
  "carrier_check_value ABSENT = ''absent''"
| "carrier_check_value MATCHED = ''matched''"
| "carrier_check_value MISMATCH = ''mismatch''"
| "carrier_check_value CONTROL_ANOMALY = ''control_anomaly''"

record verified_identity =
  vi_principal_ref :: string
  vi_role :: platform_role
  vi_active_tenant_ref :: "string option"

definition check_carrier :: "verified_identity \<Rightarrow> string option \<Rightarrow> carrier_check" where
  "check_carrier i carrier =
     (if blank carrier then ABSENT
      else case vi_active_tenant_ref i of
          None \<Rightarrow> CONTROL_ANOMALY
        | Some t \<Rightarrow> if carrier = Some t then MATCHED else MISMATCH)"

definition identity_from_claims :: "(string \<times> json) list \<Rightarrow> verified_identity option" where
  "identity_from_claims d =
     (case (obj_get d ''sub'', obj_get d ''role'') of
        (JStr p, JStr r) \<Rightarrow>
          if p = [] then None
          else (case platform_role_of r of
              None \<Rightarrow> None
            | Some role \<Rightarrow>
                (case obj_get d ''active_tenant'' of
                   JNull \<Rightarrow> Some \<lparr>vi_principal_ref = p, vi_role = role, vi_active_tenant_ref = None\<rparr>
                 | JStr t \<Rightarrow> if t = [] then None else Some \<lparr>vi_principal_ref = p, vi_role = role, vi_active_tenant_ref = Some t\<rparr>
                 | _ \<Rightarrow> None))
      | _ \<Rightarrow> None)"

section \<open>Verifiers\<close>

record trust_anchor =
  ta_issuer :: string
  ta_audience :: string
  ta_algorithms :: "string list"
  ta_public_key_pem :: string

definition ASYMMETRIC_ALGORITHMS :: "string list" where
  "ASYMMETRIC_ALGORITHMS = [''RS256'', ''RS384'', ''RS512'', ''ES256'', ''ES384'', ''ES512'']"

record jwt_library =
  jwt_unverified :: "string \<Rightarrow> (string \<times> json) list option"
  jwt_decode :: "string \<Rightarrow> trust_anchor \<Rightarrow> (string \<times> json) list option"
  jwt_str :: "json \<Rightarrow> string"

datatype token_verifier =
    JwtTokenVerifier "(string, trust_anchor) dict"
  | StaticTokenVerifier "(string, verified_identity) dict"
  | DenyAllVerifier

text \<open>\<open>str(claims.get("iss", ""))\<close>.\<close>

definition unverified_issuer :: "jwt_library \<Rightarrow> (string \<times> json) list \<Rightarrow> string" where
  "unverified_issuer J d = (case dict_get d ''iss'' of None \<Rightarrow> [] | Some (JStr s) \<Rightarrow> s | Some v \<Rightarrow> jwt_str J v)"

text \<open>Nothing is the one \<open>InvalidCredential\<close>.\<close>

definition verify_credential :: "jwt_library \<Rightarrow> token_verifier \<Rightarrow> string \<Rightarrow> verified_identity option" where
  "verify_credential J v credential =
     (case v of
        DenyAllVerifier \<Rightarrow> None
      | StaticTokenVerifier principals \<Rightarrow> dict_get principals credential
      | JwtTokenVerifier anchors \<Rightarrow>
          (case jwt_unverified J credential of
             None \<Rightarrow> None
           | Some d \<Rightarrow>
               (case dict_get anchors (unverified_issuer J d) of
                  None \<Rightarrow> None
                | Some anchor \<Rightarrow>
                    (case jwt_decode J credential anchor of None \<Rightarrow> None | Some claims \<Rightarrow> identity_from_claims claims))))"

section \<open>Configuration\<close>

definition static_principal :: "json \<Rightarrow> verified_identity option" where
  "static_principal v =
     (case v of
        JObj d \<Rightarrow>
          (case (obj_get d ''role'', str_or_null (obj_get d ''active_tenant''), obj_get d ''principal_ref'') of
             (JStr r, Some t, JStr p) \<Rightarrow>
               (case platform_role_of r of
                  Some role \<Rightarrow> if p = [] then None else Some \<lparr>vi_principal_ref = p, vi_role = role, vi_active_tenant_ref = t\<rparr>
                | None \<Rightarrow> None)
           | _ \<Rightarrow> None)
      | _ \<Rightarrow> None)"

fun all_entries :: "(json \<Rightarrow> 'a option) \<Rightarrow> (string \<times> json) list \<Rightarrow> (string, 'a) dict option" where
  "all_entries f [] = Some []"
| "all_entries f ((k, v) # rest) =
     (case (f v, all_entries f rest) of (Some a, Some d) \<Rightarrow> Some ((k, a) # d) | _ \<Rightarrow> None)"

definition static_principals_of :: "(string \<Rightarrow> json option) \<Rightarrow> string \<Rightarrow> string + token_verifier" where
  "static_principals_of loads raw =
     (case loads raw of
        Some (JObj d) \<Rightarrow> (case all_entries static_principal d of Some ps \<Rightarrow> Inr (StaticTokenVerifier ps) | None \<Rightarrow> Inl ''ValueError'')
      | _ \<Rightarrow> Inl ''ValueError'')"

definition string_list_of :: "json \<Rightarrow> string list option" where
  "string_list_of v =
     (case v of
        JList xs \<Rightarrow>
          if list_all (\<lambda>x. case x of JStr _ \<Rightarrow> True | _ \<Rightarrow> False) xs
          then Some (map (\<lambda>x. case x of JStr s \<Rightarrow> s | _ \<Rightarrow> []) xs) else None
      | _ \<Rightarrow> None)"

definition issuer_anchor :: "string \<Rightarrow> json \<Rightarrow> trust_anchor option" where
  "issuer_anchor issuer v =
     (case v of
        JObj d \<Rightarrow>
          (case (obj_get d ''audience'', string_list_of (obj_get d ''algorithms''), obj_get d ''public_key_pem'') of
             (JStr a, Some algs, JStr k) \<Rightarrow>
               if a = [] \<or> algs = [] \<or> k = [] then None
               else Some \<lparr>ta_issuer = issuer, ta_audience = a, ta_algorithms = algs, ta_public_key_pem = k\<rparr>
           | _ \<Rightarrow> None)
      | _ \<Rightarrow> None)"

fun parse_issuers :: "(string \<times> json) list \<Rightarrow> (string, trust_anchor) dict option" where
  "parse_issuers [] = Some []"
| "parse_issuers ((i, v) # rest) =
     (case (issuer_anchor i v, parse_issuers rest) of (Some a, Some d) \<Rightarrow> Some ((i, a) # d) | _ \<Rightarrow> None)"

definition jwt_verifier :: "(string, trust_anchor) dict \<Rightarrow> string + token_verifier" where
  "jwt_verifier anchors =
     (if anchors = [] \<or> \<not> list_all (\<lambda>(i, a). set (ta_algorithms a) \<subseteq> set ASYMMETRIC_ALGORITHMS) anchors then Inl ''ValueError''
      else Inr (JwtTokenVerifier anchors))"

definition issuer_anchors_of :: "(string \<Rightarrow> json option) \<Rightarrow> string \<Rightarrow> string + token_verifier" where
  "issuer_anchors_of loads raw =
     (case loads raw of
        Some (JObj d) \<Rightarrow>
          if d = [] then Inl ''ValueError''
          else (case parse_issuers d of Some anchors \<Rightarrow> jwt_verifier anchors | None \<Rightarrow> Inl ''ValueError'')
      | _ \<Rightarrow> Inl ''ValueError'')"

definition build_verifier :: "(string \<Rightarrow> json option) \<Rightarrow> env \<Rightarrow> string + token_verifier" where
  "build_verifier loads env =
     (let issuers = env_value env ''SP2_AUTHENTICATION_ISSUERS'';
          static = env_value env ''SP2_AUTHENTICATION_STATIC_PRINCIPALS'' in
      if issuers \<noteq> [] then issuer_anchors_of loads issuers
      else if static \<noteq> [] then static_principals_of loads static
      else Inr DenyAllVerifier)"

section \<open>The surface\<close>

definition authentication_request_of :: "json \<Rightarrow> (string \<times> string option) option" where
  "authentication_request_of v =
     (case v of
        JObj d \<Rightarrow>
          (case (obj_get d ''credential'', bounded 128 (obj_get d ''tenant_carrier'')) of
             (JStr c, Some t) \<Rightarrow> if c = [] then None else Some (c, t)
           | _ \<Rightarrow> None)
      | _ \<Rightarrow> None)"

definition authentication_json :: "verified_identity \<Rightarrow> carrier_check \<Rightarrow> json" where
  "authentication_json i check =
     JObj [(''principal_ref'', JStr (vi_principal_ref i)), (''role'', JStr (platform_role_value (vi_role i))),
       (''active_tenant_ref'', json_opt (vi_active_tenant_ref i)), (''carrier_check'', JStr (carrier_check_value check))]"

definition authenticate_surface :: "jwt_library \<Rightarrow> token_verifier \<Rightarrow> string option \<Rightarrow> json \<Rightarrow> int \<times> json" where
  "authenticate_surface J v service body =
     answered
       (sbind (require_bearer service) (\<lambda>_.
        sbind (validated (authentication_request_of body)) (\<lambda>(credential, carrier).
          case verify_credential J v credential of
            None \<Rightarrow> Inl s2_unauthenticated
          | Some i \<Rightarrow> Inr (200, authentication_json i (check_carrier i carrier)))))"

end
