(* ===== verification/S2_Pipeline.thy ===== *)
theory S2_Pipeline
  imports S2_Authn
begin

text \<open>
  The ingress of the BFF (\<open>services/bff/carrier.py\<close>, \<open>ports.py\<close>, \<open>pipeline.py\<close>): the two recognized carriers of a tenant, the ports
  the pipeline depends on, and its stages, from the credential to the one database domain a request may reach.
\<close>

section \<open>Carriers\<close>

definition carrier_first :: "char \<Rightarrow> bool" where
  "carrier_first c \<longleftrightarrow> is_alpha c \<or> is_digit c"

definition carrier_value :: "string \<Rightarrow> bool" where
  "carrier_value s \<longleftrightarrow>
     (case s of [] \<Rightarrow> False
      | c # cs \<Rightarrow> carrier_first c \<and> list_all (\<lambda>x. carrier_first x \<or> x \<in> set ''._-'') cs \<and> length cs \<le> 127)"

definition RESERVED_SUBDOMAINS :: "string list" where
  "RESERVED_SUBDOMAINS = [''www'', ''api'', ''app'', ''localhost'', ''control'']"

definition carrier_from_header :: "(string \<times> string) list \<Rightarrow> string option" where
  "carrier_from_header headers =
     (case find (\<lambda>(n, v). casefold n = ''x-tenant-id'') headers of
        None \<Rightarrow> None
      | Some (n, v) \<Rightarrow> if carrier_value (strip v) then Some (strip v) else None)"

definition drop_dots :: "string \<Rightarrow> string" where
  "drop_dots s = dropWhile (\<lambda>c. c = CHR ''.'') s"

definition carrier_from_host :: "string \<Rightarrow> string \<Rightarrow> string option" where
  "carrier_from_host host base_domain =
     (if base_domain = [] then None
      else
        let hostname = casefold (strip (takeWhile (\<lambda>c. c \<noteq> CHR '':'') host));
            suffix = ''.'' @ drop_dots (casefold (strip base_domain)) in
        if \<not> ends_with suffix hostname then None
        else
          let label = take (length hostname - length suffix) hostname in
          if label = [] \<or> CHR ''.'' \<in> set label \<or> label \<in> set RESERVED_SUBDOMAINS then None
          else if carrier_value label then Some label else None)"

record carrier_observation =
  co_value :: "string option"
  co_conflict :: bool

definition recognized_carrier :: "(string \<times> string) list \<Rightarrow> string \<Rightarrow> string \<Rightarrow> carrier_observation" where
  "recognized_carrier headers host base_domain =
     (let h = carrier_from_header headers; s = carrier_from_host host base_domain in
      if h \<noteq> None \<and> s \<noteq> None \<and> h \<noteq> s then \<lparr>co_value = None, co_conflict = True\<rparr>
      else \<lparr>co_value = (if h \<noteq> None then h else s), co_conflict = False\<rparr>)"

section \<open>Ports\<close>

record authentication_result =
  ar_auth_context :: s2_auth
  ar_carrier_verdict :: carrier_check

record authorization_result =
  az_allowed :: bool
  az_denial_code :: json
  az_resolved_domain :: "s2_domain option"

record ingress_event =
  ie_action :: string
  ie_outcome :: string
  ie_correlation_id :: string
  ie_actor_ref :: string
  ie_subject_ref :: "string option"
  ie_tenant_ref :: "string option"
  ie_record_ref :: "string option"
  ie_carrier_ref :: "string option"

text \<open>The ports of the BFF; \<open>bp_call\<close> invokes an operation of the domain service of a name, \<open>bp_str\<close> is \<open>str()\<close> of a decoded value
that is no string. Every port may raise.\<close>

record 'w bff_ports =
  bp_authenticate :: "string \<Rightarrow> string option \<Rightarrow> string \<Rightarrow> ('w, s2_error, authentication_result option) proc"
  bp_decide :: "s2_context \<Rightarrow> bff_operation \<Rightarrow> string option \<Rightarrow> ('w, s2_error, authorization_result) proc"
  bp_resolve :: "s2_context \<Rightarrow> ('w, s2_error, string \<times> string) proc"
  bp_emit :: "ingress_event \<Rightarrow> ('w, s2_error, unit) proc"
  bp_memberships :: "string \<Rightarrow> ('w, s2_error, json list) proc"
  bp_directory :: "string \<Rightarrow> ('w, s2_error, json list) proc"
  bp_call :: "string \<Rightarrow> string \<Rightarrow> json \<Rightarrow> ('w, s2_error, json) proc"
  bp_str :: "json \<Rightarrow> string"
  bp_base_domain :: string

definition ingress_event_of :: "string \<Rightarrow> string \<Rightarrow> string \<Rightarrow> string \<Rightarrow> ingress_event" where
  "ingress_event_of action result cid actor =
     \<lparr>ie_action = action, ie_outcome = result, ie_correlation_id = cid, ie_actor_ref = actor, ie_subject_ref = None,
      ie_tenant_ref = None, ie_record_ref = None, ie_carrier_ref = None\<rparr>"

section \<open>Stages 1 to 3\<close>

definition establish ::
    "'w bff_ports \<Rightarrow> string option \<Rightarrow> (string \<times> string) list \<Rightarrow> string \<Rightarrow> string \<Rightarrow> ('w, s2_error, s2_context) proc" where
  "establish P credential headers host cid =
     (if blank credential then raise s2_unauthenticated
      else
        let seen = recognized_carrier headers host (bp_base_domain P) in
        bnd (bp_authenticate P (the credential) (co_value seen) cid) (\<lambda>result.
          case result of
            None \<Rightarrow> raise s2_unauthenticated
          | Some a \<Rightarrow>
              let who = ar_auth_context a;
                  mismatch = (ingress_event_of ''CarrierMismatch'' ''denied'' cid (sa_principal_ref who))
                    \<lparr>ie_tenant_ref := sa_active_tenant_ref who\<rparr> in
              if co_conflict seen then andthen (bp_emit P mismatch) (raise s2_carrier_mismatch)
              else if ar_carrier_verdict a = MISMATCH then
                andthen (bp_emit P (mismatch\<lparr>ie_carrier_ref := co_value seen\<rparr>)) (raise s2_carrier_mismatch)
              else
                andthen
                  (if ar_carrier_verdict a = CONTROL_ANOMALY then
                     bp_emit P ((ingress_event_of ''CarrierOnControlAnomaly'' ''anomaly'' cid (sa_principal_ref who))\<lparr>ie_carrier_ref := co_value seen\<rparr>)
                   else ret ())
                  (ret (from_auth_context who))))"

section \<open>Stage 4 and the enforcement of one domain\<close>

definition context_event :: "s2_context \<Rightarrow> string \<Rightarrow> string \<Rightarrow> ingress_event" where
  "context_event c action result = ingress_event_of action result (sc_correlation_id c) (sc_principal_ref c)"

definition authorize :: "'w bff_ports \<Rightarrow> s2_context \<Rightarrow> bff_operation \<Rightarrow> string option \<Rightarrow> ('w, s2_error, s2_domain) proc" where
  "authorize P c op record_ref =
     bnd (bp_decide P c op record_ref) (\<lambda>d.
       let anomaly = (context_event c ''IsolationAnomaly'' ''anomaly'')\<lparr>ie_tenant_ref := sc_tenant_context c\<rparr> in
       if \<not> az_allowed d then
         andthen (bp_emit P ((context_event c ''RouteDenied'' ''denied'')\<lparr>ie_tenant_ref := sc_tenant_context c, ie_record_ref := record_ref\<rparr>))
           (raise s2_access_denied)
       else if az_resolved_domain d = None then andthen (bp_emit P anomaly) (raise isolation_violation)
       else if az_resolved_domain d \<noteq> domain_of op then andthen (bp_emit P anomaly) (raise isolation_violation)
       else if domain_of op = Some TENANT \<and> blank (sc_tenant_context c) then
         andthen (bp_emit P (context_event c ''IsolationAnomaly'' ''anomaly'')) (raise isolation_violation)
       else ret (the (domain_of op)))"

end
