(* ===== verification/S2_Routes.thy ===== *)
theory S2_Routes
  imports S2_Pipeline
begin

text \<open>
  The operations of the BFF (\<open>services/bff/operations.py\<close>, \<open>dtos.py\<close>): the approved documents, the request bodies, the composition
  of a document from what a service answered, and one route per named use case, each of which authenticates, authorizes, resolves
  one database where the operation is tenant-resident, calls one service, emits its success event if it has one and composes.
\<close>

section \<open>Documents\<close>

record directory_entry_dto =
  de_record_ref :: string
  de_display_name :: string

record membership_entry_dto =
  me_tenant_id :: string
  me_role :: platform_role
  me_display_ref :: string

record tenant_startup_dto =
  sd_record_ref :: string
  sd_display_name :: string
  sd_short_description :: "string option"
  sd_investment_stage :: "string option"
  sd_lineage_reference :: "string option"

record tenant_investor_dto =
  vd_record_ref :: string
  vd_display_name :: string
  vd_short_description :: "string option"
  vd_investor_type :: "string option"
  vd_lineage_reference :: "string option"

record tenant_deal_dto =
  dd_record_ref :: string
  dd_deal_name :: string
  dd_startup_ref :: string
  dd_investor_ref :: "string option"
  dd_stage :: "string option"
  dd_status :: "string option"

datatype import_outcome_dto = CREATED | REPLAYED

record import_completion_dto =
  ir_source_ref :: string
  ir_target_tenant_ref :: string
  ir_tenant_record_ref :: string
  ir_lineage_ref :: string
  ir_import_id :: string
  ir_outcome :: import_outcome_dto

datatype bff_dto =
    WorkspaceMembershipDTO "membership_entry_dto list"
  | GlobalStartupSummaryDTO "directory_entry_dto list"
  | GlobalInvestorSummaryDTO "directory_entry_dto list"
  | TenantStartupDetailDTO tenant_startup_dto
  | TenantStartupListDTO "tenant_startup_dto list"
  | TenantInvestorDetailDTO tenant_investor_dto
  | TenantInvestorListDTO "tenant_investor_dto list"
  | TenantDealDetailDTO tenant_deal_dto
  | TenantDealListDTO "tenant_deal_dto list"
  | ImportResultDTO import_completion_dto
  | LineageSummaryDTO string "string list" "string list"

definition s2_display_ref :: "string \<Rightarrow> string" where
  "s2_display_ref t = ''ref:tenant/'' @ t @ ''/display''"

section \<open>Reading what a service answered\<close>

text \<open>\<open>v[k]\<close>, \<open>v.get(k)\<close>, iteration, and an optional string field of a document.\<close>

definition item :: "json \<Rightarrow> string \<Rightarrow> s2_error + json" where
  "item v k =
     (case v of
        JObj d \<Rightarrow> (case dict_get d k of Some x \<Rightarrow> Inr x | None \<Rightarrow> Inl (Crash ''KeyError''))
      | _ \<Rightarrow> Inl (Crash ''TypeError''))"

definition got :: "json \<Rightarrow> string \<Rightarrow> s2_error + json" where
  "got v k = (case v of JObj d \<Rightarrow> Inr (obj_get d k) | _ \<Rightarrow> Inl (Crash ''AttributeError''))"

definition iterated :: "json \<Rightarrow> s2_error + json list" where
  "iterated v =
     (case v of
        JList xs \<Rightarrow> Inr xs
      | JObj d \<Rightarrow> Inr (map (\<lambda>p. JStr (fst p)) d)
      | JStr s \<Rightarrow> Inr (map (\<lambda>c. JStr [c]) s)
      | _ \<Rightarrow> Inl (Crash ''TypeError''))"

definition opt_string :: "json \<Rightarrow> s2_error + string option" where
  "opt_string v = (case v of JNull \<Rightarrow> Inr None | JStr s \<Rightarrow> Inr (Some s) | _ \<Rightarrow> Inl (Crash ''ValidationError''))"

definition text_of :: "(json \<Rightarrow> string) \<Rightarrow> json \<Rightarrow> string" where
  "text_of show v = (case v of JStr s \<Rightarrow> s | _ \<Rightarrow> show v)"

text \<open>\<open>str(v[k])\<close> and \<open>str(v.get(k) or "")\<close>.\<close>

definition item_text :: "(json \<Rightarrow> string) \<Rightarrow> json \<Rightarrow> string \<Rightarrow> s2_error + string" where
  "item_text show v k = sbind (item v k) (\<lambda>x. Inr (text_of show x))"

definition got_text :: "(json \<Rightarrow> string) \<Rightarrow> json \<Rightarrow> string \<Rightarrow> s2_error + string" where
  "got_text show v k = sbind (got v k) (\<lambda>x. Inr (if truthy x then text_of show x else []))"

definition got_opt :: "json \<Rightarrow> string \<Rightarrow> s2_error + string option" where
  "got_opt v k = sbind (got v k) opt_string"

section \<open>Composition\<close>

definition compose_startup :: "(json \<Rightarrow> string) \<Rightarrow> json \<Rightarrow> s2_error + tenant_startup_dto" where
  "compose_startup show v =
     sbind (item_text show v ''record_ref'') (\<lambda>r.
     sbind (got_text show v ''company_name'') (\<lambda>n.
     sbind (got_opt v ''short_description'') (\<lambda>d.
     sbind (got_opt v ''investment_stage'') (\<lambda>g.
     sbind (got_opt v ''lineage_reference'') (\<lambda>l.
       Inr \<lparr>sd_record_ref = r, sd_display_name = n, sd_short_description = d, sd_investment_stage = g, sd_lineage_reference = l\<rparr>)))))"

definition compose_investor :: "(json \<Rightarrow> string) \<Rightarrow> json \<Rightarrow> s2_error + tenant_investor_dto" where
  "compose_investor show v =
     sbind (item_text show v ''record_ref'') (\<lambda>r.
     sbind (got_text show v ''investor_name'') (\<lambda>n.
     sbind (got_opt v ''short_description'') (\<lambda>d.
     sbind (got_opt v ''investor_type'') (\<lambda>t.
     sbind (got_opt v ''lineage_reference'') (\<lambda>l.
       Inr \<lparr>vd_record_ref = r, vd_display_name = n, vd_short_description = d, vd_investor_type = t, vd_lineage_reference = l\<rparr>)))))"

definition compose_deal :: "(json \<Rightarrow> string) \<Rightarrow> json \<Rightarrow> s2_error + tenant_deal_dto" where
  "compose_deal show v =
     sbind (item_text show v ''record_ref'') (\<lambda>r.
     sbind (got_text show v ''deal_name'') (\<lambda>n.
     sbind (got_text show v ''startup_ref'') (\<lambda>u.
     sbind (got_opt v ''investor_ref'') (\<lambda>i.
     sbind (got_opt v ''stage'') (\<lambda>g.
     sbind (got_opt v ''status'') (\<lambda>st.
       Inr \<lparr>dd_record_ref = r, dd_deal_name = n, dd_startup_ref = u, dd_investor_ref = i, dd_stage = g, dd_status = st\<rparr>))))))"

definition listed :: "(json \<Rightarrow> s2_error + 'a) \<Rightarrow> json \<Rightarrow> s2_error + 'a list" where
  "listed f body = sbind (item body ''records'') (\<lambda>rs. sbind (iterated rs) (each f))"

definition membership_entry_of :: "(json \<Rightarrow> string) \<Rightarrow> json \<Rightarrow> s2_error + membership_entry_dto" where
  "membership_entry_of show v =
     sbind (item_text show v ''tenant_ref'') (\<lambda>t.
     sbind (item v ''role'') (\<lambda>r.
       case (case r of JStr s \<Rightarrow> platform_role_of s | _ \<Rightarrow> None) of
         None \<Rightarrow> Inl (Crash ''ValueError'')
       | Some role \<Rightarrow> Inr \<lparr>me_tenant_id = t, me_role = role, me_display_ref = s2_display_ref t\<rparr>))"

definition directory_entry_of :: "(json \<Rightarrow> string) \<Rightarrow> json \<Rightarrow> s2_error + directory_entry_dto" where
  "directory_entry_of show v =
     sbind (item_text show v ''record_ref'') (\<lambda>r.
     sbind (item_text show v ''display_name'') (\<lambda>n. Inr \<lparr>de_record_ref = r, de_display_name = n\<rparr>))"

definition import_result_of :: "(json \<Rightarrow> string) \<Rightarrow> json \<Rightarrow> s2_error + import_completion_dto" where
  "import_result_of show v =
     sbind (item_text show v ''source_ref'') (\<lambda>s.
     sbind (item_text show v ''target_tenant_ref'') (\<lambda>t.
     sbind (item_text show v ''tenant_record_ref'') (\<lambda>r.
     sbind (item_text show v ''lineage_ref'') (\<lambda>l.
     sbind (item_text show v ''import_id'') (\<lambda>i.
     sbind (item v ''outcome'') (\<lambda>x.
       case x of
         JStr n \<Rightarrow>
           if n = ''created'' then Inr \<lparr>ir_source_ref = s, ir_target_tenant_ref = t, ir_tenant_record_ref = r, ir_lineage_ref = l, ir_import_id = i, ir_outcome = CREATED\<rparr>
           else if n = ''replayed'' then Inr \<lparr>ir_source_ref = s, ir_target_tenant_ref = t, ir_tenant_record_ref = r, ir_lineage_ref = l, ir_import_id = i, ir_outcome = REPLAYED\<rparr>
           else Inl (Crash ''ValueError'')
       | _ \<Rightarrow> Inl (Crash ''ValueError'')))))))"

definition lineage_summary_of :: "(json \<Rightarrow> string) \<Rightarrow> string \<Rightarrow> json \<Rightarrow> s2_error + bff_dto" where
  "lineage_summary_of show target body =
     sbind (item body ''entries'') (\<lambda>es.
     sbind (iterated es) (\<lambda>entries.
     sbind (each (\<lambda>e. item_text show e ''lineage_ref'') entries) (\<lambda>ls.
     sbind (each (\<lambda>e. item_text show e ''source_ref'') entries) (\<lambda>ss. Inr (LineageSummaryDTO target ls ss)))))"

section \<open>Requests\<close>

datatype bff_call =
    ListMemberships | ReadStartupDirectory | ReadInvestorDirectory
  | ImportStartup string
  | ListStartups int | ReadStartup string | CreateStartup json | UpdateStartup string json
  | ListInvestors int | ReadInvestor string | CreateInvestor json | UpdateInvestor string json
  | ListDeals int | ReadDeal string | CreateDeal json | UpdateDeal string json
  | ReadLineage string

fun operation_called :: "bff_call \<Rightarrow> bff_operation" where
  "operation_called ListMemberships = LIST_MEMBERSHIPS"
| "operation_called ReadStartupDirectory = READ_GLOBAL_STARTUP_DIRECTORY"
| "operation_called ReadInvestorDirectory = READ_GLOBAL_INVESTOR_DIRECTORY"
| "operation_called (ImportStartup s) = INITIATE_STARTUP_IMPORT"
| "operation_called (ListStartups n) = LIST_TENANT_STARTUPS"
| "operation_called (ReadStartup r) = READ_TENANT_STARTUP"
| "operation_called (CreateStartup b) = CREATE_TENANT_STARTUP"
| "operation_called (UpdateStartup r b) = UPDATE_TENANT_STARTUP"
| "operation_called (ListInvestors n) = LIST_TENANT_INVESTORS"
| "operation_called (ReadInvestor r) = READ_TENANT_INVESTOR"
| "operation_called (CreateInvestor b) = CREATE_TENANT_INVESTOR"
| "operation_called (UpdateInvestor r b) = UPDATE_TENANT_INVESTOR"
| "operation_called (ListDeals n) = LIST_TENANT_DEALS"
| "operation_called (ReadDeal r) = READ_TENANT_DEAL"
| "operation_called (CreateDeal b) = CREATE_TENANT_DEAL"
| "operation_called (UpdateDeal r b) = UPDATE_TENANT_DEAL"
| "operation_called (ReadLineage r) = READ_TENANT_LINEAGE"

text \<open>The record a call names to Access Control.\<close>

fun record_named :: "bff_call \<Rightarrow> string option" where
  "record_named (ReadStartup r) = Some r"
| "record_named (UpdateStartup r b) = Some r"
| "record_named (ReadInvestor r) = Some r"
| "record_named (UpdateInvestor r b) = Some r"
| "record_named (ReadDeal r) = Some r"
| "record_named (UpdateDeal r b) = Some r"
| "record_named (ReadLineage r) = Some r"
| "record_named _ = None"

definition record_ref_ok :: "string \<Rightarrow> bool" where
  "record_ref_ok r \<longleftrightarrow> r \<noteq> [] \<and> length r \<le> 256"

definition limit_ok :: "int \<Rightarrow> bool" where
  "limit_ok n \<longleftrightarrow> 1 \<le> n \<and> n \<le> 500"

definition focus_items :: "json \<Rightarrow> json option" where
  "focus_items v =
     (case v of
        JList xs \<Rightarrow> if length xs \<le> 32 \<and> list_all (\<lambda>x. case x of JStr _ \<Rightarrow> True | _ \<Rightarrow> False) xs then Some v else None
      | _ \<Rightarrow> None)"

text \<open>The fields a body hands on, under the names of the service, or nothing where its validation fails. A field that is not
null has the given bound; a missing list is empty.\<close>

definition text_field :: "nat \<Rightarrow> (string \<times> json) list \<Rightarrow> string \<Rightarrow> json option" where
  "text_field n d k = map_option json_opt (bounded n (obj_get d k))"

definition list_field :: "(string \<times> json) list \<Rightarrow> string \<Rightarrow> json option" where
  "list_field d k = (case dict_get d k of None \<Rightarrow> Some (JList []) | Some v \<Rightarrow> focus_items v)"

definition required_field :: "nat \<Rightarrow> (string \<times> json) list \<Rightarrow> string \<Rightarrow> json option" where
  "required_field n d k = map_option JStr (bounded_text 1 n (obj_get d k))"

fun fields_of :: "(string \<times> json option) list \<Rightarrow> (string \<times> json) list option" where
  "fields_of [] = Some []"
| "fields_of ((k, v) # rest) = (case (v, fields_of rest) of (Some x, Some fs) \<Rightarrow> Some ((k, x) # fs) | _ \<Rightarrow> None)"

definition create_startup_fields :: "json \<Rightarrow> (string \<times> json) list option" where
  "create_startup_fields v =
     (case v of
        JObj d \<Rightarrow> fields_of
          [(''company_name'', required_field 256 d ''display_name''), (''short_description'', text_field 500 d ''short_description''),
           (''investment_stage'', text_field 128 d ''investment_stage''), (''company_url'', text_field 512 d ''company_url''),
           (''industry'', text_field 128 d ''industry''), (''headquarters_country'', text_field 128 d ''headquarters_country''),
           (''headquarters_city'', text_field 128 d ''headquarters_city'')]
      | _ \<Rightarrow> None)"

definition create_investor_fields :: "json \<Rightarrow> (string \<times> json) list option" where
  "create_investor_fields v =
     (case v of
        JObj d \<Rightarrow> fields_of
          [(''investor_name'', required_field 256 d ''display_name''), (''investor_type'', text_field 128 d ''investor_type''),
           (''website_url'', text_field 512 d ''website_url''), (''short_description'', text_field 500 d ''short_description''),
           (''investment_stage_focus'', list_field d ''investment_stage_focus''), (''industry_focus'', list_field d ''industry_focus''),
           (''headquarters_country'', text_field 128 d ''headquarters_country''), (''headquarters_city'', text_field 128 d ''headquarters_city'')]
      | _ \<Rightarrow> None)"

definition create_deal_fields :: "json \<Rightarrow> (string \<times> json) list option" where
  "create_deal_fields v =
     (case v of
        JObj d \<Rightarrow> fields_of
          [(''deal_name'', required_field 256 d ''deal_name''), (''startup_ref'', required_field 256 d ''startup_ref''),
           (''investor_ref'', text_field 256 d ''investor_ref''), (''stage'', text_field 128 d ''stage''),
           (''amount'', text_field 64 d ''amount''), (''currency'', text_field 8 d ''currency'')]
      | _ \<Rightarrow> None)"

definition description_fields :: "json \<Rightarrow> (string \<times> json) list option" where
  "description_fields v =
     (case v of JObj d \<Rightarrow> fields_of [(''short_description'', text_field 500 d ''short_description'')] | _ \<Rightarrow> None)"

definition update_deal_fields :: "json \<Rightarrow> (string \<times> json) list option" where
  "update_deal_fields v =
     (case v of JObj d \<Rightarrow> fields_of [(''stage'', text_field 128 d ''stage''), (''status'', text_field 64 d ''status'')] | _ \<Rightarrow> None)"

text \<open>Where a validated call goes: the service, the path and the payload beside the context, or a Control-resident read.\<close>

datatype destination = MembershipRead | DirectoryRead string | ServiceCall string string "(string \<times> json) list"

fun destination_of :: "bff_call \<Rightarrow> destination option" where
  "destination_of ListMemberships = Some MembershipRead"
| "destination_of ReadStartupDirectory = Some (DirectoryRead ''GlobalStartupDirectory'')"
| "destination_of ReadInvestorDirectory = Some (DirectoryRead ''GlobalInvestorDirectory'')"
| "destination_of (ImportStartup s) =
     (if record_ref_ok s then Some (ServiceCall ''import_service'' ''/internal/import/startup'' [(''source_ref'', JStr s)]) else None)"
| "destination_of (ListStartups n) =
     (if limit_ok n then Some (ServiceCall ''startups'' ''/internal/startups/list'' [(''limit'', JInt n)]) else None)"
| "destination_of (ReadStartup r) =
     (if record_ref_ok r then Some (ServiceCall ''startups'' ''/internal/startups/read'' [(''record_ref'', JStr r)]) else None)"
| "destination_of (CreateStartup b) = map_option (ServiceCall ''startups'' ''/internal/startups/create'') (create_startup_fields b)"
| "destination_of (UpdateStartup r b) =
     (if record_ref_ok r then map_option (\<lambda>fs. ServiceCall ''startups'' ''/internal/startups/update'' ((''record_ref'', JStr r) # fs)) (description_fields b) else None)"
| "destination_of (ListInvestors n) =
     (if limit_ok n then Some (ServiceCall ''investors'' ''/internal/investors/list'' [(''limit'', JInt n)]) else None)"
| "destination_of (ReadInvestor r) =
     (if record_ref_ok r then Some (ServiceCall ''investors'' ''/internal/investors/read'' [(''record_ref'', JStr r)]) else None)"
| "destination_of (CreateInvestor b) = map_option (ServiceCall ''investors'' ''/internal/investors/create'') (create_investor_fields b)"
| "destination_of (UpdateInvestor r b) =
     (if record_ref_ok r then map_option (\<lambda>fs. ServiceCall ''investors'' ''/internal/investors/update'' ((''record_ref'', JStr r) # fs)) (description_fields b) else None)"
| "destination_of (ListDeals n) =
     (if limit_ok n then Some (ServiceCall ''deals'' ''/internal/deals/list'' [(''limit'', JInt n)]) else None)"
| "destination_of (ReadDeal r) =
     (if record_ref_ok r then Some (ServiceCall ''deals'' ''/internal/deals/read'' [(''record_ref'', JStr r)]) else None)"
| "destination_of (CreateDeal b) = map_option (ServiceCall ''deals'' ''/internal/deals/create'') (create_deal_fields b)"
| "destination_of (UpdateDeal r b) =
     (if record_ref_ok r then map_option (\<lambda>fs. ServiceCall ''deals'' ''/internal/deals/update'' ((''record_ref'', JStr r) # fs)) (update_deal_fields b) else None)"
| "destination_of (ReadLineage r) =
     (if record_ref_ok r then Some (ServiceCall ''lineage'' ''/internal/lineage/for-record'' [(''target_ref'', JStr r)]) else None)"

section \<open>Routes\<close>

record bff_request =
  br_authorization :: "string option"
  br_headers :: "(string \<times> string) list"
  br_host :: string
  br_correlation_id :: string

definition bearer_credential :: "string option \<Rightarrow> string option" where
  "bearer_credential header =
     (let h = (case header of None \<Rightarrow> [] | Some s \<Rightarrow> s);
          scheme = takeWhile (\<lambda>c. c \<noteq> CHR '' '') h;
          rest = strip (drop (Suc (length scheme)) h) in
      if casefold scheme \<noteq> ''bearer'' \<or> rest = [] then None else Some rest)"

definition authorized :: "'w bff_ports \<Rightarrow> bff_request \<Rightarrow> bff_operation \<Rightarrow> string option \<Rightarrow> ('w, s2_error, s2_context) proc" where
  "authorized P req op record_ref =
     bnd (establish P (bearer_credential (br_authorization req)) (br_headers req) (br_host req) (br_correlation_id req)) (\<lambda>c.
       bnd (authorize P c op record_ref) (\<lambda>_. ret c))"

definition routed :: "'w bff_ports \<Rightarrow> s2_context \<Rightarrow> ('w, s2_error, unit) proc" where
  "routed P c = bnd (bp_resolve P c) (\<lambda>_. ret ())"

definition payload :: "s2_context \<Rightarrow> (string \<times> json) list \<Rightarrow> json" where
  "payload c extra = JObj ((''context'', s2_context_json c) # extra)"

definition access_event :: "s2_context \<Rightarrow> string \<Rightarrow> string \<Rightarrow> ingress_event" where
  "access_event c action r = (context_event c action ''allowed'')\<lparr>ie_tenant_ref := sc_tenant_context c, ie_record_ref := Some r\<rparr>"

definition composing :: "('a \<Rightarrow> bff_dto) \<Rightarrow> s2_error + 'a \<Rightarrow> ('w, s2_error, bff_dto) proc" where
  "composing f r = lift_sum (sbind r (\<lambda>x. Inr (f x)))"

text \<open>What a route does with the answer: raises on an absent record, emits its success event, composes.\<close>

definition composed :: "'w bff_ports \<Rightarrow> s2_context \<Rightarrow> bff_call \<Rightarrow> json \<Rightarrow> ('w, s2_error, bff_dto) proc" where
  "composed P c call v =
     (let show = bp_str P in
      case call of
        ImportStartup s \<Rightarrow> composing ImportResultDTO (import_result_of show v)
      | ListStartups n \<Rightarrow> composing TenantStartupListDTO (listed (compose_startup show) v)
      | ReadStartup r \<Rightarrow>
          if v = JNull then raise record_not_found
          else andthen (bp_emit P (access_event c ''tenant_startup_read'' r)) (composing TenantStartupDetailDTO (compose_startup show v))
      | CreateStartup b \<Rightarrow> composing TenantStartupDetailDTO (compose_startup show v)
      | UpdateStartup r b \<Rightarrow>
          andthen (bp_emit P (access_event c ''tenant_startup_update'' r)) (composing TenantStartupDetailDTO (compose_startup show v))
      | ListInvestors n \<Rightarrow> composing TenantInvestorListDTO (listed (compose_investor show) v)
      | ReadInvestor r \<Rightarrow> if v = JNull then raise record_not_found else composing TenantInvestorDetailDTO (compose_investor show v)
      | CreateInvestor b \<Rightarrow> composing TenantInvestorDetailDTO (compose_investor show v)
      | UpdateInvestor r b \<Rightarrow> composing TenantInvestorDetailDTO (compose_investor show v)
      | ListDeals n \<Rightarrow> composing TenantDealListDTO (listed (compose_deal show) v)
      | ReadDeal r \<Rightarrow> if v = JNull then raise record_not_found else composing TenantDealDetailDTO (compose_deal show v)
      | CreateDeal b \<Rightarrow> composing TenantDealDetailDTO (compose_deal show v)
      | UpdateDeal r b \<Rightarrow> composing TenantDealDetailDTO (compose_deal show v)
      | ReadLineage r \<Rightarrow> lift_sum (lineage_summary_of show r v)
      | _ \<Rightarrow> raise (Crash ''no service call''))"

definition memberships_route :: "'w bff_ports \<Rightarrow> s2_context \<Rightarrow> ('w, s2_error, bff_dto) proc" where
  "memberships_route P c =
     bnd (bp_memberships P (sc_principal_ref c)) (\<lambda>raw.
     bnd (lift_sum (each (membership_entry_of (bp_str P)) raw)) (\<lambda>ms.
       andthen (bp_emit P ((context_event c ''workspace_memberships_read'' ''allowed'')\<lparr>ie_subject_ref := Some (sc_principal_ref c)\<rparr>))
         (ret (WorkspaceMembershipDTO ms))))"

definition directory_route :: "'w bff_ports \<Rightarrow> string \<Rightarrow> (directory_entry_dto list \<Rightarrow> bff_dto) \<Rightarrow> ('w, s2_error, bff_dto) proc" where
  "directory_route P kind f =
     bnd (bp_directory P kind) (\<lambda>raw. bnd (lift_sum (each (directory_entry_of (bp_str P)) raw)) (\<lambda>es. ret (f es)))"

definition bff_route :: "'w bff_ports \<Rightarrow> bff_request \<Rightarrow> bff_call \<Rightarrow> ('w, s2_error, bff_dto) proc" where
  "bff_route P req call =
     (case destination_of call of
        None \<Rightarrow> raise invalid_request
      | Some dest \<Rightarrow>
          bnd (authorized P req (operation_called call) (record_named call)) (\<lambda>c.
            case dest of
              MembershipRead \<Rightarrow> memberships_route P c
            | DirectoryRead kind \<Rightarrow>
                directory_route P kind (if call = ReadStartupDirectory then GlobalStartupSummaryDTO else GlobalInvestorSummaryDTO)
            | ServiceCall service path extra \<Rightarrow>
                andthen (routed P c) (bnd (bp_call P service path (payload c extra)) (composed P c call))))"

end
