(* ===== verification/S2_Clients.thy ===== *)
theory S2_Clients
  imports S2_Routes
begin

text \<open>
  The clients of the BFF (\<open>services/bff/clients.py\<close>): one HTTP client per internal service, what stands in for a service that is
  not configured, and the composition of the ports from the settings. The network takes a URL, the service credential and, for a
  POST, a document. An entry of a list that is no object, which no service sends, raises.
\<close>

section \<open>Answers\<close>

record 'w bff_net =
  bn_post :: "string \<Rightarrow> string \<Rightarrow> json \<Rightarrow> 'w \<Rightarrow> reply \<times> 'w"
  bn_get :: "string \<Rightarrow> string \<Rightarrow> 'w \<Rightarrow> reply \<times> 'w"
  bn_loads :: "string \<Rightarrow> json option"
  bn_str :: "json \<Rightarrow> string"
  bn_drop :: "'w \<Rightarrow> 'w"

definition decoded :: "(string \<Rightarrow> json option) \<Rightarrow> string \<Rightarrow> s2_error + json" where
  "decoded loads raw = (case loads raw of None \<Rightarrow> Inl (Crash ''JSONDecodeError'') | Some v \<Rightarrow> Inr v)"

definition propagate :: "(json \<Rightarrow> string) \<Rightarrow> int \<Rightarrow> json \<Rightarrow> s2_error" where
  "propagate show status body =
     (case body of
        JObj d \<Rightarrow>
          (case code_of (case dict_get d ''code'' of None \<Rightarrow> ''tenant_unavailable'' | Some v \<Rightarrow> text_of show v) of
             Some c \<Rightarrow> AppError status c
           | None \<Rightarrow> tenant_unavailable)
      | _ \<Rightarrow> Crash ''AttributeError'')"

definition failed_answer :: "(string \<Rightarrow> json option) \<Rightarrow> (json \<Rightarrow> string) \<Rightarrow> int \<Rightarrow> string \<Rightarrow> s2_error" where
  "failed_answer loads show status raw =
     (case (if raw = [] then Inr (JObj []) else decoded loads raw) of Inl e \<Rightarrow> e | Inr body \<Rightarrow> propagate show status body)"

section \<open>Authentication and Access Control\<close>

definition carrier_check_of :: "string \<Rightarrow> carrier_check option" where
  "carrier_check_of v = find (\<lambda>c. carrier_check_value c = v) [ABSENT, MATCHED, MISMATCH, CONTROL_ANOMALY]"

definition authentication_of :: "(string \<Rightarrow> json option) \<Rightarrow> string \<Rightarrow> reply \<Rightarrow> authentication_result option" where
  "authentication_of loads cid x =
     (case x of
        Unreachable \<Rightarrow> None
      | Reply status raw \<Rightarrow>
          if status \<noteq> 200 then None
          else (case loads raw of
              Some (JObj d) \<Rightarrow>
                (case (obj_get d ''principal_ref'', obj_get d ''role'', str_or_null (obj_get d ''active_tenant_ref''), obj_get d ''carrier_check'') of
                   (JStr p, JStr r, Some t, JStr v) \<Rightarrow>
                     (case (platform_role_of r, carrier_check_of v) of
                        (Some role, Some check) \<Rightarrow>
                          Some \<lparr>ar_auth_context = \<lparr>sa_correlation_id = cid, sa_principal_ref = p, sa_role = role, sa_active_tenant_ref = t\<rparr>,
                            ar_carrier_verdict = check\<rparr>
                      | _ \<Rightarrow> None)
                 | _ \<Rightarrow> None)
            | _ \<Rightarrow> None))"

definition http_authenticate_port ::
    "'w bff_net \<Rightarrow> string \<Rightarrow> string \<Rightarrow> string \<Rightarrow> string option \<Rightarrow> string \<Rightarrow> ('w, s2_error, authentication_result option) proc" where
  "http_authenticate_port N url service credential carrier cid w =
     (case bn_post N (url @ ''/authenticate'') service
         (JObj [(''credential'', JStr credential), (''tenant_carrier'', json_opt carrier)]) w of
        (x, w') \<Rightarrow> (Inr (authentication_of (bn_loads N) cid x), w'))"

definition refused_decision :: "json \<Rightarrow> authorization_result" where
  "refused_decision code = \<lparr>az_allowed = False, az_denial_code = code, az_resolved_domain = None\<rparr>"

definition authorization_of :: "(string \<Rightarrow> json option) \<Rightarrow> reply \<Rightarrow> authorization_result" where
  "authorization_of loads x =
     (case x of
        Unreachable \<Rightarrow> refused_decision (JStr ''access_denied'')
      | Reply status raw \<Rightarrow>
          if status \<noteq> 200 then refused_decision (JStr ''access_denied'')
          else (case loads raw of
              Some (JObj d) \<Rightarrow>
                if obj_get d ''decision'' \<noteq> JStr ''allowed'' then refused_decision (obj_get d ''denial_code'')
                else if \<not> truthy (obj_get d ''resolved_domain'') then \<lparr>az_allowed = True, az_denial_code = JNull, az_resolved_domain = None\<rparr>
                else (case obj_get d ''resolved_domain'' of
                    JStr v \<Rightarrow>
                      (case database_domain_of v of
                         Some dm \<Rightarrow> \<lparr>az_allowed = True, az_denial_code = JNull, az_resolved_domain = Some dm\<rparr>
                       | None \<Rightarrow> refused_decision (JStr ''access_denied''))
                  | _ \<Rightarrow> refused_decision (JStr ''access_denied''))
            | _ \<Rightarrow> refused_decision (JStr ''access_denied'')))"

definition http_decide_port ::
    "'w bff_net \<Rightarrow> string \<Rightarrow> string \<Rightarrow> s2_context \<Rightarrow> bff_operation \<Rightarrow> string option \<Rightarrow> ('w, s2_error, authorization_result) proc" where
  "http_decide_port N url service c op r w =
     (case bn_post N (url @ ''/decisions'') service
         (JObj [(''context'', s2_context_json c), (''operation'', JStr (operation_value op)), (''record_ref'', json_opt r)]) w of
        (x, w') \<Rightarrow> (Inr (authorization_of (bn_loads N) x), w'))"

section \<open>Routing, domain services, Control-resident reads and audit\<close>

definition posted_answer :: "'w bff_net \<Rightarrow> string \<Rightarrow> string \<Rightarrow> json \<Rightarrow> ('w, s2_error, json) proc" where
  "posted_answer N url service body w =
     (case bn_post N url service body w of
        (Unreachable, w') \<Rightarrow> (Inl tenant_unavailable, w')
      | (Reply status raw, w') \<Rightarrow>
          (if 400 \<le> status then Inl (failed_answer (bn_loads N) (bn_str N) status raw) else decoded (bn_loads N) raw, w'))"

definition http_resolve_port :: "'w bff_net \<Rightarrow> string \<Rightarrow> string \<Rightarrow> s2_context \<Rightarrow> ('w, s2_error, string \<times> string) proc" where
  "http_resolve_port N url service c =
     bnd (posted_answer N (url @ ''/internal/routing/resolve'') service (JObj [(''context'', s2_context_json c)])) (\<lambda>v.
       lift_sum (sbind (item_text (bn_str N) v ''tenant_ref'') (\<lambda>t.
                 sbind (item_text (bn_str N) v ''target_ref'') (\<lambda>r. Inr (t, r)))))"

definition http_call_port :: "'w bff_net \<Rightarrow> string \<Rightarrow> string \<Rightarrow> string \<Rightarrow> json \<Rightarrow> ('w, s2_error, json) proc" where
  "http_call_port N url service path body = posted_answer N (url @ path) service body"

text \<open>\<open>_get\<close>: nothing on a 404.\<close>

definition got_answer :: "'w bff_net \<Rightarrow> string \<Rightarrow> string \<Rightarrow> ('w, s2_error, json option) proc" where
  "got_answer N url service w =
     (case bn_get N url service w of
        (Unreachable, w') \<Rightarrow> (Inl tenant_unavailable, w')
      | (Reply status raw, w') \<Rightarrow>
          (if status = 404 then Inr None
           else if status \<noteq> 200 then Inl (failed_answer (bn_loads N) (bn_str N) status raw)
           else sbind (decoded (bn_loads N) raw) (\<lambda>v. Inr (Some v)), w'))"

definition entries_under :: "string \<Rightarrow> json option \<Rightarrow> s2_error + json list" where
  "entries_under k body =
     (case body of
        None \<Rightarrow> Inr []
      | Some (JObj d) \<Rightarrow>
          (case dict_get d k of
             None \<Rightarrow> Inr []
           | Some (JList es) \<Rightarrow> each (\<lambda>e. case e of JObj _ \<Rightarrow> Inr e | _ \<Rightarrow> Inl (Crash ''TypeError'')) es
           | Some _ \<Rightarrow> Inl (Crash ''TypeError''))
      | Some _ \<Rightarrow> Inl (Crash ''AttributeError''))"

definition http_memberships_port :: "'w bff_net \<Rightarrow> string \<Rightarrow> string \<Rightarrow> string \<Rightarrow> ('w, s2_error, json list) proc" where
  "http_memberships_port N url service p =
     bnd (got_answer N (url @ ''/internal/memberships/'' @ p) service) (\<lambda>b. lift_sum (entries_under ''memberships'' b))"

definition http_directory_port :: "'w bff_net \<Rightarrow> string \<Rightarrow> string \<Rightarrow> string \<Rightarrow> ('w, s2_error, json list) proc" where
  "http_directory_port N url service kind =
     bnd (got_answer N (url @ ''/internal/directories/'' @ kind @ ''/records'') service) (\<lambda>b. lift_sum (entries_under ''records'' b))"

definition ingress_event_json :: "ingress_event \<Rightarrow> json" where
  "ingress_event_json e =
     JObj [(''action'', JStr (ie_action e)), (''outcome'', JStr (ie_outcome e)), (''correlation_id'', JStr (ie_correlation_id e)),
       (''actor_ref'', JStr (ie_actor_ref e)), (''subject_ref'', json_opt (ie_subject_ref e)), (''tenant_ref'', json_opt (ie_tenant_ref e)),
       (''record_ref'', json_opt (ie_record_ref e)), (''carrier_ref'', json_opt (ie_carrier_ref e))]"

text \<open>Whatever becomes of the post, emitting returns.\<close>

definition http_emit_port :: "'w bff_net \<Rightarrow> string \<Rightarrow> string \<Rightarrow> ingress_event \<Rightarrow> ('w, s2_error, unit) proc" where
  "http_emit_port N url service e w =
     (case bn_post N (url @ ''/audit/events'') service (ingress_event_json e) w of (_, w') \<Rightarrow> (Inr (), w'))"

section \<open>Composition\<close>

definition DOMAIN_URLS :: "(string, string) dict" where
  "DOMAIN_URLS =
     [(''startups'', ''SP2_BFF_STARTUPS_URL''), (''investors'', ''SP2_BFF_INVESTORS_URL''), (''deals'', ''SP2_BFF_DEALS_URL''),
      (''import_service'', ''SP2_BFF_IMPORT_SERVICE_URL''), (''lineage'', ''SP2_BFF_LINEAGE_URL''), (''sharing'', ''SP2_BFF_SHARING_URL''),
      (''contacts'', ''SP2_BFF_CONTACTS_URL'')]"

text \<open>The base URL of a service, nothing where none is usable.\<close>

definition component_url :: "env \<Rightarrow> string \<Rightarrow> string option" where
  "component_url env name =
     (let v = env_value env name in
      if (starts_with ''http://'' v \<or> starts_with ''https://'' v) \<and> env_value env ''SP2_BFF_SERVICE_CREDENTIAL'' \<noteq> []
      then Some (rstrip_slash v) else None)"

definition deny_all_authentication :: "string \<Rightarrow> string option \<Rightarrow> string \<Rightarrow> ('w, s2_error, authentication_result option) proc" where
  "deny_all_authentication credential carrier cid = ret None"

definition deny_all_decisions :: "s2_context \<Rightarrow> bff_operation \<Rightarrow> string option \<Rightarrow> ('w, s2_error, authorization_result) proc" where
  "deny_all_decisions c op r = ret (refused_decision (JStr ''access_denied''))"

definition unavailable_port :: "('w, s2_error, 'a) proc" where
  "unavailable_port = raise tenant_unavailable"

definition build_components :: "'w bff_net \<Rightarrow> env \<Rightarrow> 'w bff_ports" where
  "build_components N env =
     (let service = env_value env ''SP2_BFF_SERVICE_CREDENTIAL''; url = component_url env in
      \<lparr>bp_authenticate = (case url ''SP2_BFF_AUTHENTICATION_URL'' of Some u \<Rightarrow> http_authenticate_port N u service | None \<Rightarrow> deny_all_authentication),
       bp_decide = (case url ''SP2_BFF_ACCESS_CONTROL_URL'' of Some u \<Rightarrow> http_decide_port N u service | None \<Rightarrow> deny_all_decisions),
       bp_resolve = (case url ''SP2_BFF_DATABASE_ROUTER_URL'' of Some u \<Rightarrow> http_resolve_port N u service | None \<Rightarrow> (\<lambda>_. unavailable_port)),
       bp_emit = (case url ''SP2_BFF_AUDIT_URL'' of Some u \<Rightarrow> http_emit_port N u service | None \<Rightarrow> (\<lambda>_. writes (bn_drop N))),
       bp_memberships = (case url ''SP2_BFF_CONTROL_PLANE_URL'' of Some u \<Rightarrow> http_memberships_port N u service | None \<Rightarrow> (\<lambda>_. unavailable_port)),
       bp_directory = (case url ''SP2_BFF_CONTROL_PLANE_URL'' of Some u \<Rightarrow> http_directory_port N u service | None \<Rightarrow> (\<lambda>_. unavailable_port)),
       bp_call = (\<lambda>name path body.
         case dict_get DOMAIN_URLS name of
           None \<Rightarrow> raise (Crash ''KeyError'')
         | Some variable \<Rightarrow>
             (case url variable of Some u \<Rightarrow> http_call_port N u service path body | None \<Rightarrow> unavailable_port)),
       bp_str = bn_str N,
       bp_base_domain = env_value env ''SP2_BFF_BASE_DOMAIN''\<rparr>)"


text \<open>
  What a route of the BFF went through when it hands out a document, and what it leaves when it does not, for any ports.
\<close>

section \<open>Stages that succeed\<close>

definition seen_carrier :: "'w bff_ports \<Rightarrow> bff_request \<Rightarrow> carrier_observation" where
  "seen_carrier P req = recognized_carrier (br_headers req) (br_host req) (bp_base_domain P)"

text \<open>The identity behind a context: authenticated with this very credential and carrier, which did not disagree.\<close>

definition identified :: "'w bff_ports \<Rightarrow> bff_request \<Rightarrow> 'w \<Rightarrow> s2_context \<Rightarrow> 'w \<Rightarrow> bool" where
  "identified P req w c w' \<longleftrightarrow>
     (\<exists>tok a w1. bearer_credential (br_authorization req) = Some tok \<and> tok \<noteq> []
      \<and> \<not> co_conflict (seen_carrier P req)
      \<and> bp_authenticate P tok (co_value (seen_carrier P req)) (br_correlation_id req) w = (Inr (Some a), w1)
      \<and> ar_carrier_verdict a \<noteq> MISMATCH \<and> c = from_auth_context (ar_auth_context a)
      \<and> (if ar_carrier_verdict a = CONTROL_ANOMALY
         then bp_emit P ((ingress_event_of ''CarrierOnControlAnomaly'' ''anomaly'' (br_correlation_id req) (sa_principal_ref (ar_auth_context a)))
                \<lparr>ie_carrier_ref := co_value (seen_carrier P req)\<rparr>) w1 = (Inr (), w')
         else w' = w1))"

lemma established:
  assumes "establish P (bearer_credential (br_authorization req)) (br_headers req) (br_host req) (br_correlation_id req) w = (Inr c, w')"
  shows "identified P req w c w'"
proof -
  obtain tok where tok: "bearer_credential (br_authorization req) = Some tok" "tok \<noteq> []"
    using assms by (cases "bearer_credential (br_authorization req)") (auto simp: establish_def split: if_splits)
  obtain r w1 where auth: "bp_authenticate P tok (co_value (seen_carrier P req)) (br_correlation_id req) w = (r, w1)" by fastforce
  with assms tok obtain a where r: "r = Inr (Some a)"
    by (cases r) (auto simp: establish_def Let_def seen_carrier_def split: option.splits)
  with assms tok auth have "\<not> co_conflict (seen_carrier P req)" "ar_carrier_verdict a \<noteq> MISMATCH"
    by (auto simp: establish_def Let_def seen_carrier_def split: prod.splits sum.splits if_splits)
  with assms tok auth r show ?thesis
    unfolding identified_def
    by (intro exI[of _ tok] exI[of _ a] exI[of _ w1])
      (auto simp: establish_def Let_def seen_carrier_def split: prod.splits sum.splits if_splits)
qed

definition lawfully_decided :: "authorization_result \<Rightarrow> bff_operation \<Rightarrow> s2_context \<Rightarrow> bool" where
  "lawfully_decided d op c \<longleftrightarrow>
     az_allowed d \<and> az_resolved_domain d = domain_of op \<and> (domain_of op = Some TENANT \<longrightarrow> \<not> blank (sc_tenant_context c))"

lemma authorize_lawful:
  assumes "bp_decide P c op r w = (Inr d, w')" and "lawfully_decided d op c"
  shows "authorize P c op r w = (Inr (the (domain_of op)), w')"
  using assms every_operation_has_a_domain[of op] by (auto simp: authorize_def lawfully_decided_def Let_def)

lemma authorized_domain:
  assumes "authorize P c op r w = (Inr x, w')"
  shows "\<exists>d. bp_decide P c op r w = (Inr d, w') \<and> lawfully_decided d op c"
proof -
  obtain d w1 where d: "bp_decide P c op r w = (Inr d, w1)"
    using assms by (cases "bp_decide P c op r w"; cases "fst (bp_decide P c op r w)") (auto simp: authorize_def)
  then show ?thesis
    using assms by (auto simp: authorize_def lawfully_decided_def Let_def split: prod.splits sum.splits if_splits)
qed

text \<open>One event and the denial an unlawful decision ends with.\<close>

definition refusal_event :: "authorization_result \<Rightarrow> s2_context \<Rightarrow> bff_operation \<Rightarrow> string option \<Rightarrow> ingress_event" where
  "refusal_event d c op r =
     (if \<not> az_allowed d then (context_event c ''RouteDenied'' ''denied'')\<lparr>ie_tenant_ref := sc_tenant_context c, ie_record_ref := r\<rparr>
      else if az_resolved_domain d \<noteq> domain_of op then (context_event c ''IsolationAnomaly'' ''anomaly'')\<lparr>ie_tenant_ref := sc_tenant_context c\<rparr>
      else context_event c ''IsolationAnomaly'' ''anomaly'')"

definition refusal_error :: "authorization_result \<Rightarrow> s2_error" where
  "refusal_error d = (if az_allowed d then isolation_violation else s2_access_denied)"

lemma authorize_refused:
  assumes "bp_decide P c op r w = (Inr d, w1)" and "\<not> lawfully_decided d op c"
  shows "authorize P c op r w = (case bp_emit P (refusal_event d c op r) w1 of (Inl e, w2) \<Rightarrow> (Inl e, w2) | (Inr _, w2) \<Rightarrow> (Inl (refusal_error d), w2))"
  using assms every_operation_has_a_domain[of op]
  by (auto simp: authorize_def lawfully_decided_def refusal_event_def refusal_error_def Let_def split: prod.splits sum.splits)

section \<open>Routes\<close>

text \<open>What answers a lawful request: the Control-resident read of this principal, or exactly one service, after a database of
this context was bound.\<close>

definition answered_by :: "'w bff_ports \<Rightarrow> s2_context \<Rightarrow> bff_call \<Rightarrow> destination \<Rightarrow> 'w \<Rightarrow> bff_dto \<Rightarrow> 'w \<Rightarrow> bool" where
  "answered_by P c call dest w dto w' \<longleftrightarrow>
     (case dest of
        MembershipRead \<Rightarrow> memberships_route P c w = (Inr dto, w')
      | DirectoryRead kind \<Rightarrow>
          directory_route P kind (if call = ReadStartupDirectory then GlobalStartupSummaryDTO else GlobalInvestorSummaryDTO) w = (Inr dto, w')
      | ServiceCall service path extra \<Rightarrow>
          (\<exists>bound w1 v w2. bp_resolve P c w = (Inr bound, w1) \<and> bp_call P service path (payload c extra) w1 = (Inr v, w2)
             \<and> composed P c call v w2 = (Inr dto, w')))"

lemma route_steps:
  assumes "bff_route P req call w = (Inr dto, w')"
  shows "\<exists>dest c w1 d w2. destination_of call = Some dest \<and> identified P req w c w1
    \<and> bp_decide P c (operation_called call) (record_named call) w1 = (Inr d, w2) \<and> lawfully_decided d (operation_called call) c
    \<and> answered_by P c call dest w2 dto w'"
proof -
  obtain dest where dest: "destination_of call = Some dest"
    using assms by (cases "destination_of call") (simp_all add: bff_route_def)
  from assms obtain c w2 where auth: "authorized P req (operation_called call) (record_named call) w = (Inr c, w2)"
    and rest: "(case dest of
              MembershipRead \<Rightarrow> memberships_route P c
            | DirectoryRead kind \<Rightarrow> directory_route P kind (if call = ReadStartupDirectory then GlobalStartupSummaryDTO else GlobalInvestorSummaryDTO)
            | ServiceCall service path extra \<Rightarrow>
                andthen (routed P c) (bnd (bp_call P service path (payload c extra)) (composed P c call))) w2 = (Inr dto, w')"
    unfolding bff_route_def dest option.case bnd_Inr by blast
  from auth obtain w1 x where est: "establish P (bearer_credential (br_authorization req)) (br_headers req) (br_host req) (br_correlation_id req) w = (Inr c, w1)"
    and az: "authorize P c (operation_called call) (record_named call) w1 = (Inr x, w2)"
    unfolding authorized_def bnd_Inr by (auto simp: ret_def)
  from rest have "answered_by P c call dest w2 dto w'"
    by (cases dest) (simp_all add: answered_by_def routed_def andthen_Inr bnd_Inr del: andthen_run bnd_run, blast?)
  with dest established[OF est] authorized_domain[OF az] show ?thesis by blast
qed

lemma route_refused:
  assumes "destination_of call = Some dest"
    and "establish P (bearer_credential (br_authorization req)) (br_headers req) (br_host req) (br_correlation_id req) w = (Inr c, w1)"
    and "bp_decide P c (operation_called call) (record_named call) w1 = (Inr d, w2)" and "\<not> lawfully_decided d (operation_called call) c"
  shows "bff_route P req call w =
    (case bp_emit P (refusal_event d c (operation_called call) (record_named call)) w2 of
       (Inl e, w3) \<Rightarrow> (Inl e, w3) | (Inr _, w3) \<Rightarrow> (Inl (refusal_error d), w3))"
  using assms(1,2) authorize_refused[OF assms(3,4)]
  by (simp add: bff_route_def authorized_def split: prod.split sum.split)

end
