(* ===== verification/S2_Access.thy ===== *)
theory S2_Access
  imports S2_Types
begin

text \<open>
  The Access Control service (\<open>services/access_control/policy.py\<close>, \<open>membership.py\<close>, \<open>main.py\<close>): the permission each operation
  requires, the permissions each role holds, the one function that decides, its membership lookups and its HTTP surface.
\<close>

section \<open>Permissions\<close>

datatype permission =
    MEMBERSHIPS_READ | DIRECTORY_GLOBAL_STARTUP_READ | DIRECTORY_GLOBAL_INVESTOR_READ | IMPORT_INITIATE
  | STARTUP_READ | STARTUP_CREATE | STARTUP_UPDATE | INVESTOR_READ | INVESTOR_CREATE | INVESTOR_UPDATE
  | DEAL_READ | DEAL_CREATE | DEAL_UPDATE | CONTACT_READ | CONTACT_CREATE | LINEAGE_READ | SHARE_PROPOSE | SHARE_READ | AI_INVOKE

definition REQUIRED_PERMISSION :: "(bff_operation, permission) dict" where
  "REQUIRED_PERMISSION =
     [(LIST_MEMBERSHIPS, MEMBERSHIPS_READ),
      (READ_GLOBAL_STARTUP_DIRECTORY, DIRECTORY_GLOBAL_STARTUP_READ),
      (READ_GLOBAL_INVESTOR_DIRECTORY, DIRECTORY_GLOBAL_INVESTOR_READ),
      (INITIATE_STARTUP_IMPORT, IMPORT_INITIATE),
      (LIST_TENANT_STARTUPS, STARTUP_READ), (READ_TENANT_STARTUP, STARTUP_READ),
      (CREATE_TENANT_STARTUP, STARTUP_CREATE), (UPDATE_TENANT_STARTUP, STARTUP_UPDATE),
      (LIST_TENANT_INVESTORS, INVESTOR_READ), (READ_TENANT_INVESTOR, INVESTOR_READ),
      (CREATE_TENANT_INVESTOR, INVESTOR_CREATE), (UPDATE_TENANT_INVESTOR, INVESTOR_UPDATE),
      (LIST_TENANT_DEALS, DEAL_READ), (READ_TENANT_DEAL, DEAL_READ),
      (CREATE_TENANT_DEAL, DEAL_CREATE), (UPDATE_TENANT_DEAL, DEAL_UPDATE),
      (LIST_TENANT_CONTACTS, CONTACT_READ), (READ_TENANT_CONTACT, CONTACT_READ), (CREATE_TENANT_CONTACT, CONTACT_CREATE),
      (READ_TENANT_LINEAGE, LINEAGE_READ), (PROPOSE_DEAL_SHARE, SHARE_PROPOSE), (READ_DEAL_SHARE, SHARE_READ)]"

definition TENANT_AGENT_PERMISSIONS :: "permission list" where
  "TENANT_AGENT_PERMISSIONS =
     [MEMBERSHIPS_READ, DIRECTORY_GLOBAL_STARTUP_READ, DIRECTORY_GLOBAL_INVESTOR_READ, IMPORT_INITIATE,
      STARTUP_READ, STARTUP_CREATE, STARTUP_UPDATE, INVESTOR_READ, INVESTOR_CREATE, INVESTOR_UPDATE,
      DEAL_READ, DEAL_CREATE, DEAL_UPDATE, CONTACT_READ, CONTACT_CREATE, LINEAGE_READ]"

definition ROLE_PERMISSIONS :: "(platform_role, permission list) dict" where
  "ROLE_PERMISSIONS =
     [(platform_role.CONTROL, [MEMBERSHIPS_READ, DIRECTORY_GLOBAL_STARTUP_READ, DIRECTORY_GLOBAL_INVESTOR_READ]),
      (MASTER_AGENT, TENANT_AGENT_PERMISSIONS), (TENANT_ADMIN, TENANT_AGENT_PERMISSIONS), (TENANT_AGENT, TENANT_AGENT_PERMISSIONS),
      (STARTUP_USER, [MEMBERSHIPS_READ, DIRECTORY_GLOBAL_STARTUP_READ]),
      (INVESTOR_USER, [MEMBERSHIPS_READ, DIRECTORY_GLOBAL_INVESTOR_READ])]"

section \<open>The decision\<close>

datatype verdict = ALLOWED | DENIED

record access_decision =
  ad_decision :: verdict
  ad_code :: error_code
  ad_domain :: "s2_domain option"

definition denied :: "error_code \<Rightarrow> access_decision" where
  "denied code = \<lparr>ad_decision = DENIED, ad_code = code, ad_domain = None\<rparr>"

definition resolve_single_domain :: "bff_operation \<Rightarrow> s2_context \<Rightarrow> s2_domain option" where
  "resolve_single_domain op c =
     (case domain_of op of
        None \<Rightarrow> None
      | Some domain \<Rightarrow>
          if domain = TENANT then (if blank (sc_tenant_context c) then None else Some TENANT)
          else Some s2_domain.CONTROL)"

text \<open>The lookup may raise; whatever raises inside the decision denies.\<close>

type_synonym 'w lookup = "string \<Rightarrow> string \<Rightarrow> ('w, string, bool) proc"

definition tenant_membership :: "'w lookup \<Rightarrow> s2_domain \<Rightarrow> s2_context \<Rightarrow> ('w, string, error_code option) proc" where
  "tenant_membership is_member domain c =
     (if domain = TENANT then
        (case sc_tenant_context c of
           None \<Rightarrow> ret (Some ISOLATION_VIOLATION)
         | Some t \<Rightarrow>
             if t = [] then ret (Some ISOLATION_VIOLATION)
             else bnd (is_member (sc_principal_ref c) t) (\<lambda>m. ret (if m then None else Some ACCESS_DENIED)))
      else ret None)"

definition permission_denied :: "bff_operation \<Rightarrow> s2_context \<Rightarrow> bool" where
  "permission_denied op c =
     (case (dict_get REQUIRED_PERMISSION op, dict_get ROLE_PERMISSIONS (sc_role c)) of
        (Some required, Some granted) \<Rightarrow> required \<notin> set granted \<or> required = AI_INVOKE
      | _ \<Rightarrow> True)"

definition access_decide ::
    "'w lookup \<Rightarrow> bff_operation \<Rightarrow> s2_context \<Rightarrow> string option \<Rightarrow> string option \<Rightarrow> 'w \<Rightarrow> access_decision \<times> 'w" where
  "access_decide is_member op c owner_agent_ref owner_ai_agent_ref w =
     (if sc_principal_ref c = [] \<or> sc_correlation_id c = [] then (denied ACCESS_DENIED, w)
      else if dict_get REQUIRED_PERMISSION op = None then (denied ACCESS_DENIED, w)
      else if op \<in> set SHARING_INERT_OPERATIONS then (denied ACCESS_DENIED, w)
      else case resolve_single_domain op c of
          None \<Rightarrow> (denied ISOLATION_VIOLATION, w)
        | Some domain \<Rightarrow>
            if \<not> blank owner_ai_agent_ref then (denied ACCESS_DENIED, w)
            else (case tenant_membership is_member domain c w of
                (Inl _, w') \<Rightarrow> (denied ACCESS_DENIED, w')
              | (Inr (Some code), w') \<Rightarrow> (denied code, w')
              | (Inr None, w') \<Rightarrow>
                  if permission_denied op c then (denied ACCESS_DENIED, w')
                  else (\<lparr>ad_decision = ALLOWED, ad_code = ACCESS_DENIED, ad_domain = Some domain\<rparr>, w')))"

section \<open>Membership lookups\<close>

definition deny_all_memberships :: "'w lookup" where
  "deny_all_memberships p t = ret False"

definition static_memberships :: "(string \<times> string list) list \<Rightarrow> 'w lookup" where
  "static_memberships ms p t = ret (list_ex (\<lambda>(who, tenants). who = p \<and> t \<in> set tenants) ms)"

definition string_items :: "json list \<Rightarrow> string list option" where
  "string_items xs =
     (if list_all (\<lambda>x. case x of JStr _ \<Rightarrow> True | _ \<Rightarrow> False) xs
      then Some (map (\<lambda>x. case x of JStr s \<Rightarrow> s | _ \<Rightarrow> []) xs) else None)"

fun static_entries :: "(string \<times> json) list \<Rightarrow> (string \<times> string list) list option" where
  "static_entries [] = Some []"
| "static_entries ((p, v) # rest) =
     (case v of
        JList xs \<Rightarrow>
          (case (string_items xs, static_entries rest) of
             (Some ts, Some ms) \<Rightarrow> Some ((p, ts) # ms)
           | _ \<Rightarrow> None)
      | _ \<Rightarrow> None)"

definition static_memberships_of :: "(string \<Rightarrow> json option) \<Rightarrow> string \<Rightarrow> string + (string \<times> string list) list" where
  "static_memberships_of loads raw =
     (case loads raw of
        Some (JObj d) \<Rightarrow> (case static_entries d of Some ms \<Rightarrow> Inr ms | None \<Rightarrow> Inl ''ValueError'')
      | _ \<Rightarrow> Inl ''ValueError'')"

definition entry_names_tenant :: "string \<Rightarrow> json \<Rightarrow> bool" where
  "entry_names_tenant t entry = (case entry of JObj d \<Rightarrow> obj_get d ''tenant_ref'' = JStr t | _ \<Rightarrow> False)"

definition http_memberships_of :: "(string \<Rightarrow> json option) \<Rightarrow> string \<Rightarrow> reply \<Rightarrow> bool" where
  "http_memberships_of loads t x =
     (case x of
        Unreachable \<Rightarrow> False
      | Reply status raw \<Rightarrow>
          status = 200 \<and>
          (case loads raw of
             Some (JObj d) \<Rightarrow> (case obj_get d ''memberships'' of JList es \<Rightarrow> list_ex (entry_names_tenant t) es | _ \<Rightarrow> False)
           | _ \<Rightarrow> False))"

definition http_control_memberships :: "(string \<Rightarrow> 'w \<Rightarrow> reply \<times> 'w) \<Rightarrow> (string \<Rightarrow> json option) \<Rightarrow> 'w lookup" where
  "http_control_memberships fetch loads p t w =
     (case fetch (''/internal/memberships/'' @ p) w of (x, w') \<Rightarrow> (Inr (http_memberships_of loads t x), w'))"

text \<open>Which lookup the configuration selects; a base URL needs a scheme and a credential.\<close>

definition http_url :: "string \<Rightarrow> bool" where
  "http_url u \<longleftrightarrow> starts_with ''http://'' u \<or> starts_with ''https://'' u"

datatype membership_port = HTTP_MEMBERSHIPS string string | STATIC_MEMBERSHIPS "(string \<times> string list) list" | DENY_ALL

definition build_membership_port :: "(string \<Rightarrow> json option) \<Rightarrow> env \<Rightarrow> string + membership_port" where
  "build_membership_port loads env =
     (let url = env_value env ''SP2_ACCESS_CONTROL_CONTROL_PLANE_URL'';
          credential = env_value env ''SP2_ACCESS_CONTROL_SERVICE_CREDENTIAL'';
          static = env_value env ''SP2_ACCESS_CONTROL_STATIC_MEMBERSHIPS'' in
      if url \<noteq> [] then
        (if credential = [] \<or> \<not> http_url url then Inl ''ValueError'' else Inr (HTTP_MEMBERSHIPS (rstrip_slash url) credential))
      else if static \<noteq> [] then sbind (static_memberships_of loads static) (\<lambda>ms. Inr (STATIC_MEMBERSHIPS ms))
      else Inr DENY_ALL)"

section \<open>The surface\<close>

record decision_request =
  dq_context :: s2_context
  dq_operation :: bff_operation
  dq_record_ref :: "string option"
  dq_owner_agent_ref :: "string option"
  dq_owner_ai_agent_ref :: "string option"

definition decision_request_of :: "json \<Rightarrow> decision_request option" where
  "decision_request_of v =
     (case v of
        JObj d \<Rightarrow>
          (case (context_of (obj_get d ''context''), obj_get d ''operation'', bounded 256 (obj_get d ''record_ref''),
                 bounded 256 (obj_get d ''owner_agent_ref''), bounded 256 (obj_get d ''owner_ai_agent_ref'')) of
             (Some c, JStr op, Some r, Some o1, Some o2) \<Rightarrow>
               map_option (\<lambda>f. \<lparr>dq_context = c, dq_operation = f, dq_record_ref = r, dq_owner_agent_ref = o1, dq_owner_ai_agent_ref = o2\<rparr>)
                 (operation_of op)
           | _ \<Rightarrow> None)
      | _ \<Rightarrow> None)"

definition decision_json :: "access_decision \<Rightarrow> json" where
  "decision_json d =
     (if ad_decision d = ALLOWED then
        JObj [(''decision'', JStr ''allowed''), (''denial_code'', JNull),
          (''resolved_domain'', json_opt (map_option domain_value (ad_domain d)))]
      else
        JObj [(''decision'', JStr ''denied''), (''denial_code'', JStr (code_value (ad_code d))), (''resolved_domain'', JNull)])"

definition evaluate :: "'w lookup \<Rightarrow> string option \<Rightarrow> json \<Rightarrow> 'w \<Rightarrow> (int \<times> json) \<times> 'w" where
  "evaluate is_member credential body w =
     (case sbind (require_bearer credential) (\<lambda>_. validated (decision_request_of body)) of
        Inl e \<Rightarrow> (as_response e, w)
      | Inr q \<Rightarrow>
          (case access_decide is_member (dq_operation q) (dq_context q) (dq_owner_agent_ref q) (dq_owner_ai_agent_ref q) w of
             (d, w') \<Rightarrow> ((200, decision_json d), w')))"

section \<open>What the decision amounts to\<close>

text \<open>The matrix of roles and operations, in terms of roles.\<close>

definition role_may :: "platform_role \<Rightarrow> bff_operation \<Rightarrow> bool" where
  "role_may r op \<longleftrightarrow>
     op = LIST_MEMBERSHIPS
   \<or> op = READ_GLOBAL_STARTUP_DIRECTORY \<and> r \<noteq> INVESTOR_USER
   \<or> op = READ_GLOBAL_INVESTOR_DIRECTORY \<and> r \<noteq> STARTUP_USER
   \<or> domain_of op = Some TENANT \<and> r \<in> {MASTER_AGENT, TENANT_ADMIN, TENANT_AGENT}"

lemma permission_matrix:
  "op \<notin> set SHARING_INERT_OPERATIONS \<Longrightarrow> permission_denied op c \<longleftrightarrow> \<not> role_may (sc_role c) op"
  by (cases op; cases "sc_role c")
    (simp_all add: permission_denied_def role_may_def REQUIRED_PERMISSION_def ROLE_PERMISSIONS_def TENANT_AGENT_PERMISSIONS_def
      dict_get_def domain_of_def category_of_def OPERATION_CATEGORY_def CATEGORY_DOMAIN_def SHARING_INERT_OPERATIONS_def)

lemma every_operation_requires: "dict_get REQUIRED_PERMISSION op \<noteq> None"
  by (cases op) (simp_all add: REQUIRED_PERMISSION_def dict_get_def)

lemma resolved_domains:
  "resolve_single_domain op c = Some TENANT \<longleftrightarrow> domain_of op = Some TENANT \<and> \<not> blank (sc_tenant_context c)"
  "resolve_single_domain op c = Some s2_domain.CONTROL \<longleftrightarrow> domain_of op = Some s2_domain.CONTROL"
  "resolve_single_domain op c = None \<longleftrightarrow> domain_of op = Some TENANT \<and> blank (sc_tenant_context c)"
proof -
  obtain d where "domain_of op = Some d" using every_operation_has_a_domain by blast
  then show "resolve_single_domain op c = Some TENANT \<longleftrightarrow> domain_of op = Some TENANT \<and> \<not> blank (sc_tenant_context c)"
    "resolve_single_domain op c = Some s2_domain.CONTROL \<longleftrightarrow> domain_of op = Some s2_domain.CONTROL"
    "resolve_single_domain op c = None \<longleftrightarrow> domain_of op = Some TENANT \<and> blank (sc_tenant_context c)"
    by (cases d; simp add: resolve_single_domain_def)+
qed

text \<open>The whole decision in one formula: who is allowed, where to, and with which code a denial is answered.\<close>

definition access_granted :: "bff_operation \<Rightarrow> s2_context \<Rightarrow> string option \<Rightarrow> bool option \<Rightarrow> bool" where
  "access_granted op c ai member \<longleftrightarrow>
     sc_principal_ref c \<noteq> [] \<and> sc_correlation_id c \<noteq> [] \<and> blank ai \<and> role_may (sc_role c) op
   \<and> (domain_of op = Some TENANT \<longrightarrow> \<not> blank (sc_tenant_context c) \<and> member = Some True)"

text \<open>Whether the lookup is asked at all.\<close>

definition asks_membership :: "bff_operation \<Rightarrow> s2_context \<Rightarrow> string option \<Rightarrow> bool" where
  "asks_membership op c ai \<longleftrightarrow>
     sc_principal_ref c \<noteq> [] \<and> sc_correlation_id c \<noteq> [] \<and> blank ai \<and> domain_of op = Some TENANT \<and> \<not> blank (sc_tenant_context c)"

lemma sharing_domain: "op \<in> set SHARING_INERT_OPERATIONS \<Longrightarrow> domain_of op = Some s2_domain.CONTROL \<and> \<not> role_may r op"
  by (auto simp: sharing_inert role_may_def domain_of_def category_of_def OPERATION_CATEGORY_def CATEGORY_DOMAIN_def dict_get_def)

lemma decide_control:
  assumes "domain_of op = Some s2_domain.CONTROL"
  shows "access_decide is_member op c own ai w =
    (if access_granted op c ai None then \<lparr>ad_decision = ALLOWED, ad_code = ACCESS_DENIED, ad_domain = Some s2_domain.CONTROL\<rparr>
     else denied ACCESS_DENIED, w)"
  using assms every_operation_requires[of op] permission_matrix[of op c] sharing_domain[of op "sc_role c"] resolved_domains(2)[of op c]
  by (auto simp: access_decide_def access_granted_def tenant_membership_def)

lemma decide_tenant:
  assumes "domain_of op = Some TENANT"
  shows "access_decide is_member op c own ai w =
    (if sc_principal_ref c = [] \<or> sc_correlation_id c = [] then (denied ACCESS_DENIED, w)
     else if blank (sc_tenant_context c) then (denied ISOLATION_VIOLATION, w)
     else if \<not> blank ai then (denied ACCESS_DENIED, w)
     else case is_member (sc_principal_ref c) (the (sc_tenant_context c)) w of
         (Inr True, w') \<Rightarrow>
           (if role_may (sc_role c) op then \<lparr>ad_decision = ALLOWED, ad_code = ACCESS_DENIED, ad_domain = Some TENANT\<rparr>
            else denied ACCESS_DENIED, w')
       | (_, w') \<Rightarrow> (denied ACCESS_DENIED, w'))"
proof -
  have "op \<notin> set SHARING_INERT_OPERATIONS" using assms sharing_domain by fastforce
  with assms every_operation_requires[of op] permission_matrix[of op c] show ?thesis
    by (cases "sc_tenant_context c")
      (auto simp: access_decide_def tenant_membership_def resolve_single_domain_def split: prod.splits sum.splits bool.splits)
qed

end
