(* ===== verification/S2_Routing.thy ===== *)
theory S2_Routing
  imports S2_Types
begin

text \<open>
  The Database Router service (\<open>services/database_router/resolver.py\<close>, \<open>grants.py\<close>, \<open>main.py\<close>): the registry it asks, the secret
  store that turns the reference of an association into a connection string, the resolution of one tenant, the allowlist of
  services that may hold a connection and the three HTTP operations. The entry of the HTTP registry is built of the decoded
  document; here its fields are typed, and a field of another type, which the response model of the control plane never sends,
  is a failed read.
\<close>

section \<open>Registry and secret store\<close>

record registry_entry =
  re_tenant_ref :: string
  re_lifecycle_state :: tenant_lifecycle
  re_expected_schema_version :: string
  re_association_store_ref :: string
  re_association_version :: string

type_synonym 'w registry = "string \<Rightarrow> 'w \<Rightarrow> registry_entry option \<times> 'w"

definition static_registry :: "(string, registry_entry) dict \<Rightarrow> 'w registry" where
  "static_registry entries t w = (dict_get entries t, w)"

definition registry_entry_of :: "json \<Rightarrow> registry_entry option" where
  "registry_entry_of v =
     (case v of
        JObj d \<Rightarrow>
          (case (obj_get d ''database_association_ref'', obj_get d ''tenant_ref'', obj_get d ''lifecycle_state'', obj_get d ''expected_schema_version'') of
             (JObj a, JStr t, JStr l, JStr sv) \<Rightarrow>
               (case (obj_get a ''store_ref'', obj_get a ''version'', tenant_lifecycle_of l) of
                  (JStr r, JStr n, Some st) \<Rightarrow>
                    Some \<lparr>re_tenant_ref = t, re_lifecycle_state = st, re_expected_schema_version = sv,
                      re_association_store_ref = r, re_association_version = n\<rparr>
                | _ \<Rightarrow> None)
           | _ \<Rightarrow> None)
      | _ \<Rightarrow> None)"

definition http_registry :: "(string \<Rightarrow> 'w \<Rightarrow> reply \<times> 'w) \<Rightarrow> (string \<Rightarrow> json option) \<Rightarrow> 'w registry" where
  "http_registry fetch loads t w =
     (case fetch (''/internal/tenants/'' @ t) w of
        (Reply status raw, w') \<Rightarrow> (if status \<noteq> 200 then None else Option.bind (loads raw) registry_entry_of, w')
      | (Unreachable, w') \<Rightarrow> (None, w'))"

text \<open>\<open>upper()\<close> and the replacement of everything but capitals and digits; the sharp s has two capitals.\<close>

definition safe_env_char :: "char \<Rightarrow> string" where
  "safe_env_char c =
     (if is_lower_ascii c then [char_of (char_code c - 32)]
      else if is_digit c \<or> 65 \<le> char_code c \<and> char_code c \<le> 90 then [c]
      else if char_code c = 223 then ''SS'' else ''_'')"

definition variable_name :: "string \<Rightarrow> string \<Rightarrow> string" where
  "variable_name store_ref version = ''SP2_TENANT_DSN_'' @ concat (map safe_env_char (store_ref @ ''_'' @ version))"

definition env_tenant_dsn :: "env \<Rightarrow> string \<Rightarrow> string \<Rightarrow> string option" where
  "env_tenant_dsn env store_ref version =
     (let v = env_value env (variable_name store_ref version) in if v = [] then None else Some v)"

section \<open>Resolution\<close>

record resolved_target =
  rt_tenant_ref :: string
  rt_target_ref :: string
  rt_expected_schema_version :: string
  rt_dsn :: string

definition resolve_target :: "'w registry \<Rightarrow> (string \<Rightarrow> string \<Rightarrow> string option) \<Rightarrow> string option \<Rightarrow> ('w, s2_error, resolved_target) proc" where
  "resolve_target lookup secrets tenant_ref w =
     (case tenant_ref of
        None \<Rightarrow> (Inl consistent_tenant_denial, w)
      | Some t \<Rightarrow>
          if t = [] then (Inl consistent_tenant_denial, w)
          else (case lookup t w of
              (None, w') \<Rightarrow> (Inl consistent_tenant_denial, w')
            | (Some e, w') \<Rightarrow>
                (if re_lifecycle_state e \<noteq> ACTIVE then Inl tenant_not_ready
                 else case secrets (re_association_store_ref e) (re_association_version e) of
                     None \<Rightarrow> Inl tenant_unavailable
                   | Some dsn \<Rightarrow>
                       if dsn = [] then Inl tenant_unavailable
                       else Inr \<lparr>rt_tenant_ref = re_tenant_ref e, rt_target_ref = ''ref:tenant/'' @ re_tenant_ref e @ ''/database'',
                         rt_expected_schema_version = re_expected_schema_version e, rt_dsn = dsn\<rparr>, w')))"

datatype registry_transport = HTTP_REGISTRY string string | STATIC_REGISTRY "(string, registry_entry) dict"

definition build_registry :: "env \<Rightarrow> string + registry_transport" where
  "build_registry env =
     (let url = env_value env ''SP2_DATABASE_ROUTER_CONTROL_PLANE_URL'';
          credential = env_value env ''SP2_DATABASE_ROUTER_SERVICE_CREDENTIAL'' in
      if url \<noteq> [] then
        (if credential = [] \<or> \<not> (starts_with ''http://'' url \<or> starts_with ''https://'' url) then Inl ''ValueError''
         else Inr (HTTP_REGISTRY (rstrip_slash url) credential))
      else Inr (STATIC_REGISTRY []))"

section \<open>The allowlist of grants\<close>

definition TENANT_RESIDENT_SERVICES :: "string list" where
  "TENANT_RESIDENT_SERVICES = [''startups'', ''investors'', ''deals'', ''contacts'', ''lineage'', ''import_service'', ''sharing'']"

definition PERMANENTLY_EXCLUDED :: "string list" where
  "PERMANENTLY_EXCLUDED = [''bff'', ''access_control'', ''authentication'', ''control_plane'', ''audit'']"

definition grant_allowlist :: "(string, string) dict \<Rightarrow> string + (string, string) dict" where
  "grant_allowlist grantees =
     (if list_all (\<lambda>(c, s). s \<notin> set PERMANENTLY_EXCLUDED \<and> s \<in> set TENANT_RESIDENT_SERVICES) grantees then Inr grantees
      else Inl ''ValueError'')"

fun grantee_entries :: "(string \<times> json) list \<Rightarrow> (string, string) dict option" where
  "grantee_entries [] = Some []"
| "grantee_entries ((c, v) # rest) =
     (case (v, grantee_entries rest) of
        (JStr s, Some d) \<Rightarrow> if s = [] then None else Some ((c, s) # d)
      | _ \<Rightarrow> None)"

definition build_allowlist :: "(string \<Rightarrow> json option) \<Rightarrow> env \<Rightarrow> string + (string, string) dict" where
  "build_allowlist loads env =
     (let raw = env_value env ''SP2_DATABASE_ROUTER_GRANTEES'' in
      if raw = [] then grant_allowlist []
      else case loads raw of
          Some (JObj d) \<Rightarrow> (case grantee_entries d of Some g \<Rightarrow> grant_allowlist g | None \<Rightarrow> Inl ''ValueError'')
        | _ \<Rightarrow> Inl ''ValueError'')"

definition service_refs :: "(string, string) dict \<Rightarrow> string list" where
  "service_refs grantees = sort (remdups (map snd grantees))"

section \<open>The surface\<close>

definition GRANT_TTL_SECONDS :: int where "GRANT_TTL_SECONDS = 60"

definition resolution_json :: "resolved_target \<Rightarrow> json" where
  "resolution_json t =
     JObj [(''tenant_ref'', JStr (rt_tenant_ref t)), (''target_ref'', JStr (rt_target_ref t)),
       (''expected_schema_version'', JStr (rt_expected_schema_version t))]"

definition grant_json :: "resolved_target \<Rightarrow> string \<Rightarrow> json" where
  "grant_json t expires_at =
     JObj [(''tenant_ref'', JStr (rt_tenant_ref t)), (''target_ref'', JStr (rt_target_ref t)),
       (''expected_schema_version'', JStr (rt_expected_schema_version t)), (''dsn'', JStr (rt_dsn t)), (''expires_at'', JStr expires_at)]"

definition routing_request_of :: "json \<Rightarrow> s2_context option" where
  "routing_request_of v = (case v of JObj d \<Rightarrow> context_of (obj_get d ''context'') | _ \<Rightarrow> None)"

definition bind_request_of :: "json \<Rightarrow> string option" where
  "bind_request_of v = (case v of JObj d \<Rightarrow> bounded_text 1 128 (obj_get d ''tenant_ref'') | _ \<Rightarrow> None)"

definition resolve_surface ::
    "'w registry \<Rightarrow> (string \<Rightarrow> string \<Rightarrow> string option) \<Rightarrow> string option \<Rightarrow> json \<Rightarrow> 'w \<Rightarrow> (int \<times> json) \<times> 'w" where
  "resolve_surface lookup secrets service body w =
     (case sbind (require_bearer service) (\<lambda>_. validated (routing_request_of body)) of
        Inl e \<Rightarrow> (as_response e, w)
      | Inr c \<Rightarrow>
          (case resolve_target lookup secrets (sc_tenant_context c) w of
             (r, w') \<Rightarrow> (answered (sbind r (\<lambda>t. Inr (200, resolution_json t))), w')))"

text \<open>\<open>expiry\<close> renders the time at which a grant ends: the clock plus \<open>GRANT_TTL_SECONDS\<close>.\<close>

definition bind_surface ::
    "'w registry \<Rightarrow> (string \<Rightarrow> string \<Rightarrow> string option) \<Rightarrow> (string, string) dict \<Rightarrow> (int \<Rightarrow> string) \<Rightarrow> string option \<Rightarrow> json
      \<Rightarrow> 'w \<Rightarrow> (int \<times> json) \<times> 'w" where
  "bind_surface lookup secrets allowlist expiry service body w =
     (case sbind (require_bearer service) (\<lambda>c. sbind (validated (bind_request_of body)) (\<lambda>t. Inr (c, t))) of
        Inl e \<Rightarrow> (as_response e, w)
      | Inr (credential, t) \<Rightarrow>
          if dict_get allowlist credential = None then (as_response s2_access_denied, w)
          else (case resolve_target lookup secrets (Some t) w of
              (r, w') \<Rightarrow> (answered (sbind r (\<lambda>x. Inr (200, grant_json x (expiry GRANT_TTL_SECONDS)))), w')))"

definition grantees_surface :: "(string, string) dict \<Rightarrow> string option \<Rightarrow> int \<times> json" where
  "grantees_surface allowlist service =
     answered (sbind (require_bearer service) (\<lambda>_.
       Inr (200, JObj [(''grantees'', JList (map (\<lambda>s. JObj [(''service_ref'', JStr s)]) (service_refs allowlist)))])))"

end
