(* ===== verification/S2_ControlPlane.thy ===== *)
theory S2_ControlPlane
  imports S2_Types
begin

text \<open>
  The Control Plane service over its in-memory store (\<open>services/control_plane/store.py\<close>, \<open>models.py\<close>, \<open>main.py\<close>): tenant descriptors,
  memberships and the global directories, and its HTTP surface. The framework decodes a path (\<open>unescape\<close>, an argument that is \<open>unquote\<close>) and then
  matches it by segments; an empty segment matches no route (the redirect it answers to a trailing slash is not modelled).
\<close>

section \<open>The store\<close>

datatype global_directory = GLOBAL_STARTUP | GLOBAL_INVESTOR

fun global_directory_value :: "global_directory \<Rightarrow> string" where
  "global_directory_value GLOBAL_STARTUP = ''GlobalStartupDirectory''"
| "global_directory_value GLOBAL_INVESTOR = ''GlobalInvestorDirectory''"

definition global_directory_of :: "string \<Rightarrow> global_directory option" where
  "global_directory_of v = find (\<lambda>k. global_directory_value k = v) [GLOBAL_STARTUP, GLOBAL_INVESTOR]"

record tenant_descriptor =
  td_tenant_ref :: string
  td_organization_ref :: string
  td_lifecycle_state :: tenant_lifecycle
  td_expected_schema_version :: string
  td_store_ref :: string
  td_version :: string

record global_record =
  gr_record_ref :: string
  gr_display_name :: string
  gr_attributes :: "(string, string) dict"

record s2_control_store =
  ss_tenants :: "(string, tenant_descriptor) dict"
  ss_memberships :: "(string \<times> string, platform_role) dict"
  ss_directory :: "(global_directory \<times> string, global_record) dict"

definition DSN_MARKERS :: "string list" where
  "DSN_MARKERS = [''://'', ''password='', ''host='', ''dbname='', ''user='']"

definition looks_like_a_connection_string :: "string \<Rightarrow> bool" where
  "looks_like_a_connection_string v = list_ex (\<lambda>m. occurs_in m (casefold v)) DSN_MARKERS"

definition s2_get_tenant :: "s2_control_store \<Rightarrow> string \<Rightarrow> tenant_descriptor option" where
  "s2_get_tenant s t = dict_get (ss_tenants s) t"

definition s2_put_tenant :: "tenant_descriptor \<Rightarrow> s2_control_store \<Rightarrow> s2_control_store" where
  "s2_put_tenant d s = s\<lparr>ss_tenants := dict_put (td_tenant_ref d) d (ss_tenants s)\<rparr>"

definition s2_list_memberships :: "s2_control_store \<Rightarrow> string \<Rightarrow> (string \<times> platform_role) list" where
  "s2_list_memberships s p =
     sort_key fst (map (\<lambda>((who, t), r). (t, r)) (filter (\<lambda>((who, t), r). who = p) (ss_memberships s)))"

definition s2_put_membership :: "string \<Rightarrow> string \<Rightarrow> platform_role \<Rightarrow> s2_control_store \<Rightarrow> s2_control_store" where
  "s2_put_membership p t r s = s\<lparr>ss_memberships := dict_put (p, t) r (ss_memberships s)\<rparr>"

definition s2_list_directory :: "s2_control_store \<Rightarrow> global_directory \<Rightarrow> global_record list" where
  "s2_list_directory s k = sort_key gr_record_ref (map snd (filter (\<lambda>((kind, i), r). kind = k) (ss_directory s)))"

definition s2_get_directory_record :: "s2_control_store \<Rightarrow> global_directory \<Rightarrow> string \<Rightarrow> global_record option" where
  "s2_get_directory_record s k r = dict_get (ss_directory s) (k, r)"

definition s2_put_directory_record :: "global_directory \<Rightarrow> global_record \<Rightarrow> s2_control_store \<Rightarrow> s2_control_store" where
  "s2_put_directory_record k r s = s\<lparr>ss_directory := dict_put (k, gr_record_ref r) r (ss_directory s)\<rparr>"

section \<open>Documents\<close>

definition descriptor_json :: "tenant_descriptor \<Rightarrow> json" where
  "descriptor_json d =
     JObj [(''tenant_ref'', JStr (td_tenant_ref d)), (''organization_ref'', JStr (td_organization_ref d)),
       (''lifecycle_state'', JStr (tenant_lifecycle_value (td_lifecycle_state d))),
       (''expected_schema_version'', JStr (td_expected_schema_version d)),
       (''database_association_ref'', JObj [(''store_ref'', JStr (td_store_ref d)), (''version'', JStr (td_version d))])]"

definition tenant_readiness_json :: "tenant_descriptor \<Rightarrow> json" where
  "tenant_readiness_json d =
     JObj [(''tenant_ref'', JStr (td_tenant_ref d)), (''lifecycle_state'', JStr (tenant_lifecycle_value (td_lifecycle_state d))),
       (''serviceable'', JBool (td_lifecycle_state d = ACTIVE))]"

definition membership_entry_json :: "string \<times> platform_role \<Rightarrow> json" where
  "membership_entry_json m = JObj [(''tenant_ref'', JStr (fst m)), (''role'', JStr (platform_role_value (snd m)))]"

definition memberships_json :: "string \<Rightarrow> (string \<times> platform_role) list \<Rightarrow> json" where
  "memberships_json p ms = JObj [(''principal_ref'', JStr p), (''memberships'', JList (map membership_entry_json ms))]"

definition global_record_json :: "global_record \<Rightarrow> json" where
  "global_record_json r =
     JObj [(''record_ref'', JStr (gr_record_ref r)), (''display_name'', JStr (gr_display_name r)),
       (''attributes'', JObj (map (\<lambda>(k, v). (k, JStr v)) (gr_attributes r)))]"

definition directory_json :: "global_directory \<Rightarrow> global_record list \<Rightarrow> json" where
  "directory_json k rs = JObj [(''directory'', JStr (global_directory_value k)), (''records'', JList (map global_record_json rs))]"

section \<open>Reads\<close>

definition read_tenant :: "s2_control_store \<Rightarrow> string \<Rightarrow> s2_error + int \<times> json" where
  "read_tenant s t =
     (if t = [] \<or> 128 < length t then Inl invalid_request
      else case s2_get_tenant s t of None \<Rightarrow> Inl consistent_tenant_denial | Some d \<Rightarrow> Inr (200, descriptor_json d))"

definition read_readiness :: "s2_control_store \<Rightarrow> string \<Rightarrow> s2_error + int \<times> json" where
  "read_readiness s t =
     (if t = [] \<or> 128 < length t then Inl invalid_request
      else case s2_get_tenant s t of None \<Rightarrow> Inl consistent_tenant_denial | Some d \<Rightarrow> Inr (200, tenant_readiness_json d))"

definition read_memberships :: "s2_control_store \<Rightarrow> string \<Rightarrow> s2_error + int \<times> json" where
  "read_memberships s p =
     (if p = [] \<or> 128 < length p then Inl invalid_request else Inr (200, memberships_json p (s2_list_memberships s p)))"

definition read_global_directory :: "s2_control_store \<Rightarrow> string \<Rightarrow> s2_error + int \<times> json" where
  "read_global_directory s kind =
     (case global_directory_of kind of None \<Rightarrow> Inl invalid_request | Some k \<Rightarrow> Inr (200, directory_json k (s2_list_directory s k)))"

definition read_global_record :: "s2_control_store \<Rightarrow> string \<Rightarrow> string \<Rightarrow> s2_error + int \<times> json" where
  "read_global_record s kind r =
     (case global_directory_of kind of
        None \<Rightarrow> Inl invalid_request
      | Some k \<Rightarrow>
          if r = [] \<or> 256 < length r then Inl invalid_request
          else case s2_get_directory_record s k r of None \<Rightarrow> Inl consistent_tenant_denial | Some g \<Rightarrow> Inr (200, global_record_json g))"

text \<open>\<open>GET\<close>: the path up to its query, by segments.\<close>

definition control_get :: "(string \<Rightarrow> string) \<Rightarrow> s2_control_store \<Rightarrow> string option \<Rightarrow> string \<Rightarrow> int \<times> json" where
  "control_get unescape s service target =
     (let guarded = (\<lambda>r. answered (sbind (require_bearer service) (\<lambda>_. r))) in
      case split_on CHR ''/'' (unescape (takeWhile (\<lambda>c. c \<noteq> CHR ''?'') target)) of
        [e, i, a, b] \<Rightarrow>
          if e = [] \<and> i = ''internal'' \<and> a = ''tenants'' \<and> b \<noteq> [] then guarded (read_tenant s b)
          else if e = [] \<and> i = ''internal'' \<and> a = ''memberships'' \<and> b \<noteq> [] then guarded (read_memberships s b)
          else http_error_response 404
      | [e, i, a, b, c] \<Rightarrow>
          if e = [] \<and> i = ''internal'' \<and> a = ''tenants'' \<and> c = ''readiness'' \<and> b \<noteq> [] then guarded (read_readiness s b)
          else if e = [] \<and> i = ''internal'' \<and> a = ''directories'' \<and> c = ''records'' \<and> b \<noteq> [] then guarded (read_global_directory s b)
          else http_error_response 404
      | [e, i, a, b, c, r] \<Rightarrow>
          if e = [] \<and> i = ''internal'' \<and> a = ''directories'' \<and> c = ''records'' \<and> b \<noteq> [] \<and> r \<noteq> [] then guarded (read_global_record s b r)
          else http_error_response 404
      | _ \<Rightarrow> http_error_response 404)"

section \<open>Registrations\<close>

definition tenant_registration_of :: "json \<Rightarrow> tenant_descriptor option" where
  "tenant_registration_of v =
     (case v of
        JObj d \<Rightarrow>
          (case (bounded_text 1 128 (obj_get d ''tenant_ref''), bounded_text 1 128 (obj_get d ''organization_ref''), obj_get d ''lifecycle_state'',
                 bounded_text 1 64 (obj_get d ''expected_schema_version''), obj_get d ''database_association_ref'') of
             (Some t, Some org, JStr l, Some sv, JObj a) \<Rightarrow>
               (case (tenant_lifecycle_of l, obj_get a ''store_ref'', obj_get a ''version'') of
                  (Some st, JStr r, JStr n) \<Rightarrow>
                    Some \<lparr>td_tenant_ref = t, td_organization_ref = org, td_lifecycle_state = st, td_expected_schema_version = sv,
                      td_store_ref = r, td_version = n\<rparr>
                | _ \<Rightarrow> None)
           | _ \<Rightarrow> None)
      | _ \<Rightarrow> None)"

definition membership_registration_of :: "json \<Rightarrow> (string \<times> string \<times> platform_role) option" where
  "membership_registration_of v =
     (case v of
        JObj d \<Rightarrow>
          (case (bounded_text 1 128 (obj_get d ''principal_ref''), bounded_text 1 128 (obj_get d ''tenant_ref''), obj_get d ''role'') of
             (Some p, Some t, JStr r) \<Rightarrow> map_option (\<lambda>role. (p, t, role)) (platform_role_of r)
           | _ \<Rightarrow> None)
      | _ \<Rightarrow> None)"

definition registration_ack :: "string \<Rightarrow> int \<times> json" where
  "registration_ack ref = (200, JObj [(''recorded'', JBool True), (''reference'', JStr ref)])"

definition s2_register_tenant :: "string option \<Rightarrow> json \<Rightarrow> s2_control_store \<Rightarrow> (int \<times> json) \<times> s2_control_store" where
  "s2_register_tenant service body s =
     (case sbind (require_bearer service) (\<lambda>_. validated (tenant_registration_of body)) of
        Inl e \<Rightarrow> (as_response e, s)
      | Inr d \<Rightarrow>
          if looks_like_a_connection_string (td_store_ref d) then (as_response invalid_request, s)
          else (registration_ack (td_tenant_ref d), s2_put_tenant d s))"

definition s2_register_membership :: "string option \<Rightarrow> json \<Rightarrow> s2_control_store \<Rightarrow> (int \<times> json) \<times> s2_control_store" where
  "s2_register_membership service body s =
     (case sbind (require_bearer service) (\<lambda>_. validated (membership_registration_of body)) of
        Inl e \<Rightarrow> (as_response e, s)
      | Inr (p, t, r) \<Rightarrow> (registration_ack p, s2_put_membership p t r s))"

section \<open>Facts\<close>

lemma lists_memberships:
  "(t, r) \<in> set (s2_list_memberships s p) \<longleftrightarrow> ((p, t), r) \<in> set (ss_memberships s)"
  by (force simp: s2_list_memberships_def)

definition s2_member :: "s2_control_store \<Rightarrow> string \<Rightarrow> string \<Rightarrow> bool" where
  "s2_member s p t \<longleftrightarrow> (\<exists>r. ((p, t), r) \<in> set (ss_memberships s))"

end
