(* ===== verification/S2_Claims.thy ===== *)
theory S2_Claims
  imports S2_Facts S2_Clients S2_Access S2_Routing S2_ControlPlane
begin

text \<open>
  Properties of the rebuilt services (\<open>snackportal2\<close>): the decision of Access Control, the refusal of a route of the BFF, the isolation
  of the tenant-resident services and the import of a global record.
\<close>

section \<open>Access Control\<close>

text \<open>What the lookup contributes: its answer where it is asked and does not raise.\<close>

definition asked_membership :: "'w lookup \<Rightarrow> bff_operation \<Rightarrow> s2_context \<Rightarrow> string option \<Rightarrow> 'w \<Rightarrow> bool option \<times> 'w" where
  "asked_membership is_member op c ai w =
     (if asks_membership op c ai
      then (case is_member (sc_principal_ref c) (the (sc_tenant_context c)) w of
          (Inl _, w') \<Rightarrow> (None, w') | (Inr m, w') \<Rightarrow> (Some m, w'))
      else (None, w))"

text \<open>C7: The decision of Access Control, for every operation, context and membership lookup. It allows exactly an identified principal
  whose role holds the operation in the matrix role_may, with no AI agent as owner, and for a tenant operation a context
  with a tenant of which the lookup just confirmed the principal to be a member; the domain it resolves is the one of the operation.
  Everything else is denied, with the isolation code exactly for an identified principal without a tenant on a tenant operation.
  The lookup is asked at most once, only for the tenant of the context, and one that raises denies. The owner agent never matters.
\<close>

theorem access_control_decides:
  "access_decide is_member op c owner ai w =
    (case asked_membership is_member op c ai w of
       (m, w') \<Rightarrow>
         (if access_granted op c ai m then \<lparr>ad_decision = ALLOWED, ad_code = ACCESS_DENIED, ad_domain = domain_of op\<rparr>
          else denied (if sc_principal_ref c \<noteq> [] \<and> sc_correlation_id c \<noteq> [] \<and> domain_of op = Some TENANT \<and> blank (sc_tenant_context c)
                       then ISOLATION_VIOLATION else ACCESS_DENIED), w'))"
proof (cases "domain_of op = Some TENANT")
  case True
  then show ?thesis
    by (simp add: decide_tenant asked_membership_def asks_membership_def access_granted_def split: prod.split sum.split bool.split)
next
  case False
  with every_operation_has_a_domain[of op] have "domain_of op = Some s2_domain.CONTROL"
    by (metis (full_types) s2_domain.exhaust option.exhaust)
  then show ?thesis by (simp add: decide_control asked_membership_def asks_membership_def access_granted_def)
qed

section \<open>The BFF\<close>

text \<open>C40: A route of the BFF whose request is authenticated but not lawfully authorized reaches nothing: after the authentication and the one
  decision it hands the audit port exactly one event, the one of its refusal, and ends with the denial (or with what the audit
  port raised). The router, the domain services and the Control-resident reads are not part of the outcome.
\<close>

theorem refused_route_reaches_nothing:
  assumes "destination_of call = Some dest"
    and "establish P (bearer_credential (br_authorization req)) (br_headers req) (br_host req) (br_correlation_id req) w = (Inr c, w1)"
    and "bp_decide P c (operation_called call) (record_named call) w1 = (Inr d, w2)" and "\<not> lawfully_decided d (operation_called call) c"
  shows "bff_route P req call w =
      (case bp_emit P (refusal_event d c (operation_called call) (record_named call)) w2 of
         (Inl e, w3) \<Rightarrow> (Inl e, w3) | (Inr _, w3) \<Rightarrow> (Inl (refusal_error d), w3))
    \<and> refusal_error d \<in> {s2_access_denied, isolation_violation}
    \<and> ie_outcome (refusal_event d c (operation_called call) (record_named call)) \<in> {''denied'', ''anomaly''}
    \<and> ie_actor_ref (refusal_event d c (operation_called call) (record_named call)) = sc_principal_ref c"
  using route_refused[OF assms]
  by (auto simp: refusal_error_def refusal_event_def context_event_def ingress_event_of_def)

text \<open>Ports over a list of events, with a decision given.\<close>

definition demo_ports :: "authorization_result \<Rightarrow> ingress_event list bff_ports" where
  "demo_ports d =
     \<lparr>bp_authenticate = \<lambda>tok carrier cid. ret (Some \<lparr>ar_auth_context = \<lparr>sa_correlation_id = cid, sa_principal_ref = ''ada'',
          sa_role = TENANT_AGENT, sa_active_tenant_ref = Some ''acme''\<rparr>, ar_carrier_verdict = ABSENT\<rparr>),
      bp_decide = \<lambda>c op r. ret d,
      bp_resolve = \<lambda>c. raise tenant_unavailable,
      bp_emit = \<lambda>e es. (Inr (), es @ [e]),
      bp_memberships = \<lambda>p. ret [], bp_directory = \<lambda>k. ret [], bp_call = \<lambda>n p b. raise tenant_unavailable,
      bp_str = \<lambda>v. [], bp_base_domain = []\<rparr>"

definition demo_request :: bff_request where
  "demo_request = \<lparr>br_authorization = Some ''Bearer t'', br_headers = [], br_host = ''portal.example'', br_correlation_id = ''c1''\<rparr>"

lemma refused_route_reaches_nothing_witness:
  "\<exists>e. bff_route (demo_ports (refused_decision JNull)) demo_request (ReadStartup ''ref:beta:startups:1'') [] = (Inl s2_access_denied, [e])"
proof -
  let ?c = "from_auth_context \<lparr>sa_correlation_id = ''c1'', sa_principal_ref = ''ada'', sa_role = TENANT_AGENT, sa_active_tenant_ref = Some ''acme''\<rparr>"
  have credential: "bearer_credential (br_authorization demo_request) = Some ''t''" by code_simp
  have est: "establish (demo_ports (refused_decision JNull)) (bearer_credential (br_authorization demo_request)) (br_headers demo_request)
      (br_host demo_request) (br_correlation_id demo_request) [] = (Inr ?c, [])"
    unfolding credential
    by (simp add: establish_def demo_request_def demo_ports_def recognized_carrier_def carrier_from_header_def carrier_from_host_def ret_def Let_def)
  have "destination_of (ReadStartup ''ref:beta:startups:1'') =
      Some (ServiceCall ''startups'' ''/internal/startups/read'' [(''record_ref'', JStr ''ref:beta:startups:1'')])"
    by (simp add: record_ref_ok_def)
  from refused_route_reaches_nothing[OF this est, of "refused_decision JNull" "[]"] show ?thesis
    by (simp add: demo_ports_def ret_def refused_decision_def lawfully_decided_def refusal_error_def)
qed

section \<open>Tenant-resident services\<close>

text \<open>The operations of the four services that keep a table.\<close>

record service_env =
  sv_dumps :: "json \<Rightarrow> string"
  sv_loads :: "string \<Rightarrow> json option"
  sv_str :: "json \<Rightarrow> string"
  sv_netloc_ok :: "string \<Rightarrow> bool"
  sv_year :: int

definition table_operation :: "service_env \<Rightarrow> string \<Rightarrow> string \<Rightarrow> (json \<Rightarrow> (tenant_table, s2_error, int \<times> json) proc) option" where
  "table_operation E service path =
     (if service = ''startups'' then startups_operation (sv_netloc_ok E) (sv_year E) path
      else if service = ''investors'' then investors_operation (sv_dumps E) (sv_loads E) (sv_str E) (sv_netloc_ok E) path
      else if service = ''deals'' then deals_operation path
      else if service = ''lineage'' then lineage_operation path
      else None)"

definition table_surface :: "service_env \<Rightarrow> string \<Rightarrow> string option \<Rightarrow> string \<Rightarrow> json \<Rightarrow> tenant_table \<Rightarrow> (int \<times> json) \<times> tenant_table" where
  "table_surface E service = service_surface (table_operation E service)"

lemma tables_bound: "table_operation E service path = Some run \<Longrightarrow> bound_to_tenant run"
  by (auto simp: table_operation_def startups_bound investors_bound deals_bound lineage_bound split: if_splits)

lemma bound_runs:
  assumes "bound_to_tenant run"
  shows "\<forall>u. request_tenant body \<noteq> Some u \<longrightarrow> share u (snd (run body tb)) = share u tb"
    and "(\<forall>u. request_tenant body = Some u \<longrightarrow> share u tb = share u tb') \<Longrightarrow>
      fst (run body tb) = fst (run body tb') \<and> (\<forall>u. request_tenant body = Some u \<longrightarrow> share u (snd (run body tb)) = share u (snd (run body tb')))"
proof -
  consider (own) t where "request_tenant body = Some t" "tables.own t (run body)" | (raises) e where "run body = raise e"
    using assms unfolding bound_to_tenant_def by blast
  note ways = this
  show "\<forall>u. request_tenant body \<noteq> Some u \<longrightarrow> share u (snd (run body tb)) = share u tb"
  proof (cases rule: ways)
    case (own t)
    with tables.own_others[OF own(2)] show ?thesis by simp
  qed (simp add: raise_def)
  assume same: "\<forall>u. request_tenant body = Some u \<longrightarrow> share u tb = share u tb'"
  show "fst (run body tb) = fst (run body tb') \<and> (\<forall>u. request_tenant body = Some u \<longrightarrow> share u (snd (run body tb)) = share u (snd (run body tb')))"
  proof (cases rule: ways)
    case (own t)
    from same own(1) have "share t tb = share t tb'" by simp
    note tables.own_same[OF own(2) this]
    with own(1) show ?thesis by auto
  qed (use same in \<open>simp add: raise_def\<close>)
qed

text \<open>C4: The startup, investor, deal and lineage services are isolated by tenant, for every path, credential, body and table. A request
  leaves the rows and the counter of every tenant but the one its context names as they were; and its answer, status and
  document, is the same over two tables that agree on the share of that tenant alone, however they differ on all others, and so is
  the share it leaves. A request without a valid context of a tenant changes no share and answers the same over every table.
\<close>

theorem tenant_services_are_isolated:
  "(\<forall>u. request_tenant body \<noteq> Some u \<longrightarrow> share u (snd (table_surface E service cred path body tb)) = share u tb)
    \<and> ((\<forall>u. request_tenant body = Some u \<longrightarrow> share u tb = share u tb') \<longrightarrow>
         fst (table_surface E service cred path body tb) = fst (table_surface E service cred path body tb')
       \<and> (\<forall>u. request_tenant body = Some u \<longrightarrow>
            share u (snd (table_surface E service cred path body tb)) = share u (snd (table_surface E service cred path body tb'))))"
proof (cases "table_operation E service path")
  case None
  then show ?thesis by (simp add: table_surface_def service_surface_def)
next
  case (Some run)
  note runs = bound_runs[OF tables_bound[OF Some], of body]
  have surface: "table_surface E service cred path body tb =
      (case require_bearer cred of Inl e \<Rightarrow> (as_response e, tb) | Inr _ \<Rightarrow> (answered (fst (run body tb)), snd (run body tb)))" for tb
    using Some by (simp add: table_surface_def service_surface_def split: sum.split prod.split)
  show ?thesis
    using runs(1)[of tb] runs(2)[of tb tb'] by (cases "require_bearer cred") (simp_all add: surface)
qed

definition demo_service_env :: service_env where
  "demo_service_env = \<lparr>sv_dumps = \<lambda>_. [], sv_loads = \<lambda>_. None, sv_str = \<lambda>_. [], sv_netloc_ok = \<lambda>_. True, sv_year = 2026\<rparr>"

definition two_tenants :: tenant_table where
  "two_tenants = \<lparr>tt_rows = [(''acme'', [(''1'', [(''company_name'', Some ''Anvil'')])]), (''beta'', [(''1'', [(''company_name'', Some ''Beam'')])])],
    tt_counters = [(''acme'', 1), (''beta'', 1)]\<rparr>"

definition read_of_acme :: json where
  "read_of_acme = JObj [(''context'', s2_context_json \<lparr>sc_correlation_id = ''c1'', sc_principal_ref = ''ada'', sc_role = TENANT_AGENT,
     sc_tenant_context = Some ''acme'', sc_workspace_type = TENANT_WORKSPACE\<rparr>), (''record_ref'', JStr ''ref:acme:startups:1'')]"

lemma tenant_services_are_isolated_witness:
  "share ''beta'' (snd (table_surface demo_service_env ''startups'' (Some ''k'') ''/internal/startups/read'' read_of_acme two_tenants)) = share ''beta'' two_tenants
   \<and> fst (table_surface demo_service_env ''startups'' (Some ''k'') ''/internal/startups/read'' read_of_acme two_tenants)
     = fst (table_surface demo_service_env ''startups'' (Some ''k'') ''/internal/startups/read'' read_of_acme
         (two_tenants\<lparr>tt_rows := dict_put ''beta'' [] (tt_rows two_tenants)\<rparr>))"
proof -
  have t: "request_tenant read_of_acme = Some ''acme''"
    by (simp add: request_tenant_def request_context_of_def read_of_acme_def obj_get_def dict_get_def tenant_of_def)
  have "share ''acme'' two_tenants = share ''acme'' (two_tenants\<lparr>tt_rows := dict_put ''beta'' [] (tt_rows two_tenants)\<rparr>)"
    by (simp add: share_def bucket_def counter_def)
  with t tenant_services_are_isolated[of read_of_acme demo_service_env "''startups''" "Some ''k''" "''/internal/startups/read''" two_tenants
      "two_tenants\<lparr>tt_rows := dict_put ''beta'' [] (tt_rows two_tenants)\<rparr>"]
  show ?thesis by simp
qed

section \<open>Imports\<close>

text \<open>Imports that run one after the other: clock, directory, context and source of each.\<close>

fun later_imports :: "(string \<Rightarrow> string) \<Rightarrow> (string \<times> (string \<Rightarrow> global_source option) \<times> s2_context \<times> string) list \<Rightarrow> s2_import_store \<Rightarrow> s2_import_store" where
  "later_imports digest [] s = s"
| "later_imports digest ((now, directory, c, r) # rest) s = later_imports digest rest (snd (import_startup digest now directory c r s))"

lemma import_keeps: "find_existing t k s = Some rec \<Longrightarrow> find_existing t k (snd (import_startup digest now directory c r s)) = Some rec"
  by (auto simp: import_startup_def write_import_def find_existing_def Let_def table_insert_def split: sum.split option.splits)

lemma later_keeps: "find_existing t k s = Some rec \<Longrightarrow> find_existing t k (later_imports digest rest s) = Some rec"
  by (induction digest rest s rule: later_imports.induct) (simp_all add: import_keeps)

lemma import_replays:
  "\<lbrakk>tenant_of c = Inr t; find_existing t (s2_operation_key digest t r) s = Some rec\<rbrakk> \<Longrightarrow> import_startup digest now directory c r s = (Inr (rec, True), s)"
  by (simp add: import_startup_def Let_def)


definition demo_source :: global_source where
  "demo_source = \<lparr>gs_record_ref = ''g1'', gs_display_name = ''Anvil'', gs_attributes = [(''industry'', ''tools'')]\<rparr>"

definition demo_context :: s2_context where
  "demo_context = \<lparr>sc_correlation_id = ''c1'', sc_principal_ref = ''ada'', sc_role = TENANT_AGENT, sc_tenant_context = Some ''acme'',
     sc_workspace_type = TENANT_WORKSPACE\<rparr>"

definition no_imports :: s2_import_store where
  "no_imports = \<lparr>is_startups = empty_table, is_lineage = empty_table, is_by_key = []\<rparr>"


section \<open>Connection grants\<close>

text \<open>Whether a document is a grant that carries a connection string.\<close>

definition carries_dsn :: "json \<Rightarrow> bool" where
  "carries_dsn v = (case v of JObj d \<Rightarrow> dict_get d ''dsn'' \<noteq> None | _ \<Rightarrow> False)"

lemma no_dsn: "\<not> carries_dsn (snd (as_response e))" "\<not> carries_dsn (resolution_json t)"
  by (simp_all add: carries_dsn_def as_response_def error_json_def resolution_json_def dict_get_def split: s2_error.split)

lemma lawful_allowlist:
  assumes "build_allowlist loads env = Inr allowlist" and "dict_get allowlist credential = Some who"
  shows "who \<in> set TENANT_RESIDENT_SERVICES \<and> who \<notin> set PERMANENTLY_EXCLUDED"
proof -
  from assms(1) have "list_all (\<lambda>(c, s). s \<notin> set PERMANENTLY_EXCLUDED \<and> s \<in> set TENANT_RESIDENT_SERVICES) allowlist"
    by (auto simp: build_allowlist_def grant_allowlist_def Let_def split: if_splits option.splits json.splits)
  with dict_get_mem[OF assms(2)] show ?thesis by (auto simp: list_all_iff)
qed

lemma resolved_target:
  assumes "resolve_target lookup secrets (Some t) w = (Inr x, w')"
  shows "\<exists>e dsn. fst (lookup t w) = Some e \<and> re_lifecycle_state e = ACTIVE
    \<and> secrets (re_association_store_ref e) (re_association_version e) = Some dsn \<and> dsn \<noteq> []
    \<and> x = \<lparr>rt_tenant_ref = re_tenant_ref e, rt_target_ref = ''ref:tenant/'' @ re_tenant_ref e @ ''/database'',
              rt_expected_schema_version = re_expected_schema_version e, rt_dsn = dsn\<rparr>"
  using assms by (auto simp: resolve_target_def split: if_splits prod.splits option.splits)

lemma bound_with_dsn:
  assumes "carries_dsn (snd (fst (bind_surface lookup secrets allowlist expiry service body w)))"
  shows "\<exists>credential t x w'. require_bearer service = Inr credential \<and> bind_request_of body = Some t \<and> dict_get allowlist credential \<noteq> None
    \<and> resolve_target lookup secrets (Some t) w = (Inr x, w')
    \<and> fst (bind_surface lookup secrets allowlist expiry service body w) = (200, grant_json x (expiry GRANT_TTL_SECONDS))"
proof -
  obtain credential where c: "require_bearer service = Inr credential"
    using assms by (cases "require_bearer service") (simp_all add: bind_surface_def no_dsn)
  obtain t where t: "bind_request_of body = Some t"
    using assms c by (cases "bind_request_of body") (simp_all add: bind_surface_def validated_def no_dsn)
  have allowed: "dict_get allowlist credential \<noteq> None"
    using assms c t by (cases "dict_get allowlist credential") (simp_all add: bind_surface_def validated_def no_dsn)
  obtain r w' where r: "resolve_target lookup secrets (Some t) w = (r, w')" by fastforce
  then obtain x where "r = Inr x"
    using assms c t allowed by (cases r) (simp_all add: bind_surface_def validated_def answered_def no_dsn)
  with c t allowed r show ?thesis by (auto simp: bind_surface_def validated_def answered_def)
qed

lemma resolves_without_dsn: "\<not> carries_dsn (snd (fst (resolve_surface lookup secrets service body w)))"
proof (cases "sbind (require_bearer service) (\<lambda>_. validated (routing_request_of body))")
  case (Inr c)
  then show ?thesis
    by (cases "resolve_target lookup secrets (sc_tenant_context c) w"; cases "fst (resolve_target lookup secrets (sc_tenant_context c) w)")
      (simp_all add: resolve_surface_def answered_def no_dsn)
qed (simp add: resolve_surface_def no_dsn)


definition demo_entry :: registry_entry where
  "demo_entry = \<lparr>re_tenant_ref = ''acme'', re_lifecycle_state = ACTIVE, re_expected_schema_version = ''7'',
     re_association_store_ref = ''vault/acme'', re_association_version = ''1''\<rparr>"

definition demo_grantees :: env where
  "demo_grantees = (\<lambda>n. if n = ''SP2_DATABASE_ROUTER_GRANTEES'' then Some ''x'' else None)"

definition demo_bind :: "(int \<times> json) \<times> unit" where
  "demo_bind = bind_surface (static_registry [(''acme'', demo_entry)]) (\<lambda>r v. Some ''dsn-of-acme'') [(''k'', ''startups'')] (\<lambda>n. ''soon'') (Some ''k'')
     (JObj [(''tenant_ref'', JStr ''acme'')]) ()"


end
