(* ===== verification/Spec2Isabelle.thy ===== *)
theory Spec2Isabelle
  imports CP_ComposeClaims DR_Claims DR_SessionClaims DR_StartupWire AR_CacheClaims LN_Claims IM_Claims ReadClaims AU_Claims S2_Claims
begin

text \<open>
  A verification development for the multi-tenant backend of SnackPortal
  (\<open>src/backend\<close>): the control plane that decides which tenant has which database and whether it may be
  used, the API gateway every request comes through, the auth router that decides who a request is and for which tenant it speaks, the database
  router that lends a connection to that tenant's database and no other, and the lineage service
  that keeps a tamper-evident record of imported data in it.

  \<^bold>\<open>How the parts interact.\<close> An operator onboards a tenant through the control plane: registry,
  provisioning and the verification gate take it to Ready, with evidence that its physical database
  is its own. A request enters through the API gateway, which recognizes the tenant carriers, has the
  bearer credential authenticated, classifies the path and addresses exactly one service. The
  credential is authenticated by the auth router, which reads tenant state, membership
  and role from the control plane's read API through a time-bounded cache. The resulting context
  (correlation, principal, active tenant) is all the database router looks at: it resolves the
  tenant's association through the same read API and its own cache, takes a connection from a
  bounded pool, checks that the connection is the tenant's, and hands it out as a routed session.
  Imports and the startup operations write through that session in one transaction; the lineage
  service appends its records through it and verifies the chain through a read-only session.

  \<^bold>\<open>How code becomes definitions.\<close> A method with side effects is a \<open>proc\<close>: a function from the state to
  a result or an exception and the state left behind (\<^verbatim>\<open>Prelude\<close>). Every raise, denial and early return
  is a branch. Dictionaries are association lists in insertion order. What the source does not
  contain is an argument: the database server and its driver, the HTTP framework, the secret
  provider, clocks and identifier sources, base64, JSON, the signature check and the keyed hash.
  Concurrency in the control plane is a list of writer steps interleaved before each compare-and-swap;
  operations of a pool are single steps under their lock.

  \<^bold>\<open>Theories and the code they model.\<close>
  \<^item> \<^verbatim>\<open>Prelude\<close>: procedures, their effects (\<open>keeps\<close>, \<open>triple\<close>, the locale \<open>effect\<close>), dictionaries, string
    functions of the Python library. \<^verbatim>\<open>Shared\<close>: decoded documents and cells,
    \<open>shared/context.py\<close>, \<open>shared/audit.py\<close>, \<open>shared/lineage.py\<close>, \<open>shared/session.py\<close>.
  \<^item> \<^verbatim>\<open>CP_Records\<close> (\<open>control_plane/records.py\<close>, \<open>events.py\<close>), \<^verbatim>\<open>CP_Store\<close> (\<open>in_memory_store.py\<close>, \<open>ports.py\<close>),
    \<^verbatim>\<open>CP_Distinctness\<close> (\<open>distinctness.py\<close>), \<^verbatim>\<open>CP_World\<close> (\<open>audit.py\<close>, the ports and the interleaved writers),
    \<^verbatim>\<open>CP_Registry\<close> (\<open>registry.py\<close>), \<^verbatim>\<open>CP_Provisioning\<close> and \<^verbatim>\<open>CP_GateSpec\<close> (\<open>provisioning.py\<close>, \<open>verification.py\<close>),
    \<^verbatim>\<open>CP_Onboarding\<close> (\<open>onboarding.py\<close>), \<^verbatim>\<open>CP_Recovery\<close> (\<open>recovery.py\<close>), \<^verbatim>\<open>CP_Lifecycle\<close> (\<open>lifecycle.py\<close>),
    \<^verbatim>\<open>CP_ReadApi\<close> (\<open>read_api.py\<close>, \<open>membership.py\<close>, \<open>directory.py\<close>, \<open>federation.py\<close>, \<open>schema_compat.py\<close>),
    \<^verbatim>\<open>CP_Memory\<close> (the in-memory providers), \<^verbatim>\<open>CP_Secrets\<close> (the environment secret stores), \<^verbatim>\<open>CP_System\<close> and
    \<^verbatim>\<open>CP_EndToEnd\<close> (runs of operations, onboarding from start to end), \<^verbatim>\<open>CP_Claims\<close>, \<^verbatim>\<open>CP_Compose\<close> (selectors,
    composed objects, posture guards and lazy Control-database evidence of \<open>control_plane/main.py\<close>), \<^verbatim>\<open>CP_ComposeClaims\<close>.
  \<^item> \<^verbatim>\<open>DR_Cache\<close> (\<open>database_router/models.py\<close>, \<open>disclosure.py\<close>, \<open>cache.py\<close>), \<^verbatim>\<open>DR_Pool\<close> (\<open>pool.py\<close>), \<^verbatim>\<open>DR_Router\<close>
    (\<open>resolver.py\<close>, \<open>router.py\<close>), \<^verbatim>\<open>DR_Dispatch\<close> (\<open>http_dispatch_api.py\<close>), \<^verbatim>\<open>DR_Session\<close> (\<open>session_provider.py\<close>),
    \<^verbatim>\<open>DR_Startup\<close> (\<open>tenant_startup_ops.py\<close>), \<^verbatim>\<open>DR_Claims\<close>, \<^verbatim>\<open>DR_SessionClaims\<close>, \<^verbatim>\<open>DR_StartupEdge\<close>
    (\<open>http_tenant_startup_api.py\<close>), \<^verbatim>\<open>DR_StartupWire\<close> (the gateway's client over it).
  \<^item> \<^verbatim>\<open>AR_Models\<close>, \<^verbatim>\<open>AR_Cache\<close> (\<open>auth_router/caching.py\<close>), \<^verbatim>\<open>AR_Auth\<close> (\<open>jwt_validation.py\<close>, \<open>tenant_context.py\<close>,
    \<open>authenticator.py\<close>), \<^verbatim>\<open>AR_Http\<close> (\<open>http_authenticate_api.py\<close>, \<open>main.py\<close>), \<^verbatim>\<open>AR_AuthFacts\<close>, \<^verbatim>\<open>AR_Claims\<close>,
    \<^verbatim>\<open>AR_CacheClaims\<close>.
  \<^item> \<^verbatim>\<open>LN_Chain\<close> (\<open>lineage_service/canonical.py\<close>, \<open>emit.py\<close>), \<^verbatim>\<open>LN_Read\<close> (\<open>verification.py\<close>, \<open>segmentation.py\<close>),
    \<^verbatim>\<open>LN_Query\<close> (\<open>query.py\<close>, \<open>search.py\<close>, \<open>graph.py\<close>, \<open>retention.py\<close>), \<^verbatim>\<open>LN_Facts\<close>, \<^verbatim>\<open>LN_Claims\<close>.
  \<^item> \<^verbatim>\<open>GW_Core\<close> (\<open>api_gateway/portal.py\<close>, \<open>models.py\<close>, \<open>carrier.py\<close>, \<open>dispatch.py\<close>, \<open>request_context.py\<close>),
    \<^verbatim>\<open>GW_Gateway\<close> (\<open>gateway.py\<close>, \<open>ports.py\<close>), \<^verbatim>\<open>GW_Clients\<close> (the HTTP clients of the gateway and the audit
    policies of \<open>main.py\<close>), \<^verbatim>\<open>GW_Facts\<close>, \<^verbatim>\<open>GW_Claims\<close>, \<^verbatim>\<open>GW_Edge\<close> (\<open>http_gateway_edge.py\<close>,
    \<open>readiness.py\<close>, \<open>shared/adapters/providers/fastapi_edge.py\<close>), \<^verbatim>\<open>GW_EdgeClaims\<close>,
    \<^verbatim>\<open>GW_Compose\<close> (selectors and wiring of \<open>api_gateway/main.py\<close>), \<^verbatim>\<open>GW_Stack\<close> (the gateway wired to the
    authenticate edge of the auth router), \<^verbatim>\<open>GW_StackClaims\<close>.
  \<^item> \<^verbatim>\<open>Wire\<close> (transports, the answers of an ingest edge, reference fields, a JSON codec that exists),
    \<^verbatim>\<open>Config\<close> (settings, \<open>urlsplit\<close>, \<open>quote\<close>, \<open>unquote\<close> and \<open>parse_qs\<close> of the Python library), \<^verbatim>\<open>AU_Ingest\<close> (the audit ingest edges of the control plane), \<^verbatim>\<open>AU_Clients\<close>
    (the durable audit clients and policies of router and import service), \<^verbatim>\<open>AU_Facts\<close>, \<^verbatim>\<open>AU_Claims\<close>.
  \<^item> \<^verbatim>\<open>CP_ReadEdge\<close> (\<open>http_read_api.py\<close>), \<^verbatim>\<open>ReadClients\<close>
    (the clients of that edge in the auth router and the database router), \<^verbatim>\<open>ReadClaims\<close>.
  \<^item> \<^verbatim>\<open>IM_Import\<close> (\<open>import_service/models.py\<close>, \<open>validation.py\<close>, \<open>service.py\<close>), \<^verbatim>\<open>IM_Claims\<close>.

  \<^item> The rebuilt services (\<open>snackportal2\<close>, fourteen FastAPI services that replace the edges above): \<^verbatim>\<open>S2_Types\<close> (\<open>shared/types.py\<close>,
    \<open>operations.py\<close>, \<open>errors.py\<close>, \<open>security.py\<close>, \<open>correlation.py\<close>), \<^verbatim>\<open>S2_Access\<close> (\<open>services/access_control\<close>), \<^verbatim>\<open>S2_Authn\<close>
    (\<open>services/authentication\<close>), \<^verbatim>\<open>S2_Routing\<close> (\<open>services/database_router\<close>), \<^verbatim>\<open>S2_Pipeline\<close>, \<^verbatim>\<open>S2_Routes\<close> and \<^verbatim>\<open>S2_Clients\<close>
    (\<open>services/bff\<close>), \<^verbatim>\<open>S2_ControlPlane\<close> (\<open>services/control_plane\<close>), \<^verbatim>\<open>S2_TenantData\<close> (\<open>shared/tenant_data.py\<close>, \<open>urls.py\<close>),
    \<^verbatim>\<open>S2_Services\<close> (\<open>services/startups\<close>, \<open>investors\<close>, \<open>deals\<close>), \<^verbatim>\<open>S2_Import\<close> (\<open>services/import_service\<close>, \<open>lineage\<close>), the
    shared lemmas \<^verbatim>\<open>S2_Facts\<close>, and \<^verbatim>\<open>S2_Claims\<close>.

  \<^bold>\<open>Interfaces.\<close> \<open>effect\<close>: what a reflexive, transitive effect gives every composition of procedures
  (interpreted for the disciplined control-plane effect, for the router's unaudited steps, for an
  observed part left unchanged and for no restriction at all). \<open>versioned_store\<close>: optimistic
  concurrency, provided by the in-memory store. \<open>evidence_ledger\<close>: one holder per database, provided by the
  in-memory ledger. \<open>guarded_store\<close>: the two environment secret stores. \<open>ttl_store\<close>: the view cache of the
  database router and the cache of the auth router. \<open>exclusive_pool\<close>: the connection pools. \<open>tenant_shares\<close>:
  procedures that read and write one tenant's share of a state, interpreted for the tables of the rebuilt services and for the
  import store.

  \<^bold>\<open>What the lemmas show.\<close> Control plane: Ready is only reached on complete, own, collision-free
  evidence and stays so under concurrent writers; every operation's outcome, state and audit trail;
  databases are only dropped where ownership is proven. Database router: a request is served for its
  own active tenant only, audited exactly once, and leaves no connection lent on any refusal; over
  the control plane's own read model it implements the disclosure standard. Session: identifiers
  cannot end their quotes, statements are parameterized, a failed update writes nothing. Auth router:
  nobody is let in without a valid token and a confirmed membership, refusals hide existence, every
  attempt is audited, cached answers are current. Lineage: emits keep the chain intact, verification
  ends and decides intactness, changes before the last record are noticed. Import: only whole batches are committed, and a
  finished import replays without writing. Gateway: no tenant but the authenticated one is addressed, every
  answer is backed by the events it should leave, and documents are handed out only after authentication;
  its HTTP edge passes on exposed requests only. Durable audit: what the router posts is recorded field
  for field, a confirmed event exactly once, and a lost denial event never turns into a fault. Composition: which
  modes build which control plane, what a mixed plane cannot do and what escapes its guard; a startup call of the gateway
  reaches the executor as it was made; behind the wired gateway a document needs a proven token and a confirmed membership.
  Read edge: what its clients read is what the control store holds, so a tenant's document leaves the deployment only for a
  registered member of a tenant stored as Ready. Rebuilt services: what Access Control decides, that the BFF reaches nothing on a
  refusal, that no service reads or writes another tenant's records, that an import copies once, and who can get a connection string.

  \<^bold>\<open>Bounds.\<close> Loops over lists are structural recursion. The two page loops of the lineage service may
  run forever on a session that keeps answering full pages; they are partial functions, and for a
  finite table they are proved to return. Characters are the first 256 code points, so \<open>lower\<close>,
  \<open>isdigit\<close> and UTF-8 lengths are those of Latin-1. Integers are unbounded, as in Python. Clock values of
  the caches are integers; token times are exact rationals, infinities or NaN, without rounding.

  \<^bold>\<open>Not modelled.\<close> The PostgreSQL adapters (their behaviour is the server's; the statements the routed
  session sends are modelled), HTTP transport and server start-up, the selectors of the router,
  auth router and import service, the PostgreSQL repositories of the rebuilt
  services and their sharing, contacts, AI and audit services, deployment scripts, migrations, tools and tests.
\<close>

end
